(* ===== verification/Go_Prelude.thy ===== *)
theory Go_Prelude
  imports Main "HOL-Library.Sublist" "HOL-Library.Signed_Division"
begin

section \<open>Go values and library functions shared by every component\<close>

text \<open>
  What the components of \<open>backend/\<close> share: Go errors as values, the shape of a validator
  (\<open>error option\<close>, where \<open>None\<close> is Go's \<open>nil\<close>), byte strings with the functions of
  package \<open>strings\<close> the sources call, and 64-bit \<open>int\<close> arithmetic.
  A Go string is a sequence of bytes; Isabelle's \<open>string\<close> is a list of 8-bit characters,
  so \<open>length\<close> is Go's \<open>len\<close>.
\<close>

named_theorems go_defs \<open>definitions unfolded when a validator or a handler is analysed\<close>
named_theorems go_consts \<open>string and numeric constants of the sources\<close>

subsection \<open>Errors\<close>

text \<open>
  \<open>Errorf f args\<close> is \<open>fmt.Errorf(f, args...)\<close>, kept as its format and arguments, and
  \<open>Wrapf f args e\<close> is an error that wraps \<open>e\<close> with \<open>%w\<close>. The remaining constructors are the
  error types that callers of the job store distinguish with \<open>errors.As\<close> and \<open>errors.Is\<close>.
\<close>

datatype arg = ArgS string | ArgI int

datatype api_reason = ReasonNotFound | ReasonAlreadyExists | ReasonConflict | ReasonOther string \<comment> \<open>of a Kubernetes status error\<close>

datatype error =
    Errorf string "arg list"
  | Wrapf string "arg list" error
  | GPUQuotaExceededError int int int \<comment> \<open>quota, used, requested\<close>
  | IdempotencyConflictError string
  | ErrDatasetSnapshotConflict
  | StatusError api_reason
  | ManagedCleanupVerificationError string
  | ContextError \<comment> \<open>\<open>ctx.Err()\<close>\<close>
  | JoinedErrors error error \<comment> \<open>\<open>errors.Join\<close>\<close>
  | RuntimePanic string \<comment> \<open>not an error value: the Go program panics\<close>

type_synonym 'a result = "error + 'a"

text \<open>
  A Go validator is a sequence of checks with early returns. \<open>first_error\<close> returns the first
  failing check of a list; \<open>check\<close> is one \<open>if cond { return err }\<close>.
\<close>

definition check :: "bool \<Rightarrow> error \<Rightarrow> error option" where
  "check b e = (if b then Some e else None)"

fun first_error :: "error option list \<Rightarrow> error option" where
  "first_error [] = None"
| "first_error (Some e # es) = Some e"
| "first_error (None # es) = first_error es"

abbreviation wrap :: "string \<Rightarrow> arg list \<Rightarrow> error option \<Rightarrow> error option" where
  "wrap f args e \<equiv> map_option (Wrapf f args) e"

definition result_error :: "'a result \<Rightarrow> error option" where
  "result_error r = (case r of Inl e \<Rightarrow> Some e | Inr _ \<Rightarrow> None)"

lemma check_None [simp]: "check b e = None \<longleftrightarrow> \<not> b"
  by (simp add: check_def)

lemma check_True [simp]: "check True e = Some e"
  and check_False [simp]: "check False e = None"
  by (simp_all add: check_def)

lemma first_error_Cons: "first_error (e # es) = (case e of Some x \<Rightarrow> Some x | None \<Rightarrow> first_error es)"
  by (cases e) simp_all

lemma first_error_None [simp]: "first_error es = None \<longleftrightarrow> (\<forall>e \<in> set es. e = None)"
  by (induction es rule: first_error.induct) auto

lemma first_error_append:
  "first_error (es @ fs) = (case first_error es of Some e \<Rightarrow> Some e | None \<Rightarrow> first_error fs)"
  by (induction es rule: first_error.induct) auto

lemma result_error_simps [simp]:
  "result_error (Inl e) = Some e" "result_error (Inr x) = None"
  by (simp_all add: result_error_def)

lemma result_error_None: "result_error r = None \<longleftrightarrow> (\<exists>x. r = Inr x)"
  by (cases r) simp_all

subsection \<open>Sixty-four bit integers\<close>

text \<open>
  \<open>int\<close> and \<open>int64\<close> of Go wrap around. Values are kept as mathematical integers and each
  operation whose result can leave the range is written with \<open>int64\<close>, the signed
  wrap-around; \<open>in_int64\<close> is the range. Division of Go truncates towards zero (\<open>sdiv\<close>).
\<close>

definition int64 :: "int \<Rightarrow> int" where
  "int64 x = signed_take_bit 63 x"

definition in_int64 :: "int \<Rightarrow> bool" where
  "in_int64 x \<longleftrightarrow> - (2 ^ 63) \<le> x \<and> x < 2 ^ 63"

definition MaxInt64 :: int where [go_consts]:
  "MaxInt64 = 9223372036854775807"

lemma int64_exact: "in_int64 x \<Longrightarrow> int64 x = x"
  by (simp add: int64_def in_int64_def signed_take_bit_int_eq_self)

lemma in_int64_int64 [simp]: "in_int64 (int64 x)"
  using signed_take_bit_int_greater_eq_minus_exp [of 63 x] signed_take_bit_int_less_exp [of 63 x]
  by (simp add: in_int64_def int64_def)

lemma in_int64_le: "0 \<le> x \<Longrightarrow> x \<le> MaxInt64 \<Longrightarrow> in_int64 x"
  by (simp add: in_int64_def MaxInt64_def)

lemma sdiv_nonneg: "0 \<le> a \<Longrightarrow> 0 \<le> b \<Longrightarrow> a sdiv b = (a div b :: int)"
  by (cases "a = 0"; cases "b = 0") (simp_all add: signed_divide_int_def)

subsection \<open>Package strings\<close>

abbreviation nl :: char where "nl \<equiv> CHR 0x0A"
abbreviation cr :: char where "cr \<equiv> CHR 0x0D"
abbreviation tab :: char where "tab \<equiv> CHR 0x09"
abbreviation slash :: char where "slash \<equiv> CHR ''/''"
abbreviation backslash :: char where "backslash \<equiv> CHR 0x5C"

definition has_prefix :: "string \<Rightarrow> string \<Rightarrow> bool" where \<comment> \<open>\<open>strings.HasPrefix(s, p)\<close>\<close>
  "has_prefix s p = (take (length p) s = p)"

definition has_suffix :: "string \<Rightarrow> string \<Rightarrow> bool" where \<comment> \<open>\<open>strings.HasSuffix(s, p)\<close>\<close>
  "has_suffix s p = has_prefix (rev s) (rev p)"

definition trim_prefix :: "string \<Rightarrow> string \<Rightarrow> string" where
  "trim_prefix s p = (if has_prefix s p then drop (length p) s else s)"

definition trim_suffix :: "string \<Rightarrow> string \<Rightarrow> string" where
  "trim_suffix s p = (if has_suffix s p then take (length s - length p) s else s)"

fun contains :: "string \<Rightarrow> string \<Rightarrow> bool" where \<comment> \<open>\<open>strings.Contains(s, p)\<close>\<close>
  "contains [] p = (p = [])"
| "contains (c # s) p = (has_prefix (c # s) p \<or> contains s p)"

definition contains_any :: "string \<Rightarrow> string \<Rightarrow> bool" where \<comment> \<open>ASCII \<open>chars\<close> only\<close>
  "contains_any s chars = list_ex (\<lambda>c. c \<in> set chars) s"

text \<open>\<open>strings.Split(s, c)\<close> for a one-byte separator; the result is never empty.\<close>

fun split :: "char \<Rightarrow> string \<Rightarrow> string list" where
  "split c [] = [[]]"
| "split c (x # xs) =
     (if x = c then [] # split c xs
      else (case split c xs of [] \<Rightarrow> [[x]] | y # ys \<Rightarrow> (x # y) # ys))"

fun join :: "string \<Rightarrow> string list \<Rightarrow> string" where \<comment> \<open>\<open>strings.Join\<close>\<close>
  "join sep [] = []"
| "join sep [x] = x"
| "join sep (x # y # ys) = x @ sep @ join sep (y # ys)"

text \<open>
  \<open>strings.TrimSpace\<close> removes the code points of \<open>unicode.IsSpace\<close>. On bytes these are the
  ASCII ones and the following UTF-8 encodings (U+0085, U+00A0, U+1680, U+2000 to U+200A,
  U+2028, U+2029, U+202F, U+205F, U+3000); none is a proper prefix or suffix of another, so
  stripping encodings at either end is what decoding runes there does.
\<close>

definition space_encodings :: "string list" where
  "space_encodings =
     [[CHR 0x09], [CHR 0x0A], [CHR 0x0B], [CHR 0x0C], [CHR 0x0D], [CHR 0x20],
      [CHR 0xC2, CHR 0x85], [CHR 0xC2, CHR 0xA0], [CHR 0xE1, CHR 0x9A, CHR 0x80],
      [CHR 0xE2, CHR 0x80, CHR 0x80], [CHR 0xE2, CHR 0x80, CHR 0x81], [CHR 0xE2, CHR 0x80, CHR 0x82],
      [CHR 0xE2, CHR 0x80, CHR 0x83], [CHR 0xE2, CHR 0x80, CHR 0x84], [CHR 0xE2, CHR 0x80, CHR 0x85],
      [CHR 0xE2, CHR 0x80, CHR 0x86], [CHR 0xE2, CHR 0x80, CHR 0x87], [CHR 0xE2, CHR 0x80, CHR 0x88],
      [CHR 0xE2, CHR 0x80, CHR 0x89], [CHR 0xE2, CHR 0x80, CHR 0x8A], [CHR 0xE2, CHR 0x80, CHR 0xA8],
      [CHR 0xE2, CHR 0x80, CHR 0xA9], [CHR 0xE2, CHR 0x80, CHR 0xAF], [CHR 0xE2, CHR 0x81, CHR 0x9F],
      [CHR 0xE3, CHR 0x80, CHR 0x80]]"

definition rev_space_encodings :: "string list" where
  "rev_space_encodings = map rev space_encodings"

function strip :: "string list \<Rightarrow> string \<Rightarrow> string" where
  "strip encs s =
     (case find (\<lambda>e. e \<noteq> [] \<and> has_prefix s e) encs of
        None \<Rightarrow> s | Some e \<Rightarrow> strip encs (drop (length e) s))"
  by pat_completeness auto
termination
proof (relation "measure (\<lambda>(encs, s). length s)")
  fix encs :: "string list" and s e :: string
  assume "find (\<lambda>e. e \<noteq> [] \<and> has_prefix s e) encs = Some e"
  then have "e \<noteq> []" and "has_prefix s e" by (auto simp: find_Some_iff)
  then have "length e \<le> length s" "0 < length e"
    by (auto simp: has_prefix_def min_def dest!: arg_cong [where f = length] split: if_splits)
  then show "((encs, drop (length e) s), encs, s) \<in> measure (\<lambda>(encs, s). length s)"
    by (simp only: in_measure length_drop split)
qed simp

declare strip.simps [simp del]

definition trim_left :: "string \<Rightarrow> string" where
  "trim_left s = strip space_encodings s"

definition trim_right :: "string \<Rightarrow> string" where
  "trim_right s = rev (strip rev_space_encodings (rev s))"

definition trim_space :: "string \<Rightarrow> string" where \<comment> \<open>\<open>strings.TrimSpace\<close>\<close>
  "trim_space s = trim_right (trim_left s)"

definition blank :: "string \<Rightarrow> bool" where \<comment> \<open>\<open>strings.TrimSpace(s) == ""\<close>\<close>
  "blank s = (trim_space s = [])"

text \<open>
  \<open>strings.ToLower\<close> and \<open>strings.ToUpper\<close>: the ASCII letters, and the four code points beyond
  ASCII whose simple case mapping is an ASCII letter (U+0130, U+212A; U+0131, U+017F). Other
  runes beyond ASCII stay beyond ASCII under both; the sources compare the results with
  ASCII constants only, so they are left as they are.
\<close>

abbreviation lower_letters :: string where "lower_letters \<equiv> ''abcdefghijklmnopqrstuvwxyz''"
abbreviation upper_letters :: string where "upper_letters \<equiv> ''ABCDEFGHIJKLMNOPQRSTUVWXYZ''"

definition lower_char :: "char \<Rightarrow> char" where
  "lower_char c = (case map_of (zip upper_letters lower_letters) c of Some d \<Rightarrow> d | None \<Rightarrow> c)"

definition upper_char :: "char \<Rightarrow> char" where
  "upper_char c = (case map_of (zip lower_letters upper_letters) c of Some d \<Rightarrow> d | None \<Rightarrow> c)"

fun to_lower :: "string \<Rightarrow> string" where
  "to_lower [] = []"
| "to_lower (c # s) =
     (if c = CHR 0xC4 \<and> has_prefix s [CHR 0xB0] then CHR ''i'' # to_lower (drop 1 s)
      else if c = CHR 0xE2 \<and> has_prefix s [CHR 0x84, CHR 0xAA] then CHR ''k'' # to_lower (drop 2 s)
      else lower_char c # to_lower s)"

fun to_upper :: "string \<Rightarrow> string" where
  "to_upper [] = []"
| "to_upper (c # s) =
     (if c = CHR 0xC4 \<and> has_prefix s [CHR 0xB1] then CHR ''I'' # to_upper (drop 1 s)
      else if c = CHR 0xC5 \<and> has_prefix s [CHR 0xBF] then CHR ''S'' # to_upper (drop 1 s)
      else upper_char c # to_upper s)"

text \<open>
  \<open>strings.IndexFunc(s, unicode.IsControl) >= 0\<close>: C0 controls, DEL, and U+0080 to U+009F,
  which UTF-8 writes as \<open>C2 80\<close> to \<open>C2 9F\<close>.
\<close>

fun has_control :: "string \<Rightarrow> bool" where
  "has_control [] = False"
| "has_control (c # s) =
     ((of_char c :: nat) < 32 \<or> c = CHR 0x7F \<or>
      (c = CHR 0xC2 \<and> (case s of [] \<Rightarrow> False | d # _ \<Rightarrow> 128 \<le> (of_char d :: nat) \<and> (of_char d :: nat) \<le> 159)) \<or>
      has_control s)"

subsubsection \<open>Laws of the string functions\<close>

lemma has_prefix_iff: "has_prefix s p \<longleftrightarrow> (\<exists>t. s = p @ t)"
  unfolding has_prefix_def by (metis append_eq_conv_conj append_take_drop_id)

lemma has_prefix_append [simp]: "has_prefix (p @ t) p"
  by (auto simp: has_prefix_iff)

lemma has_suffix_iff: "has_suffix s p \<longleftrightarrow> (\<exists>t. s = t @ p)"
  unfolding has_suffix_def has_prefix_iff by (metis rev_append rev_rev_ident)

lemma trim_prefix_append [simp]: "trim_prefix (p @ t) p = t"
  by (simp add: trim_prefix_def)

lemma trim_suffix_append [simp]: "trim_suffix (t @ p) p = t"
  by (auto simp: trim_suffix_def has_suffix_iff)

lemma split_ne [simp]: "split c s \<noteq> []"
  by (cases s) (auto split: list.splits)

lemma split_sep_free: "x \<in> set (split c s) \<Longrightarrow> c \<notin> set x"
  by (induction s arbitrary: x) (auto split: if_splits list.splits)

lemma join_split: "join [c] (split c s) = s"
proof (induction s)
  case (Cons x xs)
  then show ?case
    by (cases "split c xs"; cases "tl (split c xs)") (auto split: list.splits)
qed simp

lemma split_no_sep: "c \<notin> set s \<Longrightarrow> split c s = [s]"
  by (induction s) auto

lemma split_append_sep: "split c (s @ c # t) = split c s @ split c t"
  by (induction s) (auto split: list.splits)

lemma split_join: "(\<And>x. x \<in> set xs \<Longrightarrow> c \<notin> set x) \<Longrightarrow> xs \<noteq> [] \<Longrightarrow> split c (join [c] xs) = xs"
  by (induction "[c]" xs rule: join.induct) (auto simp: split_no_sep split_append_sep)

lemma set_join: "set (join [c] xs) \<subseteq> insert c (\<Union> (set ` set xs))"
  by (induction "[c]" xs rule: join.induct) auto

lemma blank_Nil [simp]: "blank []"
  by (simp add: blank_def trim_space_def trim_left_def trim_right_def strip.simps
      space_encodings_def rev_space_encodings_def has_prefix_def)

lemma contains_char: "contains s [c] \<longleftrightarrow> c \<in> set s"
  by (induction s) (auto simp: has_prefix_def)

lemma strip_suffix: "\<exists>u. s = u @ strip encs s"
proof (induction encs s rule: strip.induct)
  case (1 encs s)
  show ?case
  proof (cases "find (\<lambda>e. e \<noteq> [] \<and> has_prefix s e) encs")
    case None
    then show ?thesis by (simp add: strip.simps)
  next
    case (Some e)
    from 1 [OF this] obtain u where "drop (length e) s = u @ strip encs (drop (length e) s)" by blast
    then have "s = (take (length e) s @ u) @ strip encs (drop (length e) s)"
      by (metis append.assoc append_take_drop_id)
    moreover have "strip encs s = strip encs (drop (length e) s)" using Some by (subst strip.simps) simp
    ultimately show ?thesis by metis
  qed
qed

lemma trim_space_infix: "\<exists>u v. s = u @ trim_space s @ v"
proof -
  obtain u where u: "s = u @ trim_left s" using strip_suffix unfolding trim_left_def by blast
  obtain v where "rev (trim_left s) = v @ strip rev_space_encodings (rev (trim_left s))" using strip_suffix by blast
  then have "trim_left s = trim_space s @ rev v"
    unfolding trim_space_def trim_right_def by (metis rev_append rev_rev_ident)
  with u show ?thesis by metis
qed

lemma length_trim_space: "length (trim_space s) \<le> length s"
proof -
  obtain u v where "s = u @ trim_space s @ v" using trim_space_infix by blast
  then have "length s = length u + length (trim_space s) + length v" by (metis length_append add.assoc)
  then show ?thesis by simp
qed

lemma trim_space_eq: "length (trim_space s) = length s \<Longrightarrow> trim_space s = s"
proof -
  assume len: "length (trim_space s) = length s"
  obtain u v where uv: "s = u @ trim_space s @ v" using trim_space_infix by blast
  then have "length s = length u + length (trim_space s) + length v" by (metis length_append add.assoc)
  with len have "u = []" "v = []" by auto
  with uv show ?thesis by simp
qed

lemma set_trim_space: "set (trim_space s) \<subseteq> set s"
proof -
  obtain u v where "s = u @ trim_space s @ v" using trim_space_infix by blast
  then show ?thesis by (metis set_append sup.cobounded1 sup.cobounded2 sup.coboundedI2)
qed

lemma strip_done: "find (\<lambda>e. e \<noteq> [] \<and> has_prefix (strip encs s) e) encs = None"
proof (induction encs s rule: strip.induct)
  case (1 encs s)
  show ?case
  proof (cases "find (\<lambda>e. e \<noteq> [] \<and> has_prefix s e) encs")
    case None
    then have "strip encs s = s" by (subst strip.simps) simp
    with None show ?thesis by simp
  next
    case (Some e)
    then have "strip encs s = strip encs (drop (length e) s)" by (subst strip.simps) simp
    with 1 [OF Some] show ?thesis by simp
  qed
qed

lemma strip_id: "find (\<lambda>e. e \<noteq> [] \<and> has_prefix s e) encs = None \<Longrightarrow> strip encs s = s"
  by (subst strip.simps) simp

lemma strip_strip [simp]: "strip encs (strip encs s) = strip encs s"
  by (rule strip_id) (rule strip_done)

lemma has_prefix_append_left: "has_prefix t e \<Longrightarrow> has_prefix (t @ v) e"
  by (auto simp: has_prefix_iff)

lemma trim_left_trim_right: "trim_left s = s \<Longrightarrow> trim_left (trim_right s) = trim_right s"
proof -
  assume s: "trim_left s = s"
  obtain v where v: "s = trim_right s @ v"
    using strip_suffix [of "rev s" rev_space_encodings] unfolding trim_right_def by (metis rev_append rev_rev_ident)
  have "find (\<lambda>e. e \<noteq> [] \<and> has_prefix s e) space_encodings = None"
    using strip_done [of space_encodings s] s by (simp add: trim_left_def)
  then have "find (\<lambda>e. e \<noteq> [] \<and> has_prefix (trim_right s) e) space_encodings = None"
    unfolding find_None_iff using has_prefix_append_left v by metis
  then show ?thesis unfolding trim_left_def by (rule strip_id)
qed

lemma trim_space_idem [simp]: "trim_space (trim_space s) = trim_space s"
proof -
  have "trim_left (trim_space s) = trim_space s"
    unfolding trim_space_def by (rule trim_left_trim_right) (simp add: trim_left_def)
  moreover have "trim_right (trim_space s) = trim_space s"
    by (simp add: trim_space_def trim_right_def)
  ultimately show ?thesis by (simp add: trim_space_def)
qed

lemma blank_trim_space [simp]: "blank (trim_space s) = blank s"
  by (simp add: blank_def)

lemma find_Some_in: "find P xs = Some x \<Longrightarrow> x \<in> set xs \<and> P x"
  by (auto simp: find_Some_iff)

subsection \<open>Sequencing of results\<close>

definition and_then :: "'a result \<Rightarrow> ('a \<Rightarrow> 'b result) \<Rightarrow> 'b result" where
  "and_then r k = (case r of Inl e \<Rightarrow> Inl e | Inr x \<Rightarrow> k x)"

definition or_fail :: "error option \<Rightarrow> 'a result \<Rightarrow> 'a result" where
  "or_fail e r = (case e of Some x \<Rightarrow> Inl x | None \<Rightarrow> r)"

definition require :: "'a option \<Rightarrow> error \<Rightarrow> ('a \<Rightarrow> 'b result) \<Rightarrow> 'b result" where
  "require x e k = (case x of None \<Rightarrow> Inl e | Some y \<Rightarrow> k y)"

lemma and_then_Inr [simp]: "and_then r k = Inr y \<longleftrightarrow> (\<exists>x. r = Inr x \<and> k x = Inr y)"
  by (auto simp: and_then_def split: sum.splits)

lemma map_sum_Inr: "map_sum f g r = Inr y \<longleftrightarrow> (\<exists>x. r = Inr x \<and> y = g x)"
  by (cases r) auto

lemma or_fail_Inr [simp]: "or_fail e r = Inr y \<longleftrightarrow> e = None \<and> r = Inr y"
  by (auto simp: or_fail_def split: option.splits)

lemma require_Inr [simp]: "require x e k = Inr y \<longleftrightarrow> (\<exists>z. x = Some z \<and> k z = Inr y)"
  by (auto simp: require_def split: option.splits)

text \<open>Wrapping an error, where a panic is not an error value and passes through.\<close>

fun wrap_error :: "string \<Rightarrow> arg list \<Rightarrow> error \<Rightarrow> error" where
  "wrap_error f args (RuntimePanic m) = RuntimePanic m"
| "wrap_error f args e = Wrapf f args e"

end
