(* ===== verification/Job_State.thy ===== *)
theory Job_State
  imports Go_Prelude
begin

section \<open>Job states\<close>

text \<open>
  The state enumerations of \<open>backend/domain/job.go\<close> and \<open>backend/domain/events.go\<close>. The Go types
  are strings; \<open>StateOther\<close> and \<open>DesiredOther\<close> stand for the strings that are not one of the
  declared constants, the empty string among them.
\<close>

datatype State =
    StateSubmitted | StateValidating | StateQueued | StateAdmitted | StateProvisioning
  | StateRunning | StateRecovering | StateSucceeded | StateFailed | StateCanceling
  | StateCanceled | StateTimedOut | StateUnknown | StateDeleting
  | StateOther string

datatype DesiredState = DesiredActive | DesiredCanceled | DesiredOther string

fun state_string :: "State \<Rightarrow> string" where
  "state_string StateSubmitted = ''SUBMITTED''"
| "state_string StateValidating = ''VALIDATING''"
| "state_string StateQueued = ''QUEUED''"
| "state_string StateAdmitted = ''ADMITTED''"
| "state_string StateProvisioning = ''PROVISIONING''"
| "state_string StateRunning = ''RUNNING''"
| "state_string StateRecovering = ''RECOVERING''"
| "state_string StateSucceeded = ''SUCCEEDED''"
| "state_string StateFailed = ''FAILED''"
| "state_string StateCanceling = ''CANCELING''"
| "state_string StateCanceled = ''CANCELED''"
| "state_string StateTimedOut = ''TIMED_OUT''"
| "state_string StateUnknown = ''UNKNOWN''"
| "state_string StateDeleting = ''DELETING''"
| "state_string (StateOther s) = s"

text \<open>\<open>CanTransition\<close>, with the rows of its \<open>transitions\<close> map in source order.\<close>

fun transitions :: "State \<Rightarrow> State list" where
  "transitions StateSubmitted = [StateValidating, StateQueued, StateProvisioning, StateCanceling]"
| "transitions StateValidating = [StateQueued, StateFailed, StateCanceling]"
| "transitions StateQueued = [StateAdmitted, StateFailed, StateCanceling, StateTimedOut]"
| "transitions StateAdmitted = [StateProvisioning, StateFailed, StateCanceling, StateTimedOut]"
| "transitions StateProvisioning = [StateRunning, StateFailed, StateCanceling, StateDeleting, StateTimedOut]"
| "transitions StateRunning = [StateRecovering, StateSucceeded, StateFailed, StateCanceling, StateCanceled, StateTimedOut, StateUnknown]"
| "transitions StateRecovering = [StateRunning, StateFailed, StateCanceled, StateTimedOut]"
| "transitions StateCanceling = [StateCanceled, StateFailed, StateDeleting]"
| "transitions StateUnknown = [StateQueued, StateProvisioning, StateRunning, StateSucceeded, StateFailed, StateCanceled]"
| "transitions StateDeleting = [StateCanceled, StateSucceeded, StateFailed]"
| "transitions _ = []"

definition CanTransition :: "State \<Rightarrow> State \<Rightarrow> bool" where
  "CanTransition from to \<longleftrightarrow> from = to \<or> to \<in> set (transitions from)"

text \<open>\<open>terminalStates\<close> and \<open>isTerminalState\<close> of \<open>backend/repositories/jobs.go\<close>.\<close>

definition terminalStates :: "State list" where
  "terminalStates = [StateSucceeded, StateFailed, StateCanceled, StateTimedOut]"

definition isTerminalState :: "State \<Rightarrow> bool" where
  "isTerminalState s \<longleftrightarrow> s \<in> set terminalStates"

lemma isTerminalState_iff [simp]:
  "isTerminalState s \<longleftrightarrow> s = StateSucceeded \<or> s = StateFailed \<or> s = StateCanceled \<or> s = StateTimedOut"
  by (simp add: isTerminalState_def terminalStates_def)

text \<open>The declared states.\<close>

fun known_state :: "State \<Rightarrow> bool" where
  "known_state (StateOther _) = False"
| "known_state _ = True"

text \<open>
  \<open>managedAttemptReservableState\<close> of \<open>backend/domain/training_job.go\<close>: the states in which an
  attempt may still be created.
\<close>

fun managedAttemptReservableState :: "State \<Rightarrow> bool" where
  "managedAttemptReservableState s \<longleftrightarrow>
     s \<in> {StateSubmitted, StateValidating, StateQueued, StateAdmitted, StateProvisioning, StateRunning,
          StateRecovering, StateUnknown}"

lemma reservable_not_terminal: "managedAttemptReservableState s \<Longrightarrow> \<not> isTerminalState s"
  by auto

subsection \<open>The transition graph\<close>

lemma transitions_failed: "s \<in> {StateValidating, StateQueued, StateAdmitted, StateProvisioning, StateRunning,
   StateRecovering, StateCanceling, StateUnknown, StateDeleting} \<Longrightarrow> CanTransition s StateFailed"
  by (auto simp: CanTransition_def)

text \<open>
  In the declared transition graph the four terminal states have no way out, every declared
  state reaches a terminal state in at most two steps, and a recovering job cannot succeed without
  running again.
\<close>

theorem CanTransition_terminal:
  "(isTerminalState s \<longrightarrow> (\<forall>t. CanTransition s t \<longleftrightarrow> t = s)) \<and>
   (known_state s \<longrightarrow> (\<exists>t u. CanTransition s t \<and> CanTransition t u \<and> isTerminalState u)) \<and>
   \<not> CanTransition StateRecovering StateSucceeded"
proof (intro conjI impI)
  show "\<exists>t u. CanTransition s t \<and> CanTransition t u \<and> isTerminalState u" if known: "known_state s"
  proof -
    consider "s = StateSubmitted" | "isTerminalState s" | "CanTransition s StateFailed"
      using known transitions_failed [of s] by (cases s) auto
    then show ?thesis
    proof cases
      case 1
      have "CanTransition StateSubmitted StateQueued" "CanTransition StateQueued StateFailed"
        by (simp_all add: CanTransition_def)
      with 1 show ?thesis by (metis isTerminalState_iff)
    qed (metis CanTransition_def isTerminalState_iff)+
  qed
qed (auto simp: CanTransition_def)

end
