(* ===== verification/Resource_Limits.thy ===== *)
theory Resource_Limits
  imports Go_Prelude
begin

section \<open>Job size limits and execution profiles\<close>

text \<open>
  \<open>backend/domain/resource_limits.go\<close> (the process-wide ceilings, whose mutex-protected variable
  is passed and returned as a value: every operation holds the lock for all it does) and
  \<open>backend/domain/execution_profile.go\<close>. Platform \<open>int\<close> is 64 bits wide.
\<close>

record Resources =
  res_WorkerReplicas :: int
  res_GPUsPerWorker :: int
  res_CPUPerWorker :: int
  res_MemoryPerWorker :: string

record ResourceLimits =
  lim_MaxWorkerReplicas :: int
  lim_MaxGPUsPerWorker :: int
  lim_MaxTotalGPUs :: int

definition defaultMaxWorkerReplicas :: int where [go_consts]: "defaultMaxWorkerReplicas = 3"
definition defaultMaxGPUsPerWorker :: int where [go_consts]: "defaultMaxGPUsPerWorker = 8"
definition defaultMaxTotalGPUs :: int where [go_consts]: "defaultMaxTotalGPUs = 24"

definition initialLimits :: ResourceLimits where
  "initialLimits = \<lparr>lim_MaxWorkerReplicas = defaultMaxWorkerReplicas, lim_MaxGPUsPerWorker = defaultMaxGPUsPerWorker,
     lim_MaxTotalGPUs = defaultMaxTotalGPUs\<rparr>"

definition positiveOr :: "int \<Rightarrow> int \<Rightarrow> int" where
  "positiveOr v fallback = (if v \<le> 0 then fallback else v)"

definition SetResourceLimits :: "ResourceLimits \<Rightarrow> ResourceLimits" where \<comment> \<open>the new \<open>currentLimits\<close>\<close>
  "SetResourceLimits limits = \<lparr>
     lim_MaxWorkerReplicas = positiveOr (lim_MaxWorkerReplicas limits) defaultMaxWorkerReplicas,
     lim_MaxGPUsPerWorker = positiveOr (lim_MaxGPUsPerWorker limits) defaultMaxGPUsPerWorker,
     lim_MaxTotalGPUs = positiveOr (lim_MaxTotalGPUs limits) defaultMaxTotalGPUs\<rparr>"

text \<open>The observation and the current limits give the error, if any, and the new limits.\<close>

definition UpdateResourceLimitsFromCapacity ::
    "int \<Rightarrow> int \<Rightarrow> int \<Rightarrow> ResourceLimits \<Rightarrow> error option \<times> ResourceLimits" where
  "UpdateResourceLimitsFromCapacity readyNodes guaranteedGPUsPerWorker totalGPUs current =
     (if readyNodes = 0 \<and> guaranteedGPUsPerWorker = 0 \<and> totalGPUs = 0 then
        (None, \<lparr>lim_MaxWorkerReplicas = lim_MaxWorkerReplicas current,
                lim_MaxGPUsPerWorker = lim_MaxGPUsPerWorker current, lim_MaxTotalGPUs = 0\<rparr>)
      else if readyNodes \<le> 0 then
        (Some (Errorf ''observed training capacity must include at least one Ready node'' []), current)
      else if guaranteedGPUsPerWorker \<le> 0 then
        (Some (Errorf ''observed training capacity must include GPUs on at least one node'' []), current)
      else if totalGPUs \<le> 0 then
        (Some (Errorf ''observed training capacity must include at least one GPU'' []), current)
      else if readyNodes > totalGPUs sdiv guaranteedGPUsPerWorker then
        (Some (Errorf ''observed total GPUs cannot cover the guaranteed worker shape'' []), current)
      else
        let maxGPUsPerWorker = int64 guaranteedGPUsPerWorker; maxTotalGPUs = int64 totalGPUs in
        if maxGPUsPerWorker \<noteq> guaranteedGPUsPerWorker \<or> maxTotalGPUs \<noteq> totalGPUs then
          (Some (Errorf ''observed GPU capacity exceeds supported integer limits'' []), current)
        else (None, \<lparr>lim_MaxWorkerReplicas = readyNodes, lim_MaxGPUsPerWorker = maxGPUsPerWorker,
                      lim_MaxTotalGPUs = maxTotalGPUs\<rparr>))"

subsection \<open>Execution profiles\<close>

definition ExecutionModeLegacy :: string where [go_consts]: "ExecutionModeLegacy = ''legacy''"
definition ExecutionModeSingleGPU :: string where [go_consts]: "ExecutionModeSingleGPU = ''single_gpu''"
definition ExecutionModeTorchrun :: string where [go_consts]: "ExecutionModeTorchrun = ''torchrun''"
definition ExecutionModeRayTrain :: string where [go_consts]: "ExecutionModeRayTrain = ''ray_train''"

record ExecutionProfile =
  exec_Mode :: string

definition ResolvedMode :: "ExecutionProfile \<Rightarrow> string" where
  "ResolvedMode profile = (if exec_Mode profile = [] then ExecutionModeLegacy else exec_Mode profile)"

definition ExecutionProfile_Validate :: "ExecutionProfile \<Rightarrow> Resources \<Rightarrow> error option" where
  "ExecutionProfile_Validate profile resources =
     (let mode = ResolvedMode profile in
      if mode = ExecutionModeLegacy then None
      else if mode = ExecutionModeSingleGPU then
        check (res_WorkerReplicas resources \<noteq> 1 \<or> res_GPUsPerWorker resources \<noteq> 1)
          (Errorf ''single_gpu requires 1 worker with 1 GPU'' [])
      else if mode = ExecutionModeTorchrun then
        check (res_WorkerReplicas resources \<noteq> 1 \<or> res_GPUsPerWorker resources < 2)
          (Errorf ''torchrun requires 1 worker with at least 2 GPUs'' [])
      else if mode = ExecutionModeRayTrain then
        check (res_WorkerReplicas resources < 2 \<or> res_GPUsPerWorker resources < 1)
          (Errorf ''ray_train requires at least 2 workers with at least 1 GPU each'' [])
      else Some (Errorf ''unsupported execution mode %q'' [ArgS (exec_Mode profile)]))"

subsection \<open>Consistency of the ceilings\<close>

text \<open>
  Limits are consistent when they are all positive and the largest worker shape fits the
  total, or when the total is zero (an observed empty fleet).
\<close>

definition observed_limits :: "ResourceLimits \<Rightarrow> bool" where
  "observed_limits l \<longleftrightarrow> 0 < lim_MaxWorkerReplicas l \<and> 0 < lim_MaxGPUsPerWorker l \<and>
     (lim_MaxTotalGPUs l = 0 \<or> lim_MaxWorkerReplicas l * lim_MaxGPUsPerWorker l \<le> lim_MaxTotalGPUs l)"

lemma mult_le_of_sdiv:
  assumes "0 < b" "0 < c" "a \<le> c sdiv b"
  shows "a * b \<le> (c :: int)"
proof -
  have "a \<le> c div b" using assms by (simp add: sdiv_nonneg)
  then have "a * b \<le> c div b * b" using assms(1) by (simp add: mult_right_mono)
  also have "\<dots> \<le> c" using assms(1) div_mult_mod_eq [of c b] pos_mod_sign [of b c] by linarith
  finally show ?thesis .
qed

text \<open>
  From any ceilings with a positive worker shape, as the configuration always installs, an observation either is rejected and leaves the ceilings as they are, or installs ceilings
  whose full worker shape is covered by the observed total, computed without overflow; an
  empty observation keeps the worker shape and sets the total to zero, and every consistent
  observation that the integers can represent is accepted.
\<close>

theorem UpdateResourceLimits_consistent:
  fixes cur :: ResourceLimits
  assumes "0 < lim_MaxWorkerReplicas cur" "0 < lim_MaxGPUsPerWorker cur"
  shows "case UpdateResourceLimitsFromCapacity n g t cur of
           (Some e, l) \<Rightarrow> l = cur \<and> \<not> (0 < n \<and> 0 < g \<and> in_int64 t \<and> n * g \<le> t)
         | (None, l) \<Rightarrow> observed_limits l \<and>
             (l = \<lparr>lim_MaxWorkerReplicas = n, lim_MaxGPUsPerWorker = g, lim_MaxTotalGPUs = t\<rparr> \<or>
              (n = 0 \<and> g = 0 \<and> t = 0 \<and> l = cur\<lparr>lim_MaxTotalGPUs := 0\<rparr>))"
proof -
  have fits: "0 < t \<and> n \<le> t sdiv g \<and> int64 t = t \<and> int64 g = g" if "0 < n" "0 < g" "in_int64 t" "n * g \<le> t"
  proof -
    have "0 < n * g" using that(1,2) by simp
    with that(4) have t: "0 < t" by linarith
    then have "t sdiv g = t div g" using that(2) by (simp add: sdiv_nonneg)
    moreover have "n \<le> t div g" using that(2) zdiv_mono1 [OF that(4,2)] by simp
    moreover have "g \<le> t" using that(1,2,4) mult_le_cancel_right1 [of g n] by linarith
    then have "in_int64 g" using that(2,3) by (simp add: in_int64_def)
    ultimately show ?thesis using that(3) t by (simp add: int64_exact)
  qed
  let ?ok = "0 < n \<and> 0 < g \<and> 0 < t \<and> n \<le> t sdiv g \<and> int64 g = g \<and> int64 t = t"
  consider "n = 0 \<and> g = 0 \<and> t = 0" | "?ok" | "\<not> ?ok" "\<not> (n = 0 \<and> g = 0 \<and> t = 0)" by blast
  then show ?thesis
  proof cases
    case 1
    then show ?thesis using assms by (simp add: UpdateResourceLimitsFromCapacity_def observed_limits_def)
  next
    case 2
    then show ?thesis using mult_le_of_sdiv [of g t n]
      by (simp add: UpdateResourceLimitsFromCapacity_def observed_limits_def)
  next
    case 3
    then have "snd (UpdateResourceLimitsFromCapacity n g t cur) = cur" "fst (UpdateResourceLimitsFromCapacity n g t cur) \<noteq> None"
      by (simp_all add: UpdateResourceLimitsFromCapacity_def Let_def not_le not_less) auto
    then obtain e where "UpdateResourceLimitsFromCapacity n g t cur = (Some e, cur)"
      by (metis option.exhaust prod.collapse)
    with 3 fits show ?thesis by auto
  qed
qed

theorem UpdateResourceLimits_consistent_witness:
  "case UpdateResourceLimitsFromCapacity 5 8 40 initialLimits of
     (Some e, l) \<Rightarrow> False | (None, l) \<Rightarrow> observed_limits l \<and> lim_MaxTotalGPUs l = 40"
proof -
  have "0 < lim_MaxWorkerReplicas initialLimits" "0 < lim_MaxGPUsPerWorker initialLimits"
    by (simp_all add: initialLimits_def go_consts)
  from UpdateResourceLimits_consistent [OF this, of 5 8 40] show ?thesis
    by (auto simp: in_int64_def split: option.splits)
qed

end
