(* ===== verification/Go_Regexp.thy ===== *)
theory Go_Regexp
  imports Go_Prelude
begin

section \<open>Regular expressions of package regexp\<close>

text \<open>
  The sources validate identifiers with anchored patterns \<open>^...$\<close> of Go's \<open>regexp\<close>. A pattern
  is transcribed literally into the datatype below; \<open>matches\<close> decides it with Brzozowski
  derivatives and is executable, and \<open>matches_lang\<close> shows that it decides membership in the
  language \<open>lang\<close> of the pattern. All classes used are ASCII, and a negated class accepts
  one byte: under a repetition this is the same as accepting whole UTF-8 sequences.
\<close>

datatype regexp =
    Empty
  | Eps
  | Class "char \<Rightarrow> bool"
  | Seq regexp regexp
  | Alt regexp regexp
  | Many regexp                \<comment> \<open>\<open>r*\<close>\<close>
  | UpTo nat regexp            \<comment> \<open>\<open>r{0,n}\<close>\<close>

abbreviation Some1 :: "regexp \<Rightarrow> regexp" where "Some1 r \<equiv> Seq r (Many r)"       \<comment> \<open>\<open>r+\<close>\<close>
abbreviation Opt :: "regexp \<Rightarrow> regexp" where "Opt r \<equiv> Alt r Eps"               \<comment> \<open>\<open>r?\<close>\<close>
abbreviation Lit :: "char \<Rightarrow> regexp" where "Lit c \<equiv> Class (\<lambda>d. d = c)"

fun Str :: "string \<Rightarrow> regexp" where
  "Str [] = Eps"
| "Str (c # cs) = Seq (Lit c) (Str cs)"

fun Times :: "nat \<Rightarrow> regexp \<Rightarrow> regexp" where \<comment> \<open>\<open>r{n}\<close>\<close>
  "Times 0 r = Eps"
| "Times (Suc n) r = Seq r (Times n r)"

fun lang :: "regexp \<Rightarrow> string set" where
  "lang Empty = {}"
| "lang Eps = {[]}"
| "lang (Class p) = {[c] | c. p c}"
| "lang (Seq r s) = {x @ y | x y. x \<in> lang r \<and> y \<in> lang s}"
| "lang (Alt r s) = lang r \<union> lang s"
| "lang (Many r) = {concat xs | xs. set xs \<subseteq> lang r}"
| "lang (UpTo n r) = {concat xs | xs. set xs \<subseteq> lang r \<and> length xs \<le> n}"

fun nullable :: "regexp \<Rightarrow> bool" where
  "nullable Empty = False"
| "nullable Eps = True"
| "nullable (Class p) = False"
| "nullable (Seq r s) = (nullable r \<and> nullable s)"
| "nullable (Alt r s) = (nullable r \<or> nullable s)"
| "nullable (Many r) = True"
| "nullable (UpTo n r) = True"

definition mk_seq :: "regexp \<Rightarrow> regexp \<Rightarrow> regexp" where
  "mk_seq r s = (case r of Empty \<Rightarrow> Empty | Eps \<Rightarrow> s | _ \<Rightarrow> Seq r s)"

definition mk_alt :: "regexp \<Rightarrow> regexp \<Rightarrow> regexp" where
  "mk_alt r s = (case r of Empty \<Rightarrow> s | _ \<Rightarrow> (case s of Empty \<Rightarrow> r | _ \<Rightarrow> Alt r s))"

fun deriv :: "char \<Rightarrow> regexp \<Rightarrow> regexp" where
  "deriv c Empty = Empty"
| "deriv c Eps = Empty"
| "deriv c (Class p) = (if p c then Eps else Empty)"
| "deriv c (Seq r s) =
     (if nullable r then mk_alt (mk_seq (deriv c r) s) (deriv c s) else mk_seq (deriv c r) s)"
| "deriv c (Alt r s) = mk_alt (deriv c r) (deriv c s)"
| "deriv c (Many r) = mk_seq (deriv c r) (Many r)"
| "deriv c (UpTo n r) = (if n = 0 then Empty else mk_seq (deriv c r) (UpTo (n - 1) r))"

fun matches :: "regexp \<Rightarrow> string \<Rightarrow> bool" where
  "matches r [] = nullable r"
| "matches r (c # s) = matches (deriv c r) s"

subsection \<open>The matcher decides the language\<close>

lemma nullable_lang: "nullable r \<longleftrightarrow> [] \<in> lang r"
  by (induction r) (auto intro: exI [of _ "[]"])

lemma lang_mk_seq [simp]: "lang (mk_seq r s) = lang (Seq r s)"
  by (auto simp: mk_seq_def split: regexp.splits)

lemma lang_mk_alt [simp]: "lang (mk_alt r s) = lang (Alt r s)"
  by (auto simp: mk_alt_def split: regexp.splits)

lemma concat_Cons_split:
  "c # y = concat xs \<Longrightarrow> \<exists>ys zs ws. xs = ys @ (c # zs) # ws \<and> y = zs @ concat ws \<and> concat ys = []"
proof (induction xs)
  case (Cons x xs)
  show ?case
  proof (cases x)
    case Nil
    with Cons obtain ys zs ws where "xs = ys @ (c # zs) # ws" "y = zs @ concat ws" "concat ys = []"
      by auto
    with Nil have "x # xs = (x # ys) @ (c # zs) # ws" "concat (x # ys) = []" by auto
    with \<open>y = zs @ concat ws\<close> show ?thesis by blast
  next
    case (Cons d zs)
    with Cons.prems have "x # xs = [] @ (c # zs) # xs" "y = zs @ concat xs" by auto
    then show ?thesis by (metis concat.simps(1))
  qed
qed simp

lemma Cons_in_Many: "c # y \<in> lang (Many r) \<longleftrightarrow> (\<exists>u v. y = u @ v \<and> c # u \<in> lang r \<and> v \<in> lang (Many r))"
proof
  assume "c # y \<in> lang (Many r)"
  then obtain xs where xs: "c # y = concat xs" "set xs \<subseteq> lang r" by auto
  from concat_Cons_split [OF xs(1)] obtain ys zs ws
    where "xs = ys @ (c # zs) # ws" "y = zs @ concat ws" by blast
  with xs(2) show "\<exists>u v. y = u @ v \<and> c # u \<in> lang r \<and> v \<in> lang (Many r)" by auto
next
  assume "\<exists>u v. y = u @ v \<and> c # u \<in> lang r \<and> v \<in> lang (Many r)"
  then obtain u xs where "y = u @ concat xs" "c # u \<in> lang r" "set xs \<subseteq> lang r" by auto
  then have "c # y = concat ((c # u) # xs)" "set ((c # u) # xs) \<subseteq> lang r" by auto
  then show "c # y \<in> lang (Many r)" by (metis (mono_tags, lifting) lang.simps(6) mem_Collect_eq)
qed

lemma Cons_in_UpTo:
  "c # y \<in> lang (UpTo n r) \<longleftrightarrow>
   n \<noteq> 0 \<and> (\<exists>u v. y = u @ v \<and> c # u \<in> lang r \<and> v \<in> lang (UpTo (n - 1) r))"
proof
  assume "c # y \<in> lang (UpTo n r)"
  then obtain xs where xs: "c # y = concat xs" "set xs \<subseteq> lang r" "length xs \<le> n" by auto
  from concat_Cons_split [OF xs(1)] obtain ys zs ws
    where "xs = ys @ (c # zs) # ws" "y = zs @ concat ws" by blast
  with xs(2,3) show "n \<noteq> 0 \<and> (\<exists>u v. y = u @ v \<and> c # u \<in> lang r \<and> v \<in> lang (UpTo (n - 1) r))"
    by (fastforce intro: exI [of _ ws])
next
  assume "n \<noteq> 0 \<and> (\<exists>u v. y = u @ v \<and> c # u \<in> lang r \<and> v \<in> lang (UpTo (n - 1) r))"
  then obtain u xs where "n \<noteq> 0" "y = u @ concat xs" "c # u \<in> lang r" "set xs \<subseteq> lang r" "length xs \<le> n - 1"
    by auto
  then have "c # y = concat ((c # u) # xs)" "set ((c # u) # xs) \<subseteq> lang r" "length ((c # u) # xs) \<le> n"
    by auto
  then show "c # y \<in> lang (UpTo n r)" unfolding lang.simps by blast
qed

lemma deriv_lang: "y \<in> lang (deriv c r) \<longleftrightarrow> c # y \<in> lang r"
proof (induction r arbitrary: y)
  case (Seq r s)
  then show ?case
    by (auto simp: nullable_lang Cons_eq_append_conv)
next
  case (Many r)
  then show ?case by (simp only: Cons_in_Many deriv.simps lang_mk_seq lang.simps(4)) auto
next
  case (UpTo n r)
  then show ?case by (simp only: Cons_in_UpTo deriv.simps lang_mk_seq lang.simps(4) split: if_splits) simp
qed auto

theorem matches_lang: "matches r s \<longleftrightarrow> s \<in> lang r"
  by (induction s arbitrary: r) (simp_all add: nullable_lang deriv_lang)

subsection \<open>Consequences used by the components\<close>

fun chars_of :: "regexp \<Rightarrow> char \<Rightarrow> bool" where \<comment> \<open>characters some match can contain\<close>
  "chars_of Empty c = False"
| "chars_of Eps c = False"
| "chars_of (Class p) c = p c"
| "chars_of (Seq r s) c = (chars_of r c \<or> chars_of s c)"
| "chars_of (Alt r s) c = (chars_of r c \<or> chars_of s c)"
| "chars_of (Many r) c = chars_of r c"
| "chars_of (UpTo n r) c = chars_of r c"

lemma lang_chars_of: "s \<in> lang r \<Longrightarrow> c \<in> set s \<Longrightarrow> chars_of r c"
  by (induction r arbitrary: s) (auto, blast+)

lemma matches_chars: "matches r s \<Longrightarrow> c \<in> set s \<Longrightarrow> chars_of r c"
  using lang_chars_of by (simp add: matches_lang)

lemma matches_nonempty: "matches r s \<Longrightarrow> \<not> nullable r \<Longrightarrow> s \<noteq> []"
  by auto

lemma lang_Str [simp]: "lang (Str p) = {p}"
  by (induction p) auto

declare matches.simps(2) [simp del]

text \<open>The character classes of the patterns.\<close>

definition is_lower :: "char \<Rightarrow> bool" where "is_lower c = (c \<in> set ''abcdefghijklmnopqrstuvwxyz'')"
definition is_upper :: "char \<Rightarrow> bool" where "is_upper c = (c \<in> set ''ABCDEFGHIJKLMNOPQRSTUVWXYZ'')"
definition is_digit :: "char \<Rightarrow> bool" where "is_digit c = (c \<in> set ''0123456789'')"
definition is_hex_lower :: "char \<Rightarrow> bool" where "is_hex_lower c = (c \<in> set ''0123456789abcdef'')"
definition is_hex :: "char \<Rightarrow> bool" where "is_hex c = (c \<in> set ''0123456789abcdefABCDEF'')"
definition is_alnum :: "char \<Rightarrow> bool" where "is_alnum c = (is_lower c \<or> is_upper c \<or> is_digit c)"
definition is_word :: "char \<Rightarrow> bool" where "is_word c = (is_alnum c \<or> c = CHR ''_'')"

lemmas class_defs [go_consts] =
  is_lower_def is_upper_def is_digit_def is_hex_lower_def is_hex_def is_alnum_def is_word_def

text \<open>
  The identifier shape \<open>^[A-Za-z0-9][A-Za-z0-9<extra>]{0,127}$\<close>, used with several sets of extra
  characters.
\<close>

definition ident_pattern :: "string \<Rightarrow> nat \<Rightarrow> regexp" where
  "ident_pattern extra n = Seq (Class is_alnum) (UpTo n (Class (\<lambda>c. is_alnum c \<or> c \<in> set extra)))"

lemma lang_UpTo_Class: "s \<in> lang (UpTo n (Class p)) \<longleftrightarrow> length s \<le> n \<and> (\<forall>c \<in> set s. p c)"
proof
  assume "s \<in> lang (UpTo n (Class p))"
  then obtain xs where xs: "s = concat xs" "set xs \<subseteq> {[c] | c. p c}" "length xs \<le> n" by auto
  from xs(2) have "length (concat xs) = length xs \<and> (\<forall>c \<in> set (concat xs). p c)"
    by (induction xs) auto
  with xs show "length s \<le> n \<and> (\<forall>c \<in> set s. p c)" by simp
next
  assume "length s \<le> n \<and> (\<forall>c \<in> set s. p c)"
  then have "s = concat (map (\<lambda>c. [c]) s)" "set (map (\<lambda>c. [c]) s) \<subseteq> lang (Class p)"
    "length (map (\<lambda>c. [c]) s) \<le> n" by auto
  then show "s \<in> lang (UpTo n (Class p))" unfolding lang.simps(7) by blast
qed

lemma Cons_in_Seq_Class: "c # s \<in> lang (Seq (Class p) r) \<longleftrightarrow> p c \<and> s \<in> lang r"
  by (auto intro: exI [of _ "[c]"])

lemma Nil_in_Seq_Class: "[] \<in> lang (Seq (Class p) r) \<longleftrightarrow> False"
  by simp

lemma matches_ident_pattern:
  "matches (ident_pattern extra n) s \<longleftrightarrow>
   s \<noteq> [] \<and> is_alnum (hd s) \<and> length s \<le> Suc n \<and> (\<forall>c \<in> set (tl s). is_alnum c \<or> c \<in> set extra)"
  by (cases s) (auto simp: matches_lang ident_pattern_def lang_UpTo_Class Cons_in_Seq_Class Nil_in_Seq_Class
      simp del: lang.simps)

lemma lang_Times_Class: "s \<in> lang (Times n (Class p)) \<longleftrightarrow> length s = n \<and> (\<forall>c \<in> set s. p c)"
proof (induction n arbitrary: s)
  case (Suc n)
  then show ?case
    by (cases s) (auto simp: Cons_in_Seq_Class Nil_in_Seq_Class simp del: lang.simps)
qed auto

definition hex_digest :: "nat \<Rightarrow> regexp" where \<comment> \<open>\<open>^[0-9a-f]{n}$\<close>\<close>
  "hex_digest n = Times n (Class is_hex_lower)"

lemma matches_hex_digest: "matches (hex_digest n) s \<longleftrightarrow> length s = n \<and> (\<forall>c \<in> set s. is_hex_lower c)"
  by (simp add: hex_digest_def matches_lang lang_Times_Class)

end
