(* ===== verification/Domain_Patterns.thy ===== *)
theory Domain_Patterns
  imports Go_Regexp
begin

section \<open>The regular expressions of the domain package\<close>

text \<open>
  The package-level \<open>regexp.MustCompile\<close> patterns of \<open>backend/domain\<close>. All are anchored at both
  ends, so \<open>MatchString\<close> is \<open>matches\<close>. The negated class of \<open>digestImage\<close> is written on bytes: every byte
  of a rune beyond ASCII is in it, as the rune itself is.
\<close>

definition label_char :: "char \<Rightarrow> bool" where
  "label_char c \<longleftrightarrow> is_lower c \<or> is_digit c"

definition dnsLabel :: regexp where
  "dnsLabel = Seq (Class label_char)
     (Opt (Seq (Many (Class (\<lambda>c. c = CHR ''-'' \<or> label_char c))) (Class label_char)))"

definition image_space :: "char \<Rightarrow> bool" where
  "image_space c \<longleftrightarrow> c \<in> {CHR '' '', tab, nl, cr, CHR 0x0C}"

definition digestImage :: regexp where
  "digestImage = Seq (Some1 (Class (\<lambda>c. c \<noteq> CHR ''@'' \<and> \<not> image_space c)))
     (Seq (Str ''@sha256:'') (Times 64 (Class is_hex)))"

definition imageTag :: regexp where
  "imageTag = Seq (Class is_word) (UpTo 127 (Class (\<lambda>c. is_word c \<or> c = CHR ''.'' \<or> c = CHR ''-'')))"

definition imagePathComponent :: regexp where
  "imagePathComponent = Seq (Some1 (Class label_char))
     (Many (Seq (Class (\<lambda>c. c \<in> set ''._-'')) (Some1 (Class label_char))))"

definition imageRegistryComponent :: regexp where
  "imageRegistryComponent = Seq (Some1 (Class is_alnum))
     (Seq (Many (Seq (Class (\<lambda>c. c \<in> set ''.-'')) (Some1 (Class is_alnum))))
       (Opt (Seq (Lit (CHR '':'')) (Some1 (Class is_digit)))))"

definition gitCommit :: regexp where
  "gitCommit = Seq (Times 7 (Class is_hex)) (UpTo 57 (Class is_hex))"

definition snapshotID :: regexp where
  "snapshotID = ident_pattern ''._-'' 127"

definition jobID :: regexp where
  "jobID = Seq (Str ''job-'') (hex_digest 24)"

definition datasetIdentifierPattern :: regexp where
  "datasetIdentifierPattern = ident_pattern ''._+-'' 127"

definition datasetSlugPattern :: regexp where
  "datasetSlugPattern = Seq (Class label_char)
     (Opt (Seq (UpTo 62 (Class (\<lambda>c. label_char c \<or> c = CHR ''-''))) (Class label_char)))"

definition datasetDigestPattern :: regexp where
  "datasetDigestPattern = hex_digest 64"

definition datasetSitePattern :: regexp where
  "datasetSitePattern = ident_pattern ''_-'' 127"

definition dataSpaceIdentity :: regexp where
  "dataSpaceIdentity = ident_pattern ''._-'' 127"

definition trainingEventIDPattern :: regexp where
  "trainingEventIDPattern = ident_pattern ''._-'' 127"

definition trainingCheckpointIDPattern :: regexp where
  "trainingCheckpointIDPattern = ident_pattern ''._-'' 127"

definition trainingManifestPattern :: regexp where
  "trainingManifestPattern = hex_digest 64"

definition trainingMetricPattern :: regexp where
  "trainingMetricPattern = ident_pattern ''._/-'' 127"

definition managedPythonModule :: regexp where
  "managedPythonModule =
     (let part = Seq (Class (\<lambda>c. is_lower c \<or> is_upper c \<or> c = CHR ''_'')) (Many (Class is_word))
      in Seq part (Many (Seq (Lit (CHR ''.'')) part)))"

subsection \<open>What the patterns exclude\<close>

lemmas ident_defs = snapshotID_def datasetIdentifierPattern_def datasetSitePattern_def dataSpaceIdentity_def
  trainingEventIDPattern_def trainingCheckpointIDPattern_def trainingMetricPattern_def

lemmas digest_defs = datasetDigestPattern_def trainingManifestPattern_def

lemma alnum_not_special [simp]:
  "\<not> is_alnum slash" "\<not> is_alnum (CHR ''.'')" "\<not> is_alnum backslash" "\<not> is_alnum (CHR '':'')" "\<not> is_alnum (CHR ''%'')"
  "\<not> is_alnum (CHR ''?'')" "\<not> is_alnum (CHR ''#'')" "\<not> is_alnum (CHR ''-'')"
  by (simp_all add: class_defs)

lemma ident_no_slash: "matches (ident_pattern extra n) s \<Longrightarrow> slash \<notin> set extra \<Longrightarrow> slash \<notin> set s"
  by (cases s) (auto simp: matches_ident_pattern)

lemma ident_not_dots: "matches (ident_pattern extra n) s \<Longrightarrow> s \<noteq> [] \<and> s \<noteq> ''.'' \<and> s \<noteq> ''..''"
  by (auto simp: matches_ident_pattern)

lemma dnsLabel_chars: "matches dnsLabel s \<Longrightarrow> c \<in> set s \<Longrightarrow> c = CHR ''-'' \<or> label_char c"
  using matches_chars [of dnsLabel s c] by (auto simp: dnsLabel_def)

lemma dnsLabel_nonempty: "matches dnsLabel s \<Longrightarrow> s \<noteq> []"
  using matches_nonempty [of dnsLabel s] by (simp add: dnsLabel_def)

lemma matches_jobID: "matches jobID s \<longleftrightarrow> (\<exists>t. s = ''job-'' @ t \<and> length t = 24 \<and> (\<forall>c \<in> set t. is_hex_lower c))"
  by (simp add: jobID_def matches_lang hex_digest_def lang_Times_Class del: Str.simps Times.simps)

end
