(* ===== verification/Go_Path.thy ===== *)
theory Go_Path
  imports Go_Prelude
begin

section \<open>Package path\<close>

text \<open>
  \<open>path.Clean\<close>, \<open>path.Join\<close> and \<open>path.IsAbs\<close> on slash-separated byte strings. \<open>path.Clean\<close>
  is one pass over the segments with a stack of the segments kept so far, in reverse order.
\<close>

definition IsAbs :: "string \<Rightarrow> bool" where
  "IsAbs p = has_prefix p ''/''"

fun clean_segments :: "bool \<Rightarrow> string list \<Rightarrow> string list \<Rightarrow> string list" where
  "clean_segments rooted out [] = rev out"
| "clean_segments rooted out (x # xs) =
     (if x = [] \<or> x = ''.'' then clean_segments rooted out xs
      else if x = ''..'' then
        (case out of
           [] \<Rightarrow> clean_segments rooted (if rooted then [] else [x]) xs
         | y # ys \<Rightarrow> clean_segments rooted (if y = ''..'' then x # out else ys) xs)
      else clean_segments rooted (x # out) xs)"

definition Clean :: "string \<Rightarrow> string" where
  "Clean p =
     (if p = [] then ''.''
      else let out = join ''/'' (clean_segments (IsAbs p) [] (split slash p)) in
        if IsAbs p then ''/'' @ out else if out = [] then ''.'' else out)"

definition Join :: "string list \<Rightarrow> string" where
  "Join elems =
     (let es = dropWhile (\<lambda>e. e = []) elems in if es = [] then [] else Clean (join ''/'' es))"

subsection \<open>Paths without special segments are clean\<close>

definition plain_segment :: "string \<Rightarrow> bool" where
  "plain_segment x \<longleftrightarrow> x \<noteq> [] \<and> x \<noteq> ''.'' \<and> x \<noteq> ''..''"

lemma clean_segments_plain:
  "(\<forall>x \<in> set xs. plain_segment x) \<Longrightarrow> clean_segments rooted out xs = rev out @ xs"
  by (induction xs arbitrary: out) (auto simp: plain_segment_def)

lemma clean_segments_no_dotdot:
  "''..'' \<notin> set xs \<Longrightarrow> (\<forall>x \<in> set out. plain_segment x) \<Longrightarrow>
   clean_segments rooted out xs = rev out @ filter plain_segment xs"
  by (induction xs arbitrary: out) (auto simp: plain_segment_def)

lemma split_IsAbs: "IsAbs p \<longleftrightarrow> (\<exists>xs. split slash p = [] # xs \<and> xs \<noteq> [])"
proof (cases p)
  case (Cons c s)
  then show ?thesis by (auto simp: IsAbs_def has_prefix_def split: list.splits)
qed (simp add: IsAbs_def has_prefix_def)

lemma join_eq_Nil: "join sep xs = [] \<Longrightarrow> (\<forall>x \<in> set xs. x \<noteq> []) \<Longrightarrow> xs = []"
  by (induction sep xs rule: join.induct) auto

lemma Clean_plain_rel:
  assumes "\<forall>x \<in> set (split slash p). plain_segment x"
  shows "Clean p = p"
proof -
  have "p \<noteq> []" using assms by (cases p) (simp_all add: plain_segment_def)
  moreover have "\<not> IsAbs p" using assms by (metis split_IsAbs list.set_intros(1) plain_segment_def)
  ultimately show ?thesis
    using assms by (simp add: Clean_def clean_segments_plain join_split Let_def)
qed

lemma Clean_plain_abs:
  assumes "p = slash # q" "\<forall>x \<in> set (split slash q). plain_segment x"
  shows "Clean p = p"
proof -
  have "IsAbs p" using assms(1) by (simp add: IsAbs_def has_prefix_def)
  moreover have "clean_segments True [] (split slash p) = split slash q"
    using assms by (simp add: clean_segments_plain)
  ultimately show ?thesis using assms(1) by (simp add: Clean_def join_split)
qed

lemma Join_plain_abs:
  assumes "root = slash # r" "\<forall>x \<in> set (split slash r). plain_segment x"
    and "\<forall>x \<in> set (split slash p). plain_segment x"
  shows "Join [root, p] = root @ ''/'' @ p"
proof -
  have "\<forall>x \<in> set (split slash (r @ slash # p)). plain_segment x"
    using assms by (auto simp: split_append_sep)
  then have "Clean (slash # r @ slash # p) = slash # r @ slash # p"
    by (intro Clean_plain_abs) auto
  then show ?thesis using assms(1) by (simp add: Join_def)
qed

text \<open>
  A relative path without \<open>..\<close> segments that \<open>path.Clean\<close> leaves alone is \<open>.\<close> or consists of
  plain segments only.
\<close>

lemma split_join_plain:
  "(\<forall>x \<in> set xs. slash \<notin> set x) \<Longrightarrow> xs \<noteq> [] \<Longrightarrow> split slash (join ''/'' xs) = xs"
  by (rule split_join) auto

lemma clean_relative_segments:
  assumes clean: "Clean p = p" and rel: "\<not> IsAbs p" and nodots: "''..'' \<notin> set (split slash p)"
    and nodot: "p \<noteq> ''.''"
  shows "\<forall>x \<in> set (split slash p). plain_segment x"
proof -
  let ?ys = "filter plain_segment (split slash p)"
  have p: "p \<noteq> []" using clean nodot by (auto simp: Clean_def)
  have segs: "clean_segments False [] (split slash p) = ?ys"
    using clean_segments_no_dotdot [OF nodots, of "[]"] by simp
  have ys: "join ''/'' ?ys = p"
    using clean rel p nodot by (auto simp: Clean_def segs Let_def split: if_splits)
  have "?ys \<noteq> []" using ys p by auto
  moreover have "\<forall>x \<in> set ?ys. slash \<notin> set x" using split_sep_free by auto
  ultimately have "split slash p = ?ys" using split_join_plain ys by metis
  then have "set (split slash p) = set ?ys" by (rule arg_cong)
  then show ?thesis by simp blast
qed

end
