(* ===== verification/Storage.thy ===== *)
theory Storage
  imports Domain_Patterns Go_Path
begin

section \<open>Storage assets, data spaces and resolved mounts\<close>

text \<open>
  The storage contracts of \<open>backend/domain\<close>: operator-approved assets (\<open>storage_asset.go\<close>),
  logical data spaces and their roots (\<open>data_space.go\<close>), the part of \<open>data_location.go\<close> that does not
  mention a job, and the mounts resolved by the control plane (\<open>resolved_data_mount.go\<close>,
  \<open>resolved_data_roots.go\<close>). \<open>time.Time\<close> values are nanoseconds, as \<open>int\<close>.
\<close>

subsection \<open>Relative paths\<close>

definition unsafe_segment :: "string \<Rightarrow> bool" where
  "unsafe_segment x \<longleftrightarrow> x = [] \<or> x = ''.'' \<or> x = ''..'' \<or> CHR 0x00 \<in> set x"

definition NormalizeStorageRelativePath :: "string \<Rightarrow> string result" where
  "NormalizeStorageRelativePath raw =
     (let v = trim_space raw in
      if v = [] then Inr []
      else if has_prefix v ''/'' \<or> contains v [backslash] \<or> contains v ''://'' then
        Inl (Errorf ''storage path must be relative'' [])
      else
        let v' = trim_suffix v ''/'' in
        if v' = [] then Inl (Errorf ''storage path must not be root slash'' [])
        else if list_ex unsafe_segment (split slash v') then
          Inl (Errorf ''storage path contains an unsafe segment'' [])
        else Inr v')"

definition normalizeStorageRoot :: "string \<Rightarrow> string result" where
  "normalizeStorageRoot raw =
     (let v = trim_space raw in
      if v = [] then Inl (Errorf ''storage root prefix is required'' [])
      else case NormalizeStorageRelativePath (trim_suffix v ''/'') of
        Inl e \<Rightarrow> Inl e
      | Inr path \<Rightarrow>
          if path = [] then Inl (Errorf ''storage root prefix is required'' [])
          else Inr (path @ ''/''))"

text \<open>What a normalized path guarantees, whatever directory it is later joined to.\<close>

definition safe_relative_path :: "string \<Rightarrow> bool" where
  "safe_relative_path p \<longleftrightarrow> p = [] \<or>
     (\<not> has_prefix p ''/'' \<and> backslash \<notin> set p \<and> CHR 0x00 \<notin> set p \<and>
      list_all (\<lambda>x. \<not> unsafe_segment x) (split slash p))"

lemma trim_suffix_set: "set (trim_suffix s p) \<subseteq> set s"
  by (auto simp: trim_suffix_def dest: in_set_takeD)

lemma length_trim_suffix: "length (trim_suffix s p) \<le> length s"
  by (simp add: trim_suffix_def)

lemma in_split: "x \<in> set s \<Longrightarrow> x \<noteq> c \<Longrightarrow> \<exists>y \<in> set (split c s). x \<in> set y"
  by (induction s) (auto split: list.splits)

lemma Normalize_safe:
  assumes "NormalizeStorageRelativePath raw = Inr p"
  shows "safe_relative_path p"
proof (cases "p = []")
  case False
  let ?v = "trim_space raw"
  have p: "p = trim_suffix ?v ''/''" and bs: "\<not> contains ?v [backslash]"
    and segs: "\<not> list_ex unsafe_segment (split slash p)"
    using assms False by (auto simp: NormalizeStorageRelativePath_def Let_def split: if_splits)
  have "backslash \<notin> set p" using bs trim_suffix_set p by (auto simp: contains_char)
  moreover have all: "\<forall>x \<in> set (split slash p). \<not> unsafe_segment x" using segs by (auto simp: list_ex_iff)
  moreover have "CHR 0x00 \<notin> set p"
  proof
    assume "CHR 0x00 \<in> set p"
    with all show False using in_split [of "CHR 0x00" p slash] by (auto simp: unsafe_segment_def)
  qed
  moreover have "\<not> has_prefix p ''/''"
  proof
    assume "has_prefix p ''/''"
    then obtain t where "p = slash # t" by (auto simp: has_prefix_iff)
    with all show False by (simp add: unsafe_segment_def)
  qed
  ultimately show ?thesis by (simp add: safe_relative_path_def list_all_iff)
qed (simp add: safe_relative_path_def)

subsection \<open>Storage assets\<close>

definition StorageAssetDataset :: string where [go_consts]: "StorageAssetDataset = ''dataset''"
definition StorageAssetCheckpoint :: string where [go_consts]: "StorageAssetCheckpoint = ''checkpoint''"
definition StorageAssetOutput :: string where [go_consts]: "StorageAssetOutput = ''output''"
definition StorageProviderTOS :: string where [go_consts]: "StorageProviderTOS = ''tos''"
definition StorageProviderIDC :: string where [go_consts]: "StorageProviderIDC = ''idc''"
definition StorageProviderPVC :: string where [go_consts]: "StorageProviderPVC = ''pvc''"
definition StorageMountDataset :: string where [go_consts]: "StorageMountDataset = ''/mnt/data/dataset''"
definition StorageMountCheckpoint :: string where [go_consts]: "StorageMountCheckpoint = ''/mnt/data/checkpoint''"
definition StorageMountOutput :: string where [go_consts]: "StorageMountOutput = ''/mnt/data/output''"

record StorageAsset =
  asset_ID :: string
  asset_TenantID :: string
  asset_OwnerUserID :: string
  asset_Name :: string
  asset_Description :: string
  asset_Kind :: string
  asset_Provider :: string
  asset_ClaimName :: string
  asset_RootPrefix :: string
  asset_ReadOnly :: bool
  asset_BrowseEnabled :: bool
  asset_CreatedBy :: string
  asset_CreatedAt :: int
  asset_UpdatedAt :: int

record StorageSelection =
  sel_AssetID :: string
  sel_RelativePath :: string

record ResolvedStorageMount =
  rsm_AssetID :: string
  rsm_ClaimName :: string
  rsm_RelativePath :: string
  rsm_MountPath :: string
  rsm_ReadOnly :: bool

record ResolvedStorageMounts =
  rsms_Dataset :: "ResolvedStorageMount option"
  rsms_Checkpoint :: "ResolvedStorageMount option"
  rsms_Output :: "ResolvedStorageMount option"

definition validate_storage_mount :: "string \<Rightarrow> string \<Rightarrow> bool \<Rightarrow> ResolvedStorageMount option \<Rightarrow> error option" where
  "validate_storage_mount name mountPath readOnly mount =
     (case mount of None \<Rightarrow> None | Some m \<Rightarrow> first_error [
        check (blank (rsm_AssetID m) \<or> blank (rsm_ClaimName m) \<or> \<not> matches dnsLabel (rsm_ClaimName m))
          (Errorf ''resolved %s storage mount is invalid'' [ArgS name]),
        check (rsm_MountPath m \<noteq> mountPath \<or> rsm_ReadOnly m \<noteq> readOnly)
          (Errorf ''resolved %s storage mount has an invalid mount contract'' [ArgS name]),
        wrap ''resolved %s storage mount path: %w'' [ArgS name]
          (result_error (NormalizeStorageRelativePath (rsm_RelativePath m)))])"

definition ResolvedStorageMounts_Validate :: "ResolvedStorageMounts \<Rightarrow> error option" where
  "ResolvedStorageMounts_Validate mounts = first_error [
     validate_storage_mount ''dataset'' StorageMountDataset True (rsms_Dataset mounts),
     validate_storage_mount ''checkpoint'' StorageMountCheckpoint True (rsms_Checkpoint mounts),
     validate_storage_mount ''output'' StorageMountOutput False (rsms_Output mounts)]"

definition ValidateStorageAssetKind :: "string \<Rightarrow> error option" where
  "ValidateStorageAssetKind kind =
     check (kind \<noteq> StorageAssetDataset \<and> kind \<noteq> StorageAssetCheckpoint \<and> kind \<noteq> StorageAssetOutput)
       (Errorf ''storage asset kind must be %q, %q, or %q''
          [ArgS StorageAssetDataset, ArgS StorageAssetCheckpoint, ArgS StorageAssetOutput])"

definition ValidateStorageProvider :: "string \<Rightarrow> error option" where
  "ValidateStorageProvider provider =
     check (provider \<noteq> StorageProviderTOS \<and> provider \<noteq> StorageProviderIDC \<and> provider \<noteq> StorageProviderPVC)
       (Errorf ''storage provider must be %q, %q or %q''
          [ArgS StorageProviderTOS, ArgS StorageProviderIDC, ArgS StorageProviderPVC])"

definition StorageAsset_Validate :: "StorageAsset \<Rightarrow> error option" where
  "StorageAsset_Validate asset = first_error [
     check (blank (asset_ID asset)) (Errorf ''storage asset id is required'' []),
     check (blank (asset_Name asset)) (Errorf ''storage asset name is required'' []),
     ValidateStorageAssetKind (asset_Kind asset),
     ValidateStorageProvider (asset_Provider asset),
     check (blank (asset_ClaimName asset) \<or> \<not> matches dnsLabel (asset_ClaimName asset))
       (Errorf ''storage asset claim name must be a lowercase DNS label'' []),
     check (asset_TenantID asset = [] \<and> asset_OwnerUserID asset \<noteq> [])
       (Errorf ''a user-owned storage asset requires a tenant'' []),
     check (asset_Kind asset = StorageAssetOutput \<and> asset_ReadOnly asset)
       (Errorf ''output storage assets must be writable'' []),
     check (asset_Kind asset \<noteq> StorageAssetOutput \<and> \<not> asset_ReadOnly asset)
       (Errorf ''dataset and checkpoint storage assets must be read-only'' []),
     (if asset_Provider asset = StorageProviderTOS then
        wrap ''storage asset root prefix: %w'' [] (result_error (normalizeStorageRoot (asset_RootPrefix asset)))
      else None),
     (if asset_Provider asset = StorageProviderIDC \<or> asset_Provider asset = StorageProviderPVC then first_error [
        check (\<not> blank (asset_RootPrefix asset))
          (Errorf ''PVC storage assets must not expose an object storage root prefix'' []),
        check (asset_BrowseEnabled asset)
          (Errorf ''PVC storage assets do not support directory browsing'' [])]
      else None)]"

definition StorageAsset_Canonical :: "StorageAsset \<Rightarrow> StorageAsset result" where
  "StorageAsset_Canonical asset =
     (if asset_Provider asset = StorageProviderTOS then
        (case normalizeStorageRoot (asset_RootPrefix asset) of
           Inl e \<Rightarrow> Inl e
         | Inr pre \<Rightarrow> Inr (asset\<lparr>asset_RootPrefix := pre\<rparr>))
      else Inr asset)"

definition AllowedFor :: "StorageAsset \<Rightarrow> string \<Rightarrow> string \<Rightarrow> bool" where
  "AllowedFor asset tenantID userID =
     (if asset_TenantID asset = [] then asset_OwnerUserID asset = []
      else if asset_TenantID asset \<noteq> tenantID then False
      else asset_OwnerUserID asset = [] \<or> asset_OwnerUserID asset = userID)"

definition storageMountPath :: "string \<Rightarrow> string result" where
  "storageMountPath kind =
     (if kind = StorageAssetDataset then Inr StorageMountDataset
      else if kind = StorageAssetCheckpoint then Inr StorageMountCheckpoint
      else if kind = StorageAssetOutput then Inr StorageMountOutput
      else case ValidateStorageAssetKind kind of Some e \<Rightarrow> Inl e | None \<Rightarrow> Inr [])"

definition StorageAsset_Resolve :: "StorageAsset \<Rightarrow> string \<Rightarrow> ResolvedStorageMount result" where
  "StorageAsset_Resolve asset relativePath =
     (case StorageAsset_Validate asset of
        Some e \<Rightarrow> Inl e
      | None \<Rightarrow>
          (case NormalizeStorageRelativePath relativePath of
             Inl e \<Rightarrow> Inl e
           | Inr path \<Rightarrow>
               (case storageMountPath (asset_Kind asset) of
                  Inl e \<Rightarrow> Inl e
                | Inr mountPath \<Rightarrow> Inr \<lparr>rsm_AssetID = asset_ID asset, rsm_ClaimName = asset_ClaimName asset,
                    rsm_RelativePath = path, rsm_MountPath = mountPath, rsm_ReadOnly = asset_ReadOnly asset\<rparr>)))"

subsection \<open>Data spaces\<close>

definition DataSpaceWellspikingPersonal :: string where [go_consts]: "DataSpaceWellspikingPersonal = ''wellspiking-personal''"
definition DataSpaceWorkspace :: string where [go_consts]: "DataSpaceWorkspace = ''workspace''"
definition DataSpaceMyStorage :: string where [go_consts]: "DataSpaceMyStorage = ''my-storage''"
definition DataSpaceMyFiles :: string where [go_consts]: "DataSpaceMyFiles = ''my-files''"
definition DataSpaceMyRuns :: string where [go_consts]: "DataSpaceMyRuns = ''my-runs''"
definition DataSpaceTeamShared :: string where [go_consts]: "DataSpaceTeamShared = ''team-shared''"
definition DataSpacePublic :: string where [go_consts]: "DataSpacePublic = ''public''"
definition DataSpaceIDCOriginal :: string where [go_consts]: "DataSpaceIDCOriginal = ''idc-original''"
definition DataSpaceIDCWellspiking :: string where [go_consts]: "DataSpaceIDCWellspiking = ''idc-wellspiking''"
definition DataSpaceIDCShared :: string where [go_consts]: "DataSpaceIDCShared = ''idc-shared''"
definition DataSpaceIDCSPKHybrid :: string where [go_consts]: "DataSpaceIDCSPKHybrid = ''idc-spk-hybrid''"
definition DataSpaceIDCSPKSSD :: string where [go_consts]: "DataSpaceIDCSPKSSD = ''idc-spk-ssd''"
definition WorkspaceMountPath :: string where [go_consts]: "WorkspaceMountPath = ''/workspace''"
definition MyStorageMountPath :: string where [go_consts]: "MyStorageMountPath = ''/mnt/storage/me''"
definition MyFilesMountPath :: string where [go_consts]: "MyFilesMountPath = ''/mnt/storage/me/files''"
definition TeamStorageMountPath :: string where [go_consts]: "TeamStorageMountPath = ''/mnt/storage/team''"
definition PublicStorageMountPath :: string where [go_consts]: "PublicStorageMountPath = ''/mnt/storage/public''"
definition DefaultPublicDataRoot :: string where [go_consts]: "DefaultPublicDataRoot = ''ray-train/public/''"

record DataSpace =
  ds_ID :: string
  ds_Name :: string
  ds_Description :: string
  ds_Provider :: string
  ds_MountPath :: string
  ds_ReadOnly :: bool
  ds_BrowseEnabled :: bool
  ds_RootPrefix :: string

definition validateDataSpaceIdentity :: "string \<Rightarrow> string \<Rightarrow> error option" where
  "validateDataSpaceIdentity field v =
     check (trim_space v \<noteq> v \<or> \<not> matches dataSpaceIdentity v)
       (Errorf ''%s must be a stable path-safe identifier'' [ArgS field])"

definition personalDataRoot :: "string \<Rightarrow> string \<Rightarrow> string" where
  "personalDataRoot tenantID subject = ''ray-train/tenants/'' @ tenantID @ ''/users/'' @ subject @ ''/''"

definition personalDataSpacesForRoot :: "string \<Rightarrow> string \<Rightarrow> string \<Rightarrow> DataSpace list" where
  "personalDataSpacesForRoot tenantID personalRoot publicRoot = [
     \<lparr>ds_ID = DataSpaceWorkspace, ds_Name = (map char_of ([230, 136, 145, 231, 154, 132, 229, 183, 165, 228, 189, 156, 229, 140, 186] :: nat list)),
        ds_Description = (map char_of ([232, 176, 131, 232, 175, 149, 228, 187, 163, 231, 160, 129, 228, 184, 142, 232, 174, 173, 231, 187, 131, 229, 191, 171, 231, 133, 167, 231, 154, 132, 230, 157, 165, 230, 186, 144] :: nat list)),
        ds_Provider = StorageProviderTOS, ds_MountPath = WorkspaceMountPath, ds_ReadOnly = False, ds_BrowseEnabled = True,
        ds_RootPrefix = personalRoot @ ''workspace/''\<rparr>,
     \<lparr>ds_ID = DataSpaceMyStorage, ds_Name = (map char_of ([230, 136, 145, 231, 154, 132, 230, 150, 135, 228, 187, 182] :: nat list)),
        ds_Description = (map char_of ([228, 184, 170, 228, 186, 186, 230, 140, 129, 228, 185, 133, 229, 140, 150, 230, 149, 176, 230, 141, 174, 227, 128, 129, 232, 174, 173, 231, 187, 131, 231, 187, 147, 230, 158, 156, 228, 184, 142, 32, 67, 104, 101, 99, 107, 112, 111, 105, 110, 116] :: nat list)),
        ds_Provider = StorageProviderTOS, ds_MountPath = MyStorageMountPath, ds_ReadOnly = False, ds_BrowseEnabled = True,
        ds_RootPrefix = personalRoot\<rparr>,
     \<lparr>ds_ID = DataSpaceMyFiles, ds_Name = (map char_of ([230, 136, 145, 231, 154, 132, 230, 150, 135, 228, 187, 182] :: nat list)),
        ds_Description = (map char_of ([228, 184, 170, 228, 186, 186, 228, 184, 138, 228, 188, 160, 231, 154, 132, 230, 149, 176, 230, 141, 174, 229, 146, 140, 230, 150, 135, 228, 187, 182] :: nat list)),
        ds_Provider = StorageProviderTOS, ds_MountPath = MyFilesMountPath, ds_ReadOnly = False, ds_BrowseEnabled = True,
        ds_RootPrefix = personalRoot @ ''files/''\<rparr>,
     \<lparr>ds_ID = DataSpaceMyRuns, ds_Name = (map char_of ([230, 136, 145, 231, 154, 132, 232, 191, 144, 232, 161, 140, 231, 187, 147, 230, 158, 156] :: nat list)),
        ds_Description = (map char_of ([232, 174, 173, 231, 187, 131, 232, 190, 147, 229, 135, 186, 227, 128, 129, 230, 163, 128, 230, 159, 165, 231, 130, 185, 228, 184, 142, 229, 143, 175, 230, 181, 143, 232, 167, 136, 228, 186, 167, 231, 137, 169] :: nat list)),
        ds_Provider = StorageProviderTOS, ds_MountPath = (MyStorageMountPath @ ''/runs''), ds_ReadOnly = False, ds_BrowseEnabled = True,
        ds_RootPrefix = personalRoot @ ''runs/''\<rparr>,
     \<lparr>ds_ID = DataSpaceTeamShared, ds_Name = (map char_of ([229, 155, 162, 233, 152, 159, 229, 133, 177, 228, 186, 171, 230, 149, 176, 230, 141, 174] :: nat list)),
        ds_Description = (map char_of ([229, 155, 162, 233, 152, 159, 229, 133, 177, 228, 186, 171, 231, 155, 174, 229, 189, 149, 239, 188, 140, 229, 155, 162, 233, 152, 159, 230, 136, 144, 229, 145, 152, 229, 143, 175, 229, 156, 168, 229, 174, 185, 229, 153, 168, 229, 134, 133, 232, 175, 187, 229, 134, 153] :: nat list)),
        ds_Provider = StorageProviderTOS, ds_MountPath = TeamStorageMountPath, ds_ReadOnly = False, ds_BrowseEnabled = True,
        ds_RootPrefix = ''ray-train/tenants/'' @ tenantID @ ''/shared/''\<rparr>,
     \<lparr>ds_ID = DataSpacePublic, ds_Name = (map char_of ([229, 133, 172, 229, 133, 177, 230, 149, 176, 230, 141, 174] :: nat list)),
        ds_Description = (map char_of ([229, 185, 179, 229, 143, 176, 229, 143, 145, 229, 184, 131, 231, 154, 132, 229, 133, 172, 229, 133, 177, 230, 149, 176, 230, 141, 174, 239, 188, 140, 229, 143, 170, 232, 175, 187] :: nat list)),
        ds_Provider = StorageProviderTOS, ds_MountPath = PublicStorageMountPath, ds_ReadOnly = True, ds_BrowseEnabled = True,
        ds_RootPrefix = publicRoot\<rparr>]"

definition PersonalDataSpacesFor :: "string \<Rightarrow> string \<Rightarrow> DataSpace list result" where
  "PersonalDataSpacesFor tenantID subject =
     (case first_error [validateDataSpaceIdentity ''tenant'' tenantID, validateDataSpaceIdentity ''subject'' subject] of
        Some e \<Rightarrow> Inl e
      | None \<Rightarrow> Inr (personalDataSpacesForRoot tenantID (personalDataRoot tenantID subject) DefaultPublicDataRoot))"

definition NormalizePublicDataRoot :: "string \<Rightarrow> string result" where
  "NormalizePublicDataRoot raw =
     (case normalizeStorageRoot raw of
        Inl e \<Rightarrow> Inl (Wrapf ''public data root: %w'' [] e)
      | Inr root \<Rightarrow>
          if root = DefaultPublicDataRoot then Inr root
          else let segments = split slash (trim_suffix root ''/'') in
            if length segments \<noteq> 5 \<or> segments ! 0 \<noteq> ''ray-train'' \<or> segments ! 1 \<noteq> ''tenants'' \<or>
               segments ! 3 \<noteq> ''datasets'' \<or> segments ! 4 \<noteq> ''public''
            then Inl (Errorf ''public data root must be %q or a tenant datasets/public root'' [ArgS DefaultPublicDataRoot])
            else case validateDataSpaceIdentity ''public data tenant'' (segments ! 2) of
              Some e \<Rightarrow> Inl e
            | None \<Rightarrow> Inr root)"

definition PublicDataRootForTenant :: "string \<Rightarrow> string \<Rightarrow> string result" where
  "PublicDataRootForTenant tenantID raw =
     (case validateDataSpaceIdentity ''tenant'' tenantID of
        Some e \<Rightarrow> Inl e
      | None \<Rightarrow>
          (case NormalizePublicDataRoot raw of
             Inl e \<Rightarrow> Inl e
           | Inr root \<Rightarrow>
               if root = DefaultPublicDataRoot then Inr root
               else if split slash (trim_suffix root ''/'') ! 2 \<noteq> tenantID
               then Inl (Errorf ''temporary public data root must belong to the tenant'' [])
               else Inr root))"

definition PersonalDataSpacesForStorageHome ::
    "string \<Rightarrow> string \<Rightarrow> string \<Rightarrow> string \<Rightarrow> DataSpace list result" where
  "PersonalDataSpacesForStorageHome activeTenantID storageTenantID personalRoot publicRoot =
     (let pre = ''ray-train/tenants/'' @ storageTenantID @ ''/users/'';
          storageKey = trim_suffix (trim_prefix personalRoot pre) ''/''
      in case first_error [
        validateDataSpaceIdentity ''tenant'' activeTenantID,
        validateDataSpaceIdentity ''storage tenant'' storageTenantID,
        check (\<not> has_prefix personalRoot pre \<or> \<not> has_suffix personalRoot ''/'')
          (Errorf ''personal data root is outside the tenant'' []),
        check (validateDataSpaceIdentity ''storage key'' storageKey \<noteq> None \<or>
               personalRoot \<noteq> personalDataRoot storageTenantID storageKey)
          (Errorf ''personal data root is invalid'' [])] of
          Some e \<Rightarrow> Inl e
        | None \<Rightarrow>
            (case PublicDataRootForTenant activeTenantID publicRoot of
               Inl e \<Rightarrow> Inl e
             | Inr normalized \<Rightarrow> Inr (personalDataSpacesForRoot activeTenantID personalRoot normalized)))"

definition PersonalStorageTenantForRoot :: "string \<Rightarrow> string result" where
  "PersonalStorageTenantForRoot personalRoot =
     (case normalizeStorageRoot personalRoot of
        Inl e \<Rightarrow> Inl e
      | Inr normalized \<Rightarrow>
          let parts = split slash (trim_suffix normalized ''/'') in
          if length parts \<noteq> 5 \<or> parts ! 0 \<noteq> ''ray-train'' \<or> parts ! 1 \<noteq> ''tenants'' \<or> parts ! 3 \<noteq> ''users''
          then Inl (Errorf ''personal data root is invalid'' [])
          else case first_error [
              validateDataSpaceIdentity ''storage tenant'' (parts ! 2),
              validateDataSpaceIdentity ''storage key'' (parts ! 4),
              check (normalized \<noteq> personalDataRoot (parts ! 2) (parts ! 4)) (Errorf ''personal data root is invalid'' [])] of
            Some e \<Rightarrow> Inl e
          | None \<Rightarrow> Inr (parts ! 2))"

definition FindDataSpace :: "DataSpace list \<Rightarrow> string \<Rightarrow> DataSpace option" where
  "FindDataSpace spaces i = find (\<lambda>s. ds_ID s = i) spaces"

definition IsKnownDataSpace :: "string \<Rightarrow> bool" where
  "IsKnownDataSpace i \<longleftrightarrow> i \<in> set [DataSpaceWorkspace, DataSpaceMyStorage, DataSpaceMyFiles, DataSpaceMyRuns,
     DataSpaceTeamShared, DataSpacePublic]"

definition IsWritableDataSpace :: "string \<Rightarrow> bool" where
  "IsWritableDataSpace i \<longleftrightarrow> i \<in> set [DataSpaceWorkspace, DataSpaceMyStorage, DataSpaceMyFiles, DataSpaceMyRuns]"

definition CanManageDataSpace :: "string \<Rightarrow> bool \<Rightarrow> bool \<Rightarrow> bool" where
  "CanManageDataSpace i tenantAdmin superAdmin =
     (if IsWritableDataSpace i then True
      else if i = DataSpaceTeamShared then tenantAdmin \<or> superAdmin
      else i = DataSpacePublic \<and> superAdmin)"

definition IsTrainingOutputSpace :: "string \<Rightarrow> bool" where
  "IsTrainingOutputSpace i \<longleftrightarrow> i = DataSpaceMyRuns"

definition PersonalDataRootFor :: "string \<Rightarrow> string \<Rightarrow> string result" where
  "PersonalDataRootFor tenantID subject =
     (case first_error [validateDataSpaceIdentity ''tenant'' tenantID, validateDataSpaceIdentity ''subject'' subject] of
        Some e \<Rightarrow> Inl e
      | None \<Rightarrow> Inr (personalDataRoot tenantID subject))"

subsection \<open>Logical locations\<close>

record DataLocation =
  loc_Space :: string
  loc_RelativePath :: string

definition NewDataLocation :: "string \<Rightarrow> string \<Rightarrow> DataLocation result" where
  "NewDataLocation space relativePath =
     (if \<not> IsKnownDataSpace space then Inl (Errorf ''unknown data space %q'' [ArgS space])
      else case NormalizeStorageRelativePath relativePath of
        Inl e \<Rightarrow> Inl (Wrapf ''data location path: %w'' [] e)
      | Inr path \<Rightarrow> Inr \<lparr>loc_Space = space, loc_RelativePath = path\<rparr>)"

definition DataLocation_Validate :: "DataLocation \<Rightarrow> error option" where
  "DataLocation_Validate location = result_error (NewDataLocation (loc_Space location) (loc_RelativePath location))"

definition ValidateOutputSpace :: "string \<Rightarrow> error option" where
  "ValidateOutputSpace space = first_error [
     check (\<not> IsKnownDataSpace space) (Errorf ''unknown output data space %q'' [ArgS space]),
     check (\<not> IsTrainingOutputSpace space) (Errorf ''only %q can be a training output'' [ArgS DataSpaceMyRuns])]"

subsection \<open>Resolved mounts and roots\<close>

definition DataMountInputPath :: string where [go_consts]: "DataMountInputPath = ''/mnt/data/input''"
definition DataMountCheckpointPath :: string where [go_consts]: "DataMountCheckpointPath = ''/mnt/data/checkpoints''"
definition DataMountOutputPath :: string where [go_consts]: "DataMountOutputPath = ''/mnt/data/output''"

record ResolvedDataMount =
  rdm_Space :: string
  rdm_BindingSpace :: string
  rdm_ClaimName :: string
  rdm_SubPath :: string
  rdm_MountPath :: string
  rdm_ReadOnly :: bool

record ResolvedDataSpaceMounts =
  rdms_Input :: "ResolvedDataMount option"
  rdms_Checkpoint :: "ResolvedDataMount option"
  rdms_Output :: "ResolvedDataMount option"

definition dataSpaceBindingSpace :: "string \<Rightarrow> string" where
  "dataSpaceBindingSpace space =
     (if space = DataSpaceMyStorage \<or> space = DataSpaceMyFiles \<or> space = DataSpaceMyRuns
      then DataSpaceWorkspace else space)"

definition isResolvedRunsSubPath :: "string \<Rightarrow> bool" where
  "isResolvedRunsSubPath subPath =
     (if has_prefix subPath ''runs/'' \<and> trim_prefix subPath ''runs/'' \<noteq> [] then True
      else let parts = split slash subPath in
        6 \<le> length parts \<and> parts ! 0 = ''tenants'' \<and> parts ! 2 = ''users'' \<and> parts ! 4 = ''runs'' \<and>
        join ''/'' (drop 5 parts) \<noteq> [])"

definition ResolvedDataMount_validate :: "ResolvedDataMount \<Rightarrow> string \<Rightarrow> string \<Rightarrow> bool \<Rightarrow> bool \<Rightarrow> error option" where
  "ResolvedDataMount_validate mount name mountPath readOnly output = first_error [
     check (\<not> IsKnownDataSpace (rdm_Space mount) \<or> rdm_BindingSpace mount \<noteq> dataSpaceBindingSpace (rdm_Space mount))
       (Errorf ''resolved %s data mount has an invalid data space binding'' [ArgS name]),
     check (blank (rdm_ClaimName mount) \<or> \<not> matches dnsLabel (rdm_ClaimName mount))
       (Errorf ''resolved %s data mount has an invalid claim'' [ArgS name]),
     check (rdm_MountPath mount \<noteq> mountPath \<or> rdm_ReadOnly mount \<noteq> readOnly)
       (Errorf ''resolved %s data mount has an invalid mount contract'' [ArgS name]),
     (case NormalizeStorageRelativePath (rdm_SubPath mount) of
        Inl e \<Rightarrow> Some (Wrapf ''resolved %s data mount path: %w'' [ArgS name] e)
      | Inr subPath \<Rightarrow>
          check (output \<and> (rdm_Space mount \<noteq> DataSpaceMyRuns \<or> \<not> isResolvedRunsSubPath subPath))
            (Errorf ''resolved output data mount must stay below the personal runs directory'' []))]"

definition validate_data_mount :: "string \<Rightarrow> string \<Rightarrow> bool \<Rightarrow> bool \<Rightarrow> ResolvedDataMount option \<Rightarrow> error option" where
  "validate_data_mount name mountPath readOnly output mount =
     (case mount of None \<Rightarrow> None | Some m \<Rightarrow> ResolvedDataMount_validate m name mountPath readOnly output)"

definition ResolvedDataSpaceMounts_Validate :: "ResolvedDataSpaceMounts \<Rightarrow> error option" where
  "ResolvedDataSpaceMounts_Validate mounts = first_error [
     validate_data_mount ''input'' DataMountInputPath True False (rdms_Input mounts),
     validate_data_mount ''checkpoint'' DataMountCheckpointPath True False (rdms_Checkpoint mounts),
     validate_data_mount ''output'' DataMountOutputPath False True (rdms_Output mounts)]"

record ResolvedDataRoot =
  root_Space :: string
  root_ClaimName :: string
  root_SubPath :: string
  root_ReadOnly :: bool

record ResolvedDataSpaceRoots =
  roots_Personal :: "ResolvedDataRoot option"
  roots_Team :: "ResolvedDataRoot option"
  roots_Public :: "ResolvedDataRoot option"
  roots_IDCOriginal :: "ResolvedDataRoot option"
  roots_IDCWellspiking :: "ResolvedDataRoot option"
  roots_IDCShared :: "ResolvedDataRoot option"
  roots_IDCSPKHybrid :: "ResolvedDataRoot option"
  roots_IDCSPKSSD :: "ResolvedDataRoot option"

definition validate_data_root :: "string \<Rightarrow> string \<Rightarrow> bool \<Rightarrow> ResolvedDataRoot option \<Rightarrow> error option" where
  "validate_data_root name space readOnly root =
     (case root of None \<Rightarrow> None | Some r \<Rightarrow> first_error [
        check (root_Space r \<noteq> space \<or> (space \<noteq> DataSpaceTeamShared \<and> root_ReadOnly r \<noteq> readOnly) \<or>
               blank (root_ClaimName r) \<or> \<not> matches dnsLabel (root_ClaimName r))
          (Errorf ''resolved %s data root has an invalid mount contract'' [ArgS name]),
        check (root_SubPath r \<noteq> [] \<and> NormalizeStorageRelativePath (root_SubPath r) \<noteq> Inr (root_SubPath r))
          (Errorf ''resolved %s data root has an invalid confined subpath'' [ArgS name])])"

definition ResolvedDataSpaceRoots_Validate :: "ResolvedDataSpaceRoots \<Rightarrow> error option" where
  "ResolvedDataSpaceRoots_Validate roots = first_error [
     check (roots_IDCOriginal roots \<noteq> None \<or> roots_IDCWellspiking roots \<noteq> None \<or> roots_IDCShared roots \<noteq> None \<or>
            roots_IDCSPKHybrid roots \<noteq> None \<or> roots_IDCSPKSSD roots \<noteq> None)
       (Errorf ''legacy IDC mounts are not supported'' []),
     validate_data_root ''personal'' DataSpaceWorkspace False (roots_Personal roots),
     validate_data_root ''team'' DataSpaceTeamShared True (roots_Team roots),
     validate_data_root ''public'' DataSpacePublic True (roots_Public roots),
     validate_data_root ''IDC original'' DataSpaceIDCOriginal True (roots_IDCOriginal roots),
     validate_data_root ''IDC Wellspiking'' DataSpaceIDCWellspiking True (roots_IDCWellspiking roots),
     validate_data_root ''IDC shared'' DataSpaceIDCShared True (roots_IDCShared roots),
     validate_data_root ''IDC SPK Hybrid'' DataSpaceIDCSPKHybrid True (roots_IDCSPKHybrid roots),
     validate_data_root ''IDC SPK SSD'' DataSpaceIDCSPKSSD True (roots_IDCSPKSSD roots)]"

subsection \<open>Normalized paths\<close>

lemma safe_plain: "safe_relative_path p \<Longrightarrow> p \<noteq> [] \<Longrightarrow> \<forall>x \<in> set (split slash p). plain_segment x"
  by (auto simp: safe_relative_path_def list_all_iff unsafe_segment_def plain_segment_def)

lemma contains_iff: "contains s p \<longleftrightarrow> (\<exists>u v. s = u @ p @ v)"
proof (induction s)
  case (Cons c s)
  show ?case
  proof
    assume "contains (c # s) p"
    then consider "has_prefix (c # s) p" | "contains s p" by auto
    then show "\<exists>u v. c # s = u @ p @ v"
    proof cases
      case 1
      then show ?thesis by (metis append_Nil has_prefix_iff)
    next
      case 2
      then show ?thesis using Cons by (metis append_Cons)
    qed
  next
    assume "\<exists>u v. c # s = u @ p @ v"
    then obtain u v where uv: "c # s = u @ p @ v" by blast
    show "contains (c # s) p"
    proof (cases u)
      case Nil
      with uv have "has_prefix (c # s) p" by (auto simp: has_prefix_iff)
      then show ?thesis by simp
    next
      case (Cons d w)
      with uv have "s = w @ p @ v" by simp
      then show ?thesis using Cons.IH by auto
    qed
  qed
qed auto

lemma double_slash_empty_segment: "[] \<in> set (split slash (u @ ''//'' @ v))"
  by (simp add: split_append_sep)

lemma safe_no_scheme: "safe_relative_path p \<Longrightarrow> p \<noteq> [] \<Longrightarrow> \<not> contains p ''://''"
proof
  assume p: "safe_relative_path p" "p \<noteq> []" and "contains p ''://''"
  then obtain u v where "p = u @ ''://'' @ v" by (auto simp: contains_iff)
  then have "p = (u @ '':'') @ ''//'' @ v" by simp
  then have "[] \<in> set (split slash p)" using double_slash_empty_segment by metis
  with p show False by (auto simp: safe_relative_path_def list_all_iff unsafe_segment_def)
qed

lemma safe_no_trailing_slash: "safe_relative_path p \<Longrightarrow> p \<noteq> [] \<Longrightarrow> trim_suffix p ''/'' = p"
proof -
  assume p: "safe_relative_path p" "p \<noteq> []"
  have "\<not> has_suffix p ''/''"
  proof
    assume "has_suffix p ''/''"
    then obtain t where "p = t @ slash # []" by (auto simp: has_suffix_iff)
    then have "[] \<in> set (split slash p)" by (simp add: split_append_sep)
    with p show False by (auto simp: safe_relative_path_def list_all_iff unsafe_segment_def)
  qed
  then show ?thesis by (simp add: trim_suffix_def)
qed

lemma Normalize_trimmed:
  assumes "NormalizeStorageRelativePath p = Inr p"
  shows "trim_space p = p"
proof -
  have "p = trim_space p \<or> p = trim_suffix (trim_space p) ''/''"
    using assms by (auto simp: NormalizeStorageRelativePath_def Let_def split: if_splits)
  then have "length p = length (trim_space p) \<or> length p = length (trim_suffix (trim_space p) ''/'')"
    by (rule disj_forward) (erule arg_cong)+
  then have "length p \<le> length (trim_space p)"
    using length_trim_suffix [of "trim_space p" "''/''"] by linarith
  then show ?thesis using length_trim_space [of p] by (intro trim_space_eq) simp
qed

lemma Normalize_fixed:
  assumes "trim_space p = p" "safe_relative_path p"
  shows "NormalizeStorageRelativePath p = Inr p"
proof (cases "p = []")
  case False
  then have "\<not> has_prefix p ''/''" "\<not> contains p [backslash]" "\<not> list_ex unsafe_segment (split slash p)"
    using assms(2) by (auto simp: safe_relative_path_def contains_char list_all_iff list_ex_iff)
  then show ?thesis using assms False safe_no_scheme safe_no_trailing_slash
    by (simp add: NormalizeStorageRelativePath_def)
qed (use assms in \<open>simp add: NormalizeStorageRelativePath_def\<close>)

text \<open>
  A normalized storage path is empty or safe (relative, no backslash, no NUL byte, no empty,
  dot or dot-dot segment), and joined to any clean absolute root it stays strictly below that root.
\<close>

theorem NormalizeStorageRelativePath_contained:
  assumes "NormalizeStorageRelativePath raw = Inr p"
    and "root = slash # r" "\<forall>x \<in> set (split slash r). plain_segment x"
  shows "safe_relative_path p \<and> (p \<noteq> [] \<longrightarrow> Join [root, p] = root @ ''/'' @ p)"
proof -
  have safe: "safe_relative_path p" by (rule Normalize_safe [OF assms(1)])
  moreover have "Join [root, p] = root @ ''/'' @ p" if "p \<noteq> []"
    by (rule Join_plain_abs [OF assms(2,3) safe_plain [OF safe that]])
  ultimately show ?thesis by blast
qed

theorem NormalizeStorageRelativePath_contained_witness:
  "NormalizeStorageRelativePath '' team/set-1/ '' = Inr ''team/set-1'' \<and>
   Join [''/mnt/data'', ''team/set-1''] = ''/mnt/data/team/set-1''"
proof -
  have n: "NormalizeStorageRelativePath '' team/set-1/ '' = Inr ''team/set-1''" by code_simp
  have "\<forall>x \<in> set (split slash ''mnt/data''). plain_segment x" by (simp add: plain_segment_def)
  from NormalizeStorageRelativePath_contained [OF n _ this, of "''/mnt/data''"] n show ?thesis by simp
qed

text \<open>
  The fixed points of storage path normalization are exactly the safe paths without
  surrounding white space. A normalized path may still end in white space (left by a removed
  trailing slash), and such a path is not accepted again when its trimmed form ends in a dot segment.
\<close>

theorem NormalizeStorageRelativePath_fixed_points:
  "(NormalizeStorageRelativePath p = Inr p \<longleftrightarrow> trim_space p = p \<and> safe_relative_path p) \<and>
   NormalizeStorageRelativePath ''a/.. /'' = Inr ''a/.. '' \<and>
   NormalizeStorageRelativePath ''a/.. '' = Inl (Errorf ''storage path contains an unsafe segment'' [])"
proof (intro conjI)
  show "NormalizeStorageRelativePath p = Inr p \<longleftrightarrow> trim_space p = p \<and> safe_relative_path p"
    using Normalize_trimmed Normalize_safe Normalize_fixed by blast
qed code_simp+

subsection \<open>Identities own disjoint roots\<close>

lemma identity_ok: "validateDataSpaceIdentity f v = None \<Longrightarrow> slash \<notin> set v \<and> v \<noteq> []"
  using ident_no_slash [of "''._-''" 127 v] ident_not_dots [of "''._-''" 127 v]
  by (auto simp: validateDataSpaceIdentity_def dataSpaceIdentity_def)

lemma sep_cancel: "c \<notin> set a \<Longrightarrow> c \<notin> set b \<Longrightarrow> a @ c # u = b @ c # v \<Longrightarrow> a = b \<and> u = v"
  by (induction a arbitrary: b) (auto simp: Cons_eq_append_conv)

lemma personalDataRoot_prefix_free:
  assumes "slash \<notin> set t" "slash \<notin> set s" "slash \<notin> set t'" "slash \<notin> set s'"
    and "personalDataRoot t s @ x = personalDataRoot t' s' @ y"
  shows "t = t' \<and> s = s'"
proof -
  have "t @ slash # ''users/'' @ s @ slash # x = t' @ slash # ''users/'' @ s' @ slash # y"
    using assms(5) by (simp add: personalDataRoot_def)
  from sep_cancel [OF assms(1,3) this] have "t = t'" "s @ slash # x = s' @ slash # y" by auto
  with sep_cancel [OF assms(2,4)] show ?thesis by blast
qed

lemma space_ids_distinct [simp]:
  "IsWritableDataSpace DataSpaceTeamShared = False" "IsWritableDataSpace DataSpacePublic = False"
  by (simp_all add: IsWritableDataSpace_def go_consts)

lemma writable_space_root:
  assumes "a \<in> set (personalDataSpacesForRoot t root pub)" "IsWritableDataSpace (ds_ID a)"
  shows "has_prefix (ds_RootPrefix a) root"
  using assms by (auto simp: personalDataSpacesForRoot_def has_prefix_iff)

lemma PersonalDataSpacesFor_Inr:
  "PersonalDataSpacesFor t s = Inr spaces \<longleftrightarrow>
   validateDataSpaceIdentity ''tenant'' t = None \<and> validateDataSpaceIdentity ''subject'' s = None \<and>
   spaces = personalDataSpacesForRoot t (personalDataRoot t s) DefaultPublicDataRoot"
  by (auto simp: PersonalDataSpacesFor_def split: option.splits)

text \<open>
  Two identities never share a writable object prefix: if a key below a writable data space of
  one identity also lies below a writable data space of another, both are the same tenant and
  subject.
\<close>

theorem writable_spaces_isolated:
  assumes "PersonalDataSpacesFor t s = Inr spaces" "a \<in> set spaces" "IsWritableDataSpace (ds_ID a)"
    and "PersonalDataSpacesFor t' s' = Inr spaces'" "b \<in> set spaces'" "IsWritableDataSpace (ds_ID b)"
    and "has_prefix (ds_RootPrefix a @ x) (ds_RootPrefix b)"
  shows "t = t' \<and> s = s'"
proof -
  have "has_prefix (ds_RootPrefix a) (personalDataRoot t s)" "has_prefix (ds_RootPrefix b) (personalDataRoot t' s')"
    using assms by (auto simp: PersonalDataSpacesFor_Inr intro: writable_space_root)
  then obtain y z where "ds_RootPrefix a = personalDataRoot t s @ y" "ds_RootPrefix b = personalDataRoot t' s' @ z"
    by (auto simp: has_prefix_iff)
  moreover obtain w where "ds_RootPrefix a @ x = ds_RootPrefix b @ w" using assms(7) by (auto simp: has_prefix_iff)
  ultimately have "personalDataRoot t s @ (y @ x) = personalDataRoot t' s' @ (z @ w)" by simp
  moreover have "slash \<notin> set t" "slash \<notin> set s" "slash \<notin> set t'" "slash \<notin> set s'"
    using assms(1,4) identity_ok by (auto simp: PersonalDataSpacesFor_Inr)
  ultimately show ?thesis using personalDataRoot_prefix_free by blast
qed

lemma identity_alice: "validateDataSpaceIdentity f ''alice'' = None"
  and identity_vision: "validateDataSpaceIdentity f ''vision'' = None"
  by (simp_all add: validateDataSpaceIdentity_def dataSpaceIdentity_def matches_ident_pattern class_defs)
     code_simp+

theorem writable_spaces_isolated_witness:
  "\<exists>spaces. PersonalDataSpacesFor ''vision'' ''alice'' = Inr spaces \<and>
     ds_RootPrefix (spaces ! 2) = ''ray-train/tenants/vision/users/alice/files/'' \<and>
     ''vision'' = ''vision'' \<and> ''alice'' = ''alice''"
proof -
  let ?spaces = "personalDataSpacesForRoot ''vision'' (personalDataRoot ''vision'' ''alice'') DefaultPublicDataRoot"
  have ok: "PersonalDataSpacesFor ''vision'' ''alice'' = Inr ?spaces"
    by (simp add: PersonalDataSpacesFor_Inr identity_alice identity_vision)
  have a: "?spaces ! 2 \<in> set ?spaces" "IsWritableDataSpace (ds_ID (?spaces ! 2))"
    by (simp_all add: personalDataSpacesForRoot_def IsWritableDataSpace_def)
  have "has_prefix (ds_RootPrefix (?spaces ! 2) @ ''x'') (ds_RootPrefix (?spaces ! 2))" by simp
  from writable_spaces_isolated [OF ok a ok a this] ok
  show ?thesis by (simp add: personalDataSpacesForRoot_def personalDataRoot_def)
qed

definition below_runs :: "string \<Rightarrow> bool" where \<comment> \<open>strictly below a personal runs directory\<close>
  "below_runs p \<longleftrightarrow> (\<exists>q. p = ''runs/'' @ q \<and> q \<noteq> []) \<or>
     (\<exists>t u q. split slash p = [''tenants'', t, ''users'', u, ''runs''] @ q \<and> q \<noteq> [])"

lemma isResolvedRunsSubPath_below: "isResolvedRunsSubPath p \<Longrightarrow> below_runs p"
proof (cases "has_prefix p ''runs/'' \<and> trim_prefix p ''runs/'' \<noteq> []")
  case True
  then show ?thesis by (auto simp: below_runs_def has_prefix_iff trim_prefix_def)
next
  case False
  assume runs: "isResolvedRunsSubPath p"
  let ?s = "split slash p"
  have len: "6 \<le> length ?s" and parts: "?s ! 0 = ''tenants''" "?s ! 2 = ''users''" "?s ! 4 = ''runs''"
    using runs False by (auto simp: isResolvedRunsSubPath_def Let_def)
  have "?s = take 5 ?s @ drop 5 ?s" by simp
  also have "take 5 ?s = [?s ! 0, ?s ! 1, ?s ! 2, ?s ! 3, ?s ! 4]"
    using len by (intro nth_equalityI) (auto simp: less_Suc_eq numeral_eq_Suc)
  finally have "?s = [''tenants'', ?s ! 1, ''users'', ?s ! 3, ''runs''] @ drop 5 ?s" using parts by simp
  moreover have "drop 5 ?s \<noteq> []" using len by simp
  ultimately show ?thesis unfolding below_runs_def by blast
qed

lemma ResolvedDataMount_output:
  assumes "ResolvedDataMount_validate m name path ro True = None"
  shows "rdm_Space m = DataSpaceMyRuns" "rdm_BindingSpace m = DataSpaceWorkspace" "matches dnsLabel (rdm_ClaimName m)"
    "\<exists>p. NormalizeStorageRelativePath (rdm_SubPath m) = Inr p \<and> safe_relative_path p \<and> below_runs p"
  using assms Normalize_safe isResolvedRunsSubPath_below
  by (auto simp: ResolvedDataMount_validate_def dataSpaceBindingSpace_def split: sum.splits)

lemma ResolvedDataMount_contract:
  assumes "ResolvedDataMount_validate m name path ro out = None"
  shows "rdm_MountPath m = path" "rdm_ReadOnly m = ro"
  using assms by (auto simp: ResolvedDataMount_validate_def split: sum.splits)

text \<open>
  A resolved output mount that passes validation is writable, mounted at the fixed output path, on
  a well-formed claim, and its normalized sub path lies strictly below a personal \<open>runs\<close> directory;
  input and checkpoint mounts are read-only at their own fixed paths.
\<close>

theorem resolved_mounts_contract:
  assumes "ResolvedDataSpaceMounts_Validate mounts = None"
  shows "(\<forall>m. rdms_Output mounts = Some m \<longrightarrow> \<not> rdm_ReadOnly m \<and> rdm_MountPath m = ''/mnt/data/output'' \<and>
            rdm_Space m = DataSpaceMyRuns \<and> rdm_BindingSpace m = DataSpaceWorkspace \<and> matches dnsLabel (rdm_ClaimName m) \<and>
            (\<exists>p. NormalizeStorageRelativePath (rdm_SubPath m) = Inr p \<and> safe_relative_path p \<and> below_runs p)) \<and>
         (\<forall>m. rdms_Input mounts = Some m \<longrightarrow> rdm_ReadOnly m \<and> rdm_MountPath m = ''/mnt/data/input'') \<and>
         (\<forall>m. rdms_Checkpoint mounts = Some m \<longrightarrow> rdm_ReadOnly m \<and> rdm_MountPath m = ''/mnt/data/checkpoints'')"
proof (intro conjI allI impI)
  note valid = assms [unfolded ResolvedDataSpaceMounts_Validate_def validate_data_mount_def, simplified]
  fix m
  { assume "rdms_Output mounts = Some m"
    with valid have "ResolvedDataMount_validate m ''output'' DataMountOutputPath False True = None" by simp
    note out = ResolvedDataMount_contract [OF this] ResolvedDataMount_output [OF this]
    from out show "\<not> rdm_ReadOnly m" "rdm_MountPath m = ''/mnt/data/output''" by (simp_all add: go_consts)
    from out show "rdm_Space m = DataSpaceMyRuns" "rdm_BindingSpace m = DataSpaceWorkspace"
      "matches dnsLabel (rdm_ClaimName m)"
      "\<exists>p. NormalizeStorageRelativePath (rdm_SubPath m) = Inr p \<and> safe_relative_path p \<and> below_runs p" by simp_all }
  { assume "rdms_Input mounts = Some m"
    with valid have "ResolvedDataMount_validate m ''input'' DataMountInputPath True False = None" by simp
    from ResolvedDataMount_contract [OF this]
    show "rdm_ReadOnly m" "rdm_MountPath m = ''/mnt/data/input''" by (simp_all add: go_consts) }
  { assume "rdms_Checkpoint mounts = Some m"
    with valid have "ResolvedDataMount_validate m ''checkpoint'' DataMountCheckpointPath True False = None" by simp
    from ResolvedDataMount_contract [OF this]
    show "rdm_ReadOnly m" "rdm_MountPath m = ''/mnt/data/checkpoints''" by (simp_all add: go_consts) }
qed

definition sample_runs_mount :: ResolvedDataMount where
  "sample_runs_mount = \<lparr>rdm_Space = DataSpaceMyRuns, rdm_BindingSpace = DataSpaceWorkspace, rdm_ClaimName = ''ws-a'',
     rdm_SubPath = ''runs/job-1'', rdm_MountPath = DataMountOutputPath, rdm_ReadOnly = False\<rparr>"

theorem resolved_mounts_contract_witness:
  "\<not> rdm_ReadOnly sample_runs_mount \<and> rdm_MountPath sample_runs_mount = ''/mnt/data/output''"
proof -
  have "ResolvedDataSpaceMounts_Validate \<lparr>rdms_Input = None, rdms_Checkpoint = None, rdms_Output = Some sample_runs_mount\<rparr> = None"
    by code_simp
  from resolved_mounts_contract [OF this] show ?thesis by simp
qed

end
