(* ===== verification/Go_Url.thy ===== *)
theory Go_Url
  imports Go_Regexp
begin

section \<open>Package net/url\<close>

text \<open>
  \<open>url.Parse\<close>, \<open>url.ParseRequestURI\<close>, \<open>URL.Hostname\<close> and \<open>url.PathUnescape\<close> as in the
  Go 1.25.0 standard library that \<open>backend/go.mod\<close> names. Every error is \<open>None\<close>: the sources
  only test for its presence. Of \<open>*url.Userinfo\<close> the sources only test whether it is \<open>nil\<close>.
\<close>

subsection \<open>Splitting helpers\<close>

fun cut :: "char \<Rightarrow> string \<Rightarrow> string \<times> string" where \<comment> \<open>\<open>before, after, _ = strings.Cut(s, c)\<close>\<close>
  "cut c [] = ([], [])"
| "cut c (x # s) = (if x = c then ([], s) else map_prod ((#) x) id (cut c s))"

definition before_last :: "char \<Rightarrow> string \<Rightarrow> string" where \<comment> \<open>\<open>s[:LastIndexByte(s, c)]\<close>, if any\<close>
  "before_last c s = rev (drop 1 (dropWhile (\<lambda>x. x \<noteq> c) (rev s)))"

definition after_last :: "char \<Rightarrow> string \<Rightarrow> string" where \<comment> \<open>\<open>s[LastIndexByte(s, c)+1:]\<close>\<close>
  "after_last c s = rev (takeWhile (\<lambda>x. x \<noteq> c) (rev s))"

fun trim_byte :: "char \<Rightarrow> string \<Rightarrow> string" where
  "trim_byte c s = rev (dropWhile (\<lambda>x. x = c) (rev (dropWhile (\<lambda>x. x = c) s)))"

subsection \<open>Percent decoding\<close>

datatype encoding = encodePath | encodePathSegment | encodeHost | encodeZone | encodeUserPassword | encodeFragment

definition unhex :: "char \<Rightarrow> nat" where
  "unhex c = (let n = of_char c in if 48 \<le> n \<and> n \<le> 57 then n - 48 else if 97 \<le> n \<and> n \<le> 102 then n - 87 else n - 55)"

definition host_char :: "char \<Rightarrow> bool" where \<comment> \<open>\<open>!shouldEscape(c, encodeHost)\<close>, the same for \<open>encodeZone\<close>\<close>
  "host_char c \<longleftrightarrow> is_alnum c \<or> c \<in> set ''!$&()*+,;=:[]<>-_.~'' \<or> c = CHR 0x27 \<or> c = CHR 0x22"

fun unescape :: "encoding \<Rightarrow> string \<Rightarrow> string option" where
  "unescape m [] = Some []"
| "unescape m (c # s) =
     (if c = CHR ''%'' then
        (case s of
           h # l # t \<Rightarrow>
             let v = char_of (16 * unhex h + unhex l) in
             if \<not> is_hex h \<or> \<not> is_hex l then None
             else if m = encodeHost \<and> unhex h < 8 \<and> \<not> (h = CHR ''2'' \<and> l = CHR ''5'') then None
             else if m = encodeZone \<and> \<not> (h = CHR ''2'' \<and> l = CHR ''5'') \<and> v \<noteq> CHR '' '' \<and> \<not> host_char v then None
             else map_option ((#) v) (unescape m t)
         | _ \<Rightarrow> None)
      else if (m = encodeHost \<or> m = encodeZone) \<and> (of_char c :: nat) < 128 \<and> \<not> host_char c then None
      else map_option ((#) c) (unescape m s))"

definition PathUnescape :: "string \<Rightarrow> string option" where
  "PathUnescape s = unescape encodePathSegment s"

subsection \<open>Authority\<close>

definition validOptionalPort :: "string \<Rightarrow> bool" where
  "validOptionalPort p = (case p of [] \<Rightarrow> True | c # ds \<Rightarrow> c = CHR '':'' \<and> list_all is_digit ds)"

definition validUserinfo :: "string \<Rightarrow> bool" where
  "validUserinfo s = list_all (\<lambda>c. is_alnum c \<or> c \<in> set ''-._:~!$&()*+,;=%@'' \<or> c = CHR 0x27) s"

text \<open>\<open>index_of s p\<close> is the prefix of \<open>s\<close> before the first occurrence of \<open>p\<close>, if there is one.\<close>

fun before_first :: "string \<Rightarrow> string \<Rightarrow> string option" where
  "before_first p [] = (if p = [] then Some [] else None)"
| "before_first p (c # s) = (if has_prefix (c # s) p then Some [] else map_option ((#) c) (before_first p s))"

definition parseHost :: "string \<Rightarrow> string option" where
  "parseHost host =
     (if has_prefix host ''['' then
        (if CHR '']'' \<notin> set host then None
         else if \<not> validOptionalPort (after_last CHR '']'' host) then None
         else
           let inner = before_last CHR '']'' host; rest = drop (length inner) host in
           case before_first ''%25'' inner of
             None \<Rightarrow> unescape encodeHost host
           | Some h1 \<Rightarrow>
               (case (unescape encodeHost h1, unescape encodeZone (drop (length h1) inner), unescape encodeHost rest) of
                  (Some a, Some b, Some c) \<Rightarrow> Some (a @ b @ c)
                | _ \<Rightarrow> None))
      else if CHR '':'' \<in> set host \<and> \<not> validOptionalPort (CHR '':'' # after_last CHR '':'' host) then None
      else unescape encodeHost host)"

definition parseAuthority :: "string \<Rightarrow> (bool \<times> string) option" where \<comment> \<open>user present, host\<close>
  "parseAuthority a =
     (if CHR ''@'' \<notin> set a then map_option (Pair False) (parseHost a)
      else
        let userinfo = before_last CHR ''@'' a in
        case parseHost (after_last CHR ''@'' a) of
          None \<Rightarrow> None
        | Some host \<Rightarrow>
            if \<not> validUserinfo userinfo then None
            else if CHR '':'' \<notin> set userinfo then map_option (\<lambda>_. (True, host)) (unescape encodeUserPassword userinfo)
            else (case cut CHR '':'' userinfo of (user, password) \<Rightarrow>
              (case (unescape encodeUserPassword user, unescape encodeUserPassword password) of
                 (Some _, Some _) \<Rightarrow> Some (True, host)
               | _ \<Rightarrow> None)))"

subsection \<open>Whole references\<close>

record url =
  url_Scheme :: string
  url_Opaque :: string
  url_HasUser :: bool
  url_Host :: string
  url_Path :: string
  url_RawQuery :: string
  url_Fragment :: string

definition empty_url :: url where
  "empty_url = \<lparr>url_Scheme = [], url_Opaque = [], url_HasUser = False, url_Host = [], url_Path = [],
     url_RawQuery = [], url_Fragment = []\<rparr>"

text \<open>\<open>getScheme\<close>: the scheme, the rest, or \<open>None\<close> for a missing scheme before the colon.\<close>

fun scheme_from :: "nat \<Rightarrow> string \<Rightarrow> string \<Rightarrow> string \<Rightarrow> (string \<times> string) option" where
  "scheme_from i acc raw [] = Some ([], raw)"
| "scheme_from i acc raw (c # s) =
     (if is_lower c \<or> is_upper c then scheme_from (Suc i) (c # acc) raw s
      else if is_digit c \<or> c \<in> set ''+-.'' then
        (if i = 0 then Some ([], raw) else scheme_from (Suc i) (c # acc) raw s)
      else if c = CHR '':'' then (if i = 0 then None else Some (rev acc, s))
      else Some ([], raw))"

definition getScheme :: "string \<Rightarrow> (string \<times> string) option" where
  "getScheme raw = scheme_from 0 [] raw raw"

definition has_ctl :: "string \<Rightarrow> bool" where \<comment> \<open>\<open>stringContainsCTLByte\<close>\<close>
  "has_ctl s = list_ex (\<lambda>c. (of_char c :: nat) < 32 \<or> c = CHR 0x7F) s"

definition split_query :: "string \<Rightarrow> string \<times> string" where
  "split_query rest =
     (if has_suffix rest ''?'' \<and> count_list rest (CHR ''?'') = 1 then (butlast rest, [])
      else cut (CHR ''?'') rest)"

definition parse_rest :: "bool \<Rightarrow> url \<Rightarrow> string \<Rightarrow> url option" where
  "parse_rest viaRequest u rest =
     (let scheme = url_Scheme u in
      if \<not> has_prefix rest ''/'' \<and> scheme \<noteq> [] then Some (u\<lparr>url_Opaque := rest\<rparr>)
      else if \<not> has_prefix rest ''/'' \<and> (viaRequest \<or> CHR '':'' \<in> set (fst (cut slash rest))) then None
      else if (scheme \<noteq> [] \<or> \<not> viaRequest \<and> \<not> has_prefix rest ''///'') \<and> has_prefix rest ''//'' then
        let auth = fst (cut slash (drop 2 rest)); rest' = drop (length auth + 2) rest in
        (case parseAuthority auth of
           None \<Rightarrow> None
         | Some (user, host) \<Rightarrow>
             map_option (\<lambda>p. u\<lparr>url_HasUser := user, url_Host := host, url_Path := p\<rparr>) (unescape encodePath rest'))
      else map_option (\<lambda>p. u\<lparr>url_Path := p\<rparr>) (unescape encodePath rest))"

definition parse :: "bool \<Rightarrow> string \<Rightarrow> url option" where
  "parse viaRequest raw =
     (if has_ctl raw then None
      else if raw = [] \<and> viaRequest then None
      else if raw = ''*'' then Some (empty_url\<lparr>url_Path := ''*''\<rparr>)
      else case getScheme raw of
        None \<Rightarrow> None
      | Some (scheme, rest) \<Rightarrow>
          (case split_query rest of (rest, query) \<Rightarrow>
             parse_rest viaRequest (empty_url\<lparr>url_Scheme := to_lower scheme, url_RawQuery := query\<rparr>) rest))"

definition url_Parse :: "string \<Rightarrow> url option" where
  "url_Parse raw =
     (case cut CHR ''#'' raw of (u, frag) \<Rightarrow>
        (case parse False u of
           None \<Rightarrow> None
         | Some parsed \<Rightarrow>
             if frag = [] then Some parsed
             else map_option (\<lambda>f. parsed\<lparr>url_Fragment := f\<rparr>) (unescape encodeFragment frag)))"

definition ParseRequestURI :: "string \<Rightarrow> url option" where
  "ParseRequestURI raw = parse True raw"

definition Hostname :: "url \<Rightarrow> string" where
  "Hostname u =
     (let h = url_Host u;
          host = (if CHR '':'' \<in> set h \<and> validOptionalPort (CHR '':'' # after_last CHR '':'' h)
                  then before_last CHR '':'' h else h)
      in if has_prefix host ''['' \<and> has_suffix host '']'' then butlast (tl host) else host)"

subsection \<open>Plain relative references\<close>

text \<open>
  A relative reference without the delimiters \<open>:\<close>, \<open>?\<close>, \<open>#\<close> and \<open>%\<close> and without control
  bytes parses to itself, as a path.
\<close>

lemma unescape_plain: "CHR ''%'' \<notin> set s \<Longrightarrow> m \<noteq> encodeHost \<Longrightarrow> m \<noteq> encodeZone \<Longrightarrow> unescape m s = Some s"
  by (induction s) auto

lemma cut_absent: "c \<notin> set s \<Longrightarrow> cut c s = (s, [])"
  by (induction s) auto

lemma scheme_from_plain: "CHR '':'' \<notin> set s \<Longrightarrow> scheme_from i acc raw s = Some ([], raw)"
  by (induction s arbitrary: i acc) auto

lemma url_Parse_plain:
  assumes "CHR '':'' \<notin> set s" "CHR ''?'' \<notin> set s" "CHR ''#'' \<notin> set s" "CHR ''%'' \<notin> set s"
    and "\<not> has_ctl s" "\<not> has_prefix s ''/''"
  shows "url_Parse s = Some (empty_url\<lparr>url_Path := s\<rparr>)"
proof -
  have q: "split_query s = (s, [])"
    using assms(2) by (auto simp: split_query_def cut_absent has_suffix_iff)
  have c: "CHR '':'' \<notin> set (fst (cut slash s))"
    using assms(1) by (induction s) auto
  have s: "\<not> has_prefix s ''//''" using assms(6) by (cases s) (auto simp: has_prefix_def)
  have "parse_rest False (empty_url\<lparr>url_Scheme := to_lower [], url_RawQuery := []\<rparr>) s = Some (empty_url\<lparr>url_Path := s\<rparr>)"
    using assms(4,6) c s by (simp add: parse_rest_def unescape_plain empty_url_def Let_def)
  then have "parse False s = Some (empty_url\<lparr>url_Path := s\<rparr>)"
    using assms(5) q by (simp add: parse_def getScheme_def scheme_from_plain [OF assms(1)])
  then show ?thesis by (simp add: url_Parse_def cut_absent [OF assms(3)])
qed

end
