(* ===== verification/Training_Engine.thy ===== *)
theory Training_Engine
  imports Storage Go_Url
begin

section \<open>Training engines and the managed training policy\<close>

text \<open>
  \<open>backend/domain/training_engine.go\<close>: the engine and data-mode constants, the Ray Data dataset
  reference with its validating constructor and JSON boundary, and the managed training policy.
  The JSON methods are modelled on the decoded \<open>{format, uri}\<close> object (\<open>None\<close> is \<open>null\<close>); the
  text layer of \<open>encoding/json\<close> around it is not part of the model.
\<close>

definition TrainingEngineRayDDP :: string where [go_consts]: "TrainingEngineRayDDP = ''ray-ddp''"
definition TrainingEngineRayTrain :: string where [go_consts]: "TrainingEngineRayTrain = ''ray-train''"
definition RayVersionLegacy :: string where [go_consts]: "RayVersionLegacy = ''2.35.0''"
definition RayVersionProduction :: string where [go_consts]: "RayVersionProduction = ''2.56.1''"
definition RayVersionCanary :: string where [go_consts]: "RayVersionCanary = ''2.58.0''"
definition ManagedMaxFailuresLimit :: int where [go_consts]: "ManagedMaxFailuresLimit = 10"
definition ManagedCheckpointEveryEpochsLimit :: int where [go_consts]: "ManagedCheckpointEveryEpochsLimit = 100000"
definition ManagedCheckpointRetentionLimit :: int where [go_consts]: "ManagedCheckpointRetentionLimit = 1000"

definition TrainingEngine_Resolved :: "string \<Rightarrow> string" where
  "TrainingEngine_Resolved engine = (if blank engine then TrainingEngineRayDDP else engine)"

definition DataModeMount :: string where [go_consts]: "DataModeMount = ''mount''"
definition DataModeCache :: string where [go_consts]: "DataModeCache = ''cache''"
definition DataModeRayData :: string where [go_consts]: "DataModeRayData = ''ray-data''"
definition DataModeRayDataStage :: string where [go_consts]: "DataModeRayDataStage = ''ray-data-stage''"
definition DataModeStreaming :: string where [go_consts]: "DataModeStreaming = ''streaming''"
definition RayDataFormatParquet :: string where [go_consts]: "RayDataFormatParquet = ''parquet''"
definition RayDataFormatImages :: string where [go_consts]: "RayDataFormatImages = ''images''"
definition RayDataFormatFiles :: string where [go_consts]: "RayDataFormatFiles = ''files''"

subsection \<open>Ray Data dataset references\<close>

record RayDataDatasetConfig =
  rd_format :: string
  rd_uri :: string

definition zero_RayData :: RayDataDatasetConfig where
  "zero_RayData = \<lparr>rd_format = [], rd_uri = []\<rparr>"

definition NewRayDataDatasetConfig :: "string \<Rightarrow> string \<Rightarrow> RayDataDatasetConfig result" where
  "NewRayDataDatasetConfig rawFormat rawPath =
     (let format = trim_space rawFormat; relativePath = trim_space rawPath; cleaned = Clean relativePath in
      if format \<noteq> RayDataFormatParquet \<and> format \<noteq> RayDataFormatImages \<and> format \<noteq> RayDataFormatFiles then
        Inl (Errorf ''unsupported Ray Data format %q'' [ArgS format])
      else if relativePath = [] then Inl (Errorf ''Ray Data dataset path is required'' [])
      else if has_control relativePath then Inl (Errorf ''Ray Data dataset path contains control characters'' [])
      else if contains relativePath [backslash] then Inl (Errorf ''Ray Data dataset path must use POSIX separators'' [])
      else case url_Parse relativePath of
        None \<Rightarrow> Inl (Wrapf ''invalid Ray Data dataset path: %w'' [] (Errorf ''parse %q'' [ArgS relativePath]))
      | Some parsed \<Rightarrow>
          if url_Scheme parsed \<noteq> [] \<or> url_Host parsed \<noteq> [] \<or> url_HasUser parsed then
            Inl (Errorf ''Ray Data dataset path must not contain a URI scheme or credentials'' [])
          else if url_RawQuery parsed \<noteq> [] \<or> url_Fragment parsed \<noteq> [] then
            Inl (Errorf ''Ray Data dataset path must not contain a query or fragment'' [])
          else if IsAbs relativePath then
            Inl (Errorf ''Ray Data dataset path must be relative to %s'' [ArgS DataMountInputPath])
          else if list_ex (\<lambda>seg. seg = ''..'' \<or> (seg = ''.'' \<and> \<not> (relativePath = ''.'' \<and> format = RayDataFormatFiles)))
                    (split slash relativePath) then
            Inl (Errorf ''Ray Data dataset path must not contain traversal segments'' [])
          else if cleaned = ''.'' \<and> format \<noteq> RayDataFormatFiles then
            Inl (Errorf ''Ray Data dataset path is required'' [])
          else if has_prefix cleaned ''../'' \<or> cleaned \<noteq> relativePath then
            Inl (Errorf ''Ray Data dataset path must be a clean relative path'' [])
          else Inr \<lparr>rd_format = format,
                 rd_uri = (if cleaned \<noteq> ''.'' then Join [DataMountInputPath, cleaned] else DataMountInputPath)\<rparr>)"

definition RayData_IsZero :: "RayDataDatasetConfig \<Rightarrow> bool" where
  "RayData_IsZero config \<longleftrightarrow> rd_format config = [] \<and> rd_uri config = []"

text \<open>The relative part of a stored URI, shared by \<open>Validate\<close> and \<open>UnmarshalJSON\<close>.\<close>

definition rayData_relative :: "string \<Rightarrow> string result" where
  "rayData_relative uri =
     (if uri = DataMountInputPath then Inr ''.''
      else if \<not> has_prefix uri (DataMountInputPath @ ''/'') then
        Inl (Errorf ''Ray Data dataset URI must stay below %s'' [ArgS DataMountInputPath])
      else Inr (trim_prefix uri (DataMountInputPath @ ''/'')))"

definition RayData_Validate :: "RayDataDatasetConfig \<Rightarrow> error option" where
  "RayData_Validate config =
     (if RayData_IsZero config then Some (Errorf ''Ray Data dataset config is required'' [])
      else case rayData_relative (rd_uri config) of
        Inl e \<Rightarrow> Some e
      | Inr relative \<Rightarrow>
          (case NewRayDataDatasetConfig (rd_format config) relative of
             Inl e \<Rightarrow> Some e
           | Inr validated \<Rightarrow> check (validated \<noteq> config) (Errorf ''Ray Data dataset config is not canonical'' [])))"

definition RayData_MarshalJSON :: "RayDataDatasetConfig \<Rightarrow> (string \<times> string) option result" where
  "RayData_MarshalJSON config =
     (if RayData_IsZero config then Inr None
      else case RayData_Validate config of
        Some e \<Rightarrow> Inl e
      | None \<Rightarrow> Inr (Some (rd_format config, rd_uri config)))"

definition RayData_UnmarshalJSON :: "(string \<times> string) option \<Rightarrow> RayDataDatasetConfig result" where
  "RayData_UnmarshalJSON payload =
     (case payload of
        None \<Rightarrow> Inr zero_RayData
      | Some (format, uri) \<Rightarrow>
          (case rayData_relative uri of
             Inl e \<Rightarrow> Inl e
           | Inr relative \<Rightarrow>
               (case NewRayDataDatasetConfig format relative of
                  Inl e \<Rightarrow> Inl e
                | Inr validated \<Rightarrow>
                    if rd_uri validated \<noteq> uri then Inl (Errorf ''Ray Data dataset URI is not canonical'' [])
                    else Inr validated)))"

subsection \<open>Managed training policy\<close>

record CheckpointPolicy =
  cp_EveryEpochs :: int
  cp_KeepLatest :: int
  cp_KeepBest :: int

record ManagedTrainingPolicy =
  mtp_MaxFailures :: int
  mtp_Checkpoint :: CheckpointPolicy
  mtp_RayData :: RayDataDatasetConfig

definition zero_ManagedTrainingPolicy :: ManagedTrainingPolicy where
  "zero_ManagedTrainingPolicy = \<lparr>mtp_MaxFailures = 0,
     mtp_Checkpoint = \<lparr>cp_EveryEpochs = 0, cp_KeepLatest = 0, cp_KeepBest = 0\<rparr>, mtp_RayData = zero_RayData\<rparr>"

definition ManagedTrainingPolicy_Validate :: "ManagedTrainingPolicy \<Rightarrow> error option" where
  "ManagedTrainingPolicy_Validate policy = first_error [
     check (mtp_MaxFailures policy < 0 \<or> mtp_MaxFailures policy > ManagedMaxFailuresLimit)
       (Errorf ''maxFailures must be between 0 and %d'' [ArgI ManagedMaxFailuresLimit]),
     check (cp_EveryEpochs (mtp_Checkpoint policy) < 0 \<or> cp_EveryEpochs (mtp_Checkpoint policy) > ManagedCheckpointEveryEpochsLimit)
       (Errorf ''checkpoint.everyEpochs must be between 0 and %d'' [ArgI ManagedCheckpointEveryEpochsLimit]),
     check (cp_KeepLatest (mtp_Checkpoint policy) < 0 \<or> cp_KeepLatest (mtp_Checkpoint policy) > ManagedCheckpointRetentionLimit)
       (Errorf ''checkpoint.keepLatest must be between 0 and %d'' [ArgI ManagedCheckpointRetentionLimit]),
     check (cp_KeepBest (mtp_Checkpoint policy) < 0 \<or> cp_KeepBest (mtp_Checkpoint policy) > ManagedCheckpointRetentionLimit)
       (Errorf ''checkpoint.keepBest must be between 0 and %d'' [ArgI ManagedCheckpointRetentionLimit]),
     (if \<not> RayData_IsZero (mtp_RayData policy) then RayData_Validate (mtp_RayData policy) else None)]"

definition ManagedTrainingPolicy_ValidateDataMode :: "ManagedTrainingPolicy \<Rightarrow> string \<Rightarrow> error option" where
  "ManagedTrainingPolicy_ValidateDataMode policy mode = first_error [
     ManagedTrainingPolicy_Validate policy,
     (if mode = DataModeRayData \<or> mode = DataModeRayDataStage then first_error [
        RayData_Validate (mtp_RayData policy),
        check (mode = DataModeRayDataStage \<and> rd_format (mtp_RayData policy) \<noteq> RayDataFormatFiles)
          (Errorf ''ray-data-stage requires files format'' []),
        check (mode = DataModeRayData \<and> rd_format (mtp_RayData policy) = RayDataFormatFiles)
          (Errorf ''ray-data streaming requires parquet or images format'' [])]
      else check (\<not> RayData_IsZero (mtp_RayData policy))
        (Errorf ''Ray Data dataset config requires ray-data mode'' []))]"

definition ManagedTrainingPolicy_ValidateResolvedDataMode ::
    "ManagedTrainingPolicy \<Rightarrow> string \<Rightarrow> ResolvedDataSpaceMounts \<Rightarrow> error option" where
  "ManagedTrainingPolicy_ValidateResolvedDataMode policy mode mounts =
     (if mode \<noteq> DataModeRayData \<and> mode \<noteq> DataModeRayDataStage then None
      else case rdms_Input mounts of
        None \<Rightarrow> Some (Errorf ''ray-data requires a resolved governed input mount'' [])
      | Some m \<Rightarrow>
          check (rdm_MountPath m \<noteq> DataMountInputPath \<or> \<not> rdm_ReadOnly m)
            (Errorf ''ray-data input must be mounted read-only at %s'' [ArgS DataMountInputPath]))"

subsection \<open>Properties of the Ray Data reference\<close>

lemma NewRayData_Inr:
  assumes "NewRayDataDatasetConfig f p = Inr c"
  defines "format \<equiv> trim_space f" and "rel \<equiv> trim_space p"
  shows "rd_format c = format" "format \<noteq> []"
    and "(rel = ''.'' \<and> format = RayDataFormatFiles \<and> rd_uri c = DataMountInputPath) \<or>
         (rel \<noteq> ''.'' \<and> (\<forall>x \<in> set (split slash rel). plain_segment x) \<and> rd_uri c = DataMountInputPath @ ''/'' @ rel)"
proof -
  show "rd_format c = format"
    using assms by (auto simp: NewRayDataDatasetConfig_def Let_def split: if_splits option.splits)
  show "format \<noteq> []"
    using assms by (auto simp: NewRayDataDatasetConfig_def Let_def go_consts split: if_splits option.splits)
  note new = assms(1) [unfolded NewRayDataDatasetConfig_def Let_def, folded format_def rel_def]
  have clean: "Clean rel = rel"
    by (rule ccontr) (use new in \<open>simp split: if_splits option.splits\<close>)
  have abs: "\<not> IsAbs rel"
    by (rule notI) (use new in \<open>simp split: if_splits option.splits\<close>)
  have dots: "''..'' \<notin> set (split slash rel)"
    by (rule notI) (use new in \<open>auto simp: list_ex_iff split: if_splits option.splits\<close>)
  have uri: "rd_uri c = (if rel \<noteq> ''.'' then Join [DataMountInputPath, rel] else DataMountInputPath)"
    using new by (simp only: clean split: if_splits option.splits) auto
  have files: "format = RayDataFormatFiles" if "rel = ''.''"
    by (rule ccontr) (use new clean that in \<open>simp split: if_splits option.splits\<close>)
  have "Join [DataMountInputPath, rel] = DataMountInputPath @ ''/'' @ rel"
    if "\<forall>x \<in> set (split slash rel). plain_segment x"
    using that by (intro Join_plain_abs [of _ "''mnt/data/input''"]) (simp_all add: go_consts plain_segment_def)
  then show "(rel = ''.'' \<and> format = RayDataFormatFiles \<and> rd_uri c = DataMountInputPath) \<or>
         (rel \<noteq> ''.'' \<and> (\<forall>x \<in> set (split slash rel). plain_segment x) \<and> rd_uri c = DataMountInputPath @ ''/'' @ rel)"
    using uri files clean_relative_segments [OF clean abs dots] by metis
qed

lemma rayData_relative_uri:
  assumes "NewRayDataDatasetConfig f p = Inr c"
  shows "rayData_relative (rd_uri c) = Inr (trim_space p)"
  using NewRayData_Inr(3) [OF assms]
  by (auto simp: rayData_relative_def trim_prefix_def has_prefix_iff)

lemma NewRayData_canonical:
  "NewRayDataDatasetConfig (trim_space f) (trim_space p) = NewRayDataDatasetConfig f p"
  by (simp add: NewRayDataDatasetConfig_def)

lemma NewRayData_Validate:
  assumes "NewRayDataDatasetConfig f p = Inr c"
  shows "RayData_Validate c = None"
  using assms NewRayData_Inr(1,2) [OF assms] rayData_relative_uri [OF assms] NewRayData_canonical [of f p]
  by (simp add: RayData_Validate_def RayData_IsZero_def)

lemma RayData_Validate_New:
  assumes "RayData_Validate c = None"
  shows "\<exists>rel. rayData_relative (rd_uri c) = Inr rel \<and> NewRayDataDatasetConfig (rd_format c) rel = Inr c"
  using assms by (auto simp: RayData_Validate_def split: if_splits sum.splits)

text \<open>
  A Ray Data reference that validates, equivalently one that the constructor returns, points at
  the governed input mount or strictly below it through plain path segments only, so it cannot
  escape the mount.
\<close>

theorem RayData_stays_below_input:
  "(RayData_Validate c = None \<longleftrightarrow> (\<exists>f p. NewRayDataDatasetConfig f p = Inr c)) \<and>
   (RayData_Validate c = None \<longrightarrow>
      rd_uri c = ''/mnt/data/input'' \<or>
      (\<exists>rel. rd_uri c = ''/mnt/data/input/'' @ rel \<and> (\<forall>x \<in> set (split slash rel). plain_segment x)))"
proof (intro conjI impI)
  show eq: "RayData_Validate c = None \<longleftrightarrow> (\<exists>f p. NewRayDataDatasetConfig f p = Inr c)"
    using NewRayData_Validate RayData_Validate_New by blast
  assume "RayData_Validate c = None"
  with eq obtain f p where "NewRayDataDatasetConfig f p = Inr c" by blast
  from NewRayData_Inr(3) [OF this] show "rd_uri c = ''/mnt/data/input'' \<or>
      (\<exists>rel. rd_uri c = ''/mnt/data/input/'' @ rel \<and> (\<forall>x \<in> set (split slash rel). plain_segment x))"
    by (auto simp: go_consts)
qed

theorem RayData_stays_below_input_witness:
  "\<exists>rel. ''/mnt/data/input/train/part-0'' = ''/mnt/data/input/'' @ rel \<and> (\<forall>x \<in> set (split slash rel). plain_segment x)"
proof -
  have "RayData_Validate \<lparr>rd_format = ''parquet'', rd_uri = ''/mnt/data/input/train/part-0''\<rparr> = None" by code_simp
  with RayData_stays_below_input [of "\<lparr>rd_format = ''parquet'', rd_uri = ''/mnt/data/input/train/part-0''\<rparr>"]
  show ?thesis by simp
qed

text \<open>
  The JSON boundary of a Ray Data reference round-trips: whatever marshals (the zero
  value as null) unmarshals to the same value, and whatever unmarshals is zero or valid.
\<close>

theorem RayData_json_roundtrip:
  "(RayData_MarshalJSON c = Inr payload \<longrightarrow> RayData_UnmarshalJSON payload = Inr c) \<and>
   (RayData_UnmarshalJSON payload = Inr c \<longrightarrow> RayData_IsZero c \<or> RayData_Validate c = None)"
proof (intro conjI impI)
  assume m: "RayData_MarshalJSON c = Inr payload"
  show "RayData_UnmarshalJSON payload = Inr c"
  proof (cases "RayData_IsZero c")
    case True
    with m show ?thesis
      by (cases c) (auto simp: RayData_MarshalJSON_def RayData_UnmarshalJSON_def zero_RayData_def RayData_IsZero_def)
  next
    case False
    with m have "RayData_Validate c = None" "payload = Some (rd_format c, rd_uri c)"
      by (auto simp: RayData_MarshalJSON_def split: option.splits)
    with RayData_Validate_New [of c] show ?thesis by (auto simp: RayData_UnmarshalJSON_def)
  qed
next
  assume "RayData_UnmarshalJSON payload = Inr c"
  then have "c = zero_RayData \<or> (\<exists>f p. NewRayDataDatasetConfig f p = Inr c)"
    by (auto simp: RayData_UnmarshalJSON_def split: option.splits sum.splits if_splits)
  then show "RayData_IsZero c \<or> RayData_Validate c = None"
    using NewRayData_Validate by (auto simp: RayData_IsZero_def zero_RayData_def)
qed

theorem RayData_json_roundtrip_witness:
  "RayData_UnmarshalJSON (Some (''files'', ''/mnt/data/input'')) = Inr \<lparr>rd_format = ''files'', rd_uri = ''/mnt/data/input''\<rparr>"
proof -
  have "RayData_MarshalJSON \<lparr>rd_format = ''files'', rd_uri = ''/mnt/data/input''\<rparr> = Inr (Some (''files'', ''/mnt/data/input''))"
    by code_simp
  with RayData_json_roundtrip show ?thesis by blast
qed

end
