(* ===== verification/Managed_Entrypoint.thy ===== *)
theory Managed_Entrypoint
  imports Domain_Patterns Go_Path
begin

section \<open>Entrypoints of managed training\<close>

text \<open>
  \<open>backend/domain/managed_entrypoint.go\<close>. The three patterns that are searched for, not matched as a
  whole, are written as scanners: \<open>managedShellModule\<close> and \<open>managedShellScript\<close> return their
  only capture group, which both patterns delimit by a blank or the end, so that it is the maximal
  run of characters that are neither blank nor a quote; \<open>managedTorchrunWord\<close> finds a word
  between blanks or the ends.
\<close>

record Entrypoint =
  ep_Command :: "string list"
  ep_Args :: "string list"

definition is_blank_char :: "char \<Rightarrow> bool" where
  "is_blank_char c \<longleftrightarrow> c = CHR '' '' \<or> c = tab"

definition skip_blanks1 :: "string \<Rightarrow> string option" where \<comment> \<open>\<open>[ \t]+\<close>\<close>
  "skip_blanks1 s = (case s of [] \<Rightarrow> None | c # _ \<Rightarrow> if is_blank_char c then Some (dropWhile is_blank_char s) else None)"

definition skip_literal :: "string \<Rightarrow> string \<Rightarrow> string option" where
  "skip_literal p s = (if has_prefix s p then Some (drop (length p) s) else None)"

definition target_char :: "char \<Rightarrow> bool" where \<comment> \<open>\<open>[^ \t'"]\<close>\<close>
  "target_char c \<longleftrightarrow> \<not> is_blank_char c \<and> c \<noteq> CHR 0x27 \<and> c \<noteq> CHR 0x22"

definition target_group :: "string \<Rightarrow> string option" where
  "target_group s =
     (let w = takeWhile target_char s; rest = dropWhile target_char s in
      if w \<noteq> [] \<and> (case rest of [] \<Rightarrow> True | c # _ \<Rightarrow> is_blank_char c) then Some w else None)"

definition managedShellModule :: "string \<Rightarrow> string option" where
  "managedShellModule s =
     Option.bind (skip_literal ''python'' s) (\<lambda>s. Option.bind (skip_blanks1 s) (\<lambda>s.
     Option.bind (skip_literal ''-m'' s) (\<lambda>s. Option.bind (skip_blanks1 s) target_group)))"

definition managedShellScript :: "string \<Rightarrow> string option" where
  "managedShellScript s =
     Option.bind (skip_literal ''python'' s) (\<lambda>s. Option.bind (skip_blanks1 s) (\<lambda>s.
     Option.bind (target_group s) (\<lambda>w. if has_suffix w ''.py'' \<and> length w > 3 then Some w else None)))"

definition managedTorchrunWord :: "string \<Rightarrow> bool" where
  "managedTorchrunWord s \<longleftrightarrow> ''torchrun'' \<in> set (split CHR '' '' (map (\<lambda>c. if c = tab then CHR '' '' else c) s))"

definition shell_operators :: string where
  "shell_operators = [cr, nl, CHR 0x60] @ '';&|<>()''"

definition safeManagedPythonPath :: "string \<Rightarrow> bool" where
  "safeManagedPythonPath target =
     (if \<not> has_suffix target ''.py'' \<or> IsAbs target \<or> contains target [backslash] then False
      else if ''..'' \<in> set (split slash target) then False
      else target \<noteq> [] \<and> \<not> has_prefix target ''-'')"

definition validateManagedShellCommand :: "string \<Rightarrow> error option" where
  "validateManagedShellCommand raw =
     (let command = trim_space raw in
      if contains_any command (backslash # shell_operators) \<or> odd (count_list command (CHR 0x27)) \<or>
         odd (count_list command (CHR 0x22)) then
        Some (Errorf ''managed entrypoint must not contain shell operators or malformed quoting'' [])
      else if managedTorchrunWord command then
        Some (Errorf ''managed entrypoint must not contain torchrun'' [])
      else case managedShellModule command of
        Some m \<Rightarrow> check (\<not> matches managedPythonModule m)
          (Errorf ''managed entrypoint Python module must be a dotted module name'' [])
      | None \<Rightarrow>
          (case managedShellScript command of
             Some target \<Rightarrow> check (\<not> safeManagedPythonPath target)
               (Errorf ''managed entrypoint must use python file.py or python -m module with a safe target'' [])
           | None \<Rightarrow>
               Some (Errorf ''managed entrypoint must use python file.py or python -m module with a safe target'' [])))"

fun first_bad_word :: "string list \<Rightarrow> error option" where
  "first_bad_word [] = None"
| "first_bad_word (word # words) =
     (if word = ''torchrun'' then Some (Errorf ''managed entrypoint must not contain torchrun'' [])
      else if contains_any word shell_operators then
        Some (Errorf ''managed entrypoint must not contain shell operators'' [])
      else first_bad_word words)"

definition validateManagedPythonWords :: "string list \<Rightarrow> error option" where
  "validateManagedPythonWords words =
     (if words = [] then Some (Errorf ''managed entrypoint is required'' [])
      else case first_bad_word words of
        Some e \<Rightarrow> Some e
      | None \<Rightarrow>
          if words ! 0 \<noteq> ''python'' then Some (Errorf ''managed entrypoint must start with python'' [])
          else if 3 \<le> length words \<and> words ! 1 = ''-m'' then
            check (\<not> matches managedPythonModule (words ! 2))
              (Errorf ''managed entrypoint Python module must be a dotted module name'' [])
          else check (length words < 2 \<or> has_prefix (words ! 1) ''-'' \<or> \<not> safeManagedPythonPath (words ! 1))
            (Errorf ''managed entrypoint must use python file.py or python -m module with a safe target'' []))"

definition validateManagedEntrypoint :: "Entrypoint \<Rightarrow> error option" where
  "validateManagedEntrypoint entrypoint =
     (let command = ep_Command entrypoint in
      if length command = 3 \<and> command ! 0 = ''/bin/sh'' \<and> command ! 1 = ''-lc'' then
        (if ep_Args entrypoint \<noteq> [] then
           Some (Errorf ''managed entrypoint shell wrapper must not have separate arguments'' [])
         else validateManagedShellCommand (command ! 2))
      else if command \<noteq> [] \<and> command ! 0 = ''/bin/sh'' then
        Some (Errorf ''managed entrypoint supports only the exact /bin/sh -lc compatibility wrapper'' [])
      else validateManagedPythonWords (command @ ep_Args entrypoint))"

subsection \<open>Accepted entrypoints\<close>

text \<open>
  What acceptance means for the argument vector: the words that reach the runtime and the Python
  target among them.
\<close>

definition safe_target :: "string \<Rightarrow> bool" where
  "safe_target t \<longleftrightarrow> matches managedPythonModule t \<or> safeManagedPythonPath t"

lemma first_bad_word_None:
  "first_bad_word words = None \<longleftrightarrow> (\<forall>w \<in> set words. w \<noteq> ''torchrun'' \<and> \<not> contains_any w shell_operators)"
  by (induction words) auto

lemma contains_any_iff: "contains_any s cs \<longleftrightarrow> (\<exists>c \<in> set cs. c \<in> set s)"
  by (auto simp: contains_any_def list_ex_iff)

lemma module_no_slash: "matches managedPythonModule m \<Longrightarrow> c \<in> set m \<Longrightarrow> is_word c \<or> c = CHR ''.''"
  using matches_chars [of managedPythonModule m c]
  by (auto simp: managedPythonModule_def Let_def is_word_def is_alnum_def)

lemma safe_target_path:
  assumes "safe_target t"
  shows "\<not> IsAbs t" "\<not> has_prefix t ''-''" "''..'' \<notin> set (split slash t)"
proof -
  have slash: "slash \<notin> set t" if "matches managedPythonModule t"
    using module_no_slash [OF that, of slash] by (auto simp: class_defs)
  have dash: "CHR ''-'' \<notin> set t" if "matches managedPythonModule t"
    using module_no_slash [OF that, of "CHR ''-''"] by (auto simp: class_defs)
  have dots: "t \<noteq> ''..''" if "matches managedPythonModule t"
    using that by (auto simp: managedPythonModule_def Let_def matches.simps mk_seq_def mk_alt_def class_defs)
  show "\<not> IsAbs t" using assms slash
    by (auto simp: safe_target_def safeManagedPythonPath_def IsAbs_def has_prefix_iff split: if_splits)
  show "\<not> has_prefix t ''-''" using assms dash
    by (auto simp: safe_target_def safeManagedPythonPath_def has_prefix_iff split: if_splits)
  show "''..'' \<notin> set (split slash t)" using assms dots slash
    by (auto simp: safe_target_def safeManagedPythonPath_def split_no_sep split: if_splits)
qed

lemma list_split2: "2 \<le> length w \<Longrightarrow> w = [w ! 0, w ! 1] @ drop 2 w"
  by (cases w; cases "tl w") auto

lemma list_split3: "3 \<le> length w \<Longrightarrow> w = [w ! 0, w ! 1, w ! 2] @ drop 3 w"
  by (cases w; cases "tl w"; cases "tl (tl w)") auto

lemma validateManagedPythonWords_accepted:
  assumes ok: "validateManagedPythonWords w = None"
  shows "\<exists>t rest. (w = [''python'', ''-m'', t] @ rest \<or> w = [''python'', t] @ rest) \<and> safe_target t \<and>
    (\<forall>x \<in> set w. x \<noteq> ''torchrun'' \<and> \<not> contains_any x shell_operators)"
proof -
  have ne: "w \<noteq> []" and bad: "first_bad_word w = None" and py: "w ! 0 = ''python''"
    using ok by (auto simp: validateManagedPythonWords_def split: if_splits option.splits)
  have "\<exists>t rest. (w = [''python'', ''-m'', t] @ rest \<or> w = [''python'', t] @ rest) \<and> safe_target t"
  proof (cases "3 \<le> length w \<and> w ! 1 = ''-m''")
    case True
    have "safe_target (w ! 2)" using ok ne bad py True
      by (simp add: validateManagedPythonWords_def safe_target_def)
    with True py list_split3 [of w] show ?thesis by metis
  next
    case False
    have "2 \<le> length w" and "safe_target (w ! 1)" using ok ne bad py False
      by (auto simp: validateManagedPythonWords_def safe_target_def)
    with py list_split2 [of w] show ?thesis by metis
  qed
  with bad show ?thesis unfolding first_bad_word_None by blast
qed

text \<open>
  C40: An accepted managed entrypoint starts Python on a safe target. Without the shell wrapper
  the words are \<open>python target ...\<close> or \<open>python -m module ...\<close>, none of them is \<open>torchrun\<close> or contains a
  shell operator; with the wrapper the single command has no shell operator, backslash or unbalanced
  quote. The target is relative, is no option, and has no dot-dot segment.
\<close>

theorem validateManagedEntrypoint_safe:
  assumes "validateManagedEntrypoint e = None"
  shows "(\<exists>raw. ep_Command e = [''/bin/sh'', ''-lc'', raw] \<and> ep_Args e = [] \<and>
            \<not> contains_any (trim_space raw) (backslash # shell_operators) \<and>
            even (count_list (trim_space raw) (CHR 0x27)) \<and> even (count_list (trim_space raw) (CHR 0x22)) \<and>
            (\<exists>t. (managedShellModule (trim_space raw) = Some t \<or> managedShellScript (trim_space raw) = Some t) \<and>
                 safe_target t \<and> \<not> IsAbs t \<and> ''..'' \<notin> set (split slash t))) \<or>
         (\<exists>t rest. (ep_Command e @ ep_Args e = [''python'', ''-m'', t] @ rest \<or> ep_Command e @ ep_Args e = [''python'', t] @ rest) \<and>
            safe_target t \<and> \<not> IsAbs t \<and> ''..'' \<notin> set (split slash t) \<and>
            (\<forall>w \<in> set (ep_Command e @ ep_Args e). w \<noteq> ''torchrun'' \<and> \<not> contains_any w shell_operators))"
proof (cases "length (ep_Command e) = 3 \<and> ep_Command e ! 0 = ''/bin/sh'' \<and> ep_Command e ! 1 = ''-lc''")
  case True
  then obtain raw where raw: "ep_Command e = [''/bin/sh'', ''-lc'', raw]"
    by (auto simp: numeral_3_eq_3 length_Suc_conv)
  with assms have args: "ep_Args e = []" and ok: "validateManagedShellCommand raw = None"
    by (auto simp: validateManagedEntrypoint_def Let_def split: if_splits)
  from ok have c: "\<not> contains_any (trim_space raw) (backslash # shell_operators)"
      "even (count_list (trim_space raw) (CHR 0x27))" "even (count_list (trim_space raw) (CHR 0x22))"
    by (auto simp: validateManagedShellCommand_def Let_def split: if_splits)
  from ok have "\<exists>t. (managedShellModule (trim_space raw) = Some t \<or> managedShellScript (trim_space raw) = Some t) \<and> safe_target t"
    by (auto simp: validateManagedShellCommand_def safe_target_def Let_def split: if_splits option.splits)
  with raw args c safe_target_path show ?thesis by metis
next
  case False
  with assms have "validateManagedPythonWords (ep_Command e @ ep_Args e) = None"
    by (auto simp: validateManagedEntrypoint_def Let_def split: if_splits)
  from validateManagedPythonWords_accepted [OF this] safe_target_path show ?thesis by metis
qed

theorem validateManagedEntrypoint_safe_witness:
  "safe_target ''train/main.py'' \<and> \<not> IsAbs ''train/main.py'' \<and> ''..'' \<notin> set (split slash ''train/main.py'')"
proof -
  let ?e = "\<lparr>ep_Command = [''python'', ''train/main.py''], ep_Args = [''--lr=0.1'']\<rparr>"
  have "validateManagedEntrypoint ?e = None" by code_simp
  from validateManagedEntrypoint_safe [OF this] show ?thesis by auto
qed

end
