(* ===== verification/Go_Json.thy ===== *)
theory Go_Json
  imports Go_Regexp
begin

section \<open>UTF-8 and JSON arrays of strings\<close>

text \<open>
  Package \<open>unicode/utf8\<close> as conversions between strings and \<open>[]rune\<close> use it, and
  \<open>encoding/json\<close> for the one shape the domain code decodes by itself, \<open>[]string\<close>.
\<close>

subsection \<open>Runes\<close>

definition byte_in :: "nat \<Rightarrow> nat \<Rightarrow> char \<Rightarrow> bool" where
  "byte_in lo hi c \<longleftrightarrow> lo \<le> of_char c \<and> of_char c \<le> hi"

text \<open>Size of the well-formed encoding at the head of a string; 0 when there is none.\<close>

definition rune_size :: "string \<Rightarrow> nat" where
  "rune_size s =
     (case s of
        [] \<Rightarrow> 0
      | a # t \<Rightarrow>
          if byte_in 0 127 a then 1
          else if byte_in 194 223 a then
            (case t of b # _ \<Rightarrow> if byte_in 128 191 b then 2 else 0 | _ \<Rightarrow> 0)
          else if byte_in 224 239 a then
            (case t of b # c # _ \<Rightarrow>
               if byte_in (if a = CHR 0xE0 then 160 else 128) (if a = CHR 0xED then 159 else 191) b \<and> byte_in 128 191 c
               then 3 else 0 | _ \<Rightarrow> 0)
          else if byte_in 240 244 a then
            (case t of b # c # d # _ \<Rightarrow>
               if byte_in (if a = CHR 0xF0 then 144 else 128) (if a = CHR 0xF4 then 143 else 191) b \<and>
                  byte_in 128 191 c \<and> byte_in 128 191 d
               then 4 else 0 | _ \<Rightarrow> 0)
          else 0)"

definition replacement :: string where \<comment> \<open>U+FFFD\<close>
  "replacement = [CHR 0xEF, CHR 0xBF, CHR 0xBD]"

text \<open>
  \<open>runes s\<close> is \<open>[]rune(s)\<close>, each rune kept as its UTF-8 encoding, so that \<open>string(rs)\<close> is
  \<open>concat rs\<close>; a byte that starts no well-formed encoding becomes U+FFFD.
\<close>

function runes :: "string \<Rightarrow> string list" where
  "runes s =
     (if s = [] then []
      else if rune_size s = 0 then replacement # runes (drop 1 s)
      else take (rune_size s) s # runes (drop (rune_size s) s))"
  by pat_completeness auto
termination by (relation "measure length") auto

declare runes.simps [simp del]

definition truncate_runes :: "nat \<Rightarrow> string \<Rightarrow> string" where
  "truncate_runes n s = (if n < length (runes s) then concat (take n (runes s)) else s)"

lemma runes_ascii: "list_all (byte_in 0 127) s \<Longrightarrow> runes s = map (\<lambda>c. [c]) s"
proof (induction s)
  case (Cons c s)
  then have "rune_size (c # s) = 1" by (simp add: rune_size_def)
  with Cons show ?case by (subst runes.simps) simp
qed (simp add: runes.simps)

lemma truncate_runes_ascii: "list_all (byte_in 0 127) s \<Longrightarrow> truncate_runes n s = take n s"
  by (auto simp: truncate_runes_def runes_ascii take_map)

definition encode_rune :: "nat \<Rightarrow> string" where
  "encode_rune n =
     (if n < 128 then [char_of n]
      else if n < 2048 then [char_of (192 + n div 64), char_of (128 + n mod 64)]
      else if n < 65536 then [char_of (224 + n div 4096), char_of (128 + n div 64 mod 64), char_of (128 + n mod 64)]
      else [char_of (240 + n div 262144), char_of (128 + n div 4096 mod 64), char_of (128 + n div 64 mod 64), char_of (128 + n mod 64)])"

subsection \<open>Decoding a JSON array of strings\<close>

definition is_json_space :: "char \<Rightarrow> bool" where
  "is_json_space c \<longleftrightarrow> c \<in> {CHR '' '', tab, cr, nl}"

definition skip_space :: "string \<Rightarrow> string" where
  "skip_space s = dropWhile is_json_space s"

definition hex_value :: "char \<Rightarrow> nat" where
  "hex_value c = (let n = of_char c in if n \<le> 57 then n - 48 else if 97 \<le> n then n - 87 else n - 55)"

definition hex4 :: "string \<Rightarrow> nat option" where
  "hex4 s = (case s of
     a # b # c # d # _ \<Rightarrow>
       if is_hex a \<and> is_hex b \<and> is_hex c \<and> is_hex d
       then Some (((hex_value a * 16 + hex_value b) * 16 + hex_value c) * 16 + hex_value d) else None
   | _ \<Rightarrow> None)"

text \<open>
  The body of a JSON string after its opening quote: the decoded bytes and the rest after the
  closing quote. Surrogates combine when a second \<open>\u\<close> escape completes the pair and decode
  to U+FFFD otherwise; bytes that are not well-formed UTF-8 decode to U+FFFD.
\<close>

function json_string :: "string \<Rightarrow> (string \<times> string) option" where
  "json_string s =
     (case s of
        [] \<Rightarrow> None
      | c # t \<Rightarrow>
          if c = CHR 0x22 then Some ([], t)
          else if (of_char c :: nat) < 32 then None
          else if c = backslash then
            (case t of
               [] \<Rightarrow> None
             | e # u \<Rightarrow>
                 if e \<in> {CHR 0x22, backslash, slash} then map_option (map_prod ((@) [e]) id) (json_string u)
                 else if e = CHR ''b'' then map_option (map_prod ((@) [CHR 0x08]) id) (json_string u)
                 else if e = CHR ''f'' then map_option (map_prod ((@) [CHR 0x0C]) id) (json_string u)
                 else if e = CHR ''n'' then map_option (map_prod ((@) [nl]) id) (json_string u)
                 else if e = CHR ''r'' then map_option (map_prod ((@) [cr]) id) (json_string u)
                 else if e = CHR ''t'' then map_option (map_prod ((@) [tab]) id) (json_string u)
                 else if e = CHR ''u'' then
                   (case hex4 u of
                      None \<Rightarrow> None
                    | Some n \<Rightarrow>
                        if n < 55296 \<or> 57343 < n then map_option (map_prod ((@) (encode_rune n)) id) (json_string (drop 4 u))
                        else (case (if has_prefix (drop 4 u) [backslash, CHR ''u''] then hex4 (drop 6 u) else None) of
                            Some m \<Rightarrow>
                              if n < 56320 \<and> 56320 \<le> m \<and> m \<le> 57343
                              then map_option (map_prod ((@) (encode_rune (65536 + (n - 55296) * 1024 + (m - 56320)))) id) (json_string (drop 10 u))
                              else map_option (map_prod ((@) replacement) id) (json_string (drop 4 u))
                          | None \<Rightarrow> map_option (map_prod ((@) replacement) id) (json_string (drop 4 u))))
                 else None)
          else if rune_size s = 0 then map_option (map_prod ((@) replacement) id) (json_string t)
          else map_option (map_prod ((@) (take (rune_size s) s)) id) (json_string (drop (rune_size s) s)))"
  by pat_completeness auto
termination by (relation "measure length") auto

declare json_string.simps [simp del]

text \<open>
  \<open>json.Unmarshal\<close> into \<open>[]string\<close>: \<open>null\<close>, or an array whose elements are strings or \<open>null\<close>
  (which leaves the empty string). Every other input is an error.
\<close>

definition json_element :: "string \<Rightarrow> (string \<times> string) option" where
  "json_element s =
     (case skip_space s of
        [] \<Rightarrow> None
      | c # t \<Rightarrow> if c = CHR 0x22 then json_string t
                 else if has_prefix (c # t) ''null'' then Some ([], drop 3 t) else None)"

fun json_elements :: "nat \<Rightarrow> string \<Rightarrow> (string list \<times> string) option" where \<comment> \<open>after \<open>[\<close> or \<open>,\<close>\<close>
  "json_elements 0 s = None"
| "json_elements (Suc k) s =
     (case json_element s of
        None \<Rightarrow> None
      | Some (x, rest) \<Rightarrow>
          (case skip_space rest of
             [] \<Rightarrow> None
           | c # t \<Rightarrow> if c = CHR '']'' then Some ([x], t)
                      else if c = CHR '','' then map_option (map_prod ((#) x) id) (json_elements k t)
                      else None))"

definition unmarshal_strings :: "string \<Rightarrow> string list option" where
  "unmarshal_strings s =
     (case skip_space s of
        [] \<Rightarrow> None
      | c # t \<Rightarrow>
          if c = CHR ''['' then
            (if has_prefix (skip_space t) '']'' then (if skip_space (tl (skip_space t)) = [] then Some [] else None)
             else (case json_elements (length s) t of
                     Some (xs, rest) \<Rightarrow> if skip_space rest = [] then Some xs else None
                   | None \<Rightarrow> None))
          else if has_prefix (c # t) ''null'' \<and> skip_space (drop 3 t) = [] then Some []
          else None)"

text \<open>
  \<open>json.Marshal\<close> of strings made of the characters \<open>A-Za-z0-9_-\<close> only, which it writes
  unescaped.
\<close>

definition marshal_strings :: "string list \<Rightarrow> string" where
  "marshal_strings xs = ''['' @ join '','' (map (\<lambda>x. [CHR 0x22] @ x @ [CHR 0x22]) xs) @ '']''"

subsection \<open>Round trip\<close>

definition plain_char :: "char \<Rightarrow> bool" where
  "plain_char c \<longleftrightarrow> byte_in 32 127 c \<and> c \<noteq> CHR 0x22 \<and> c \<noteq> backslash"

lemma json_string_plain:
  "list_all plain_char x \<Longrightarrow> json_string (x @ CHR 0x22 # rest) = Some (x, rest)"
proof (induction x)
  case Nil
  show ?case by (subst json_string.simps) simp
next
  case (Cons c x)
  then have "rune_size (c # x @ CHR 0x22 # rest) = 1" by (simp add: rune_size_def plain_char_def byte_in_def)
  with Cons show ?case
    by (subst json_string.simps) (simp add: plain_char_def byte_in_def)
qed

lemma skip_space_id: "\<not> is_json_space c \<Longrightarrow> skip_space (c # s) = c # s"
  by (simp add: skip_space_def)

lemma json_elements_marshal:
  "xs \<noteq> [] \<Longrightarrow> (\<forall>x \<in> set xs. list_all plain_char x) \<Longrightarrow> length xs \<le> k \<Longrightarrow>
   json_elements k (join '','' (map (\<lambda>x. [CHR 0x22] @ x @ [CHR 0x22]) xs) @ CHR '']'' # rest) = Some (xs, rest)"
proof (induction xs arbitrary: k)
  case (Cons x xs)
  then obtain k' where k: "k = Suc k'" by (cases k) auto
  have el: "json_element (CHR 0x22 # x @ CHR 0x22 # r) = Some (x, r)" for r
    using Cons.prems by (simp add: json_element_def skip_space_id is_json_space_def json_string_plain)
  show ?case
  proof (cases xs)
    case Nil
    then show ?thesis using el by (simp add: k skip_space_id is_json_space_def)
  next
    case (Cons y ys)
    then show ?thesis using el Cons.IH [of k'] Cons.prems
      by (simp add: k skip_space_id is_json_space_def)
  qed
qed simp

lemma length_marshal: "length xs \<le> length (marshal_strings xs)"
proof -
  have "length xs \<le> length (join '','' (map (\<lambda>x. [CHR 0x22] @ x @ [CHR 0x22]) xs))" for xs :: "string list"
    by (induction xs rule: induct_list012) auto
  then show ?thesis by (simp add: marshal_strings_def trans_le_add1 trans_le_add2 le_SucI)
qed

theorem unmarshal_marshal:
  assumes "\<forall>x \<in> set xs. list_all plain_char x"
  shows "unmarshal_strings (marshal_strings xs) = Some xs"
proof (cases xs)
  case Nil
  then show ?thesis
    by (simp add: unmarshal_strings_def marshal_strings_def skip_space_def is_json_space_def has_prefix_def)
next
  case (Cons x ys)
  let ?body = "join '','' (map (\<lambda>x. [CHR 0x22] @ x @ [CHR 0x22]) xs) @ '']''"
  have "\<exists>t. ?body = CHR 0x22 # t" using Cons by (cases ys) auto
  then have "\<not> has_prefix (skip_space ?body) '']''"
    by (auto simp: skip_space_def is_json_space_def has_prefix_def)
  moreover have "json_elements (length (marshal_strings xs)) ?body = Some (xs, [])"
    using json_elements_marshal [of xs "length (marshal_strings xs)" "[]"] assms Cons length_marshal [of xs] by simp
  ultimately show ?thesis
    by (simp add: unmarshal_strings_def marshal_strings_def skip_space_id is_json_space_def)
       (simp add: skip_space_def)
qed

end
