(* ===== verification/Transition_System.thy ===== *)
theory Transition_System
  imports Main
begin

section \<open>Transition systems\<close>

text \<open>
  The two contracts that the step relations of the components satisfy: an invariant kept by every
  step, and a preorder that every step from an invariant state follows. Each is lifted once to
  arbitrary sequences of steps and interpreted in the theories that define the steps.
\<close>

locale step_invariant =
  fixes step :: "'s \<Rightarrow> 's \<Rightarrow> bool" and inv :: "'s \<Rightarrow> bool"
  assumes inv_step: "inv s \<Longrightarrow> step s t \<Longrightarrow> inv t"
begin

lemma inv_steps: "step\<^sup>*\<^sup>* s t \<Longrightarrow> inv s \<Longrightarrow> inv t"
  by (induction rule: rtranclp_induct) (auto intro: inv_step)

end

locale step_preorder = step_invariant step inv for step :: "'s \<Rightarrow> 's \<Rightarrow> bool" and inv :: "'s \<Rightarrow> bool" +
  fixes le :: "'s \<Rightarrow> 's \<Rightarrow> bool"
  assumes le_refl: "le s s"
    and le_trans: "le s t \<Longrightarrow> le t u \<Longrightarrow> le s u"
    and le_step: "inv s \<Longrightarrow> step s t \<Longrightarrow> le s t"
begin

lemma le_steps: "step\<^sup>*\<^sup>* s t \<Longrightarrow> inv s \<Longrightarrow> le s t"
proof (induction rule: rtranclp_induct)
  case base
  show ?case by (rule le_refl)
next
  case (step t u)
  then have "inv t" using inv_steps by blast
  with step show ?case using le_step le_trans by blast
qed

end

text \<open>
  A simulation: every step of the detailed system, from a state that satisfies its invariant and
  whose abstraction satisfies the abstract one, is a sequence of abstract steps. It carries the abstract
  invariant and preorder over to the detailed system.
\<close>

locale simulation = abstract: step_preorder astep ainv ale + concrete: step_invariant cstep cinv
  for astep :: "'a \<Rightarrow> 'a \<Rightarrow> bool" and ainv :: "'a \<Rightarrow> bool" and ale :: "'a \<Rightarrow> 'a \<Rightarrow> bool"
    and cstep :: "'c \<Rightarrow> 'c \<Rightarrow> bool" and cinv :: "'c \<Rightarrow> bool" +
  fixes abs :: "'c \<Rightarrow> 'a"
  assumes simulates: "cinv s \<Longrightarrow> ainv (abs s) \<Longrightarrow> cstep s t \<Longrightarrow> astep\<^sup>*\<^sup>* (abs s) (abs t)"
begin

lemma sim_steps: "cstep\<^sup>*\<^sup>* s t \<Longrightarrow> cinv s \<Longrightarrow> ainv (abs s) \<Longrightarrow> astep\<^sup>*\<^sup>* (abs s) (abs t)"
proof (induction rule: rtranclp_induct)
  case (step t u)
  then have "ainv (abs t)" "cinv t" using abstract.inv_steps concrete.inv_steps by blast+
  with step simulates show ?case by (meson rtranclp_trans)
qed simp

lemma sim_inv: "cstep\<^sup>*\<^sup>* s t \<Longrightarrow> cinv s \<Longrightarrow> ainv (abs s) \<Longrightarrow> cinv t \<and> ainv (abs t)"
  using sim_steps abstract.inv_steps concrete.inv_steps by blast

lemma sim_le: "cstep\<^sup>*\<^sup>* s t \<Longrightarrow> cinv s \<Longrightarrow> ainv (abs s) \<Longrightarrow> ale (abs s) (abs t)"
  using sim_steps abstract.le_steps by blast

end

end
