(* ===== verification/Dataset.thy ===== *)
theory Dataset
  imports Storage Go_Url Go_Json Transition_System "HOL-Library.List_Lexorder" "HOL-Library.Char_ord"
begin

section \<open>Datasets, versions and publication attempts\<close>

text \<open>
  \<open>backend/domain/dataset.go\<close> and \<open>backend/domain/dataset_sites.go\<close>. Where the source ranges over a
  Go map (whose order is unspecified) to report the first bad entry, the model takes the entries
  in source order; which error is reported is then one of the possible ones, whether there is
  an error is not affected. The byte order of strings is the lexicographic order of the library.
\<close>

subsection \<open>Identifiers and paths\<close>

definition DatasetIdentifierMaxBytes :: nat where [go_consts]: "DatasetIdentifierMaxBytes = 128"
definition DatasetPathMaxBytes :: nat where [go_consts]: "DatasetPathMaxBytes = 4096"

definition validateDatasetIdentifier :: "string \<Rightarrow> string \<Rightarrow> error option" where
  "validateDatasetIdentifier name v =
     check (length v = 0 \<or> length v > DatasetIdentifierMaxBytes \<or> v = ''.'' \<or> v = ''..'' \<or> trim_space v \<noteq> v \<or>
            \<not> matches datasetIdentifierPattern v)
       (Errorf ''%s must be a safe bounded identifier'' [ArgS name])"

definition validateDatasetRelativePath :: "string \<Rightarrow> string \<Rightarrow> error option" where
  "validateDatasetRelativePath name v = first_error [
     check (v = [] \<or> length v > DatasetPathMaxBytes \<or> trim_space v \<noteq> v \<or> has_control v \<or> contains v [backslash] \<or>
            IsAbs v \<or> Clean v \<noteq> v \<or> v = ''.'')
       (Errorf ''%s must be a clean relative path'' [ArgS name]),
     check (PathUnescape v \<noteq> Some v) (Errorf ''%s must not contain URL escapes'' [ArgS name]),
     check (case url_Parse v of
              None \<Rightarrow> True
            | Some u \<Rightarrow> url_Scheme u \<noteq> [] \<or> url_Host u \<noteq> [] \<or> url_HasUser u \<or> url_RawQuery u \<noteq> [] \<or> url_Fragment u \<noteq> [])
       (Errorf ''%s must not be a URI'' [ArgS name]),
     check (list_ex (\<lambda>seg. seg = [] \<or> seg = ''.'' \<or> seg = ''..'') (split slash v))
       (Errorf ''%s contains an invalid segment'' [ArgS name])]"

definition NormalizeDatasetInternalPrefix :: "string \<Rightarrow> string result" where
  "NormalizeDatasetInternalPrefix raw =
     (let p = trim_suffix (trim_space raw) ''/'' in
      case validateDatasetRelativePath ''dataset internal prefix'' p of
        Some e \<Rightarrow> Inl e
      | None \<Rightarrow> Inr p)"

definition validateProgressCounts :: "int \<Rightarrow> int \<Rightarrow> int \<Rightarrow> int \<Rightarrow> int \<Rightarrow> error option" where
  "validateProgressCounts tot processed failed logicalBytes packedBytes =
     check (tot < 0 \<or> processed < 0 \<or> failed < 0 \<or> logicalBytes < 0 \<or> packedBytes < 0 \<or> processed > tot \<or>
            failed > int64 (tot - processed))
       (Errorf ''progress counters are invalid'' [])"

subsection \<open>Site selections\<close>

definition NewDatasetSites :: "string list \<Rightarrow> string result" where
  "NewDatasetSites vals =
     (if length vals > 256 then Inl (Errorf ''at most 256 dataset sites may be selected'' [])
      else case find (\<lambda>v. \<not> matches datasetSitePattern v) vals of
        Some v \<Rightarrow> Inl (Errorf ''invalid dataset site ID %q'' [ArgS v])
      | None \<Rightarrow> if vals = [] then Inr [] else Inr (marshal_strings (sort (remdups vals))))"

definition DatasetSites_JSON :: "string \<Rightarrow> string" where
  "DatasetSites_JSON sites = (if sites = [] then ''[]'' else sites)"

definition DatasetSites_Validate :: "string \<Rightarrow> error option" where
  "DatasetSites_Validate sites =
     (case unmarshal_strings (DatasetSites_JSON sites) of
        None \<Rightarrow> Some (Wrapf ''invalid dataset sites: %w'' [] (Errorf ''json'' []))
      | Some vals \<Rightarrow>
          (case NewDatasetSites vals of
             Inl e \<Rightarrow> Some e
           | Inr canonical \<Rightarrow> check (canonical \<noteq> sites) (Errorf ''dataset sites must be canonical'' [])))"

definition DatasetSites_MarshalJSON :: "string \<Rightarrow> string result" where
  "DatasetSites_MarshalJSON sites =
     (case DatasetSites_Validate sites of Some e \<Rightarrow> Inl e | None \<Rightarrow> Inr (DatasetSites_JSON sites))"

definition DatasetSites_UnmarshalJSON :: "string \<Rightarrow> string result" where
  "DatasetSites_UnmarshalJSON data =
     (if \<not> has_prefix data ''['' then Inl (Errorf ''dataset sites must be an array'' [])
      else case unmarshal_strings data of
        None \<Rightarrow> Inl (Errorf ''json'' [])
      | Some vals \<Rightarrow> NewDatasetSites vals)"

lemma alnum_plain: "is_alnum c \<Longrightarrow> plain_char c"
  by (auto simp: class_defs plain_char_def byte_in_def)

lemma site_plain: "matches datasetSitePattern v \<Longrightarrow> list_all plain_char v"
proof -
  have "plain_char (CHR ''_'')" "plain_char (CHR ''-'')" by (simp_all add: plain_char_def byte_in_def)
  then show "matches datasetSitePattern v \<Longrightarrow> list_all plain_char v"
    by (cases v) (auto simp: datasetSitePattern_def matches_ident_pattern list_all_iff intro: alnum_plain)
qed

lemma DatasetSites_canonical:
  assumes "NewDatasetSites vals = Inr s"
  shows "unmarshal_strings (DatasetSites_JSON s) = Some (sort (remdups vals))"
    and "NewDatasetSites (sort (remdups vals)) = Inr s"
proof -
  have pat: "\<forall>v \<in> set vals. matches datasetSitePattern v" and len: "length vals \<le> 256"
    and s: "s = (if vals = [] then [] else marshal_strings (sort (remdups vals)))"
    using assms by (auto simp: NewDatasetSites_def find_None_iff split: if_splits option.splits)
  have "unmarshal_strings (marshal_strings (sort (remdups vals))) = Some (sort (remdups vals))"
    using pat site_plain by (intro unmarshal_marshal) auto
  moreover have "marshal_strings (sort (remdups vals)) \<noteq> []" by (simp add: marshal_strings_def)
  moreover have "DatasetSites_JSON [] = marshal_strings []" by (simp add: DatasetSites_JSON_def marshal_strings_def)
  ultimately show "unmarshal_strings (DatasetSites_JSON s) = Some (sort (remdups vals))"
    using s by (auto simp: DatasetSites_JSON_def)
  have "length (remdups vals) \<le> 256" using len length_remdups_leq [of vals] by linarith
  moreover have "find (\<lambda>v. \<not> matches datasetSitePattern v) (sort (remdups vals)) = None"
    using pat by (auto simp: find_None_iff)
  moreover have "sort (remdups vals) = [] \<longleftrightarrow> vals = []"
    by (metis remdups_eq_nil_iff set_empty set_sort)
  ultimately show "NewDatasetSites (sort (remdups vals)) = Inr s"
    using s by (simp add: NewDatasetSites_def sorted_sort_id distinct_remdups_id)
qed

text \<open>
  A site selection built from any list is canonical: it validates, marshals and unmarshals to
  itself, and its JSON decodes to the sorted list of the distinct requested sites.
\<close>

theorem DatasetSites_roundtrip:
  assumes "NewDatasetSites vals = Inr s"
  shows "DatasetSites_Validate s = None \<and>
         (\<exists>data. DatasetSites_MarshalJSON s = Inr data \<and> DatasetSites_UnmarshalJSON data = Inr s \<and>
                 unmarshal_strings data = Some (sort (remdups vals)))"
proof -
  note can = DatasetSites_canonical [OF assms]
  have valid: "DatasetSites_Validate s = None" using can by (simp add: DatasetSites_Validate_def)
  have "has_prefix (DatasetSites_JSON s) ''[''"
    using assms by (auto simp: NewDatasetSites_def DatasetSites_JSON_def marshal_strings_def has_prefix_def
        split: if_splits option.splits)
  with valid can show ?thesis
    by (simp add: DatasetSites_MarshalJSON_def DatasetSites_UnmarshalJSON_def)
qed

theorem DatasetSites_roundtrip_witness:
  "DatasetSites_Validate (marshal_strings [''a1'', ''b'']) = None"
proof -
  have "NewDatasetSites [''b'', ''a1'', ''b''] = Inr (marshal_strings [''a1'', ''b''])" by code_simp
  from DatasetSites_roundtrip [OF this] show ?thesis by simp
qed

subsection \<open>Datasets and versions\<close>

definition DatasetVisibilityPublic :: string where [go_consts]: "DatasetVisibilityPublic = ''PUBLIC''"
definition DatasetVisibilityTeam :: string where [go_consts]: "DatasetVisibilityTeam = ''TEAM''"

datatype DatasetVersionState =
    DatasetVersionDiscovering | DatasetVersionStabilizing | DatasetVersionValidating | DatasetVersionPacking
  | DatasetVersionReady | DatasetVersionFailed | DatasetVersionDeprecated | DatasetVersionRetired
  | DatasetVersionOther string

fun version_state_string :: "DatasetVersionState \<Rightarrow> string" where
  "version_state_string DatasetVersionDiscovering = ''DISCOVERING''"
| "version_state_string DatasetVersionStabilizing = ''STABILIZING''"
| "version_state_string DatasetVersionValidating = ''VALIDATING''"
| "version_state_string DatasetVersionPacking = ''PACKING''"
| "version_state_string DatasetVersionReady = ''READY''"
| "version_state_string DatasetVersionFailed = ''FAILED''"
| "version_state_string DatasetVersionDeprecated = ''DEPRECATED''"
| "version_state_string DatasetVersionRetired = ''RETIRED''"
| "version_state_string (DatasetVersionOther s) = s"

record Dataset =
  dset_ID :: string
  dset_Slug :: string
  dset_Name :: string
  dset_Description :: string
  dset_SourceSpace :: string
  dset_SourceRelativePath :: string
  dset_OwnerTenantID :: string
  dset_Visibility :: string
  dset_SchemaVersion :: string

definition Dataset_Validate :: "Dataset \<Rightarrow> error option" where
  "Dataset_Validate d = first_error [
     validateDatasetIdentifier ''dataset ID'' (dset_ID d),
     check (\<not> matches datasetSlugPattern (dset_Slug d) \<or> dset_Slug d = ''.'' \<or> dset_Slug d = ''..'')
       (Errorf ''dataset slug must be a lowercase path-safe identifier'' []),
     check (blank (dset_Name d) \<or> trim_space (dset_Name d) \<noteq> dset_Name d \<or> has_control (dset_Name d))
       (Errorf ''dataset name is invalid'' []),
     check (has_control (dset_Description d)) (Errorf ''dataset description is invalid'' []),
     check (dset_SourceSpace d \<noteq> DataSpacePublic \<and> dset_SourceSpace d \<noteq> DataSpaceTeamShared)
       (Errorf ''dataset source space must be public or team-shared'' []),
     validateDatasetRelativePath ''dataset source path'' (dset_SourceRelativePath d),
     validateDatasetIdentifier ''schema version'' (dset_SchemaVersion d),
     (if dset_Visibility d = DatasetVisibilityPublic then
        check (dset_OwnerTenantID d \<noteq> [] \<or> dset_SourceSpace d \<noteq> DataSpacePublic)
          (Errorf ''public dataset must use public source without an owner tenant'' [])
      else if dset_Visibility d = DatasetVisibilityTeam then first_error [
        validateDatasetIdentifier ''owner tenant'' (dset_OwnerTenantID d),
        check (dset_SourceSpace d \<noteq> DataSpaceTeamShared) (Errorf ''team dataset must use team-shared source'' [])]
      else Some (Errorf ''unsupported dataset visibility %q'' [ArgS (dset_Visibility d)]))]"

definition CanViewDataset :: "Dataset \<Rightarrow> string \<Rightarrow> bool \<Rightarrow> bool" where
  "CanViewDataset d tenantID superAdmin =
     (if superAdmin then True
      else if blank tenantID then False
      else dset_Visibility d = DatasetVisibilityPublic \<or>
           dset_Visibility d = DatasetVisibilityTeam \<and> dset_OwnerTenantID d = tenantID)"

definition CanManageDataset :: "Dataset \<Rightarrow> string \<Rightarrow> bool \<Rightarrow> bool" where
  "CanManageDataset d tenantID superAdmin =
     (if superAdmin then True
      else dset_Visibility d = DatasetVisibilityTeam \<and> \<not> blank tenantID \<and> dset_OwnerTenantID d = tenantID)"

record DatasetVersion =
  dv_ID :: string
  dv_DatasetID :: string
  dv_Version :: string
  dv_State :: DatasetVersionState
  dv_ManifestSHA256 :: string
  dv_ManifestObjectKey :: string
  dv_SchemaVersion :: string
  dv_TrainSamples :: int
  dv_ValSamples :: int
  dv_TestSamples :: int
  dv_SourceObjectCount :: int
  dv_LogicalBytes :: int
  dv_PackedBytes :: int
  dv_SourceSyncRunID :: string
  dv_SourceInventorySHA256 :: string

definition ValidateResolvedDatasetVersionID :: "string \<Rightarrow> error option" where
  "ValidateResolvedDatasetVersionID raw =
     (if raw = ''latest'' then Some (Errorf ''latest must be resolved before persistence'' [])
      else validateDatasetIdentifier ''dataset version ID'' raw)"

datatype DatasetVersionSelector = SelectLatest | SelectVersion string \<comment> \<open>\<open>Latest: true\<close>; \<open>VersionID\<close>\<close>

definition ParseDatasetVersionSelector :: "string \<Rightarrow> DatasetVersionSelector result" where
  "ParseDatasetVersionSelector raw =
     (if raw = ''latest'' then Inr SelectLatest
      else case ValidateResolvedDatasetVersionID raw of
        Some e \<Rightarrow> Inl e
      | None \<Rightarrow> Inr (SelectVersion raw))"

fun knownDatasetVersionState :: "DatasetVersionState \<Rightarrow> bool" where
  "knownDatasetVersionState (DatasetVersionOther _) = False"
| "knownDatasetVersionState _ = True"

definition manifest_suffix :: "DatasetVersion \<Rightarrow> string" where
  "manifest_suffix v = Join [dv_DatasetID v, ''manifests'', dv_ID v @ ''.parquet'']"

definition published_state :: "DatasetVersionState \<Rightarrow> bool" where
  "published_state s \<longleftrightarrow> s = DatasetVersionReady \<or> s = DatasetVersionDeprecated \<or> s = DatasetVersionRetired"

definition DatasetVersion_Validate :: "DatasetVersion \<Rightarrow> error option" where
  "DatasetVersion_Validate v = first_error [
     ValidateResolvedDatasetVersionID (dv_ID v),
     validateDatasetIdentifier ''dataset ID'' (dv_DatasetID v),
     validateDatasetIdentifier ''version'' (dv_Version v),
     validateDatasetIdentifier ''schema version'' (dv_SchemaVersion v),
     check (\<not> knownDatasetVersionState (dv_State v)) (Errorf ''unsupported dataset version state %q'' [ArgS (version_state_string (dv_State v))]),
     check (dv_TrainSamples v < 0) (Errorf ''%s must be nonnegative'' [ArgS ''train samples'']),
     check (dv_ValSamples v < 0) (Errorf ''%s must be nonnegative'' [ArgS ''validation samples'']),
     check (dv_TestSamples v < 0) (Errorf ''%s must be nonnegative'' [ArgS ''test samples'']),
     check (dv_SourceObjectCount v < 0) (Errorf ''%s must be nonnegative'' [ArgS ''source object count'']),
     check (dv_LogicalBytes v < 0) (Errorf ''%s must be nonnegative'' [ArgS ''logical bytes'']),
     check (dv_PackedBytes v < 0) (Errorf ''%s must be nonnegative'' [ArgS ''packed bytes'']),
     check (dv_ManifestSHA256 v \<noteq> [] \<and> \<not> matches datasetDigestPattern (dv_ManifestSHA256 v))
       (Errorf ''manifest SHA-256 must be 64 lowercase hexadecimal characters'' []),
     (if dv_ManifestObjectKey v \<noteq> [] then first_error [
        validateDatasetRelativePath ''manifest object key'' (dv_ManifestObjectKey v),
        check (\<not> has_suffix (dv_ManifestObjectKey v) (''/'' @ manifest_suffix v))
          (Errorf ''manifest object key must belong to its dataset and version'' []),
        wrap ''manifest object key has an invalid internal prefix: %w'' []
          (result_error (NormalizeDatasetInternalPrefix (trim_suffix (dv_ManifestObjectKey v) (''/'' @ manifest_suffix v))))]
      else None),
     check (published_state (dv_State v) \<and> (dv_ManifestSHA256 v = [] \<or> dv_ManifestObjectKey v = []))
       (Errorf ''ready dataset version requires a manifest'' []),
     check ((dv_SourceSyncRunID v = []) \<noteq> (dv_SourceInventorySHA256 v = []))
       (Errorf ''dataset version source sync provenance must be empty or complete'' []),
     (if dv_SourceSyncRunID v \<noteq> [] then first_error [
        validateDatasetIdentifier ''source sync run ID'' (dv_SourceSyncRunID v),
        check (\<not> matches datasetDigestPattern (dv_SourceInventorySHA256 v))
          (Errorf ''source inventory SHA-256 must be 64 lowercase hexadecimal characters'' [])]
      else None)]"

definition DatasetVersion_ValidateWithInternalPrefix :: "DatasetVersion \<Rightarrow> string \<Rightarrow> error option" where
  "DatasetVersion_ValidateWithInternalPrefix v rawPrefix =
     (case DatasetVersion_Validate v of
        Some e \<Rightarrow> Some e
      | None \<Rightarrow>
          if dv_ManifestObjectKey v = [] then None
          else case NormalizeDatasetInternalPrefix rawPrefix of
            Inl e \<Rightarrow> Some e
          | Inr pre \<Rightarrow>
              check (dv_ManifestObjectKey v \<noteq> Join [pre, dv_DatasetID v, ''manifests'', dv_ID v @ ''.parquet''])
                (Errorf ''manifest object key must use the configured internal dataset prefix'' []))"

fun version_transitions :: "DatasetVersionState \<Rightarrow> DatasetVersionState list" where
  "version_transitions DatasetVersionDiscovering = [DatasetVersionStabilizing, DatasetVersionFailed]"
| "version_transitions DatasetVersionStabilizing = [DatasetVersionValidating, DatasetVersionFailed]"
| "version_transitions DatasetVersionValidating = [DatasetVersionPacking, DatasetVersionFailed]"
| "version_transitions DatasetVersionPacking = [DatasetVersionReady, DatasetVersionFailed]"
| "version_transitions DatasetVersionFailed = [DatasetVersionDiscovering]"
| "version_transitions DatasetVersionReady = [DatasetVersionDeprecated]"
| "version_transitions DatasetVersionDeprecated = [DatasetVersionRetired]"
| "version_transitions _ = []"

definition DatasetVersion_TransitionTo :: "DatasetVersion \<Rightarrow> DatasetVersionState \<Rightarrow> DatasetVersion result" where
  "DatasetVersion_TransitionTo v next =
     (case DatasetVersion_Validate v of
        Some e \<Rightarrow> Inl e
      | None \<Rightarrow>
          if next \<notin> set (version_transitions (dv_State v)) then
            Inl (Errorf ''dataset version cannot transition from %q to %q''
              [ArgS (version_state_string (dv_State v)), ArgS (version_state_string next)])
          else let result = v\<lparr>dv_State := next\<rparr> in
            (case DatasetVersion_Validate result of Some e \<Rightarrow> Inl e | None \<Rightarrow> Inr result))"

subsection \<open>Partitions, attempts, runs and cache observations\<close>

datatype DatasetPartitionState =
    DatasetPartitionPending | DatasetPartitionLeased | DatasetPartitionCompleted | DatasetPartitionFailed
  | DatasetPartitionOther string

fun partition_state_string :: "DatasetPartitionState \<Rightarrow> string" where
  "partition_state_string DatasetPartitionPending = ''PENDING''"
| "partition_state_string DatasetPartitionLeased = ''LEASED''"
| "partition_state_string DatasetPartitionCompleted = ''COMPLETED''"
| "partition_state_string DatasetPartitionFailed = ''FAILED''"
| "partition_state_string (DatasetPartitionOther s) = s"

fun knownDatasetPartitionState :: "DatasetPartitionState \<Rightarrow> bool" where
  "knownDatasetPartitionState (DatasetPartitionOther _) = False"
| "knownDatasetPartitionState _ = True"

record DatasetPartition =
  part_ID :: string
  part_DatasetVersionID :: string
  part_Name :: string
  part_SourceObjectCount :: int
  part_ProcessedObjectCount :: int
  part_FailedObjectCount :: int
  part_LogicalBytes :: int
  part_PackedBytes :: int

definition DatasetPartition_Validate :: "DatasetPartition \<Rightarrow> error option" where
  "DatasetPartition_Validate p = first_error [
     validateDatasetIdentifier ''partition ID'' (part_ID p),
     validateDatasetIdentifier ''dataset version ID'' (part_DatasetVersionID p),
     validateDatasetIdentifier ''partition name'' (part_Name p),
     validateProgressCounts (part_SourceObjectCount p) (part_ProcessedObjectCount p) (part_FailedObjectCount p)
       (part_LogicalBytes p) (part_PackedBytes p)]"

record PartitionAttempt =
  pa_DatasetVersionID :: string
  pa_PartitionID :: string
  pa_InputFingerprint :: string
  pa_PlanSHA256 :: string
  pa_ReceiptSHA256 :: string
  pa_State :: DatasetPartitionState
  pa_Attempt :: int
  pa_LeaseOwner :: string
  pa_LeaseExpiresAt :: "int option"

definition partition_state :: "PartitionAttempt \<Rightarrow> DatasetPartitionState" where \<comment> \<open>the empty state is pending\<close>
  "partition_state a = (if pa_State a = DatasetPartitionOther [] then DatasetPartitionPending else pa_State a)"

definition optional_digest :: "string \<Rightarrow> string \<Rightarrow> error option" where
  "optional_digest name v =
     check (v \<noteq> [] \<and> \<not> matches datasetDigestPattern v) (Errorf ''%s is invalid'' [ArgS name])"

definition PartitionAttempt_Validate :: "PartitionAttempt \<Rightarrow> error option" where
  "PartitionAttempt_Validate a = first_error [
     validateDatasetIdentifier ''dataset version ID'' (pa_DatasetVersionID a),
     validateDatasetIdentifier ''partition ID'' (pa_PartitionID a),
     optional_digest ''partition input fingerprint'' (pa_InputFingerprint a),
     optional_digest ''partition plan SHA-256'' (pa_PlanSHA256 a),
     optional_digest ''partition receipt SHA-256'' (pa_ReceiptSHA256 a),
     check (\<not> knownDatasetPartitionState (partition_state a) \<or> pa_Attempt a < 0)
       (Errorf ''partition lifecycle is invalid'' []),
     check (partition_state a = DatasetPartitionCompleted \<and> pa_ReceiptSHA256 a = [])
       (Errorf ''completed partition requires a receipt'' []),
     (if partition_state a = DatasetPartitionLeased then
        check (validateDatasetIdentifier ''partition lease owner'' (pa_LeaseOwner a) \<noteq> None \<or> pa_LeaseExpiresAt a = None)
          (Errorf ''partition lease is invalid'' [])
      else check (pa_LeaseOwner a \<noteq> [] \<or> pa_LeaseExpiresAt a \<noteq> None) (Errorf ''partition lease is invalid'' []))]"

definition PartitionAttempt_Lease :: "PartitionAttempt \<Rightarrow> string \<Rightarrow> int \<Rightarrow> PartitionAttempt result" where
  "PartitionAttempt_Lease a owner expiresAt =
     (case PartitionAttempt_Validate a of
        Some e \<Rightarrow> Inl e
      | None \<Rightarrow>
          if pa_State a \<noteq> DatasetPartitionOther [] \<and> pa_State a \<noteq> DatasetPartitionPending \<and> pa_State a \<noteq> DatasetPartitionFailed
          then Inl (Errorf ''dataset partition cannot be leased from %q'' [ArgS (partition_state_string (pa_State a))])
          else let result = a\<lparr>pa_State := DatasetPartitionLeased, pa_Attempt := int64 (pa_Attempt a + 1),
                              pa_LeaseOwner := owner, pa_LeaseExpiresAt := Some expiresAt\<rparr> in
            (case PartitionAttempt_Validate result of Some e \<Rightarrow> Inl e | None \<Rightarrow> Inr result))"

definition PartitionAttempt_Complete :: "PartitionAttempt \<Rightarrow> string \<Rightarrow> PartitionAttempt result" where
  "PartitionAttempt_Complete a receiptSHA256 =
     (case PartitionAttempt_Validate a of
        Some e \<Rightarrow> Inl e
      | None \<Rightarrow>
          if pa_State a \<noteq> DatasetPartitionLeased
          then Inl (Errorf ''dataset partition cannot complete from %q'' [ArgS (partition_state_string (pa_State a))])
          else let result = a\<lparr>pa_State := DatasetPartitionCompleted, pa_ReceiptSHA256 := receiptSHA256,
                              pa_LeaseOwner := [], pa_LeaseExpiresAt := None\<rparr> in
            (case PartitionAttempt_Validate result of Some e \<Rightarrow> Inl e | None \<Rightarrow> Inr result))"

definition ExecutionMode_Valid :: "string \<Rightarrow> bool" where
  "ExecutionMode_Valid mode \<longleftrightarrow> mode = [] \<or> mode = ''legacy'' \<or> mode = ''distributed''"

definition ExecutionMode_Normalized :: "string \<Rightarrow> string" where
  "ExecutionMode_Normalized mode = (if mode = [] then ''legacy'' else mode)"

record DatasetPublicationRun =
  run_ID :: string
  run_DatasetID :: string
  run_DatasetVersionID :: string
  run_ExecutionMode :: string
  run_State :: DatasetVersionState
  run_TotalPartitions :: int
  run_CompletedPartitions :: int
  run_FailedPartitions :: int
  run_SourceObjectCount :: int
  run_ProcessedObjectCount :: int
  run_FailedObjectCount :: int

definition DatasetPublicationRun_Validate :: "DatasetPublicationRun \<Rightarrow> error option" where
  "DatasetPublicationRun_Validate r = first_error [
     validateDatasetIdentifier ''publication ID'' (run_ID r),
     validateDatasetIdentifier ''dataset ID'' (run_DatasetID r),
     validateDatasetIdentifier ''dataset version ID'' (run_DatasetVersionID r),
     check (\<not> knownDatasetVersionState (run_State r))
       (Errorf ''unsupported publication state %q'' [ArgS (version_state_string (run_State r))]),
     check (\<not> ExecutionMode_Valid (run_ExecutionMode r))
       (Errorf ''unsupported publication execution mode %q'' [ArgS (run_ExecutionMode r)]),
     check (run_TotalPartitions r < 0 \<or> run_CompletedPartitions r < 0 \<or> run_FailedPartitions r < 0 \<or>
            run_CompletedPartitions r > run_TotalPartitions r \<or>
            run_FailedPartitions r > int64 (run_TotalPartitions r - run_CompletedPartitions r))
       (Errorf ''publication partition progress is invalid'' []),
     validateProgressCounts (run_SourceObjectCount r) (run_ProcessedObjectCount r) (run_FailedObjectCount r) 0 0]"

record DatasetPublicationWork =
  work_Dataset :: Dataset
  work_Version :: DatasetVersion
  work_Run :: DatasetPublicationRun

definition DatasetPublicationWork_Validate :: "DatasetPublicationWork \<Rightarrow> error option" where
  "DatasetPublicationWork_Validate w = first_error [
     Dataset_Validate (work_Dataset w),
     DatasetVersion_Validate (work_Version w),
     DatasetPublicationRun_Validate (work_Run w),
     check (dv_DatasetID (work_Version w) \<noteq> dset_ID (work_Dataset w) \<or> run_DatasetID (work_Run w) \<noteq> dset_ID (work_Dataset w) \<or>
            run_DatasetVersionID (work_Run w) \<noteq> dv_ID (work_Version w) \<or> run_State (work_Run w) \<noteq> dv_State (work_Version w))
       (Errorf ''dataset publication work identity or state is inconsistent'' [])]"

record DatasetCacheObservation =
  obs_ID :: string
  obs_DatasetVersionID :: string
  obs_TrainingJobID :: string
  obs_NodeName :: string
  obs_CacheHitCount :: int
  obs_CacheMissCount :: int
  obs_CacheHitBytes :: int
  obs_CacheMissBytes :: int
  obs_CachedBytes :: int
  obs_EvictedBytes :: int
  obs_ChecksumFailureCount :: int
  obs_PrefetchWaitMilliseconds :: int

definition DatasetCacheObservation_Validate :: "DatasetCacheObservation \<Rightarrow> error option" where
  "DatasetCacheObservation_Validate o' = first_error [
     validateDatasetIdentifier ''cache observation ID'' (obs_ID o'),
     validateDatasetIdentifier ''dataset version ID'' (obs_DatasetVersionID o'),
     validateDatasetIdentifier ''training job ID'' (obs_TrainingJobID o'),
     validateDatasetIdentifier ''node name'' (obs_NodeName o'),
     check (list_ex (\<lambda>x. x < 0) [obs_CacheHitCount o', obs_CacheMissCount o', obs_CacheHitBytes o', obs_CacheMissBytes o',
            obs_CachedBytes o', obs_EvictedBytes o', obs_ChecksumFailureCount o', obs_PrefetchWaitMilliseconds o']) (Errorf ''cache observation counters must be nonnegative'' [])]"

subsection \<open>The life of a version\<close>

definition version_step :: "DatasetVersion \<Rightarrow> DatasetVersion \<Rightarrow> bool" where
  "version_step v w \<longleftrightarrow> (\<exists>next. DatasetVersion_TransitionTo v next = Inr w)"

fun version_rank :: "DatasetVersionState \<Rightarrow> nat" where \<comment> \<open>0 while a version is built\<close>
  "version_rank DatasetVersionReady = 1"
| "version_rank DatasetVersionDeprecated = 2"
| "version_rank DatasetVersionRetired = 3"
| "version_rank _ = 0"

definition version_le :: "DatasetVersion \<Rightarrow> DatasetVersion \<Rightarrow> bool" where
  "version_le v w \<longleftrightarrow> w = v\<lparr>dv_State := dv_State w\<rparr> \<and> version_rank (dv_State v) \<le> version_rank (dv_State w)"

lemma published_rank: "published_state s \<longleftrightarrow> 0 < version_rank s"
  by (cases s) (simp_all add: published_state_def)

lemma version_stepE:
  assumes "version_step v w"
  shows "DatasetVersion_Validate v = None" "DatasetVersion_Validate w = None"
    and "dv_State w \<in> set (version_transitions (dv_State v))" "w = v\<lparr>dv_State := dv_State w\<rparr>"
  using assms
  by (auto simp: version_step_def DatasetVersion_TransitionTo_def Let_def split: option.splits if_splits)

lemma version_transitions_rank: "t \<in> set (version_transitions s) \<Longrightarrow> version_rank s \<le> version_rank t"
  by (cases s) auto

interpretation version: step_preorder version_step "\<lambda>v. DatasetVersion_Validate v = None" version_le
proof
  show "DatasetVersion_Validate w = None" if "DatasetVersion_Validate v = None" "version_step v w" for v w
    using version_stepE(2) [OF that(2)] .
  show "version_le v w" if "DatasetVersion_Validate v = None" "version_step v w" for v w
    using version_stepE(3,4) [OF that(2)] version_transitions_rank by (simp add: version_le_def)
  show "version_le v v" for v by (simp add: version_le_def)
  show "version_le u w" if "version_le u v" "version_le v w" for u v w
    using that unfolding version_le_def by (metis DatasetVersion.surjective DatasetVersion.update_convs(4) le_trans)
qed

lemma published_manifest:
  "DatasetVersion_Validate v = None \<Longrightarrow> published_state (dv_State v) \<Longrightarrow>
   matches datasetDigestPattern (dv_ManifestSHA256 v) \<and> dv_ManifestObjectKey v \<noteq> []"
  by (auto simp: DatasetVersion_Validate_def split: if_splits)

text \<open>
  Once a valid dataset version is READY, every sequence of successful transitions keeps all of
  its fields but the state, so its manifest digest and object key are immutable, moves the state only
  forward through READY, DEPRECATED and RETIRED, and cannot leave RETIRED.
\<close>

theorem published_version_immutable:
  assumes "version_step\<^sup>*\<^sup>* v w" "DatasetVersion_Validate v = None" "published_state (dv_State v)"
  shows "w = v\<lparr>dv_State := dv_State w\<rparr> \<and> published_state (dv_State w) \<and>
         version_rank (dv_State v) \<le> version_rank (dv_State w) \<and>
         dv_ManifestSHA256 w \<noteq> [] \<and> dv_ManifestObjectKey w \<noteq> [] \<and>
         (dv_State w = DatasetVersionRetired \<longrightarrow> (\<forall>next e. DatasetVersion_TransitionTo w next \<noteq> Inr e))"
proof -
  have le: "version_le v w" by (rule version.le_steps [OF assms(1,2)])
  have valid: "DatasetVersion_Validate w = None" by (rule version.inv_steps [OF assms(1,2)])
  have pub: "published_state (dv_State w)"
    using le assms(3) by (auto simp: published_rank version_le_def)
  have "matches datasetDigestPattern (dv_ManifestSHA256 w)" "dv_ManifestObjectKey w \<noteq> []"
    using published_manifest [OF valid pub] by auto
  then have "dv_ManifestSHA256 w \<noteq> []" by (auto simp: datasetDigestPattern_def matches_hex_digest)
  with le pub \<open>dv_ManifestObjectKey w \<noteq> []\<close> show ?thesis
    by (auto simp: version_le_def DatasetVersion_TransitionTo_def split: option.splits if_splits)
qed

definition sample_version :: DatasetVersion where
  "sample_version = \<lparr>dv_ID = ''v1'', dv_DatasetID = ''d1'', dv_Version = ''1.0'', dv_State = DatasetVersionReady,
     dv_ManifestSHA256 = replicate 64 (CHR ''a''), dv_ManifestObjectKey = ''ray-train/platform/datasets/d1/manifests/v1.parquet'',
     dv_SchemaVersion = ''s1'', dv_TrainSamples = 1, dv_ValSamples = 0, dv_TestSamples = 0, dv_SourceObjectCount = 1,
     dv_LogicalBytes = 1, dv_PackedBytes = 1, dv_SourceSyncRunID = [], dv_SourceInventorySHA256 = []\<rparr>"

theorem published_version_immutable_witness:
  "DatasetVersion_TransitionTo sample_version DatasetVersionDeprecated = Inr (sample_version\<lparr>dv_State := DatasetVersionDeprecated\<rparr>) \<and>
   published_state (dv_State (sample_version\<lparr>dv_State := DatasetVersionDeprecated\<rparr>))"
proof -
  let ?w = "sample_version\<lparr>dv_State := DatasetVersionDeprecated\<rparr>"
  have t: "DatasetVersion_TransitionTo sample_version DatasetVersionDeprecated = Inr ?w" by code_simp
  then have "version_step\<^sup>*\<^sup>* sample_version ?w" by (auto simp: version_step_def intro!: r_into_rtranclp)
  moreover have "DatasetVersion_Validate sample_version = None" by code_simp
  moreover have "published_state (dv_State sample_version)" by (simp add: sample_version_def published_state_def)
  ultimately show ?thesis using published_version_immutable t by blast
qed

subsection \<open>Manifests belong to one version\<close>

lemma identifier_plain:
  "validateDatasetIdentifier n v = None \<Longrightarrow> slash \<notin> set v \<and> plain_segment v"
  using ident_no_slash [of "''._+-''" 127 v] ident_not_dots [of "''._+-''" 127 v]
  by (auto simp: validateDatasetIdentifier_def datasetIdentifierPattern_def plain_segment_def)

lemma version_ids:
  assumes "DatasetVersion_Validate v = None"
  shows "slash \<notin> set (dv_ID v)" "plain_segment (dv_ID v)" "slash \<notin> set (dv_DatasetID v)" "plain_segment (dv_DatasetID v)"
  using assms identifier_plain
  by (auto simp: DatasetVersion_Validate_def ValidateResolvedDatasetVersionID_def split: if_splits)

lemma manifest_suffix_segments:
  assumes "DatasetVersion_Validate v = None"
  shows "split slash (''/'' @ manifest_suffix v) = [[], dv_DatasetID v, ''manifests'', dv_ID v @ ''.parquet'']"
proof -
  let ?p = "dv_DatasetID v @ slash # ''manifests'' @ slash # dv_ID v @ ''.parquet''"
  note ids = version_ids [OF assms]
  have split: "split slash ?p = [dv_DatasetID v, ''manifests'', dv_ID v @ ''.parquet'']"
    using ids by (simp add: split_append_sep split_no_sep)
  then have "Clean ?p = ?p"
    using ids by (intro Clean_plain_rel) (auto simp: plain_segment_def Cons_eq_append_conv)
  moreover have "dv_DatasetID v \<noteq> []" using ids by (simp add: plain_segment_def)
  ultimately have "manifest_suffix v = ?p" by (simp add: manifest_suffix_def Join_def)
  with split show ?thesis by simp
qed

lemma manifest_key_segments:
  assumes "DatasetVersion_Validate v = None" "dv_ManifestObjectKey v \<noteq> []"
  shows "\<exists>xs. split slash (dv_ManifestObjectKey v) = xs @ [dv_DatasetID v, ''manifests'', dv_ID v @ ''.parquet'']"
proof -
  have "has_suffix (dv_ManifestObjectKey v) (''/'' @ manifest_suffix v)"
    using assms by (auto simp: DatasetVersion_Validate_def)
  then obtain t where "dv_ManifestObjectKey v = t @ slash # manifest_suffix v" by (auto simp: has_suffix_iff)
  then have "split slash (dv_ManifestObjectKey v) = split slash t @ split slash (manifest_suffix v)"
    by (simp add: split_append_sep)
  moreover have "split slash (manifest_suffix v) = [dv_DatasetID v, ''manifests'', dv_ID v @ ''.parquet'']"
    using manifest_suffix_segments [OF assms(1)] by simp
  ultimately show ?thesis by simp
qed

text \<open>
  Valid dataset versions never alias a manifest: two versions with the same non-empty manifest
  object key are the same version of the same dataset.
\<close>

theorem manifest_key_injective:
  assumes "DatasetVersion_Validate v = None" "DatasetVersion_Validate w = None"
    and "dv_ManifestObjectKey v = dv_ManifestObjectKey w" "dv_ManifestObjectKey v \<noteq> []"
  shows "dv_ID v = dv_ID w \<and> dv_DatasetID v = dv_DatasetID w"
proof -
  obtain xs ys where "split slash (dv_ManifestObjectKey v) = xs @ [dv_DatasetID v, ''manifests'', dv_ID v @ ''.parquet'']"
    "split slash (dv_ManifestObjectKey v) = ys @ [dv_DatasetID w, ''manifests'', dv_ID w @ ''.parquet'']"
    using manifest_key_segments [of v] manifest_key_segments [of w] assms by metis
  then have "xs @ [dv_DatasetID v, ''manifests'', dv_ID v @ ''.parquet''] = ys @ [dv_DatasetID w, ''manifests'', dv_ID w @ ''.parquet'']"
    by simp
  then show ?thesis by simp
qed

subsection \<open>Partition leases\<close>

lemma lease_result:
  assumes "PartitionAttempt_Lease a owner ex = Inr b"
  shows "PartitionAttempt_Validate a = None" "PartitionAttempt_Validate b = None"
    and "partition_state a = DatasetPartitionPending \<or> partition_state a = DatasetPartitionFailed"
    and "b = a\<lparr>pa_State := DatasetPartitionLeased, pa_Attempt := int64 (pa_Attempt a + 1), pa_LeaseOwner := owner, pa_LeaseExpiresAt := Some ex\<rparr>"
  using assms by (auto simp: PartitionAttempt_Lease_def partition_state_def Let_def split: option.splits if_splits)

lemma complete_result:
  assumes "PartitionAttempt_Complete a receipt = Inr b"
  shows "PartitionAttempt_Validate a = None" "PartitionAttempt_Validate b = None" "pa_State a = DatasetPartitionLeased"
    and "b = a\<lparr>pa_State := DatasetPartitionCompleted, pa_ReceiptSHA256 := receipt, pa_LeaseOwner := [], pa_LeaseExpiresAt := None\<rparr>"
  using assms by (auto simp: PartitionAttempt_Complete_def Let_def split: option.splits if_splits)

lemma attempt_valid:
  assumes "PartitionAttempt_Validate a = None"
  shows "0 \<le> pa_Attempt a"
    and "partition_state a = DatasetPartitionCompleted \<Longrightarrow> matches datasetDigestPattern (pa_ReceiptSHA256 a)"
    and "partition_state a \<noteq> DatasetPartitionLeased \<Longrightarrow> pa_LeaseOwner a = [] \<and> pa_LeaseExpiresAt a = None"
  using assms by (auto simp: PartitionAttempt_Validate_def optional_digest_def split: if_splits)

lemma int64_succ: "in_int64 x \<Longrightarrow> 0 \<le> x \<Longrightarrow> 0 \<le> int64 (x + 1) \<Longrightarrow> int64 (x + 1) = x + 1"
proof (cases "x + 1 < 2 ^ 63")
  case True
  assume "0 \<le> x"
  with True show ?thesis by (intro int64_exact) (simp add: in_int64_def)
next
  case False
  assume "in_int64 x" "0 \<le> int64 (x + 1)"
  with False have "x + 1 = 2 ^ 63" by (simp add: in_int64_def)
  moreover have "int64 (2 ^ 63) < 0" by (simp add: int64_def signed_take_bit_eq_if_positive)
  ultimately show ?thesis using \<open>0 \<le> int64 (x + 1)\<close> by simp
qed

text \<open>
  Partition leases are exclusive and completion is final: a lease is granted only on a pending or
  failed attempt that nobody holds and numbers the attempt one higher without wrapping around;
  completion is possible only while leased, records a well-formed receipt, drops the lease, and
  the completed attempt can be neither leased nor completed again.
\<close>

theorem partition_lease_lifecycle:
  "(PartitionAttempt_Lease a owner ex = Inr b \<longrightarrow> in_int64 (pa_Attempt a) \<longrightarrow>
      pa_LeaseOwner a = [] \<and> pa_LeaseExpiresAt a = None \<and> pa_State a \<noteq> DatasetPartitionCompleted \<and>
      pa_State b = DatasetPartitionLeased \<and> pa_LeaseOwner b = owner \<and> pa_Attempt b = pa_Attempt a + 1 \<and>
      (\<forall>o' x. \<exists>e. PartitionAttempt_Lease b o' x = Inl e)) \<and>
   (PartitionAttempt_Complete a receipt = Inr b \<longrightarrow>
      pa_State a = DatasetPartitionLeased \<and> matches datasetDigestPattern receipt \<and> pa_Attempt b = pa_Attempt a \<and>
      (\<forall>o' x r. (\<exists>e. PartitionAttempt_Lease b o' x = Inl e) \<and> (\<exists>e. PartitionAttempt_Complete b r = Inl e)))"
proof (intro conjI impI)
  assume l: "PartitionAttempt_Lease a owner ex = Inr b" and range: "in_int64 (pa_Attempt a)"
  note lease = lease_result [OF l]
  have "partition_state a \<noteq> DatasetPartitionLeased" using lease(3) by auto
  with attempt_valid(3) [OF lease(1)] show "pa_LeaseOwner a = []" "pa_LeaseExpiresAt a = None" by auto
  show "pa_State a \<noteq> DatasetPartitionCompleted" using lease(3) by (auto simp: partition_state_def)
  show "pa_State b = DatasetPartitionLeased" "pa_LeaseOwner b = owner" using lease(4) by simp_all
  show "pa_Attempt b = pa_Attempt a + 1"
    using lease(4) attempt_valid(1) [OF lease(1)] attempt_valid(1) [OF lease(2)] int64_succ [OF range] by simp
  show "\<forall>o' x. \<exists>e. PartitionAttempt_Lease b o' x = Inl e"
    using lease(2,4) by (simp add: PartitionAttempt_Lease_def)
next
  assume c: "PartitionAttempt_Complete a receipt = Inr b"
  note complete = complete_result [OF c]
  show "pa_State a = DatasetPartitionLeased" "pa_Attempt b = pa_Attempt a" using complete(3,4) by simp_all
  show "matches datasetDigestPattern receipt"
    using attempt_valid(2) [OF complete(2)] complete(4) by (simp add: partition_state_def)
  show "\<forall>o' x r. (\<exists>e. PartitionAttempt_Lease b o' x = Inl e) \<and> (\<exists>e. PartitionAttempt_Complete b r = Inl e)"
    using complete(2,4) by (simp add: PartitionAttempt_Lease_def PartitionAttempt_Complete_def)
qed

definition sample_attempt :: PartitionAttempt where
  "sample_attempt = \<lparr>pa_DatasetVersionID = ''v1'', pa_PartitionID = ''p0'', pa_InputFingerprint = [], pa_PlanSHA256 = [],
     pa_ReceiptSHA256 = [], pa_State = DatasetPartitionPending, pa_Attempt = 4, pa_LeaseOwner = [], pa_LeaseExpiresAt = None\<rparr>"

theorem partition_lease_lifecycle_witness:
  "\<exists>b. PartitionAttempt_Lease sample_attempt ''worker-1'' 100 = Inr b \<and> pa_Attempt b = 5"
proof -
  define b where "b = sample_attempt\<lparr>pa_State := DatasetPartitionLeased, pa_Attempt := 5, pa_LeaseOwner := ''worker-1'', pa_LeaseExpiresAt := Some 100\<rparr>"
  have l: "PartitionAttempt_Lease sample_attempt ''worker-1'' 100 = Inr b" unfolding b_def by code_simp
  moreover have "in_int64 (pa_Attempt sample_attempt)" by (simp add: sample_attempt_def in_int64_def)
  ultimately have "pa_Attempt b = pa_Attempt sample_attempt + 1" using partition_lease_lifecycle by blast
  with l show ?thesis by (simp add: sample_attempt_def)
qed

end
