(* ===== verification/Training_Job.thy ===== *)
theory Training_Job
  imports Job_State Resource_Limits Training_Engine Managed_Entrypoint Dataset
begin

section \<open>Training jobs: specification and validation\<close>

text \<open>
  \<open>backend/domain/training_job.go\<close> and \<open>backend/domain/scheduling.go\<close>, with the parts of
  \<open>data_location.go\<close> that inspect a job. Pointers are options and \<open>*time.Time\<close> is \<open>int option\<close>.
  Of \<open>resource.ParseQuantity\<close> (Kubernetes apimachinery) the code uses whether a string parses
  to a positive quantity: that test is the parameter \<open>positiveQuantity\<close>.
\<close>

record CodeSource =
  src_Type :: string
  src_URL :: string
  src_Commit :: string
  src_URI :: string
  src_Snapshot :: string
  src_ArtifactID :: string
  src_ArtifactObjectKey :: string
  src_ArtifactSHA256 :: string

definition SubmissionOriginPortal :: string where [go_consts]: "SubmissionOriginPortal = ''portal''"
definition SubmissionOriginAPI :: string where [go_consts]: "SubmissionOriginAPI = ''api''"
definition SubmissionOriginRayCLI :: string where [go_consts]: "SubmissionOriginRayCLI = ''ray-cli''"
definition SubmissionOriginEvaluation :: string where [go_consts]: "SubmissionOriginEvaluation = ''evaluation''"
definition SubmissionOriginServing :: string where [go_consts]: "SubmissionOriginServing = ''serving''"

definition SubmissionOrigin_Validate :: "string \<Rightarrow> error option" where
  "SubmissionOrigin_Validate origin =
     check (origin \<notin> set [SubmissionOriginPortal, SubmissionOriginAPI, SubmissionOriginRayCLI,
              SubmissionOriginEvaluation, SubmissionOriginServing])
       (Errorf ''unsupported submission origin %q'' [ArgS origin])"

record TenantQuota =
  quota_TenantID :: string
  quota_GPULimit :: int
  quota_GPUUsed :: int
  quota_GPUAvailable :: int

record CleanupPolicy =
  clean_SuccessTTLSeconds :: int
  clean_FailureTTLSeconds :: int

definition CacheModeOff :: string where [go_consts]: "CacheModeOff = ''off''"
definition CacheModeRuntime :: string where [go_consts]: "CacheModeRuntime = ''runtime''"
definition CachePreloadInput :: string where [go_consts]: "CachePreloadInput = ''input''"

record CacheRequest =
  cache_Mode :: string
  cache_Size :: string
  cache_Preload :: string

definition CacheRequest_Validate :: "(string \<Rightarrow> bool) \<Rightarrow> CacheRequest \<Rightarrow> error option" where
  "CacheRequest_Validate positiveQuantity cache =
     (let size = trim_space (cache_Size cache); preload = trim_space (cache_Preload cache) in
      if cache_Mode cache = [] \<or> cache_Mode cache = CacheModeOff then first_error [
        check (size \<noteq> []) (Errorf ''off cache cannot specify size'' []),
        check (preload \<noteq> []) (Errorf ''off cache cannot specify preload'' [])]
      else if cache_Mode cache = CacheModeRuntime then first_error [
        check (size = []) (Errorf ''runtime cache size is required'' []),
        check (preload \<noteq> [] \<and> preload \<noteq> CachePreloadInput) (Errorf ''unsupported cache preload %q'' [ArgS preload]),
        check (\<not> positiveQuantity size) (Errorf ''runtime cache size must be a positive Kubernetes storage quantity'' [])]
      else Some (Errorf ''unsupported cache mode %q'' [ArgS (cache_Mode cache)]))"

definition DatasetCachePolicy_Validate :: "string \<Rightarrow> error option" where
  "DatasetCachePolicy_Validate policy =
     check (policy \<notin> set [[], ''auto'', ''off'', ''bounded'']) (Errorf ''unsupported dataset cache policy %q'' [ArgS policy])"

subsection \<open>Dataset references and provenance\<close>

record DatasetReference =
  ref_Dataset :: string
  ref_Version :: string
  ref_Sites :: string

definition DatasetReference_IsZero :: "DatasetReference \<Rightarrow> bool" where
  "DatasetReference_IsZero ref \<longleftrightarrow> blank (ref_Dataset ref) \<and> blank (ref_Version ref) \<and> ref_Sites ref = []"

definition DatasetReference_Validate :: "DatasetReference \<Rightarrow> error option" where
  "DatasetReference_Validate ref =
     (case DatasetSites_Validate (ref_Sites ref) of
        Some e \<Rightarrow> Some e
      | None \<Rightarrow>
          if DatasetReference_IsZero ref then None
          else first_error [
            check (blank (ref_Dataset ref) \<or> blank (ref_Version ref)) (Errorf ''datasetRef requires dataset and version'' []),
            validateDatasetIdentifier ''dataset reference'' (ref_Dataset ref),
            result_error (ParseDatasetVersionSelector (ref_Version ref))])"

record DatasetProvenance =
  prov_Sites :: string
  prov_DatasetID :: string
  prov_DatasetVersionID :: string
  prov_ManifestSHA256 :: string
  prov_DataMode :: string
  prov_CachePolicy :: string
  prov_SourceSyncRunID :: string
  prov_SourceInventorySHA256 :: string

definition DatasetProvenance_IsZero :: "DatasetProvenance \<Rightarrow> bool" where
  "DatasetProvenance_IsZero p \<longleftrightarrow> prov_Sites p = [] \<and> blank (prov_DatasetID p) \<and> blank (prov_DatasetVersionID p) \<and>
     blank (prov_ManifestSHA256 p) \<and> blank (prov_DataMode p) \<and> blank (prov_CachePolicy p) \<and>
     blank (prov_SourceSyncRunID p) \<and> blank (prov_SourceInventorySHA256 p)"

definition DatasetProvenance_Validate :: "DatasetProvenance \<Rightarrow> error option" where
  "DatasetProvenance_Validate p =
     (case DatasetSites_Validate (prov_Sites p) of
        Some e \<Rightarrow> Some e
      | None \<Rightarrow>
          if DatasetProvenance_IsZero p then None
          else first_error [
            check (blank (prov_DatasetID p) \<or> blank (prov_DatasetVersionID p) \<or> blank (prov_ManifestSHA256 p) \<or>
                   blank (prov_DataMode p) \<or> blank (prov_CachePolicy p))
              (Errorf ''dataset provenance must be empty or complete'' []),
            validateDatasetIdentifier ''dataset ID'' (prov_DatasetID p),
            ValidateResolvedDatasetVersionID (prov_DatasetVersionID p),
            check (\<not> matches datasetDigestPattern (prov_ManifestSHA256 p))
              (Errorf ''manifest SHA-256 must be 64 lowercase hexadecimal characters'' []),
            check (prov_DataMode p \<noteq> DataModeStreaming)
              (Errorf ''dataset provenance data mode must be %q'' [ArgS DataModeStreaming]),
            DatasetCachePolicy_Validate (prov_CachePolicy p),
            check (blank (prov_SourceSyncRunID p) \<noteq> blank (prov_SourceInventorySHA256 p))
              (Errorf ''dataset source sync provenance must be empty or complete'' []),
            (if prov_SourceSyncRunID p \<noteq> [] then first_error [
               validateDatasetIdentifier ''dataset source sync run ID'' (prov_SourceSyncRunID p),
               check (\<not> matches datasetDigestPattern (prov_SourceInventorySHA256 p))
                 (Errorf ''dataset source inventory SHA-256 must be 64 lowercase hexadecimal characters'' [])]
             else None)])"

subsection \<open>The job specification\<close>

record EvaluationRuntime =
  er_EvaluationID :: string
  er_ModelSHA256 :: string
  er_DatasetManifestSHA256 :: string
  er_DatasetSplit :: string
  er_DatasetSampleCount :: int
  er_ConfigJSON :: string
  er_ConfigSHA256 :: string
  er_EvaluatorID :: string
  er_Protocol :: string
  er_CodeID :: string
  er_CodeSHA256 :: string
  er_CodeSizeBytes :: int
  er_CodeFormat :: string

record ServingRuntime =
  sr_DeploymentID :: string
  sr_ModelSHA256 :: string
  sr_ModelSizeBytes :: int
  sr_CodeID :: string
  sr_CodeSHA256 :: string
  sr_CodeSizeBytes :: int
  sr_CodeFormat :: string
  sr_Protocol :: string

record JobSpec =
  spec_Name :: string
  spec_Image :: string
  spec_Source :: CodeSource
  spec_Entrypoint :: Entrypoint
  spec_Execution :: ExecutionProfile
  spec_TrainingEngine :: string
  spec_RayVersion :: string
  spec_Managed :: ManagedTrainingPolicy
  spec_EvaluationRuntime :: "EvaluationRuntime option"
  spec_ServingRuntime :: "ServingRuntime option"
  spec_DataMode :: string
  spec_DatasetRef :: DatasetReference
  spec_CachePolicy :: string
  spec_ParentJobID :: string
  spec_Resources :: Resources
  spec_Queue :: string
  spec_Priority :: string
  spec_AcceleratorClass :: string
  spec_Preemptible :: bool
  spec_DatasetURI :: string
  spec_CheckpointURI :: string
  spec_OutputURI :: string
  spec_DatasetStorage :: StorageSelection
  spec_CheckpointStorage :: StorageSelection
  spec_OutputStorage :: StorageSelection
  spec_Input :: DataLocation
  spec_Checkpoint :: DataLocation
  spec_Output :: DataLocation
  spec_ResolvedStorage :: ResolvedStorageMounts
  spec_ResolvedDataMounts :: ResolvedDataSpaceMounts
  spec_ResolvedDataRoots :: ResolvedDataSpaceRoots
  spec_TimeoutSeconds :: int
  spec_MaxRetries :: int \<comment> \<open>\<open>RetryPolicy.MaxRetries\<close>\<close>
  spec_CleanupPolicy :: CleanupPolicy
  spec_Cache :: CacheRequest

subsection \<open>Scheduling\<close>

definition AcceleratorRTX4090 :: string where [go_consts]: "AcceleratorRTX4090 = ''rtx4090''"
definition AcceleratorA100 :: string where [go_consts]: "AcceleratorA100 = ''a100''"
definition AcceleratorA800 :: string where [go_consts]: "AcceleratorA800 = ''a800''"
definition AcceleratorH20 :: string where [go_consts]: "AcceleratorH20 = ''h20''"

definition AcceleratorClass_Resolved :: "string \<Rightarrow> string" where
  "AcceleratorClass_Resolved a = (if blank a then AcceleratorRTX4090 else to_lower (trim_space a))"

definition AcceleratorClass_Validate :: "string \<Rightarrow> error option" where
  "AcceleratorClass_Validate a =
     check (AcceleratorClass_Resolved a \<notin> set [AcceleratorRTX4090, AcceleratorA100, AcceleratorA800, AcceleratorH20])
       (Errorf ''unsupported accelerator class %q'' [ArgS a])"

definition NodeLabelValue :: "string \<Rightarrow> string" where
  "NodeLabelValue a =
     (if AcceleratorClass_Resolved a = AcceleratorRTX4090 then ''nvidia-rtx-4090''
      else ''nvidia-'' @ AcceleratorClass_Resolved a)"

definition WorkloadPriorityProduction :: string where [go_consts]: "WorkloadPriorityProduction = ''production''"
definition WorkloadPriorityNormal :: string where [go_consts]: "WorkloadPriorityNormal = ''normal''"
definition WorkloadPriorityOpportunistic :: string where [go_consts]: "WorkloadPriorityOpportunistic = ''opportunistic''"

definition WorkloadPriority_Resolved :: "string \<Rightarrow> string" where
  "WorkloadPriority_Resolved p = (if blank p then WorkloadPriorityNormal else to_lower (trim_space p))"

definition WorkloadPriority_Validate :: "string \<Rightarrow> error option" where
  "WorkloadPriority_Validate p =
     check (WorkloadPriority_Resolved p \<notin> set [WorkloadPriorityProduction, WorkloadPriorityNormal, WorkloadPriorityOpportunistic])
       (Errorf ''unsupported workload priority %q'' [ArgS p])"

definition KubernetesPriorityClass :: "string \<Rightarrow> string" where
  "KubernetesPriorityClass p = ''raytrain-'' @ WorkloadPriority_Resolved p"

definition HasRecoverableCheckpointPolicy :: "JobSpec \<Rightarrow> bool" where
  "HasRecoverableCheckpointPolicy spec \<longleftrightarrow>
     TrainingEngine_Resolved (spec_TrainingEngine spec) = TrainingEngineRayTrain \<and>
     mtp_MaxFailures (spec_Managed spec) > 0 \<and>
     cp_EveryEpochs (mtp_Checkpoint (spec_Managed spec)) > 0 \<and>
     (cp_KeepLatest (mtp_Checkpoint (spec_Managed spec)) > 0 \<or> cp_KeepBest (mtp_Checkpoint (spec_Managed spec)) > 0)"

definition validateScheduling :: "JobSpec \<Rightarrow> error option" where
  "validateScheduling spec =
     (let opportunistic = (WorkloadPriority_Resolved (spec_Priority spec) = WorkloadPriorityOpportunistic) in first_error [
        AcceleratorClass_Validate (spec_AcceleratorClass spec),
        WorkloadPriority_Validate (spec_Priority spec),
        check (spec_Preemptible spec \<and> \<not> opportunistic)
          (Errorf ''preemptible jobs must use opportunistic priority'' []),
        (if opportunistic then first_error [
           check (\<not> spec_Preemptible spec)
             (Errorf ''opportunistic jobs must explicitly enable preemption'' []),
           check (\<not> HasRecoverableCheckpointPolicy spec)
             (Errorf ''opportunistic jobs require managed Ray Train checkpoint recovery'' []),
           check (res_WorkerReplicas (spec_Resources spec) \<noteq> 1 \<or> res_GPUsPerWorker (spec_Resources spec) \<noteq> 1)
             (Errorf ''opportunistic jobs must use exactly one worker and one GPU'' [])]
         else None)])"

record Tenant =
  tenant_ID :: string
  tenant_Name :: string
  tenant_Namespace :: string
  tenant_LocalQueue :: string
  tenant_GPUQuotaLimit :: int
  tenant_AcceleratorClass :: string

definition Tenant_Validate :: "Tenant \<Rightarrow> error option" where
  "Tenant_Validate t = first_error [
     check (blank (tenant_ID t)) (Errorf ''tenant id is required'' []),
     check (blank (tenant_Namespace t) \<or> blank (tenant_LocalQueue t)) (Errorf ''tenant namespace and queue are required'' []),
     check (tenant_GPUQuotaLimit t < 0) (Errorf ''gpu quota cannot be negative'' []),
     AcceleratorClass_Validate (tenant_AcceleratorClass t)]"

subsection \<open>Images\<close>

definition NormalizeImageReference :: "string \<Rightarrow> string" where
  "NormalizeImageReference img = trim_space img"

definition ValidatePinnedImage :: "string \<Rightarrow> error option" where
  "ValidatePinnedImage img =
     check (\<not> matches digestImage img) (Errorf ''image must be pinned by sha256 digest'' [])"

definition last_index :: "char \<Rightarrow> string \<Rightarrow> int" where \<comment> \<open>\<open>strings.LastIndexByte\<close>\<close>
  "last_index c s = (if c \<in> set s then int (length s) - 1 - int (length (takeWhile (\<lambda>x. x \<noteq> c) (rev s))) else -1)"

fun valid_repository_parts :: "bool \<Rightarrow> string list \<Rightarrow> bool" where \<comment> \<open>whether the head may be a registry\<close>
  "valid_repository_parts registry [] = True"
| "valid_repository_parts registry (part # parts) =
     (if part = [] then False
      else if registry \<and> (contains_any part ''.:'' \<or> part = ''localhost'') then
        matches imageRegistryComponent part \<and> valid_repository_parts False parts
      else matches imagePathComponent part \<and> valid_repository_parts False parts)"

definition validTaggedImage :: "string \<Rightarrow> bool" where
  "validTaggedImage img =
     (let lastSlash = last_index slash img; lastColon = last_index (CHR '':'') img in
      if img = [] \<or> contains_any img ([CHR ''@'', CHR '' '', tab, cr, nl]) \<or> contains img ''//'' then False
      else if lastColon \<le> lastSlash \<or> lastColon = int (length img) - 1 then False
      else if count_list (drop (nat (lastSlash + 1)) img) (CHR '':'') \<noteq> 1 \<or>
              \<not> matches imageTag (drop (nat (lastColon + 1)) img) then False
      else let parts = split slash (take (nat lastColon) img) in
        valid_repository_parts (length parts > 1) parts)"

definition ValidateRuntimeImage :: "string \<Rightarrow> error option" where
  "ValidateRuntimeImage img =
     (if matches digestImage img then None
      else check (\<not> validTaggedImage img) (Errorf ''image must include an explicit tag or sha256 digest'' []))"

definition IsPinnedImage :: "string \<Rightarrow> bool" where
  "IsPinnedImage img = matches digestImage img"

definition RuntimeImagePullPolicy :: "string \<Rightarrow> string" where
  "RuntimeImagePullPolicy img = (if IsPinnedImage img then ''IfNotPresent'' else ''Always'')"

subsection \<open>Code sources\<close>

text \<open>
  The \<open>tos\<close> case reads \<open>parsed.Path\<close> before it looks at the error of \<open>url.Parse\<close>, which returns a nil
  pointer with every error: a URI that does not parse makes the program panic.
\<close>

definition CodeSource_validate :: "CodeSource \<Rightarrow> error option" where
  "CodeSource_validate s =
     (if src_Type s = ''git'' then
        (let bad = (case url_Parse (src_URL s) of
             None \<Rightarrow> True
           | Some u \<Rightarrow> Hostname u = [] \<or> (url_Scheme u \<noteq> ''https'' \<and> url_Scheme u \<noteq> ''http'') \<or> url_HasUser u) in
         first_error [
           check bad (Errorf ''git source requires an http(s) URL without embedded credentials'' []),
           check (\<not> matches gitCommit (src_Commit s)) (Errorf ''git source requires url and commit'' [])])
      else if src_Type s = ''tos'' then
        (case url_Parse (src_URI s) of
           None \<Rightarrow> Some (RuntimePanic ''invalid memory address or nil pointer dereference'')
         | Some u \<Rightarrow>
             let objectPath = trim_byte slash (url_Path u) in
             check (url_Scheme u \<noteq> ''tos'' \<or> url_Host u = [] \<or> objectPath = [] \<or> contains objectPath ''..'')
               (Errorf ''tos source requires a tos:// URI'' []))
      else if src_Type s = ''workspace'' then
        check (\<not> matches snapshotID (src_Snapshot s)) (Errorf ''workspace source requires snapshot'' [])
      else if src_Type s = ''workspace-archive'' then
        check (blank (src_ArtifactID s)) (Errorf ''workspace archive source requires artifactId'' [])
      else if src_Type s = ''evaluation-archive'' \<or> src_Type s = ''serving-archive'' then
        check (\<not> matches (hex_digest 32) (src_ArtifactID s) \<or> \<not> matches (hex_digest 64) (src_ArtifactSHA256 s) \<or>
               s \<noteq> \<lparr>src_Type = src_Type s, src_URL = [], src_Commit = [], src_URI = [], src_Snapshot = [],
                    src_ArtifactID = src_ArtifactID s, src_ArtifactObjectKey = [], src_ArtifactSHA256 = src_ArtifactSHA256 s\<rparr>)
          (Errorf ''evaluation archive requires only a frozen code id and SHA-256'' [])
      else if src_Type s = ''artifact'' then
        check (blank (src_ArtifactID s)) (Errorf ''artifact source requires artifactId'' [])
      else Some (Errorf ''unsupported source type %q'' [ArgS (src_Type s)]))"

subsection \<open>Data locations of a job\<close>

definition hasLogicalDataLocation :: "JobSpec \<Rightarrow> bool" where
  "hasLogicalDataLocation spec \<longleftrightarrow>
     loc_Space (spec_Input spec) \<noteq> [] \<or> loc_RelativePath (spec_Input spec) \<noteq> [] \<or>
     loc_Space (spec_Checkpoint spec) \<noteq> [] \<or> loc_RelativePath (spec_Checkpoint spec) \<noteq> [] \<or>
     loc_Space (spec_Output spec) \<noteq> [] \<or> loc_RelativePath (spec_Output spec) \<noteq> []"

definition hasLegacyStorageSelection :: "JobSpec \<Rightarrow> bool" where
  "hasLegacyStorageSelection spec \<longleftrightarrow>
     sel_AssetID (spec_DatasetStorage spec) \<noteq> [] \<or> sel_RelativePath (spec_DatasetStorage spec) \<noteq> [] \<or>
     sel_AssetID (spec_CheckpointStorage spec) \<noteq> [] \<or> sel_RelativePath (spec_CheckpointStorage spec) \<noteq> [] \<or>
     sel_AssetID (spec_OutputStorage spec) \<noteq> [] \<or> sel_RelativePath (spec_OutputStorage spec) \<noteq> []"

definition hasLegacyDataURI :: "JobSpec \<Rightarrow> bool" where
  "hasLegacyDataURI spec \<longleftrightarrow>
     \<not> blank (spec_DatasetURI spec) \<or> \<not> blank (spec_CheckpointURI spec) \<or> \<not> blank (spec_OutputURI spec)"

definition validate_logical_location :: "string \<Rightarrow> bool \<Rightarrow> DataLocation \<Rightarrow> error option" where
  "validate_logical_location field isOutput location =
     (if loc_Space location = [] \<and> loc_RelativePath location = [] then None
      else if loc_Space location = DataSpaceWellspikingPersonal then
        Some (Errorf ''%s: Wellspiking personal storage is available only in the data browser and debug workspace'' [ArgS field])
      else first_error [
        wrap ''%s: %w'' [ArgS field] (DataLocation_Validate location),
        (if isOutput then wrap ''%s: %w'' [ArgS field] (ValidateOutputSpace (loc_Space location)) else None)])"

definition validateLogicalDataLocations :: "JobSpec \<Rightarrow> error option" where
  "validateLogicalDataLocations spec = first_error [
     validate_logical_location ''input'' False (spec_Input spec),
     validate_logical_location ''checkpoint'' False (spec_Checkpoint spec),
     validate_logical_location ''output'' True (spec_Output spec),
     check (hasLogicalDataLocation spec \<and> hasLegacyStorageSelection spec)
       (Errorf ''logical data locations cannot be combined with legacy storage selections'' []),
     check (hasLogicalDataLocation spec \<and> hasLegacyDataURI spec)
       (Errorf ''logical data locations cannot be combined with legacy storage URIs'' [])]"

definition invalidStoragePath :: "string \<Rightarrow> bool" where
  "invalidStoragePath v = (let path = trim_space v in path = [] \<or> ''..'' \<in> set (split slash path))"

definition validateDataLocation :: "string \<Rightarrow> string \<Rightarrow> error option" where
  "validateDataLocation field raw =
     (let v = trim_space raw in
      if v = [] then None
      else case ParseRequestURI v of
        None \<Rightarrow> Some (Errorf ''%s must be a supported storage URI without credentials, query, or fragment'' [ArgS field])
      | Some u \<Rightarrow>
          if url_HasUser u \<or> url_RawQuery u \<noteq> [] \<or> url_Fragment u \<noteq> [] then
            Some (Errorf ''%s must be a supported storage URI without credentials, query, or fragment'' [ArgS field])
          else if url_Scheme u = ''tos'' then
            check (blank (url_Host u) \<or> invalidStoragePath (url_Path u)) (Errorf ''%s must be a tos://bucket/path URI'' [ArgS field])
          else if url_Scheme u = ''idc'' then
            (let location = trim_byte slash (join ''/'' [url_Host u, url_Path u]) in
             check (location = [] \<or> invalidStoragePath location) (Errorf ''%s must be an idc:///path URI'' [ArgS field]))
          else Some (Errorf ''%s must use tos:// or idc:// storage'' [ArgS field]))"

definition validate_storage_selection :: "string \<Rightarrow> string \<Rightarrow> StorageSelection \<Rightarrow> bool \<Rightarrow> error option" where
  "validate_storage_selection field legacyLocation selection output =
     (if \<not> blank legacyLocation \<and> \<not> blank (sel_AssetID selection) then
        Some (Errorf ''%s cannot be combined with its legacy URI'' [ArgS field])
      else if blank (sel_AssetID selection) then
        check (\<not> blank (sel_RelativePath selection)) (Errorf ''%s relative path requires a storage asset'' [ArgS field])
      else if sel_AssetID selection \<noteq> trim_space (sel_AssetID selection) then
        Some (Errorf ''%s asset id must not contain surrounding whitespace'' [ArgS field])
      else case NormalizeStorageRelativePath (sel_RelativePath selection) of
        Inl e \<Rightarrow> Some (Wrapf ''%s: %w'' [ArgS field] e)
      | Inr path \<Rightarrow> check (output \<and> path \<noteq> []) (Errorf ''outputStorage relative path is platform generated'' []))"

definition validateStorageSelections :: "JobSpec \<Rightarrow> error option" where
  "validateStorageSelections spec = first_error [
     validate_storage_selection ''datasetStorage'' (spec_DatasetURI spec) (spec_DatasetStorage spec) False,
     validate_storage_selection ''checkpointStorage'' (spec_CheckpointURI spec) (spec_CheckpointStorage spec) False,
     validate_storage_selection ''outputStorage'' (spec_OutputURI spec) (spec_OutputStorage spec) True]"

subsection \<open>Validation of a whole specification\<close>

definition validateDatasetSelection :: "JobSpec \<Rightarrow> error option" where
  "validateDatasetSelection s =
     (let hasDatasetRef = (\<not> DatasetReference_IsZero (spec_DatasetRef s)); hasCachePolicy = (\<not> blank (spec_CachePolicy s)) in
      if spec_DataMode s = DataModeStreaming then first_error [
        check (\<not> hasDatasetRef) (Errorf ''streaming requires datasetRef'' []),
        check (\<not> hasCachePolicy) (Errorf ''streaming requires cachePolicy'' [])]
      else first_error [
        check hasDatasetRef (Errorf ''datasetRef requires streaming data mode'' []),
        check hasCachePolicy (Errorf ''cachePolicy requires datasetRef'' [])])"

definition validate_data_mode :: "JobSpec \<Rightarrow> error option" where
  "validate_data_mode s =
     (let engine = TrainingEngine_Resolved (spec_TrainingEngine s);
          dataMode = (if blank (spec_DataMode s) then [] else spec_DataMode s) in
      if dataMode = [] \<or> dataMode = DataModeMount then None
      else if dataMode = DataModeCache then
        check (cache_Mode (spec_Cache s) \<noteq> CacheModeRuntime \<or> cache_Preload (spec_Cache s) \<noteq> CachePreloadInput)
          (Errorf ''cache data mode requires runtime cache with preload=input'' [])
      else if dataMode = DataModeRayData then
        check (engine \<noteq> TrainingEngineRayTrain) (Errorf ''ray-data requires ray-train'' [])
      else if dataMode = DataModeRayDataStage then first_error [
        check (engine \<noteq> TrainingEngineRayTrain) (Errorf ''ray-data-stage requires ray-train'' []),
        check (loc_Space (spec_Input s) = [] \<or> blank (loc_RelativePath (spec_Input s)))
          (Errorf ''ray-data-stage requires a governed input data space with a non-empty input path'' []),
        check (cache_Mode (spec_Cache s) \<noteq> CacheModeRuntime) (Errorf ''ray-data-stage requires runtime cache'' []),
        check (cache_Preload (spec_Cache s) \<noteq> []) (Errorf ''ray-data-stage does not support cache preload'' [])]
      else if dataMode = DataModeStreaming then first_error [
        check (engine \<noteq> TrainingEngineRayTrain) (Errorf ''streaming requires ray-train'' []),
        check (spec_RayVersion s \<noteq> RayVersionCanary) (Errorf ''streaming requires Ray 2.58.0'' []),
        check (\<not> RayData_IsZero (mtp_RayData (spec_Managed s))) (Errorf ''streaming does not support Ray Data dataset config'' [])]
      else Some (Errorf ''unsupported data mode %q'' [ArgS (spec_DataMode s)]))"

definition validateTrainingRuntime :: "JobSpec \<Rightarrow> error option" where
  "validateTrainingRuntime s =
     (let engine = TrainingEngine_Resolved (spec_TrainingEngine s) in first_error [
        check (spec_RayVersion s \<notin> set [[], RayVersionLegacy, RayVersionProduction, RayVersionCanary])
          (Errorf ''unsupported Ray version %q'' [ArgS (spec_RayVersion s)]),
        (if engine = TrainingEngineRayDDP then
           check (spec_Managed s \<noteq> zero_ManagedTrainingPolicy) (Errorf ''managed policy requires ray-train'' [])
         else if engine = TrainingEngineRayTrain then first_error [
           check (spec_RayVersion s \<noteq> RayVersionProduction \<and> spec_RayVersion s \<noteq> RayVersionCanary)
             (Errorf ''ray-train requires Ray 2.56.1 or Ray 2.58.0'' []),
           ManagedTrainingPolicy_Validate (spec_Managed s)]
         else Some (Errorf ''unsupported training engine %q'' [ArgS (spec_TrainingEngine s)])),
        validate_data_mode s,
        check (spec_ParentJobID s \<noteq> [] \<and> \<not> matches jobID (spec_ParentJobID s))
          (Errorf ''parentJobId must match the platform job ID format'' [])])"

definition validate_size :: "JobSpec \<Rightarrow> ResourceLimits option \<Rightarrow> error option" where
  "validate_size s limits =
     (let w = res_WorkerReplicas (spec_Resources s); g = res_GPUsPerWorker (spec_Resources s) in
      if w < 1 \<or> (case limits of None \<Rightarrow> False | Some l \<Rightarrow> w > lim_MaxWorkerReplicas l) then
        Some (case limits of
            Some l \<Rightarrow> Errorf ''workerReplicas must be between 1 and %d'' [ArgI (lim_MaxWorkerReplicas l)]
          | None \<Rightarrow> Errorf ''workerReplicas must be positive'' [])
      else if g < 1 \<or> (case limits of None \<Rightarrow> False | Some l \<Rightarrow> g > lim_MaxGPUsPerWorker l) then
        Some (case limits of
            Some l \<Rightarrow> Errorf ''gpusPerWorker must be between 1 and %d'' [ArgI (lim_MaxGPUsPerWorker l)]
          | None \<Rightarrow> Errorf ''gpusPerWorker must be positive'' [])
      else if w > MaxInt64 sdiv g then Some (Errorf ''total GPUs exceeds supported integer limits'' [])
      else case limits of
        None \<Rightarrow> None
      | Some l \<Rightarrow> check (int64 (w * g) > lim_MaxTotalGPUs l) (Errorf ''total GPUs cannot exceed %d'' [ArgI (lim_MaxTotalGPUs l)]))"

definition JobSpec_validate :: "(string \<Rightarrow> bool) \<Rightarrow> JobSpec \<Rightarrow> ResourceLimits option \<Rightarrow> error option" where
  "JobSpec_validate positiveQuantity s limits =
     (let words = ep_Command (spec_Entrypoint s) @ ep_Args (spec_Entrypoint s);
          managed = (TrainingEngine_Resolved (spec_TrainingEngine s) = TrainingEngineRayTrain) in first_error [
        check (spec_Name s = [] \<or> length (spec_Name s) > 63 \<or> \<not> matches dnsLabel (spec_Name s))
          (Errorf ''name must be a lowercase DNS label with 1-63 characters'' []),
        ValidateRuntimeImage (spec_Image s),
        CodeSource_validate (spec_Source s),
        check (ep_Command (spec_Entrypoint s) = [] \<or> blank (ep_Command (spec_Entrypoint s) ! 0))
          (Errorf ''entrypoint command is required'' []),
        (if managed then validateManagedEntrypoint (spec_Entrypoint s) else None),
        check ((src_Type (spec_Source s) = ''evaluation-archive'' \<or> src_Type (spec_Source s) = ''serving-archive'') \<and>
               (\<not> managed \<or> length words < 2 \<or> words ! 0 \<noteq> ''python''))
          (Errorf ''evaluation archive entrypoint must directly use python file.py or python -m module'' []),
        validate_size s limits,
        ExecutionProfile_Validate (spec_Execution s) (spec_Resources s),
        validateTrainingRuntime s,
        ManagedTrainingPolicy_ValidateDataMode (spec_Managed s) (spec_DataMode s),
        DatasetReference_Validate (spec_DatasetRef s),
        DatasetCachePolicy_Validate (spec_CachePolicy s),
        validateDatasetSelection s,
        check (blank (spec_Queue s)) (Errorf ''queue is required'' []),
        validateScheduling s,
        CacheRequest_Validate positiveQuantity (spec_Cache s),
        validateDataLocation ''datasetUri'' (spec_DatasetURI s),
        validateDataLocation ''checkpointUri'' (spec_CheckpointURI s),
        validateDataLocation ''outputUri'' (spec_OutputURI s),
        validateStorageSelections s,
        validateLogicalDataLocations s,
        (if cache_Preload (spec_Cache s) = CachePreloadInput then first_error [
           check (loc_Space (spec_Input s) = []) (Errorf ''automatic cache preload requires a governed input data space'' []),
           check (blank (loc_RelativePath (spec_Input s))) (Errorf ''automatic cache preload requires a non-empty input path'' [])]
         else None),
        ResolvedStorageMounts_Validate (spec_ResolvedStorage s),
        ResolvedDataSpaceMounts_Validate (spec_ResolvedDataMounts s),
        ResolvedDataSpaceRoots_Validate (spec_ResolvedDataRoots s),
        check (spec_MaxRetries s < 0 \<or> spec_MaxRetries s > 3) (Errorf ''maxRetries must be between 0 and 3'' [])])"

definition JobSpec_Validate :: "(string \<Rightarrow> bool) \<Rightarrow> ResourceLimits \<Rightarrow> JobSpec \<Rightarrow> error option" where
  "JobSpec_Validate positiveQuantity currentLimits s = JobSpec_validate positiveQuantity s (Some currentLimits)"

definition JobSpec_ValidateShape :: "(string \<Rightarrow> bool) \<Rightarrow> JobSpec \<Rightarrow> error option" where
  "JobSpec_ValidateShape positiveQuantity s = JobSpec_validate positiveQuantity s None"

subsection \<open>What a valid specification guarantees\<close>

lemma validate_size_None:
  assumes "validate_size s limits = None"
  shows "1 \<le> res_WorkerReplicas (spec_Resources s)" "1 \<le> res_GPUsPerWorker (spec_Resources s)"
    and "res_WorkerReplicas (spec_Resources s) * res_GPUsPerWorker (spec_Resources s) \<le> MaxInt64"
    and "limits = Some l \<Longrightarrow> res_WorkerReplicas (spec_Resources s) \<le> lim_MaxWorkerReplicas l \<and>
           res_GPUsPerWorker (spec_Resources s) \<le> lim_MaxGPUsPerWorker l \<and>
           res_WorkerReplicas (spec_Resources s) * res_GPUsPerWorker (spec_Resources s) \<le> lim_MaxTotalGPUs l"
proof -
  let ?w = "res_WorkerReplicas (spec_Resources s)" and ?g = "res_GPUsPerWorker (spec_Resources s)"
  show w: "1 \<le> ?w" and g: "1 \<le> ?g"
    using assms by (auto simp: validate_size_def Let_def split: if_splits)
  have "?w \<le> MaxInt64 sdiv ?g"
    using assms by (auto simp: validate_size_def Let_def split: if_splits)
  then show prod: "?w * ?g \<le> MaxInt64"
    using g by (intro mult_le_of_sdiv) (auto simp: MaxInt64_def)
  have "in_int64 (?w * ?g)" using w g prod by (intro in_int64_le) auto
  then have "int64 (?w * ?g) = ?w * ?g" by (rule int64_exact)
  then show "limits = Some l \<Longrightarrow> ?w \<le> lim_MaxWorkerReplicas l \<and> ?g \<le> lim_MaxGPUsPerWorker l \<and> ?w * ?g \<le> lim_MaxTotalGPUs l"
    using assms by (auto simp: validate_size_def Let_def split: if_splits)
qed

lemma validate_size_shape: "validate_size s (Some l) = None \<Longrightarrow> validate_size s None = None"
  by (auto simp: validate_size_def Let_def split: if_splits)

lemma JobSpec_validate_size: "JobSpec_validate q s limits = None \<Longrightarrow> validate_size s limits = None"
  by (simp add: JobSpec_validate_def Let_def)

text \<open>
  A specification that passes validation against the current ceilings has a positive worker
  shape within them, its GPU product does not overflow 64 bits (so every later multiplication is
  exact) and is at most the allowed total; and validation with ceilings implies the
  ceiling-free shape validation of offline clients.
\<close>

theorem JobSpec_Validate_bounds:
  assumes "JobSpec_Validate q l s = None"
  shows "let w = res_WorkerReplicas (spec_Resources s); g = res_GPUsPerWorker (spec_Resources s) in
         1 \<le> w \<and> w \<le> lim_MaxWorkerReplicas l \<and> 1 \<le> g \<and> g \<le> lim_MaxGPUsPerWorker l \<and>
         w * g \<le> lim_MaxTotalGPUs l \<and> int64 (w * g) = w * g \<and> JobSpec_ValidateShape q s = None"
proof -
  have valid: "JobSpec_validate q s (Some l) = None" using assms by (simp add: JobSpec_Validate_def)
  note size = JobSpec_validate_size [OF valid]
  note b = validate_size_None [OF size]
  have "JobSpec_validate q s None = None"
    using valid validate_size_shape [OF size] by (simp add: JobSpec_validate_def Let_def)
  moreover have "int64 (res_WorkerReplicas (spec_Resources s) * res_GPUsPerWorker (spec_Resources s)) =
      res_WorkerReplicas (spec_Resources s) * res_GPUsPerWorker (spec_Resources s)"
    using b(1,2,3) by (intro int64_exact in_int64_le) auto
  ultimately show ?thesis using b by (simp add: JobSpec_ValidateShape_def Let_def)
qed

definition sample_spec :: JobSpec where
  "sample_spec = \<lparr>spec_Name = ''resnet'', spec_Image = ''registry.local/team/torch:2.4'',
     spec_Source = \<lparr>src_Type = ''artifact'', src_URL = [], src_Commit = [], src_URI = [], src_Snapshot = [],
       src_ArtifactID = ''code-1'', src_ArtifactObjectKey = [], src_ArtifactSHA256 = []\<rparr>,
     spec_Entrypoint = \<lparr>ep_Command = [''python'', ''train.py''], ep_Args = []\<rparr>,
     spec_Execution = \<lparr>exec_Mode = []\<rparr>, spec_TrainingEngine = ''ray-train'', spec_RayVersion = ''2.58.0'',
     spec_Managed = \<lparr>mtp_MaxFailures = 2, mtp_Checkpoint = \<lparr>cp_EveryEpochs = 1, cp_KeepLatest = 3, cp_KeepBest = 0\<rparr>,
       mtp_RayData = zero_RayData\<rparr>,
     spec_EvaluationRuntime = None, spec_ServingRuntime = None, spec_DataMode = [],
     spec_DatasetRef = \<lparr>ref_Dataset = [], ref_Version = [], ref_Sites = []\<rparr>, spec_CachePolicy = [], spec_ParentJobID = [],
     spec_Resources = \<lparr>res_WorkerReplicas = 1, res_GPUsPerWorker = 1, res_CPUPerWorker = 8, res_MemoryPerWorker = ''64Gi''\<rparr>,
     spec_Queue = ''train'', spec_Priority = ''Opportunistic'', spec_AcceleratorClass = [], spec_Preemptible = True,
     spec_DatasetURI = [], spec_CheckpointURI = [], spec_OutputURI = [],
     spec_DatasetStorage = \<lparr>sel_AssetID = [], sel_RelativePath = []\<rparr>,
     spec_CheckpointStorage = \<lparr>sel_AssetID = [], sel_RelativePath = []\<rparr>,
     spec_OutputStorage = \<lparr>sel_AssetID = [], sel_RelativePath = []\<rparr>,
     spec_Input = \<lparr>loc_Space = [], loc_RelativePath = []\<rparr>, spec_Checkpoint = \<lparr>loc_Space = [], loc_RelativePath = []\<rparr>,
     spec_Output = \<lparr>loc_Space = [], loc_RelativePath = []\<rparr>,
     spec_ResolvedStorage = \<lparr>rsms_Dataset = None, rsms_Checkpoint = None, rsms_Output = None\<rparr>,
     spec_ResolvedDataMounts = \<lparr>rdms_Input = None, rdms_Checkpoint = None, rdms_Output = Some sample_runs_mount\<rparr>,
     spec_ResolvedDataRoots = \<lparr>roots_Personal = None, roots_Team = None, roots_Public = None, roots_IDCOriginal = None,
       roots_IDCWellspiking = None, roots_IDCShared = None, roots_IDCSPKHybrid = None, roots_IDCSPKSSD = None\<rparr>,
     spec_TimeoutSeconds = 0, spec_MaxRetries = 0,
     spec_CleanupPolicy = \<lparr>clean_SuccessTTLSeconds = 0, clean_FailureTTLSeconds = 0\<rparr>,
     spec_Cache = \<lparr>cache_Mode = [], cache_Size = [], cache_Preload = []\<rparr>\<rparr>"

lemma sample_spec_valid: "JobSpec_Validate (\<lambda>_. False) initialLimits sample_spec = None"
  by code_simp

theorem JobSpec_Validate_bounds_witness:
  "JobSpec_ValidateShape (\<lambda>_. False) sample_spec = None \<and> res_WorkerReplicas (spec_Resources sample_spec) \<le> 3"
  using JobSpec_Validate_bounds [OF sample_spec_valid] by (simp add: Let_def initialLimits_def go_consts)

text \<open>
  Opportunistic priority and preemption coincide in a valid specification, and such a job is one
  worker with one GPU on managed Ray Train with retries and checkpoints left to recover from.
\<close>

theorem valid_preemptible_iff_opportunistic:
  assumes "JobSpec_ValidateShape q s = None"
  shows "(spec_Preemptible s \<longleftrightarrow> WorkloadPriority_Resolved (spec_Priority s) = ''opportunistic'') \<and>
         (spec_Preemptible s \<longrightarrow>
            res_WorkerReplicas (spec_Resources s) = 1 \<and> res_GPUsPerWorker (spec_Resources s) = 1 \<and>
            TrainingEngine_Resolved (spec_TrainingEngine s) = ''ray-train'' \<and> spec_RayVersion s \<in> {''2.56.1'', ''2.58.0''} \<and>
            1 \<le> mtp_MaxFailures (spec_Managed s) \<and> mtp_MaxFailures (spec_Managed s) \<le> 10 \<and>
            1 \<le> cp_EveryEpochs (mtp_Checkpoint (spec_Managed s)) \<and>
            validateManagedEntrypoint (spec_Entrypoint s) = None)"
proof -
  have sched: "validateScheduling s = None" and runtime: "validateTrainingRuntime s = None"
    and entry: "TrainingEngine_Resolved (spec_TrainingEngine s) = TrainingEngineRayTrain \<longrightarrow> validateManagedEntrypoint (spec_Entrypoint s) = None"
    using assms by (auto simp: JobSpec_ValidateShape_def JobSpec_validate_def Let_def)
  have iff: "spec_Preemptible s \<longleftrightarrow> WorkloadPriority_Resolved (spec_Priority s) = WorkloadPriorityOpportunistic"
    and shape: "spec_Preemptible s \<longrightarrow> HasRecoverableCheckpointPolicy s \<and>
      res_WorkerReplicas (spec_Resources s) = 1 \<and> res_GPUsPerWorker (spec_Resources s) = 1"
    using sched by (auto simp: validateScheduling_def Let_def split: if_splits)
  have policy: "TrainingEngine_Resolved (spec_TrainingEngine s) = TrainingEngineRayTrain \<longrightarrow>
      ManagedTrainingPolicy_Validate (spec_Managed s) = None \<and> spec_RayVersion s \<in> {RayVersionProduction, RayVersionCanary}"
    using runtime by (auto simp: validateTrainingRuntime_def Let_def go_consts)
  show ?thesis using iff shape policy entry
    by (auto simp: HasRecoverableCheckpointPolicy_def ManagedTrainingPolicy_Validate_def go_consts)
qed

lemma sample_spec_shape: "JobSpec_ValidateShape (\<lambda>_. False) sample_spec = None"
  by code_simp

theorem valid_preemptible_iff_opportunistic_witness:
  "WorkloadPriority_Resolved (spec_Priority sample_spec) = ''opportunistic'' \<and> validateManagedEntrypoint (spec_Entrypoint sample_spec) = None"
proof -
  have "spec_Preemptible sample_spec" by (simp add: sample_spec_def)
  with valid_preemptible_iff_opportunistic [OF sample_spec_shape] show ?thesis by blast
qed

subsection \<open>Images and code sources\<close>

lemma in_Seq: "x \<in> lang (Seq r s) \<Longrightarrow> \<exists>u v. x = u @ v \<and> u \<in> lang r \<and> v \<in> lang s"
  by auto

lemma digest_pattern_parts:
  assumes "matches digestImage img"
  shows "\<exists>r d. img = r @ ''@sha256:'' @ d \<and> r \<noteq> [] \<and> CHR ''@'' \<notin> set r \<and> length d = 64 \<and> (\<forall>c \<in> set d. is_hex c)"
proof -
  obtain r y where img: "img = r @ y" and r: "r \<in> lang (Some1 (Class (\<lambda>c. c \<noteq> CHR ''@'' \<and> \<not> image_space c)))"
    and y: "y \<in> lang (Seq (Str ''@sha256:'') (Times 64 (Class is_hex)))"
    using in_Seq assms unfolding matches_lang digestImage_def by blast
  obtain u d where "y = u @ d" "u \<in> lang (Str ''@sha256:'')" and d: "d \<in> lang (Times 64 (Class is_hex))"
    using in_Seq [OF y] by blast
  then have "y = ''@sha256:'' @ d" by (simp only: lang_Str singleton_iff)
  moreover have "r \<noteq> []" using r Nil_in_Seq_Class by blast
  moreover have "CHR ''@'' \<notin> set r" using lang_chars_of [OF r] by auto
  moreover have "length d = 64 \<and> (\<forall>c \<in> set d. is_hex c)" using d lang_Times_Class by blast
  ultimately show ?thesis using img by blast
qed

lemma contains_any_False: "\<not> contains_any s cs \<Longrightarrow> c \<in> set cs \<Longrightarrow> c \<notin> set s"
  by (auto simp: contains_any_def list_ex_iff)

lemma last_index_append: "c \<notin> set t \<Longrightarrow> last_index c (u @ c # t) = int (length u)"
proof -
  assume "c \<notin> set t"
  then have "takeWhile (\<lambda>x. x \<noteq> c) (rev t @ c # rev u) = rev t" by (subst takeWhile_append2) auto
  then show ?thesis by (simp add: last_index_def)
qed

lemma last_index_cases:
  obtains "last_index c s = -1" "c \<notin> set s"
  | u t where "s = u @ c # t" "c \<notin> set t" "last_index c s = int (length u)"
  using split_list_last [of c s] last_index_append by (cases "c \<in> set s") (auto simp: last_index_def)

text \<open>
  An accepted runtime image is either pinned by a 64-digit digest, and then cached
  images may be used, or ends in an explicit tag after the last colon and is pulled
  afresh every time; a bare repository is never accepted.
\<close>

theorem runtime_image_pinned_or_tagged:
  assumes "ValidateRuntimeImage img = None"
  shows "(RuntimeImagePullPolicy img = ''IfNotPresent'' \<and>
            (\<exists>r d. img = r @ ''@sha256:'' @ d \<and> r \<noteq> [] \<and> CHR ''@'' \<notin> set r \<and> length d = 64 \<and> (\<forall>c \<in> set d. is_hex c))) \<or>
         (RuntimeImagePullPolicy img = ''Always'' \<and> CHR ''@'' \<notin> set img \<and>
            (\<exists>r t. img = r @ '':'' @ t \<and> r \<noteq> [] \<and> matches imageTag t \<and> slash \<notin> set t \<and> CHR '':'' \<notin> set t))"
proof (cases "matches digestImage img")
  case True
  then show ?thesis using digest_pattern_parts by (simp add: RuntimeImagePullPolicy_def IsPinnedImage_def)
next
  case False
  let ?i = "last_index (CHR '':'') img"
  have tagged: "validTaggedImage img" using assms False by (simp add: ValidateRuntimeImage_def)
  then have at: "CHR ''@'' \<notin> set img" and order: "last_index slash img < ?i"
    and tag: "matches imageTag (drop (nat (?i + 1)) img)"
    and parts: "\<exists>b. valid_repository_parts b (split slash (take (nat ?i) img))"
    by (auto simp: validTaggedImage_def Let_def dest: contains_any_False split: if_splits)
  have "-1 \<le> last_index slash img" by (cases rule: last_index_cases [of slash img]) auto
  with order have i: "0 \<le> ?i" by linarith
  then obtain u t where img: "img = u @ CHR '':'' # t" "CHR '':'' \<notin> set t" "?i = int (length u)"
    by (cases rule: last_index_cases [of "CHR '':''" img]) auto
  then have ut: "take (nat ?i) img = u" "drop (nat (?i + 1)) img = t" by (simp_all add: nat_add_distrib)
  have "slash \<notin> set t"
    using matches_chars [OF tag, of slash] ut by (auto simp: imageTag_def is_word_def)
  moreover have "u \<noteq> []" using parts ut by auto
  ultimately have "\<exists>r t. img = r @ '':'' @ t \<and> r \<noteq> [] \<and> matches imageTag t \<and> slash \<notin> set t \<and> CHR '':'' \<notin> set t"
    using tag ut img by auto
  with False at show ?thesis by (simp add: RuntimeImagePullPolicy_def IsPinnedImage_def)
qed

theorem runtime_image_pinned_or_tagged_witness:
  "\<exists>r t. ''registry.local/team/torch:2.4'' = r @ '':'' @ t \<and> r \<noteq> [] \<and> matches imageTag t"
proof -
  have "ValidateRuntimeImage ''registry.local/team/torch:2.4'' = None" by code_simp
  moreover have "RuntimeImagePullPolicy ''registry.local/team/torch:2.4'' \<noteq> ''IfNotPresent''" by code_simp
  ultimately show ?thesis using runtime_image_pinned_or_tagged by blast
qed

lemma JobSpec_validate_source_error:
  assumes "spec_Name s \<noteq> [] \<and> length (spec_Name s) \<le> 63 \<and> matches dnsLabel (spec_Name s)"
    and "ValidateRuntimeImage (spec_Image s) = None" "CodeSource_validate (spec_Source s) = Some e"
  shows "JobSpec_validate q s limits = Some e"
proof -
  have name: "check (spec_Name s = [] \<or> length (spec_Name s) > 63 \<or> \<not> matches dnsLabel (spec_Name s)) x = None" for x
    using assms(1) by simp
  show ?thesis
    unfolding JobSpec_validate_def Let_def name assms(2,3) by (simp only: first_error.simps)
qed

text \<open>
  C35: Validation of a code source panics exactly for a \<open>tos\<close> source whose URI does not parse; in every
  other case it returns normally. Through the job specification the panic is reachable
  from submitted input: a specification whose name and image are fine and whose \<open>tos\<close> URI
  is malformed panics instead of being rejected.
\<close>

theorem CodeSource_validate_panics:
  "((\<exists>m. CodeSource_validate s = Some (RuntimePanic m)) \<longleftrightarrow> src_Type s = ''tos'' \<and> url_Parse (src_URI s) = None) \<and>
   (\<exists>m. JobSpec_Validate q initialLimits
      (sample_spec\<lparr>spec_Source := (spec_Source sample_spec)\<lparr>src_Type := ''tos'', src_URI := ''tos://[bucket/code.zip''\<rparr>\<rparr>) = Some (RuntimePanic m))"
proof (intro conjI iffI)
  assume "\<exists>m. CodeSource_validate s = Some (RuntimePanic m)"
  then show "src_Type s = ''tos''" "url_Parse (src_URI s) = None"
    by (auto simp: CodeSource_validate_def check_def Let_def first_error_Cons split: if_splits option.splits)
next
  assume "src_Type s = ''tos'' \<and> url_Parse (src_URI s) = None"
  then show "\<exists>m. CodeSource_validate s = Some (RuntimePanic m)" by (simp add: CodeSource_validate_def)
next
  let ?s = "sample_spec\<lparr>spec_Source := (spec_Source sample_spec)\<lparr>src_Type := ''tos'', src_URI := ''tos://[bucket/code.zip''\<rparr>\<rparr>"
  have u: "url_Parse ''tos://[bucket/code.zip'' = None" by code_simp
  have n: "spec_Name sample_spec \<noteq> [] \<and> length (spec_Name sample_spec) \<le> 63 \<and> matches dnsLabel (spec_Name sample_spec)"
    by code_simp
  have i: "ValidateRuntimeImage (spec_Image sample_spec) = None" by code_simp
  have "CodeSource_validate (spec_Source ?s) = Some (RuntimePanic ''invalid memory address or nil pointer dereference'')"
    using u by (simp add: CodeSource_validate_def)
  moreover have "spec_Name ?s = spec_Name sample_spec" "spec_Image ?s = spec_Image sample_spec" by simp_all
  ultimately show "\<exists>m. JobSpec_Validate q initialLimits ?s = Some (RuntimePanic m)"
    unfolding JobSpec_Validate_def using JobSpec_validate_source_error [of ?s] n i by metis
qed

end
