(* ===== verification/Managed_Requests.thy ===== *)
theory Managed_Requests
  imports Training_Job
begin

section \<open>Jobs, observations and the requests of the managed attempt protocol\<close>

text \<open>
  The remaining data of \<open>backend/domain/training_job.go\<close>: the job itself, the observation the
  reconciler reports, and the requests of the managed attempt protocol with their validators. A
  \<open>time.Time\<close> is the number of nanoseconds since Go's zero time, so \<open>IsZero\<close> is \<open>= 0\<close>; a
  \<open>time.Duration\<close> is in nanoseconds too.
\<close>

abbreviation Second :: int where "Second \<equiv> 1000000000"
abbreviation Minute :: int where "Minute \<equiv> 60 * Second"
abbreviation Hour :: int where "Hour \<equiv> 60 * Minute"

record TrainingJob =
  job_ID :: string
  job_TenantID :: string
  job_UserID :: string
  job_SourceArtifactID :: string
  job_SubmissionOrigin :: string
  job_ExternalSubmissionID :: string
  job_Spec :: JobSpec
  job_DatasetProvenance :: DatasetProvenance
  job_DesiredState :: DesiredState
  job_ObservedState :: State
  job_StatusReason :: string
  job_StatusMessage :: string
  job_KubernetesNS :: string
  job_RayJobName :: string
  job_RayJobUID :: string
  job_RayClusterName :: string
  job_ResourceVersion :: string
  job_ClusterAttempt :: int
  job_WorkerRestartCount :: int
  job_ResumeCheckpointID :: string
  job_CreatedAt :: int
  job_UpdatedAt :: int
  job_LastObservedAt :: "int option"
  job_StartedAt :: "int option"
  job_FinishedAt :: "int option"

record JobFilter =
  filter_TenantID :: string
  filter_UserID :: string
  filter_AllTenants :: bool
  filter_Status :: State
  filter_Keyword :: string
  filter_Limit :: int
  filter_Offset :: int

record ObservedJobState =
  obs_JobID :: string
  obs_State :: State
  obs_Reason :: string
  obs_Message :: string
  obs_KubernetesNS :: string
  obs_RayJobName :: string
  obs_RayJobUID :: string
  obs_RayClusterName :: string
  obs_ResourceVersion :: string
  obs_ExpectedClusterAttempt :: int
  obs_ExpectedRayJobName :: string
  obs_ExpectedRayJobUID :: string
  obs_StartedAt :: "int option"
  obs_FinishedAt :: "int option"

subsection \<open>Recoverable failure classes\<close>

definition ManagedRecoveryFailureClassMaxBytes :: nat where [go_consts]: "ManagedRecoveryFailureClassMaxBytes = 128"
definition ManagedRecoveryFailureMessageMaxBytes :: nat where [go_consts]: "ManagedRecoveryFailureMessageMaxBytes = 4096"

definition failure_classes :: "(string \<times> string) list" where \<comment> \<open>the two spellings of each \<open>case\<close>\<close>
  "failure_classes =
     [(''DRIVER_POD_LOST'', ''DRIVERPODLOST''),
      (''DRIVER_POD_EVICTED'', ''DRIVERPODEVICTED''),
      (''DRIVER_POD_DELETED'', ''DRIVERPODDELETED''),
      (''DRIVER_POD_NOT_FOUND'', ''DRIVERPODNOTFOUND''),
      (''HEAD_POD_LOST'', ''HEADPODLOST''),
      (''HEAD_POD_EVICTED'', ''HEADPODEVICTED''),
      (''HEAD_POD_DELETED'', ''HEADPODDELETED''),
      (''HEAD_POD_NOT_FOUND'', ''HEADPODNOTFOUND''),
      (''RAY_CLUSTER_FAILED'', ''RAYCLUSTERFAILED''),
      (''RAY_CLUSTER_UNAVAILABLE'', ''RAYCLUSTERUNAVAILABLE''),
      (''RAY_CLUSTER_DELETED'', ''RAYCLUSTERDELETED''),
      (''WHOLE_CLUSTER_UNAVAILABLE'', ''WHOLECLUSTERUNAVAILABLE'')]"

definition classify_failure :: "string \<Rightarrow> string option" where \<comment> \<open>the \<open>switch\<close>\<close>
  "classify_failure normalized =
     map_option fst (find (\<lambda>(long, short). normalized = long \<or> normalized = short) failure_classes)"

definition NormalizeManagedInfrastructureFailureClass :: "string \<Rightarrow> string option" where
  "NormalizeManagedInfrastructureFailureClass reason =
     classify_failure (map (\<lambda>c. if c = CHR ''-'' \<or> c = CHR '' '' then CHR ''_'' else c) (to_upper (trim_space reason)))"

record ManagedRecoveryRequest =
  rec_JobID :: string
  rec_ExpectedClusterAttempt :: int
  rec_ExpectedRayJobName :: string
  rec_ExpectedRayJobUID :: string
  rec_FailureClass :: string
  rec_FailureMessage :: string

definition ManagedRecoveryRequest_Validate :: "ManagedRecoveryRequest \<Rightarrow> error option" where
  "ManagedRecoveryRequest_Validate r =
     (let failureClass = trim_space (rec_FailureClass r) in first_error [
        check (blank (rec_JobID r)) (Errorf ''managed recovery job ID is required'' []),
        check (rec_ExpectedClusterAttempt r < 1) (Errorf ''managed recovery expected cluster attempt must be positive'' []),
        check (blank (rec_ExpectedRayJobName r) \<or> blank (rec_ExpectedRayJobUID r))
          (Errorf ''managed recovery expected RayJob name and UID are required'' []),
        check (failureClass = [] \<or> length failureClass > ManagedRecoveryFailureClassMaxBytes)
          (Errorf ''managed recovery failure class is required and bounded'' []),
        check (NormalizeManagedInfrastructureFailureClass failureClass = None)
          (Errorf ''managed recovery failure class is not recoverable'' []),
        check (length (rec_FailureMessage r) > ManagedRecoveryFailureMessageMaxBytes)
          (Errorf ''managed recovery failure message is too large'' [])])"

record ManagedRetiringIdentityRequest =
  rid_JobID :: string
  rid_ExpectedClusterAttempt :: int
  rid_RayJobName :: string
  rid_RayJobUID :: string

definition ManagedRetiringIdentityRequest_Validate :: "ManagedRetiringIdentityRequest \<Rightarrow> error option" where
  "ManagedRetiringIdentityRequest_Validate r = first_error [
     check (blank (rid_JobID r)) (Errorf ''managed retiring identity job ID is required'' []),
     check (rid_ExpectedClusterAttempt r < 1) (Errorf ''managed retiring identity expected cluster attempt must be positive'' []),
     check (blank (rid_RayJobName r) \<or> blank (rid_RayJobUID r)) (Errorf ''managed retiring RayJob name and UID are required'' [])]"

subsection \<open>Attempt requests\<close>

definition bad_label :: "string \<Rightarrow> bool" where \<comment> \<open>of the trimmed value\<close>
  "bad_label raw = (let v = trim_space raw in v = [] \<or> length v > 63 \<or> \<not> matches dnsLabel v)"

record ManagedAttemptReservationRequest =
  resv_JobID :: string
  resv_ExpectedClusterAttempt :: int
  resv_ExpectedState :: State
  resv_ExpectedRayJobName :: string
  resv_RayJobName :: string
  resv_KubernetesNS :: string

definition ManagedAttemptReservationRequest_Validate :: "ManagedAttemptReservationRequest \<Rightarrow> error option" where
  "ManagedAttemptReservationRequest_Validate r = first_error [
     check (blank (resv_JobID r)) (Errorf ''managed attempt reservation job ID is required'' []),
     check (resv_ExpectedClusterAttempt r < 1)
       (Errorf ''managed attempt reservation expected cluster attempt must be positive'' []),
     check (blank (state_string (resv_ExpectedState r))) (Errorf ''managed attempt reservation expected state is required'' []),
     check (\<not> managedAttemptReservableState (resv_ExpectedState r))
       (Errorf ''managed attempt reservation expected state is not active'' []),
     check (bad_label (resv_RayJobName r)) (Errorf ''managed attempt reservation RayJob name must be a DNS label'' []),
     check (trim_space (resv_ExpectedRayJobName r) \<noteq> [] \<and> trim_space (resv_ExpectedRayJobName r) \<noteq> trim_space (resv_RayJobName r))
       (Errorf ''managed attempt reservation expected name must be empty or deterministic'' []),
     check (bad_label (resv_KubernetesNS r)) (Errorf ''managed attempt reservation namespace must be a DNS label'' [])]"

datatype ManagedAttemptResourceState =
    ManagedAttemptResourceReserved | ManagedAttemptResourceCreating | ManagedAttemptResourceActivating
  | ManagedAttemptResourceActive | ManagedAttemptResourceRetiring | ManagedAttemptResourceCleaned
  | ManagedAttemptResourceQuarantined | ManagedAttemptResourceOther string

text \<open>
  \<open>domain.ManagedAttemptResource\<close> and the row type \<open>ManagedAttemptResourceRecord\<close> of the store have
  the same fields and \<open>toDomain\<close> copies them one by one; one record stands for both.
\<close>

record ManagedAttemptResource =
  mar_JobID :: string
  mar_ClusterAttempt :: int
  mar_KubernetesNS :: string
  mar_RayJobName :: string
  mar_RayJobUID :: string
  mar_State :: ManagedAttemptResourceState
  mar_LeaseOwner :: string
  mar_LeaseVersion :: int
  mar_ResourceFence :: int
  mar_LeaseExpiresAt :: "int option"
  mar_CleanupFailures :: int
  mar_CleanupLastError :: string
  mar_NextCheckAt :: int
  mar_CreatedAt :: int
  mar_UpdatedAt :: int

record ManagedAttemptCreationLeaseRequest =
  lease_JobID :: string
  lease_ExpectedClusterAttempt :: int
  lease_ExpectedState :: State
  lease_RayJobName :: string
  lease_LeaseOwner :: string
  lease_LeaseDuration :: int

definition ManagedAttemptCreationLeaseRequest_Validate :: "ManagedAttemptCreationLeaseRequest \<Rightarrow> error option" where
  "ManagedAttemptCreationLeaseRequest_Validate r = first_error [
     check (blank (lease_JobID r) \<or> lease_ExpectedClusterAttempt r < 1)
       (Errorf ''managed attempt creation job and attempt are required'' []),
     check (\<not> managedAttemptReservableState (lease_ExpectedState r))
       (Errorf ''managed attempt creation expected state is not active'' []),
     check (bad_label (lease_RayJobName r)) (Errorf ''managed attempt creation RayJob name must be a DNS label'' []),
     check (blank (lease_LeaseOwner r) \<or> length (trim_space (lease_LeaseOwner r)) > 128)
       (Errorf ''managed attempt creation lease owner is required and bounded'' []),
     check (lease_LeaseDuration r < Second \<or> lease_LeaseDuration r > 5 * Minute)
       (Errorf ''managed attempt creation lease duration must be between one second and five minutes'' [])]"

record ManagedAttemptCleanupRequest =
  cln_JobID :: string
  cln_ClusterAttempt :: int
  cln_RayJobName :: string
  cln_RayJobUID :: string

definition ManagedAttemptCleanupRequest_Validate :: "ManagedAttemptCleanupRequest \<Rightarrow> error option" where
  "ManagedAttemptCleanupRequest_Validate r = first_error [
     check (blank (cln_JobID r) \<or> cln_ClusterAttempt r < 1) (Errorf ''managed attempt cleanup job and attempt are required'' []),
     check (blank (cln_RayJobName r)) (Errorf ''managed attempt cleanup RayJob name is required'' [])]"

record ManagedAttemptAdoptionRequest =
  adopt_JobID :: string
  adopt_ExpectedClusterAttempt :: int
  adopt_ExpectedState :: State
  adopt_RayJobName :: string
  adopt_RayJobUID :: string
  adopt_KubernetesNS :: string
  adopt_ResourceVersion :: string
  adopt_LeaseOwner :: string
  adopt_LeaseVersion :: int
  adopt_ResourceFence :: int

definition ManagedAttemptAdoptionRequest_Validate :: "ManagedAttemptAdoptionRequest \<Rightarrow> error option" where
  "ManagedAttemptAdoptionRequest_Validate r = first_error [
     check (blank (adopt_JobID r)) (Errorf ''managed attempt adoption job ID is required'' []),
     check (adopt_ExpectedClusterAttempt r < 1)
       (Errorf ''managed attempt adoption expected cluster attempt must be positive'' []),
     check (blank (state_string (adopt_ExpectedState r))) (Errorf ''managed attempt adoption expected state is required'' []),
     check (\<not> managedAttemptReservableState (adopt_ExpectedState r))
       (Errorf ''managed attempt adoption expected state is not active'' []),
     check (blank (adopt_RayJobName r) \<or> blank (adopt_RayJobUID r))
       (Errorf ''managed attempt adoption RayJob name and UID are required'' []),
     check (blank (adopt_KubernetesNS r)) (Errorf ''managed attempt adoption Kubernetes namespace is required'' []),
     check (blank (adopt_LeaseOwner r) \<or> length (trim_space (adopt_LeaseOwner r)) > 128 \<or> adopt_LeaseVersion r < 1)
       (Errorf ''managed attempt adoption lease owner and version are required'' []),
     check (adopt_ResourceFence r < 1) (Errorf ''managed attempt adoption resource fence is required'' [])]"

record ManagedAttemptActivationRequest =
  act_JobID :: string
  act_ExpectedClusterAttempt :: int
  act_RayJobName :: string
  act_RayJobUID :: string
  act_ResourceFence :: int

definition ManagedAttemptActivationRequest_Validate :: "ManagedAttemptActivationRequest \<Rightarrow> error option" where
  "ManagedAttemptActivationRequest_Validate r = first_error [
     check (blank (act_JobID r) \<or> act_ExpectedClusterAttempt r < 1)
       (Errorf ''managed attempt activation job and attempt are required'' []),
     check (blank (act_RayJobName r) \<or> blank (act_RayJobUID r) \<or> act_ResourceFence r < 1)
       (Errorf ''managed attempt activation identity and fence are required'' [])]"

record ManagedAttemptCleanupFailureRequest =
  cf_JobID :: string
  cf_ClusterAttempt :: int
  cf_RayJobName :: string
  cf_RayJobUID :: string
  cf_Message :: string
  cf_Permanent :: bool
  cf_ObservedAt :: int

definition ManagedAttemptCleanupFailureRequest_Validate :: "ManagedAttemptCleanupFailureRequest \<Rightarrow> error option" where
  "ManagedAttemptCleanupFailureRequest_Validate r = first_error [
     check (blank (cf_JobID r) \<or> cf_ClusterAttempt r < 1 \<or> blank (cf_RayJobName r))
       (Errorf ''managed attempt cleanup failure identity is required'' []),
     check (blank (cf_Message r)) (Errorf ''managed attempt cleanup failure message is required'' [])]"

record ManagedAttemptRetireRequest =
  ret_JobID :: string
  ret_ClusterAttempt :: int
  ret_KubernetesNS :: string
  ret_RayJobName :: string
  ret_RayJobUID :: string

definition ManagedAttemptRetireRequest_Validate :: "ManagedAttemptRetireRequest \<Rightarrow> error option" where
  "ManagedAttemptRetireRequest_Validate r = first_error [
     check (blank (ret_JobID r) \<or> ret_ClusterAttempt r < 1) (Errorf ''managed attempt retirement job and attempt are required'' []),
     check (bad_label (ret_KubernetesNS r)) (Errorf ''managed attempt retirement namespace must be a DNS label'' []),
     check (bad_label (ret_RayJobName r)) (Errorf ''managed attempt retirement RayJob name must be a DNS label'' [])]"

record ExpiredRayJob =
  exp_JobID :: string
  exp_KubernetesNS :: string
  exp_RayJobName :: string
  exp_RayJobUID :: string

subsection \<open>The failure allowlist\<close>

lemma canonical_classes:
  "NormalizeManagedInfrastructureFailureClass ''DRIVER_POD_LOST'' = Some ''DRIVER_POD_LOST''"
  "NormalizeManagedInfrastructureFailureClass ''DRIVER_POD_EVICTED'' = Some ''DRIVER_POD_EVICTED''"
  "NormalizeManagedInfrastructureFailureClass ''DRIVER_POD_DELETED'' = Some ''DRIVER_POD_DELETED''"
  "NormalizeManagedInfrastructureFailureClass ''DRIVER_POD_NOT_FOUND'' = Some ''DRIVER_POD_NOT_FOUND''"
  "NormalizeManagedInfrastructureFailureClass ''HEAD_POD_LOST'' = Some ''HEAD_POD_LOST''"
  "NormalizeManagedInfrastructureFailureClass ''HEAD_POD_EVICTED'' = Some ''HEAD_POD_EVICTED''"
  "NormalizeManagedInfrastructureFailureClass ''HEAD_POD_DELETED'' = Some ''HEAD_POD_DELETED''"
  "NormalizeManagedInfrastructureFailureClass ''HEAD_POD_NOT_FOUND'' = Some ''HEAD_POD_NOT_FOUND''"
  "NormalizeManagedInfrastructureFailureClass ''RAY_CLUSTER_FAILED'' = Some ''RAY_CLUSTER_FAILED''"
  "NormalizeManagedInfrastructureFailureClass ''RAY_CLUSTER_UNAVAILABLE'' = Some ''RAY_CLUSTER_UNAVAILABLE''"
  "NormalizeManagedInfrastructureFailureClass ''RAY_CLUSTER_DELETED'' = Some ''RAY_CLUSTER_DELETED''"
  "NormalizeManagedInfrastructureFailureClass ''WHOLE_CLUSTER_UNAVAILABLE'' = Some ''WHOLE_CLUSTER_UNAVAILABLE''"
  by code_simp+

text \<open>
  Only the twelve listed pod and cluster losses are recoverable: normalization returns one of
  them or nothing, and it is idempotent, so a recovery request carries a class that classifies as
  itself or as its canonical spelling.
\<close>

theorem failure_class_allowlist:
  assumes "NormalizeManagedInfrastructureFailureClass reason = Some c"
  shows "c \<in> fst ` set failure_classes \<and> NormalizeManagedInfrastructureFailureClass c = Some c"
proof -
  obtain short where "(c, short) \<in> set failure_classes"
    using assms by (auto simp: NormalizeManagedInfrastructureFailureClass_def classify_failure_def dest!: find_Some_in)
  then show ?thesis using canonical_classes by (force simp: failure_classes_def)
qed

end
