(* ===== verification/Checkpoint.thy ===== *)
theory Checkpoint
  imports Domain_Patterns Go_Path
begin

section \<open>Training checkpoints and events\<close>

text \<open>
  \<open>backend/domain/training_checkpoint.go\<close>. Of a \<open>float64\<close> the code asks whether it is NaN or
  infinite; a finite value is kept as mantissa and binary exponent.
\<close>

datatype float64 = NaN | Inf bool | Finite int int

definition TrainingEventWorkerGroupStarted :: string where [go_consts]: "TrainingEventWorkerGroupStarted = ''WORKER_GROUP_STARTED''"
definition TrainingEventCheckpointComplete :: string where [go_consts]: "TrainingEventCheckpointComplete = ''CHECKPOINT_COMPLETE''"
definition TrainingEventProgress :: string where [go_consts]: "TrainingEventProgress = ''TRAINING_PROGRESS''"
definition TrainingEventIDMaxBytes :: nat where [go_consts]: "TrainingEventIDMaxBytes = 128"
definition TrainingCheckpointPathMaxBytes :: nat where [go_consts]: "TrainingCheckpointPathMaxBytes = 4096"
definition TrainingEventCounterMax :: int where [go_consts]: "TrainingEventCounterMax = 1000000000000"

record TrainingCheckpoint =
  ckpt_ID :: string
  ckpt_JobID :: string
  ckpt_TenantID :: string
  ckpt_UserID :: string
  ckpt_Epoch :: int
  ckpt_Step :: int
  ckpt_ObjectPath :: string
  ckpt_MetricName :: string
  ckpt_MetricValue :: "float64 option"
  ckpt_Complete :: bool
  ckpt_IsBest :: bool
  ckpt_ManifestSHA256 :: string
  ckpt_CreatedAt :: int

definition validateCheckpointPath :: "string \<Rightarrow> error option" where
  "validateCheckpointPath v =
     check (length v = 0 \<or> length v > TrainingCheckpointPathMaxBytes \<or> \<not> has_prefix v ''/'' \<or> Clean v \<noteq> v \<or>
            contains_any v [CHR 0x00, cr, nl])
       (Errorf ''checkpoint object path must be a clean bounded absolute path'' [])"

definition counter_out_of_range :: "int \<Rightarrow> bool" where
  "counter_out_of_range x \<longleftrightarrow> x < 0 \<or> x > TrainingEventCounterMax"

definition TrainingCheckpoint_Validate :: "TrainingCheckpoint \<Rightarrow> error option" where
  "TrainingCheckpoint_Validate c = first_error [
     check (\<not> matches trainingCheckpointIDPattern (ckpt_ID c)) (Errorf ''checkpoint ID must be a safe identifier'' []),
     check (counter_out_of_range (ckpt_Epoch c) \<or> counter_out_of_range (ckpt_Step c))
       (Errorf ''checkpoint epoch and step are outside supported bounds'' []),
     validateCheckpointPath (ckpt_ObjectPath c),
     check (\<not> ckpt_Complete c) (Errorf ''checkpoint completion event must describe a complete checkpoint'' []),
     check (\<not> matches trainingManifestPattern (ckpt_ManifestSHA256 c))
       (Errorf ''checkpoint manifest SHA-256 must be 64 lowercase hexadecimal characters'' []),
     check (ckpt_MetricName c \<noteq> [] \<and> \<not> matches trainingMetricPattern (ckpt_MetricName c))
       (Errorf ''checkpoint metric name is invalid'' []),
     check (case ckpt_MetricValue c of Some NaN \<Rightarrow> True | Some (Inf _) \<Rightarrow> True | _ \<Rightarrow> False)
       (Errorf ''checkpoint metric value must be finite'' [])]"

record TrainingEvent =
  ev_ID :: string
  ev_Type :: string
  ev_Generation :: int
  ev_Epoch :: int
  ev_Step :: int
  ev_Checkpoint :: "TrainingCheckpoint option"

definition TrainingEvent_Validate :: "TrainingEvent \<Rightarrow> error option" where
  "TrainingEvent_Validate e = first_error [
     check (length (ev_ID e) > TrainingEventIDMaxBytes \<or> \<not> matches trainingEventIDPattern (ev_ID e))
       (Errorf ''event ID must be a safe identifier'' []),
     check (ev_Generation e < 1 \<or> ev_Generation e > TrainingEventCounterMax)
       (Errorf ''event generation must be between 1 and %d'' [ArgI TrainingEventCounterMax]),
     (if ev_Type e = TrainingEventWorkerGroupStarted then
        check (ev_Checkpoint e \<noteq> None) (Errorf ''worker group event must not include a checkpoint'' [])
      else if ev_Type e = TrainingEventCheckpointComplete then
        (case ev_Checkpoint e of
           None \<Rightarrow> Some (Errorf ''checkpoint completion event requires checkpoint metadata'' [])
         | Some c \<Rightarrow> first_error [
             TrainingCheckpoint_Validate c,
             check (ev_Epoch e \<noteq> ckpt_Epoch c \<or> ev_Step e \<noteq> ckpt_Step c)
               (Errorf ''event and checkpoint epoch/step must match'' [])])
      else if ev_Type e = TrainingEventProgress then
        check (ev_Checkpoint e \<noteq> None) (Errorf ''training progress event must not include a checkpoint'' [])
      else Some (Errorf ''unsupported training event type %q'' [ArgS (ev_Type e)])),
     check (counter_out_of_range (ev_Epoch e) \<or> counter_out_of_range (ev_Step e))
       (Errorf ''event epoch and step are outside supported bounds'' [])]"

end
