(* ===== verification/Sql_Table.thy ===== *)
theory Sql_Table
  imports Main
begin

section \<open>Relational tables\<close>

text \<open>
  What the store uses of the database, through \<open>gorm\<close>: a table is the list of its rows in
  insertion order. \<open>select_first\<close> is \<open>First\<close> (the sources always call it with a condition that
  contains the whole primary key, so the order of rows does not matter), \<open>update_where\<close> is
  \<open>Where(...).Updates(...)\<close> with the number of rows affected, \<open>insert_new\<close> is \<open>Create\<close> (which fails on
  a primary key that is taken) and \<open>insert_ignore\<close> is \<open>Create\<close> with \<open>OnConflict{DoNothing: true}\<close>.
  A transaction runs with the row locks it takes until it commits, so each operation of the
  store is one atomic step.
\<close>

definition select_first :: "('r \<Rightarrow> bool) \<Rightarrow> 'r list \<Rightarrow> 'r option" where
  "select_first p rows = find p rows"

definition select_where :: "('r \<Rightarrow> bool) \<Rightarrow> 'r list \<Rightarrow> 'r list" where
  "select_where p rows = filter p rows"

definition count_where :: "('r \<Rightarrow> bool) \<Rightarrow> 'r list \<Rightarrow> nat" where
  "count_where p rows = length (filter p rows)"

definition update_where :: "('r \<Rightarrow> bool) \<Rightarrow> ('r \<Rightarrow> 'r) \<Rightarrow> 'r list \<Rightarrow> 'r list" where
  "update_where p f rows = map (\<lambda>r. if p r then f r else r) rows"

definition insert_new :: "('r \<Rightarrow> 'k) \<Rightarrow> 'r \<Rightarrow> 'r list \<Rightarrow> 'r list option" where
  "insert_new key r rows = (if key r \<in> set (map key rows) then None else Some (rows @ [r]))"

definition insert_ignore :: "('r \<Rightarrow> 'k) \<Rightarrow> 'r \<Rightarrow> 'r list \<Rightarrow> 'r list \<times> nat" where \<comment> \<open>rows affected\<close>
  "insert_ignore key r rows = (case insert_new key r rows of None \<Rightarrow> (rows, 0) | Some rows' \<Rightarrow> (rows', 1))"

subsection \<open>Rows of the results\<close>

lemma select_first_in: "select_first p rows = Some r \<Longrightarrow> r \<in> set rows \<and> p r"
  by (auto simp: select_first_def find_Some_iff)

lemma select_first_None: "select_first p rows = None \<longleftrightarrow> (\<forall>r \<in> set rows. \<not> p r)"
  by (auto simp: select_first_def find_None_iff)

lemma in_update_where: "r \<in> set (update_where p f rows) \<longleftrightarrow> (\<exists>s \<in> set rows. r = (if p s then f s else s))"
  by (auto simp: update_where_def)

lemma insert_new_rows: "insert_new key r rows = Some rows' \<longleftrightarrow> key r \<notin> key ` set rows \<and> rows' = rows @ [r]"
  by (auto simp: insert_new_def)

lemma in_insert_ignore:
  "r \<in> set (fst (insert_ignore key x rows)) \<longleftrightarrow> r \<in> set rows \<or> (r = x \<and> key x \<notin> key ` set rows)"
  by (auto simp: insert_ignore_def insert_new_def)

lemma count_where_0: "count_where p rows = 0 \<longleftrightarrow> (\<forall>r \<in> set rows. \<not> p r)"
  by (auto simp: count_where_def filter_empty_conv)

lemma update_where_none: "(\<forall>r \<in> set rows. \<not> p r) \<Longrightarrow> update_where p f rows = rows"
  by (induction rows) (auto simp: update_where_def)

lemma map_update_where: "(\<And>r. p r \<Longrightarrow> g (f r) = g r) \<Longrightarrow> map g (update_where p f rows) = map g rows"
  by (auto simp: update_where_def)

lemma unique_row: "distinct (map key rows) \<Longrightarrow> r \<in> set rows \<Longrightarrow> s \<in> set rows \<Longrightarrow> key r = key s \<Longrightarrow> r = s"
  by (induction rows) (auto simp: rev_image_eqI)

lemma select_unique:
  assumes "distinct (map key rows)" "r \<in> set rows" "p r" "\<And>s. p s \<Longrightarrow> key s = key r"
  shows "select_first p rows = Some r"
proof -
  obtain s where s: "select_first p rows = Some s" using assms(2,3) select_first_None by (metis option.exhaust)
  then have "s \<in> set rows" "p s" using select_first_in by metis+
  with assms s unique_row show ?thesis by metis
qed

subsection \<open>Keyed tables\<close>

text \<open>
  The contract of a table with a primary key, as the operations of the store rely on it: rows
  are found by key, an insertion adds exactly its row and fails on a taken key, an update whose condition
  selects one key changes at most that row, and keys stay unique. It is
  interpreted for each table of the store.
\<close>

locale keyed_table =
  fixes key :: "'r \<Rightarrow> 'k"
    and unique :: "'t \<Rightarrow> bool"
    and get :: "'k \<Rightarrow> 't \<Rightarrow> 'r option"
    and put :: "'r \<Rightarrow> 't \<Rightarrow> 't option"
    and upd :: "('r \<Rightarrow> bool) \<Rightarrow> ('r \<Rightarrow> 'r) \<Rightarrow> 't \<Rightarrow> 't"
  assumes get_key: "get k t = Some r \<Longrightarrow> key r = k"
    and put_taken: "put r t = None \<longleftrightarrow> get (key r) t \<noteq> None"
    and get_put: "put r t = Some t' \<Longrightarrow> get k t' = (if k = key r then Some r else get k t)"
    and get_upd: "unique t \<Longrightarrow> (\<And>r. p r \<Longrightarrow> key r = k \<and> key (f r) = k) \<Longrightarrow>
      get k' (upd p f t) = (if k' = k then map_option (\<lambda>r. if p r then f r else r) (get k t) else get k' t)"
    and unique_put: "unique t \<Longrightarrow> put r t = Some t' \<Longrightarrow> unique t'"
    and unique_upd: "unique t \<Longrightarrow> (\<And>r. p r \<Longrightarrow> key (f r) = key r) \<Longrightarrow> unique (upd p f t)"
begin

lemma get_after_put: "put r t = Some t' \<Longrightarrow> get (key r) t' = Some r"
  by (simp add: get_put)

lemma put_frame: "put r t = Some t' \<Longrightarrow> get k t = Some s \<Longrightarrow> get k t' = Some s"
  using get_put put_taken by (metis option.distinct(1))

lemma upd_hit:
  "unique t \<Longrightarrow> (\<And>r. p r \<Longrightarrow> key r = k \<and> key (f r) = k) \<Longrightarrow> get k t = Some r \<Longrightarrow> p r \<Longrightarrow> get k (upd p f t) = Some (f r)"
  by (simp add: get_upd)

lemma upd_frame:
  "unique t \<Longrightarrow> (\<And>r. p r \<Longrightarrow> key r = k \<and> key (f r) = k) \<Longrightarrow> k' \<noteq> k \<Longrightarrow> get k' (upd p f t) = get k' t"
  by (simp add: get_upd)

lemma put_twice: "put r t = Some t' \<Longrightarrow> put r t' = None"
  using get_after_put put_taken by (metis option.distinct(1))

end

text \<open>The list tables satisfy the contract for every key function.\<close>

lemma select_put:
  "insert_new key r rows = Some rows' \<Longrightarrow>
   select_first (\<lambda>x. key x = k) rows' = (if k = key r then Some r else select_first (\<lambda>x. key x = k) rows)"
proof -
  assume "insert_new key r rows = Some rows'"
  then have new: "key r \<notin> key ` set rows" and rows': "rows' = rows @ [r]" by (auto simp: insert_new_rows)
  from new have "k = key r \<Longrightarrow> find (\<lambda>x. key x = k) rows = None" by (auto simp: find_None_iff image_iff)
  moreover have "find p (xs @ [r]) = (case find p xs of None \<Rightarrow> if p r then Some r else None | Some x \<Rightarrow> Some x)" for p xs
    by (induction xs) auto
  ultimately show ?thesis unfolding rows' select_first_def by (auto split: option.splits)
qed

lemma select_upd:
  assumes "\<And>r. p r \<Longrightarrow> key r = k \<and> key (f r) = k"
  shows "select_first (\<lambda>x. key x = k') (update_where p f rows) =
    (if k' = k then map_option (\<lambda>r. if p r then f r else r) (select_first (\<lambda>x. key x = k) rows)
     else select_first (\<lambda>x. key x = k') rows)"
  using assms by (induction rows) (auto simp: select_first_def update_where_def)

lemma list_table: "keyed_table key (\<lambda>rows. distinct (map key rows)) (\<lambda>k. select_first (\<lambda>r. key r = k)) (insert_new key) update_where"
proof
  show "key r = k" if "select_first (\<lambda>r. key r = k) t = Some r" for k t r using select_first_in [OF that] by simp
  show "insert_new key r t = None \<longleftrightarrow> select_first (\<lambda>x. key x = key r) t \<noteq> None" for r t
    by (auto simp: insert_new_def select_first_None image_iff simp del: not_None_eq)
  show "select_first (\<lambda>r. key r = k) t' = (if k = key r then Some r else select_first (\<lambda>r. key r = k) t)"
    if "insert_new key r t = Some t'" for r t t' k using select_put [OF that] .
  show "select_first (\<lambda>r. key r = k') (update_where p f t) =
      (if k' = k then map_option (\<lambda>r. if p r then f r else r) (select_first (\<lambda>r. key r = k) t) else select_first (\<lambda>r. key r = k') t)"
    if "\<And>r. p r \<Longrightarrow> key r = k \<and> key (f r) = k" for t p k f k' by (rule select_upd) (rule that)
  show "distinct (map key t')" if "distinct (map key t)" "insert_new key r t = Some t'" for r t t'
    using that by (auto simp: insert_new_rows)
  show "distinct (map key (update_where p f t))" if "distinct (map key t)" "\<And>r. p r \<Longrightarrow> key (f r) = key r" for p f t
    using that by (simp add: map_update_where)
qed

end
