(* ===== verification/Job_Store.thy ===== *)
theory Job_Store
  imports Managed_Requests Checkpoint Sql_Table
begin

section \<open>The job store: schema, creation and GPU quota\<close>

text \<open>
  \<open>backend/repositories/jobs.go\<close>, first part: the rows, the conversion between rows and domain jobs,
  job creation with its idempotency key and the tenant quota, and the read operations.

  The database is a record of tables. An operation maps a database to an error, in which case
  the transaction is rolled back and nothing changes, or to its result and the new database.
  \<open>time.Now()\<close> is the argument \<open>now\<close>, the same for every call within one operation. The JSON column
  \<open>spec_json\<close> is kept as the specification it decodes to (\<open>None\<close> when it does not decode); encoding
  drops the two fields tagged \<open>json:"-"\<close>. All strings are valid UTF-8, as decoded requests are.
  Constraints that the SQL schema adds to the primary keys are the parameter \<open>constraint\<close> of
  \<open>Create\<close>; elsewhere they could only make an operation fail, which leaves the database as it was.
\<close>

subsection \<open>Schema\<close>

record JobRecord =
  jr_ID :: string
  jr_TenantID :: string
  jr_UserID :: string
  jr_SourceArtifactID :: "string option"
  jr_DatasetID :: "string option"
  jr_DatasetVersionID :: "string option"
  jr_DatasetManifestDigest :: "string option"
  jr_DatasetDataMode :: "string option"
  jr_DatasetCachePolicy :: "string option"
  jr_DatasetSites :: string
  jr_SourceSyncRunID :: "string option"
  jr_SourceInventorySHA256 :: string
  jr_SubmissionOrigin :: string
  jr_ExternalSubmissionID :: string
  jr_Name :: string
  jr_SpecJSON :: "JobSpec option"
  jr_DesiredState :: DesiredState
  jr_ObservedState :: State
  jr_StatusReason :: string
  jr_StatusMessage :: string
  jr_KubernetesNS :: string
  jr_RayJobName :: string
  jr_RayJobUID :: string
  jr_RayClusterName :: string
  jr_ResourceVersion :: string
  jr_TrainingEngine :: string
  jr_RayVersion :: string
  jr_ClusterAttempt :: int
  jr_WorkerRestartCount :: int
  jr_ResumeCheckpointID :: string
  jr_ParentJobID :: string
  jr_RetryCount :: int
  jr_TimeoutSeconds :: int
  jr_CleanupJSON :: CleanupPolicy
  jr_CreatedAt :: int
  jr_UpdatedAt :: int
  jr_LastObservedAt :: "int option"
  jr_StartedAt :: "int option"
  jr_FinishedAt :: "int option"
  jr_ArchivedAt :: "int option"
  jr_RayJobRetiredAt :: "int option"

datatype OutboxStatus = PENDING | PROCESSING | DONE

record OutboxRecord =
  ob_ID :: string
  ob_AggregateType :: string
  ob_AggregateID :: string
  ob_EventType :: string
  ob_Payload :: "(string \<times> arg) list" \<comment> \<open>the JSON object, keys in order\<close>
  ob_Status :: OutboxStatus
  ob_Attempts :: int
  ob_NextAttemptAt :: int
  ob_LockedAt :: "int option"
  ob_LastError :: string
  ob_CreatedAt :: int
  ob_CompletedAt :: "int option"

record ManagedAttemptFenceRecord =
  fence_JobID :: string
  fence_ClusterAttempt :: int
  fence_Fence :: int
  fence_CreatedAt :: int

record IdempotencyRecord =
  idem_TenantID :: string
  idem_Key :: string
  idem_ResponseJobID :: "string option" \<comment> \<open>\<open>job_id\<close> of the stored response, \<open>None\<close> when it does not decode\<close>
  idem_ExpiresAt :: int
  idem_CreatedAt :: int

record TenantRecord =
  tr_ID :: string
  tr_GPUQuotaLimit :: int

record WorkspaceRecord =
  ws_ID :: string
  ws_TenantID :: string
  ws_ObservedState :: string
  ws_GPUCount :: int

record DB =
  db_jobs :: "JobRecord list"
  db_ledger :: "ManagedAttemptResource list"
  db_fences :: "ManagedAttemptFenceRecord list"
  db_outbox :: "OutboxRecord list"
  db_idempotency :: "IdempotencyRecord list"
  db_tenants :: "TenantRecord list"
  db_workspaces :: "WorkspaceRecord list"
  db_checkpoints :: "TrainingCheckpoint list"

abbreviation ledger_key :: "ManagedAttemptResource \<Rightarrow> string \<times> int" where
  "ledger_key r \<equiv> (mar_JobID r, mar_ClusterAttempt r)"
abbreviation fence_key :: "ManagedAttemptFenceRecord \<Rightarrow> string \<times> int \<times> int" where
  "fence_key r \<equiv> (fence_JobID r, fence_ClusterAttempt r, fence_Fence r)"
abbreviation idem_key :: "IdempotencyRecord \<Rightarrow> string \<times> string" where
  "idem_key r \<equiv> (idem_TenantID r, idem_Key r)"

interpretation jobs: keyed_table jr_ID "\<lambda>rows. distinct (map jr_ID rows)" "\<lambda>k. select_first (\<lambda>r. jr_ID r = k)" "insert_new jr_ID" update_where
  by (rule list_table)
interpretation ledger: keyed_table ledger_key "\<lambda>rows. distinct (map ledger_key rows)" "\<lambda>k. select_first (\<lambda>r. ledger_key r = k)"
  "insert_new ledger_key" update_where
  by (rule list_table)
interpretation fences: keyed_table fence_key "\<lambda>rows. distinct (map fence_key rows)" "\<lambda>k. select_first (\<lambda>r. fence_key r = k)"
  "insert_new fence_key" update_where
  by (rule list_table)
interpretation outbox: keyed_table ob_ID "\<lambda>rows. distinct (map ob_ID rows)" "\<lambda>k. select_first (\<lambda>r. ob_ID r = k)" "insert_new ob_ID" update_where
  by (rule list_table)
interpretation idempotency: keyed_table idem_key "\<lambda>rows. distinct (map idem_key rows)" "\<lambda>k. select_first (\<lambda>r. idem_key r = k)"
  "insert_new idem_key" update_where
  by (rule list_table)

subsection \<open>Rows and domain jobs\<close>

definition optionalID :: "string \<Rightarrow> string option" where
  "optionalID v = (if blank v then None else Some v)"

definition valueOrEmpty :: "string option \<Rightarrow> string" where
  "valueOrEmpty v = (case v of None \<Rightarrow> [] | Some x \<Rightarrow> x)"

definition normalizeJobRuntimeMetadata :: "TrainingJob \<Rightarrow> TrainingJob" where
  "normalizeJobRuntimeMetadata job =
     (let spec = job_Spec job; version = trim_space (spec_RayVersion spec) in
      job\<lparr>job_Spec := spec\<lparr>spec_TrainingEngine := TrainingEngine_Resolved (spec_TrainingEngine spec),
                           spec_RayVersion := (if version = [] then RayVersionLegacy else version)\<rparr>,
          job_ClusterAttempt := (if job_ClusterAttempt job < 1 then 1 else job_ClusterAttempt job),
          job_WorkerRestartCount := (if job_WorkerRestartCount job < 0 then 0 else job_WorkerRestartCount job)\<rparr>)"

definition validateDatasetSnapshotConsistency :: "JobSpec \<Rightarrow> DatasetProvenance \<Rightarrow> error option" where
  "validateDatasetSnapshotConsistency spec p =
     (if DatasetProvenance_IsZero p then
        check (\<not> DatasetReference_IsZero (spec_DatasetRef spec) \<or> spec_DataMode spec = DataModeStreaming \<or> \<not> blank (spec_CachePolicy spec))
          (Errorf ''streaming dataset selection requires immutable provenance'' [])
      else first_error [
        check (ref_Dataset (spec_DatasetRef spec) \<noteq> prov_DatasetID p \<or> ref_Version (spec_DatasetRef spec) \<noteq> prov_DatasetVersionID p \<or>
               ref_Sites (spec_DatasetRef spec) \<noteq> prov_Sites p)
          (Errorf ''dataset reference does not match immutable provenance'' []),
        check (spec_DataMode spec \<noteq> prov_DataMode p \<or> spec_CachePolicy spec \<noteq> prov_CachePolicy p)
          (Errorf ''dataset execution policy does not match immutable provenance'' [])])"

definition marshal_spec :: "JobSpec \<Rightarrow> JobSpec result" where
  "marshal_spec s =
     and_then (RayData_MarshalJSON (mtp_RayData (spec_Managed s))) (\<lambda>_.
     and_then (DatasetSites_MarshalJSON (ref_Sites (spec_DatasetRef s))) (\<lambda>_.
       Inr (s\<lparr>spec_EvaluationRuntime := None, spec_ServingRuntime := None\<rparr>)))"

definition newJobRecord :: "int \<Rightarrow> TrainingJob \<Rightarrow> (TrainingJob \<times> JobRecord) result" where \<comment> \<open>the normalized job, its row\<close>
  "newJobRecord now rawJob =
     (let job = normalizeJobRuntimeMetadata rawJob; p = job_DatasetProvenance job; spec = job_Spec job in
      or_fail (wrap ''validate dataset provenance: %w'' [] (DatasetProvenance_Validate p)) (
      or_fail (wrap ''validate dataset snapshot: %w'' [] (validateDatasetSnapshotConsistency spec p)) (
      case marshal_spec spec of
        Inl e \<Rightarrow> Inl (Wrapf ''marshal job spec: %w'' [] e)
      | Inr specJSON \<Rightarrow> Inr (job, \<lparr>
          jr_ID = job_ID job, jr_TenantID = job_TenantID job, jr_UserID = job_UserID job,
          jr_SourceArtifactID = optionalID (job_SourceArtifactID job),
          jr_DatasetID = optionalID (prov_DatasetID p), jr_DatasetVersionID = optionalID (prov_DatasetVersionID p),
          jr_DatasetManifestDigest = optionalID (prov_ManifestSHA256 p), jr_DatasetDataMode = optionalID (prov_DataMode p),
          jr_DatasetCachePolicy = optionalID (prov_CachePolicy p), jr_DatasetSites = prov_Sites p,
          jr_SourceSyncRunID = optionalID (prov_SourceSyncRunID p), jr_SourceInventorySHA256 = prov_SourceInventorySHA256 p,
          jr_SubmissionOrigin = job_SubmissionOrigin job, jr_ExternalSubmissionID = job_ExternalSubmissionID job,
          jr_Name = spec_Name spec, jr_SpecJSON = Some specJSON,
          jr_DesiredState = job_DesiredState job, jr_ObservedState = job_ObservedState job,
          jr_StatusReason = [], jr_StatusMessage = [], jr_KubernetesNS = job_KubernetesNS job,
          jr_RayJobName = [], jr_RayJobUID = [], jr_RayClusterName = [], jr_ResourceVersion = [],
          jr_TrainingEngine = spec_TrainingEngine spec, jr_RayVersion = spec_RayVersion spec,
          jr_ClusterAttempt = job_ClusterAttempt job, jr_WorkerRestartCount = job_WorkerRestartCount job,
          jr_ResumeCheckpointID = job_ResumeCheckpointID job, jr_ParentJobID = spec_ParentJobID spec,
          jr_RetryCount = 0, jr_TimeoutSeconds = spec_TimeoutSeconds spec, jr_CleanupJSON = spec_CleanupPolicy spec,
          jr_CreatedAt = now, jr_UpdatedAt = now, jr_LastObservedAt = None, jr_StartedAt = None, jr_FinishedAt = None,
          jr_ArchivedAt = None, jr_RayJobRetiredAt = None\<rparr>))))"

definition toDomain :: "JobRecord \<Rightarrow> TrainingJob result" where
  "toDomain r = require (jr_SpecJSON r) (Wrapf ''decode job spec: %w'' [] (Errorf ''json'' [])) (\<lambda>stored.
     let version = trim_space (jr_RayVersion r);
         spec = stored\<lparr>spec_TrainingEngine := TrainingEngine_Resolved (trim_space (jr_TrainingEngine r)),
                       spec_RayVersion := (if version = [] then RayVersionLegacy else version),
                       spec_ParentJobID := jr_ParentJobID r\<rparr>;
         p = \<lparr>prov_Sites = jr_DatasetSites r, prov_DatasetID = valueOrEmpty (jr_DatasetID r),
              prov_DatasetVersionID = valueOrEmpty (jr_DatasetVersionID r),
              prov_ManifestSHA256 = valueOrEmpty (jr_DatasetManifestDigest r), prov_DataMode = valueOrEmpty (jr_DatasetDataMode r),
              prov_CachePolicy = valueOrEmpty (jr_DatasetCachePolicy r), prov_SourceSyncRunID = valueOrEmpty (jr_SourceSyncRunID r),
              prov_SourceInventorySHA256 = jr_SourceInventorySHA256 r\<rparr>
     in or_fail (wrap ''decode dataset provenance: %w'' [] (DatasetProvenance_Validate p)) (
        or_fail (wrap ''decode dataset snapshot: %w'' [] (validateDatasetSnapshotConsistency spec p)) (
        Inr \<lparr>job_ID = jr_ID r, job_TenantID = jr_TenantID r, job_UserID = jr_UserID r,
          job_SourceArtifactID = valueOrEmpty (jr_SourceArtifactID r), job_SubmissionOrigin = jr_SubmissionOrigin r,
          job_ExternalSubmissionID = jr_ExternalSubmissionID r, job_Spec = spec, job_DatasetProvenance = p,
          job_DesiredState = jr_DesiredState r, job_ObservedState = jr_ObservedState r,
          job_StatusReason = jr_StatusReason r, job_StatusMessage = jr_StatusMessage r,
          job_KubernetesNS = jr_KubernetesNS r, job_RayJobName = jr_RayJobName r, job_RayJobUID = jr_RayJobUID r,
          job_RayClusterName = jr_RayClusterName r, job_ResourceVersion = jr_ResourceVersion r,
          job_ClusterAttempt = (if jr_ClusterAttempt r < 1 then 1 else jr_ClusterAttempt r),
          job_WorkerRestartCount = (if jr_WorkerRestartCount r < 0 then 0 else jr_WorkerRestartCount r),
          job_ResumeCheckpointID = jr_ResumeCheckpointID r, job_CreatedAt = jr_CreatedAt r, job_UpdatedAt = jr_UpdatedAt r,
          job_LastObservedAt = jr_LastObservedAt r, job_StartedAt = jr_StartedAt r, job_FinishedAt = jr_FinishedAt r\<rparr>)))"

lemma toDomain_fields:
  assumes "toDomain r = Inr job"
  shows "job_ID job = jr_ID r" "job_TenantID job = jr_TenantID r" "job_DesiredState job = jr_DesiredState r"
    "job_ObservedState job = jr_ObservedState r" "job_RayJobName job = jr_RayJobName r" "job_RayJobUID job = jr_RayJobUID r"
    "job_KubernetesNS job = jr_KubernetesNS r" "jr_ClusterAttempt r \<ge> 1 \<Longrightarrow> job_ClusterAttempt job = jr_ClusterAttempt r"
    "spec_TrainingEngine (job_Spec job) = TrainingEngine_Resolved (trim_space (jr_TrainingEngine r))"
    "\<exists>stored. jr_SpecJSON r = Some stored \<and> spec_Managed (job_Spec job) = spec_Managed stored \<and>
       spec_Resources (job_Spec job) = spec_Resources stored"
  using assms by (auto simp: toDomain_def Let_def)

subsection \<open>GPU quota\<close>

definition defaultTenantGPUQuota :: "ResourceLimits \<Rightarrow> int" where
  "defaultTenantGPUQuota limits = (if lim_MaxTotalGPUs limits < 1 then 1 else lim_MaxTotalGPUs limits)"

definition effectiveGPUQuota :: "ResourceLimits \<Rightarrow> int \<Rightarrow> int" where
  "effectiveGPUQuota limits limit = (if limit < 0 then defaultTenantGPUQuota limits else limit)"

definition spec_gpus :: "JobSpec \<Rightarrow> int" where \<comment> \<open>\<open>WorkerReplicas * GPUsPerWorker\<close>\<close>
  "spec_gpus s = int64 (res_WorkerReplicas (spec_Resources s) * res_GPUsPerWorker (spec_Resources s))"

definition reservedWorkspaceGPUs :: "DB \<Rightarrow> string \<Rightarrow> int" where
  "reservedWorkspaceGPUs db tenantID =
     fold (\<lambda>w used. if ws_ObservedState w = ''STOPPED'' \<or> ws_ObservedState w = ''FAILED'' then used
                    else int64 (used + ws_GPUCount w))
       (select_where (\<lambda>w. ws_TenantID w = tenantID) (db_workspaces db)) 0"

definition reservedTenantGPUs :: "DB \<Rightarrow> string \<Rightarrow> int" where
  "reservedTenantGPUs db tenantID =
     int64 (fold (\<lambda>r used. if isTerminalState (jr_ObservedState r) then used
                  else (case jr_SpecJSON r of None \<Rightarrow> used | Some spec \<Rightarrow> int64 (used + spec_gpus spec)))
       (select_where (\<lambda>r. jr_TenantID r = tenantID \<and> jr_DesiredState r = DesiredActive) (db_jobs db)) 0
     + reservedWorkspaceGPUs db tenantID)"

definition TenantGPUQuota :: "ResourceLimits \<Rightarrow> DB \<Rightarrow> string \<Rightarrow> TenantQuota result" where
  "TenantGPUQuota limits db tenantID =
     require (select_first (\<lambda>t. tr_ID t = tenantID) (db_tenants db)) (Wrapf ''load tenant quota: %w'' [] (Errorf ''record not found'' []))
       (\<lambda>tenant.
         let limit = effectiveGPUQuota limits (tr_GPUQuotaLimit tenant); used = reservedTenantGPUs db tenantID;
             available = int64 (limit - used) in
         Inr \<lparr>quota_TenantID = tenantID, quota_GPULimit = limit, quota_GPUUsed = used,
              quota_GPUAvailable = (if available < 0 then 0 else available)\<rparr>)"

definition enforceTenantGPUQuotaRequest :: "ResourceLimits \<Rightarrow> DB \<Rightarrow> string \<Rightarrow> int \<Rightarrow> error option" where
  "enforceTenantGPUQuotaRequest limits db tenantID requested =
     (case select_first (\<lambda>t. tr_ID t = tenantID) (db_tenants db) of
        None \<Rightarrow> Some (Wrapf ''load tenant quota: %w'' [] (Errorf ''record not found'' []))
      | Some tenant \<Rightarrow>
          let quota = effectiveGPUQuota limits (tr_GPUQuotaLimit tenant); used = reservedTenantGPUs db tenantID in
          check (int64 (used + requested) > quota) (GPUQuotaExceededError quota used requested))"

definition enforceTenantGPUQuota :: "ResourceLimits \<Rightarrow> DB \<Rightarrow> TrainingJob \<Rightarrow> error option" where
  "enforceTenantGPUQuota limits db job = enforceTenantGPUQuotaRequest limits db (job_TenantID job) (spec_gpus (job_Spec job))"

subsection \<open>Creation\<close>

record db_error =
  err_SQLState :: "string option" \<comment> \<open>\<open>SQLState()\<close>, for errors that have the method\<close>
  err_Message :: string

definition isDatasetSnapshotConstraintError :: "db_error \<Rightarrow> bool" where
  "isDatasetSnapshotConstraintError e =
     (case err_SQLState e of
        None \<Rightarrow> False
      | Some state \<Rightarrow>
          (state = ''P0001'' \<or> state = ''23503'' \<or> state = ''23514'') \<and>
          list_ex (contains (to_lower (err_Message e)))
            [''training job dataset version'', ''training jobs can only pin ready dataset versions'',
             ''training job manifest digest'', ''training job tenant cannot access team dataset version'',
             ''training_jobs_dataset_version_fk'', ''training_jobs_dataset_scope_guard''])"

definition duplicate_key :: db_error where
  "duplicate_key = \<lparr>err_SQLState = Some ''23505'', err_Message = ''duplicate key value violates unique constraint''\<rparr>"

definition insert_job :: "(DB \<Rightarrow> JobRecord \<Rightarrow> db_error option) \<Rightarrow> JobRecord \<Rightarrow> DB \<Rightarrow> db_error + DB" where
  "insert_job constraint r db =
     (case insert_new jr_ID r (db_jobs db) of
        None \<Rightarrow> Inl duplicate_key
      | Some rows \<Rightarrow> (case constraint db r of Some e \<Rightarrow> Inl e | None \<Rightarrow> Inr (db\<lparr>db_jobs := rows\<rparr>)))"

definition insert_outbox :: "OutboxRecord \<Rightarrow> DB \<Rightarrow> DB option" where
  "insert_outbox o' db = map_option (\<lambda>rows. db\<lparr>db_outbox := rows\<rparr>) (insert_new ob_ID o' (db_outbox db))"

definition insert_outbox_ignore :: "OutboxRecord \<Rightarrow> DB \<Rightarrow> DB" where \<comment> \<open>\<open>OnConflict{DoNothing: true}\<close>\<close>
  "insert_outbox_ignore o' db = db\<lparr>db_outbox := fst (insert_ignore ob_ID o' (db_outbox db))\<rparr>"

definition pending_event :: "string \<Rightarrow> string \<Rightarrow> string \<Rightarrow> string \<Rightarrow> (string \<times> arg) list \<Rightarrow> int \<Rightarrow> OutboxRecord" where
  "pending_event eventID aggregateType aggregateID eventType payload now = \<lparr>ob_ID = eventID, ob_AggregateType = aggregateType,
     ob_AggregateID = aggregateID, ob_EventType = eventType, ob_Payload = payload, ob_Status = PENDING, ob_Attempts = 0,
     ob_NextAttemptAt = now, ob_LockedAt = None, ob_LastError = [], ob_CreatedAt = now, ob_CompletedAt = None\<rparr>"

text \<open>
  The idempotency key: reserved with the job, or an error that names the job of the earlier
  request. \<open>insert_idempotency\<close> is the block under \<open>if idempotencyKey != ""\<close>.
\<close>

definition insert_idempotency :: "int \<Rightarrow> TrainingJob \<Rightarrow> string \<Rightarrow> DB \<Rightarrow> DB result" where
  "insert_idempotency now job key db =
     (let r = \<lparr>idem_TenantID = job_TenantID job, idem_Key = key, idem_ResponseJobID = Some (job_ID job),
              idem_ExpiresAt = now + 24 * Hour, idem_CreatedAt = now\<rparr>;
          (rows, affected) = insert_ignore idem_key r (db_idempotency db) in
      if affected = 0 then
        require (select_first (\<lambda>x. idem_TenantID x = job_TenantID job \<and> idem_Key x = key) (db_idempotency db))
          (Wrapf ''get existing idempotency record: %w'' [] (Errorf ''record not found'' []))
          (\<lambda>existing. case idem_ResponseJobID existing of
              None \<Rightarrow> Inl (Errorf ''existing idempotency record is invalid'' [])
            | Some i \<Rightarrow> if i = [] then Inl (Errorf ''existing idempotency record is invalid'' [])
                        else Inl (IdempotencyConflictError i))
      else Inr (db\<lparr>db_idempotency := rows\<rparr>))"

definition started :: "TrainingJob \<Rightarrow> TrainingJob" where \<comment> \<open>the defaults of \<open>Create\<close>\<close>
  "started j = j\<lparr>job_DesiredState := (if job_DesiredState j = DesiredOther [] then DesiredActive else job_DesiredState j),
                 job_ObservedState := (if job_ObservedState j = StateOther [] then StateSubmitted else job_ObservedState j)\<rparr>"

text \<open>
  \<open>Create\<close>; \<open>create_tx\<close> is the body of its transaction. The two reservation checks belong to the
  evaluation and serving components and are parameters; taking their advisory locks is no
  state change.
\<close>

definition create_tx ::
    "ResourceLimits \<Rightarrow> (DB \<Rightarrow> JobRecord \<Rightarrow> db_error option) \<Rightarrow> (DB \<Rightarrow> TrainingJob \<Rightarrow> error option) \<Rightarrow>
     (DB \<Rightarrow> TrainingJob \<Rightarrow> error option) \<Rightarrow> int \<Rightarrow> TrainingJob \<Rightarrow> JobRecord \<Rightarrow> OutboxRecord \<Rightarrow> string \<Rightarrow> DB \<Rightarrow> DB result" where
  "create_tx limits constraint evaluationReservation servingReservation now job record outbox idempotencyKey db =
     or_fail (check (job_SubmissionOrigin job = SubmissionOriginServing \<and> job_ExternalSubmissionID job = [])
                (Errorf ''invalid model serving request'' [])) (
     or_fail (check (job_SubmissionOrigin job = SubmissionOriginEvaluation \<and> job_ExternalSubmissionID job = [])
                (Errorf ''invalid model evaluation request or report'' [])) (
     and_then (if idempotencyKey \<noteq> [] then insert_idempotency now job idempotencyKey db else Inr db) (\<lambda>db1.
     or_fail (if job_SubmissionOrigin job = SubmissionOriginEvaluation then evaluationReservation db1 job else None) (
     or_fail (if job_SubmissionOrigin job = SubmissionOriginServing then servingReservation db1 job else None) (
     or_fail (enforceTenantGPUQuota limits db1 job) (
     case insert_job constraint record db1 of
       Inl e \<Rightarrow>
         if \<not> DatasetProvenance_IsZero (job_DatasetProvenance job) \<and> isDatasetSnapshotConstraintError e
         then Inl ErrDatasetSnapshotConflict
         else Inl (Wrapf ''create job: %w'' [] (Errorf (err_Message e) []))
     | Inr db2 \<Rightarrow>
         require (insert_outbox outbox db2) (Wrapf ''create outbox event: %w'' [] (Errorf (err_Message duplicate_key) [])) Inr))))))"

definition submit_event :: "int \<Rightarrow> string \<Rightarrow> string \<Rightarrow> OutboxRecord" where
  "submit_event now jobId idempotencyKey =
     pending_event (jobId @ ''-submit'') ''TrainingJob'' jobId ''TRAINING_JOB_SUBMITTED''
       [(''idempotency_key'', ArgS idempotencyKey), (''job_id'', ArgS jobId)] now"

definition Create ::
    "(string \<Rightarrow> bool) \<Rightarrow> ResourceLimits \<Rightarrow> (DB \<Rightarrow> JobRecord \<Rightarrow> db_error option) \<Rightarrow> (DB \<Rightarrow> TrainingJob \<Rightarrow> error option) \<Rightarrow>
     (DB \<Rightarrow> TrainingJob \<Rightarrow> error option) \<Rightarrow> int \<Rightarrow> TrainingJob option \<Rightarrow> string \<Rightarrow> DB \<Rightarrow> (TrainingJob \<times> DB) result" where
  "Create positiveQuantity limits constraint evaluationReservation servingReservation now jobPointer idempotencyKey db =
     require jobPointer (Errorf ''job is required'' []) (\<lambda>job0.
     or_fail (map_option (wrap_error ''validate job spec: %w'' []) (JobSpec_Validate positiveQuantity limits (job_Spec job0))) (
     and_then (newJobRecord now (started job0)) (\<lambda>(job1, record).
     let job = job1\<lparr>job_CreatedAt := now, job_UpdatedAt := now\<rparr> in
     and_then (create_tx limits constraint evaluationReservation servingReservation now job record
                 (submit_event now (job_ID job) idempotencyKey) idempotencyKey db)
       (\<lambda>db'. Inr (job, db')))))"

subsection \<open>Reading jobs\<close>

definition Get :: "DB \<Rightarrow> string \<Rightarrow> string \<Rightarrow> TrainingJob result" where
  "Get db tenantID jobId =
     require (select_first (\<lambda>r. jr_TenantID r = tenantID \<and> jr_ID r = jobId) (db_jobs db)) (Errorf ''job not found'' []) toDomain"

definition GetByID :: "DB \<Rightarrow> string \<Rightarrow> TrainingJob result" where
  "GetByID db jobId = require (select_first (\<lambda>r. jr_ID r = jobId) (db_jobs db)) (Errorf ''job not found'' []) toDomain"

text \<open>SQL \<open>LIKE\<close>: \<open>%\<close> and \<open>_\<close> are wildcards and a backslash quotes the next character.\<close>

fun like :: "string \<Rightarrow> string \<Rightarrow> bool" where
  "like s [] = (s = [])"
| "like s (c # p) =
     (if c = CHR ''%'' then list_ex (\<lambda>n. like (drop n s) p) [0..<Suc (length s)]
      else if c = CHR ''_'' then s \<noteq> [] \<and> like (tl s) p
      else if c = backslash then
        (case p of [] \<Rightarrow> False | d # q \<Rightarrow> s \<noteq> [] \<and> hd s = d \<and> like (tl s) q)
      else s \<noteq> [] \<and> hd s = c \<and> like (tl s) p)"

record 'a Page =
  page_Items :: "'a list"
  page_Limit :: int
  page_Offset :: int
  page_Total :: int

fun traverse :: "('a \<Rightarrow> 'b result) \<Rightarrow> 'a list \<Rightarrow> 'b list result" where
  "traverse f [] = Inr []"
| "traverse f (x # xs) = and_then (f x) (\<lambda>y. and_then (traverse f xs) (\<lambda>ys. Inr (y # ys)))"

definition List_page :: "DB \<Rightarrow> JobFilter \<Rightarrow> TrainingJob Page result" where
  "List_page db f =
     (let limit = (if filter_Limit f \<le> 0 \<or> filter_Limit f > 200 then 50 else filter_Limit f);
          offset = (if filter_Offset f < 0 then 0 else filter_Offset f);
          keyword = trim_space (filter_Keyword f);
          rows = select_where (\<lambda>r. jr_ArchivedAt r = None \<and>
                   (filter_AllTenants f \<or> jr_TenantID r = filter_TenantID f) \<and>
                   (filter_UserID f = [] \<or> jr_UserID r = filter_UserID f) \<and>
                   (filter_Status f = StateOther [] \<or> jr_ObservedState r = filter_Status f) \<and>
                   (keyword = [] \<or> like (jr_Name r) (''%'' @ keyword @ ''%'') \<or> like (jr_ID r) (''%'' @ keyword @ ''%''))) (db_jobs db);
          page = take (nat limit) (drop (nat offset) (sort_key (\<lambda>r. - jr_CreatedAt r) rows)) in
      and_then (traverse toDomain page) (\<lambda>items.
        Inr \<lparr>page_Items = items, page_Limit = limit, page_Offset = offset, page_Total = int (length rows)\<rparr>))"

definition ListReconcileCandidates :: "DB \<Rightarrow> int \<Rightarrow> string list" where
  "ListReconcileCandidates db limit0 =
     (let limit = (if limit0 \<le> 0 \<or> limit0 > 500 then 100 else limit0) in
      map jr_ID (take (nat limit) (sort_key jr_UpdatedAt (select_where (\<lambda>r.
        (jr_DesiredState r = DesiredActive \<and> jr_ObservedState r \<notin> set terminalStates) \<or>
        (jr_DesiredState r = DesiredCanceled \<and> jr_ObservedState r \<notin> {StateCanceled, StateSucceeded, StateFailed, StateTimedOut}))
        (db_jobs db)))))"

definition finished_or_updated :: "JobRecord \<Rightarrow> int" where \<comment> \<open>\<open>COALESCE(finished_at, updated_at)\<close>\<close>
  "finished_or_updated r = (case jr_FinishedAt r of Some t \<Rightarrow> t | None \<Rightarrow> jr_UpdatedAt r)"

definition ListExpiredRayJobs :: "DB \<Rightarrow> int \<Rightarrow> int \<Rightarrow> ExpiredRayJob list" where
  "ListExpiredRayJobs db before limit0 =
     (let limit = (if limit0 \<le> 0 \<or> limit0 > 200 then 20 else limit0) in
      map (\<lambda>r. \<lparr>exp_JobID = jr_ID r, exp_KubernetesNS = jr_KubernetesNS r, exp_RayJobName = jr_RayJobName r, exp_RayJobUID = jr_RayJobUID r\<rparr>)
        (take (nat limit) (sort_key finished_or_updated (select_where (\<lambda>r.
          jr_RayJobRetiredAt r = None \<and> jr_ObservedState r \<in> set terminalStates \<and> finished_or_updated r < before \<and>
          jr_RayJobName r \<noteq> [] \<and> jr_KubernetesNS r \<noteq> [] \<and> jr_RayJobUID r \<noteq> []) (db_jobs db)))))"

text \<open>\<open>gorm\<close> also refreshes \<open>updated_at\<close> on this single-column update.\<close>

definition MarkRayJobRetired :: "int \<Rightarrow> string \<Rightarrow> int \<Rightarrow> DB \<Rightarrow> DB" where
  "MarkRayJobRetired now jobId retiredAt db =
     db\<lparr>db_jobs := update_where (\<lambda>r. jr_ID r = jobId \<and> jr_RayJobRetiredAt r = None)
          (\<lambda>r. r\<lparr>jr_RayJobRetiredAt := Some retiredAt, jr_UpdatedAt := now\<rparr>) (db_jobs db)\<rparr>"

subsection \<open>The outbox\<close>

record OutboxEvent =
  oe_ID :: string
  oe_AggregateID :: string
  oe_EventType :: string
  oe_Payload :: "(string \<times> arg) list"
  oe_Attempts :: int
  oe_NextAttempt :: int

definition ClaimOutbox :: "int \<Rightarrow> int \<Rightarrow> DB \<Rightarrow> OutboxEvent list \<times> DB" where
  "ClaimOutbox now limit0 db =
     (let limit = (if limit0 \<le> 0 \<or> limit0 > 100 then 20 else limit0);
          records = take (nat limit) (sort_key ob_CreatedAt
            (select_where (\<lambda>o'. ob_Status o' = PENDING \<and> ob_NextAttemptAt o' \<le> now) (db_outbox db)));
          rows = fold (\<lambda>record. update_where (\<lambda>o'. ob_ID o' = ob_ID record)
                   (\<lambda>o'. o'\<lparr>ob_Status := PROCESSING, ob_LockedAt := Some now, ob_Attempts := ob_Attempts o' + 1\<rparr>)) records (db_outbox db) in
      (map (\<lambda>r. \<lparr>oe_ID = ob_ID r, oe_AggregateID = ob_AggregateID r, oe_EventType = ob_EventType r, oe_Payload = ob_Payload r,
                 oe_Attempts = ob_Attempts r + 1, oe_NextAttempt = ob_NextAttemptAt r\<rparr>) records,
       db\<lparr>db_outbox := rows\<rparr>))"

definition MarkOutboxDone :: "int \<Rightarrow> string \<Rightarrow> DB \<Rightarrow> DB" where
  "MarkOutboxDone now i db =
     db\<lparr>db_outbox := update_where (\<lambda>o'. ob_ID o' = i) (\<lambda>o'. o'\<lparr>ob_Status := DONE, ob_CompletedAt := Some now\<rparr>) (db_outbox db)\<rparr>"

definition MarkOutboxRetry :: "string \<Rightarrow> int \<Rightarrow> string \<Rightarrow> DB \<Rightarrow> DB" where
  "MarkOutboxRetry i next reason db =
     db\<lparr>db_outbox := update_where (\<lambda>o'. ob_ID o' = i)
          (\<lambda>o'. o'\<lparr>ob_Status := PENDING, ob_NextAttemptAt := next, ob_LastError := reason\<rparr>) (db_outbox db)\<rparr>"

subsection \<open>Reserved GPUs are a sum\<close>

lemma int64_add: "int64 (int64 a + b) = int64 (a + b)" "int64 (a + int64 b) = int64 (a + b)"
proof -
  have "take_bit 64 (int64 x) = take_bit 64 x" for x
    by (simp add: int64_def take_bit_signed_take_bit)
  then have t: "take_bit 64 (int64 a + b) = take_bit 64 (a + b)" "take_bit 64 (a + int64 b) = take_bit 64 (a + b)"
    by (metis take_bit_add)+
  have eq: "int64 x = int64 y" if "take_bit 64 x = take_bit 64 y" for x y
    using that signed_take_bit_eq_iff_take_bit_eq [of 63 x y] by (simp add: int64_def)
  show "int64 (int64 a + b) = int64 (a + b)" "int64 (a + int64 b) = int64 (a + b)" using t eq by blast+
qed

lemma fold_int64: "fold (\<lambda>x used. if p x then used else int64 (used + f x)) xs (int64 a) = int64 (a + sum_list (map f (filter (\<lambda>x. \<not> p x) xs)))"
  by (induction xs arbitrary: a) (simp_all add: int64_add add.assoc)

text \<open>The GPUs a tenant holds, as a mathematical sum over its active jobs and running workspaces.\<close>

definition counted_job :: "string \<Rightarrow> JobRecord \<Rightarrow> bool" where
  "counted_job t r \<longleftrightarrow> jr_TenantID r = t \<and> jr_DesiredState r = DesiredActive \<and> \<not> isTerminalState (jr_ObservedState r) \<and> jr_SpecJSON r \<noteq> None"

definition held_gpus :: "DB \<Rightarrow> string \<Rightarrow> int" where
  "held_gpus db t =
     sum_list (map (\<lambda>r. spec_gpus (the (jr_SpecJSON r))) (filter (counted_job t) (db_jobs db))) +
     sum_list (map ws_GPUCount (filter (\<lambda>w. ws_TenantID w = t \<and> ws_ObservedState w \<noteq> ''STOPPED'' \<and> ws_ObservedState w \<noteq> ''FAILED'') (db_workspaces db)))"

lemma int64_0 [simp]: "int64 0 = 0"
  by (simp add: int64_def)

lemma reserved_held: "reservedTenantGPUs db t = int64 (held_gpus db t)"
proof -
  have jobs: "fold (\<lambda>r used. if isTerminalState (jr_ObservedState r) then used
                  else (case jr_SpecJSON r of None \<Rightarrow> used | Some spec \<Rightarrow> int64 (used + spec_gpus spec))) xs 0 =
      int64 (sum_list (map (\<lambda>r. spec_gpus (the (jr_SpecJSON r))) (filter (\<lambda>r. \<not> (isTerminalState (jr_ObservedState r) \<or> jr_SpecJSON r = None)) xs)))" for xs
  proof -
    have eq: "(\<lambda>r used. if isTerminalState (jr_ObservedState r) then used
            else (case jr_SpecJSON r of None \<Rightarrow> used | Some spec \<Rightarrow> int64 (used + spec_gpus spec))) =
          (\<lambda>r used. if isTerminalState (jr_ObservedState r) \<or> jr_SpecJSON r = None then used else int64 (used + spec_gpus (the (jr_SpecJSON r))))"
      by (intro ext) (auto split: option.splits)
    show ?thesis unfolding eq using fold_int64 [of "\<lambda>r. isTerminalState (jr_ObservedState r) \<or> jr_SpecJSON r = None"
        "\<lambda>r. spec_gpus (the (jr_SpecJSON r))" xs 0] by (simp del: isTerminalState_iff de_Morgan_disj)
  qed
  have ws: "reservedWorkspaceGPUs db t = int64 (sum_list (map ws_GPUCount (filter (\<lambda>w. ws_TenantID w = t \<and> ws_ObservedState w \<noteq> ''STOPPED'' \<and> ws_ObservedState w \<noteq> ''FAILED'') (db_workspaces db))))"
    using fold_int64 [of "\<lambda>w. ws_ObservedState w = ''STOPPED'' \<or> ws_ObservedState w = ''FAILED''" ws_GPUCount
        "filter (\<lambda>w. ws_TenantID w = t) (db_workspaces db)" 0]
    by (simp add: reservedWorkspaceGPUs_def select_where_def conj_commute conj_left_commute)
  have filt: "filter (\<lambda>r. \<not> (isTerminalState (jr_ObservedState r) \<or> jr_SpecJSON r = None)) (filter (\<lambda>r. jr_TenantID r = t \<and> jr_DesiredState r = DesiredActive) (db_jobs db)) =
      filter (counted_job t) (db_jobs db)"
    by (simp del: isTerminalState_iff) (rule filter_cong, auto simp: counted_job_def)
  show ?thesis
    unfolding reservedTenantGPUs_def held_gpus_def select_where_def jobs ws filt int64_add by (rule refl)
qed

subsection \<open>Creation succeeds only within the quota\<close>

text \<open>What a successful \<open>Create\<close> did: the normalized job, its row and the tables it extended.\<close>

lemma newJobRecord_fields:
  assumes "newJobRecord now j = Inr (job, row)"
  shows "job = normalizeJobRuntimeMetadata j" "jr_ID row = job_ID j" "jr_TenantID row = job_TenantID j"
    "jr_DesiredState row = job_DesiredState j" "jr_ObservedState row = job_ObservedState j"
    "jr_SpecJSON row = Some ((job_Spec job)\<lparr>spec_EvaluationRuntime := None, spec_ServingRuntime := None\<rparr>)"
    "jr_ClusterAttempt row \<ge> 1" "jr_RayJobName row = []" "jr_RayJobUID row = []"
    "DatasetProvenance_Validate (job_DatasetProvenance job) = None"
    "validateDatasetSnapshotConsistency (job_Spec job) (job_DatasetProvenance job) = None"
  using assms
  by (auto simp: newJobRecord_def marshal_spec_def normalizeJobRuntimeMetadata_def Let_def split: sum.splits)

lemma insert_idempotency_Inr:
  "insert_idempotency now job key db = Inr db1 \<Longrightarrow>
     (job_TenantID job, key) \<notin> idem_key ` set (db_idempotency db) \<and>
     db1 = db\<lparr>db_idempotency := db_idempotency db @ [\<lparr>idem_TenantID = job_TenantID job, idem_Key = key, idem_ResponseJobID = Some (job_ID job),
              idem_ExpiresAt = now + 24 * Hour, idem_CreatedAt = now\<rparr>]\<rparr>"
  by (auto simp: insert_idempotency_def insert_ignore_def insert_new_def Let_def split: if_splits option.splits)

lemma failing_branch:
  "(case r of Inl e \<Rightarrow> if b e then Inl (f e) else Inl (g e) | Inr x \<Rightarrow> k x) = Inr y \<longleftrightarrow> (\<exists>x. r = Inr x \<and> k x = Inr y)"
  by (cases r) auto

lemma create_tx_Inr:
  assumes "create_tx limits constraint ev sv now job row event key db = Inr db'"
  shows "\<exists>db1. (if key = [] then db1 = db else insert_idempotency now job key db = Inr db1) \<and>
    (job_SubmissionOrigin job \<in> {SubmissionOriginServing, SubmissionOriginEvaluation} \<longrightarrow> job_ExternalSubmissionID job \<noteq> []) \<and>
    enforceTenantGPUQuota limits db1 job = None \<and> jr_ID row \<notin> jr_ID ` set (db_jobs db) \<and>
    db' = db1\<lparr>db_jobs := db_jobs db @ [row], db_outbox := db_outbox db @ [event]\<rparr>"
proof -
  obtain db1 db2 where db1: "(if key \<noteq> [] then insert_idempotency now job key db else Inr db) = Inr db1"
    and quota: "enforceTenantGPUQuota limits db1 job = None" and db2: "insert_job constraint row db1 = Inr db2"
    and out: "insert_outbox event db2 = Some db'"
    using assms unfolding create_tx_def by (simp only: or_fail_Inr and_then_Inr failing_branch require_Inr sum.inject) blast
  have same: "db_jobs db1 = db_jobs db" "db_outbox db1 = db_outbox db"
    using db1 by (auto dest: insert_idempotency_Inr split: if_splits)
  have origin: "job_SubmissionOrigin job \<in> {SubmissionOriginServing, SubmissionOriginEvaluation} \<longrightarrow> job_ExternalSubmissionID job \<noteq> []"
    using assms by (auto simp: create_tx_def)
  have rows: "jr_ID row \<notin> jr_ID ` set (db_jobs db1)" "db2 = db1\<lparr>db_jobs := db_jobs db1 @ [row]\<rparr>"
    using db2 by (auto simp: insert_job_def insert_new_rows split: option.splits)
  have "db' = db1\<lparr>db_jobs := db_jobs db1 @ [row], db_outbox := db_outbox db1 @ [event]\<rparr>"
    using out rows(2) by (auto simp: insert_outbox_def insert_new_rows)
  moreover have "if key = [] then db1 = db else insert_idempotency now job key db = Inr db1" using db1 by (auto split: if_splits)
  ultimately show ?thesis using quota rows(1) origin unfolding same by blast
qed

definition created :: "int \<Rightarrow> TrainingJob \<Rightarrow> TrainingJob" where \<comment> \<open>the job as \<open>Create\<close> leaves it\<close>
  "created now j = (normalizeJobRuntimeMetadata (started j))\<lparr>job_CreatedAt := now, job_UpdatedAt := now\<rparr>"

lemma created_fields [simp]:
  "job_ID (created now j) = job_ID j" "job_TenantID (created now j) = job_TenantID j"
  "job_SubmissionOrigin (created now j) = job_SubmissionOrigin j"
  "job_ExternalSubmissionID (created now j) = job_ExternalSubmissionID j"
  "spec_Resources (job_Spec (created now j)) = spec_Resources (job_Spec j)"
  by (simp_all add: created_def normalizeJobRuntimeMetadata_def started_def Let_def)

lemma started_ID [simp]: "job_ID (normalizeJobRuntimeMetadata (started j)) = job_ID j"
  by (simp add: normalizeJobRuntimeMetadata_def started_def Let_def)

lemma Create_Inr:
  assumes "Create q limits constraint ev sv now (Some j) key db = Inr (job, db')"
  shows "\<exists>row. newJobRecord now (started j) = Inr (normalizeJobRuntimeMetadata (started j), row) \<and> job = created now j \<and>
    JobSpec_Validate q limits (job_Spec j) = None \<and>
    create_tx limits constraint ev sv now (created now j) row (submit_event now (job_ID j) key) key db = Inr db'"
proof -
  obtain job1 row where n: "newJobRecord now (started j) = Inr (job1, row)"
    and "JobSpec_Validate q limits (job_Spec j) = None" and "job = job1\<lparr>job_CreatedAt := now, job_UpdatedAt := now\<rparr>"
    and "create_tx limits constraint ev sv now job row (submit_event now (job_ID job) key) key db = Inr db'"
    using assms by (auto simp: Create_def Let_def)
  moreover have "job1 = normalizeJobRuntimeMetadata (started j)" using newJobRecord_fields(1) [OF n] .
  ultimately show ?thesis by (metis created_def created_fields(1))
qed

lemma held_gpus_snoc:
  "db_workspaces db' = db_workspaces db \<Longrightarrow> db_jobs db' = db_jobs db @ [row] \<Longrightarrow>
   held_gpus db' t = held_gpus db t + (if counted_job t row then spec_gpus (the (jr_SpecJSON row)) else 0)"
  by (simp add: held_gpus_def)

lemma quota_accepts:
  "enforceTenantGPUQuotaRequest limits db t n = None \<longleftrightarrow>
   (\<exists>tenant. select_first (\<lambda>r. tr_ID r = t) (db_tenants db) = Some tenant \<and>
      int64 (reservedTenantGPUs db t + n) \<le> effectiveGPUQuota limits (tr_GPUQuotaLimit tenant))"
  by (auto simp: enforceTenantGPUQuotaRequest_def Let_def split: option.splits)

text \<open>
  C37: A job that \<open>Create\<close> accepts as active and unfinished is within the quota of its tenant: the
  tenant exists, the GPUs it has reserved grow by exactly workers times GPUs per worker and, with the new job included,
  do not exceed the tenant's effective limit; no other tenant's reservation changes. The sums are the wrapped
  ones of the code, and equal to the mathematical sums as long as these fit \<open>int64\<close>.
\<close>

theorem Create_within_quota:
  assumes "Create q limits constraint ev sv now (Some j) key db = Inr (job, db')"
    and "job_DesiredState job = DesiredActive" and "\<not> isTerminalState (job_ObservedState job)"
  shows "\<exists>tenant. select_first (\<lambda>t. tr_ID t = job_TenantID j) (db_tenants db) = Some tenant \<and>
     reservedTenantGPUs db' (job_TenantID j) = int64 (reservedTenantGPUs db (job_TenantID j) + spec_gpus (job_Spec j)) \<and>
     reservedTenantGPUs db' (job_TenantID j) \<le> effectiveGPUQuota limits (tr_GPUQuotaLimit tenant) \<and>
     (\<forall>t. t \<noteq> job_TenantID j \<longrightarrow> reservedTenantGPUs db' t = reservedTenantGPUs db t) \<and>
     (in_int64 (held_gpus db' (job_TenantID j)) \<longrightarrow> held_gpus db' (job_TenantID j) \<le> effectiveGPUQuota limits (tr_GPUQuotaLimit tenant))"
proof -
  obtain row where n: "newJobRecord now (started j) = Inr (normalizeJobRuntimeMetadata (started j), row)" and job: "job = created now j"
    and tx: "create_tx limits constraint ev sv now (created now j) row (submit_event now (job_ID j) key) key db = Inr db'"
    using Create_Inr [OF assms(1)] by blast
  obtain db1 where db1: "if key = [] then db1 = db else insert_idempotency now (created now j) key db = Inr db1"
    and quota: "enforceTenantGPUQuota limits db1 (created now j) = None"
    and db': "db' = db1\<lparr>db_jobs := db_jobs db @ [row], db_outbox := db_outbox db @ [submit_event now (job_ID j) key]\<rparr>"
    using create_tx_Inr [OF tx] by blast
  have same: "db_tenants db1 = db_tenants db" "db_workspaces db1 = db_workspaces db" "db_jobs db1 = db_jobs db"
    using db1 by (auto dest: insert_idempotency_Inr split: if_splits)
  have res: "reservedTenantGPUs db1 t = reservedTenantGPUs db t" for t
    by (simp add: reservedTenantGPUs_def reservedWorkspaceGPUs_def same)
  note row = newJobRecord_fields [OF n]
  have gpus: "spec_gpus (the (jr_SpecJSON row)) = spec_gpus (job_Spec j)"
    by (simp add: row spec_gpus_def normalizeJobRuntimeMetadata_def started_def Let_def)
  have counted: "counted_job t row \<longleftrightarrow> t = job_TenantID j" for t
    using assms(2,3) unfolding counted_job_def job
    by (auto simp: row started_def created_def normalizeJobRuntimeMetadata_def Let_def)
  have held: "held_gpus db' t = held_gpus db t + (if t = job_TenantID j then spec_gpus (job_Spec j) else 0)" for t
    using held_gpus_snoc [of db' db row t] by (simp add: db' same counted gpus)
  have new: "reservedTenantGPUs db' t = (if t = job_TenantID j then int64 (reservedTenantGPUs db t + spec_gpus (job_Spec j)) else reservedTenantGPUs db t)" for t
    by (simp add: reserved_held held int64_add)
  obtain tenant where t: "select_first (\<lambda>t. tr_ID t = job_TenantID j) (db_tenants db) = Some tenant"
    and le: "int64 (reservedTenantGPUs db (job_TenantID j) + spec_gpus (job_Spec j)) \<le> effectiveGPUQuota limits (tr_GPUQuotaLimit tenant)"
    using quota by (auto simp: enforceTenantGPUQuota_def quota_accepts same res spec_gpus_def)
  then show ?thesis using new reserved_held [of db' "job_TenantID j"] by (auto simp: int64_exact)
qed

text \<open>A first job on a database with one tenant.\<close>

definition sample_job :: TrainingJob where
  "sample_job = \<lparr>job_ID = ''job-1'', job_TenantID = ''team-a'', job_UserID = ''u-1'', job_SourceArtifactID = ''code-1'',
     job_SubmissionOrigin = [], job_ExternalSubmissionID = [], job_Spec = sample_spec,
     job_DatasetProvenance = \<lparr>prov_Sites = [], prov_DatasetID = [], prov_DatasetVersionID = [], prov_ManifestSHA256 = [],
       prov_DataMode = [], prov_CachePolicy = [], prov_SourceSyncRunID = [], prov_SourceInventorySHA256 = []\<rparr>,
     job_DesiredState = DesiredOther [], job_ObservedState = StateOther [], job_StatusReason = [], job_StatusMessage = [],
     job_KubernetesNS = ''tenant-team-a'', job_RayJobName = [], job_RayJobUID = [], job_RayClusterName = [], job_ResourceVersion = [],
     job_ClusterAttempt = 0, job_WorkerRestartCount = 0, job_ResumeCheckpointID = [], job_CreatedAt = 0, job_UpdatedAt = 0,
     job_LastObservedAt = None, job_StartedAt = None, job_FinishedAt = None\<rparr>"

definition empty_db :: DB where
  "empty_db = \<lparr>db_jobs = [], db_ledger = [], db_fences = [], db_outbox = [], db_idempotency = [],
     db_tenants = [\<lparr>tr_ID = ''team-a'', tr_GPUQuotaLimit = 2\<rparr>], db_workspaces = [], db_checkpoints = []\<rparr>"

definition sample_create :: "TrainingJob \<Rightarrow> string \<Rightarrow> DB \<Rightarrow> (TrainingJob \<times> DB) result" where
  "sample_create j key db = Create (\<lambda>_. False) initialLimits (\<lambda>_ _. None) (\<lambda>_ _. None) (\<lambda>_ _. None) 100 (Some j) key db"

lemma quota_idempotency_frame: "enforceTenantGPUQuota limits (db\<lparr>db_idempotency := rows\<rparr>) job = enforceTenantGPUQuota limits db job"
  by (simp add: enforceTenantGPUQuota_def enforceTenantGPUQuotaRequest_def reservedTenantGPUs_def reservedWorkspaceGPUs_def cong: option.case_cong)

text \<open>When a plain submission is accepted.\<close>

lemma Create_accepts:
  assumes "JobSpec_Validate q limits (job_Spec j) = None" and "newJobRecord now (started j) = Inr (job1, row)"
    and "job_SubmissionOrigin j \<notin> {SubmissionOriginServing, SubmissionOriginEvaluation}"
    and "key \<noteq> [] \<longrightarrow> (job_TenantID j, key) \<notin> idem_key ` set (db_idempotency db)"
    and "enforceTenantGPUQuota limits db (created now j) = None" and "\<And>d r. constraint d r = None"
    and "job_ID j \<notin> jr_ID ` set (db_jobs db)" and "job_ID j @ ''-submit'' \<notin> ob_ID ` set (db_outbox db)"
  shows "\<exists>db'. Create q limits constraint ev sv now (Some j) key db = Inr (created now j, db')"
proof -
  define db1 where "db1 = (if key = [] then db else db\<lparr>db_idempotency := db_idempotency db @ [\<lparr>idem_TenantID = job_TenantID j, idem_Key = key,
    idem_ResponseJobID = Some (job_ID j), idem_ExpiresAt = now + 24 * Hour, idem_CreatedAt = now\<rparr>]\<rparr>)"
  have key: "(if key \<noteq> [] then insert_idempotency now (created now j) key db else Inr db) = Inr db1"
    using assms(4) by (simp add: db1_def insert_idempotency_def insert_ignore_def insert_new_def Let_def)
  have rows: "db_jobs db1 = db_jobs db" "db_outbox db1 = db_outbox db" and quota: "enforceTenantGPUQuota limits db1 (created now j) = None"
    using assms(5) by (simp_all add: db1_def quota_idempotency_frame)
  have job1: "job1 = normalizeJobRuntimeMetadata (started j)" and id: "jr_ID row = job_ID j"
    using newJobRecord_fields(1,2) [OF assms(2)] by (simp_all add: started_def)
  have ins: "insert_job constraint row db1 = Inr (db1\<lparr>db_jobs := db_jobs db @ [row]\<rparr>)"
    using assms(6,7) by (simp add: insert_job_def insert_new_def rows id)
  obtain db' where out: "insert_outbox (submit_event now (job_ID j) key) (db1\<lparr>db_jobs := db_jobs db @ [row]\<rparr>) = Some db'"
    using assms(8) by (simp add: insert_outbox_def insert_new_def rows submit_event_def pending_event_def)
  have "create_tx limits constraint ev sv now (created now j) row (submit_event now (job_ID j) key) key db = Inr db'"
    unfolding create_tx_def key using assms(3) by (simp add: or_fail_def check_def and_then_def require_def quota ins out)
  then show ?thesis using assms(1,2) job1 unfolding created_def
    by (simp add: Create_def require_def or_fail_def and_then_def Let_def)
qed

lemma sample_accepted:
  assumes "job = sample_job \<or> job = sample_job\<lparr>job_ID := ''job-2''\<rparr>"
  shows "\<exists>db'. sample_create job key empty_db = Inr (created 100 job, db')"
proof -
  have quota: "enforceTenantGPUQuota initialLimits empty_db (created 100 sample_job) = None"
    "enforceTenantGPUQuota initialLimits empty_db (created 100 (sample_job\<lparr>job_ID := ''job-2''\<rparr>)) = None" by code_simp+
  have rec: "case newJobRecord 100 (started sample_job) of Inl _ \<Rightarrow> False | Inr _ \<Rightarrow> True"
    "case newJobRecord 100 (started (sample_job\<lparr>job_ID := ''job-2''\<rparr>)) of Inl _ \<Rightarrow> False | Inr _ \<Rightarrow> True" by code_simp+
  then obtain job1 row where "newJobRecord 100 (started job) = Inr (job1, row)" using assms by (auto split: sum.splits)
  moreover have "job_Spec job = sample_spec" "job_SubmissionOrigin job = []" using assms by (auto simp: sample_job_def)
  moreover have "enforceTenantGPUQuota initialLimits empty_db (created 100 job) = None" using assms quota by blast
  ultimately show ?thesis
    unfolding sample_create_def by (intro Create_accepts) (simp_all add: sample_spec_valid go_consts empty_db_def)
qed

definition sample_db :: DB where
  "sample_db = (case sample_create sample_job ''key-1'' empty_db of Inr (_, db) \<Rightarrow> db | Inl _ \<Rightarrow> empty_db)"

lemma sample_created: "sample_create sample_job ''key-1'' empty_db = Inr (created 100 sample_job, sample_db)"
  using sample_accepted [of sample_job "''key-1''"] by (auto simp: sample_db_def)

theorem Create_within_quota_witness:
  "\<exists>tenant. select_first (\<lambda>t. tr_ID t = job_TenantID sample_job) (db_tenants empty_db) = Some tenant \<and>
     reservedTenantGPUs sample_db (job_TenantID sample_job) \<le> effectiveGPUQuota initialLimits (tr_GPUQuotaLimit tenant)"
  using Create_within_quota [OF sample_created [unfolded sample_create_def]]
  by (auto simp: created_def normalizeJobRuntimeMetadata_def started_def sample_job_def Let_def)

subsection \<open>Idempotent submission\<close>

lemma insert_idempotency_taken:
  assumes "r \<in> set (db_idempotency db)" "idem_key r = (job_TenantID job, key)" "distinct (map idem_key (db_idempotency db))"
    and "idem_ResponseJobID r = Some i" "i \<noteq> []"
  shows "insert_idempotency now job key db = Inl (IdempotencyConflictError i)"
proof -
  have "select_first (\<lambda>x. idem_TenantID x = job_TenantID job \<and> idem_Key x = key) (db_idempotency db) = Some r"
    by (rule select_unique [OF assms(3,1)]) (use assms(2) in simp_all)
  moreover have "(job_TenantID job, key) \<in> idem_key ` set (db_idempotency db)" by (rule image_eqI [OF _ assms(1)]) (simp only: assms(2))
  ultimately show ?thesis
    using assms(4,5) by (auto simp: insert_idempotency_def insert_ignore_def insert_new_def require_def Let_def)
qed

text \<open>
  C38: A repeated submission with the same tenant and idempotency key creates nothing: once a keyed
  \<open>Create\<close> has succeeded, every later one for that tenant and key, with whatever acceptable job and at whatever
  time, is refused with the identifier of the job that the first one created, as long as the key's row is kept.
\<close>

theorem Create_idempotent:
  assumes "Create q limits constraint ev sv now (Some j) key db = Inr (job, db')" and "key \<noteq> []" and "job_ID j \<noteq> []"
    and "set (db_idempotency db') \<subseteq> set (db_idempotency db2)" and "distinct (map idem_key (db_idempotency db2))"
    and "Create q limits2 c2 ev2 sv2 later (Some j2) [] db3 = Inr r2" and "job_TenantID j2 = job_TenantID j"
  shows "Create q limits2 c ev sv later (Some j2) key db2 = Inl (IdempotencyConflictError (job_ID j))"
proof -
  obtain row where "create_tx limits constraint ev sv now (created now j) row (submit_event now (job_ID j) key) key db = Inr db'"
    using Create_Inr [OF assms(1)] by blast
  from create_tx_Inr [OF this] assms(2) obtain r where r: "r \<in> set (db_idempotency db')" "idem_key r = (job_TenantID j, key)"
    "idem_ResponseJobID r = Some (job_ID j)"
    by (fastforce dest!: insert_idempotency_Inr)
  have taken: "insert_idempotency later (created later j2) key db2 = Inl (IdempotencyConflictError (job_ID j))"
    by (rule insert_idempotency_taken [where r = r]) (use r assms(3-5,7) in auto)
  obtain row2 db4 job4 where n: "newJobRecord later (started j2) = Inr (normalizeJobRuntimeMetadata (started j2), row2)"
    and valid: "JobSpec_Validate q limits2 (job_Spec j2) = None"
    and tx: "create_tx limits2 c2 ev2 sv2 later (created later j2) row2 (submit_event later (job_ID j2) []) [] db3 = Inr db4"
    using Create_Inr [of q limits2 c2 ev2 sv2 later j2 "[]" db3] assms(6) by (metis prod.exhaust)
  have "create_tx limits2 c ev sv later (created later j2) row2 event key db2 = Inl (IdempotencyConflictError (job_ID j))" for event
    using create_tx_Inr [OF tx] assms(2) taken by (auto simp: create_tx_def and_then_def or_fail_def check_def)
  then show ?thesis
    by (simp add: Create_def require_def or_fail_def and_then_def n valid Let_def flip: created_def)
qed

definition sample_retry :: TrainingJob where
  "sample_retry = sample_job\<lparr>job_ID := ''job-2''\<rparr>"

theorem Create_idempotent_witness:
  "sample_create sample_retry ''key-1'' sample_db = Inl (IdempotencyConflictError ''job-1'')"
proof -
  obtain r2 where "sample_create sample_retry [] empty_db = Inr r2"
    using sample_accepted [of sample_retry "[]"] by (auto simp: sample_retry_def)
  moreover have "distinct (map idem_key (db_idempotency sample_db))"
  proof -
    obtain row where "create_tx initialLimits (\<lambda>_ _. None) (\<lambda>_ _. None) (\<lambda>_ _. None) 100 (created 100 sample_job) row
        (submit_event 100 (job_ID sample_job) ''key-1'') ''key-1'' empty_db = Inr sample_db"
      using Create_Inr [OF sample_created [unfolded sample_create_def]] by blast
    from create_tx_Inr [OF this] obtain db1 where db1: "insert_idempotency 100 (created 100 sample_job) ''key-1'' empty_db = Inr db1"
      and db: "sample_db = db1\<lparr>db_jobs := db_jobs empty_db @ [row], db_outbox := db_outbox empty_db @ [submit_event 100 (job_ID sample_job) ''key-1'']\<rparr>"
      by (simp split: if_splits) blast
    have "db_idempotency sample_db = db_idempotency db1" unfolding db by simp
    then show ?thesis using insert_idempotency_Inr [OF db1] by (simp add: empty_db_def)
  qed
  ultimately show ?thesis
    using Create_idempotent [OF sample_created [unfolded sample_create_def], of sample_db] unfolding sample_create_def
    by (simp add: sample_retry_def sample_job_def)
qed

subsection \<open>Reading back what was created\<close>

text \<open>
  What of a job its row carries: the fields that a new row leaves empty, the two runtimes that are not
  serialized, and blank optional identifiers are lost.
\<close>

definition unblank :: "string \<Rightarrow> string" where
  "unblank s = (if blank s then [] else s)"

definition persisted :: "TrainingJob \<Rightarrow> TrainingJob" where
  "persisted job =
     (let p = job_DatasetProvenance job in
      job\<lparr>job_Spec := (job_Spec job)\<lparr>spec_EvaluationRuntime := None, spec_ServingRuntime := None\<rparr>,
          job_SourceArtifactID := unblank (job_SourceArtifactID job),
          job_DatasetProvenance := p\<lparr>prov_DatasetID := unblank (prov_DatasetID p), prov_DatasetVersionID := unblank (prov_DatasetVersionID p),
            prov_ManifestSHA256 := unblank (prov_ManifestSHA256 p), prov_DataMode := unblank (prov_DataMode p),
            prov_CachePolicy := unblank (prov_CachePolicy p), prov_SourceSyncRunID := unblank (prov_SourceSyncRunID p)\<rparr>,
          job_StatusReason := [], job_StatusMessage := [], job_RayJobName := [], job_RayJobUID := [], job_RayClusterName := [],
          job_ResourceVersion := [], job_LastObservedAt := None, job_StartedAt := None, job_FinishedAt := None\<rparr>)"

lemma valueOrEmpty_optionalID [simp]: "valueOrEmpty (optionalID v) = unblank v"
  by (simp add: valueOrEmpty_def optionalID_def unblank_def)

lemma blank_unblank [simp]: "blank (unblank s) = blank s"
  by (simp add: unblank_def)

lemma unblank_id: "\<not> blank s \<Longrightarrow> unblank s = s"
  by (simp add: unblank_def)

lemma provenance_read:
  fixes p :: DatasetProvenance
  defines "p' \<equiv> p\<lparr>prov_DatasetID := unblank (prov_DatasetID p), prov_DatasetVersionID := unblank (prov_DatasetVersionID p),
            prov_ManifestSHA256 := unblank (prov_ManifestSHA256 p), prov_DataMode := unblank (prov_DataMode p),
            prov_CachePolicy := unblank (prov_CachePolicy p), prov_SourceSyncRunID := unblank (prov_SourceSyncRunID p)\<rparr>"
  assumes "DatasetProvenance_Validate p = None" and "validateDatasetSnapshotConsistency s p = None"
    and same: "spec_DatasetRef s' = spec_DatasetRef s" "spec_DataMode s' = spec_DataMode s" "spec_CachePolicy s' = spec_CachePolicy s"
  shows "DatasetProvenance_Validate p' = None \<and> validateDatasetSnapshotConsistency s' p' = None"
proof (cases "DatasetProvenance_IsZero p")
  case True
  then have "DatasetProvenance_IsZero p'" by (simp add: DatasetProvenance_IsZero_def p'_def)
  with True assms show ?thesis
    by (auto simp: DatasetProvenance_Validate_def validateDatasetSnapshotConsistency_def p'_def split: option.splits if_splits)
next
  case False
  then have filled: "\<not> blank (prov_DatasetID p)" "\<not> blank (prov_DatasetVersionID p)" "\<not> blank (prov_ManifestSHA256 p)"
    "\<not> blank (prov_DataMode p)" "\<not> blank (prov_CachePolicy p)"
    and run: "prov_SourceSyncRunID p \<noteq> [] \<longrightarrow> validateDatasetIdentifier ''dataset source sync run ID'' (prov_SourceSyncRunID p) = None"
    using assms(2) by (auto simp: DatasetProvenance_Validate_def split: option.splits if_splits)
  have "unblank (prov_SourceSyncRunID p) = prov_SourceSyncRunID p"
    using run by (auto simp: validateDatasetIdentifier_def unblank_def blank_def)
  then have "p' = p" using filled by (simp add: p'_def unblank_id)
  with assms show ?thesis by (auto simp: validateDatasetSnapshotConsistency_def)
qed

lemma engine_trim [simp]: "trim_space ''ray-ddp'' = ''ray-ddp''" "trim_space ''ray-train'' = ''ray-train''" "trim_space ''2.35.0'' = ''2.35.0''"
  by code_simp+

lemma engine_resolved [simp]: "TrainingEngine_Resolved ''ray-ddp'' = ''ray-ddp''" "TrainingEngine_Resolved ''ray-train'' = ''ray-train''"
  by code_simp+

lemma newJobRecord_copied:
  assumes "newJobRecord now j = Inr (job, row)"
  shows "jr_ID row = job_ID job" "jr_TenantID row = job_TenantID job" "jr_UserID row = job_UserID job"
    "jr_SourceArtifactID row = optionalID (job_SourceArtifactID job)" "jr_SubmissionOrigin row = job_SubmissionOrigin job"
    "jr_ExternalSubmissionID row = job_ExternalSubmissionID job" "jr_DesiredState row = job_DesiredState job"
    "jr_ObservedState row = job_ObservedState job" "jr_StatusReason row = []" "jr_StatusMessage row = []"
    "jr_KubernetesNS row = job_KubernetesNS job" "jr_RayJobName row = []" "jr_RayJobUID row = []" "jr_RayClusterName row = []"
    "jr_ResourceVersion row = []" "jr_ClusterAttempt row = job_ClusterAttempt job" "jr_WorkerRestartCount row = job_WorkerRestartCount job"
    "jr_ResumeCheckpointID row = job_ResumeCheckpointID job" "jr_CreatedAt row = now" "jr_UpdatedAt row = now"
    "jr_LastObservedAt row = None" "jr_StartedAt row = None" "jr_FinishedAt row = None"
    "jr_TrainingEngine row = spec_TrainingEngine (job_Spec job)" "jr_RayVersion row = spec_RayVersion (job_Spec job)"
    "jr_ParentJobID row = spec_ParentJobID (job_Spec job)"
  using assms by (auto simp: newJobRecord_def Let_def split: sum.splits)

lemma toDomain_newJobRecord:
  assumes "newJobRecord now j = Inr (job, row)"
    and "TrainingEngine_Resolved (spec_TrainingEngine (job_Spec j)) \<in> {''ray-ddp'', ''ray-train''}"
  shows "toDomain row = Inr (persisted (job\<lparr>job_CreatedAt := now, job_UpdatedAt := now\<rparr>))"
proof -
  note valid = newJobRecord_fields(10,11) [OF assms(1)] and copied = newJobRecord_copied [OF assms(1)]
  have norm: "trim_space (spec_RayVersion (job_Spec job)) = spec_RayVersion (job_Spec job)" "spec_RayVersion (job_Spec job) \<noteq> []"
    "TrainingEngine_Resolved (trim_space (spec_TrainingEngine (job_Spec job))) = spec_TrainingEngine (job_Spec job)"
    "\<not> job_ClusterAttempt job < 1" "\<not> job_WorkerRestartCount job < 0"
    using assms(2) unfolding newJobRecord_fields(1) [OF assms(1)]
    by (auto simp: normalizeJobRuntimeMetadata_def Let_def RayVersionLegacy_def)
  let ?stored = "(job_Spec job)\<lparr>spec_EvaluationRuntime := None, spec_ServingRuntime := None\<rparr>"
  let ?p = "job_DatasetProvenance job"
  let ?read = "?p\<lparr>prov_DatasetID := unblank (prov_DatasetID ?p), prov_DatasetVersionID := unblank (prov_DatasetVersionID ?p),
            prov_ManifestSHA256 := unblank (prov_ManifestSHA256 ?p), prov_DataMode := unblank (prov_DataMode ?p),
            prov_CachePolicy := unblank (prov_CachePolicy ?p), prov_SourceSyncRunID := unblank (prov_SourceSyncRunID ?p)\<rparr>"
  have provenance: "\<lparr>prov_Sites = jr_DatasetSites row, prov_DatasetID = valueOrEmpty (jr_DatasetID row),
      prov_DatasetVersionID = valueOrEmpty (jr_DatasetVersionID row), prov_ManifestSHA256 = valueOrEmpty (jr_DatasetManifestDigest row),
      prov_DataMode = valueOrEmpty (jr_DatasetDataMode row), prov_CachePolicy = valueOrEmpty (jr_DatasetCachePolicy row),
      prov_SourceSyncRunID = valueOrEmpty (jr_SourceSyncRunID row), prov_SourceInventorySHA256 = jr_SourceInventorySHA256 row\<rparr> = ?read"
    using assms(1) by (auto simp: newJobRecord_def Let_def split: sum.splits)
  have ok: "DatasetProvenance_Validate ?read = None" "validateDatasetSnapshotConsistency ?stored ?read = None"
    using provenance_read [OF valid, of ?stored] by simp_all
  have spec: "?stored\<lparr>spec_TrainingEngine := spec_TrainingEngine (job_Spec job), spec_RayVersion := spec_RayVersion (job_Spec job),
      spec_ParentJobID := spec_ParentJobID (job_Spec job)\<rparr> = ?stored"
    by (rule JobSpec.equality) simp_all
  show ?thesis
    unfolding toDomain_def newJobRecord_fields(6) [OF assms(1)] provenance Let_def copied norm(1,3) spec if_not_P [OF norm(2)]
      valueOrEmpty_optionalID if_not_P [OF norm(4)] if_not_P [OF norm(5)]
    unfolding spec ok
    by (simp add: require_def or_fail_def persisted_def Let_def norm ok)
qed


end
