(* ===== verification/Attempt_Store.thy ===== *)
theory Attempt_Store
  imports Job_Store
begin

section \<open>The job store: the managed attempt protocol\<close>

text \<open>
  \<open>backend/repositories/jobs.go\<close>, second part: the operations that move a managed job through its
  attempts. Each attempt has a row in the ledger \<open>managed_attempt_resources\<close>, which goes
  from \<open>RESERVED\<close> through \<open>CREATING\<close> (under a lease), \<open>ACTIVATING\<close>, \<open>ACTIVE\<close> and \<open>RETIRING\<close> to
  \<open>CLEANED\<close>, or to \<open>QUARANTINED\<close>; each lease hands out a fence, recorded in
  \<open>managed_attempt_fences\<close>.

  An operation is a transaction: \<open>Inl\<close> is an error and a rollback, \<open>Inr\<close> carries the results and
  the database it commits. \<open>First\<close> on a missing row is the branch of \<open>require\<close>; the
  failures of the database connection itself are not modelled. Counters (\<open>lease_version\<close>,
  \<open>cleanup_failures\<close>) are mathematical integers: their columns refuse values that leave the range.
\<close>

definition record_not_found :: error where
  "record_not_found = Errorf ''record not found'' []"

definition job_at :: "DB \<Rightarrow> string \<Rightarrow> JobRecord option" where
  "job_at db i = select_first (\<lambda>r. jr_ID r = i) (db_jobs db)"

definition ledger_at :: "DB \<Rightarrow> string \<Rightarrow> int \<Rightarrow> ManagedAttemptResource option" where
  "ledger_at db j a = select_first (\<lambda>r. ledger_key r = (j, a)) (db_ledger db)"

text \<open>\<open>fmt.Sprintf("%d", n)\<close>.\<close>

fun decimal_nat :: "nat \<Rightarrow> string" where
  "decimal_nat n = (if n < 10 then [''0123456789'' ! n] else decimal_nat (n div 10) @ [''0123456789'' ! (n mod 10)])"

declare decimal_nat.simps [simp del]

definition decimal :: "int \<Rightarrow> string" where
  "decimal i = (if i < 0 then CHR ''-'' # decimal_nat (nat (- i)) else decimal_nat (nat i))"

definition deterministicAttemptRayJobName :: "string \<Rightarrow> int \<Rightarrow> string" where
  "deterministicAttemptRayJobName jobId attempt = (if attempt \<le> 1 then jobId else jobId @ ''-a'' @ decimal attempt)"

definition managed_engine :: "TrainingJob \<Rightarrow> bool" where
  "managed_engine job \<longleftrightarrow> TrainingEngine_Resolved (spec_TrainingEngine (job_Spec job)) = TrainingEngineRayTrain"

definition managedAttemptFenceIssuedTx :: "DB \<Rightarrow> string \<Rightarrow> int \<Rightarrow> int \<Rightarrow> bool" where
  "managedAttemptFenceIssuedTx db jobId clusterAttempt fence =
     (count_where (\<lambda>f. fence_JobID f = jobId \<and> fence_ClusterAttempt f = clusterAttempt \<and> fence_Fence f = fence) (db_fences db) = 1)"

subsection \<open>Retirement\<close>

definition new_ledger_row :: "string \<Rightarrow> int \<Rightarrow> string \<Rightarrow> string \<Rightarrow> string \<Rightarrow> ManagedAttemptResourceState \<Rightarrow> int \<Rightarrow> int \<Rightarrow> ManagedAttemptResource" where
  "new_ledger_row jobId attempt ns name uid state nextCheck now = \<lparr>mar_JobID = jobId, mar_ClusterAttempt = attempt, mar_KubernetesNS = ns,
     mar_RayJobName = name, mar_RayJobUID = uid, mar_State = state, mar_LeaseOwner = [], mar_LeaseVersion = 0, mar_ResourceFence = 0,
     mar_LeaseExpiresAt = None, mar_CleanupFailures = 0, mar_CleanupLastError = [], mar_NextCheckAt = nextCheck,
     mar_CreatedAt = now, mar_UpdatedAt = now\<rparr>"

definition to_retiring :: "int \<Rightarrow> string \<Rightarrow> ManagedAttemptResource \<Rightarrow> ManagedAttemptResource" where
  "to_retiring now uid r = r\<lparr>mar_RayJobUID := uid, mar_State := ManagedAttemptResourceRetiring, mar_LeaseOwner := [],
     mar_LeaseExpiresAt := None, mar_NextCheckAt := now, mar_UpdatedAt := now\<rparr>"

definition retireManagedAttemptResourceTx ::
    "ManagedAttemptRetireRequest \<Rightarrow> int \<Rightarrow> DB \<Rightarrow> ((ManagedAttemptResource \<times> bool) \<times> DB) result" where
  "retireManagedAttemptResourceTx request now db =
     (case ledger_at db (ret_JobID request) (ret_ClusterAttempt request) of
        None \<Rightarrow>
          let record = new_ledger_row (ret_JobID request) (ret_ClusterAttempt request) (ret_KubernetesNS request) (ret_RayJobName request)
                         (ret_RayJobUID request) ManagedAttemptResourceRetiring now now in
          require (insert_new ledger_key record (db_ledger db))
            (Wrapf ''create managed attempt retirement ledger: %w'' [] (Errorf (err_Message duplicate_key) []))
            (\<lambda>rows. Inr ((record, True), db\<lparr>db_ledger := rows\<rparr>))
      | Some record \<Rightarrow>
          or_fail (check (mar_KubernetesNS record \<noteq> ret_KubernetesNS request \<or> mar_RayJobName record \<noteq> ret_RayJobName request)
                     (Errorf ''managed attempt retirement identity does not match ledger'' [])) (
          or_fail (check (mar_RayJobUID record \<noteq> [] \<and> ret_RayJobUID request \<noteq> [] \<and> mar_RayJobUID record \<noteq> ret_RayJobUID request)
                     (Errorf ''managed attempt retirement UID does not match ledger'' [])) (
          if mar_State record = ManagedAttemptResourceQuarantined then Inr ((record, False), db)
          else
            let uid = (if mar_RayJobUID record = [] then ret_RayJobUID request else mar_RayJobUID record) in
            if mar_State record = ManagedAttemptResourceRetiring \<and> mar_RayJobUID record = uid \<and> mar_LeaseOwner record = [] \<and>
               mar_LeaseExpiresAt record = None
            then Inr ((record, False), db)
            else
              let hit = (\<lambda>r. mar_JobID r = ret_JobID request \<and> mar_ClusterAttempt r = ret_ClusterAttempt request \<and>
                             mar_RayJobName r = ret_RayJobName request) in
              or_fail (check (count_where hit (db_ledger db) = 0) (Errorf ''managed attempt retirement ledger disappeared'' [])) (
              Inr ((to_retiring now uid record, True), db\<lparr>db_ledger := update_where hit (to_retiring now uid) (db_ledger db)\<rparr>)))))"

definition RetireManagedAttemptResource ::
    "int \<Rightarrow> ManagedAttemptRetireRequest \<Rightarrow> DB \<Rightarrow> ((ManagedAttemptResource \<times> bool) \<times> DB) result" where
  "RetireManagedAttemptResource now request db =
     or_fail (ManagedAttemptRetireRequest_Validate request) (retireManagedAttemptResourceTx request now db)"

text \<open>
  The update that both cancellation and a terminal observation apply to every attempt of a job
  that is still in use.
\<close>

definition live_states :: "ManagedAttemptResourceState list" where
  "live_states = [ManagedAttemptResourceReserved, ManagedAttemptResourceCreating, ManagedAttemptResourceActivating, ManagedAttemptResourceActive]"

definition retire_live_attempts :: "int \<Rightarrow> string \<Rightarrow> DB \<Rightarrow> DB" where
  "retire_live_attempts now jobId db =
     db\<lparr>db_ledger := update_where (\<lambda>r. mar_JobID r = jobId \<and> mar_State r \<in> set live_states)
          (\<lambda>r. r\<lparr>mar_State := ManagedAttemptResourceRetiring, mar_LeaseOwner := [], mar_LeaseExpiresAt := None,
                 mar_NextCheckAt := now, mar_UpdatedAt := now\<rparr>) (db_ledger db)\<rparr>"

definition first_nonempty :: "string \<Rightarrow> string \<Rightarrow> string" where \<comment> \<open>\<open>if v == "" { v = other }\<close>\<close>
  "first_nonempty v other = (if v = [] then other else v)"

subsection \<open>Desired state\<close>

definition cancel_attempts :: "int \<Rightarrow> JobRecord \<Rightarrow> DB \<Rightarrow> DB result" where \<comment> \<open>the block for managed jobs\<close>
  "cancel_attempts now record db =
     (let namespace = first_nonempty (trim_space (jr_KubernetesNS record)) (''tenant-'' @ jr_TenantID record);
          attempt = jr_ClusterAttempt record;
          retiringAttempt = (if jr_ObservedState record = StateRecovering \<and> attempt > 1 \<and>
            jr_RayJobName record \<noteq> deterministicAttemptRayJobName (jr_ID record) attempt then attempt - 1 else attempt) in
      and_then
        (if jr_RayJobName record \<noteq> [] then
           case retireManagedAttemptResourceTx \<lparr>ret_JobID = jr_ID record, ret_ClusterAttempt = retiringAttempt, ret_KubernetesNS = namespace,
                  ret_RayJobName = jr_RayJobName record, ret_RayJobUID = jr_RayJobUID record\<rparr> now db of
             Inl e \<Rightarrow> Inl (Wrapf ''persist cancellation retirement intent: %w'' [] e)
           | Inr (_, db') \<Rightarrow> Inr db'
         else Inr db)
        (\<lambda>db'. Inr (retire_live_attempts now (jr_ID record) db')))"

definition SetDesiredState :: "int \<Rightarrow> string \<Rightarrow> string \<Rightarrow> DesiredState \<Rightarrow> DB \<Rightarrow> DB result" where
  "SetDesiredState now tenantID jobId state db =
     require (select_first (\<lambda>r. jr_TenantID r = tenantID \<and> jr_ID r = jobId) (db_jobs db)) (Errorf ''job not found'' []) (\<lambda>record.
     and_then
       (if state = DesiredCanceled \<and> TrainingEngine_Resolved (jr_TrainingEngine record) = TrainingEngineRayTrain
        then cancel_attempts now record db else Inr db)
       (\<lambda>db1.
         let db2 = db1\<lparr>db_jobs := update_where (\<lambda>r. jr_TenantID r = tenantID \<and> jr_ID r = jobId)
                         (\<lambda>r. r\<lparr>jr_DesiredState := state, jr_UpdatedAt := now\<rparr>) (db_jobs db1)\<rparr> in
         if state \<noteq> DesiredCanceled then Inr db2
         else Inr (insert_outbox_ignore (pending_event (jobId @ ''-cancel'') ''TrainingJob'' jobId ''TRAINING_JOB_CANCEL_REQUESTED''
                [(''job_id'', ArgS jobId), (''tenant_id'', ArgS tenantID)] now) db2)))"

subsection \<open>Observed state\<close>

definition observedStateMatchesCurrentAttempt :: "JobRecord \<Rightarrow> ObservedJobState \<Rightarrow> bool" where
  "observedStateMatchesCurrentAttempt current observed =
     (if jr_ClusterAttempt current \<noteq> obs_ExpectedClusterAttempt observed \<or> jr_RayJobName current \<noteq> obs_ExpectedRayJobName observed \<or>
         jr_RayJobUID current \<noteq> obs_ExpectedRayJobUID observed then False
      else if jr_RayJobName current = [] then
        obs_RayJobName observed = deterministicAttemptRayJobName (jr_ID current) (jr_ClusterAttempt current)
      else if obs_RayJobName observed \<noteq> jr_RayJobName current then False
      else jr_RayJobUID current = [] \<or> obs_RayJobUID observed = jr_RayJobUID current)"

definition observed_updates :: "int \<Rightarrow> ObservedJobState \<Rightarrow> JobRecord \<Rightarrow> JobRecord" where
  "observed_updates now observed r = r\<lparr>jr_ObservedState := obs_State observed, jr_StatusReason := obs_Reason observed,
     jr_StatusMessage := obs_Message observed, jr_KubernetesNS := obs_KubernetesNS observed, jr_RayJobName := obs_RayJobName observed,
     jr_RayJobUID := obs_RayJobUID observed, jr_RayClusterName := obs_RayClusterName observed,
     jr_ResourceVersion := obs_ResourceVersion observed, jr_LastObservedAt := Some now, jr_UpdatedAt := now,
     jr_StartedAt := (case obs_StartedAt observed of Some t \<Rightarrow> Some t | None \<Rightarrow> jr_StartedAt r),
     jr_FinishedAt := (case obs_FinishedAt observed of Some t \<Rightarrow> Some t
                       | None \<Rightarrow> if isTerminalState (obs_State observed) then Some now else jr_FinishedAt r)\<rparr>"

definition finish_attempts :: "int \<Rightarrow> JobRecord \<Rightarrow> ObservedJobState \<Rightarrow> DB \<Rightarrow> DB result" where \<comment> \<open>the block for managed jobs\<close>
  "finish_attempts now current observed db =
     (let namespace = first_nonempty (trim_space (obs_KubernetesNS observed))
            (first_nonempty (trim_space (jr_KubernetesNS current)) (''tenant-'' @ jr_TenantID current)) in
      and_then
        (if obs_RayJobName observed \<noteq> [] then
           case retireManagedAttemptResourceTx \<lparr>ret_JobID = jr_ID current, ret_ClusterAttempt = jr_ClusterAttempt current,
                  ret_KubernetesNS = namespace, ret_RayJobName = obs_RayJobName observed, ret_RayJobUID = obs_RayJobUID observed\<rparr> now db of
             Inl e \<Rightarrow> Inl (Wrapf ''persist terminal retirement intent: %w'' [] e)
           | Inr (_, db') \<Rightarrow> Inr db'
         else Inr db)
        (\<lambda>db'. Inr (retire_live_attempts now (jr_ID current) db')))"

definition ApplyObservedState :: "int \<Rightarrow> ObservedJobState \<Rightarrow> DB \<Rightarrow> DB result" where
  "ApplyObservedState now observed db =
     (if obs_ExpectedClusterAttempt observed < 1 then Inl (Errorf ''expected cluster attempt is required'' [])
      else require (job_at db (obs_JobID observed)) (Errorf ''job not found'' []) (\<lambda>current.
        if isTerminalState (jr_ObservedState current) then Inr db
        else if \<not> observedStateMatchesCurrentAttempt current observed then Inr db
        else
          let hit = (\<lambda>r. jr_ID r = obs_JobID observed);
              db1 = db\<lparr>db_jobs := update_where hit (observed_updates now observed) (db_jobs db)\<rparr> in
          or_fail (check (count_where hit (db_jobs db) = 0) (Errorf ''job not found'' [])) (
          if \<not> isTerminalState (obs_State observed) then Inr db1
          else and_then
            (if TrainingEngine_Resolved (jr_TrainingEngine current) = TrainingEngineRayTrain then finish_attempts now current observed db1
             else Inr db1)
            (\<lambda>db2. Inr (insert_outbox_ignore (pending_event (obs_JobID observed @ ''-terminal'') ''TrainingJob'' (obs_JobID observed)
                   ''TRAINING_JOB_TERMINAL'' [(''job_id'', ArgS (obs_JobID observed))] now) db2)))))"

subsection \<open>Reservation\<close>

definition reload :: "string \<Rightarrow> string \<Rightarrow> bool \<Rightarrow> DB \<Rightarrow> ((TrainingJob \<times> bool) \<times> DB) result" where
  \<comment> \<open>the job is read again after its update\<close>
  "reload message jobId flag db =
     require (job_at db jobId) (Wrapf message [] record_not_found) (\<lambda>record. and_then (toDomain record) (\<lambda>job. Inr ((job, flag), db)))"

definition ReserveManagedAttemptIdentity ::
    "int \<Rightarrow> ManagedAttemptReservationRequest \<Rightarrow> DB \<Rightarrow> ((TrainingJob \<times> bool) \<times> DB) result" where
  "ReserveManagedAttemptIdentity now request db =
     or_fail (ManagedAttemptReservationRequest_Validate request) (
     require (job_at db (resv_JobID request)) (Errorf ''job not found'' []) (\<lambda>record.
     and_then (toDomain record) (\<lambda>job.
     if \<not> managed_engine job \<or> job_DesiredState job \<noteq> DesiredActive \<or> job_ClusterAttempt job \<noteq> resv_ExpectedClusterAttempt request \<or>
        job_ObservedState job \<noteq> resv_ExpectedState request \<or> job_RayJobUID job \<noteq> [] \<or> job_RayJobName job \<noteq> resv_ExpectedRayJobName request
     then Inr ((job, False), db)
     else if job_RayJobName job = resv_RayJobName request then
       require (ledger_at db (resv_JobID request) (resv_ExpectedClusterAttempt request))
         (Errorf ''managed attempt reservation ledger is missing'' [])
         (\<lambda>existing. Inr ((job, mar_KubernetesNS existing = resv_KubernetesNS request \<and> mar_RayJobName existing = resv_RayJobName request \<and>
            mar_RayJobUID existing = [] \<and> mar_State existing \<in> {ManagedAttemptResourceReserved, ManagedAttemptResourceCreating}), db))
     else if job_RayJobName job \<noteq> [] then Inr ((job, False), db)
     else
       let ledger = new_ledger_row (resv_JobID request) (resv_ExpectedClusterAttempt request) (resv_KubernetesNS request)
                      (resv_RayJobName request) [] ManagedAttemptResourceReserved 0 now in
       require (insert_new ledger_key ledger (db_ledger db))
         (Wrapf ''create managed attempt reservation ledger: %w'' [] (Errorf (err_Message duplicate_key) [])) (\<lambda>rows.
       let cas = (\<lambda>r. jr_ID r = resv_JobID request \<and> jr_TrainingEngine r = TrainingEngineRayTrain \<and> jr_DesiredState r = DesiredActive \<and>
                      jr_ClusterAttempt r = resv_ExpectedClusterAttempt request \<and> jr_ObservedState r = resv_ExpectedState request \<and>
                      jr_RayJobName r = resv_ExpectedRayJobName request \<and> jr_RayJobUID r = []) in
       or_fail (check (count_where cas (db_jobs db) = 0) (Errorf ''managed attempt reservation CAS was lost'' [])) (
       reload ''reload reserved managed attempt: %w'' (resv_JobID request) True
         (db\<lparr>db_ledger := rows,
             db_jobs := update_where cas (\<lambda>r. r\<lparr>jr_RayJobName := resv_RayJobName request, jr_LastObservedAt := Some now, jr_UpdatedAt := now\<rparr>)
                          (db_jobs db)\<rparr>))))))"

subsection \<open>The creation lease\<close>

definition lease_mismatch :: "ManagedAttemptCreationLeaseRequest \<Rightarrow> TrainingJob \<Rightarrow> ManagedAttemptResource \<Rightarrow> bool" where
  "lease_mismatch request job ledger \<longleftrightarrow>
     \<not> managed_engine job \<or> job_DesiredState job \<noteq> DesiredActive \<or> job_ClusterAttempt job \<noteq> lease_ExpectedClusterAttempt request \<or>
     job_ObservedState job \<noteq> lease_ExpectedState request \<or> job_RayJobName job \<noteq> lease_RayJobName request \<or> job_RayJobUID job \<noteq> [] \<or>
     mar_RayJobName ledger \<noteq> lease_RayJobName request"

definition unresolved_lower :: "ManagedAttemptCreationLeaseRequest \<Rightarrow> DB \<Rightarrow> nat" where
  "unresolved_lower request db =
     count_where (\<lambda>r. mar_JobID r = lease_JobID request \<and> mar_ClusterAttempt r < lease_ExpectedClusterAttempt request \<and>
       mar_State r \<noteq> ManagedAttemptResourceCleaned) (db_ledger db)"

definition lease_held :: "int \<Rightarrow> ManagedAttemptResource \<Rightarrow> bool" where \<comment> \<open>\<open>LeaseExpiresAt != nil && LeaseExpiresAt.After(now)\<close>\<close>
  "lease_held now ledger \<longleftrightarrow> mar_State ledger = ManagedAttemptResourceCreating \<and>
     (case mar_LeaseExpiresAt ledger of None \<Rightarrow> False | Some t \<Rightarrow> t > now)"

definition granted :: "ManagedAttemptCreationLeaseRequest \<Rightarrow> int \<Rightarrow> ManagedAttemptResource \<Rightarrow> ManagedAttemptResource \<Rightarrow> ManagedAttemptResource" where
  \<comment> \<open>the new columns, from the row that was read\<close>
  "granted request now ledger r = r\<lparr>mar_State := ManagedAttemptResourceCreating, mar_LeaseOwner := lease_LeaseOwner request,
     mar_LeaseVersion := mar_LeaseVersion ledger + 1, mar_ResourceFence := mar_LeaseVersion ledger + 1,
     mar_LeaseExpiresAt := Some (now + lease_LeaseDuration request), mar_UpdatedAt := now\<rparr>"

definition grant_lease :: "ManagedAttemptCreationLeaseRequest \<Rightarrow> int \<Rightarrow> TrainingJob \<Rightarrow> ManagedAttemptResource \<Rightarrow> DB \<Rightarrow>
    (TrainingJob \<times> ManagedAttemptResource \<times> bool) \<times> DB" where
  "grant_lease request now job ledger db =
     (let hit = (\<lambda>r. mar_JobID r = mar_JobID ledger \<and> mar_ClusterAttempt r = mar_ClusterAttempt ledger \<and> mar_State r = mar_State ledger \<and>
                     mar_LeaseVersion r = mar_LeaseVersion ledger);
          issuedFence = \<lparr>fence_JobID = mar_JobID ledger, fence_ClusterAttempt = mar_ClusterAttempt ledger,
            fence_Fence = mar_LeaseVersion ledger + 1, fence_CreatedAt = now\<rparr> in
      if count_where hit (db_ledger db) = 0 then ((job, ledger, False), db)
      else ((job, granted request now ledger ledger, True),
            db\<lparr>db_ledger := update_where hit (granted request now ledger) (db_ledger db),
               db_fences := fst (insert_ignore fence_key issuedFence (db_fences db))\<rparr>))"

definition AcquireManagedAttemptCreation ::
    "int \<Rightarrow> ManagedAttemptCreationLeaseRequest \<Rightarrow> int \<Rightarrow> DB \<Rightarrow> ((TrainingJob \<times> ManagedAttemptResource \<times> bool) \<times> DB) result" where
  \<comment> \<open>\<open>clock\<close> is \<open>time.Now()\<close>, used when the argument is the zero time\<close>
  "AcquireManagedAttemptCreation clock request at db =
     or_fail (ManagedAttemptCreationLeaseRequest_Validate request) (
     let now = (if at = 0 then clock else at) in
     require (job_at db (lease_JobID request)) (Errorf ''job not found'' []) (\<lambda>jobRecord.
     and_then (toDomain jobRecord) (\<lambda>job.
     require (ledger_at db (lease_JobID request) (lease_ExpectedClusterAttempt request))
       (Errorf ''managed attempt creation ledger not found'' []) (\<lambda>ledger.
     if lease_mismatch request job ledger then Inr ((job, ledger, False), db)
     else if unresolved_lower request db > 0 \<or>
         (mar_State ledger \<noteq> ManagedAttemptResourceReserved \<and> mar_State ledger \<noteq> ManagedAttemptResourceCreating)
     then Inr ((job, ledger, False), db)
     else if lease_held now ledger then Inr ((job, ledger, mar_LeaseOwner ledger = lease_LeaseOwner request), db)
     else Inr (grant_lease request now job ledger db)))))"

definition IsManagedAttemptFenceIssued :: "DB \<Rightarrow> string \<Rightarrow> int \<Rightarrow> int \<Rightarrow> bool" where
  "IsManagedAttemptFenceIssued db jobId clusterAttempt fence =
     (if blank jobId \<or> clusterAttempt < 1 \<or> fence < 1 then False else managedAttemptFenceIssuedTx db jobId clusterAttempt fence)"

definition GetManagedAttemptResource :: "DB \<Rightarrow> string \<Rightarrow> int \<Rightarrow> ManagedAttemptResource result" where
  "GetManagedAttemptResource db jobId clusterAttempt =
     or_fail (check (blank jobId \<or> clusterAttempt < 1) (Errorf ''managed attempt job ID and positive attempt are required'' [])) (
     require (ledger_at db jobId clusterAttempt) (Errorf ''managed attempt resource not found'' []) Inr)"

subsection \<open>Cleanup\<close>

definition CompleteManagedAttemptCleanup :: "int \<Rightarrow> ManagedAttemptCleanupRequest \<Rightarrow> DB \<Rightarrow> (bool \<times> DB) result" where
  "CompleteManagedAttemptCleanup now request db =
     or_fail (ManagedAttemptCleanupRequest_Validate request) (
     let hit = (\<lambda>r. mar_JobID r = cln_JobID request \<and> mar_ClusterAttempt r = cln_ClusterAttempt request \<and> mar_RayJobName r = cln_RayJobName request \<and>
                    mar_RayJobUID r = cln_RayJobUID request \<and> mar_State r \<in> {ManagedAttemptResourceRetiring, ManagedAttemptResourceCleaned}) in
     Inr (count_where hit (db_ledger db) = 1,
          db\<lparr>db_ledger := update_where hit (\<lambda>r. r\<lparr>mar_RayJobUID := [], mar_State := ManagedAttemptResourceCleaned, mar_LeaseOwner := [],
             mar_LeaseExpiresAt := None, mar_CleanupFailures := 0, mar_CleanupLastError := [], mar_NextCheckAt := now + 5 * Minute,
             mar_UpdatedAt := now\<rparr>) (db_ledger db)\<rparr>))"

text \<open>
  The two work lists. \<open>collate\<close> stands for the text order of the database: the rank of a job identifier.
  Nested stable sorts are the \<open>ORDER BY\<close>, last column innermost.
\<close>

definition cleanup_due :: "DB \<Rightarrow> int \<Rightarrow> ManagedAttemptResource \<Rightarrow> bool" where
  "cleanup_due db now r \<longleftrightarrow>
     (case job_at db (mar_JobID r) of
        None \<Rightarrow> False
      | Some job \<Rightarrow>
          (mar_State r = ManagedAttemptResourceRetiring \<and> mar_NextCheckAt r \<le> now) \<or>
          (mar_State r \<in> {ManagedAttemptResourceReserved, ManagedAttemptResourceCreating} \<and> mar_NextCheckAt r \<le> now \<and>
           (mar_ClusterAttempt r < jr_ClusterAttempt job \<or> jr_DesiredState job = DesiredCanceled \<or> jr_ObservedState job \<in> set terminalStates)))"

definition ListManagedAttemptCleanup :: "(string \<Rightarrow> int) \<Rightarrow> int \<Rightarrow> DB \<Rightarrow> int \<Rightarrow> int \<Rightarrow> ManagedAttemptResource list" where
  "ListManagedAttemptCleanup collate clock db limit0 at =
     (let limit = (if limit0 \<le> 0 \<or> limit0 > 500 then 100 else limit0); now = (if at = 0 then clock else at) in
      take (nat limit)
        (sort_key (\<lambda>r. if mar_State r = ManagedAttemptResourceRetiring then 0 else 1 :: int)
        (sort_key mar_NextCheckAt (sort_key mar_UpdatedAt (sort_key (\<lambda>r. collate (mar_JobID r)) (sort_key mar_ClusterAttempt
          (select_where (cleanup_due db now) (db_ledger db))))))))"

definition ListManagedAttemptTombstoneAudit :: "(string \<Rightarrow> int) \<Rightarrow> int \<Rightarrow> DB \<Rightarrow> int \<Rightarrow> int \<Rightarrow> ManagedAttemptResource list" where
  "ListManagedAttemptTombstoneAudit collate clock db limit0 at =
     (let limit = (if limit0 \<le> 0 \<or> limit0 > 100 then 10 else limit0); now = (if at = 0 then clock else at) in
      take (nat limit) (sort_key mar_NextCheckAt (sort_key (\<lambda>r. collate (mar_JobID r)) (sort_key mar_ClusterAttempt
        (select_where (\<lambda>r. mar_State r = ManagedAttemptResourceCleaned \<and> mar_NextCheckAt r \<le> now) (db_ledger db))))))"

function doubled_delay :: "int \<Rightarrow> int \<Rightarrow> int \<Rightarrow> int" where \<comment> \<open>the loop\<close>
  "doubled_delay count failures delay =
     (if count < failures \<and> delay < 5 * Minute then doubled_delay (count + 1) failures (delay * 2) else delay)"
  by pat_completeness auto
termination by (relation "measure (\<lambda>(count, failures, _). nat (failures - count))") auto

declare doubled_delay.simps [simp del]

definition managedCleanupRetryDelay :: "int \<Rightarrow> int" where
  "managedCleanupRetryDelay failures0 =
     (let failures = (if failures0 < 1 then 1 else failures0); delay = doubled_delay 1 failures (5 * Second) in
      if delay > 5 * Minute then 5 * Minute else delay)"

definition RecordManagedAttemptCleanupFailure :: "int \<Rightarrow> ManagedAttemptCleanupFailureRequest \<Rightarrow> DB \<Rightarrow> DB result" where
  "RecordManagedAttemptCleanupFailure clock request db =
     or_fail (ManagedAttemptCleanupFailureRequest_Validate request) (
     let now = (if cf_ObservedAt request = 0 then clock else cf_ObservedAt request);
         message = truncate_runes 4096 (trim_space (cf_Message request)) in
     require (select_first (\<lambda>r. mar_JobID r = cf_JobID request \<and> mar_ClusterAttempt r = cf_ClusterAttempt request \<and>
                mar_RayJobName r = cf_RayJobName request \<and> (cf_RayJobUID request = [] \<or> mar_RayJobUID r = cf_RayJobUID request)) (db_ledger db))
       (Wrapf ''lock managed cleanup failure ledger: %w'' [] record_not_found) (\<lambda>record.
     if mar_State record = ManagedAttemptResourceQuarantined then Inr db
     else
       let failures = mar_CleanupFailures record + 1;
           state = (if cf_Permanent request then ManagedAttemptResourceQuarantined else mar_State record);
           next = (if cf_Permanent request then now + 24 * Hour else now + managedCleanupRetryDelay failures);
           db1 = db\<lparr>db_ledger := update_where (\<lambda>r. mar_JobID r = cf_JobID request \<and> mar_ClusterAttempt r = cf_ClusterAttempt request)
             (\<lambda>r. r\<lparr>mar_State := state, mar_CleanupFailures := failures, mar_CleanupLastError := message, mar_NextCheckAt := next,
                    mar_UpdatedAt := now\<rparr>) (db_ledger db)\<rparr> in
       if state \<noteq> ManagedAttemptResourceQuarantined then Inr db1
       else Inr (insert_outbox_ignore
         (pending_event (cf_JobID request @ ''-attempt-'' @ decimal (cf_ClusterAttempt request) @ ''-quarantine'') ''ManagedAttemptResource''
            (cf_JobID request) ''MANAGED_ATTEMPT_QUARANTINED''
            [(''cluster_attempt'', ArgI (cf_ClusterAttempt request)), (''job_id'', ArgS (cf_JobID request)),
             (''ray_job_name'', ArgS (cf_RayJobName request)), (''ray_job_uid'', ArgS (mar_RayJobUID record)), (''reason'', ArgS message)] now) db1)))"

subsection \<open>Adoption and activation\<close>

definition adopt_tx :: "int \<Rightarrow> ManagedAttemptAdoptionRequest \<Rightarrow> DB \<Rightarrow> ((TrainingJob \<times> bool) \<times> DB) result" where \<comment> \<open>the two updates\<close>
  "adopt_tx now request db =
     (let cas = (\<lambda>r. jr_ID r = adopt_JobID request \<and> jr_TrainingEngine r = TrainingEngineRayTrain \<and> jr_DesiredState r = DesiredActive \<and>
                     jr_ClusterAttempt r = adopt_ExpectedClusterAttempt request \<and> jr_ObservedState r = adopt_ExpectedState request \<and>
                     jr_RayJobName r = adopt_RayJobName request \<and> jr_RayJobUID r = []);
          db1 = db\<lparr>db_jobs := update_where cas (\<lambda>r. r\<lparr>jr_KubernetesNS := adopt_KubernetesNS request, jr_RayJobUID := adopt_RayJobUID request,
                  jr_ResourceVersion := adopt_ResourceVersion request, jr_LastObservedAt := Some now, jr_UpdatedAt := now\<rparr>) (db_jobs db)\<rparr> in
      if count_where cas (db_jobs db) = 0 then reload ''reload stale managed attempt adoption: %w'' (adopt_JobID request) False db1
      else
        let hit = (\<lambda>r. mar_JobID r = adopt_JobID request \<and> mar_ClusterAttempt r = adopt_ExpectedClusterAttempt request \<and>
                       mar_State r = ManagedAttemptResourceCreating \<and> mar_LeaseOwner r = adopt_LeaseOwner request \<and>
                       mar_LeaseVersion r = adopt_LeaseVersion request \<and> mar_RayJobUID r = []) in
        or_fail (check (count_where hit (db_ledger db) = 0) (Errorf ''managed attempt adoption lease was lost'' [])) (
        reload ''reload adopted managed attempt: %w'' (adopt_JobID request) True
          (db1\<lparr>db_ledger := update_where hit (\<lambda>r. r\<lparr>mar_RayJobUID := adopt_RayJobUID request, mar_ResourceFence := adopt_ResourceFence request,
             mar_State := ManagedAttemptResourceActivating, mar_LeaseOwner := [], mar_LeaseExpiresAt := None, mar_UpdatedAt := now\<rparr>)
             (db_ledger db)\<rparr>)))"

definition adoption_stale :: "ManagedAttemptAdoptionRequest \<Rightarrow> TrainingJob \<Rightarrow> bool" where
  "adoption_stale request job \<longleftrightarrow>
     \<not> managed_engine job \<or> job_DesiredState job \<noteq> DesiredActive \<or> job_ClusterAttempt job \<noteq> adopt_ExpectedClusterAttempt request \<or>
     job_ObservedState job \<noteq> adopt_ExpectedState request \<or> job_RayJobName job \<noteq> adopt_RayJobName request \<or> job_RayJobUID job \<noteq> []"

definition adoption_lease_mismatch :: "ManagedAttemptAdoptionRequest \<Rightarrow> ManagedAttemptResource \<Rightarrow> bool" where
  "adoption_lease_mismatch request ledger \<longleftrightarrow>
     mar_KubernetesNS ledger \<noteq> adopt_KubernetesNS request \<or> mar_RayJobName ledger \<noteq> adopt_RayJobName request \<or>
     mar_RayJobUID ledger \<noteq> [] \<or> mar_State ledger \<noteq> ManagedAttemptResourceCreating \<or> mar_LeaseOwner ledger \<noteq> adopt_LeaseOwner request \<or>
     mar_LeaseVersion ledger \<noteq> adopt_LeaseVersion request \<or> adopt_ResourceFence request \<noteq> mar_LeaseVersion ledger"

definition AdoptManagedAttemptIdentity ::
    "int \<Rightarrow> ManagedAttemptAdoptionRequest \<Rightarrow> DB \<Rightarrow> ((TrainingJob \<times> bool) \<times> DB) result" where
  "AdoptManagedAttemptIdentity now request db =
     or_fail (ManagedAttemptAdoptionRequest_Validate request) (
     require (job_at db (adopt_JobID request)) (Errorf ''job not found'' []) (\<lambda>record.
     and_then (toDomain record) (\<lambda>job.
     let row = ledger_at db (adopt_JobID request) (adopt_ExpectedClusterAttempt request);
         issued = managedAttemptFenceIssuedTx db (adopt_JobID request) (adopt_ExpectedClusterAttempt request) (adopt_ResourceFence request) in
     if job_ClusterAttempt job = adopt_ExpectedClusterAttempt request \<and> job_RayJobName job = adopt_RayJobName request \<and>
        job_RayJobUID job = adopt_RayJobUID request
     then require row (Wrapf ''load idempotent managed attempt ledger: %w'' [] record_not_found) (\<lambda>ledger.
       Inr ((job, mar_RayJobName ledger = adopt_RayJobName request \<and> mar_RayJobUID ledger = adopt_RayJobUID request \<and>
                  mar_ResourceFence ledger = adopt_ResourceFence request \<and> issued \<and>
                  mar_State ledger \<in> {ManagedAttemptResourceActivating, ManagedAttemptResourceActive, ManagedAttemptResourceRetiring}), db))
     else if adoption_stale request job then Inr ((job, False), db)
     else require row (Errorf ''managed attempt adoption ledger not found'' []) (\<lambda>ledger.
       if adoption_lease_mismatch request ledger then Inr ((job, False), db)
       else if \<not> issued then Inr ((job, False), db)
       else adopt_tx now request db))))"

definition AuthorizeManagedAttemptActivation ::
    "ManagedAttemptActivationRequest \<Rightarrow> DB \<Rightarrow> (TrainingJob \<times> ManagedAttemptResource \<times> bool) result" where \<comment> \<open>reads only\<close>
  "AuthorizeManagedAttemptActivation request db =
     or_fail (ManagedAttemptActivationRequest_Validate request) (
     require (job_at db (act_JobID request)) (Wrapf ''lock managed activation job: %w'' [] record_not_found) (\<lambda>jobRecord.
     and_then (toDomain jobRecord) (\<lambda>job.
     require (ledger_at db (act_JobID request) (act_ExpectedClusterAttempt request))
       (Wrapf ''lock managed activation ledger: %w'' [] record_not_found) (\<lambda>ledger.
     Inr (job, ledger,
       managed_engine job \<and> job_DesiredState job = DesiredActive \<and> job_ClusterAttempt job = act_ExpectedClusterAttempt request \<and>
       job_RayJobName job = act_RayJobName request \<and> job_RayJobUID job = act_RayJobUID request \<and>
       mar_RayJobName ledger = act_RayJobName request \<and> mar_RayJobUID ledger = act_RayJobUID request \<and>
       mar_ResourceFence ledger = act_ResourceFence request \<and>
       managedAttemptFenceIssuedTx db (act_JobID request) (act_ExpectedClusterAttempt request) (act_ResourceFence request) \<and>
       mar_State ledger \<in> {ManagedAttemptResourceActivating, ManagedAttemptResourceActive})))))"

definition ConfirmManagedAttemptActivation ::
    "int \<Rightarrow> ManagedAttemptActivationRequest \<Rightarrow> DB \<Rightarrow> ((TrainingJob \<times> bool) \<times> DB) result" where
  "ConfirmManagedAttemptActivation now request db =
     or_fail (ManagedAttemptActivationRequest_Validate request) (
     require (job_at db (act_JobID request)) (Wrapf ''lock managed activation confirmation job: %w'' [] record_not_found) (\<lambda>jobRecord.
     and_then (toDomain jobRecord) (\<lambda>job.
     if \<not> managed_engine job \<or> job_DesiredState job \<noteq> DesiredActive \<or> job_ClusterAttempt job \<noteq> act_ExpectedClusterAttempt request \<or>
        job_RayJobName job \<noteq> act_RayJobName request \<or> job_RayJobUID job \<noteq> act_RayJobUID request
     then Inr ((job, False), db)
     else require (ledger_at db (act_JobID request) (act_ExpectedClusterAttempt request))
       (Wrapf ''lock managed activation confirmation ledger: %w'' [] record_not_found) (\<lambda>ledger.
     if mar_RayJobName ledger \<noteq> act_RayJobName request \<or> mar_RayJobUID ledger \<noteq> act_RayJobUID request \<or>
        mar_ResourceFence ledger \<noteq> act_ResourceFence request
     then Inr ((job, False), db)
     else if \<not> managedAttemptFenceIssuedTx db (act_JobID request) (act_ExpectedClusterAttempt request) (act_ResourceFence request)
     then Inr ((job, False), db)
     else if mar_State ledger = ManagedAttemptResourceActive then Inr ((job, True), db)
     else if mar_State ledger \<noteq> ManagedAttemptResourceActivating then Inr ((job, False), db)
     else
       let hit = (\<lambda>r. mar_JobID r = act_JobID request \<and> mar_ClusterAttempt r = act_ExpectedClusterAttempt request \<and>
                      mar_State r = ManagedAttemptResourceActivating \<and> mar_RayJobName r = act_RayJobName request \<and>
                      mar_RayJobUID r = act_RayJobUID request \<and> mar_ResourceFence r = act_ResourceFence request) in
       Inr ((job, count_where hit (db_ledger db) = 1),
            db\<lparr>db_ledger := update_where hit (\<lambda>r. r\<lparr>mar_State := ManagedAttemptResourceActive, mar_UpdatedAt := now\<rparr>) (db_ledger db)\<rparr>)))))"

subsection \<open>Recovery\<close>

text \<open>
  \<open>ManagedCheckpointRetentionLimit\<close> of \<open>backend/domain/training_engine.go\<close> bounds the checkpoints
  that are looked at.
\<close>

definition latestUsableRecoveryCheckpoint :: "DB \<Rightarrow> JobRecord \<Rightarrow> TrainingCheckpoint option" where
  "latestUsableRecoveryCheckpoint db job =
     (let records = take (nat (ManagedCheckpointRetentionLimit * 2))
            (sort_key (\<lambda>c. - ckpt_Epoch c) (sort_key (\<lambda>c. - ckpt_Step c) (sort_key (\<lambda>c. - ckpt_CreatedAt c)
              (select_where (\<lambda>c. ckpt_JobID c = jr_ID job \<and> ckpt_TenantID c = jr_TenantID job \<and> ckpt_UserID c = jr_UserID job \<and> ckpt_Complete c)
                (db_checkpoints db)))));
          root = Join [DataMountOutputPath, ''.platform'', ''ray-train'', jr_ID job, ''checkpoints''] in
      find (\<lambda>c. TrainingCheckpoint_Validate c = None \<and> ckpt_ObjectPath c = Join [root, ckpt_ID c]) records)"

definition recoverable_output :: "TrainingJob \<Rightarrow> bool" where \<comment> \<open>the writable platform output mount\<close>
  "recoverable_output job \<longleftrightarrow>
     (let mounts = spec_ResolvedDataMounts (job_Spec job) in
      case rdms_Output mounts of
        None \<Rightarrow> False
      | Some out \<Rightarrow> rdm_MountPath out = DataMountOutputPath \<and> \<not> rdm_ReadOnly out \<and> ResolvedDataSpaceMounts_Validate mounts = None)"

definition recovery_refused :: "ManagedRecoveryRequest \<Rightarrow> TrainingJob \<Rightarrow> bool" where
  "recovery_refused request job \<longleftrightarrow>
     job_DesiredState job \<noteq> DesiredActive \<or> \<not> managed_engine job \<or> job_ClusterAttempt job \<noteq> rec_ExpectedClusterAttempt request \<or>
     job_RayJobName job \<noteq> rec_ExpectedRayJobName request \<or> job_RayJobUID job \<noteq> rec_ExpectedRayJobUID request \<or>
     (job_ObservedState job \<noteq> StateRunning \<and> job_ObservedState job \<noteq> StateRecovering) \<or>
     job_ClusterAttempt job > mtp_MaxFailures (spec_Managed (job_Spec job))"

definition advance_attempt :: "int \<Rightarrow> ManagedRecoveryRequest \<Rightarrow> TrainingCheckpoint \<Rightarrow> DB \<Rightarrow> ((TrainingJob \<times> bool) \<times> DB) result" where
  "advance_attempt now request checkpoint db1 =
     (let cas = (\<lambda>r. jr_ID r = rec_JobID request \<and> jr_ClusterAttempt r = rec_ExpectedClusterAttempt request \<and>
                     jr_DesiredState r = DesiredActive \<and> jr_TrainingEngine r = TrainingEngineRayTrain \<and>
                     jr_RayJobName r = rec_ExpectedRayJobName request \<and> jr_RayJobUID r = rec_ExpectedRayJobUID request \<and>
                     jr_ObservedState r \<in> {StateRunning, StateRecovering});
          db2 = db1\<lparr>db_jobs := update_where cas (\<lambda>r. r\<lparr>jr_ObservedState := StateRecovering,
                  jr_StatusReason := trim_space (rec_FailureClass request), jr_StatusMessage := rec_FailureMessage request,
                  jr_ClusterAttempt := rec_ExpectedClusterAttempt request + 1, jr_ResumeCheckpointID := ckpt_ID checkpoint,
                  jr_LastObservedAt := Some now, jr_UpdatedAt := now\<rparr>) (db_jobs db1)\<rparr> in
      if count_where cas (db_jobs db1) = 0 then reload ''reload stale managed recovery job: %w'' (rec_JobID request) False db2
      else reload ''reload recovered managed job: %w'' (rec_JobID request) True db2)"

definition BeginManagedRecovery ::
    "int \<Rightarrow> ManagedRecoveryRequest \<Rightarrow> DB \<Rightarrow> ((TrainingJob \<times> bool) \<times> DB) result" where
  "BeginManagedRecovery now request db =
     or_fail (ManagedRecoveryRequest_Validate request) (
     require (job_at db (rec_JobID request)) (Errorf ''job not found'' []) (\<lambda>record.
     and_then (toDomain record) (\<lambda>job.
     if recovery_refused request job then Inr ((job, False), db)
     else if \<not> recoverable_output job then Inr ((job, False), db)
     else case latestUsableRecoveryCheckpoint db record of
       None \<Rightarrow> Inr ((job, False), db)
     | Some checkpoint \<Rightarrow>
         let namespace = first_nonempty (trim_space (job_KubernetesNS job)) (''tenant-'' @ job_TenantID job) in
         case retireManagedAttemptResourceTx \<lparr>ret_JobID = job_ID job, ret_ClusterAttempt = job_ClusterAttempt job, ret_KubernetesNS = namespace,
                ret_RayJobName = job_RayJobName job, ret_RayJobUID = job_RayJobUID job\<rparr> now db of
           Inl e \<Rightarrow> Inl (Wrapf ''persist recovery retirement intent: %w'' [] e)
         | Inr (_, db1) \<Rightarrow> advance_attempt now request checkpoint db1)))"

definition ClearManagedRecoveryRetiringIdentity ::
    "int \<Rightarrow> ManagedRetiringIdentityRequest \<Rightarrow> DB \<Rightarrow> ((TrainingJob \<times> bool) \<times> DB) result" where
  "ClearManagedRecoveryRetiringIdentity now request db =
     or_fail (ManagedRetiringIdentityRequest_Validate request) (
     require (job_at db (rid_JobID request)) (Errorf ''job not found'' []) (\<lambda>record.
     and_then (toDomain record) (\<lambda>job.
     if job_DesiredState job \<noteq> DesiredActive \<or> job_ObservedState job \<noteq> StateRecovering \<or>
        job_ClusterAttempt job \<noteq> rid_ExpectedClusterAttempt request \<or> job_RayJobName job \<noteq> rid_RayJobName request \<or>
        job_RayJobUID job \<noteq> rid_RayJobUID request
     then Inr ((job, False), db)
     else
       let pendingCleanup = count_where (\<lambda>r. mar_JobID r = rid_JobID request \<and> mar_RayJobName r = rid_RayJobName request \<and>
             mar_RayJobUID r = rid_RayJobUID request \<and> mar_State r = ManagedAttemptResourceRetiring) (db_ledger db) in
       if pendingCleanup \<noteq> 0 then Inr ((job, False), db)
       else
         let cas = (\<lambda>r. jr_ID r = rid_JobID request \<and> jr_DesiredState r = DesiredActive \<and> jr_ObservedState r = StateRecovering \<and>
                        jr_ClusterAttempt r = rid_ExpectedClusterAttempt request \<and> jr_RayJobName r = rid_RayJobName request \<and>
                        jr_RayJobUID r = rid_RayJobUID request);
             db1 = db\<lparr>db_jobs := update_where cas (\<lambda>r. r\<lparr>jr_RayJobName := [], jr_RayJobUID := [], jr_RayClusterName := [],
                     jr_ResourceVersion := [], jr_LastObservedAt := Some now, jr_UpdatedAt := now\<rparr>) (db_jobs db)\<rparr> in
         if count_where cas (db_jobs db) = 0 then reload ''reload stale managed retiring identity: %w'' (rid_JobID request) False db1
         else reload ''reload cleared managed retiring identity: %w'' (rid_JobID request) True db1)))"

end
