(* ===== verification/Kube_Names.thy ===== *)
theory Kube_Names
  imports Attempt_Store
begin

section \<open>Names, commands and status of a RayJob\<close>

text \<open>
  The pure functions of \<open>backend/k8s/rayjob.go\<close> that the reconciler relies on: DNS names derived
  from platform identifiers, the name of an attempt's RayJob, the command line handed to KubeRay, the
  checkpoint path of a recovery, and the observed state that a RayJob status means.
\<close>

subsection \<open>DNS names\<close>

definition dns_char :: "char \<Rightarrow> bool" where
  "dns_char c \<longleftrightarrow> c \<in> set lower_letters \<or> c \<in> set ''0123456789'' \<or> c = CHR ''-''"

definition isDNSLabel :: "string \<Rightarrow> bool" where
  "isDNSLabel v \<longleftrightarrow> v \<noteq> [] \<and> length v \<le> 63 \<and> list_all dns_char v \<and> hd v \<noteq> CHR ''-'' \<and> last v \<noteq> CHR ''-''"

definition isDNSSubdomain :: "string \<Rightarrow> bool" where
  "isDNSSubdomain v \<longleftrightarrow> v \<noteq> [] \<and> length v \<le> 253 \<and> list_all isDNSLabel (split CHR ''.'' v)"

definition trim_dashes :: "string \<Rightarrow> string" where \<comment> \<open>\<open>strings.Trim(s, "-")\<close>\<close>
  "trim_dashes s = rev (dropWhile (\<lambda>c. c = CHR ''-'') (rev (dropWhile (\<lambda>c. c = CHR ''-'') s)))"

definition dns_rune :: "string \<Rightarrow> char" where \<comment> \<open>the loop body, on one rune\<close>
  "dns_rune r = (case r of [c] \<Rightarrow> if dns_char c then c else CHR ''-'' | _ \<Rightarrow> CHR ''-'')"

definition sanitizeDNS :: "string \<Rightarrow> string" where
  "sanitizeDNS v =
     (let result = trim_dashes (map dns_rune (runes (to_lower (trim_space v)))) in
      if result = [] then ''default'' else if length result > 50 then take 50 result else result)"

definition managedAttemptRayJobName :: "TrainingJob \<Rightarrow> string" where
  "managedAttemptRayJobName job =
     (if TrainingEngine_Resolved (spec_TrainingEngine (job_Spec job)) = TrainingEngineRayTrain \<and> job_ClusterAttempt job > 1 then
        let suffix = ''-a'' @ decimal (job_ClusterAttempt job); base = sanitizeDNS (job_ID job); maximum = 63 - int (length suffix);
            base = (if int (length base) > maximum then trim_dashes (take (nat maximum) base) else base);
            base = (if base = [] then ''job'' else base)
        in base @ suffix
      else sanitizeDNS (job_ID job))"

definition rayJobResourceName :: "TrainingJob \<Rightarrow> string" where
  "rayJobResourceName job =
     (let persisted = trim_space (job_RayJobName job) in if persisted \<noteq> [] then persisted else managedAttemptRayJobName job)"

definition managedJobNamespace :: "TrainingJob \<Rightarrow> string" where \<comment> \<open>\<open>backend/k8s/reconciler.go\<close>\<close>
  "managedJobNamespace job =
     (let namespace = trim_space (job_KubernetesNS job) in
      if namespace \<noteq> [] then namespace else ''tenant-'' @ sanitizeDNS (job_TenantID job))"

subsection \<open>The command line\<close>

definition shell_safe :: "char \<Rightarrow> bool" where
  "shell_safe c \<longleftrightarrow> c \<in> set lower_letters \<or> c \<in> set upper_letters \<or> c \<in> set ''0123456789'' \<or> c \<in> set ''_./:@%+=,-''"

abbreviation squote :: char where "squote \<equiv> CHR 0x27"
abbreviation dquote :: char where "dquote \<equiv> CHR 0x22"

definition escape_quotes :: "string \<Rightarrow> string" where \<comment> \<open>the \<open>ReplaceAll\<close>\<close>
  "escape_quotes v = concat (map (\<lambda>c. if c = squote then [squote, dquote, squote, dquote, squote] else [c]) v)"

definition shellQuote :: "string \<Rightarrow> string" where
  "shellQuote v = (if v \<noteq> [] \<and> list_all shell_safe v then v else [squote] @ escape_quotes v @ [squote])"

definition shellJoin :: "string list \<Rightarrow> string" where
  "shellJoin parts = join '' '' (map shellQuote parts)"

definition effectiveWorkerCPU :: "Resources \<Rightarrow> string" where
  "effectiveWorkerCPU r = (if res_CPUPerWorker r \<le> 0 then ''8'' else decimal (res_CPUPerWorker r))"

definition resolvedRayVersion :: "JobSpec \<Rightarrow> string \<Rightarrow> string" where \<comment> \<open>the second argument is \<open>options.RayVersion\<close>\<close>
  "resolvedRayVersion spec configured =
     (if trim_space (spec_RayVersion spec) \<noteq> [] then trim_space (spec_RayVersion spec)
      else if trim_space (spec_TrainingEngine spec) = [] \<and> trim_space configured \<noteq> [] then trim_space configured
      else RayVersionLegacy)"

definition executionProfileEntrypoint :: "JobSpec \<Rightarrow> string list" where
  "executionProfileEntrypoint spec =
     (let command = ep_Command (spec_Entrypoint spec) @ ep_Args (spec_Entrypoint spec); mode = ResolvedMode (spec_Execution spec) in
      if mode = ExecutionModeLegacy then command
      else [''raytrain-launch'', ''--mode'', mode, ''--workers'', decimal (res_WorkerReplicas (spec_Resources spec)),
            ''--gpus-per-worker'', decimal (res_GPUsPerWorker (spec_Resources spec)), ''--''] @ command)"

text \<open>\<open>guard\<close> is the script \<open>streamingSiteRuntimeGuard\<close>.\<close>

definition trainingEntrypoint :: "string \<Rightarrow> JobSpec \<Rightarrow> string list" where
  "trainingEntrypoint guard spec =
     (if TrainingEngine_Resolved (spec_TrainingEngine spec) \<noteq> TrainingEngineRayTrain then executionProfileEntrypoint spec
      else
        let command = ep_Command (spec_Entrypoint spec) @ ep_Args (spec_Entrypoint spec);
            runtime = (spec_EvaluationRuntime spec \<noteq> None \<or> spec_ServingRuntime spec \<noteq> None);
            policy = spec_Managed spec;
            launcher =
              [''raytrain-managed'', ''--nodes'', decimal (res_WorkerReplicas (spec_Resources spec)),
               ''--gpus-per-node'', decimal (res_GPUsPerWorker (spec_Resources spec)),
               ''--cpus-per-node'', effectiveWorkerCPU (spec_Resources spec),
               ''--max-failures'', decimal (mtp_MaxFailures policy),
               ''--checkpoint-every-epochs'', decimal (cp_EveryEpochs (mtp_Checkpoint policy)),
               ''--checkpoint-keep-latest'', decimal (cp_KeepLatest (mtp_Checkpoint policy)),
               ''--checkpoint-keep-best'', decimal (cp_KeepBest (mtp_Checkpoint policy))] @
              (if runtime then [''--data-mode'', ''mount'']
               else if spec_DataMode spec \<noteq> [] then [''--data-mode'', spec_DataMode spec] else []) @
              (if \<not> runtime \<and> (spec_DataMode spec = DataModeRayData \<or> spec_DataMode spec = DataModeRayDataStage)
               then [''--dataset-format'', rd_format (mtp_RayData policy), ''--dataset-uri'', rd_uri (mtp_RayData policy)] else []) @
              [''--''] @ command
        in if \<not> runtime \<and> spec_DataMode spec = DataModeStreaming \<and> ref_Sites (spec_DatasetRef spec) \<noteq> []
           then [''python'', ''-I'', ''-c'', guard] @ launcher else launcher)"

subsection \<open>Recovery and clean-up parameters\<close>

definition checkpoint_char :: "char \<Rightarrow> bool" where
  "checkpoint_char c \<longleftrightarrow> c \<in> set lower_letters \<or> c \<in> set upper_letters \<or> c \<in> set ''0123456789''"

definition safe_checkpoint_id :: "string \<Rightarrow> bool" where \<comment> \<open>the loop over the characters\<close>
  "safe_checkpoint_id v \<longleftrightarrow>
     (case v of [] \<Rightarrow> True | c # cs \<Rightarrow> checkpoint_char c \<and> list_all (\<lambda>d. checkpoint_char d \<or> d \<in> set ''._-'') cs)"

definition Base :: "string \<Rightarrow> string" where \<comment> \<open>\<open>path.Base\<close>\<close>
  "Base p =
     (if p = [] then ''.''
      else let stripped = rev (dropWhile (\<lambda>c. c = slash) (rev p)); element = rev (takeWhile (\<lambda>c. c \<noteq> slash) (rev stripped)) in
        if element = [] then ''/'' else element)"

definition TrainingCheckpointIDMaxBytes :: nat where [go_consts]: "TrainingCheckpointIDMaxBytes = 128"

definition managedRecoveryCheckpointPath :: "TrainingJob \<Rightarrow> string result" where
  "managedRecoveryCheckpointPath job =
     (let checkpointID = trim_space (job_ResumeCheckpointID job); mounts = spec_ResolvedDataMounts (job_Spec job) in
      if checkpointID = [] then Inr []
      else if length checkpointID > TrainingCheckpointIDMaxBytes \<or> Base checkpointID \<noteq> checkpointID then Inl (Errorf ''checkpoint ID is not a safe path segment'' [])
      else if \<not> safe_checkpoint_id checkpointID then Inl (Errorf ''checkpoint ID is not a safe identifier'' [])
      else if job_ClusterAttempt job = 1 then
        if blank (spec_ParentJobID (job_Spec job)) then Inl (Errorf ''initial resume checkpoint requires a parent job'' [])
        else (case rdms_Checkpoint mounts of
            Some m \<Rightarrow> if rdm_MountPath m \<noteq> DataMountCheckpointPath \<or> \<not> rdm_ReadOnly m
              then Inl (Errorf ''child resume requires the governed read-only checkpoint mount'' []) else Inr []
          | None \<Rightarrow> Inl (Errorf ''child resume requires the governed read-only checkpoint mount'' []))
      else if job_ClusterAttempt job \<le> 1 then Inl (Errorf ''resume checkpoint requires an initial child or recovery attempt'' [])
      else (case rdms_Output mounts of
          Some m \<Rightarrow> if rdm_MountPath m \<noteq> DataMountOutputPath \<or> rdm_ReadOnly m
            then Inl (Errorf ''recovery requires the governed writable output mount'' [])
            else Inr (Join [DataMountOutputPath, ''.platform'', ''ray-train'', job_ID job, ''checkpoints'', checkpointID])
        | None \<Rightarrow> Inl (Errorf ''recovery requires the governed writable output mount'' [])))"

definition defaultSuccessCleanupTTLSeconds :: int where [go_consts]: "defaultSuccessCleanupTTLSeconds = 60"
definition defaultFailureCleanupTTLSeconds :: int where [go_consts]: "defaultFailureCleanupTTLSeconds = 600"

definition successCleanupTTL :: "TrainingJob \<Rightarrow> int" where
  "successCleanupTTL job = (let ttl = clean_SuccessTTLSeconds (spec_CleanupPolicy (job_Spec job)) in
     if ttl \<le> 0 then defaultSuccessCleanupTTLSeconds else ttl)"

definition failureCleanupTTL :: "TrainingJob \<Rightarrow> int" where
  "failureCleanupTTL job = (let ttl = clean_FailureTTLSeconds (spec_CleanupPolicy (job_Spec job)) in
     if ttl \<le> 0 then defaultFailureCleanupTTLSeconds else ttl)"

subsection \<open>Status\<close>

text \<open>
  A field of the status map: a string, or another value with the text \<open>fmt.Sprint\<close> gives for it.
  \<open>rfc3339\<close> is \<open>time.Parse(time.RFC3339, _)\<close> in UTC.
\<close>

datatype field_value = FieldString string | FieldOther string

type_synonym status_map = "(string \<times> field_value) list"

fun field_text :: "field_value \<Rightarrow> string" where
  "field_text (FieldString s) = s"
| "field_text (FieldOther s) = s"

definition stringValue :: "status_map \<Rightarrow> string \<Rightarrow> string" where
  "stringValue object field = (case map_of object field of None \<Rightarrow> [] | Some v \<Rightarrow> field_text v)"

definition parseRayJobTime :: "(string \<Rightarrow> int option) \<Rightarrow> status_map \<Rightarrow> string \<Rightarrow> int option" where
  "parseRayJobTime rfc3339 status field =
     (case map_of status field of Some (FieldString text) \<Rightarrow> if blank text then None else rfc3339 (trim_space text) | _ \<Rightarrow> None)"

definition ray_state :: "string \<Rightarrow> State" where \<comment> \<open>the \<open>switch\<close>\<close>
  "ray_state jobStatus =
     (if jobStatus = [] then StateQueued
      else if jobStatus \<in> {''RUNNING'', ''STARTED''} then StateRunning
      else if jobStatus \<in> {''SUCCEEDED'', ''SUCCESS'', ''COMPLETED''} then StateSucceeded
      else if jobStatus \<in> {''FAILED'', ''ERROR''} then StateFailed
      else if jobStatus \<in> {''STOPPED'', ''CANCELED'', ''CANCELLED''} then StateCanceled
      else if jobStatus \<in> {''PENDING'', ''WAITING''} then StateQueued
      else if jobStatus = ''SUSPENDED'' then StateQueued
      else if jobStatus \<in> {''PROVISIONING'', ''DEPLOYING'', ''INITIALIZING''} then StateProvisioning
      else StateUnknown)"

definition MapRayJobStatus :: "(string \<Rightarrow> int option) \<Rightarrow> string \<Rightarrow> status_map \<Rightarrow> string \<Rightarrow> ObservedJobState" where
  "MapRayJobStatus rfc3339 jobId status resourceVersion =
     (let raw = to_upper (stringValue status ''jobStatus'');
          jobStatus = (if raw = [] then to_upper (stringValue status ''jobDeploymentStatus'') else raw);
          message = first_nonempty (stringValue status ''message'')
            (first_nonempty (stringValue status ''jobStatus'') (stringValue status ''jobDeploymentStatus'')) in
      \<lparr>obs_JobID = jobId, obs_State = ray_state jobStatus, obs_Reason = stringValue status ''reason'', obs_Message = message,
       obs_KubernetesNS = [], obs_RayJobName = [], obs_RayJobUID = stringValue status ''rayJobUID'',
       obs_RayClusterName = stringValue status ''rayClusterName'', obs_ResourceVersion = resourceVersion,
       obs_ExpectedClusterAttempt = 0, obs_ExpectedRayJobName = [], obs_ExpectedRayJobUID = [],
       obs_StartedAt = parseRayJobTime rfc3339 status ''startTime'', obs_FinishedAt = parseRayJobTime rfc3339 status ''endTime''\<rparr>)"

subsection \<open>Sanitized names\<close>

lemma trim_dashes_chars: "list_all P s \<Longrightarrow> list_all P (trim_dashes s)"
  by (auto simp: trim_dashes_def list_all_iff dest!: set_dropWhileD)

lemma dropWhile_hd: "dropWhile P s \<noteq> [] \<Longrightarrow> \<not> P (hd (dropWhile P s))"
  by (induction s) auto

lemma trim_dashes_ends:
  assumes "trim_dashes s \<noteq> []"
  shows "hd (trim_dashes s) \<noteq> CHR ''-'' \<and> last (trim_dashes s) \<noteq> CHR ''-''"
proof -
  let ?p = "\<lambda>c. c = CHR ''-''" and ?t = "dropWhile (\<lambda>c. c = CHR ''-'') s"
  have u: "dropWhile ?p (rev ?t) \<noteq> []" using assms by (simp add: trim_dashes_def)
  then have "last (trim_dashes s) \<noteq> CHR ''-''" using dropWhile_hd [OF u] by (simp add: trim_dashes_def last_rev)
  moreover obtain v where v: "rev ?t = v @ dropWhile ?p (rev ?t)" by (metis takeWhile_dropWhile_id)
  then have t: "?t = trim_dashes s @ rev v" by (metis rev_append rev_rev_ident trim_dashes_def)
  then have "hd (trim_dashes s) = hd ?t" using assms by simp
  then have "hd (trim_dashes s) \<noteq> CHR ''-''" using dropWhile_hd [of ?p s] t assms by simp
  ultimately show ?thesis by simp
qed

lemma trim_dashes_id: "s \<noteq> [] \<Longrightarrow> hd s \<noteq> CHR ''-'' \<Longrightarrow> last s \<noteq> CHR ''-'' \<Longrightarrow> trim_dashes s = s"
proof -
  assume s: "s \<noteq> []" "hd s \<noteq> CHR ''-''" "last s \<noteq> CHR ''-''"
  then obtain c t where "s = c # t" "c \<noteq> CHR ''-''" by (cases s) auto
  then have "dropWhile (\<lambda>c. c = CHR ''-'') s = s" by simp
  moreover obtain d u where "rev s = d # u" "d \<noteq> CHR ''-''" using s by (cases "rev s") (auto simp: last_rev [symmetric, of "rev s"])
  ultimately show ?thesis by (simp add: trim_dashes_def)
qed

lemma dns_rune_char: "dns_char (dns_rune r)"
  by (auto simp: dns_rune_def dns_char_def split: list.splits)

lemma sanitizeDNS_shape:
  "sanitizeDNS v \<noteq> [] \<and> length (sanitizeDNS v) \<le> 50 \<and> list_all dns_char (sanitizeDNS v) \<and> hd (sanitizeDNS v) \<noteq> CHR ''-'' \<and>
   (last (sanitizeDNS v) \<noteq> CHR ''-'' \<or> length (sanitizeDNS v) = 50)"
proof -
  define r where "r = trim_dashes (map dns_rune (runes (to_lower (trim_space v))))"
  have chars: "list_all dns_char r" unfolding r_def by (rule trim_dashes_chars) (simp add: list_all_iff dns_rune_char)
  have ends: "r \<noteq> [] \<Longrightarrow> hd r \<noteq> CHR ''-'' \<and> last r \<noteq> CHR ''-''" unfolding r_def by (rule trim_dashes_ends)
  have eq: "sanitizeDNS v = (if r = [] then ''default'' else if length r > 50 then take 50 r else r)" by (simp add: sanitizeDNS_def r_def Let_def)
  consider "r = []" | "r \<noteq> []" "length r > 50" | "r \<noteq> []" "length r \<le> 50" by linarith
  then show ?thesis
  proof cases
    case 2
    then have "list_all dns_char (take 50 r)" using chars by (auto simp: list_all_iff dest: in_set_takeD)
    then show ?thesis using 2 ends eq by (simp add: hd_take)
  next
    case 3
    then show ?thesis using chars ends eq by simp
  qed (simp add: eq dns_char_def)
qed

text \<open>A DNS label of at most 50 bytes is its own sanitized form.\<close>

lemma dns_char_plain: "dns_char c \<Longrightarrow> byte_in 0 127 c \<and> lower_char c = c \<and> c \<notin> {CHR 0xC4, CHR 0xE2} \<and> c \<notin> set (concat space_encodings)"
proof -
  assume "dns_char c"
  then have "c \<in> set (lower_letters @ ''0123456789-'')" unfolding dns_char_def by auto
  moreover have "list_all (\<lambda>c. byte_in 0 127 c \<and> lower_char c = c \<and> c \<notin> {CHR 0xC4, CHR 0xE2} \<and> c \<notin> set (concat space_encodings))
      (lower_letters @ ''0123456789-'')" by code_simp
  ultimately show ?thesis unfolding list_all_iff by blast
qed

lemma to_lower_dns: "list_all dns_char s \<Longrightarrow> to_lower s = s"
proof (induction s)
  case (Cons c s)
  then show ?case using dns_char_plain [of c] by simp
qed simp

lemma strip_none: "\<forall>e \<in> set encs. e = [] \<or> \<not> has_prefix s e \<Longrightarrow> strip encs s = s"
  by (subst strip.simps) (auto simp: find_None_iff split: option.splits dest!: find_Some_in)

lemma trim_space_dns:
  assumes "list_all dns_char s"
  shows "trim_space s = s"
proof -
  have no: "\<not> has_prefix t e" if "list_all dns_char t" "e \<in> set space_encodings \<union> set rev_space_encodings" for t e
  proof
    assume "has_prefix t e"
    then obtain u where t: "t = e @ u" by (auto simp: has_prefix_iff)
    have "e \<noteq> [] \<and> set e \<subseteq> set (concat space_encodings)" using that(2)
      by (auto simp: rev_space_encodings_def space_encodings_def)
    moreover have "dns_char (hd e)" using that(1) t calculation by (cases e) auto
    moreover have "hd e \<in> set e" using calculation(1) by (cases e) auto
    ultimately show False using dns_char_plain [of "hd e"] by blast
  qed
  have "trim_left s = s" unfolding trim_left_def by (rule strip_none) (use no [OF assms] in auto)
  moreover have "strip rev_space_encodings (rev s) = rev s" by (rule strip_none) (use no [of "rev s"] assms in \<open>auto simp: list_all_iff\<close>)
  ultimately show ?thesis by (simp add: trim_space_def trim_right_def)
qed

lemma sanitizeDNS_id:
  assumes "isDNSLabel v" "length v \<le> 50"
  shows "sanitizeDNS v = v"
proof -
  have all: "list_all dns_char v" using assms(1) by (simp add: isDNSLabel_def)
  have "list_all (byte_in 0 127) v" using all dns_char_plain by (auto simp: list_all_iff)
  then have "map dns_rune (runes v) = v" using all by (simp add: runes_ascii list_all_iff dns_rune_def map_idI)
  then show ?thesis using assms trim_space_dns [OF all] to_lower_dns [OF all]
    by (simp add: sanitizeDNS_def Let_def isDNSLabel_def trim_dashes_id)
qed

lemma decimal_nat_dns: "list_all dns_char (decimal_nat n) \<and> decimal_nat n \<noteq> [] \<and> last (decimal_nat n) \<noteq> CHR ''-''"
proof (induction n rule: decimal_nat.induct)
  case (1 n)
  have digit: "dns_char (''0123456789'' ! k) \<and> ''0123456789'' ! k \<noteq> CHR ''-''" if "k < 10" for k
  proof -
    have "''0123456789'' ! k \<in> set ''0123456789''" using that by (intro nth_mem) simp
    then show ?thesis by (auto simp: dns_char_def)
  qed
  have step: "decimal_nat n = (if n < 10 then [''0123456789'' ! n] else decimal_nat (n div 10) @ [''0123456789'' ! (n mod 10)])"
    by (rule decimal_nat.simps)
  show ?case
  proof (cases "n < 10")
    case True
    then have "decimal_nat n = [''0123456789'' ! n]" unfolding step by (rule if_P)
    then show ?thesis using digit [OF True] by (simp del: nth_Cons_0)
  next
    case False
    then have "decimal_nat n = decimal_nat (n div 10) @ [''0123456789'' ! (n mod 10)]" unfolding step by (rule if_not_P)
    then show ?thesis using digit [of "n mod 10"] 1 [OF False] by simp
  qed
qed

lemma decimal_nat_step: "\<not> n < 10 \<Longrightarrow> decimal_nat n = decimal_nat (n div 10) @ [''0123456789'' ! (n mod 10)]"
  by (subst decimal_nat.simps) (rule if_not_P)

lemma decimal_nat_one: "n < 10 \<Longrightarrow> decimal_nat n = [''0123456789'' ! n]"
  by (subst decimal_nat.simps) (rule if_P)

lemma decimal_nat_length: "n < 10 ^ k \<Longrightarrow> 0 < k \<Longrightarrow> length (decimal_nat n) \<le> k"
proof (induction k arbitrary: n)
  case (Suc k)
  show ?case
  proof (cases "n < 10")
    case False
    then have "0 < k" using Suc.prems(1) by (cases k) auto
    moreover have "n div 10 < 10 ^ k" using Suc.prems(1) by (simp add: less_mult_imp_div_less mult.commute)
    ultimately show ?thesis using Suc.IH decimal_nat_step [OF False] by simp
  qed (simp add: decimal_nat_one del: nth_Cons_0)
qed simp

definition digit_value :: "char \<Rightarrow> nat" where
  "digit_value c = of_char c - 48"

lemma digit_value: "n < 10 \<Longrightarrow> digit_value (''0123456789'' ! n) = n"
proof -
  assume "n < 10"
  then have "n \<in> {0, 1, 2, 3, 4, 5, 6, 7, 8, 9}" by auto
  then show ?thesis by (auto simp: digit_value_def)
qed

lemma decimal_nat_value: "foldl (\<lambda>v c. 10 * v + digit_value c) 0 (decimal_nat n) = n"
proof (induction n rule: decimal_nat.induct)
  case (1 n)
  show ?case
  proof (cases "n < 10")
    case True
    then show ?thesis using digit_value by (simp add: decimal_nat_one del: nth_Cons_0)
  next
    case False
    then show ?thesis using 1 digit_value [of "n mod 10"] by (simp add: decimal_nat_step)
  qed
qed

lemma decimal_inj: "0 \<le> a \<Longrightarrow> 0 \<le> b \<Longrightarrow> decimal a = decimal b \<Longrightarrow> a = b"
  unfolding decimal_def using decimal_nat_value by (metis int_nat_eq not_less)

lemma deterministic_inj:
  assumes "deterministicAttemptRayJobName j a = deterministicAttemptRayJobName j b" "1 \<le> a" "1 \<le> b"
  shows "a = b"
  using assms decimal_inj [of a b] by (auto simp: deterministicAttemptRayJobName_def split: if_splits)

text \<open>
  Sanitizing any text gives a lowercase DNS label of at most 50 bytes, except that cutting a longer text at 50 bytes may leave
  a hyphen at its end, which is not a label.
\<close>

theorem sanitizeDNS_label:
  "length (sanitizeDNS v) \<le> 50 \<and> (isDNSLabel (sanitizeDNS v) \<longleftrightarrow> \<not> (length (sanitizeDNS v) = 50 \<and> last (sanitizeDNS v) = CHR ''-'')) \<and>
   \<not> isDNSLabel (sanitizeDNS (replicate 49 CHR ''a'' @ ''-b''))"
proof -
  have "isDNSLabel (sanitizeDNS v) \<longleftrightarrow> \<not> (length (sanitizeDNS v) = 50 \<and> last (sanitizeDNS v) = CHR ''-'')"
    using sanitizeDNS_shape [of v] by (auto simp: isDNSLabel_def)
  moreover have "\<not> isDNSLabel (sanitizeDNS (replicate 49 CHR ''a'' @ ''-b''))" by code_simp
  ultimately show ?thesis using sanitizeDNS_shape [of v] by simp
qed

text \<open>
  The reconciler and the job store derive the same RayJob name for an attempt of a managed job whose
  identifier is a DNS label, and different attempts have different names.
\<close>

theorem attempt_names_agree:
  assumes "isDNSLabel (job_ID job)" "length (job_ID job) \<le> 50" "managed_engine job" "1 \<le> job_ClusterAttempt job" "job_ClusterAttempt job < 10 ^ 11"
  shows "managedAttemptRayJobName job = deterministicAttemptRayJobName (job_ID job) (job_ClusterAttempt job) \<and>
         (\<forall>b \<ge> 1. deterministicAttemptRayJobName (job_ID job) b = managedAttemptRayJobName job \<longrightarrow> b = job_ClusterAttempt job)"
proof -
  have id: "sanitizeDNS (job_ID job) = job_ID job" using sanitizeDNS_id assms(1,2) by blast
  have "nat (job_ClusterAttempt job) < 10 ^ 11" using assms(4,5) by (simp add: nat_less_iff)
  then have len: "length (decimal (job_ClusterAttempt job)) \<le> 11" using decimal_nat_length [of _ 11] assms(4) by (simp add: decimal_def)
  have "job_ID job \<noteq> []" using assms(1) by (simp add: isDNSLabel_def)
  then have eq: "managedAttemptRayJobName job = deterministicAttemptRayJobName (job_ID job) (job_ClusterAttempt job)"
    using assms(2,3,4) len by (auto simp: managedAttemptRayJobName_def deterministicAttemptRayJobName_def id Let_def managed_engine_def)
  then show ?thesis using deterministic_inj assms(4) by auto
qed

theorem attempt_names_agree_witness:
  "managedAttemptRayJobName (sample_job\<lparr>job_ClusterAttempt := 3\<rparr>) = ''job-1-a3''"
proof -
  have "isDNSLabel ''job-1''" by code_simp
  moreover have "TrainingEngine_Resolved ''ray-train'' = ''ray-train''" by code_simp
  then have "managed_engine (sample_job\<lparr>job_ClusterAttempt := 3\<rparr>)"
    by (simp add: managed_engine_def sample_job_def sample_spec_def TrainingEngineRayTrain_def)
  moreover have "deterministicAttemptRayJobName ''job-1'' 3 = ''job-1-a3''"
    by (simp add: deterministicAttemptRayJobName_def decimal_def decimal_nat_one)
  ultimately show ?thesis using attempt_names_agree [of "sample_job\<lparr>job_ClusterAttempt := 3\<rparr>"] by (simp add: sample_job_def)
qed

subsection \<open>Quoting\<close>

text \<open>
  How a POSIX shell splits a command line into words, for lines without expansions or operators: anything
  a shell would interpret outside quotes, or inside double quotes, is an error.
\<close>

datatype lex_mode = Between | Word string | Single string | Double string \<comment> \<open>the word so far, reversed\<close>

definition word_char :: "char \<Rightarrow> bool" where
  "word_char c \<longleftrightarrow> shell_safe c"

fun sh_words :: "lex_mode \<Rightarrow> string \<Rightarrow> string list option" where
  "sh_words Between [] = Some []"
| "sh_words (Word w) [] = Some [rev w]"
| "sh_words (Single w) [] = None"
| "sh_words (Double w) [] = None"
| "sh_words Between (c # s) =
     (if c = CHR '' '' then sh_words Between s else if c = squote then sh_words (Single []) s else if c = dquote then sh_words (Double []) s
      else if word_char c then sh_words (Word [c]) s else None)"
| "sh_words (Word w) (c # s) =
     (if c = CHR '' '' then map_option (Cons (rev w)) (sh_words Between s) else if c = squote then sh_words (Single w) s
      else if c = dquote then sh_words (Double w) s else if word_char c then sh_words (Word (c # w)) s else None)"
| "sh_words (Single w) (c # s) = (if c = squote then sh_words (Word w) s else sh_words (Single (c # w)) s)"
| "sh_words (Double w) (c # s) =
     (if c = dquote then sh_words (Word w) s else if c \<in> {CHR ''$'', CHR 0x60, backslash} then None else sh_words (Double (c # w)) s)"

lemma shell_safe_plain: "shell_safe c \<Longrightarrow> c \<noteq> CHR '' '' \<and> c \<noteq> squote \<and> c \<noteq> dquote"
  by (auto simp: shell_safe_def)

lemma lex_safe: "list_all shell_safe v \<Longrightarrow> sh_words (Word w) (v @ t) = sh_words (Word (rev v @ w)) t"
  by (induction v arbitrary: w) (auto simp: word_char_def dest: shell_safe_plain)

lemma lex_escaped: "sh_words (Single w) (escape_quotes v @ squote # t) = sh_words (Word (rev v @ w)) t"
  by (induction v arbitrary: w) (simp_all add: escape_quotes_def)

lemma lex_quoted: "sh_words Between (shellQuote v @ t) = sh_words (Word (rev v)) t"
proof (cases "v \<noteq> [] \<and> list_all shell_safe v")
  case True
  then obtain c u where v: "v = c # u" "shell_safe c" "list_all shell_safe u" by (cases v) auto
  then show ?thesis using lex_safe [OF v(3), of "[c]"] shell_safe_plain [OF v(2)] by (simp add: shellQuote_def word_char_def)
next
  case False
  then show ?thesis using lex_escaped [of "[]" v] by (auto simp: shellQuote_def)
qed


end
