(* ===== verification/Kube_Client.thy ===== *)
theory Kube_Client
  imports Kube_Names
begin

section \<open>Programs over the database and the cluster\<close>

text \<open>
  The reconciler acts on two systems: the database of the job store and the Kubernetes API server. A
  program is a function of the world, which holds the database, the state of the cluster (whatever the
  environment keeps, a type parameter) and the log of the writes sent to the API server, each with the
  database at the moment of the call.

  The API server, the clock, the database connection and the other processes that use the same database are not
  part of the repository and are the fields of \<open>env\<close>: every API call may also change the database (other
  processes act meanwhile), \<open>env_interfere\<close> is what they do before the next transaction
  of this process, and \<open>env_outage\<close> is a failure of the connection. \<open>env_retries\<close> is the
  number of further tries of \<open>retry.RetryOnConflict\<close>, \<open>env_polls\<close> the number of polls before the context
  of a wait is cancelled.
\<close>

record RayJob =
  rj_Namespace :: string
  rj_Name :: string
  rj_UID :: string
  rj_ResourceVersion :: string
  rj_Labels :: "string \<Rightarrow> string option"
  rj_Annotations :: "string \<Rightarrow> string option"
  rj_Suspend :: "bool option result" \<comment> \<open>\<open>spec.suspend\<close>\<close>
  rj_TTL :: "int option result" \<comment> \<open>\<open>spec.ttlSecondsAfterFinished\<close>\<close>
  rj_RestartPolicy :: "string option result" \<comment> \<open>of the submitter pod template\<close>
  rj_Status :: "status_map option result"

datatype update_kind = UpdateTTL | UpdateActivate | UpdateDeactivate \<comment> \<open>the client method that sends the update\<close>

datatype kube_call =
    CallCreate bool RayJob \<comment> \<open>dry run\<close>
  | CallUpdate update_kind RayJob
  | CallDelete string string string string RayJob \<comment> \<open>namespace, name, owner, UID precondition, the object read before\<close>

record 'k world =
  w_db :: DB
  w_kube :: 'k
  w_calls :: "(kube_call \<times> DB) list"

record 'k env =
  env_interfere :: "'k \<Rightarrow> DB \<Rightarrow> 'k \<times> DB"
  env_outage :: "'k \<Rightarrow> error option"
  env_now :: "'k \<Rightarrow> int"
  env_get :: "string \<Rightarrow> string \<Rightarrow> 'k \<Rightarrow> DB \<Rightarrow> (api_reason + RayJob) \<times> 'k \<times> DB"
  env_create :: "bool \<Rightarrow> RayJob \<Rightarrow> 'k \<Rightarrow> DB \<Rightarrow> (api_reason + RayJob) \<times> 'k \<times> DB"
  env_update :: "RayJob \<Rightarrow> 'k \<Rightarrow> DB \<Rightarrow> (api_reason + RayJob) \<times> 'k \<times> DB"
  env_delete :: "string \<Rightarrow> string \<Rightarrow> string \<Rightarrow> 'k \<Rightarrow> DB \<Rightarrow> (api_reason + unit) \<times> 'k \<times> DB"
  env_retries :: nat
  env_polls :: nat

type_synonym ('k, 'a) prog = "'k world \<Rightarrow> 'a result \<times> 'k world"

definition return :: "'a \<Rightarrow> ('k, 'a) prog" where
  "return x w = (Inr x, w)"

definition fail :: "error \<Rightarrow> ('k, 'a) prog" where
  "fail e w = (Inl e, w)"

definition handle :: "('k, 'a) prog \<Rightarrow> ('a result \<Rightarrow> ('k, 'b) prog) \<Rightarrow> ('k, 'b) prog" where \<comment> \<open>go on with the result or the error\<close>
  "handle m f w = (case m w of (r, w') \<Rightarrow> f r w')"

definition bind :: "('k, 'a) prog \<Rightarrow> ('a \<Rightarrow> ('k, 'b) prog) \<Rightarrow> ('k, 'b) prog" where \<comment> \<open>\<open>if err != nil { return err }\<close>\<close>
  "bind m f = handle m (\<lambda>r. case r of Inl e \<Rightarrow> fail e | Inr x \<Rightarrow> f x)"

definition of_result :: "'a result \<Rightarrow> ('k, 'a) prog" where
  "of_result r w = (r, w)"

definition guard :: "error option \<Rightarrow> ('k, 'a) prog \<Rightarrow> ('k, 'a) prog" where
  "guard e m = (case e of None \<Rightarrow> m | Some err \<Rightarrow> fail err)"

definition map_error :: "(error \<Rightarrow> error) \<Rightarrow> ('k, 'a) prog \<Rightarrow> ('k, 'a) prog" where
  "map_error f m w = (case m w of (r, w') \<Rightarrow> (map_sum f id r, w'))"

definition store_op :: "'k env \<Rightarrow> (int \<Rightarrow> DB \<Rightarrow> ('a \<times> DB) result) \<Rightarrow> ('k, 'a) prog" where \<comment> \<open>one transaction\<close>
  "store_op e f w =
     (let (k, db) = env_interfere e (w_kube w) (w_db w); w1 = w\<lparr>w_kube := k, w_db := db\<rparr> in
      case env_outage e k of
        Some err \<Rightarrow> (Inl err, w1)
      | None \<Rightarrow> (case f (env_now e k) db of Inl err \<Rightarrow> (Inl err, w1) | Inr (x, db') \<Rightarrow> (Inr x, w1\<lparr>w_db := db'\<rparr>)))"

definition store_read :: "'k env \<Rightarrow> (int \<Rightarrow> DB \<Rightarrow> 'a result) \<Rightarrow> ('k, 'a) prog" where
  "store_read e f = store_op e (\<lambda>now db. map_sum id (\<lambda>x. (x, db)) (f now db))"

definition api_call :: "kube_call option \<Rightarrow> ('k \<Rightarrow> DB \<Rightarrow> (api_reason + 'a) \<times> 'k \<times> DB) \<Rightarrow> ('k, 'a) prog" where
  "api_call c f w =
     (let (r, k, db) = f (w_kube w) (w_db w) in
      (map_sum StatusError id r,
       w\<lparr>w_kube := k, w_db := db, w_calls := w_calls w @ (case c of None \<Rightarrow> [] | Some call \<Rightarrow> [(call, w_db w)])\<rparr>))"

definition clock :: "'k env \<Rightarrow> ('k, int) prog" where \<comment> \<open>\<open>r.now()\<close>, \<open>time.Now()\<close>\<close>
  "clock e w = (Inr (env_now e (w_kube w)), w)"

fun IsNotFound :: "error \<Rightarrow> bool" where
  "IsNotFound (StatusError ReasonNotFound) = True"
| "IsNotFound (Wrapf _ _ e) = IsNotFound e"
| "IsNotFound (JoinedErrors a b) = (IsNotFound a \<or> IsNotFound b)"
| "IsNotFound _ = False"

fun IsAlreadyExists :: "error \<Rightarrow> bool" where
  "IsAlreadyExists (StatusError ReasonAlreadyExists) = True"
| "IsAlreadyExists (Wrapf _ _ e) = IsAlreadyExists e"
| "IsAlreadyExists (JoinedErrors a b) = (IsAlreadyExists a \<or> IsAlreadyExists b)"
| "IsAlreadyExists _ = False"

fun IsConflict :: "error \<Rightarrow> bool" where
  "IsConflict (StatusError ReasonConflict) = True"
| "IsConflict (Wrapf _ _ e) = IsConflict e"
| "IsConflict (JoinedErrors a b) = (IsConflict a \<or> IsConflict b)"
| "IsConflict _ = False"

fun RetryOnConflict :: "nat \<Rightarrow> ('k, 'a) prog \<Rightarrow> ('k, 'a) prog" where \<comment> \<open>the last error when the tries are used up\<close>
  "RetryOnConflict 0 m = m"
| "RetryOnConflict (Suc n) m = handle m (\<lambda>r. case r of Inl e \<Rightarrow> if IsConflict e then RetryOnConflict n m else fail e | Inr x \<Rightarrow> return x)"

section \<open>The RayJob operations of the client\<close>

text \<open>\<open>backend/k8s/client.go\<close>, the operations on RayJobs.\<close>

definition job_id_label :: string where [go_consts]: "job_id_label = ''ray.io/job-id''"
definition queue_label :: string where [go_consts]: "queue_label = ''kueue.x-k8s.io/queue-name''"
definition managedAttemptIdentityKey :: string where [go_consts]: "managedAttemptIdentityKey = ''raytrain.io/cluster-attempt''"
definition managedCreationFenceKey :: string where [go_consts]: "managedCreationFenceKey = ''raytrain.io/creation-fence''"
definition managedPendingAdoptionKey :: string where [go_consts]: "managedPendingAdoptionKey = ''raytrain.io/pending-adoption''"

definition label :: "RayJob \<Rightarrow> string \<Rightarrow> string" where \<comment> \<open>\<open>GetLabels()[k]\<close>\<close>
  "label r k = (case rj_Labels r k of None \<Rightarrow> [] | Some v \<Rightarrow> v)"

definition annotation :: "RayJob \<Rightarrow> string \<Rightarrow> string" where
  "annotation r k = (case rj_Annotations r k of None \<Rightarrow> [] | Some v \<Rightarrow> v)"

definition verifyOwnershipLabel :: "RayJob \<Rightarrow> RayJob \<Rightarrow> string \<Rightarrow> error option" where
  "verifyOwnershipLabel existing desired labelKey = first_error [
     check (label desired labelKey = []) (Errorf ''resource manifest is missing %s ownership label'' [ArgS labelKey]),
     check (label existing labelKey \<noteq> label desired labelKey)
       (Errorf ''resource %s/%s is owned by another object'' [ArgS (rj_Namespace existing), ArgS (rj_Name existing)])]"

definition verifyOwnership :: "RayJob \<Rightarrow> RayJob \<Rightarrow> error option" where
  "verifyOwnership existing desired = verifyOwnershipLabel existing desired job_id_label"

definition verifyManagedRayJobFence :: "RayJob \<Rightarrow> string \<Rightarrow> string \<Rightarrow> int \<Rightarrow> int \<Rightarrow> error option" where
  "verifyManagedRayJobFence resource jobId expectedUID attempt fence = first_error [
     check (label resource job_id_label \<noteq> jobId) (Errorf ''refusing to activate RayJob owned by another job'' []),
     check (rj_UID resource \<noteq> expectedUID) (Errorf ''refusing to activate RayJob with an unexpected UID'' []),
     check (label resource managedAttemptIdentityKey \<noteq> decimal attempt \<or> annotation resource managedAttemptIdentityKey \<noteq> decimal attempt)
       (Errorf ''refusing to activate RayJob with an unexpected cluster attempt'' []),
     check (label resource managedCreationFenceKey \<noteq> decimal fence \<or> annotation resource managedCreationFenceKey \<noteq> decimal fence)
       (Errorf ''refusing to activate RayJob with an unexpected creation fence'' [])]"

definition validateRayJobSubmitterRestartPolicy :: "RayJob \<Rightarrow> error option" where
  "validateRayJobSubmitterRestartPolicy resource =
     (case rj_RestartPolicy resource of
        Inl e \<Rightarrow> Some (Wrapf ''read RayJob submitter restart policy: %w'' [] e)
      | Inr policy \<Rightarrow> check (policy \<noteq> Some ''Never'') (Errorf ''RayJob submitter pod restartPolicy must be Never'' []))"

definition GetRayJob :: "'k env \<Rightarrow> string \<Rightarrow> string \<Rightarrow> ('k, RayJob) prog" where
  "GetRayJob e namespace name = api_call None (env_get e namespace name)"

definition GetOwnedRayJob :: "'k env \<Rightarrow> string \<Rightarrow> string \<Rightarrow> string \<Rightarrow> string \<Rightarrow> ('k, RayJob) prog" where
  "GetOwnedRayJob e namespace name jobId expectedUID =
     guard (check (blank jobId \<or> blank expectedUID) (Errorf ''expected RayJob owner and UID are required'' [])) (
     bind (GetRayJob e namespace name) (\<lambda>resource.
     guard (first_error [
       check (label resource job_id_label \<noteq> jobId) (Errorf ''refusing to observe RayJob owned by another job'' []),
       check (rj_UID resource \<noteq> expectedUID) (Errorf ''refusing to observe RayJob with an unexpected UID'' [])]) (
     return resource)))"

definition create_rayjob :: "'k env \<Rightarrow> RayJob \<Rightarrow> ('k, RayJob) prog" where \<comment> \<open>the second half of \<open>EnsureRayJob\<close>\<close>
  "create_rayjob e resource =
     handle (api_call (Some (CallCreate False resource)) (env_create e False resource)) (\<lambda>made.
       case made of
         Inr fresh \<Rightarrow> return fresh
       | Inl err \<Rightarrow>
           if IsAlreadyExists err then
             bind (map_error (Wrapf ''get concurrently created RayJob: %w'' []) (GetRayJob e (rj_Namespace resource) (rj_Name resource)))
               (\<lambda>existing. guard (verifyOwnership existing resource) (return existing))
           else fail (Wrapf ''create RayJob %s/%s: %w'' [ArgS (rj_Namespace resource), ArgS (rj_Name resource)] err))"

definition EnsureRayJob :: "'k env \<Rightarrow> RayJob \<Rightarrow> ('k, RayJob) prog" where
  "EnsureRayJob e resource =
     (let namespace = rj_Namespace resource; name = rj_Name resource in
      guard (check (namespace = []) (Errorf ''RayJob namespace is required'' [])) (
      guard (check (name = []) (Errorf ''RayJob name is required'' [])) (
      handle (GetRayJob e namespace name) (\<lambda>got.
        case got of
          Inr existing \<Rightarrow> guard (verifyOwnership existing resource) (return existing)
        | Inl err \<Rightarrow>
            if \<not> IsNotFound err then fail (Wrapf ''get RayJob %s/%s: %w'' [ArgS namespace, ArgS name] err)
            else guard (validateRayJobSubmitterRestartPolicy resource) (
              handle (api_call (Some (CallCreate True resource)) (env_create e True resource)) (\<lambda>dry.
                case dry of
                  Inl err2 \<Rightarrow>
                    if IsAlreadyExists err2 then create_rayjob e resource
                    else fail (Wrapf ''validate RayJob %s/%s against Kubernetes schema: %w'' [ArgS namespace, ArgS name] err2)
                | Inr _ \<Rightarrow> create_rayjob e resource))))))"

definition UpdateRayJobCleanupTTL :: "'k env \<Rightarrow> RayJob \<Rightarrow> string \<Rightarrow> int \<Rightarrow> ('k, RayJob) prog" where
  "UpdateRayJobCleanupTTL e resource jobId ttlSeconds =
     guard (check (ttlSeconds \<le> 0) (Errorf ''RayJob cleanup TTL must be positive'' [])) (
     map_error (Wrapf ''update RayJob %s/%s cleanup TTL: %w'' [ArgS (rj_Namespace resource), ArgS (rj_Name resource)]) (
     RetryOnConflict (env_retries e)
       (handle (GetRayJob e (rj_Namespace resource) (rj_Name resource)) (\<lambda>got.
          case got of
            Inl err \<Rightarrow> if IsNotFound err then return resource else fail err
          | Inr current \<Rightarrow>
              guard (check (label current job_id_label \<noteq> jobId)
                (Errorf ''resource %s/%s is owned by another job'' [ArgS (rj_Namespace current), ArgS (rj_Name current)])) (
              case rj_TTL current of
                Inl err \<Rightarrow> fail (Wrapf ''read RayJob cleanup TTL: %w'' [] err)
              | Inr ttl \<Rightarrow>
                  if ttl = Some ttlSeconds then return current
                  else let updated = current\<lparr>rj_TTL := Inr (Some ttlSeconds)\<rparr> in
                    api_call (Some (CallUpdate UpdateTTL updated)) (env_update e updated))))))"

definition ActivateManagedRayJob ::
    "'k env \<Rightarrow> string \<Rightarrow> string \<Rightarrow> string \<Rightarrow> string \<Rightarrow> int \<Rightarrow> int \<Rightarrow> string \<Rightarrow> ('k, RayJob) prog" where
  "ActivateManagedRayJob e namespace name jobId expectedUID attempt fence queue =
     guard (first_error [
       check (blank namespace \<or> blank name \<or> blank jobId \<or> blank expectedUID)
         (Errorf ''managed RayJob namespace, name, owner, and UID are required'' []),
       check (attempt < 1 \<or> fence < 1) (Errorf ''managed RayJob attempt and creation fence must be positive'' []),
       check (blank queue) (Errorf ''managed RayJob queue is required'' [])]) (
     map_error (Wrapf ''activate managed RayJob %s/%s: %w'' [ArgS namespace, ArgS name]) (
     RetryOnConflict (env_retries e)
       (bind (GetRayJob e namespace name) (\<lambda>current.
        guard (verifyManagedRayJobFence current jobId expectedUID attempt fence) (
        if label current queue_label = queue \<and> annotation current managedPendingAdoptionKey = [] then return current
        else let updated = current\<lparr>rj_Labels := (rj_Labels current)(queue_label \<mapsto> queue),
                                   rj_Annotations := (rj_Annotations current)(managedPendingAdoptionKey := None)\<rparr> in
          api_call (Some (CallUpdate UpdateActivate updated)) (env_update e updated))))))"

definition DeactivateManagedRayJob ::
    "'k env \<Rightarrow> string \<Rightarrow> string \<Rightarrow> string \<Rightarrow> string \<Rightarrow> int \<Rightarrow> int \<Rightarrow> ('k, unit) prog" where
  "DeactivateManagedRayJob e namespace name jobId expectedUID attempt fence =
     RetryOnConflict (env_retries e)
       (bind (GetRayJob e namespace name) (\<lambda>current.
        guard (verifyManagedRayJobFence current jobId expectedUID attempt fence) (
        case rj_Suspend current of
          Inl err \<Rightarrow> fail (Wrapf ''read managed RayJob suspension: %w'' [] err)
        | Inr suspended \<Rightarrow>
            if label current queue_label = [] \<and> suspended = Some True then return ()
            else let updated = current\<lparr>rj_Labels := (rj_Labels current)(queue_label := None),
                       rj_Annotations := (rj_Annotations current)(managedPendingAdoptionKey \<mapsto> ''true''), rj_Suspend := Inr (Some True)\<rparr> in
              bind (api_call (Some (CallUpdate UpdateDeactivate updated)) (env_update e updated)) (\<lambda>_. return ()))))"

definition DeleteRayJob :: "'k env \<Rightarrow> string \<Rightarrow> string \<Rightarrow> string \<Rightarrow> string \<Rightarrow> ('k, unit) prog" where
  "DeleteRayJob e namespace name jobId expectedUID =
     guard (check (blank expectedUID) (Errorf ''expected RayJob UID is required'' [])) (
     handle (GetRayJob e namespace name) (\<lambda>got.
       case got of
         Inl err \<Rightarrow> if IsNotFound err then return () else fail (Wrapf ''get RayJob before delete: %w'' [] err)
       | Inr existing \<Rightarrow>
           guard (first_error [
             check (jobId \<noteq> [] \<and> label existing job_id_label \<noteq> jobId) (Errorf ''refusing to delete RayJob owned by another job'' []),
             check (rj_UID existing \<noteq> expectedUID) (Errorf ''refusing to delete RayJob with an unexpected UID'' [])]) (
           handle (api_call (Some (CallDelete namespace name jobId expectedUID existing)) (env_delete e namespace name expectedUID)) (\<lambda>deleted.
             case deleted of
               Inl err \<Rightarrow> if IsNotFound err then return ()
                 else fail (Wrapf ''delete RayJob %s/%s: %w'' [ArgS namespace, ArgS name] err)
             | Inr _ \<Rightarrow> return ()))))"

fun WaitForRayJobDeletion :: "'k env \<Rightarrow> nat \<Rightarrow> string \<Rightarrow> string \<Rightarrow> ('k, unit) prog" where
  "WaitForRayJobDeletion e 0 namespace name = fail ContextError"
| "WaitForRayJobDeletion e (Suc n) namespace name =
     handle (GetRayJob e namespace name) (\<lambda>got.
       case got of
         Inl err \<Rightarrow> if IsNotFound err then return () else fail err
       | Inr _ \<Rightarrow> WaitForRayJobDeletion e n namespace name)"

subsection \<open>How programs move the world\<close>

text \<open>
  \<open>safe R P m\<close>: from a world that satisfies \<open>P\<close> the program \<open>m\<close> moves along \<open>R\<close>, whatever it returns. When \<open>R\<close> is a preorder
  that keeps \<open>P\<close>, the combinators preserve it, so a program is safe when its store and API calls are.
\<close>

definition safe :: "('w \<Rightarrow> 'w \<Rightarrow> bool) \<Rightarrow> ('w \<Rightarrow> bool) \<Rightarrow> ('w \<Rightarrow> 'r \<times> 'w) \<Rightarrow> bool" where
  "safe R P m \<longleftrightarrow> (\<forall>w. P w \<longrightarrow> R w (snd (m w)))"

lemma safe_weaken: "safe R P m \<Longrightarrow> (\<And>w. Q w \<Longrightarrow> P w) \<Longrightarrow> safe R Q m"
  by (auto simp: safe_def)

locale world_preorder =
  fixes R :: "'k world \<Rightarrow> 'k world \<Rightarrow> bool" and P :: "'k world \<Rightarrow> bool"
  assumes refl: "R w w" and trans: "R u v \<Longrightarrow> R v w \<Longrightarrow> R u w" and keep: "P v \<Longrightarrow> R v w \<Longrightarrow> P w"
begin

lemma safe_return: "safe R P (return x)"
  by (simp add: safe_def return_def refl)

lemma safe_fail: "safe R P (fail e)"
  by (simp add: safe_def fail_def refl)

lemma safe_of_result: "safe R P (of_result r)"
  by (simp add: safe_def of_result_def refl)

lemma safe_clock: "safe R P (clock e)"
  by (simp add: safe_def clock_def refl)

lemma safe_handle:
  assumes "safe R P m" "\<And>r. safe R P (f r)"
  shows "safe R P (handle m f)"
proof -
  have "R w (snd (handle m f w))" if "P w" for w
  proof -
    obtain r w' where m: "m w = (r, w')" by (cases "m w")
    have "R w w'" using assms(1) that m by (auto simp: safe_def dest!: spec [of _ w])
    moreover have "R w' (snd (f r w'))" using assms(2) [of r] keep [OF that \<open>R w w'\<close>] by (simp add: safe_def)
    ultimately show ?thesis using trans m by (simp add: handle_def)
  qed
  then show ?thesis by (simp add: safe_def)
qed

lemma safe_bind: "safe R P m \<Longrightarrow> (\<And>x. safe R P (f x)) \<Longrightarrow> safe R P (bind m f)"
  unfolding bind_def by (rule safe_handle) (auto simp: safe_fail split: sum.splits)

lemma safe_guard: "(e = None \<Longrightarrow> safe R P m) \<Longrightarrow> safe R P (guard e m)"
  by (auto simp: guard_def safe_fail split: option.splits)

lemma safe_map_error: "safe R P m \<Longrightarrow> safe R P (map_error f m)"
  by (auto simp: safe_def map_error_def split: prod.splits)

lemma safe_retry: "safe R P m \<Longrightarrow> safe R P (RetryOnConflict n m)"
  by (induction n) (auto intro!: safe_handle simp: safe_fail safe_return split: sum.splits)

lemma safe_if: "(b \<Longrightarrow> safe R P m) \<Longrightarrow> (\<not> b \<Longrightarrow> safe R P n) \<Longrightarrow> safe R P (if b then m else n)"
  by simp

lemma safe_let: "safe R P (f x) \<Longrightarrow> safe R P (let y = x in f y)"
  by simp

lemma safe_case_prod: "(\<And>a b. x = (a, b) \<Longrightarrow> safe R P (f a b)) \<Longrightarrow> safe R P (case x of (a, b) \<Rightarrow> f a b)"
  by (cases x) simp

lemma safe_case_sum:
  "(\<And>a. x = Inl a \<Longrightarrow> safe R P (f a)) \<Longrightarrow> (\<And>b. x = Inr b \<Longrightarrow> safe R P (g b)) \<Longrightarrow> safe R P (case x of Inl a \<Rightarrow> f a | Inr b \<Rightarrow> g b)"
  by (cases x) simp_all

lemma safe_case_option:
  "(x = None \<Longrightarrow> safe R P m) \<Longrightarrow> (\<And>a. x = Some a \<Longrightarrow> safe R P (f a)) \<Longrightarrow> safe R P (case x of None \<Rightarrow> m | Some a \<Rightarrow> f a)"
  by (cases x) simp_all

text \<open>What the first program establishes may be used by the second.\<close>

lemma safe_bind_post:
  assumes "safe R P m" "\<And>w x w'. P w \<Longrightarrow> m w = (Inr x, w') \<Longrightarrow> Q x w'" "\<And>x. safe R (Q x) (f x)"
  shows "safe R P (bind m f)"
proof -
  have "R w (snd (bind m f w))" if "P w" for w
  proof (cases "m w")
    case (Pair r w')
    have "R w w'" using assms(1) that Pair by (auto simp: safe_def dest!: spec [of _ w])
    then show ?thesis
    proof (cases r)
      case (Inr x)
      then have "R w' (snd (f x w'))" using assms(2) [OF that, of x w'] assms(3) [of x] Pair by (auto simp: safe_def)
      then show ?thesis using trans \<open>R w w'\<close> Pair Inr by (simp add: bind_def handle_def)
    qed (simp add: bind_def handle_def fail_def Pair)
  qed
  then show ?thesis by (simp add: safe_def)
qed

lemmas safe_rules = safe_return safe_fail safe_of_result safe_clock safe_guard safe_handle safe_bind safe_map_error safe_retry
  safe_if safe_let safe_case_prod safe_case_sum safe_case_option

end

end
