(* ===== verification/Reconciler.thy ===== *)
theory Reconciler
  imports Kube_Client
begin

section \<open>The RayJob reconciler\<close>

text \<open>
  \<open>backend/k8s/reconciler.go\<close>: the control loop that drives every job through the store and the cluster. Each function of
  the source is one program; a method that calls \<open>reconcileLoadedJob\<close> again takes it as the argument
  \<open>again\<close>, and \<open>reconcileLoadedJob\<close> itself counts the nested calls it may still make (the source recurses
  without a bound; a run cut at any depth is a run of the model).

  The fields of \<open>config\<close>: the settings of the reconciler, and what belongs to other components.
  \<open>cfg_prepare\<close> restores the evaluation and serving runtimes and resolves dataset manifest, node preference and git
  credential; \<open>cfg_checks\<close> are the checks of \<open>RenderRayJob\<close> before the namespace (\<open>resolved_options\<close>
  of \<open>Kube_Render\<close>, which also renders the whole object); \<open>cfg_error_text\<close> is \<open>err.Error()\<close>, which only ends up in stored messages.
\<close>

record 'k config =
  cfg_leaseOwner :: string
  cfg_creationLease :: int
  cfg_cleanupWait :: int
  cfg_rayJobRetention :: int
  cfg_clusterSpecField :: string
  cfg_collate :: "string \<Rightarrow> int"
  cfg_rfc3339 :: "string \<Rightarrow> int option"
  cfg_error_text :: "error \<Rightarrow> string"
  cfg_prepare :: "TrainingJob \<Rightarrow> ('k, TrainingJob) prog"
  cfg_checks :: "TrainingJob \<Rightarrow> error option"
  cfg_experimentRuns :: "(string \<Rightarrow> string \<Rightarrow> State \<Rightarrow> int \<Rightarrow> ('k, unit) prog) option"
  cfg_evaluationJobs :: "(TrainingJob \<Rightarrow> ('k, unit) prog) option"

definition terminalJobState :: "State \<Rightarrow> bool" where
  "terminalJobState s \<longleftrightarrow> s \<in> {StateSucceeded, StateFailed, StateCanceled, StateTimedOut}"

definition managed_job :: "TrainingJob \<Rightarrow> bool" where
  "managed_job job \<longleftrightarrow> TrainingEngine_Resolved (spec_TrainingEngine (job_Spec job)) = TrainingEngineRayTrain"

definition managedJobHasPersistedIdentity :: "TrainingJob \<Rightarrow> bool" where
  "managedJobHasPersistedIdentity job \<longleftrightarrow> managed_job job \<and> \<not> blank (job_RayJobName job) \<and> \<not> blank (job_RayJobUID job)"

definition managedJobSnapshotChanged :: "TrainingJob \<Rightarrow> TrainingJob \<Rightarrow> bool" where
  "managedJobSnapshotChanged loaded current \<longleftrightarrow>
     job_ClusterAttempt current \<noteq> job_ClusterAttempt loaded \<or> job_RayJobName current \<noteq> job_RayJobName loaded \<or>
     job_RayJobUID current \<noteq> job_RayJobUID loaded \<or> job_ObservedState current \<noteq> job_ObservedState loaded \<or>
     job_DesiredState current \<noteq> job_DesiredState loaded"

definition setObservedStateFence :: "ObservedJobState \<Rightarrow> TrainingJob \<Rightarrow> ObservedJobState" where
  "setObservedStateFence observed job = observed\<lparr>obs_ExpectedClusterAttempt := job_ClusterAttempt job,
     obs_ExpectedRayJobName := job_RayJobName job, obs_ExpectedRayJobUID := job_RayJobUID job\<rparr>"

definition observation :: "string \<Rightarrow> State \<Rightarrow> string \<Rightarrow> string \<Rightarrow> string \<Rightarrow> string \<Rightarrow> string \<Rightarrow> ObservedJobState" where
  \<comment> \<open>the struct literals, other fields zero\<close>
  "observation jobId state reason message ns name uid = \<lparr>obs_JobID = jobId, obs_State = state, obs_Reason = reason, obs_Message = message,
     obs_KubernetesNS = ns, obs_RayJobName = name, obs_RayJobUID = uid, obs_RayClusterName = [], obs_ResourceVersion = [],
     obs_ExpectedClusterAttempt = 0, obs_ExpectedRayJobName = [], obs_ExpectedRayJobUID = [], obs_StartedAt = None, obs_FinishedAt = None\<rparr>"

definition managedJobHasRetiringIdentity :: "TrainingJob \<Rightarrow> bool" where
  "managedJobHasRetiringIdentity job \<longleftrightarrow> managed_job job \<and> job_ObservedState job = StateRecovering \<and> job_RayJobName job \<noteq> [] \<and>
     job_RayJobName job \<noteq> managedAttemptRayJobName job"

definition managedJobCanRecover :: "TrainingJob \<Rightarrow> bool" where
  "managedJobCanRecover job \<longleftrightarrow> job_DesiredState job = DesiredActive \<and> managed_job job \<and>
     (job_ObservedState job = StateRunning \<or> job_ObservedState job = StateRecovering)"

definition valid_utf8 :: "string \<Rightarrow> bool" where \<comment> \<open>\<open>utf8.ValidString\<close>\<close>
  "valid_utf8 s \<longleftrightarrow> concat (runes s) = s"

function shrink_to_valid :: "string \<Rightarrow> string" where \<comment> \<open>the loop\<close>
  "shrink_to_valid s = (if valid_utf8 s then s else shrink_to_valid (butlast s))"
  by pat_completeness auto
termination
proof (relation "measure length")
  fix s :: string
  assume "\<not> valid_utf8 s"
  then have "s \<noteq> []" by (auto simp: valid_utf8_def runes.simps)
  then show "(butlast s, s) \<in> measure length" by (cases s) simp_all
qed simp

declare shrink_to_valid.simps [simp del]

definition managedRecoveryFailureMessage :: "string \<Rightarrow> string" where
  "managedRecoveryFailureMessage message =
     (if length message \<le> ManagedRecoveryFailureMessageMaxBytes then message
      else shrink_to_valid (take ManagedRecoveryFailureMessageMaxBytes message))"

text \<open>\<open>strconv.ParseInt(s, 10, 64)\<close>.\<close>

definition parse_digits :: "string \<Rightarrow> int option" where
  "parse_digits s = (if s = [] \<or> \<not> list_all (\<lambda>c. c \<in> set ''0123456789'') s then None
     else Some (int (foldl (\<lambda>v c. 10 * v + digit_value c) 0 s)))"

definition ParseInt :: "string \<Rightarrow> int option" where
  "ParseInt s =
     (case s of
        [] \<Rightarrow> None
      | c # t \<Rightarrow>
          let v = (if c = CHR ''-'' then map_option uminus (parse_digits t) else if c = CHR ''+'' then parse_digits t else parse_digits s) in
          (case v of None \<Rightarrow> None | Some n \<Rightarrow> if in_int64 n then Some n else None))"

definition managedResourceCreationFence :: "RayJob \<Rightarrow> int result" where
  "managedResourceCreationFence resource =
     (let labelFence = label resource managedCreationFenceKey in
      if labelFence = [] \<or> annotation resource managedCreationFenceKey \<noteq> labelFence
      then Inl (Errorf ''creation fence label and annotation must match'' [])
      else case ParseInt labelFence of
        None \<Rightarrow> Inl (Errorf ''creation fence must be positive'' [])
      | Some fence \<Rightarrow> if fence < 1 then Inl (Errorf ''creation fence must be positive'' []) else Inr fence)"

fun attempt_state_string :: "ManagedAttemptResourceState \<Rightarrow> string" where
  "attempt_state_string ManagedAttemptResourceReserved = ''RESERVED''"
| "attempt_state_string ManagedAttemptResourceCreating = ''CREATING''"
| "attempt_state_string ManagedAttemptResourceActivating = ''ACTIVATING''"
| "attempt_state_string ManagedAttemptResourceActive = ''ACTIVE''"
| "attempt_state_string ManagedAttemptResourceRetiring = ''RETIRING''"
| "attempt_state_string ManagedAttemptResourceCleaned = ''CLEANED''"
| "attempt_state_string ManagedAttemptResourceQuarantined = ''QUARANTINED''"
| "attempt_state_string (ManagedAttemptResourceOther s) = s"

subsection \<open>The manifest\<close>

text \<open>\<open>RenderRayJob\<close> of \<open>backend/k8s/rayjob.go\<close>, without the pod templates: identity, labels and the fields the reconciler reads.\<close>

definition manifest_labels :: "TrainingJob \<Rightarrow> int \<Rightarrow> string \<Rightarrow> string option" where
  "manifest_labels job fence =
     (let base = [''app.kubernetes.io/part-of'' \<mapsto> ''ray-train-platform'', ''app.kubernetes.io/managed-by'' \<mapsto> ''ray-train-platform'',
            job_id_label \<mapsto> job_ID job, ''ray.io/tenant-id'' \<mapsto> job_TenantID job, ''platform_job_id'' \<mapsto> job_ID job,
            ''platform_tenant_id'' \<mapsto> job_TenantID job, queue_label \<mapsto> spec_Queue (job_Spec job),
            ''kueue.x-k8s.io/priority-class'' \<mapsto> KubernetesPriorityClass (spec_Priority (job_Spec job)),
            ''raytrain.io/accelerator-class'' \<mapsto> AcceleratorClass_Resolved (spec_AcceleratorClass (job_Spec job))];
          attempt = base(managedAttemptIdentityKey \<mapsto> decimal (job_ClusterAttempt job));
          fenced = (if fence > 0 then attempt(managedCreationFenceKey \<mapsto> decimal fence) else attempt) in
      if \<not> managed_job job then base else if blank (job_RayJobUID job) then fenced(queue_label := None) else fenced)"

definition manifest_annotations :: "TrainingJob \<Rightarrow> int \<Rightarrow> string \<Rightarrow> string option" where
  "manifest_annotations job fence =
     (let base = [''ray-train-platform/job-id'' \<mapsto> job_ID job, ''ray-train-platform/owner'' \<mapsto> job_UserID job];
          attempt = base(managedAttemptIdentityKey \<mapsto> decimal (job_ClusterAttempt job));
          fenced = (if fence > 0 then attempt(managedCreationFenceKey \<mapsto> decimal fence) else attempt) in
      if \<not> managed_job job then base else if blank (job_RayJobUID job) then fenced(managedPendingAdoptionKey \<mapsto> ''true'') else fenced)"

definition RenderRayJob :: "'k config \<Rightarrow> TrainingJob \<Rightarrow> int \<Rightarrow> RayJob result" where
  "RenderRayJob c job fence =
     or_fail (cfg_checks c job) (
     let namespace = managedJobNamespace job; field = first_nonempty (cfg_clusterSpecField c) ''rayClusterSpec'' in
     or_fail (check (\<not> isDNSLabel namespace) (Errorf ''kubernetes namespace must be a lowercase DNS label'' [])) (
     or_fail (check (field \<noteq> ''rayClusterConfig'' \<and> field \<noteq> ''rayClusterSpec'')
       (Errorf ''unsupported RayJob cluster spec field %q'' [ArgS field])) (
     Inr \<lparr>rj_Namespace = namespace, rj_Name = rayJobResourceName job, rj_UID = [], rj_ResourceVersion = [],
          rj_Labels = manifest_labels job fence, rj_Annotations = manifest_annotations job fence,
          rj_Suspend = Inr (Some True), rj_TTL = Inr (Some (failureCleanupTTL job)), rj_RestartPolicy = Inr (Some ''Never''), rj_Status = Inr None\<rparr>)))"

subsection \<open>Store calls\<close>

definition unit_result :: "DB result \<Rightarrow> (unit \<times> DB) result" where
  "unit_result r = map_sum id (Pair ()) r"

definition retire_request :: "string \<Rightarrow> int \<Rightarrow> string \<Rightarrow> string \<Rightarrow> string \<Rightarrow> ManagedAttemptRetireRequest" where
  "retire_request jobId attempt ns name uid =
     \<lparr>ret_JobID = jobId, ret_ClusterAttempt = attempt, ret_KubernetesNS = ns, ret_RayJobName = name, ret_RayJobUID = uid\<rparr>"

definition call_retire :: "'k env \<Rightarrow> ManagedAttemptRetireRequest \<Rightarrow> ('k, ManagedAttemptResource) prog" where
  "call_retire e request = bind (store_op e (\<lambda>now. RetireManagedAttemptResource now request)) (\<lambda>(resource, _). return resource)"

definition call_apply :: "'k env \<Rightarrow> ObservedJobState \<Rightarrow> ('k, unit) prog" where
  "call_apply e observed = store_op e (\<lambda>now db. unit_result (ApplyObservedState now observed db))"

definition call_record_failure :: "'k env \<Rightarrow> ManagedAttemptCleanupFailureRequest \<Rightarrow> ('k, unit) prog" where
  "call_record_failure e request = store_op e (\<lambda>now db. unit_result (RecordManagedAttemptCleanupFailure now request db))"

definition call_complete :: "'k env \<Rightarrow> ManagedAttemptResource \<Rightarrow> ('k, bool) prog" where
  "call_complete e resource = store_op e (\<lambda>now. CompleteManagedAttemptCleanup now \<lparr>cln_JobID = mar_JobID resource,
     cln_ClusterAttempt = mar_ClusterAttempt resource, cln_RayJobName = mar_RayJobName resource, cln_RayJobUID = mar_RayJobUID resource\<rparr>)"

definition failure_request :: "ManagedAttemptResource \<Rightarrow> string \<Rightarrow> bool \<Rightarrow> int \<Rightarrow> ManagedAttemptCleanupFailureRequest" where
  "failure_request resource message permanent observedAt = \<lparr>cf_JobID = mar_JobID resource, cf_ClusterAttempt = mar_ClusterAttempt resource,
     cf_RayJobName = mar_RayJobName resource, cf_RayJobUID = mar_RayJobUID resource, cf_Message = message, cf_Permanent = permanent,
     cf_ObservedAt = observedAt\<rparr>"

subsection \<open>Cleanup of an attempt\<close>

definition verifyManagedAttemptResource :: "'k env \<Rightarrow> RayJob \<Rightarrow> ManagedAttemptResource \<Rightarrow> ('k, unit) prog" where
  "verifyManagedAttemptResource e resource expected =
     (let attempt = decimal (mar_ClusterAttempt expected); labelFence = label resource managedCreationFenceKey in
      guard (first_error [
        check (label resource job_id_label \<noteq> mar_JobID expected) (ManagedCleanupVerificationError ''refusing to clean foreign RayJob owner''),
        check (label resource managedAttemptIdentityKey \<noteq> attempt \<or> annotation resource managedAttemptIdentityKey \<noteq> attempt)
          (ManagedCleanupVerificationError ''refusing to clean RayJob with unexpected cluster attempt identity''),
        check (mar_RayJobUID expected \<noteq> [] \<and> rj_UID resource \<noteq> mar_RayJobUID expected)
          (ManagedCleanupVerificationError ''refusing to clean RayJob with unexpected UID''),
        check (labelFence = [] \<or> annotation resource managedCreationFenceKey \<noteq> labelFence)
          (ManagedCleanupVerificationError ''refusing to clean RayJob with invalid creation fence identity'')]) (
      case ParseInt labelFence of
        None \<Rightarrow> fail (ManagedCleanupVerificationError ''refusing to clean RayJob with unexpected creation fence identity'')
      | Some fence \<Rightarrow>
          guard (check (fence < 1) (ManagedCleanupVerificationError ''refusing to clean RayJob with unexpected creation fence identity'')) (
          bind (map_error (Wrapf ''verify managed attempt creation fence: %w'' [])
                 (store_read e (\<lambda>_ db. Inr (IsManagedAttemptFenceIssued db (mar_JobID expected) (mar_ClusterAttempt expected) fence)))) (\<lambda>issued.
          guard (check (\<not> issued) (ManagedCleanupVerificationError ''refusing to clean RayJob with unexpected creation fence identity''))
            (return ())))))"

fun await_deletion :: "'k env \<Rightarrow> nat \<Rightarrow> int \<Rightarrow> ManagedAttemptResource \<Rightarrow> string \<Rightarrow> ('k, bool) prog" where \<comment> \<open>the polling loop\<close>
  "await_deletion e 0 deadline resource uid = fail ContextError"
| "await_deletion e (Suc n) deadline resource uid =
     handle (GetRayJob e (mar_KubernetesNS resource) (mar_RayJobName resource)) (\<lambda>got.
       case got of
         Inl err \<Rightarrow> if IsNotFound err then call_complete e resource else fail err
       | Inr current \<Rightarrow>
           if rj_UID current \<noteq> uid
           then fail (Errorf ''managed RayJob %s was replaced before cleanup completed'' [ArgS (mar_RayJobName resource)])
           else bind (clock e) (\<lambda>now.
             if \<not> now < deadline then
               bind (clock e) (\<lambda>observedAt.
               bind (call_record_failure e (failure_request resource
                  (''managed RayJob '' @ mar_RayJobName resource @ '' foreground deletion is still pending'') False observedAt)) (\<lambda>_. return False))
             else await_deletion e n deadline resource uid))"

definition delete_attempt :: "'k env \<Rightarrow> 'k config \<Rightarrow> ManagedAttemptResource \<Rightarrow> RayJob \<Rightarrow> ('k, bool) prog" where
  \<comment> \<open>from the verification on\<close>
  "delete_attempt e c resource0 current =
     bind (verifyManagedAttemptResource e current resource0) (\<lambda>_.
     let uid = rj_UID current in
     bind (if mar_RayJobUID resource0 = []
           then call_retire e (retire_request (mar_JobID resource0) (mar_ClusterAttempt resource0) (mar_KubernetesNS resource0) (mar_RayJobName resource0) uid)
           else return resource0) (\<lambda>resource.
     handle (DeleteRayJob e (mar_KubernetesNS resource) (mar_RayJobName resource) (mar_JobID resource) uid) (\<lambda>deleted.
     guard (case deleted of Inl err \<Rightarrow> if IsNotFound err then None else Some err | Inr _ \<Rightarrow> None) (
     bind (clock e) (\<lambda>now. await_deletion e (Suc (env_polls e)) (now + cfg_cleanupWait c) resource uid)))))"

definition cleanupManagedAttemptResource :: "'k env \<Rightarrow> 'k config \<Rightarrow> ManagedAttemptResource \<Rightarrow> ('k, bool) prog" where
  "cleanupManagedAttemptResource e c resource0 =
     (if mar_State resource0 = ManagedAttemptResourceQuarantined then return False
      else bind (clock e) (\<lambda>now.
        if mar_State resource0 = ManagedAttemptResourceRetiring \<and> mar_NextCheckAt resource0 \<noteq> 0 \<and> mar_NextCheckAt resource0 > now then return False
        else bind (if mar_State resource0 \<noteq> ManagedAttemptResourceRetiring
             then call_retire e (retire_request (mar_JobID resource0) (mar_ClusterAttempt resource0) (mar_KubernetesNS resource0)
                    (mar_RayJobName resource0) (mar_RayJobUID resource0))
             else return resource0) (\<lambda>resource.
          handle (GetRayJob e (mar_KubernetesNS resource) (mar_RayJobName resource)) (\<lambda>got.
            case got of
              Inl err \<Rightarrow> if IsNotFound err then call_complete e resource else fail err
            | Inr current \<Rightarrow> delete_attempt e c resource current))))"

fun is_verification_error :: "error \<Rightarrow> bool" where \<comment> \<open>\<open>errors.As(err, &permanent)\<close>\<close>
  "is_verification_error (ManagedCleanupVerificationError _) = True"
| "is_verification_error (Wrapf _ _ e) = is_verification_error e"
| "is_verification_error (JoinedErrors a b) = (is_verification_error a \<or> is_verification_error b)"
| "is_verification_error _ = False"

text \<open>The loops over work lists keep the first error and go on.\<close>

fun first_failure :: "error option \<Rightarrow> ('a \<Rightarrow> ('k, unit) prog) \<Rightarrow> 'a list \<Rightarrow> ('k, error option) prog" where
  "first_failure first f [] = return first"
| "first_failure first f (x # xs) =
     handle (f x) (\<lambda>r. first_failure (case first of Some e \<Rightarrow> Some e | None \<Rightarrow> result_error r) f xs)"

definition finish :: "error option \<Rightarrow> ('k, unit) prog" where
  "finish first = guard first (return ())"

definition cleanup_and_record :: "'k env \<Rightarrow> 'k config \<Rightarrow> ManagedAttemptResource \<Rightarrow> ('k, unit) prog" where \<comment> \<open>the loop body\<close>
  "cleanup_and_record e c resource =
     handle (cleanupManagedAttemptResource e c resource) (\<lambda>r.
       case r of
         Inr _ \<Rightarrow> return ()
       | Inl err \<Rightarrow> bind (clock e) (\<lambda>now.
           call_record_failure e (failure_request resource (cfg_error_text c err) (is_verification_error err) now)))"

definition reconcileManagedAttemptCleanupBatch :: "'k env \<Rightarrow> 'k config \<Rightarrow> ManagedAttemptResource list \<Rightarrow> ('k, unit) prog" where
  "reconcileManagedAttemptCleanupBatch e c resources = bind (first_failure None (cleanup_and_record e c) resources) finish"

definition reconcileManagedAttemptCleanups :: "'k env \<Rightarrow> 'k config \<Rightarrow> ('k, unit) prog" where
  "reconcileManagedAttemptCleanups e c =
     bind (clock e) (\<lambda>now.
     bind (store_read e (\<lambda>t db. Inr (ListManagedAttemptCleanup (cfg_collate c) t db 20 now))) (\<lambda>resources.
     bind (reconcileManagedAttemptCleanupBatch e c resources) (\<lambda>_.
     bind (clock e) (\<lambda>now2.
     bind (store_read e (\<lambda>t db. Inr (ListManagedAttemptTombstoneAudit (cfg_collate c) t db 2 now2))) (\<lambda>audits.
     reconcileManagedAttemptCleanupBatch e c audits)))))"

definition rayJobRetirementBatch :: int where [go_consts]: "rayJobRetirementBatch = 20"

definition retire_expired :: "'k env \<Rightarrow> ExpiredRayJob \<Rightarrow> ('k, unit) prog" where \<comment> \<open>the loop body; errors are logged\<close>
  "retire_expired e resource =
     handle (DeleteRayJob e (exp_KubernetesNS resource) (exp_RayJobName resource) (exp_JobID resource) (exp_RayJobUID resource)) (\<lambda>r.
       case r of
         Inl _ \<Rightarrow> return ()
       | Inr _ \<Rightarrow> bind (clock e) (\<lambda>now.
           handle (store_op e (\<lambda>t db. unit_result (Inr (MarkRayJobRetired t (exp_JobID resource) now db)))) (\<lambda>_. return ())))"

definition retireExpiredRayJobs :: "'k env \<Rightarrow> 'k config \<Rightarrow> ('k, unit) prog" where
  "retireExpiredRayJobs e c =
     (if cfg_rayJobRetention c \<le> 0 then return ()
      else bind (clock e) (\<lambda>now.
        handle (store_read e (\<lambda>_ db. Inr (ListExpiredRayJobs db (now - cfg_rayJobRetention c) rayJobRetirementBatch))) (\<lambda>r.
          case r of
            Inl _ \<Rightarrow> return ()
          | Inr expired \<Rightarrow> bind (first_failure None (retire_expired e) expired) (\<lambda>_. return ()))))"

subsection \<open>Reservation, adoption and activation\<close>

definition reserveManagedAttempt :: "'k env \<Rightarrow> TrainingJob \<Rightarrow> ('k, bool \<times> TrainingJob) prog" where
  "reserveManagedAttempt e loaded =
     guard (check (\<not> blank (job_RayJobUID loaded)) (Errorf ''managed attempt reservation requires an empty UID'' [])) (
     bind (store_op e (\<lambda>now. ReserveManagedAttemptIdentity now \<lparr>resv_JobID = job_ID loaded, resv_ExpectedClusterAttempt = job_ClusterAttempt loaded,
       resv_ExpectedState = job_ObservedState loaded, resv_ExpectedRayJobName = job_RayJobName loaded,
       resv_RayJobName = managedAttemptRayJobName loaded, resv_KubernetesNS = managedJobNamespace loaded\<rparr>)) (\<lambda>(current, reserved).
     return (reserved, current)))"

definition adoptManagedAttempt :: "'k env \<Rightarrow> 'k config \<Rightarrow> TrainingJob \<Rightarrow> ManagedAttemptResource \<Rightarrow> RayJob \<Rightarrow> ('k, TrainingJob \<times> bool) prog" where
  "adoptManagedAttempt e c reserved lease resource =
     (let uid = trim_space (rj_UID resource); attempt = decimal (job_ClusterAttempt reserved) in
      guard (first_error [
        check (uid = []) (Errorf ''managed RayJob %s has no Kubernetes UID'' [ArgS (rj_Name resource)]),
        check (mar_LeaseOwner lease \<noteq> cfg_leaseOwner c \<or> mar_LeaseVersion lease < 1) (Errorf ''managed RayJob creation lease is missing'' []),
        check (label resource job_id_label \<noteq> job_ID reserved \<or> label resource managedAttemptIdentityKey \<noteq> attempt \<or>
               annotation resource managedAttemptIdentityKey \<noteq> attempt)
          (Errorf ''managed RayJob creation identity does not match the reserved attempt'' [])]) (
      case managedResourceCreationFence resource of
        Inl _ \<Rightarrow> fail (Errorf ''managed RayJob creation fence does not match the current lease'' [])
      | Inr fence \<Rightarrow>
          guard (check (fence \<noteq> mar_ResourceFence lease \<or> fence \<noteq> mar_LeaseVersion lease)
            (Errorf ''managed RayJob creation fence does not match the current lease'' [])) (
          guard (verifyManagedRayJobFence resource (job_ID reserved) uid (job_ClusterAttempt reserved) fence) (
          store_op e (\<lambda>now. AdoptManagedAttemptIdentity now \<lparr>adopt_JobID = job_ID reserved, adopt_ExpectedClusterAttempt = job_ClusterAttempt reserved,
            adopt_ExpectedState = job_ObservedState reserved, adopt_RayJobName = rj_Name resource, adopt_RayJobUID = uid,
            adopt_KubernetesNS = rj_Namespace resource, adopt_ResourceVersion = rj_ResourceVersion resource,
            adopt_LeaseOwner = mar_LeaseOwner lease, adopt_LeaseVersion = mar_LeaseVersion lease, adopt_ResourceFence = fence\<rparr>)))))"

definition compensateManagedActivation :: "'k env \<Rightarrow> 'k config \<Rightarrow> TrainingJob \<Rightarrow> RayJob \<Rightarrow> int \<Rightarrow> ('k, unit) prog" where
  "compensateManagedActivation e c job resource fence =
     (let uid = trim_space (rj_UID resource) in
      bind (call_retire e (retire_request (job_ID job) (job_ClusterAttempt job) (rj_Namespace resource) (rj_Name resource) uid)) (\<lambda>retiring.
      handle (DeactivateManagedRayJob e (rj_Namespace resource) (rj_Name resource) (job_ID job) uid (job_ClusterAttempt job) fence) (\<lambda>r.
      guard (case r of Inl err \<Rightarrow> if IsNotFound err then None else Some err | Inr _ \<Rightarrow> None) (
      bind (cleanupManagedAttemptResource e c retiring) (\<lambda>_. return ())))))"

definition activateManagedRayJob :: "'k env \<Rightarrow> 'k config \<Rightarrow> TrainingJob \<Rightarrow> RayJob \<Rightarrow> ('k, RayJob \<times> TrainingJob \<times> bool) prog" where
  "activateManagedRayJob e c job resource =
     (case managedResourceCreationFence resource of
        Inl _ \<Rightarrow> fail (Errorf ''managed RayJob %s has an invalid creation fence'' [ArgS (rj_Name resource)])
      | Inr fence \<Rightarrow>
          let request = \<lparr>act_JobID = job_ID job, act_ExpectedClusterAttempt = job_ClusterAttempt job, act_RayJobName = rj_Name resource,
                act_RayJobUID = rj_UID resource, act_ResourceFence = fence\<rparr> in
          bind (store_read e (\<lambda>_. AuthorizeManagedAttemptActivation request)) (\<lambda>(current, _, authorized).
          if \<not> authorized then bind (compensateManagedActivation e c job resource fence) (\<lambda>_. return (resource, current, False))
          else bind (ActivateManagedRayJob e (rj_Namespace resource) (rj_Name resource) (job_ID job) (rj_UID resource)
                 (job_ClusterAttempt job) fence (spec_Queue (job_Spec job))) (\<lambda>active.
          bind (store_op e (\<lambda>now. ConfirmManagedAttemptActivation now request)) (\<lambda>(current2, confirmed).
          if \<not> confirmed then bind (compensateManagedActivation e c job active fence) (\<lambda>_. return (active, current2, False))
          else return (active, current2, True)))))"

definition removeSupersededManagedCreation :: "'k env \<Rightarrow> 'k config \<Rightarrow> TrainingJob \<Rightarrow> RayJob \<Rightarrow> int \<Rightarrow> ('k, unit) prog" where
  "removeSupersededManagedCreation e c job resource fence =
     (let uid = trim_space (rj_UID resource) in
      guard (check (uid = []) (Errorf ''superseded managed RayJob %s has no UID'' [ArgS (rj_Name resource)])) (
      guard (verifyManagedRayJobFence resource (job_ID job) uid (job_ClusterAttempt job) fence) (
      bind (map_error (Wrapf ''verify superseded managed RayJob creation fence: %w'' [])
              (store_read e (\<lambda>_ db. Inr (IsManagedAttemptFenceIssued db (job_ID job) (job_ClusterAttempt job) fence)))) (\<lambda>issued.
      if \<not> issued then
        bind (call_retire e (retire_request (job_ID job) (job_ClusterAttempt job) (rj_Namespace resource) (rj_Name resource) uid)) (\<lambda>retiring.
        bind (clock e) (\<lambda>now.
        call_record_failure e (failure_request retiring
          (''refusing to delete superseded RayJob with unissued creation fence '' @ decimal fence) True now)))
      else
        bind (DeleteRayJob e (rj_Namespace resource) (rj_Name resource) (job_ID job) uid) (\<lambda>_.
        map_error (Wrapf ''wait for superseded managed RayJob deletion: %w'' [])
          (WaitForRayJobDeletion e (env_polls e) (rj_Namespace resource) (rj_Name resource)))))))"

definition getOrEnsureRayJob :: "'k env \<Rightarrow> TrainingJob \<Rightarrow> RayJob \<Rightarrow> ('k, RayJob) prog" where
  "getOrEnsureRayJob e job manifest =
     (if \<not> managed_job job then EnsureRayJob e manifest
      else let name = trim_space (job_RayJobName job); uid = trim_space (job_RayJobUID job) in
        if name = [] \<and> uid \<noteq> [] then fail (Errorf ''managed RayJob persisted identity is incomplete'' [])
        else if uid = [] then
          if name = [] then fail (Errorf ''managed RayJob name was not reserved'' []) else EnsureRayJob e manifest
        else GetOwnedRayJob e (rj_Namespace manifest) name (job_ID job) uid)"

subsection \<open>Cancellation\<close>

definition reconcileManagedCancellation :: "'k env \<Rightarrow> 'k config \<Rightarrow> TrainingJob \<Rightarrow> ('k, unit) prog" where
  "reconcileManagedCancellation e c job =
     (let name = first_nonempty (trim_space (job_RayJobName job)) (managedAttemptRayJobName job);
          attempt = (if managedJobHasRetiringIdentity job \<and> job_ClusterAttempt job > 1 then job_ClusterAttempt job - 1 else job_ClusterAttempt job) in
      bind (call_retire e (retire_request (job_ID job) attempt (managedJobNamespace job) name (job_RayJobUID job))) (\<lambda>resource.
      bind (cleanupManagedAttemptResource e c resource) (\<lambda>cleaned.
      if \<not> cleaned then return ()
      else call_apply e (setObservedStateFence
        (observation (job_ID job) StateCanceled [] [] (managedJobNamespace job) name (job_RayJobUID job)) job))))"

definition cancel_rayjob :: "'k env \<Rightarrow> TrainingJob \<Rightarrow> string \<Rightarrow> string \<Rightarrow> ('k, unit) prog" where \<comment> \<open>the part with a known name and namespace\<close>
  "cancel_rayjob e job name namespace =
     handle (GetRayJob e namespace name) (\<lambda>got.
       case got of
         Inl err \<Rightarrow>
           if IsNotFound err
           then call_apply e (setObservedStateFence (observation (job_ID job) StateCanceled [] [] namespace name (job_RayJobUID job)) job)
           else fail err
       | Inr resource \<Rightarrow>
           let expectedUID = first_nonempty (job_RayJobUID job) (rj_UID resource) in
           guard (check (job_RayJobUID job \<noteq> [] \<and> rj_UID resource \<noteq> job_RayJobUID job)
             (Errorf ''refusing to cancel RayJob with an unexpected UID'' [])) (
           bind (DeleteRayJob e namespace name (job_ID job) expectedUID) (\<lambda>_.
           let state = (if job_ObservedState job = StateRecovering then StateCanceled else StateDeleting) in
           call_apply e (setObservedStateFence
             ((observation (job_ID job) state [] [] namespace name (rj_UID resource))\<lparr>obs_ResourceVersion := rj_ResourceVersion resource\<rparr>) job))))"

definition reconcileCancellation :: "'k env \<Rightarrow> 'k config \<Rightarrow> TrainingJob \<Rightarrow> ('k, unit) prog" where
  "reconcileCancellation e c job =
     (if managed_job job then reconcileManagedCancellation e c job
      else let name = first_nonempty (job_RayJobName job) (rayJobResourceName job) in
        bind (if job_KubernetesNS job \<noteq> [] then return (job_KubernetesNS job)
              else if spec_DataMode (job_Spec job) = DataModeStreaming then
                let namespace = ''tenant-'' @ sanitizeDNS (job_TenantID job) in
                guard (check (\<not> isDNSLabel namespace) (Errorf ''kubernetes namespace must be a lowercase DNS label'' [])) (return namespace)
              else bind (of_result (RenderRayJob c job 0)) (\<lambda>manifest. return (rj_Namespace manifest)))
          (cancel_rayjob e job name))"

subsection \<open>Retirement, recovery and observation\<close>

definition reconcileCurrentManagedJob :: "(TrainingJob \<Rightarrow> ('k, unit) prog) \<Rightarrow> TrainingJob \<Rightarrow> ('k, unit) prog" where
  "reconcileCurrentManagedJob again current = (if terminalJobState (job_ObservedState current) then return () else again current)"

definition recovery_request :: "TrainingJob \<Rightarrow> string \<Rightarrow> string \<Rightarrow> ManagedRecoveryRequest" where
  "recovery_request job failureClass message = \<lparr>rec_JobID = job_ID job, rec_ExpectedClusterAttempt = job_ClusterAttempt job,
     rec_ExpectedRayJobName = job_RayJobName job, rec_ExpectedRayJobUID = job_RayJobUID job, rec_FailureClass = failureClass,
     rec_FailureMessage = message\<rparr>"

definition reconcileMissingManagedWorkload ::
    "'k env \<Rightarrow> 'k config \<Rightarrow> (TrainingJob \<Rightarrow> ('k, unit) prog) \<Rightarrow> TrainingJob \<Rightarrow> string \<Rightarrow> ('k, unit) prog" where
  "reconcileMissingManagedWorkload e c again job namespace =
     (let failureClass = ''RAY_CLUSTER_DELETED''; failureMessage = ''persisted managed RayJob is missing'' in
      bind (store_op e (\<lambda>now. BeginManagedRecovery now (recovery_request job failureClass failureMessage))) (\<lambda>(recovered, transitioned).
      if job_DesiredState recovered = DesiredCanceled then reconcileCancellation e c recovered
      else if transitioned \<or> managedJobSnapshotChanged job recovered then
        (if terminalJobState (job_ObservedState recovered) then return () else again recovered)
      else call_apply e (setObservedStateFence
        (observation (job_ID job) StateFailed failureClass failureMessage namespace (job_RayJobName job) (job_RayJobUID job)) job)))"

definition reconcileManagedRetirement ::
    "'k env \<Rightarrow> 'k config \<Rightarrow> (TrainingJob \<Rightarrow> ('k, unit) prog) \<Rightarrow> TrainingJob \<Rightarrow> ('k, unit) prog" where
  "reconcileManagedRetirement e c again job =
     (if job_DesiredState job = DesiredCanceled then reconcileCancellation e c job
      else guard (check (blank (job_RayJobUID job)) (Errorf ''managed retiring RayJob UID is missing'' [])) (
        let retiringAttempt = job_ClusterAttempt job - 1 in
        guard (check (retiringAttempt < 1) (Errorf ''managed retiring attempt is invalid'' [])) (
        bind (call_retire e (retire_request (job_ID job) retiringAttempt (managedJobNamespace job) (job_RayJobName job) (job_RayJobUID job))) (\<lambda>resource.
        bind (cleanupManagedAttemptResource e c resource) (\<lambda>cleaned.
        if \<not> cleaned then return ()
        else bind (store_op e (\<lambda>now. ClearManagedRecoveryRetiringIdentity now \<lparr>rid_JobID = job_ID job,
            rid_ExpectedClusterAttempt = job_ClusterAttempt job, rid_RayJobName = job_RayJobName job, rid_RayJobUID = job_RayJobUID job\<rparr>))
          (\<lambda>(current, cleared).
          if job_DesiredState current = DesiredCanceled then reconcileCancellation e c current
          else if cleared \<or> \<not> managedJobHasRetiringIdentity current then again current
          else return ()))))))"

definition persist_observation :: "'k env \<Rightarrow> TrainingJob \<Rightarrow> RayJob \<Rightarrow> ObservedJobState \<Rightarrow> ('k, unit) prog" where \<comment> \<open>the tail of \<open>reconcileLoadedJob\<close>\<close>
  "persist_observation e job resource observed =
     (let settled = (if job_ObservedState job = StateRecovering \<and> obs_State observed \<in> {StateQueued, StateProvisioning, StateUnknown}
            then observed\<lparr>obs_State := StateRecovering, obs_Reason := job_StatusReason job, obs_Message := job_StatusMessage job\<rparr> else observed) in
      bind (if job_ObservedState job = StateRecovering \<and> obs_State observed = StateSucceeded
            then call_apply e (observed\<lparr>obs_State := StateRunning, obs_FinishedAt := None\<rparr>) else return ()) (\<lambda>_.
      bind (call_apply e settled) (\<lambda>_.
      if obs_State settled = StateSucceeded
      then bind (UpdateRayJobCleanupTTL e resource (job_ID job) (successCleanupTTL job)) (\<lambda>_. return ())
      else return ())))"

definition observe_resource ::
    "'k env \<Rightarrow> 'k config \<Rightarrow> (TrainingJob \<Rightarrow> ('k, unit) prog) \<Rightarrow> TrainingJob \<Rightarrow> RayJob \<Rightarrow> ('k, unit) prog" where
  \<comment> \<open>\<open>reconcileLoadedJob\<close>, from reading the status on\<close>
  "observe_resource e c again job resource =
     bind (of_result (rj_Status resource)) (\<lambda>found.
     let status = (case found of None \<Rightarrow> [] | Some s \<Rightarrow> s);
         observed = setObservedStateFence ((MapRayJobStatus (cfg_rfc3339 c) (job_ID job) status (rj_ResourceVersion resource))
           \<lparr>obs_KubernetesNS := rj_Namespace resource, obs_RayJobName := rj_Name resource, obs_RayJobUID := rj_UID resource\<rparr>) job in
     case (if obs_State observed = StateFailed \<and> managedJobCanRecover job
           then NormalizeManagedInfrastructureFailureClass (obs_Reason observed) else None) of
       None \<Rightarrow> persist_observation e job resource observed
     | Some failureClass \<Rightarrow>
         bind (store_op e (\<lambda>now. BeginManagedRecovery now
           (recovery_request job failureClass (managedRecoveryFailureMessage (obs_Message observed))))) (\<lambda>(recovered, transitioned).
         if job_DesiredState recovered = DesiredCanceled then reconcileCancellation e c recovered
         else if transitioned \<or> job_ClusterAttempt recovered \<noteq> job_ClusterAttempt job then again recovered
         else persist_observation e job resource observed))"

definition activate_and_observe ::
    "'k env \<Rightarrow> 'k config \<Rightarrow> (TrainingJob \<Rightarrow> ('k, unit) prog) \<Rightarrow> bool \<Rightarrow> TrainingJob \<Rightarrow> RayJob \<Rightarrow> ('k, unit) prog" where
  \<comment> \<open>\<open>reconcileLoadedJob\<close>, from the activation on\<close>
  "activate_and_observe e c again managed job resource =
     (if \<not> managed then observe_resource e c again job resource
      else bind (activateManagedRayJob e c job resource) (\<lambda>(active, current, activated).
        if \<not> activated then reconcileCurrentManagedJob again current else observe_resource e c again current active))"

subsection \<open>One job\<close>

definition blocked_attempt :: "'k env \<Rightarrow> TrainingJob \<Rightarrow> ('k, unit) prog" where \<comment> \<open>an attempt that could not be reserved\<close>
  "blocked_attempt e current =
     bind (store_read e (\<lambda>_ db. GetManagedAttemptResource db (job_ID current) (job_ClusterAttempt current))) (\<lambda>resource.
     guard (check (mar_JobID resource \<noteq> job_ID current \<or> mar_ClusterAttempt resource \<noteq> job_ClusterAttempt current \<or>
         mar_RayJobName resource \<noteq> job_RayJobName current \<or> mar_KubernetesNS resource \<noteq> managedJobNamespace current)
       (Errorf ''non-reservable managed attempt ledger identity does not match the current job'' [])) (
     if mar_State resource \<in> {ManagedAttemptResourceQuarantined, ManagedAttemptResourceRetiring} then return ()
     else fail (Errorf ''managed attempt is non-reservable in state %s'' [ArgS (attempt_state_string (mar_State resource))])))"

definition adopt_created ::
    "'k env \<Rightarrow> 'k config \<Rightarrow> (TrainingJob \<Rightarrow> ('k, unit) prog) \<Rightarrow> bool \<Rightarrow> TrainingJob \<Rightarrow> ManagedAttemptResource \<Rightarrow> RayJob \<Rightarrow> ('k, unit) prog" where
  \<comment> \<open>the block \<open>if needsAdoption\<close> and what follows\<close>
  "adopt_created e c again managed job creationLease resource =
     bind (of_result (managedResourceCreationFence resource)) (\<lambda>resourceFence.
     if resourceFence \<noteq> mar_ResourceFence creationLease then
       if resourceFence > mar_ResourceFence creationLease
       then fail (Errorf ''managed RayJob creation fence %d is newer than authorized fence %d'' [ArgI resourceFence, ArgI (mar_ResourceFence creationLease)])
       else removeSupersededManagedCreation e c job resource resourceFence
     else bind (adoptManagedAttempt e c job creationLease resource) (\<lambda>(current, adopted).
       if \<not> adopted then
         bind (call_retire e (retire_request (job_ID job) (job_ClusterAttempt job) (rj_Namespace resource) (rj_Name resource) (rj_UID resource))) (\<lambda>retiring.
         bind (cleanupManagedAttemptResource e c retiring) (\<lambda>cleaned.
         if \<not> cleaned then return () else reconcileCurrentManagedJob again current))
       else if job_DesiredState current = DesiredCanceled then reconcileCancellation e c current
       else if terminalJobState (job_ObservedState current) then return ()
       else activate_and_observe e c again managed current resource))"

definition run_workload ::
    "'k env \<Rightarrow> 'k config \<Rightarrow> (TrainingJob \<Rightarrow> ('k, unit) prog) \<Rightarrow> bool \<Rightarrow> ManagedAttemptResource option \<Rightarrow> TrainingJob \<Rightarrow> ('k, unit) prog" where
  \<comment> \<open>\<open>reconcileLoadedJob\<close>, from rendering on\<close>
  "run_workload e c again managed creationLease job0 =
     bind (cfg_prepare c job0) (\<lambda>job.
     bind (of_result (RenderRayJob c job (case creationLease of None \<Rightarrow> 0 | Some lease \<Rightarrow> mar_ResourceFence lease))) (\<lambda>manifest.
     handle (getOrEnsureRayJob e job manifest) (\<lambda>got.
       case got of
         Inl err \<Rightarrow>
           if IsNotFound err \<and> managedJobHasPersistedIdentity job then reconcileMissingManagedWorkload e c again job (rj_Namespace manifest)
           else fail err
       | Inr resource \<Rightarrow>
           (case creationLease of
              None \<Rightarrow> activate_and_observe e c again managed job resource
            | Some lease \<Rightarrow> adopt_created e c again managed job lease resource))))"

definition start_attempt ::
    "'k env \<Rightarrow> 'k config \<Rightarrow> (TrainingJob \<Rightarrow> ('k, unit) prog) \<Rightarrow> TrainingJob \<Rightarrow> ('k, unit) prog" where
  \<comment> \<open>the block of a managed job without a RayJob UID\<close>
  "start_attempt e c again job =
     bind (reserveManagedAttempt e job) (\<lambda>(reserved, current).
     if \<not> reserved then
       (if managedJobSnapshotChanged job current then reconcileCurrentManagedJob again current else blocked_attempt e current)
     else bind (clock e) (\<lambda>now.
       bind (store_op e (\<lambda>t. AcquireManagedAttemptCreation t \<lparr>lease_JobID = job_ID current, lease_ExpectedClusterAttempt = job_ClusterAttempt current,
         lease_ExpectedState = job_ObservedState current, lease_RayJobName = job_RayJobName current, lease_LeaseOwner = cfg_leaseOwner c,
         lease_LeaseDuration = cfg_creationLease c\<rparr> now)) (\<lambda>(leased, lease, acquired).
       if \<not> acquired then (if managedJobSnapshotChanged current leased then reconcileCurrentManagedJob again leased else return ())
       else run_workload e c again True (Some lease) leased)))"

fun reconcileLoadedJob :: "'k env \<Rightarrow> 'k config \<Rightarrow> nat \<Rightarrow> TrainingJob \<Rightarrow> ('k, unit) prog" where
  "reconcileLoadedJob e c 0 job = fail ContextError"
| "reconcileLoadedJob e c (Suc n) job =
     (if job_DesiredState job = DesiredCanceled then reconcileCancellation e c job
      else if managedJobHasRetiringIdentity job then reconcileManagedRetirement e c (reconcileLoadedJob e c n) job
      else if managed_job job \<and> blank (job_RayJobUID job) then start_attempt e c (reconcileLoadedJob e c n) job
      else run_workload e c (reconcileLoadedJob e c n) (managed_job job) None job)"

definition ReconcileJob :: "'k env \<Rightarrow> 'k config \<Rightarrow> nat \<Rightarrow> string \<Rightarrow> ('k, unit) prog" where
  "ReconcileJob e c n jobId =
     bind (store_read e (\<lambda>_ db. GetByID db jobId)) (\<lambda>job.
     if terminalJobState (job_ObservedState job) then return () else reconcileLoadedJob e c n job)"

subsection \<open>One cycle\<close>

definition event_job :: "OutboxEvent \<Rightarrow> string option" where \<comment> \<open>the payload's \<open>job_id\<close>\<close>
  "event_job event = (case map_of (oe_Payload event) ''job_id'' of Some (ArgS s) \<Rightarrow> if s = [] then None else Some s | _ \<Rightarrow> None)"

definition quarantine_payload_ok :: "OutboxEvent \<Rightarrow> bool" where \<comment> \<open>\<open>json.Unmarshal\<close> into the struct of the event succeeds\<close>
  "quarantine_payload_ok event \<longleftrightarrow>
     list_all (\<lambda>key. case map_of (oe_Payload event) key of Some (ArgI _) \<Rightarrow> False | _ \<Rightarrow> True) [''job_id'', ''ray_job_name'', ''reason''] \<and>
     (case map_of (oe_Payload event) ''cluster_attempt'' of Some (ArgS _) \<Rightarrow> False | _ \<Rightarrow> True)"

definition finalize_job :: "'k env \<Rightarrow> 'k config \<Rightarrow> OutboxEvent \<Rightarrow> string \<Rightarrow> ('k, unit) prog" where \<comment> \<open>the terminal event\<close>
  "finalize_job e c event jobId =
     (if cfg_experimentRuns c = None \<and> cfg_evaluationJobs c = None then return ()
      else bind (store_read e (\<lambda>_ db. GetByID db jobId)) (\<lambda>job.
        guard (check (\<not> terminalJobState (job_ObservedState job))
          (Errorf ''terminal event %s references non-terminal job %s'' [ArgS (oe_ID event), ArgS (state_string (job_ObservedState job))])) (
        bind (clock e) (\<lambda>now.
        let finishedAt = (case job_FinishedAt job of None \<Rightarrow> now | Some t \<Rightarrow> t) in
        handle (case cfg_evaluationJobs c of Some f \<Rightarrow> if job_SubmissionOrigin job = SubmissionOriginEvaluation then f job else return () | None \<Rightarrow> return ())
          (\<lambda>evaluation.
        handle (case cfg_experimentRuns c of Some f \<Rightarrow> f (job_TenantID job) (job_ID job) (job_ObservedState job) finishedAt | None \<Rightarrow> return ())
          (\<lambda>experiment.
        finish (case (result_error evaluation, result_error experiment) of
            (None, r) \<Rightarrow> r | (Some a, None) \<Rightarrow> Some a | (Some a, Some b) \<Rightarrow> Some (JoinedErrors a b))))))))"

definition processEvent :: "'k env \<Rightarrow> 'k config \<Rightarrow> nat \<Rightarrow> OutboxEvent \<Rightarrow> ('k, unit) prog" where
  "processEvent e c n event =
     (if oe_EventType event = ''MANAGED_ATTEMPT_QUARANTINED'' then
        guard (check (\<not> quarantine_payload_ok event) (Wrapf ''decode managed attempt quarantine event: %w'' [] (Errorf ''json'' []))) (return ())
      else if oe_EventType event \<notin> {''TRAINING_JOB_SUBMITTED'', ''TRAINING_JOB_CANCEL_REQUESTED'', ''TRAINING_JOB_TERMINAL''} then return ()
      else case event_job event of
        None \<Rightarrow> fail (Errorf ''invalid outbox payload for %s'' [ArgS (oe_ID event)])
      | Some jobId \<Rightarrow> if oe_EventType event = ''TRAINING_JOB_TERMINAL'' then finalize_job e c event jobId else ReconcileJob e c n jobId)"

definition handle_event :: "'k env \<Rightarrow> 'k config \<Rightarrow> nat \<Rightarrow> OutboxEvent \<Rightarrow> ('k, unit) prog" where \<comment> \<open>the loop body of \<open>ProcessOnce\<close>\<close>
  "handle_event e c n event =
     handle (processEvent e c n event) (\<lambda>r.
       case r of
         Inr _ \<Rightarrow> store_op e (\<lambda>now db. unit_result (Inr (MarkOutboxDone now (oe_ID event) db)))
       | Inl err \<Rightarrow> bind (clock e) (\<lambda>now.
           handle (store_op e (\<lambda>_ db. unit_result (Inr (MarkOutboxRetry (oe_ID event) (now + 15 * Second) (cfg_error_text c err) db))))
             (\<lambda>marked. case marked of Inl markErr \<Rightarrow> fail markErr | Inr _ \<Rightarrow> fail err)))"

definition ProcessOnce :: "'k env \<Rightarrow> 'k config \<Rightarrow> nat \<Rightarrow> ('k, unit) prog" where
  "ProcessOnce e c n =
     bind (retireExpiredRayJobs e c) (\<lambda>_.
     handle (reconcileManagedAttemptCleanups e c) (\<lambda>cleanup.
     bind (store_op e (\<lambda>now db. Inr (ClaimOutbox now 50 db))) (\<lambda>events.
     bind (first_failure (result_error cleanup) (handle_event e c n) events) (\<lambda>first.
     bind (store_read e (\<lambda>_ db. Inr (ListReconcileCandidates db 100))) (\<lambda>ids.
     bind (first_failure first (ReconcileJob e c n) ids) finish)))))"

end
