(* ===== verification/Attempt_Protocol.thy ===== *)
theory Attempt_Protocol
  imports Job_Store Transition_System
begin

section \<open>The abstract attempt protocol\<close>

text \<open>
  What the managed attempt operations promise, as a state machine on maps: jobs by identifier, ledger
  rows by job and attempt, and the set of fences ever issued. Each rule is one kind of move
  with the condition under which it is allowed. The operations of the store are shown to
  refine it in the theory \<open>Attempt_Refinement\<close>; here its invariant and the order it follows are proved.
\<close>

declare isTerminalState_iff [simp del]

record protocol =
  p_job :: "string \<Rightarrow> JobRecord option"
  p_row :: "string \<Rightarrow> int \<Rightarrow> ManagedAttemptResource option"
  p_fence :: "(string \<times> int \<times> int) set"

definition live :: "ManagedAttemptResourceState \<Rightarrow> bool" where
  "live s \<longleftrightarrow> s \<in> {ManagedAttemptResourceReserved, ManagedAttemptResourceCreating, ManagedAttemptResourceActivating, ManagedAttemptResourceActive}"

definition active :: "JobRecord \<Rightarrow> bool" where
  "active job \<longleftrightarrow> jr_DesiredState job = DesiredActive \<and> \<not> isTerminalState (jr_ObservedState job) \<and> jr_TrainingEngine job = TrainingEngineRayTrain"

definition max_failures :: "JobRecord \<Rightarrow> int" where
  "max_failures job = (case jr_SpecJSON job of None \<Rightarrow> 0 | Some s \<Rightarrow> mtp_MaxFailures (spec_Managed s))"

text \<open>The fields of a job that no operation on its attempts changes, and those that the protocol reads.\<close>

definition same_job :: "JobRecord \<Rightarrow> JobRecord \<Rightarrow> bool" where
  "same_job r r' \<longleftrightarrow> jr_ID r' = jr_ID r \<and> jr_TenantID r' = jr_TenantID r \<and> jr_UserID r' = jr_UserID r \<and>
     jr_TrainingEngine r' = jr_TrainingEngine r \<and> jr_SpecJSON r' = jr_SpecJSON r"

definition same_progress :: "JobRecord \<Rightarrow> JobRecord \<Rightarrow> bool" where
  "same_progress r r' \<longleftrightarrow> same_job r r' \<and> jr_ClusterAttempt r' = jr_ClusterAttempt r \<and> jr_DesiredState r' = jr_DesiredState r \<and>
     jr_ObservedState r' = jr_ObservedState r \<and> jr_FinishedAt r' = jr_FinishedAt r"

definition same_row :: "ManagedAttemptResource \<Rightarrow> ManagedAttemptResource \<Rightarrow> bool" where
  "same_row r r' \<longleftrightarrow> ledger_key r' = ledger_key r \<and> mar_KubernetesNS r' = mar_KubernetesNS r \<and> mar_RayJobName r' = mar_RayJobName r"

definition same_lease :: "ManagedAttemptResource \<Rightarrow> ManagedAttemptResource \<Rightarrow> bool" where
  "same_lease r r' \<longleftrightarrow> mar_LeaseOwner r' = mar_LeaseOwner r \<and> mar_LeaseExpiresAt r' = mar_LeaseExpiresAt r"

definition retires :: "ManagedAttemptResource \<Rightarrow> ManagedAttemptResource \<Rightarrow> bool" where
  "retires r r' \<longleftrightarrow> same_row r r' \<and> mar_State r \<noteq> ManagedAttemptResourceQuarantined \<and> mar_State r' = ManagedAttemptResourceRetiring \<and>
     mar_LeaseVersion r' = mar_LeaseVersion r \<and> mar_ResourceFence r' = mar_ResourceFence r \<and>
     (mar_RayJobUID r \<noteq> [] \<longrightarrow> mar_RayJobUID r' = mar_RayJobUID r)"

definition row_retired :: "string \<Rightarrow> int \<Rightarrow> ManagedAttemptResource option \<Rightarrow> ManagedAttemptResource option \<Rightarrow> bool" where
  "row_retired j a old new \<longleftrightarrow> new = old \<or> (\<exists>r r'. old = Some r \<and> new = Some r' \<and> retires r r') \<or>
     (old = None \<and> (\<exists>r'. new = Some r' \<and> ledger_key r' = (j, a) \<and> mar_State r' = ManagedAttemptResourceRetiring \<and>
        mar_LeaseVersion r' = 0 \<and> mar_ResourceFence r' = 0))"

abbreviation set_job :: "protocol \<Rightarrow> string \<Rightarrow> JobRecord \<Rightarrow> protocol" where
  "set_job s i job \<equiv> s\<lparr>p_job := (p_job s)(i \<mapsto> job)\<rparr>"
abbreviation set_row :: "protocol \<Rightarrow> string \<Rightarrow> int \<Rightarrow> ManagedAttemptResource \<Rightarrow> protocol" where
  "set_row s j a r \<equiv> s\<lparr>p_row := (p_row s)(j := (p_row s j)(a \<mapsto> r))\<rparr>"

inductive protocol_step :: "protocol \<Rightarrow> protocol \<Rightarrow> bool" where
  new_job: "p_job s i = None \<Longrightarrow> jr_ID job = i \<Longrightarrow> 1 \<le> jr_ClusterAttempt job \<Longrightarrow> protocol_step s (set_job s i job)"
| touch_job: "p_job s i = Some job \<Longrightarrow> same_progress job job' \<Longrightarrow> protocol_step s (set_job s i job')"
| observe: "p_job s i = Some job \<Longrightarrow> same_job job job' \<Longrightarrow> jr_ClusterAttempt job' = jr_ClusterAttempt job \<Longrightarrow>
    jr_DesiredState job' = jr_DesiredState job \<Longrightarrow> \<not> isTerminalState (jr_ObservedState job) \<Longrightarrow>
    isTerminalState (jr_ObservedState job') \<Longrightarrow> \<forall>a r. p_row s i a = Some r \<longrightarrow> \<not> live (mar_State r) \<Longrightarrow>
    protocol_step s (set_job s i job')"
| progress: "p_job s i = Some job \<Longrightarrow> same_job job job' \<Longrightarrow> jr_ClusterAttempt job' = jr_ClusterAttempt job \<Longrightarrow>
    jr_DesiredState job' = jr_DesiredState job \<Longrightarrow> \<not> isTerminalState (jr_ObservedState job) \<Longrightarrow>
    \<not> isTerminalState (jr_ObservedState job') \<Longrightarrow> protocol_step s (set_job s i job')"
| cancel: "p_job s i = Some job \<Longrightarrow> same_job job job' \<Longrightarrow> jr_ClusterAttempt job' = jr_ClusterAttempt job \<Longrightarrow>
    jr_ObservedState job' = jr_ObservedState job \<Longrightarrow> jr_FinishedAt job' = jr_FinishedAt job \<Longrightarrow>
    jr_DesiredState job' = DesiredCanceled \<Longrightarrow> \<forall>a r. p_row s i a = Some r \<longrightarrow> \<not> live (mar_State r) \<Longrightarrow>
    protocol_step s (set_job s i job')"
| recover: "p_job s i = Some job \<Longrightarrow> same_job job job' \<Longrightarrow> active job \<Longrightarrow> jr_DesiredState job' = DesiredActive \<Longrightarrow>
    jr_ObservedState job' = StateRecovering \<Longrightarrow> jr_ClusterAttempt job \<le> max_failures job \<Longrightarrow>
    jr_ClusterAttempt job' = jr_ClusterAttempt job + 1 \<Longrightarrow>
    \<forall>r. p_row s i (jr_ClusterAttempt job) = Some r \<longrightarrow> \<not> live (mar_State r) \<Longrightarrow> protocol_step s (set_job s i job')"
| reserve: "p_job s j = Some job \<Longrightarrow> active job \<Longrightarrow> a = jr_ClusterAttempt job \<Longrightarrow> p_row s j a = None \<Longrightarrow>
    ledger_key r = (j, a) \<Longrightarrow> mar_State r = ManagedAttemptResourceReserved \<Longrightarrow> mar_RayJobUID r = [] \<Longrightarrow> mar_LeaseVersion r = 0 \<Longrightarrow>
    protocol_step s (set_row s j a r)"
| grant: "p_row s j a = Some r \<Longrightarrow> mar_State r \<in> {ManagedAttemptResourceReserved, ManagedAttemptResourceCreating} \<Longrightarrow>
    \<forall>b r'. b < a \<longrightarrow> p_row s j b = Some r' \<longrightarrow> mar_State r' = ManagedAttemptResourceCleaned \<Longrightarrow>
    same_row r r' \<Longrightarrow> mar_RayJobUID r' = mar_RayJobUID r \<Longrightarrow> mar_State r' = ManagedAttemptResourceCreating \<Longrightarrow>
    mar_LeaseVersion r' = mar_LeaseVersion r + 1 \<Longrightarrow> mar_ResourceFence r' = mar_LeaseVersion r + 1 \<Longrightarrow>
    protocol_step s ((set_row s j a r')\<lparr>p_fence := insert (j, a, mar_LeaseVersion r + 1) (p_fence s)\<rparr>)"
| adopt: "p_row s j a = Some r \<Longrightarrow> mar_State r = ManagedAttemptResourceCreating \<Longrightarrow> (j, a, mar_LeaseVersion r) \<in> p_fence s \<Longrightarrow>
    same_row r r' \<Longrightarrow> mar_RayJobUID r = [] \<Longrightarrow> mar_RayJobUID r' \<noteq> [] \<Longrightarrow> mar_State r' = ManagedAttemptResourceActivating \<Longrightarrow>
    mar_LeaseVersion r' = mar_LeaseVersion r \<Longrightarrow> mar_ResourceFence r' = mar_LeaseVersion r \<Longrightarrow> protocol_step s (set_row s j a r')"
| confirm: "p_row s j a = Some r \<Longrightarrow> mar_State r = ManagedAttemptResourceActivating \<Longrightarrow> same_row r r' \<Longrightarrow>
    mar_RayJobUID r' = mar_RayJobUID r \<Longrightarrow> mar_State r' = ManagedAttemptResourceActive \<Longrightarrow>
    mar_LeaseVersion r' = mar_LeaseVersion r \<Longrightarrow> mar_ResourceFence r' = mar_ResourceFence r \<Longrightarrow> protocol_step s (set_row s j a r')"
| retire: "\<forall>j a. row_retired j a (p_row s j a) (rows j a) \<Longrightarrow> protocol_step s (s\<lparr>p_row := rows\<rparr>)"
| clean: "p_row s j a = Some r \<Longrightarrow> mar_State r \<in> {ManagedAttemptResourceRetiring, ManagedAttemptResourceCleaned} \<Longrightarrow> same_row r r' \<Longrightarrow>
    mar_State r' = ManagedAttemptResourceCleaned \<Longrightarrow> mar_LeaseVersion r' = mar_LeaseVersion r \<Longrightarrow> protocol_step s (set_row s j a r')"
| failure: "p_row s j a = Some r \<Longrightarrow> mar_State r \<noteq> ManagedAttemptResourceQuarantined \<Longrightarrow> same_row r r' \<Longrightarrow>
    mar_State r' \<in> {mar_State r, ManagedAttemptResourceQuarantined} \<Longrightarrow> mar_RayJobUID r' = mar_RayJobUID r \<Longrightarrow> same_lease r r' \<Longrightarrow>
    mar_LeaseVersion r' = mar_LeaseVersion r \<Longrightarrow> mar_ResourceFence r' = mar_ResourceFence r \<Longrightarrow> protocol_step s (set_row s j a r')"

subsection \<open>The invariant\<close>

text \<open>
  A live row belongs to the current attempt of an active managed job, so a job has at most one live
  attempt; fences are positive and never ahead of the lease version; the fence of a
  row under creation or in use was issued, and only a row in use has a UID.
\<close>

definition row_ok :: "protocol \<Rightarrow> string \<Rightarrow> int \<Rightarrow> ManagedAttemptResource \<Rightarrow> bool" where
  "row_ok s j a r \<longleftrightarrow> ledger_key r = (j, a) \<and> 0 \<le> mar_LeaseVersion r \<and>
     (live (mar_State r) \<longrightarrow> (\<exists>job. p_job s j = Some job \<and> active job \<and> jr_ClusterAttempt job = a)) \<and>
     (mar_State r \<in> {ManagedAttemptResourceReserved, ManagedAttemptResourceCreating} \<longrightarrow> mar_RayJobUID r = []) \<and>
     (mar_State r = ManagedAttemptResourceCreating \<longrightarrow> (j, a, mar_LeaseVersion r) \<in> p_fence s \<and> mar_ResourceFence r = mar_LeaseVersion r) \<and>
     (mar_State r \<in> {ManagedAttemptResourceActivating, ManagedAttemptResourceActive} \<longrightarrow>
        (j, a, mar_ResourceFence r) \<in> p_fence s \<and> mar_RayJobUID r \<noteq> [])"

definition protocol_inv :: "protocol \<Rightarrow> bool" where
  "protocol_inv s \<longleftrightarrow>
     (\<forall>i job. p_job s i = Some job \<longrightarrow> jr_ID job = i \<and> 1 \<le> jr_ClusterAttempt job) \<and>
     (\<forall>j a r. p_row s j a = Some r \<longrightarrow> row_ok s j a r) \<and>
     (\<forall>j a f. (j, a, f) \<in> p_fence s \<longrightarrow> 1 \<le> f \<and> (\<exists>r. p_row s j a = Some r \<and> f \<le> mar_LeaseVersion r))"

lemma row_ok_rows [simp]: "row_ok (s\<lparr>p_row := rows\<rparr>) j a r = row_ok s j a r"
  by (simp add: row_ok_def)

lemma row_ok_fence: "row_ok s j a r \<Longrightarrow> row_ok (s\<lparr>p_fence := insert f (p_fence s)\<rparr>) j a r"
  by (auto simp: row_ok_def)

lemma inv_jobD: "protocol_inv s \<Longrightarrow> p_job s i = Some job \<Longrightarrow> jr_ID job = i \<and> 1 \<le> jr_ClusterAttempt job"
  by (simp add: protocol_inv_def)

lemma inv_rowD: "protocol_inv s \<Longrightarrow> p_row s j a = Some r \<Longrightarrow> row_ok s j a r"
  by (simp add: protocol_inv_def)

lemma inv_fenceD: "protocol_inv s \<Longrightarrow> (j, a, f) \<in> p_fence s \<Longrightarrow> 1 \<le> f \<and> (\<exists>r. p_row s j a = Some r \<and> f \<le> mar_LeaseVersion r)"
  by (simp add: protocol_inv_def)

lemma inv_set_job:
  assumes "protocol_inv s" "jr_ID job' = i" "1 \<le> jr_ClusterAttempt job'"
    and "\<And>a r. p_row s i a = Some r \<Longrightarrow> live (mar_State r) \<Longrightarrow> active job' \<and> jr_ClusterAttempt job' = a"
  shows "protocol_inv (set_job s i job')"
proof -
  have "row_ok (set_job s i job') j a r" if "p_row s j a = Some r" for j a r
    using inv_rowD [OF assms(1) that] assms(4) that by (cases "j = i") (auto simp: row_ok_def)
  then show ?thesis using assms(1-3) by (simp add: protocol_inv_def)
qed

lemma inv_set_row:
  assumes "protocol_inv s" "row_ok s j a r" "\<And>r0. p_row s j a = Some r0 \<Longrightarrow> mar_LeaseVersion r0 \<le> mar_LeaseVersion r"
  shows "protocol_inv (set_row s j a r)"
proof -
  have "\<exists>r'. p_row (set_row s j a r) j' a' = Some r' \<and> f \<le> mar_LeaseVersion r'" if f: "(j', a', f) \<in> p_fence s" for j' a' f
  proof -
    obtain r0 where "p_row s j' a' = Some r0" "f \<le> mar_LeaseVersion r0" using inv_fenceD [OF assms(1) f] by blast
    then show ?thesis using assms(3) [of r0] by (cases "j' = j \<and> a' = a") auto
  qed
  moreover have "row_ok s j' a' r'" if "p_row (set_row s j a r) j' a' = Some r'" for j' a' r'
    using that assms(2) inv_rowD [OF assms(1)] by (auto split: if_splits)
  ultimately show ?thesis using assms(1) by (simp add: protocol_inv_def)
qed

lemma inv_retire:
  assumes "protocol_inv s" "\<forall>j a. row_retired j a (p_row s j a) (rows j a)"
  shows "protocol_inv (s\<lparr>p_row := rows\<rparr>)"
proof -
  have "row_ok s j a r" if r: "rows j a = Some r" for j a r
  proof -
    consider "p_row s j a = Some r" | r0 where "p_row s j a = Some r0" "retires r0 r"
      | "p_row s j a = None" "ledger_key r = (j, a)" "mar_State r = ManagedAttemptResourceRetiring" "mar_LeaseVersion r = 0"
      using assms(2) [rule_format, of j a] r unfolding row_retired_def by force
    then show ?thesis
    proof cases
      case 2
      then show ?thesis using inv_rowD [OF assms(1) 2(1)] by (simp add: row_ok_def retires_def same_row_def live_def)
    qed (use inv_rowD [OF assms(1)] in \<open>simp_all add: row_ok_def live_def\<close>)
  qed
  moreover have "\<exists>r'. rows j a = Some r' \<and> f \<le> mar_LeaseVersion r'" if "(j, a, f) \<in> p_fence s" for j a f
    using inv_fenceD [OF assms(1) that] assms(2) [rule_format, of j a] by (auto simp: row_retired_def retires_def)
  ultimately show ?thesis using assms(1) by (simp add: protocol_inv_def)
qed

lemma inv_grant:
  assumes "protocol_inv s" "p_row s j a = Some r" "mar_State r \<in> {ManagedAttemptResourceReserved, ManagedAttemptResourceCreating}"
    and "same_row r r'" "mar_RayJobUID r' = mar_RayJobUID r" "mar_State r' = ManagedAttemptResourceCreating"
    and "mar_LeaseVersion r' = mar_LeaseVersion r + 1" "mar_ResourceFence r' = mar_LeaseVersion r + 1"
  shows "protocol_inv ((set_row s j a r')\<lparr>p_fence := insert (j, a, mar_LeaseVersion r + 1) (p_fence s)\<rparr>)"
proof -
  let ?t = "(set_row s j a r')\<lparr>p_fence := insert (j, a, mar_LeaseVersion r + 1) (p_fence s)\<rparr>"
  have ok: "row_ok s j a r" using inv_rowD [OF assms(1,2)] .
  have "row_ok ?t j' a' x" if "p_row ?t j' a' = Some x" for j' a' x
  proof (cases "j' = j \<and> a' = a")
    case True
    then show ?thesis using that ok assms(3-8) by (auto simp: row_ok_def same_row_def live_def)
  next
    case False
    then have "row_ok s j' a' x" using that inv_rowD [OF assms(1)] by (auto split: if_splits)
    then show ?thesis by (auto simp: row_ok_def)
  qed
  moreover have "1 \<le> f \<and> (\<exists>x. p_row ?t j' a' = Some x \<and> f \<le> mar_LeaseVersion x)" if "(j', a', f) \<in> p_fence ?t" for j' a' f
    using that ok assms(2,7) inv_fenceD [OF assms(1), of j' a' f] by (auto simp: row_ok_def)
  ultimately show ?thesis using assms(1) by (simp add: protocol_inv_def)
qed

lemma protocol_inv_step: "protocol_step s t \<Longrightarrow> protocol_inv s \<Longrightarrow> protocol_inv t"
proof (induction rule: protocol_step.induct)
  case (new_job s i job)
  have "\<not> live (mar_State r)" if "p_row s i a = Some r" for a r
    using inv_rowD [OF new_job(4) that] new_job(1) by (auto simp: row_ok_def)
  with new_job show ?case by (intro inv_set_job) auto
next
  case (touch_job s i job job')
  have "active job' \<and> jr_ClusterAttempt job' = a" if "p_row s i a = Some r" "live (mar_State r)" for a r
    using inv_rowD [OF touch_job(3) that(1)] that touch_job(1,2) by (auto simp: row_ok_def active_def same_progress_def same_job_def)
  with touch_job inv_jobD [OF touch_job(3,1)] show ?case by (intro inv_set_job) (auto simp: same_progress_def same_job_def)
next
  case (observe s i job job')
  with inv_jobD [OF observe(8,1)] show ?case by (intro inv_set_job) (auto simp: same_job_def)
next
  case (progress s i job job')
  have "active job' \<and> jr_ClusterAttempt job' = a" if "p_row s i a = Some r" "live (mar_State r)" for a r
    using inv_rowD [OF progress(7) that(1)] that progress by (auto simp: row_ok_def active_def same_job_def)
  with progress inv_jobD [OF progress(7,1)] show ?case by (intro inv_set_job) (auto simp: same_job_def)
next
  case (cancel s i job job')
  with inv_jobD [OF cancel(8,1)] show ?case by (intro inv_set_job) (auto simp: same_job_def)
next
  case (recover s i job job')
  have "\<not> live (mar_State r)" if "p_row s i a = Some r" for a r
    using inv_rowD [OF recover(9) that] that recover(1,8) by (auto simp: row_ok_def)
  with recover inv_jobD [OF recover(9,1)] show ?case by (intro inv_set_job) (auto simp: same_job_def)
next
  case (reserve s j job a r)
  then show ?case by (intro inv_set_row) (auto simp: row_ok_def live_def)
next
  case (grant s j a r r')
  then show ?case by (intro inv_grant) auto
next
  case (adopt s j a r r')
  with inv_rowD [OF adopt(10,1)] show ?case by (intro inv_set_row) (auto simp: row_ok_def same_row_def live_def)
next
  case (confirm s j a r r')
  with inv_rowD [OF confirm(8,1)] show ?case by (intro inv_set_row) (auto simp: row_ok_def same_row_def live_def)
next
  case (retire s rows)
  then show ?case by (intro inv_retire) auto
next
  case (clean s j a r r')
  with inv_rowD [OF clean(6,1)] show ?case by (intro inv_set_row) (auto simp: row_ok_def same_row_def live_def)
next
  case (failure s j a r r')
  have "row_ok s j a r'"
  proof (cases "mar_State r' = mar_State r")
    case True
    then show ?thesis using inv_rowD [OF failure(9,1)] failure(3-8) by (simp add: row_ok_def same_row_def)
  next
    case False
    then show ?thesis using inv_rowD [OF failure(9,1)] failure(3-8) by (simp add: row_ok_def same_row_def live_def)
  qed
  with failure show ?case by (intro inv_set_row) simp_all
qed

subsection \<open>The order of progress\<close>

text \<open>
  Attempts and lease versions only grow, and attempts not beyond the allowed retries; cancellation,
  the terminal states and quarantine are final; an attempt moves forward through its stages and its
  lease changes hands only with a new version; no row and no fence is ever removed.
\<close>

fun stage :: "ManagedAttemptResourceState \<Rightarrow> nat" where
  "stage ManagedAttemptResourceReserved = 0"
| "stage ManagedAttemptResourceCreating = 1"
| "stage ManagedAttemptResourceActivating = 2"
| "stage ManagedAttemptResourceActive = 3"
| "stage _ = 4"

lemma live_stage: "live s \<longleftrightarrow> stage s < 4"
  by (cases s) (auto simp: live_def)

definition job_le :: "JobRecord \<Rightarrow> JobRecord \<Rightarrow> bool" where
  "job_le r r' \<longleftrightarrow> same_job r r' \<and> jr_ClusterAttempt r \<le> jr_ClusterAttempt r' \<and>
     jr_ClusterAttempt r' \<le> max (jr_ClusterAttempt r) (max_failures r + 1) \<and>
     (jr_DesiredState r \<noteq> DesiredActive \<longrightarrow> jr_DesiredState r' \<noteq> DesiredActive) \<and>
     (isTerminalState (jr_ObservedState r) \<longrightarrow> jr_ObservedState r' = jr_ObservedState r \<and> jr_ClusterAttempt r' = jr_ClusterAttempt r \<and>
        jr_FinishedAt r' = jr_FinishedAt r)"

definition row_le :: "ManagedAttemptResource \<Rightarrow> ManagedAttemptResource \<Rightarrow> bool" where
  "row_le r r' \<longleftrightarrow> same_row r r' \<and> mar_LeaseVersion r \<le> mar_LeaseVersion r' \<and> stage (mar_State r) \<le> stage (mar_State r') \<and>
     (mar_State r = ManagedAttemptResourceQuarantined \<longrightarrow> mar_State r' = ManagedAttemptResourceQuarantined) \<and>
     (mar_State r = ManagedAttemptResourceCreating \<longrightarrow> mar_State r' = ManagedAttemptResourceCreating \<longrightarrow>
        mar_LeaseVersion r' = mar_LeaseVersion r \<longrightarrow> same_lease r r') \<and>
     (mar_RayJobUID r \<noteq> [] \<longrightarrow> live (mar_State r') \<longrightarrow> mar_RayJobUID r' = mar_RayJobUID r)"

definition protocol_le :: "protocol \<Rightarrow> protocol \<Rightarrow> bool" where
  "protocol_le s t \<longleftrightarrow>
     (\<forall>i job. p_job s i = Some job \<longrightarrow> (\<exists>job'. p_job t i = Some job' \<and> job_le job job')) \<and>
     (\<forall>j a r. p_row s j a = Some r \<longrightarrow> (\<exists>r'. p_row t j a = Some r' \<and> row_le r r')) \<and> p_fence s \<subseteq> p_fence t"

lemma same_job_max_failures: "same_job r r' \<Longrightarrow> max_failures r' = max_failures r"
  by (simp add: same_job_def max_failures_def)

lemma job_le_refl [simp]: "job_le r r"
  by (simp add: job_le_def same_job_def)

lemma job_le_trans: "job_le r r' \<Longrightarrow> job_le r' r'' \<Longrightarrow> job_le r r''"
  using same_job_max_failures [of r r'] unfolding job_le_def same_job_def by auto

lemma row_le_refl [simp]: "row_le r r"
  by (simp add: row_le_def same_row_def same_lease_def)

lemma stage_Creating: "stage s = 1 \<longleftrightarrow> s = ManagedAttemptResourceCreating"
  by (cases s) simp_all

lemma row_le_trans:
  assumes "row_le r r'" "row_le r' r''"
  shows "row_le r r''"
proof -
  have "same_lease r r''" if c: "mar_State r = ManagedAttemptResourceCreating" "mar_State r'' = ManagedAttemptResourceCreating"
      "mar_LeaseVersion r'' = mar_LeaseVersion r"
  proof -
    have "stage (mar_State r') = 1" and v: "mar_LeaseVersion r' = mar_LeaseVersion r" using assms c by (simp_all add: row_le_def)
    then have "mar_State r' = ManagedAttemptResourceCreating" by (simp only: stage_Creating)
    then show ?thesis using assms c v by (simp add: row_le_def same_lease_def)
  qed
  moreover have "live (mar_State r')" if "live (mar_State r'')" using assms that by (simp add: row_le_def live_stage)
  ultimately show ?thesis using assms unfolding row_le_def same_row_def by auto
qed

lemma protocol_le_refl [simp]: "protocol_le s s"
  by (simp add: protocol_le_def)

lemma protocol_le_trans: "protocol_le s t \<Longrightarrow> protocol_le t u \<Longrightarrow> protocol_le s u"
  unfolding protocol_le_def by (meson job_le_trans row_le_trans order_trans)

lemma le_set_job: "(\<And>job. p_job s i = Some job \<Longrightarrow> job_le job job') \<Longrightarrow> protocol_le s (set_job s i job')"
  by (simp add: protocol_le_def)

lemma le_set_row: "(\<And>r. p_row s j a = Some r \<Longrightarrow> row_le r r') \<Longrightarrow> protocol_le s (set_row s j a r')"
  by (simp add: protocol_le_def)

lemmas job_le_defs = job_le_def same_progress_def same_job_def active_def

lemma stage_max [simp]: "stage s \<le> 4"
  by (cases s) simp_all

lemma protocol_le_step: "protocol_step s t \<Longrightarrow> protocol_le s t"
proof (induction rule: protocol_step.induct)
  case (new_job s i job)
  then show ?case by (intro le_set_job) simp
next
  case (touch_job s i job job')
  then show ?case by (intro le_set_job) (simp add: job_le_defs)
next
  case (observe s i job job')
  then show ?case by (intro le_set_job) (simp add: job_le_defs)
next
  case (progress s i job job')
  then show ?case by (intro le_set_job) (simp add: job_le_defs)
next
  case (cancel s i job job')
  then show ?case by (intro le_set_job) (simp add: job_le_defs)
next
  case (recover s i job job')
  then show ?case by (intro le_set_job) (simp add: job_le_defs)
next
  case (reserve s j job a r)
  then show ?case by (intro le_set_row) simp
next
  case (grant s j a r r')
  then have "row_le r r'" by (auto simp: row_le_def)
  with grant(1) show ?case by (auto simp: protocol_le_def)
next
  case (retire s rows)
  have "\<exists>r'. rows j a = Some r' \<and> row_le r r'" if "p_row s j a = Some r" for j a r
    using retire [rule_format, of j a] that by (auto simp: row_retired_def retires_def row_le_def same_row_def same_lease_def live_def)
  then show ?case by (simp add: protocol_le_def)
next
  case (failure s j a r r')
  then have "row_le r r'" by (auto simp: row_le_def)
  with failure show ?case by (intro le_set_row) simp
qed (rule le_set_row, auto simp: row_le_def live_def)+

interpretation protocol: step_preorder protocol_step protocol_inv protocol_le
  by unfold_locales (use protocol_inv_step protocol_le_step protocol_le_trans in \<open>auto\<close>)

subsection \<open>Consequences\<close>

lemma live_row:
  assumes "protocol_inv s" "p_row s j a = Some r" "live (mar_State r)"
  obtains job where "p_job s j = Some job" "active job" "jr_ClusterAttempt job = a"
  using inv_rowD [OF assms(1,2)] assms(3) by (auto simp: row_ok_def)

lemma one_live_attempt:
  assumes "protocol_inv s" "p_row s j a = Some r" "live (mar_State r)" "p_row s j b = Some r'" "live (mar_State r')"
  shows "a = b"
  using live_row [OF assms(1-3)] live_row [OF assms(1,4,5)] by (metis option.inject)

lemma inactive_not_live:
  assumes "protocol_inv s" "p_job s j = Some job" "\<not> active job" "p_row s j a = Some r"
  shows "\<not> live (mar_State r)"
  using live_row [OF assms(1,4)] assms(2,3) by (metis option.inject)

end
