(* ===== verification/Attempt_Refinement.thy ===== *)
theory Attempt_Refinement
  imports Attempt_Store Attempt_Protocol
begin

section \<open>The attempt operations refine the protocol\<close>

text \<open>
  Every operation of the job store, as a step of the store, is a sequence of moves of the abstract
  attempt protocol. The invariant and the order of the protocol therefore hold for every
  interleaving of the operations, from any database that satisfies the invariant, the empty one among them.
\<close>

declare isTerminalState_iff [simp del]

definition view :: "DB \<Rightarrow> protocol" where
  "view db = \<lparr>p_job = job_at db, p_row = ledger_at db, p_fence = fence_key ` set (db_fences db)\<rparr>"

lemma view_simps [simp]: "p_job (view db) = job_at db" "p_row (view db) = ledger_at db" "p_fence (view db) = fence_key ` set (db_fences db)"
  by (simp_all add: view_def)

inductive store_step :: "DB \<Rightarrow> DB \<Rightarrow> bool" where
  create: "Create q limits constraint ev sv now (Some j) key db = Inr (job, db') \<Longrightarrow> store_step db db'"
| cancel: "SetDesiredState now tenantID jobId DesiredCanceled db = Inr db' \<Longrightarrow> store_step db db'"
| observe: "ApplyObservedState now observed db = Inr db' \<Longrightarrow> store_step db db'"
| reserve: "ReserveManagedAttemptIdentity now req1 db = Inr (res1, db') \<Longrightarrow> store_step db db'"
| acquire: "AcquireManagedAttemptCreation now req2 at db = Inr (res2, db') \<Longrightarrow> store_step db db'"
| complete: "CompleteManagedAttemptCleanup now req3 db = Inr (res3, db') \<Longrightarrow> store_step db db'"
| failure: "RecordManagedAttemptCleanupFailure now req4 db = Inr db' \<Longrightarrow> store_step db db'"
| retire: "RetireManagedAttemptResource now req5 db = Inr (res5, db') \<Longrightarrow> store_step db db'"
| adopt: "AdoptManagedAttemptIdentity now req6 db = Inr (res6, db') \<Longrightarrow> store_step db db'"
| confirm: "ConfirmManagedAttemptActivation now req7 db = Inr (res7, db') \<Longrightarrow> store_step db db'"
| recover: "BeginManagedRecovery now req8 db = Inr (res8, db') \<Longrightarrow> store_step db db'"
| clear: "ClearManagedRecoveryRetiringIdentity now req9 db = Inr (res9, db') \<Longrightarrow> store_step db db'"
| sweep: "store_step db (MarkRayJobRetired now jobId retiredAt db)"
| claim: "store_step db (snd (ClaimOutbox now limit db))"
| mark_done: "store_step db (MarkOutboxDone now eventId db)"
| mark_retry: "store_step db (MarkOutboxRetry eventId next reason db)"

subsection \<open>Reading updated tables\<close>

lemma select_update_keep:
  "(\<And>r. p r \<Longrightarrow> key (f r) = key r) \<Longrightarrow>
   select_first (\<lambda>r. key r = k) (update_where p f rows) = map_option (\<lambda>r. if p r then f r else r) (select_first (\<lambda>r. key r = k) rows)"
  by (induction rows) (auto simp: select_first_def update_where_def)

lemma job_at_update:
  "(\<And>r. p r \<Longrightarrow> jr_ID (f r) = jr_ID r) \<Longrightarrow>
   job_at (db\<lparr>db_jobs := update_where p f (db_jobs db)\<rparr>) i = map_option (\<lambda>r. if p r then f r else r) (job_at db i)"
  using select_update_keep [of p jr_ID f i] by (simp add: job_at_def)

lemma ledger_at_update:
  "(\<And>r. p r \<Longrightarrow> ledger_key (f r) = ledger_key r) \<Longrightarrow>
   ledger_at (db\<lparr>db_ledger := update_where p f (db_ledger db)\<rparr>) j a = map_option (\<lambda>r. if p r then f r else r) (ledger_at db j a)"
  unfolding ledger_at_def by (simp add: select_update_keep [of p ledger_key f "(j, a)", simplified])

lemma at_frame [simp]:
  "job_at (db\<lparr>db_ledger := l\<rparr>) = job_at db" "job_at (db\<lparr>db_fences := fs\<rparr>) = job_at db" "job_at (db\<lparr>db_outbox := x\<rparr>) = job_at db"
  "job_at (db\<lparr>db_idempotency := y\<rparr>) = job_at db"
  "ledger_at (db\<lparr>db_jobs := js\<rparr>) = ledger_at db" "ledger_at (db\<lparr>db_fences := fs\<rparr>) = ledger_at db" "ledger_at (db\<lparr>db_outbox := x\<rparr>) = ledger_at db"
  "ledger_at (db\<lparr>db_idempotency := y\<rparr>) = ledger_at db"
  by (simp_all add: job_at_def ledger_at_def fun_eq_iff)

lemma job_at_ID: "job_at db i = Some r \<Longrightarrow> jr_ID r = i"
  using jobs.get_key by (simp add: job_at_def)

lemma ledger_at_key: "ledger_at db j a = Some r \<Longrightarrow> mar_JobID r = j \<and> mar_ClusterAttempt r = a"
  unfolding ledger_at_def by (drule select_first_in) simp

text \<open>An update that selects at most one key, seen through the view.\<close>

lemma view_update_job:
  assumes "job_at db i = Some row" "\<And>r. p r \<Longrightarrow> jr_ID r = i \<and> jr_ID (f r) = i" "p row"
  shows "view (db\<lparr>db_jobs := update_where p f (db_jobs db)\<rparr>) = set_job (view db) i (f row)"
proof -
  have "job_at (db\<lparr>db_jobs := update_where p f (db_jobs db)\<rparr>) k = (if k = i then Some (f row) else job_at db k)" for k
    using job_at_update [of p f db k] assms job_at_ID [of db k] by (auto simp: map_option_case split: option.splits)
  then show ?thesis by (simp add: view_def fun_eq_iff)
qed

lemma view_update_row:
  assumes "ledger_at db j a = Some row" "\<And>r. p r \<Longrightarrow> ledger_key r = (j, a) \<and> ledger_key (f r) = (j, a)" "p row"
  shows "view (db\<lparr>db_ledger := update_where p f (db_ledger db)\<rparr>) = set_row (view db) j a (f row)"
proof -
  have "ledger_at (db\<lparr>db_ledger := update_where p f (db_ledger db)\<rparr>) k b = (if k = j \<and> b = a then Some (f row) else ledger_at db k b)" for k b
  proof -
    have "ledger_at (db\<lparr>db_ledger := update_where p f (db_ledger db)\<rparr>) k b = map_option (\<lambda>r. if p r then f r else r) (ledger_at db k b)"
      by (rule ledger_at_update) (use assms(2) in simp)
    moreover have "\<not> p r" if "ledger_at db k b = Some r" "\<not> (k = j \<and> b = a)" for r
      using ledger_at_key [OF that(1)] that(2) assms(2) [of r] by auto
    ultimately show ?thesis using assms(1,3) by (cases "ledger_at db k b") auto
  qed
  then show ?thesis by (auto simp: view_def fun_eq_iff)
qed

lemma view_cong: "db_jobs db' = db_jobs db \<Longrightarrow> db_ledger db' = db_ledger db \<Longrightarrow> db_fences db' = db_fences db \<Longrightarrow> view db' = view db"
  by (simp add: view_def job_at_def ledger_at_def fun_eq_iff)

subsection \<open>Retirement\<close>

lemma retires_to_retiring:
  "mar_State r \<noteq> ManagedAttemptResourceQuarantined \<Longrightarrow> mar_RayJobUID r = [] \<or> uid = mar_RayJobUID r \<Longrightarrow> retires r (to_retiring now uid r)"
  by (auto simp: retires_def same_row_def to_retiring_def)

lemma retire_tx_effect:
  assumes "retireManagedAttemptResourceTx req now db = Inr ((row, changed), db')"
  shows "\<exists>rows. db' = db\<lparr>db_ledger := rows\<rparr>"
    and "\<forall>j a. row_retired j a (ledger_at db j a) (ledger_at db' j a)"
    and "ledger_at db' (ret_JobID req) (ret_ClusterAttempt req) = Some row \<and> \<not> live (mar_State row)"
proof -
  let ?j = "ret_JobID req" and ?a = "ret_ClusterAttempt req"
  have "(\<exists>rows. db' = db\<lparr>db_ledger := rows\<rparr>) \<and> (\<forall>j a. row_retired j a (ledger_at db j a) (ledger_at db' j a)) \<and>
    ledger_at db' ?j ?a = Some row \<and> \<not> live (mar_State row)"
  proof (cases "ledger_at db ?j ?a")
    case None
    let ?new = "new_ledger_row ?j ?a (ret_KubernetesNS req) (ret_RayJobName req) (ret_RayJobUID req) ManagedAttemptResourceRetiring now now"
    obtain rows where rows: "insert_new ledger_key ?new (db_ledger db) = Some rows" and db': "db' = db\<lparr>db_ledger := rows\<rparr>" and "row = ?new"
      using assms None by (auto simp: retireManagedAttemptResourceTx_def Let_def)
    have "ledger_at db' j a = (if (j, a) = (?j, ?a) then Some ?new else ledger_at db j a)" for j a
      using ledger.get_put [OF rows, of "(j, a)"] by (simp add: ledger_at_def db' new_ledger_row_def)
    then show ?thesis using None \<open>row = ?new\<close> db' by (auto simp: row_retired_def new_ledger_row_def live_def)
  next
    case (Some r)
    define uid where "uid = (if mar_RayJobUID r = [] then ret_RayJobUID req else mar_RayJobUID r)"
    consider "db' = db" "row = r" "mar_State r \<in> {ManagedAttemptResourceQuarantined, ManagedAttemptResourceRetiring}"
      | "mar_State r \<noteq> ManagedAttemptResourceQuarantined" "row = to_retiring now uid r" "mar_RayJobName r = ret_RayJobName req"
        "db' = db\<lparr>db_ledger := update_where (\<lambda>x. mar_JobID x = ?j \<and> mar_ClusterAttempt x = ?a \<and> mar_RayJobName x = ret_RayJobName req)
            (to_retiring now uid) (db_ledger db)\<rparr>"
      using assms Some by (auto simp: retireManagedAttemptResourceTx_def Let_def uid_def split: if_splits)
    then show ?thesis
    proof cases
      case 1
      then show ?thesis using Some by (auto simp: row_retired_def live_def intro: exI [of _ "db_ledger db"])
    next
      case 2
      have "view db' = set_row (view db) ?j ?a (to_retiring now uid r)"
        unfolding 2(4) by (rule view_update_row [OF Some]) (use 2(3) ledger_at_key [OF Some] in \<open>auto simp: to_retiring_def\<close>)
      then have at: "ledger_at db' = (ledger_at db)(?j := (ledger_at db ?j)(?a \<mapsto> to_retiring now uid r))"
        by (simp add: view_def)
      have "retires r (to_retiring now uid r)" using 2(1) by (intro retires_to_retiring) (auto simp: uid_def)
      then show ?thesis using Some 2(2,4) unfolding at by (auto simp: row_retired_def live_def to_retiring_def)
    qed
  qed
  then show "\<exists>rows. db' = db\<lparr>db_ledger := rows\<rparr>" "\<forall>j a. row_retired j a (ledger_at db j a) (ledger_at db' j a)"
    "ledger_at db' ?j ?a = Some row \<and> \<not> live (mar_State row)" by blast+
qed

lemma sim_retire_tx:
  assumes "retireManagedAttemptResourceTx req now db = Inr (res, db')"
  shows "protocol_step (view db) (view db')" "job_at db' = job_at db" "db_jobs db' = db_jobs db"
proof -
  obtain row changed where res: "res = (row, changed)" by (cases res)
  note eff = retire_tx_effect [OF assms [unfolded res]]
  obtain rows where db': "db' = db\<lparr>db_ledger := rows\<rparr>" using eff(1) by blast
  have "view db' = (view db)\<lparr>p_row := ledger_at db'\<rparr>" unfolding db' by (simp add: view_def)
  then show "protocol_step (view db) (view db')" using protocol_step.retire [of "view db" "ledger_at db'"] eff(2) by simp
  show "job_at db' = job_at db" "db_jobs db' = db_jobs db" unfolding db' by simp_all
qed

lemma retire_live_effect:
  defines "l now i db \<equiv> retire_live_attempts now i db"
  shows "protocol_step (view db) (view (l now i db))" "job_at (l now i db) = job_at db" "db_jobs (l now i db) = db_jobs db"
    "ledger_at (l now i db) i a = Some r \<Longrightarrow> \<not> live (mar_State r)"
proof -
  let ?f = "\<lambda>r. r\<lparr>mar_State := ManagedAttemptResourceRetiring, mar_LeaseOwner := [], mar_LeaseExpiresAt := None,
                 mar_NextCheckAt := now, mar_UpdatedAt := now\<rparr>"
  have at: "ledger_at (l now i db) j a = map_option (\<lambda>r. if mar_JobID r = i \<and> mar_State r \<in> set live_states then ?f r else r) (ledger_at db j a)" for j a
    unfolding l_def retire_live_attempts_def by (rule ledger_at_update) simp
  have step: "retires r (?f r)" if "mar_State r \<in> set live_states" for r
    using that by (auto simp: retires_def same_row_def live_states_def)
  have "row_retired j a (ledger_at db j a) (ledger_at (l now i db) j a)" for j a
  proof (cases "ledger_at db j a")
    case (Some r)
    then show ?thesis using step [of r] unfolding at Some row_retired_def by simp
  qed (simp add: at row_retired_def)
  moreover have "view (l now i db) = (view db)\<lparr>p_row := ledger_at (l now i db)\<rparr>"
    by (simp add: view_def l_def retire_live_attempts_def)
  ultimately show "protocol_step (view db) (view (l now i db))"
    using protocol_step.retire [of "view db" "ledger_at (l now i db)"] by simp
  show "job_at (l now i db) = job_at db" "db_jobs (l now i db) = db_jobs db" by (simp_all add: l_def retire_live_attempts_def)
  show "\<not> live (mar_State r)" if r: "ledger_at (l now i db) i a = Some r"
  proof -
    obtain r0 where r0: "ledger_at db i a = Some r0" and "r = (if mar_JobID r0 = i \<and> mar_State r0 \<in> set live_states then ?f r0 else r0)"
      using r unfolding at map_option_eq_Some by blast
    then have "r = (if mar_State r0 \<in> set live_states then ?f r0 else r0)" using ledger_at_key [OF r0] by (simp only:) simp
    then show ?thesis by (cases "mar_State r0 \<in> set live_states") (simp_all add: live_def live_states_def)
  qed
qed

lemma view_outbox [simp]: "view (insert_outbox_ignore e db) = view db"
  by (simp add: view_def insert_outbox_ignore_def)

lemma optional_retire:
  assumes "(if b then case retireManagedAttemptResourceTx req now db of Inl e \<Rightarrow> Inl (f e) | Inr (_, db') \<Rightarrow> Inr db' else Inr db) = Inr db1"
  shows "protocol_step\<^sup>*\<^sup>* (view db) (view db1)" "job_at db1 = job_at db" "db_jobs db1 = db_jobs db"
proof -
  consider "db1 = db" | res where "retireManagedAttemptResourceTx req now db = Inr (res, db1)"
    using assms by (auto split: if_splits sum.splits prod.splits)
  then show "protocol_step\<^sup>*\<^sup>* (view db) (view db1)" "job_at db1 = job_at db" "db_jobs db1 = db_jobs db"
    using sim_retire_tx by (cases; blast)+
qed

lemma sim_cancel_attempts:
  assumes "cancel_attempts now row db = Inr db'"
  shows "protocol_step\<^sup>*\<^sup>* (view db) (view db')" "job_at db' = job_at db" "db_jobs db' = db_jobs db"
    "ledger_at db' (jr_ID row) a = Some r \<Longrightarrow> \<not> live (mar_State r)"
proof -
  obtain db1 where db1: "protocol_step\<^sup>*\<^sup>* (view db) (view db1)" "job_at db1 = job_at db" "db_jobs db1 = db_jobs db"
    and db': "db' = retire_live_attempts now (jr_ID row) db1"
    using assms unfolding cancel_attempts_def Let_def and_then_Inr sum.inject using optional_retire by blast
  show "protocol_step\<^sup>*\<^sup>* (view db) (view db')"
    using db1(1) retire_live_effect(1) [of db1 now "jr_ID row"] unfolding db' by (meson rtranclp.rtrancl_into_rtrancl)
  show "job_at db' = job_at db" "db_jobs db' = db_jobs db" using db1 retire_live_effect(2,3) unfolding db' by metis+
  show "ledger_at db' (jr_ID row) a = Some r \<Longrightarrow> \<not> live (mar_State r)" using retire_live_effect(4) unfolding db' .
qed

lemma sim_finish_attempts:
  assumes "finish_attempts now row obs db = Inr db'"
  shows "protocol_step\<^sup>*\<^sup>* (view db) (view db')" "job_at db' = job_at db" "db_jobs db' = db_jobs db"
    "ledger_at db' (jr_ID row) a = Some r \<Longrightarrow> \<not> live (mar_State r)"
proof -
  obtain db1 where db1: "protocol_step\<^sup>*\<^sup>* (view db) (view db1)" "job_at db1 = job_at db" "db_jobs db1 = db_jobs db"
    and db': "db' = retire_live_attempts now (jr_ID row) db1"
    using assms unfolding finish_attempts_def Let_def and_then_Inr sum.inject using optional_retire by blast
  show "protocol_step\<^sup>*\<^sup>* (view db) (view db')"
    using db1(1) retire_live_effect(1) [of db1 now "jr_ID row"] unfolding db' by (meson rtranclp.rtrancl_into_rtrancl)
  show "job_at db' = job_at db" "db_jobs db' = db_jobs db" using db1 retire_live_effect(2,3) unfolding db' by metis+
  show "ledger_at db' (jr_ID row) a = Some r \<Longrightarrow> \<not> live (mar_State r)" using retire_live_effect(4) unfolding db' .
qed

subsection \<open>Cancellation and observation\<close>

lemma select_tenant_job:
  "distinct (map jr_ID (db_jobs db)) \<Longrightarrow> select_first (\<lambda>r. jr_TenantID r = t \<and> jr_ID r = i) (db_jobs db) = Some row \<Longrightarrow> job_at db i = Some row"
  unfolding job_at_def by (drule select_first_in) (auto intro!: select_unique [where key = jr_ID])

lemma raw_engine: "active job \<Longrightarrow> TrainingEngine_Resolved (jr_TrainingEngine job) = TrainingEngineRayTrain"
  by (simp add: active_def TrainingEngineRayTrain_def)

lemma sim_SetDesiredState:
  assumes "SetDesiredState now t i DesiredCanceled db = Inr db'" "protocol_inv (view db)" "distinct (map jr_ID (db_jobs db))"
  shows "protocol_step\<^sup>*\<^sup>* (view db) (view db')"
proof -
  obtain row db1 where row: "select_first (\<lambda>r. jr_TenantID r = t \<and> jr_ID r = i) (db_jobs db) = Some row"
    and db1: "(if TrainingEngine_Resolved (jr_TrainingEngine row) = TrainingEngineRayTrain then cancel_attempts now row db else Inr db) = Inr db1"
    and db': "view db' = view (db1\<lparr>db_jobs := update_where (\<lambda>r. jr_TenantID r = t \<and> jr_ID r = i)
                         (\<lambda>r. r\<lparr>jr_DesiredState := DesiredCanceled, jr_UpdatedAt := now\<rparr>) (db_jobs db1)\<rparr>)"
    using assms(1) by (auto simp: SetDesiredState_def Let_def)
  have at: "job_at db i = Some row" by (rule select_tenant_job [OF assms(3) row])
  have t: "jr_TenantID row = t" "jr_ID row = i" using select_first_in [OF row] by simp_all
  have steps: "protocol_step\<^sup>*\<^sup>* (view db) (view db1)" and at1: "job_at db1 i = Some row"
    and dead: "\<forall>a r. ledger_at db1 i a = Some r \<longrightarrow> \<not> live (mar_State r)"
  proof (atomize (full), cases "TrainingEngine_Resolved (jr_TrainingEngine row) = TrainingEngineRayTrain")
    case True
    then show "protocol_step\<^sup>*\<^sup>* (view db) (view db1) \<and> job_at db1 i = Some row \<and> (\<forall>a r. ledger_at db1 i a = Some r \<longrightarrow> \<not> live (mar_State r))"
      using db1 sim_cancel_attempts [of now row db db1] at t by simp
  next
    case False
    then have "\<not> active row" using raw_engine by blast
    then show "protocol_step\<^sup>*\<^sup>* (view db) (view db1) \<and> job_at db1 i = Some row \<and> (\<forall>a r. ledger_at db1 i a = Some r \<longrightarrow> \<not> live (mar_State r))"
      using db1 False at inactive_not_live [OF assms(2), of i row] by auto
  qed
  have "view db' = set_job (view db1) i (row\<lparr>jr_DesiredState := DesiredCanceled, jr_UpdatedAt := now\<rparr>)"
    unfolding db' by (rule view_update_job [OF at1]) (use t in auto)
  moreover have "protocol_step (view db1) (set_job (view db1) i (row\<lparr>jr_DesiredState := DesiredCanceled, jr_UpdatedAt := now\<rparr>))"
    by (rule protocol_step.cancel) (use at1 dead in \<open>auto simp: same_job_def\<close>)
  ultimately show ?thesis using steps by (metis rtranclp.rtrancl_into_rtrancl)
qed

lemma swap_updates: "db\<lparr>db_jobs := js, db_ledger := ls\<rparr> = db\<lparr>db_ledger := ls, db_jobs := js\<rparr>"
  by simp

lemma retire_tx_jobs:
  "retireManagedAttemptResourceTx req now (db\<lparr>db_jobs := js\<rparr>) =
   map_sum id (map_prod id (\<lambda>d. d\<lparr>db_jobs := js\<rparr>)) (retireManagedAttemptResourceTx req now db)"
  by (auto simp: retireManagedAttemptResourceTx_def Let_def require_def or_fail_def split: option.splits)

lemma finish_attempts_jobs:
  assumes "finish_attempts now row obs (db\<lparr>db_jobs := js\<rparr>) = Inr db'"
  shows "\<exists>db1. finish_attempts now row obs db = Inr db1 \<and> db' = db1\<lparr>db_jobs := js\<rparr>"
proof -
  have swap: "retire_live_attempts now i (d\<lparr>db_jobs := js\<rparr>) = (retire_live_attempts now i d)\<lparr>db_jobs := js\<rparr>" for i d
    by (simp add: retire_live_attempts_def)
  show ?thesis
    using assms unfolding finish_attempts_def Let_def retire_tx_jobs and_then_Inr sum.inject
    by (auto simp: swap split: if_splits sum.splits prod.splits)
qed

lemma view_set_job:
  assumes "job_at db i = Some row" "\<And>r. p r \<Longrightarrow> jr_ID r = i \<and> jr_ID (f r) = i" "p row" "db_jobs db = js"
  shows "view (db\<lparr>db_jobs := update_where p f js\<rparr>) = set_job (view db) i (f row)"
  unfolding assms(4) [symmetric] by (rule view_update_job) (use assms(1-3) in blast)+

lemma sim_ApplyObservedState:
  assumes "ApplyObservedState now obs db = Inr db'" "protocol_inv (view db)"
  shows "protocol_step\<^sup>*\<^sup>* (view db) (view db')"
proof -
  let ?i = "obs_JobID obs" and ?up = "update_where (\<lambda>r. jr_ID r = obs_JobID obs) (observed_updates now obs)"
  obtain row where at: "job_at db ?i = Some row" using assms(1) by (auto simp: ApplyObservedState_def split: if_splits)
  have upd: "same_job row (observed_updates now obs row)" "jr_ClusterAttempt (observed_updates now obs row) = jr_ClusterAttempt row"
    "jr_DesiredState (observed_updates now obs row) = jr_DesiredState row" "jr_ObservedState (observed_updates now obs row) = obs_State obs"
    by (simp_all add: observed_updates_def same_job_def)
  have set: "view (db1\<lparr>db_jobs := ?up (db_jobs db)\<rparr>) = set_job (view db1) ?i (observed_updates now obs row)"
    if "job_at db1 = job_at db" "db_jobs db1 = db_jobs db" for db1
    by (rule view_set_job) (use that at job_at_ID [OF at] in \<open>auto simp: observed_updates_def\<close>)
  consider "db' = db"
    | "\<not> isTerminalState (jr_ObservedState row)" "\<not> isTerminalState (obs_State obs)" "db' = db\<lparr>db_jobs := ?up (db_jobs db)\<rparr>"
    | db2 where "\<not> isTerminalState (jr_ObservedState row)" "isTerminalState (obs_State obs)" "view db' = view db2"
      "(if TrainingEngine_Resolved (jr_TrainingEngine row) = TrainingEngineRayTrain then finish_attempts now row obs (db\<lparr>db_jobs := ?up (db_jobs db)\<rparr>)
             else Inr (db\<lparr>db_jobs := ?up (db_jobs db)\<rparr>)) = Inr db2"
    using assms(1) at by (auto simp: ApplyObservedState_def Let_def split: if_splits)
  then show ?thesis
  proof cases
    case 2
    then have "protocol_step (view db) (view db')"
      using set [of db] protocol_step.progress [of "view db" ?i row] at upd by simp
    then show ?thesis by blast
  next
    case 3
    have "\<exists>db1. protocol_step\<^sup>*\<^sup>* (view db) (view db1) \<and> job_at db1 = job_at db \<and> db_jobs db1 = db_jobs db \<and> db2 = db1\<lparr>db_jobs := ?up (db_jobs db)\<rparr> \<and>
        (\<forall>a r. ledger_at db1 ?i a = Some r \<longrightarrow> \<not> live (mar_State r))"
    proof (cases "TrainingEngine_Resolved (jr_TrainingEngine row) = TrainingEngineRayTrain")
      case True
      have "finish_attempts now row obs (db\<lparr>db_jobs := ?up (db_jobs db)\<rparr>) = Inr db2" using 3(4) unfolding if_P [OF True] .
      from finish_attempts_jobs [OF this] obtain db1 where fin: "finish_attempts now row obs db = Inr db1"
        and db2: "db2 = db1\<lparr>db_jobs := ?up (db_jobs db)\<rparr>" by blast
      show ?thesis using sim_finish_attempts [OF fin] db2 unfolding job_at_ID [OF at] by blast
    next
      case False
      then have "\<not> active row" using raw_engine by blast
      then have "\<forall>a r. ledger_at db ?i a = Some r \<longrightarrow> \<not> live (mar_State r)" using inactive_not_live [OF assms(2), of ?i row] at by simp
      moreover have "db2 = db\<lparr>db_jobs := ?up (db_jobs db)\<rparr>" using 3(4) unfolding if_not_P [OF False] by blast
      ultimately show ?thesis by blast
    qed
    then obtain db1 where steps: "protocol_step\<^sup>*\<^sup>* (view db) (view db1)" and db1: "job_at db1 = job_at db" "db_jobs db1 = db_jobs db"
      and db2: "db2 = db1\<lparr>db_jobs := ?up (db_jobs db)\<rparr>" and dead: "\<forall>a r. ledger_at db1 ?i a = Some r \<longrightarrow> \<not> live (mar_State r)"
      by blast
    have "protocol_step (view db1) (view db')"
      unfolding 3(3) db2 set [OF db1] by (rule protocol_step.observe) (use at db1 dead upd 3 in auto)
    with steps show ?thesis by (rule rtranclp.rtrancl_into_rtrancl)
  qed simp
qed

subsection \<open>Reservation, lease, adoption and activation\<close>

lemma reload_Inr: "reload m i b db = Inr (res, db') \<Longrightarrow> db' = db \<and> snd res = b"
  by (auto simp: reload_def)

lemma in_select_count:
  assumes "job_at db i = Some row" "count_where p (db_jobs db) \<noteq> 0" "distinct (map jr_ID (db_jobs db))" "\<And>r. p r \<Longrightarrow> jr_ID r = i"
  shows "p row"
proof -
  obtain r where r: "r \<in> set (db_jobs db)" "p r" using assms(2) unfolding count_where_0 by blast
  have row: "row \<in> set (db_jobs db)" "jr_ID row = i" using select_first_in [OF assms(1) [unfolded job_at_def]] by simp_all
  have "r = row" by (rule unique_row [OF assms(3) r(1) row(1)]) (simp add: assms(4) [OF r(2)] row(2))
  with r(2) show ?thesis by simp
qed

lemma sim_Reserve:
  assumes "ReserveManagedAttemptIdentity now req db = Inr (res, db')" "distinct (map jr_ID (db_jobs db))"
  shows "protocol_step\<^sup>*\<^sup>* (view db) (view db')"
proof -
  let ?i = "resv_JobID req" and ?a = "resv_ExpectedClusterAttempt req"
  let ?new = "new_ledger_row ?i ?a (resv_KubernetesNS req) (resv_RayJobName req) [] ManagedAttemptResourceReserved 0 now"
  let ?cas = "\<lambda>r. jr_ID r = ?i \<and> jr_TrainingEngine r = TrainingEngineRayTrain \<and> jr_DesiredState r = DesiredActive \<and>
                      jr_ClusterAttempt r = ?a \<and> jr_ObservedState r = resv_ExpectedState req \<and>
                      jr_RayJobName r = resv_ExpectedRayJobName req \<and> jr_RayJobUID r = []"
  let ?f = "\<lambda>r. r\<lparr>jr_RayJobName := resv_RayJobName req, jr_LastObservedAt := Some now, jr_UpdatedAt := now\<rparr>"
  have state: "managedAttemptReservableState (resv_ExpectedState req)"
    using assms(1) by (auto simp: ReserveManagedAttemptIdentity_def ManagedAttemptReservationRequest_Validate_def)
  obtain row where at: "job_at db ?i = Some row" using assms(1) by (auto simp: ReserveManagedAttemptIdentity_def)
  consider "db' = db"
    | rows where "insert_new ledger_key ?new (db_ledger db) = Some rows" "count_where ?cas (db_jobs db) \<noteq> 0"
        "db' = db\<lparr>db_ledger := rows, db_jobs := update_where ?cas ?f (db_jobs db)\<rparr>"
    using assms(1) at by (auto simp: ReserveManagedAttemptIdentity_def Let_def dest!: reload_Inr split: if_splits)
  then show ?thesis
  proof cases
    case 2
    have cas: "?cas row" by (rule in_select_count [OF at 2(2) assms(2)]) blast
    have act: "active row" using cas reservable_not_terminal [OF state] by (simp add: active_def)
    have none: "ledger_at db ?i ?a = None"
      using 2(1) ledger.put_taken [of ?new "db_ledger db"] by (simp add: ledger_at_def new_ledger_row_def)
    have rows: "view (db\<lparr>db_ledger := rows\<rparr>) = set_row (view db) ?i ?a ?new"
      using ledger.get_put [OF 2(1)] by (auto simp: view_def ledger_at_def new_ledger_row_def fun_eq_iff)
    have jobs: "view db' = set_job (view (db\<lparr>db_ledger := rows\<rparr>)) ?i (?f row)"
      unfolding 2(3) by (rule view_set_job) (use at cas in auto)
    have "protocol_step (view db) (view (db\<lparr>db_ledger := rows\<rparr>))"
      unfolding rows by (rule protocol_step.reserve [of _ _ row]) (use at act cas none in \<open>auto simp: new_ledger_row_def\<close>)
    moreover have "protocol_step (view (db\<lparr>db_ledger := rows\<rparr>)) (view db')"
      unfolding jobs by (rule protocol_step.touch_job [of _ _ row]) (use at in \<open>auto simp: same_progress_def same_job_def\<close>)
    ultimately show ?thesis by (rule converse_rtranclp_into_rtranclp [OF _ r_into_rtranclp])
  qed simp
qed

text \<open>What the creation lease does: nothing, or one grant with the next version and its fence.\<close>

lemma grant_lease_db:
  assumes "ledger_at db j a = Some row"
  shows "grant_lease req now job row db =
    ((job, granted req now row row, True),
     db\<lparr>db_ledger := update_where (\<lambda>r. mar_JobID r = j \<and> mar_ClusterAttempt r = a \<and> mar_State r = mar_State row \<and> mar_LeaseVersion r = mar_LeaseVersion row)
          (granted req now row) (db_ledger db),
        db_fences := fst (insert_ignore fence_key \<lparr>fence_JobID = j, fence_ClusterAttempt = a,
          fence_Fence = mar_LeaseVersion row + 1, fence_CreatedAt = now\<rparr> (db_fences db))\<rparr>)"
proof -
  have row: "mar_JobID row = j" "mar_ClusterAttempt row = a" and "row \<in> set (db_ledger db)"
    using ledger_at_key [OF assms] select_first_in [OF assms [unfolded ledger_at_def]] by simp_all
  then have "count_where (\<lambda>r. mar_JobID r = j \<and> mar_ClusterAttempt r = a \<and> mar_State r = mar_State row \<and> mar_LeaseVersion r = mar_LeaseVersion row)
      (db_ledger db) \<noteq> 0"
    unfolding count_where_0 by blast
  then show ?thesis by (simp add: grant_lease_def Let_def row)
qed

lemma grant_lease_job: "grant_lease req now x row db = ((job, res), db') \<Longrightarrow> x = job"
  by (auto simp: grant_lease_def Let_def split: if_splits)

lemma Acquire_cases:
  assumes "AcquireManagedAttemptCreation clock req at db = Inr ((job, res, acquired), db')"
  defines "now \<equiv> if at = 0 then clock else at"
  obtains (refused) "db' = db" "\<not> acquired"
  | (held) row where "db' = db" "ledger_at db (lease_JobID req) (lease_ExpectedClusterAttempt req) = Some row" "res = row"
      "lease_held now row" "acquired \<longleftrightarrow> mar_LeaseOwner row = lease_LeaseOwner req" "\<not> lease_mismatch req job row" "unresolved_lower req db = 0"
  | (new) row jobrow where "ledger_at db (lease_JobID req) (lease_ExpectedClusterAttempt req) = Some row"
      "job_at db (lease_JobID req) = Some jobrow" "toDomain jobrow = Inr job" "\<not> lease_mismatch req job row" "unresolved_lower req db = 0"
      "mar_State row \<in> {ManagedAttemptResourceReserved, ManagedAttemptResourceCreating}" "\<not> lease_held now row"
      "((job, res, acquired), db') = grant_lease req now job row db"
  using assms(1) unfolding AcquireManagedAttemptCreation_def Let_def now_def [symmetric] or_fail_Inr require_Inr and_then_Inr
  by (auto split: if_splits) (metis grant_lease_job)+

lemma grant_view:
  assumes "ledger_at db j a = Some row" "(res, db') = grant_lease req now job row db"
  shows "view db' = (set_row (view db) j a (granted req now row row))\<lparr>p_fence := insert (j, a, mar_LeaseVersion row + 1) (p_fence (view db))\<rparr>"
proof -
  let ?hit = "\<lambda>r. mar_JobID r = j \<and> mar_ClusterAttempt r = a \<and> mar_State r = mar_State row \<and> mar_LeaseVersion r = mar_LeaseVersion row"
  let ?fence = "\<lparr>fence_JobID = j, fence_ClusterAttempt = a, fence_Fence = mar_LeaseVersion row + 1, fence_CreatedAt = now\<rparr>"
  have db': "db' = db\<lparr>db_ledger := update_where ?hit (granted req now row) (db_ledger db), db_fences := fst (insert_ignore fence_key ?fence (db_fences db))\<rparr>"
    using assms(2) unfolding grant_lease_db [OF assms(1)] by simp
  have "fence_key ` set (fst (insert_ignore fence_key ?fence (db_fences db))) = insert (j, a, mar_LeaseVersion row + 1) (fence_key ` set (db_fences db))"
    by (auto simp: in_insert_ignore insert_ignore_def insert_new_def)
  moreover have "view (db\<lparr>db_ledger := update_where ?hit (granted req now row) (db_ledger db)\<rparr>) = set_row (view db) j a (granted req now row row)"
    by (rule view_update_row [OF assms(1)]) (use ledger_at_key [OF assms(1)] in \<open>auto simp: granted_def\<close>)
  ultimately show ?thesis unfolding db' by (simp add: view_def job_at_def ledger_at_def fun_eq_iff)
qed

lemma no_unresolved_lower:
  assumes "unresolved_lower req db = 0" "b < lease_ExpectedClusterAttempt req" "ledger_at db (lease_JobID req) b = Some r"
  shows "mar_State r = ManagedAttemptResourceCleaned"
  using assms(1,2) ledger_at_key [OF assms(3)] select_first_in [OF assms(3) [unfolded ledger_at_def]]
  by (auto simp: unresolved_lower_def count_where_0)

lemma sim_Acquire:
  assumes "AcquireManagedAttemptCreation clock req at db = Inr (res, db')" "distinct (map ledger_key (db_ledger db))"
  shows "protocol_step\<^sup>*\<^sup>* (view db) (view db')"
proof -
  obtain job r acquired where res: "res = (job, r, acquired)" by (cases res)
  show ?thesis
    using assms(1) unfolding res
  proof (cases rule: Acquire_cases)
    case (new row jobrow)
    have "protocol_step (view db) (view db')" unfolding grant_view [OF new(1,8)]
      by (rule protocol_step.grant) (use new no_unresolved_lower [OF new(5)] in \<open>auto simp: granted_def same_row_def\<close>)
    then show ?thesis by blast
  qed simp_all
qed

lemma sim_Complete:
  assumes "CompleteManagedAttemptCleanup now req db = Inr (res, db')"
  shows "protocol_step\<^sup>*\<^sup>* (view db) (view db')"
proof -
  let ?j = "cln_JobID req" and ?a = "cln_ClusterAttempt req"
  let ?hit = "\<lambda>r. mar_JobID r = ?j \<and> mar_ClusterAttempt r = ?a \<and> mar_RayJobName r = cln_RayJobName req \<and>
                    mar_RayJobUID r = cln_RayJobUID req \<and> mar_State r \<in> {ManagedAttemptResourceRetiring, ManagedAttemptResourceCleaned}"
  let ?f = "\<lambda>r. r\<lparr>mar_RayJobUID := [], mar_State := ManagedAttemptResourceCleaned, mar_LeaseOwner := [],
             mar_LeaseExpiresAt := None, mar_CleanupFailures := 0, mar_CleanupLastError := [], mar_NextCheckAt := now + 5 * Minute,
             mar_UpdatedAt := now\<rparr>"
  have db': "db' = db\<lparr>db_ledger := update_where ?hit ?f (db_ledger db)\<rparr>"
    using assms by (simp add: CompleteManagedAttemptCleanup_def Let_def)
  have at: "ledger_at db' j a = map_option (\<lambda>r. if ?hit r then ?f r else r) (ledger_at db j a)" for j a
    unfolding db' by (rule ledger_at_update) simp
  show ?thesis
  proof (cases "\<exists>row. ledger_at db ?j ?a = Some row \<and> ?hit row")
    case True
    then obtain row where row: "ledger_at db ?j ?a = Some row" "?hit row" by blast
    have "view db' = set_row (view db) ?j ?a (?f row)"
      unfolding db' by (rule view_update_row [OF row(1)]) (use row(2) in auto)
    moreover have "protocol_step (view db) (set_row (view db) ?j ?a (?f row))"
      by (rule protocol_step.clean) (use row in \<open>auto simp: same_row_def\<close>)
    ultimately show ?thesis by auto
  next
    case False
    have "ledger_at db' j a = ledger_at db j a" for j a
    proof (cases "ledger_at db j a")
      case (Some r)
      with False ledger_at_key [OF Some] have "\<not> ?hit r" by auto
      with Some show ?thesis unfolding at by (simp only: option.map if_False)
    qed (simp add: at)
    then have "view db' = view db" by (simp add: view_def fun_eq_iff db' del: view_simps)
    then show ?thesis by simp
  qed
qed

lemma sim_Failure:
  assumes "RecordManagedAttemptCleanupFailure clock req db = Inr db'"
    and "distinct (map ledger_key (db_ledger db))"
  shows "protocol_step\<^sup>*\<^sup>* (view db) (view db')"
proof -
  let ?j = "cf_JobID req" and ?a = "cf_ClusterAttempt req"
  define f where "f = (\<lambda>now message (row :: ManagedAttemptResource) (r :: ManagedAttemptResource). r\<lparr>mar_State := (if cf_Permanent req then ManagedAttemptResourceQuarantined else mar_State row),
    mar_CleanupFailures := mar_CleanupFailures row + 1, mar_CleanupLastError := message,
    mar_NextCheckAt := (if cf_Permanent req then now + 24 * Hour else now + managedCleanupRetryDelay (mar_CleanupFailures row + 1)), mar_UpdatedAt := now :: int\<rparr>)"
  obtain row now message where sel: "select_first (\<lambda>r. mar_JobID r = ?j \<and> mar_ClusterAttempt r = ?a \<and>
        mar_RayJobName r = cf_RayJobName req \<and> (cf_RayJobUID req = [] \<or> mar_RayJobUID r = cf_RayJobUID req)) (db_ledger db) = Some row"
    and db': "db' = db \<or> mar_State row \<noteq> ManagedAttemptResourceQuarantined \<and>
      view db' = view (db\<lparr>db_ledger := update_where (\<lambda>r. mar_JobID r = ?j \<and> mar_ClusterAttempt r = ?a) (f now message row) (db_ledger db)\<rparr>)"
    using assms(1) unfolding RecordManagedAttemptCleanupFailure_def f_def Let_def or_fail_Inr require_Inr by (fastforce split: if_splits)
  have row: "row \<in> set (db_ledger db)" "ledger_key row = (?j, ?a)" using select_first_in [OF sel] by simp_all
  have at: "ledger_at db ?j ?a = Some row"
    unfolding ledger_at_def by (rule select_unique [OF assms(2) row(1)]) (use row(2) in auto)
  have "view (db\<lparr>db_ledger := update_where (\<lambda>r. mar_JobID r = ?j \<and> mar_ClusterAttempt r = ?a) (f now message row) (db_ledger db)\<rparr>) =
      set_row (view db) ?j ?a (f now message row row)"
    by (rule view_update_row [OF at]) (use row(2) in \<open>auto simp: f_def\<close>)
  moreover have "protocol_step (view db) (set_row (view db) ?j ?a (f now message row row))" if "mar_State row \<noteq> ManagedAttemptResourceQuarantined"
    by (rule protocol_step.failure) (use at that in \<open>auto simp: same_row_def same_lease_def f_def\<close>)
  ultimately show ?thesis using db' by auto
qed

lemma update_count_0: "count_where p rows = 0 \<Longrightarrow> update_where p f rows = rows"
  unfolding count_where_0 by (rule update_where_none)

lemma fence_issued: "managedAttemptFenceIssuedTx db j a f \<Longrightarrow> (j, a, f) \<in> fence_key ` set (db_fences db)"
proof -
  assume "managedAttemptFenceIssuedTx db j a f"
  then have "count_where (\<lambda>x. fence_JobID x = j \<and> fence_ClusterAttempt x = a \<and> fence_Fence x = f) (db_fences db) \<noteq> 0"
    by (simp add: managedAttemptFenceIssuedTx_def)
  then show ?thesis unfolding count_where_0 by force
qed

lemma Adopt_cases:
  assumes "AdoptManagedAttemptIdentity now req db = Inr (res, db')"
  obtains (same) "db' = db"
  | (new) jobrow job row where "job_at db (adopt_JobID req) = Some jobrow" "toDomain jobrow = Inr job" "\<not> adoption_stale req job"
      "ledger_at db (adopt_JobID req) (adopt_ExpectedClusterAttempt req) = Some row" "\<not> adoption_lease_mismatch req row"
      "managedAttemptFenceIssuedTx db (adopt_JobID req) (adopt_ExpectedClusterAttempt req) (adopt_ResourceFence req)"
      "ManagedAttemptAdoptionRequest_Validate req = None" "adopt_tx now req db = Inr (res, db')"
  using assms unfolding AdoptManagedAttemptIdentity_def Let_def or_fail_Inr require_Inr and_then_Inr
  by (auto split: if_splits)

lemma adopt_tx_cases:
  assumes "adopt_tx now req db = Inr (res, db')" "job_at db (adopt_JobID req) = Some jobrow" "distinct (map jr_ID (db_jobs db))"
    and "ledger_at db (adopt_JobID req) (adopt_ExpectedClusterAttempt req) = Some row" "\<not> adoption_lease_mismatch req row"
  obtains (stale) "db' = db" "\<not> snd res"
  | (adopted) "snd res" "jr_ObservedState jobrow = adopt_ExpectedState req" "jr_RayJobUID jobrow = []" "jr_ClusterAttempt jobrow = adopt_ExpectedClusterAttempt req"
     "view db' = set_job (set_row (view db) (adopt_JobID req) (adopt_ExpectedClusterAttempt req)
         (row\<lparr>mar_RayJobUID := adopt_RayJobUID req, mar_ResourceFence := adopt_ResourceFence req,
             mar_State := ManagedAttemptResourceActivating, mar_LeaseOwner := [], mar_LeaseExpiresAt := None, mar_UpdatedAt := now\<rparr>))
        (adopt_JobID req) (jobrow\<lparr>jr_KubernetesNS := adopt_KubernetesNS req, jr_RayJobUID := adopt_RayJobUID req,
                  jr_ResourceVersion := adopt_ResourceVersion req, jr_LastObservedAt := Some now, jr_UpdatedAt := now\<rparr>)"
proof -
  define cas where "cas = (\<lambda>r :: JobRecord. jr_ID r = adopt_JobID req \<and> jr_TrainingEngine r = TrainingEngineRayTrain \<and> jr_DesiredState r = DesiredActive \<and>
                     jr_ClusterAttempt r = adopt_ExpectedClusterAttempt req \<and> jr_ObservedState r = adopt_ExpectedState req \<and>
                     jr_RayJobName r = adopt_RayJobName req \<and> jr_RayJobUID r = [])"
  define hit where "hit = (\<lambda>r :: ManagedAttemptResource. mar_JobID r = adopt_JobID req \<and> mar_ClusterAttempt r = adopt_ExpectedClusterAttempt req \<and>
                       mar_State r = ManagedAttemptResourceCreating \<and> mar_LeaseOwner r = adopt_LeaseOwner req \<and>
                       mar_LeaseVersion r = adopt_LeaseVersion req \<and> mar_RayJobUID r = [])"
  let ?f = "\<lambda>r. r\<lparr>jr_KubernetesNS := adopt_KubernetesNS req, jr_RayJobUID := adopt_RayJobUID req,
                  jr_ResourceVersion := adopt_ResourceVersion req, jr_LastObservedAt := Some now, jr_UpdatedAt := now\<rparr>"
  let ?g = "\<lambda>r. r\<lparr>mar_RayJobUID := adopt_RayJobUID req, mar_ResourceFence := adopt_ResourceFence req,
             mar_State := ManagedAttemptResourceActivating, mar_LeaseOwner := [], mar_LeaseExpiresAt := None, mar_UpdatedAt := now\<rparr>"
  have hit: "hit row" using assms(5) ledger_at_key [OF assms(4)] by (simp add: hit_def adoption_lease_mismatch_def)
  consider "count_where cas (db_jobs db) = 0" "db' = db\<lparr>db_jobs := update_where cas ?f (db_jobs db)\<rparr>" "\<not> snd res"
    | "count_where cas (db_jobs db) \<noteq> 0" "snd res"
      "db' = db\<lparr>db_jobs := update_where cas ?f (db_jobs db), db_ledger := update_where hit ?g (db_ledger db)\<rparr>"
    using assms(1) unfolding adopt_tx_def cas_def [symmetric] hit_def [symmetric] Let_def by (auto dest!: reload_Inr split: if_splits)
  then show ?thesis
  proof cases
    case 1
    with stale show ?thesis by (simp add: update_count_0 [OF 1(1)])
  next
    case 2
    have cas: "cas jobrow" by (rule in_select_count [OF assms(2) 2(1) assms(3)]) (simp add: cas_def)
    have rows: "view (db\<lparr>db_ledger := update_where hit ?g (db_ledger db)\<rparr>) =
        set_row (view db) (adopt_JobID req) (adopt_ExpectedClusterAttempt req) (?g row)"
      by (rule view_update_row [OF assms(4)]) (use hit in \<open>auto simp: hit_def\<close>)
    have "view ((db\<lparr>db_ledger := update_where hit ?g (db_ledger db)\<rparr>)\<lparr>db_jobs := update_where cas ?f (db_jobs db)\<rparr>) =
        set_job (view (db\<lparr>db_ledger := update_where hit ?g (db_ledger db)\<rparr>)) (adopt_JobID req) (?f jobrow)"
      by (rule view_set_job) (use assms(2) cas in \<open>auto simp: cas_def\<close>)
    then have "view db' = set_job (set_row (view db) (adopt_JobID req) (adopt_ExpectedClusterAttempt req) (?g row)) (adopt_JobID req) (?f jobrow)"
      unfolding rows 2(3) swap_updates by simp
    with cas 2(2) adopted show ?thesis by (simp add: cas_def)
  qed
qed

lemma sim_Adopt:
  assumes "AdoptManagedAttemptIdentity now req db = Inr (res, db')" "distinct (map jr_ID (db_jobs db))"
  shows "protocol_step\<^sup>*\<^sup>* (view db) (view db')"
  using assms(1)
proof (cases rule: Adopt_cases)
  case (new jobrow job row)
  let ?j = "adopt_JobID req" and ?a = "adopt_ExpectedClusterAttempt req"
  show ?thesis
    using new(8,1) assms(2) new(4,5)
  proof (cases rule: adopt_tx_cases)
    case adopted
    let ?row = "row\<lparr>mar_RayJobUID := adopt_RayJobUID req, mar_ResourceFence := adopt_ResourceFence req,
             mar_State := ManagedAttemptResourceActivating, mar_LeaseOwner := [], mar_LeaseExpiresAt := None, mar_UpdatedAt := now\<rparr>"
    have uid: "adopt_RayJobUID req \<noteq> []" using new(7) by (auto simp: ManagedAttemptAdoptionRequest_Validate_def)
    have step1: "protocol_step (view db) (set_row (view db) ?j ?a ?row)"
      by (rule protocol_step.adopt [of _ _ _ row]) (use new(4,5) uid fence_issued [OF new(6)] in \<open>auto simp: adoption_lease_mismatch_def same_row_def\<close>)
    have step2: "protocol_step (set_row (view db) ?j ?a ?row) (view db')"
      unfolding adopted(5) by (rule protocol_step.touch_job [of _ _ jobrow]) (use new(1) in \<open>auto simp: same_progress_def same_job_def\<close>)
    from step1 step2 show ?thesis by (rule converse_rtranclp_into_rtranclp [OF _ r_into_rtranclp])
  qed simp
qed simp

lemma sim_Confirm:
  assumes "ConfirmManagedAttemptActivation now req db = Inr (res, db')"
  shows "protocol_step\<^sup>*\<^sup>* (view db) (view db')"
proof -
  let ?j = "act_JobID req" and ?a = "act_ExpectedClusterAttempt req"
  define hit where "hit = (\<lambda>r :: ManagedAttemptResource. mar_JobID r = ?j \<and> mar_ClusterAttempt r = ?a \<and>
      mar_State r = ManagedAttemptResourceActivating \<and> mar_RayJobName r = act_RayJobName req \<and>
      mar_RayJobUID r = act_RayJobUID req \<and> mar_ResourceFence r = act_ResourceFence req)"
  let ?f = "\<lambda>r. r\<lparr>mar_State := ManagedAttemptResourceActive, mar_UpdatedAt := now\<rparr>"
  consider "db' = db"
    | row where "ledger_at db ?j ?a = Some row" "mar_RayJobName row = act_RayJobName req" "mar_RayJobUID row = act_RayJobUID req"
      "mar_ResourceFence row = act_ResourceFence req" "mar_State row = ManagedAttemptResourceActivating"
      "db' = db\<lparr>db_ledger := update_where hit ?f (db_ledger db)\<rparr>"
    using assms unfolding ConfirmManagedAttemptActivation_def hit_def [symmetric] Let_def or_fail_Inr require_Inr and_then_Inr
    by (fastforce split: if_splits)
  then show ?thesis
  proof cases
    case 2
    have "view db' = set_row (view db) ?j ?a (?f row)"
      unfolding 2(6) by (rule view_update_row [OF 2(1)]) (use 2 ledger_at_key [OF 2(1)] in \<open>auto simp: hit_def\<close>)
    moreover have "protocol_step (view db) (set_row (view db) ?j ?a (?f row))"
      by (rule protocol_step.confirm [of _ _ _ row]) (use 2 in \<open>auto simp: same_row_def\<close>)
    ultimately show ?thesis by auto
  qed simp
qed

subsection \<open>Recovery\<close>

lemma managed_max_failures: "toDomain row = Inr job \<Longrightarrow> mtp_MaxFailures (spec_Managed (job_Spec job)) = max_failures row"
  using toDomain_fields(10) by (fastforce simp: max_failures_def)

lemma Begin_cases:
  assumes "BeginManagedRecovery now req db = Inr (res, db')"
  obtains (same) "db' = db" "\<not> snd res"
  | (new) jobrow job checkpoint retired db1 where "job_at db (rec_JobID req) = Some jobrow" "toDomain jobrow = Inr job"
      "\<not> recovery_refused req job" "recoverable_output job" "latestUsableRecoveryCheckpoint db jobrow = Some checkpoint"
      "retireManagedAttemptResourceTx \<lparr>ret_JobID = job_ID job, ret_ClusterAttempt = job_ClusterAttempt job,
          ret_KubernetesNS = first_nonempty (trim_space (job_KubernetesNS job)) (''tenant-'' @ job_TenantID job),
          ret_RayJobName = job_RayJobName job, ret_RayJobUID = job_RayJobUID job\<rparr> now db = Inr (retired, db1)"
      "advance_attempt now req checkpoint db1 = Inr (res, db')"
  using assms unfolding BeginManagedRecovery_def Let_def or_fail_Inr require_Inr and_then_Inr
  by (auto split: if_splits option.split_asm sum.split_asm prod.split_asm)

lemma advance_cases:
  assumes "advance_attempt now req checkpoint db = Inr (res, db')" "job_at db (rec_JobID req) = Some row" "distinct (map jr_ID (db_jobs db))"
  obtains (stale) "db' = db" "\<not> snd res"
  | (advanced) "snd res" "jr_ClusterAttempt row = rec_ExpectedClusterAttempt req" "active row" "jr_ObservedState row \<in> {StateRunning, StateRecovering}"
     "view db' = set_job (view db) (rec_JobID req) (row\<lparr>jr_ObservedState := StateRecovering,
                  jr_StatusReason := trim_space (rec_FailureClass req), jr_StatusMessage := rec_FailureMessage req,
                  jr_ClusterAttempt := rec_ExpectedClusterAttempt req + 1, jr_ResumeCheckpointID := ckpt_ID checkpoint,
                  jr_LastObservedAt := Some now, jr_UpdatedAt := now\<rparr>)"
proof -
  define cas where "cas = (\<lambda>r :: JobRecord. jr_ID r = rec_JobID req \<and> jr_ClusterAttempt r = rec_ExpectedClusterAttempt req \<and>
                     jr_DesiredState r = DesiredActive \<and> jr_TrainingEngine r = TrainingEngineRayTrain \<and>
                     jr_RayJobName r = rec_ExpectedRayJobName req \<and> jr_RayJobUID r = rec_ExpectedRayJobUID req \<and>
                     jr_ObservedState r \<in> {StateRunning, StateRecovering})"
  let ?f = "\<lambda>r. r\<lparr>jr_ObservedState := StateRecovering, jr_StatusReason := trim_space (rec_FailureClass req),
      jr_StatusMessage := rec_FailureMessage req, jr_ClusterAttempt := rec_ExpectedClusterAttempt req + 1,
      jr_ResumeCheckpointID := ckpt_ID checkpoint, jr_LastObservedAt := Some now, jr_UpdatedAt := now\<rparr>"
  have db': "db' = db\<lparr>db_jobs := update_where cas ?f (db_jobs db)\<rparr>" "snd res \<longleftrightarrow> count_where cas (db_jobs db) \<noteq> 0"
    using assms(1) unfolding advance_attempt_def cas_def [symmetric] Let_def by (auto dest!: reload_Inr split: if_splits)
  show ?thesis
  proof (cases "count_where cas (db_jobs db) = 0")
    case True
    with db' stale show ?thesis by (simp add: update_count_0)
  next
    case False
    have cas: "cas row" by (rule in_select_count [OF assms(2) False assms(3)]) (simp add: cas_def)
    have "view db' = set_job (view db) (rec_JobID req) (?f row)"
      unfolding db'(1) by (rule view_update_job [OF assms(2)]) (use cas in \<open>auto simp: cas_def\<close>)
    with cas False db'(2) advanced show ?thesis by (auto simp: cas_def active_def isTerminalState_iff)
  qed
qed

lemma sim_Begin:
  assumes "BeginManagedRecovery now req db = Inr (res, db')" "protocol_inv (view db)" "distinct (map jr_ID (db_jobs db))"
  shows "protocol_step\<^sup>*\<^sup>* (view db) (view db')"
  using assms(1)
proof (cases rule: Begin_cases)
  case (new jobrow job checkpoint retired db1)
  obtain r changed where ret: "retired = (r, changed)" by (cases retired)
  note tx = sim_retire_tx [OF new(6)] and eff = retire_tx_effect(3) [OF new(6) [unfolded ret]]
  have at1: "job_at db1 (rec_JobID req) = Some jobrow" using new(1) tx(2) by simp
  have attempt: "job_ClusterAttempt job = jr_ClusterAttempt jobrow" "job_ID job = rec_JobID req"
    using toDomain_fields(1,8) [OF new(2)] inv_jobD [OF assms(2), of "rec_JobID req" jobrow] new(1) by auto
  have "distinct (map jr_ID (db_jobs db1))" using assms(3) tx(3) by simp
  with new(7) at1 show ?thesis
  proof (cases rule: advance_cases)
    case advanced
    have "protocol_step (view db1) (view db')"
      unfolding advanced(5)
    proof (rule protocol_step.recover)
      show "jr_ClusterAttempt jobrow \<le> max_failures jobrow"
        using new(3) managed_max_failures [OF new(2)] attempt(1) by (simp add: recovery_refused_def)
      show "\<forall>r. p_row (view db1) (rec_JobID req) (jr_ClusterAttempt jobrow) = Some r \<longrightarrow> \<not> live (mar_State r)"
        using eff attempt by simp
    qed (use at1 advanced in \<open>auto simp: same_job_def active_def\<close>)
    with tx(1) show ?thesis by (rule converse_rtranclp_into_rtranclp [OF _ r_into_rtranclp])
  qed (use tx(1) in auto)
qed simp

lemma sim_Clear:
  assumes "ClearManagedRecoveryRetiringIdentity now req db = Inr (res, db')"
  shows "protocol_step\<^sup>*\<^sup>* (view db) (view db')"
proof -
  let ?i = "rid_JobID req"
  define cas where "cas = (\<lambda>r :: JobRecord. jr_ID r = ?i \<and> jr_DesiredState r = DesiredActive \<and> jr_ObservedState r = StateRecovering \<and>
                        jr_ClusterAttempt r = rid_ExpectedClusterAttempt req \<and> jr_RayJobName r = rid_RayJobName req \<and>
                        jr_RayJobUID r = rid_RayJobUID req)"
  let ?f = "\<lambda>r. r\<lparr>jr_RayJobName := [], jr_RayJobUID := [], jr_RayClusterName := [],
                     jr_ResourceVersion := [], jr_LastObservedAt := Some now, jr_UpdatedAt := now\<rparr>"
  obtain row where at: "job_at db ?i = Some row" using assms by (auto simp: ClearManagedRecoveryRetiringIdentity_def)
  have "db' = db \<or> db' = db\<lparr>db_jobs := update_where cas ?f (db_jobs db)\<rparr>"
    using assms unfolding ClearManagedRecoveryRetiringIdentity_def cas_def [symmetric] Let_def or_fail_Inr require_Inr and_then_Inr
    by (auto dest!: reload_Inr split: if_splits)
  moreover have "protocol_step\<^sup>*\<^sup>* (view db) (view (db\<lparr>db_jobs := update_where cas ?f (db_jobs db)\<rparr>))"
  proof (cases "cas row")
    case True
    have "view (db\<lparr>db_jobs := update_where cas ?f (db_jobs db)\<rparr>) = set_job (view db) ?i (?f row)"
      by (rule view_update_job [OF at]) (use True in \<open>auto simp: cas_def\<close>)
    moreover have "protocol_step (view db) (set_job (view db) ?i (?f row))"
      by (rule protocol_step.touch_job [of _ _ row]) (use at in \<open>auto simp: same_progress_def same_job_def\<close>)
    ultimately show ?thesis by auto
  next
    case False
    have "job_at (db\<lparr>db_jobs := update_where cas ?f (db_jobs db)\<rparr>) k = job_at db k" for k
    proof (cases "job_at db k")
      case (Some r)
      have "\<not> cas r" using False at job_at_ID [OF Some] Some by (auto simp: cas_def)
      then show ?thesis using job_at_update [of cas ?f db k] Some by simp
    qed (use job_at_update [of cas ?f db k] in simp)
    then have "view (db\<lparr>db_jobs := update_where cas ?f (db_jobs db)\<rparr>) = view db" by (simp add: view_def fun_eq_iff)
    then show ?thesis by simp
  qed
  ultimately show ?thesis by auto
qed

subsection \<open>Primary keys stay unique\<close>

definition keys_ok :: "DB \<Rightarrow> bool" where
  "keys_ok db \<longleftrightarrow> distinct (map jr_ID (db_jobs db)) \<and> distinct (map ledger_key (db_ledger db)) \<and> distinct (map fence_key (db_fences db))"

lemma keys_ok_outbox [simp]: "keys_ok (insert_outbox_ignore e db) = keys_ok db"
  by (simp add: keys_ok_def insert_outbox_ignore_def)

lemma keys_update_jobs:
  "keys_ok db \<Longrightarrow> (\<And>r. p r \<Longrightarrow> jr_ID (f r) = jr_ID r) \<Longrightarrow> keys_ok (db\<lparr>db_jobs := update_where p f (db_jobs db)\<rparr>)"
  by (simp add: keys_ok_def map_update_where)

lemma keys_update_ledger:
  "keys_ok db \<Longrightarrow> (\<And>r. p r \<Longrightarrow> ledger_key (f r) = ledger_key r) \<Longrightarrow> keys_ok (db\<lparr>db_ledger := update_where p f (db_ledger db)\<rparr>)"
  using map_update_where [of p ledger_key f "db_ledger db"] by (simp add: keys_ok_def)

lemma keys_retire_tx: "retireManagedAttemptResourceTx req now db = Inr (res, db') \<Longrightarrow> keys_ok db \<Longrightarrow> keys_ok db'"
  unfolding retireManagedAttemptResourceTx_def Let_def
  by (auto intro!: keys_update_ledger simp: to_retiring_def split: option.split_asm if_split_asm)
    (use ledger.unique_put in \<open>auto simp: keys_ok_def\<close>)

lemma keys_retire_live: "keys_ok db \<Longrightarrow> keys_ok (retire_live_attempts now i db)"
  unfolding retire_live_attempts_def by (rule keys_update_ledger) simp_all

lemma keys_optional_retire:
  "(if b then case retireManagedAttemptResourceTx req now db of Inl e \<Rightarrow> Inl (f e) | Inr (_, db') \<Rightarrow> Inr db' else Inr db) = Inr db1 \<Longrightarrow>
   keys_ok db \<Longrightarrow> keys_ok db1"
  using keys_retire_tx by (auto split: if_splits sum.splits prod.splits)

lemma keys_cancel_attempts: "cancel_attempts now row db = Inr db' \<Longrightarrow> keys_ok db \<Longrightarrow> keys_ok db'"
  unfolding cancel_attempts_def Let_def and_then_Inr sum.inject using keys_optional_retire keys_retire_live by blast

lemma keys_finish_attempts: "finish_attempts now row obs db = Inr db' \<Longrightarrow> keys_ok db \<Longrightarrow> keys_ok db'"
  unfolding finish_attempts_def Let_def and_then_Inr sum.inject using keys_optional_retire keys_retire_live by blast

lemma keys_SetDesiredState: "SetDesiredState now t i state db = Inr db' \<Longrightarrow> keys_ok db \<Longrightarrow> keys_ok db'"
  unfolding SetDesiredState_def Let_def require_Inr and_then_Inr
  by (auto intro!: keys_update_jobs dest: keys_cancel_attempts split: if_split_asm)

lemma keys_ApplyObservedState: "ApplyObservedState now obs db = Inr db' \<Longrightarrow> keys_ok db \<Longrightarrow> keys_ok db'"
proof -
  assume run: "ApplyObservedState now obs db = Inr db'" and keys: "keys_ok db"
  let ?db = "db\<lparr>db_jobs := update_where (\<lambda>r. jr_ID r = obs_JobID obs) (observed_updates now obs) (db_jobs db)\<rparr>"
  have "keys_ok ?db" by (rule keys_update_jobs [OF keys]) (simp add: observed_updates_def)
  then show ?thesis using run keys keys_finish_attempts [of now _ obs ?db]
    unfolding ApplyObservedState_def Let_def by (auto split: if_split_asm)
qed

lemma keys_Reserve:
  assumes "ReserveManagedAttemptIdentity now req db = Inr (res, db')" "keys_ok db"
  shows "keys_ok db'"
proof -
  have put: "keys_ok (db\<lparr>db_ledger := rows, db_jobs := update_where p (\<lambda>r. r\<lparr>jr_RayJobName := n, jr_LastObservedAt := t, jr_UpdatedAt := u\<rparr>) (db_jobs db)\<rparr>)"
    if "insert_new ledger_key r (db_ledger db) = Some rows" for r rows p n t u
    using that assms(2) ledger.unique_put by (auto simp: keys_ok_def map_update_where)
  show ?thesis
    using assms unfolding ReserveManagedAttemptIdentity_def Let_def or_fail_Inr require_Inr and_then_Inr
    by (auto dest!: reload_Inr intro: put split: if_split_asm)
qed

lemma keys_Acquire: "AcquireManagedAttemptCreation clock req at db = Inr (res, db') \<Longrightarrow> keys_ok db \<Longrightarrow> keys_ok db'"
proof -
  assume run: "AcquireManagedAttemptCreation clock req at db = Inr (res, db')" and keys: "keys_ok db"
  obtain job r acquired where res: "res = (job, r, acquired)" by (cases res)
  have fences: "distinct (map fence_key (fst (insert_ignore fence_key f (db_fences db))))" for f
    using keys by (auto simp: keys_ok_def insert_ignore_def insert_new_def)
  show ?thesis
    using run unfolding res
  proof (cases rule: Acquire_cases)
    case (new row jobrow)
    let ?now = "if at = 0 then clock else at"
    have "keys_ok (db\<lparr>db_ledger := update_where p (granted req ?now row) (db_ledger db)\<rparr>)" for p
      by (rule keys_update_ledger [OF keys]) (simp add: granted_def)
    then show ?thesis using new(8) fences unfolding grant_lease_db [OF new(1)] by (simp add: keys_ok_def)
  qed (use keys in auto)
qed

lemma keys_adopt_tx: "adopt_tx now req db = Inr (res, db') \<Longrightarrow> keys_ok db \<Longrightarrow> keys_ok db'"
  unfolding adopt_tx_def Let_def
  by (auto dest!: reload_Inr simp: keys_ok_def map_update_where split: if_split_asm)

lemma keys_Adopt: "AdoptManagedAttemptIdentity now req db = Inr (res, db') \<Longrightarrow> keys_ok db \<Longrightarrow> keys_ok db'"
  by (erule Adopt_cases) (auto dest: keys_adopt_tx)

lemma keys_Begin: "BeginManagedRecovery now req db = Inr (res, db') \<Longrightarrow> keys_ok db \<Longrightarrow> keys_ok db'"
proof (erule Begin_cases)
  fix checkpoint job and db1 retired
  assume keys: "keys_ok db" and adv: "advance_attempt now req checkpoint db1 = Inr (res, db')"
    and "retireManagedAttemptResourceTx \<lparr>ret_JobID = job_ID job, ret_ClusterAttempt = job_ClusterAttempt job,
          ret_KubernetesNS = first_nonempty (trim_space (job_KubernetesNS job)) (''tenant-'' @ job_TenantID job),
          ret_RayJobName = job_RayJobName job, ret_RayJobUID = job_RayJobUID job\<rparr> now db = Inr (retired, db1)"
  then have "keys_ok db1" using keys_retire_tx by blast
  with adv show "keys_ok db'" unfolding advance_attempt_def Let_def
    by (auto dest!: reload_Inr intro!: keys_update_jobs split: if_split_asm)
qed simp

lemma keys_Complete: "CompleteManagedAttemptCleanup now req db = Inr (res, db') \<Longrightarrow> keys_ok db \<Longrightarrow> keys_ok db'"
  unfolding CompleteManagedAttemptCleanup_def Let_def by (auto intro!: keys_update_ledger)

lemma keys_Failure: "RecordManagedAttemptCleanupFailure clock req db = Inr db' \<Longrightarrow> keys_ok db \<Longrightarrow> keys_ok db'"
  unfolding RecordManagedAttemptCleanupFailure_def Let_def or_fail_Inr require_Inr
  by (auto intro!: keys_update_ledger split: if_split_asm)

lemma keys_Confirm: "ConfirmManagedAttemptActivation now req db = Inr (res, db') \<Longrightarrow> keys_ok db \<Longrightarrow> keys_ok db'"
  unfolding ConfirmManagedAttemptActivation_def Let_def or_fail_Inr require_Inr and_then_Inr
  by (auto intro!: keys_update_ledger split: if_split_asm)

lemma keys_Clear: "ClearManagedRecoveryRetiringIdentity now req db = Inr (res, db') \<Longrightarrow> keys_ok db \<Longrightarrow> keys_ok db'"
  unfolding ClearManagedRecoveryRetiringIdentity_def Let_def or_fail_Inr require_Inr and_then_Inr
  by (auto dest!: reload_Inr intro!: keys_update_jobs split: if_split_asm)

lemma Create_tables:
  assumes "Create q limits constraint ev sv now (Some j) key db = Inr (job, db')"
  shows "\<exists>row. db_jobs db' = db_jobs db @ [row] \<and> jr_ID row \<notin> jr_ID ` set (db_jobs db) \<and> 1 \<le> jr_ClusterAttempt row \<and>
    db_ledger db' = db_ledger db \<and> db_fences db' = db_fences db"
proof -
  obtain row where n: "newJobRecord now (started j) = Inr (normalizeJobRuntimeMetadata (started j), row)"
    and tx: "create_tx limits constraint ev sv now (created now j) row (submit_event now (job_ID j) key) key db = Inr db'"
    using Create_Inr [OF assms] by blast
  obtain db1 where db1: "if key = [] then db1 = db else insert_idempotency now (created now j) key db = Inr db1"
    and new: "jr_ID row \<notin> jr_ID ` set (db_jobs db)"
    and db': "db' = db1\<lparr>db_jobs := db_jobs db @ [row], db_outbox := db_outbox db @ [submit_event now (job_ID j) key]\<rparr>"
    using create_tx_Inr [OF tx] by blast
  have "db_ledger db1 = db_ledger db" "db_fences db1 = db_fences db"
    using db1 by (auto dest: insert_idempotency_Inr split: if_splits)
  with new newJobRecord_fields(7) [OF n] show ?thesis unfolding db' by auto
qed

lemma keys_Create: "Create q limits constraint ev sv now (Some j) key db = Inr (job, db') \<Longrightarrow> keys_ok db \<Longrightarrow> keys_ok db'"
  using Create_tables [of q limits constraint ev sv now j key db job db'] by (auto simp: keys_ok_def)

lemma keys_ClaimOutbox: "keys_ok (snd (ClaimOutbox now limit db)) = keys_ok db"
  by (simp add: keys_ok_def ClaimOutbox_def Let_def)

lemma keys_step: "store_step db db' \<Longrightarrow> keys_ok db \<Longrightarrow> keys_ok db'"
proof (induction rule: store_step.induct)
  case (retire now req db res db')
  then have "retireManagedAttemptResourceTx req now db = Inr (res, db')" by (simp add: RetireManagedAttemptResource_def)
  with retire(2) show ?case by (metis keys_retire_tx)
next
  case (sweep db now jobId retiredAt)
  then show ?case unfolding MarkRayJobRetired_def by (auto intro!: keys_update_jobs)
next
  case (claim db now limit)
  then show ?case by (simp add: keys_ClaimOutbox)
next
  case (mark_done db now i)
  then show ?case by (simp add: keys_ok_def MarkOutboxDone_def)
next
  case (mark_retry db i later reason)
  then show ?case by (simp add: keys_ok_def MarkOutboxRetry_def)
qed (auto intro: keys_Create keys_SetDesiredState keys_ApplyObservedState keys_Reserve keys_Acquire keys_Complete keys_Failure
    keys_Adopt keys_Confirm keys_Begin keys_Clear)

subsection \<open>The simulation\<close>

lemma sim_Create:
  assumes "Create q limits constraint ev sv now (Some j) key db = Inr (job, db')"
  shows "protocol_step\<^sup>*\<^sup>* (view db) (view db')"
proof -
  obtain row where tables: "db_jobs db' = db_jobs db @ [row]" "jr_ID row \<notin> jr_ID ` set (db_jobs db)" "1 \<le> jr_ClusterAttempt row"
    "db_ledger db' = db_ledger db" "db_fences db' = db_fences db" using Create_tables [OF assms] by blast
  have put: "insert_new jr_ID row (db_jobs db) = Some (db_jobs db')" using tables by (simp add: insert_new_rows)
  have "view db' = set_job (view db) (jr_ID row) row"
    using jobs.get_put [OF put] tables(4,5) by (auto simp: view_def job_at_def ledger_at_def fun_eq_iff)
  moreover have "protocol_step (view db) (set_job (view db) (jr_ID row) row)"
    by (rule protocol_step.new_job) (use tables in \<open>auto simp: job_at_def select_first_None image_iff\<close>)
  ultimately show ?thesis by auto
qed

lemma sim_Sweep: "protocol_step\<^sup>*\<^sup>* (view db) (view (MarkRayJobRetired now i t db))"
proof (cases "\<exists>row. job_at db i = Some row \<and> jr_RayJobRetiredAt row = None")
  let ?p = "\<lambda>r. jr_ID r = i \<and> jr_RayJobRetiredAt r = None" and ?f = "\<lambda>r. r\<lparr>jr_RayJobRetiredAt := Some t, jr_UpdatedAt := now\<rparr>"
  case True
  then obtain row where row: "job_at db i = Some row" "jr_RayJobRetiredAt row = None" by blast
  have "view (MarkRayJobRetired now i t db) = set_job (view db) i (?f row)"
    unfolding MarkRayJobRetired_def by (rule view_update_job [OF row(1)]) (use row job_at_ID [OF row(1)] in auto)
  moreover have "protocol_step (view db) (set_job (view db) i (?f row))"
    by (rule protocol_step.touch_job [of _ _ row]) (use row in \<open>auto simp: same_progress_def same_job_def\<close>)
  ultimately show ?thesis by auto
next
  let ?p = "\<lambda>r. jr_ID r = i \<and> jr_RayJobRetiredAt r = None" and ?f = "\<lambda>r. r\<lparr>jr_RayJobRetiredAt := Some t, jr_UpdatedAt := now\<rparr>"
  case False
  have "job_at (MarkRayJobRetired now i t db) k = job_at db k" for k
  proof (cases "job_at db k")
    case (Some r)
    have "\<not> ?p r" using False job_at_ID [OF Some] Some by auto
    then show ?thesis using job_at_update [of ?p ?f db k] Some by (auto simp: MarkRayJobRetired_def)
  qed (use job_at_update [of ?p ?f db k] in \<open>simp add: MarkRayJobRetired_def\<close>)
  then have "view (MarkRayJobRetired now i t db) = view db" by (simp add: view_def fun_eq_iff MarkRayJobRetired_def)
  then show ?thesis by simp
qed

lemma store_simulates: "store_step db db' \<Longrightarrow> keys_ok db \<Longrightarrow> protocol_inv (view db) \<Longrightarrow> protocol_step\<^sup>*\<^sup>* (view db) (view db')"
proof (induction rule: store_step.induct)
  case (retire now req db res db')
  then have "retireManagedAttemptResourceTx req now db = Inr (res, db')" by (simp add: RetireManagedAttemptResource_def)
  then show ?case using sim_retire_tx(1) by (metis r_into_rtranclp)
next
  case (claim db now limit)
  have "view (snd (ClaimOutbox now limit db)) = view db" by (rule view_cong) (simp_all add: ClaimOutbox_def Let_def)
  then show ?case by simp
next
  case (mark_done db now i)
  have "view (MarkOutboxDone now i db) = view db" by (rule view_cong) (simp_all add: MarkOutboxDone_def)
  then show ?case by simp
next
  case (mark_retry db i later reason)
  have "view (MarkOutboxRetry i later reason db) = view db" by (rule view_cong) (simp_all add: MarkOutboxRetry_def)
  then show ?case by simp
qed (auto simp: keys_ok_def intro: sim_Create sim_SetDesiredState sim_ApplyObservedState sim_Reserve sim_Acquire sim_Complete sim_Failure
    sim_Adopt sim_Confirm sim_Begin sim_Clear sim_Sweep)

interpretation store: simulation protocol_step protocol_inv protocol_le store_step keys_ok view
  by unfold_locales (use keys_step store_simulates in blast)+

text \<open>The databases in which every run starts, and those it reaches.\<close>

definition store_inv :: "DB \<Rightarrow> bool" where
  "store_inv db \<longleftrightarrow> keys_ok db \<and> protocol_inv (view db)"

lemma store_inv_steps: "store_step\<^sup>*\<^sup>* db db' \<Longrightarrow> store_inv db \<Longrightarrow> store_inv db'"
  using store.sim_inv by (simp add: store_inv_def)

lemma store_le_steps: "store_step\<^sup>*\<^sup>* db db' \<Longrightarrow> store_inv db \<Longrightarrow> protocol_le (view db) (view db')"
  using store.sim_le by (simp add: store_inv_def)

lemma store_inv_empty: "db_jobs db = [] \<Longrightarrow> db_ledger db = [] \<Longrightarrow> db_fences db = [] \<Longrightarrow> store_inv db"
  by (simp add: store_inv_def keys_ok_def protocol_inv_def job_at_def ledger_at_def select_first_def)

end
