(* ===== verification/Sample_Run.thy ===== *)
theory Sample_Run
  imports Attempt_Refinement
begin

section \<open>A run of the store\<close>

text \<open>
  One managed job on a database with one tenant, taken through reservation, two creation leases,
  adoption, activation, recovery and cancellation by the operations of the store. The witnesses
  of the attempt properties are taken from this run.
\<close>

definition sample_row :: JobRecord where
  "sample_row = \<lparr>jr_ID = ''job-1'', jr_TenantID = ''team-a'', jr_UserID = ''u-1'', jr_SourceArtifactID = Some ''code-1'',
     jr_DatasetID = None, jr_DatasetVersionID = None, jr_DatasetManifestDigest = None, jr_DatasetDataMode = None,
     jr_DatasetCachePolicy = None, jr_DatasetSites = [], jr_SourceSyncRunID = None, jr_SourceInventorySHA256 = [],
     jr_SubmissionOrigin = [], jr_ExternalSubmissionID = [], jr_Name = ''resnet'', jr_SpecJSON = Some sample_spec,
     jr_DesiredState = DesiredActive, jr_ObservedState = StateSubmitted, jr_StatusReason = [], jr_StatusMessage = [],
     jr_KubernetesNS = ''tenant-team-a'', jr_RayJobName = [], jr_RayJobUID = [], jr_RayClusterName = [], jr_ResourceVersion = [],
     jr_TrainingEngine = ''ray-train'', jr_RayVersion = ''2.58.0'', jr_ClusterAttempt = 1, jr_WorkerRestartCount = 0,
     jr_ResumeCheckpointID = [], jr_ParentJobID = [], jr_RetryCount = 0, jr_TimeoutSeconds = 0,
     jr_CleanupJSON = \<lparr>clean_SuccessTTLSeconds = 0, clean_FailureTTLSeconds = 0\<rparr>, jr_CreatedAt = 100, jr_UpdatedAt = 100,
     jr_LastObservedAt = None, jr_StartedAt = None, jr_FinishedAt = None, jr_ArchivedAt = None, jr_RayJobRetiredAt = None\<rparr>"

text \<open>The columns of the row that decoding checks; the operations below leave them alone.\<close>

definition decodes :: "JobRecord \<Rightarrow> bool" where
  "decodes r \<longleftrightarrow> jr_SpecJSON r = Some sample_spec \<and> jr_TrainingEngine r = ''ray-train'' \<and> jr_RayVersion r = ''2.58.0'' \<and> jr_ParentJobID r = [] \<and>
     jr_DatasetID r = None \<and> jr_DatasetVersionID r = None \<and> jr_DatasetManifestDigest r = None \<and> jr_DatasetDataMode r = None \<and>
     jr_DatasetCachePolicy r = None \<and> jr_DatasetSites r = [] \<and> jr_SourceSyncRunID r = None \<and> jr_SourceInventorySHA256 r = [] \<and>
     1 \<le> jr_ClusterAttempt r"

definition decoded :: "JobRecord \<Rightarrow> TrainingJob" where
  "decoded r = (case toDomain r of Inr job \<Rightarrow> job | Inl _ \<Rightarrow> sample_job)"

lemma sample_provenance:
  "DatasetProvenance_Validate \<lparr>prov_Sites = [], prov_DatasetID = [], prov_DatasetVersionID = [], prov_ManifestSHA256 = [],
     prov_DataMode = [], prov_CachePolicy = [], prov_SourceSyncRunID = [], prov_SourceInventorySHA256 = []\<rparr> = None"
  "validateDatasetSnapshotConsistency (sample_spec\<lparr>spec_TrainingEngine := ''ray-train'', spec_RayVersion := ''2.58.0'', spec_ParentJobID := []\<rparr>)
     \<lparr>prov_Sites = [], prov_DatasetID = [], prov_DatasetVersionID = [], prov_ManifestSHA256 = [],
     prov_DataMode = [], prov_CachePolicy = [], prov_SourceSyncRunID = [], prov_SourceInventorySHA256 = []\<rparr> = None"
  by code_simp+

lemma sample_columns:
  "trim_space ''2.58.0'' = ''2.58.0''" "TrainingEngine_Resolved (trim_space ''ray-train'') = ''ray-train''"
  "TrainingEngine_Resolved ''ray-train'' = ''ray-train''" "trim_space ''tenant-team-a'' = ''tenant-team-a''"
  by code_simp+

lemma sample_mounts:
  "ResolvedDataSpaceMounts_Validate (spec_ResolvedDataMounts sample_spec) = None"
  "\<exists>out. rdms_Output (spec_ResolvedDataMounts sample_spec) = Some out \<and> rdm_MountPath out = DataMountOutputPath \<and> \<not> rdm_ReadOnly out"
  by (code_simp, simp add: sample_spec_def sample_runs_mount_def)

lemma decodes_toDomain [simp]: "decodes r \<Longrightarrow> toDomain r = Inr (decoded r)"
proof -
  assume "decodes r"
  then have "\<exists>job. toDomain r = Inr job" using sample_provenance
    by (simp add: decodes_def toDomain_def require_def or_fail_def Let_def sample_columns valueOrEmpty_def)
  then show ?thesis by (auto simp: decoded_def)
qed

lemma toDomain_mounts: "toDomain r = Inr job \<Longrightarrow> jr_SpecJSON r = Some s \<Longrightarrow> spec_ResolvedDataMounts (job_Spec job) = spec_ResolvedDataMounts s"
  by (auto simp: toDomain_def Let_def)

lemma decoded_fields [simp]:
  assumes "decodes r"
  shows "job_ID (decoded r) = jr_ID r" "job_TenantID (decoded r) = jr_TenantID r" "job_DesiredState (decoded r) = jr_DesiredState r"
    "job_ObservedState (decoded r) = jr_ObservedState r" "job_RayJobName (decoded r) = jr_RayJobName r"
    "job_RayJobUID (decoded r) = jr_RayJobUID r" "job_KubernetesNS (decoded r) = jr_KubernetesNS r"
    "job_ClusterAttempt (decoded r) = jr_ClusterAttempt r" "managed_engine (decoded r)"
    "mtp_MaxFailures (spec_Managed (job_Spec (decoded r))) = 2"
    "spec_ResolvedDataMounts (job_Spec (decoded r)) = spec_ResolvedDataMounts sample_spec"
proof -
  have dom: "toDomain r = Inr (decoded r)" using assms by simp
  from toDomain_fields [OF dom] assms show "job_ID (decoded r) = jr_ID r" "job_TenantID (decoded r) = jr_TenantID r"
    "job_DesiredState (decoded r) = jr_DesiredState r"
    "job_ObservedState (decoded r) = jr_ObservedState r" "job_RayJobName (decoded r) = jr_RayJobName r"
    "job_RayJobUID (decoded r) = jr_RayJobUID r" "job_KubernetesNS (decoded r) = jr_KubernetesNS r"
    "job_ClusterAttempt (decoded r) = jr_ClusterAttempt r" "managed_engine (decoded r)"
    "mtp_MaxFailures (spec_Managed (job_Spec (decoded r))) = 2"
    by (auto simp: decodes_def managed_engine_def sample_columns go_consts sample_spec_def)
  from toDomain_mounts [OF dom] assms show "spec_ResolvedDataMounts (job_Spec (decoded r)) = spec_ResolvedDataMounts sample_spec"
    by (simp add: decodes_def)
qed


subsection \<open>Reservation and leases\<close>

definition sample_checkpoint :: TrainingCheckpoint where
  "sample_checkpoint = \<lparr>ckpt_ID = ''ckpt-3'', ckpt_JobID = ''job-1'', ckpt_TenantID = ''team-a'', ckpt_UserID = ''u-1'', ckpt_Epoch = 3,
     ckpt_Step = 30, ckpt_ObjectPath = ''/mnt/data/output/.platform/ray-train/job-1/checkpoints/ckpt-3'', ckpt_MetricName = [],
     ckpt_MetricValue = None, ckpt_Complete = True, ckpt_IsBest = False,
     ckpt_ManifestSHA256 = ''0123456789abcdef0123456789abcdef0123456789abcdef0123456789abcdef'', ckpt_CreatedAt = 90\<rparr>"

definition db_queued :: DB where
  "db_queued = empty_db\<lparr>db_jobs := [sample_row], db_checkpoints := [sample_checkpoint]\<rparr>"

definition req_reserve :: ManagedAttemptReservationRequest where
  "req_reserve = \<lparr>resv_JobID = ''job-1'', resv_ExpectedClusterAttempt = 1, resv_ExpectedState = StateSubmitted, resv_ExpectedRayJobName = [],
     resv_RayJobName = ''job-1'', resv_KubernetesNS = ''tenant-team-a''\<rparr>"

definition row_reserved :: ManagedAttemptResource where
  "row_reserved = new_ledger_row ''job-1'' 1 ''tenant-team-a'' ''job-1'' [] ManagedAttemptResourceReserved 0 200"

definition job_reserved :: JobRecord where
  "job_reserved = sample_row\<lparr>jr_RayJobName := ''job-1'', jr_LastObservedAt := Some 200, jr_UpdatedAt := 200\<rparr>"

definition db_reserved :: DB where
  "db_reserved = db_queued\<lparr>db_ledger := [row_reserved], db_jobs := [job_reserved]\<rparr>"

definition req_lease :: "string \<Rightarrow> ManagedAttemptCreationLeaseRequest" where
  "req_lease owner = \<lparr>lease_JobID = ''job-1'', lease_ExpectedClusterAttempt = 1, lease_ExpectedState = StateSubmitted,
     lease_RayJobName = ''job-1'', lease_LeaseOwner = owner, lease_LeaseDuration = Minute\<rparr>"

definition row_leased :: ManagedAttemptResource where
  "row_leased = granted (req_lease ''node-a'') 300 row_reserved row_reserved"

definition sample_fence :: "int \<Rightarrow> int \<Rightarrow> ManagedAttemptFenceRecord" where
  "sample_fence n now = \<lparr>fence_JobID = ''job-1'', fence_ClusterAttempt = 1, fence_Fence = n, fence_CreatedAt = now\<rparr>"

definition db_leased :: DB where
  "db_leased = db_reserved\<lparr>db_ledger := [row_leased], db_fences := [sample_fence 1 300]\<rparr>"

definition row_leased2 :: ManagedAttemptResource where
  "row_leased2 = granted (req_lease ''node-b'') (300 + Minute) row_leased row_leased"

definition db_leased2 :: DB where
  "db_leased2 = db_leased\<lparr>db_ledger := [row_leased2], db_fences := [sample_fence 1 300, sample_fence 2 (300 + Minute)]\<rparr>"

lemma valid_requests:
  "ManagedAttemptReservationRequest_Validate req_reserve = None"
  "ManagedAttemptCreationLeaseRequest_Validate (req_lease ''node-a'') = None"
  "ManagedAttemptCreationLeaseRequest_Validate (req_lease ''node-b'') = None"
  by code_simp+

lemmas table_defs = job_at_def ledger_at_def select_first_def count_where_def update_where_def insert_new_def insert_ignore_def
lemmas branch_defs = require_def or_fail_def and_then_def check_def Let_def reload_def

lemmas sample_defs = db_queued_def db_reserved_def db_leased_def db_leased2_def empty_db_def row_reserved_def row_leased_def row_leased2_def
  new_ledger_row_def granted_def sample_fence_def

lemma decodes_sample [simp]: "decodes sample_row" "decodes job_reserved"
  by (simp_all add: decodes_def sample_row_def job_reserved_def)

lemma sample_row_fields [simp]:
  "jr_ID sample_row = ''job-1''" "jr_DesiredState sample_row = DesiredActive" "jr_ObservedState sample_row = StateSubmitted"
  "jr_RayJobName sample_row = []" "jr_RayJobUID sample_row = []" "jr_ClusterAttempt sample_row = 1" "jr_TrainingEngine sample_row = ''ray-train''"
  "jr_TenantID sample_row = ''team-a''" "jr_KubernetesNS sample_row = ''tenant-team-a''" "jr_UserID sample_row = ''u-1''" "jr_SpecJSON sample_row = Some sample_spec"
  by (simp_all add: sample_row_def)

lemma job_reserved_fields [simp]:
  "jr_ID job_reserved = ''job-1''" "jr_DesiredState job_reserved = DesiredActive" "jr_ObservedState job_reserved = StateSubmitted"
  "jr_RayJobName job_reserved = ''job-1''" "jr_RayJobUID job_reserved = []" "jr_ClusterAttempt job_reserved = 1" "jr_TrainingEngine job_reserved = ''ray-train''"
  "jr_TenantID job_reserved = ''team-a''" "jr_KubernetesNS job_reserved = ''tenant-team-a''"
  by (simp_all add: job_reserved_def)

lemma run_reserve: "ReserveManagedAttemptIdentity 200 req_reserve db_queued = Inr ((decoded job_reserved, True), db_reserved)"
proof -
  have 1: "job_at db_queued ''job-1'' = Some sample_row" by (simp add: sample_defs table_defs)
  have 2: "job_at db_reserved ''job-1'' = Some job_reserved" by (simp add: sample_defs table_defs)
  show ?thesis using valid_requests(1) 1 2 decodes_toDomain [OF decodes_sample(2), unfolded job_reserved_def]
    by (simp add: ReserveManagedAttemptIdentity_def branch_defs table_defs req_reserve_def sample_defs go_consts job_reserved_def)
qed

lemma run_lease: "AcquireManagedAttemptCreation 300 (req_lease ''node-a'') 300 db_reserved = Inr ((decoded job_reserved, row_leased, True), db_leased)"
proof -
  have 1: "job_at db_reserved ''job-1'' = Some job_reserved" by (simp add: sample_defs table_defs)
  have 2: "ledger_at db_reserved ''job-1'' 1 = Some row_reserved" by (simp add: sample_defs table_defs)
  have 3: "\<not> lease_mismatch (req_lease ''node-a'') (decoded job_reserved) row_reserved" "unresolved_lower (req_lease ''node-a'') db_reserved = 0"
    "\<not> lease_held 300 row_reserved" "mar_State row_reserved = ManagedAttemptResourceReserved"
    by (simp_all add: lease_mismatch_def unresolved_lower_def lease_held_def req_lease_def sample_defs table_defs)
  have 4: "grant_lease (req_lease ''node-a'') 300 (decoded job_reserved) row_reserved db_reserved = ((decoded job_reserved, row_leased, True), db_leased)"
    by (simp add: grant_lease_def table_defs sample_defs req_lease_def)
  show ?thesis using valid_requests(2) 1 2 3 4
    by (simp add: AcquireManagedAttemptCreation_def branch_defs req_lease_def)
qed

lemma run_lease2:
  "AcquireManagedAttemptCreation 300 (req_lease ''node-b'') (300 + Minute) db_leased = Inr ((decoded job_reserved, row_leased2, True), db_leased2)"
proof -
  have 1: "job_at db_leased ''job-1'' = Some job_reserved" by (simp add: sample_defs table_defs)
  have 2: "ledger_at db_leased ''job-1'' 1 = Some row_leased" by (simp add: sample_defs table_defs)
  have 3: "\<not> lease_mismatch (req_lease ''node-b'') (decoded job_reserved) row_leased" "unresolved_lower (req_lease ''node-b'') db_leased = 0"
    "\<not> lease_held (300 + Minute) row_leased" "mar_State row_leased = ManagedAttemptResourceCreating"
    by (simp_all add: lease_mismatch_def unresolved_lower_def lease_held_def req_lease_def sample_defs table_defs)
  have 4: "grant_lease (req_lease ''node-b'') (300 + Minute) (decoded job_reserved) row_leased db_leased =
      ((decoded job_reserved, row_leased2, True), db_leased2)"
    by (simp add: grant_lease_def table_defs sample_defs req_lease_def)
  show ?thesis using valid_requests(3) 1 2 3 4
    by (simp add: AcquireManagedAttemptCreation_def branch_defs req_lease_def)
qed

subsection \<open>Adoption and activation\<close>

definition req_adopt :: ManagedAttemptAdoptionRequest where
  "req_adopt = \<lparr>adopt_JobID = ''job-1'', adopt_ExpectedClusterAttempt = 1, adopt_ExpectedState = StateSubmitted, adopt_RayJobName = ''job-1'',
     adopt_RayJobUID = ''uid-1'', adopt_KubernetesNS = ''tenant-team-a'', adopt_ResourceVersion = ''7'', adopt_LeaseOwner = ''node-b'',
     adopt_LeaseVersion = 2, adopt_ResourceFence = 2\<rparr>"

definition req_stale :: ManagedAttemptAdoptionRequest where
  "req_stale = req_adopt\<lparr>adopt_LeaseVersion := 1, adopt_ResourceFence := 1, adopt_LeaseOwner := ''node-a''\<rparr>"

definition row_adopted :: ManagedAttemptResource where
  "row_adopted = row_leased2\<lparr>mar_RayJobUID := ''uid-1'', mar_ResourceFence := 2, mar_State := ManagedAttemptResourceActivating,
     mar_LeaseOwner := [], mar_LeaseExpiresAt := None, mar_UpdatedAt := 400\<rparr>"

definition job_adopted :: JobRecord where
  "job_adopted = job_reserved\<lparr>jr_KubernetesNS := ''tenant-team-a'', jr_RayJobUID := ''uid-1'', jr_ResourceVersion := ''7'',
     jr_LastObservedAt := Some 400, jr_UpdatedAt := 400\<rparr>"

definition db_adopted :: DB where
  "db_adopted = db_leased2\<lparr>db_jobs := [job_adopted], db_ledger := [row_adopted]\<rparr>"

definition req_activate :: ManagedAttemptActivationRequest where
  "req_activate = \<lparr>act_JobID = ''job-1'', act_ExpectedClusterAttempt = 1, act_RayJobName = ''job-1'', act_RayJobUID = ''uid-1'', act_ResourceFence = 2\<rparr>"

definition row_active :: ManagedAttemptResource where
  "row_active = row_adopted\<lparr>mar_State := ManagedAttemptResourceActive, mar_UpdatedAt := 500\<rparr>"

definition db_active :: DB where
  "db_active = db_adopted\<lparr>db_ledger := [row_active]\<rparr>"

lemmas sample_defs2 = sample_defs row_adopted_def db_adopted_def row_active_def db_active_def

lemma valid_activation:
  "ManagedAttemptAdoptionRequest_Validate req_adopt = None" "ManagedAttemptActivationRequest_Validate req_activate = None"
  by code_simp+

lemma decodes_adopted [simp]: "decodes job_adopted"
  by (simp add: decodes_def job_adopted_def job_reserved_def sample_row_def)

lemma job_adopted_fields [simp]:
  "jr_ID job_adopted = ''job-1''" "jr_DesiredState job_adopted = DesiredActive" "jr_ObservedState job_adopted = StateSubmitted"
  "jr_RayJobName job_adopted = ''job-1''" "jr_RayJobUID job_adopted = ''uid-1''" "jr_ClusterAttempt job_adopted = 1"
  "jr_TrainingEngine job_adopted = ''ray-train''" "jr_TenantID job_adopted = ''team-a''" "jr_KubernetesNS job_adopted = ''tenant-team-a''"
  by (simp_all add: job_adopted_def)

lemma run_adopt: "AdoptManagedAttemptIdentity 400 req_adopt db_leased2 = Inr ((decoded job_adopted, True), db_adopted)"
proof -
  have 1: "job_at db_leased2 ''job-1'' = Some job_reserved" "job_at db_adopted ''job-1'' = Some job_adopted" by (simp_all add: sample_defs2 table_defs)
  have 2: "ledger_at db_leased2 ''job-1'' 1 = Some row_leased2" by (simp add: sample_defs table_defs)
  have 3: "\<not> adoption_stale req_adopt (decoded job_reserved)" "\<not> adoption_lease_mismatch req_adopt row_leased2"
    "managedAttemptFenceIssuedTx db_leased2 ''job-1'' 1 2"
    by (simp_all add: adoption_stale_def adoption_lease_mismatch_def managedAttemptFenceIssuedTx_def req_adopt_def sample_defs table_defs req_lease_def)
  have 4: "adopt_tx 400 req_adopt db_leased2 = Inr ((decoded job_adopted, True), db_adopted)"
    using 1(2) decodes_toDomain [OF decodes_adopted, unfolded job_adopted_def]
    by (simp add: adopt_tx_def branch_defs table_defs sample_defs2 req_adopt_def go_consts req_lease_def job_adopted_def)
  show ?thesis using valid_activation(1) 1 2 3 4
    by (simp add: AdoptManagedAttemptIdentity_def branch_defs req_adopt_def)
qed

lemma activation_job: "job_at db_adopted ''job-1'' = Some job_adopted" "ledger_at db_adopted ''job-1'' 1 = Some row_adopted"
   "managedAttemptFenceIssuedTx db_adopted ''job-1'' 1 2"
  by (simp_all add: sample_defs2 table_defs managedAttemptFenceIssuedTx_def)

lemma row_adopted_fields [simp]: "mar_RayJobName row_adopted = ''job-1''" "mar_RayJobUID row_adopted = ''uid-1''" "mar_ResourceFence row_adopted = 2"
  "mar_State row_adopted = ManagedAttemptResourceActivating"
  by (simp_all add: sample_defs2)

lemma run_authorize: "AuthorizeManagedAttemptActivation req_activate db_adopted = Inr (decoded job_adopted, row_adopted, True)"
  using valid_activation(2) activation_job
  by (simp add: AuthorizeManagedAttemptActivation_def branch_defs req_activate_def)

lemma run_confirm: "ConfirmManagedAttemptActivation 500 req_activate db_adopted = Inr ((decoded job_adopted, True), db_active)"
  using valid_activation(2) activation_job
  by (simp add: ConfirmManagedAttemptActivation_def branch_defs req_activate_def count_where_def update_where_def sample_defs2)

subsection \<open>Observation, recovery and cancellation\<close>

definition obs_running :: ObservedJobState where
  "obs_running = \<lparr>obs_JobID = ''job-1'', obs_State = StateRunning, obs_Reason = [], obs_Message = ''RUNNING'', obs_KubernetesNS = ''tenant-team-a'',
     obs_RayJobName = ''job-1'', obs_RayJobUID = ''uid-1'', obs_RayClusterName = ''job-1-c'', obs_ResourceVersion = ''8'',
     obs_ExpectedClusterAttempt = 1, obs_ExpectedRayJobName = ''job-1'', obs_ExpectedRayJobUID = ''uid-1'', obs_StartedAt = Some 550,
     obs_FinishedAt = None\<rparr>"

definition job_running :: JobRecord where
  "job_running = observed_updates 600 obs_running job_adopted"

definition db_running :: DB where
  "db_running = db_active\<lparr>db_jobs := [job_running]\<rparr>"

definition req_recover :: ManagedRecoveryRequest where
  "req_recover = \<lparr>rec_JobID = ''job-1'', rec_ExpectedClusterAttempt = 1, rec_ExpectedRayJobName = ''job-1'', rec_ExpectedRayJobUID = ''uid-1'',
     rec_FailureClass = ''HEAD_POD_LOST'', rec_FailureMessage = ''node drained''\<rparr>"

definition job_recovering :: JobRecord where
  "job_recovering = job_running\<lparr>jr_ObservedState := StateRecovering, jr_StatusReason := ''HEAD_POD_LOST'', jr_StatusMessage := ''node drained'',
     jr_ClusterAttempt := 2, jr_ResumeCheckpointID := ''ckpt-3'', jr_LastObservedAt := Some 700, jr_UpdatedAt := 700\<rparr>"

definition db_recovering :: DB where
  "db_recovering = db_running\<lparr>db_ledger := [to_retiring 700 ''uid-1'' row_active], db_jobs := [job_recovering]\<rparr>"

lemma decodes_running [simp]: "decodes job_running" "decodes job_recovering"
  by (simp_all add: decodes_def job_recovering_def job_running_def observed_updates_def job_adopted_def job_reserved_def sample_row_def)

lemma job_running_fields [simp]:
  "jr_ID job_running = ''job-1''" "jr_DesiredState job_running = DesiredActive" "jr_ObservedState job_running = StateRunning"
  "jr_RayJobName job_running = ''job-1''" "jr_RayJobUID job_running = ''uid-1''" "jr_ClusterAttempt job_running = 1"
  "jr_TrainingEngine job_running = ''ray-train''" "jr_TenantID job_running = ''team-a''" "jr_KubernetesNS job_running = ''tenant-team-a''"
  "jr_UserID job_running = ''u-1''"
  by (simp_all add: job_running_def observed_updates_def obs_running_def job_adopted_def job_reserved_def)

lemma run_observe: "ApplyObservedState 600 obs_running db_active = Inr db_running"
proof -
  have "job_at db_active ''job-1'' = Some job_adopted" "db_jobs db_active = [job_adopted]" by (simp_all add: sample_defs2 table_defs)
  moreover have "observedStateMatchesCurrentAttempt job_adopted obs_running"
    by (simp add: observedStateMatchesCurrentAttempt_def obs_running_def)
  ultimately show ?thesis
    by (simp add: ApplyObservedState_def branch_defs obs_running_def [THEN arg_cong, of obs_JobID] obs_running_def [THEN arg_cong, of obs_State]
      obs_running_def [THEN arg_cong, of obs_ExpectedClusterAttempt] isTerminalState_iff count_where_def update_where_def db_running_def job_running_def)
qed

lemma recovery_sample:
  "ManagedRecoveryRequest_Validate req_recover = None" "TrainingCheckpoint_Validate sample_checkpoint = None" "trim_space ''HEAD_POD_LOST'' = ''HEAD_POD_LOST''"
  "Join [DataMountOutputPath, ''.platform'', ''ray-train'', ''job-1'', ''checkpoints''] = ''/mnt/data/output/.platform/ray-train/job-1/checkpoints''"
  "Join [''/mnt/data/output/.platform/ray-train/job-1/checkpoints'', ''ckpt-3''] = ''/mnt/data/output/.platform/ray-train/job-1/checkpoints/ckpt-3''"
  by code_simp+

lemma sample_latest: "latestUsableRecoveryCheckpoint db_running job_running = Some sample_checkpoint"
proof -
  have "db_checkpoints db_running = [sample_checkpoint]" by (simp add: db_running_def sample_defs2)
  then show ?thesis using recovery_sample(2,4,5)
    by (simp add: latestUsableRecoveryCheckpoint_def Let_def select_where_def ManagedCheckpointRetentionLimit_def sample_checkpoint_def)
qed

lemma run_recover: "BeginManagedRecovery 700 req_recover db_running = Inr ((decoded job_recovering, True), db_recovering)"
proof -
  have at: "job_at db_running ''job-1'' = Some job_running" "ledger_at db_running ''job-1'' 1 = Some row_active"
      "job_at db_recovering ''job-1'' = Some job_recovering"
    by (simp_all add: db_running_def db_recovering_def sample_defs2 table_defs job_recovering_def)
  have 1: "\<not> recovery_refused req_recover (decoded job_running)" "recoverable_output (decoded job_running)"
    using sample_mounts by (auto simp: recovery_refused_def req_recover_def recoverable_output_def Let_def)
  have 2: "retireManagedAttemptResourceTx \<lparr>ret_JobID = ''job-1'', ret_ClusterAttempt = 1, ret_KubernetesNS = ''tenant-team-a'',
      ret_RayJobName = ''job-1'', ret_RayJobUID = ''uid-1''\<rparr> 700 db_running =
      Inr ((to_retiring 700 ''uid-1'' row_active, True), db_running\<lparr>db_ledger := [to_retiring 700 ''uid-1'' row_active]\<rparr>)"
    using at(2) by (simp add: retireManagedAttemptResourceTx_def branch_defs count_where_def update_where_def db_running_def sample_defs2)
  have 3: "advance_attempt 700 req_recover sample_checkpoint (db_running\<lparr>db_ledger := [to_retiring 700 ''uid-1'' row_active]\<rparr>) =
      Inr ((decoded job_recovering, True), db_recovering)"
  proof -
    have "db_jobs db_running = [job_running]" by (simp add: db_running_def)
    moreover have "ckpt_ID sample_checkpoint = ''ckpt-3''" by (simp add: sample_checkpoint_def)
    ultimately show ?thesis using at(3) recovery_sample(3) decodes_toDomain [OF decodes_running(2), unfolded job_recovering_def]
      by (simp add: advance_attempt_def branch_defs count_where_def update_where_def req_recover_def db_recovering_def job_recovering_def go_consts)
  qed
  show ?thesis using recovery_sample(1) at(1) 1 sample_latest 2 3
    by (simp add: BeginManagedRecovery_def branch_defs req_recover_def [THEN arg_cong, of rec_JobID] first_nonempty_def sample_columns)
qed

definition db_canceled :: DB where
  "db_canceled = db_running\<lparr>db_ledger := [to_retiring 800 ''uid-1'' row_active],
     db_jobs := [job_running\<lparr>jr_DesiredState := DesiredCanceled, jr_UpdatedAt := 800\<rparr>],
     db_outbox := [pending_event ''job-1-cancel'' ''TrainingJob'' ''job-1'' ''TRAINING_JOB_CANCEL_REQUESTED''
       [(''job_id'', ArgS ''job-1''), (''tenant_id'', ArgS ''team-a'')] 800]\<rparr>"

lemma run_cancel: "SetDesiredState 800 ''team-a'' ''job-1'' DesiredCanceled db_running = Inr db_canceled"
proof -
  have at: "ledger_at db_running ''job-1'' 1 = Some row_active" "db_jobs db_running = [job_running]" "db_outbox db_running = []"
    by (simp_all add: db_running_def sample_defs2 table_defs)
  have "retireManagedAttemptResourceTx \<lparr>ret_JobID = ''job-1'', ret_ClusterAttempt = 1, ret_KubernetesNS = ''tenant-team-a'',
      ret_RayJobName = ''job-1'', ret_RayJobUID = ''uid-1''\<rparr> 800 db_running =
      Inr ((to_retiring 800 ''uid-1'' row_active, True), db_running\<lparr>db_ledger := [to_retiring 800 ''uid-1'' row_active]\<rparr>)"
    using at(1) by (simp add: retireManagedAttemptResourceTx_def branch_defs count_where_def update_where_def db_running_def sample_defs2)
  then have "cancel_attempts 800 job_running db_running = Inr (db_running\<lparr>db_ledger := [to_retiring 800 ''uid-1'' row_active]\<rparr>)"
    by (simp add: cancel_attempts_def branch_defs first_nonempty_def sample_columns retire_live_attempts_def update_where_def live_states_def to_retiring_def)
  then show ?thesis using at sample_columns
    by (simp add: SetDesiredState_def branch_defs select_first_def update_where_def go_consts db_canceled_def insert_outbox_ignore_def
      insert_ignore_def insert_new_def)
qed

definition obs_succeeded :: ObservedJobState where
  "obs_succeeded = obs_running\<lparr>obs_State := StateSucceeded, obs_FinishedAt := Some 780\<rparr>"

definition db_finished :: DB where
  "db_finished = db_running\<lparr>db_ledger := [to_retiring 800 ''uid-1'' row_active],
     db_jobs := [observed_updates 800 obs_succeeded job_running],
     db_outbox := [pending_event ''job-1-terminal'' ''TrainingJob'' ''job-1'' ''TRAINING_JOB_TERMINAL'' [(''job_id'', ArgS ''job-1'')] 800]\<rparr>"

lemma obs_succeeded_fields [simp]:
  "obs_JobID obs_succeeded = ''job-1''" "obs_State obs_succeeded = StateSucceeded" "obs_KubernetesNS obs_succeeded = ''tenant-team-a''"
  "obs_RayJobName obs_succeeded = ''job-1''" "obs_RayJobUID obs_succeeded = ''uid-1''" "obs_ExpectedClusterAttempt obs_succeeded = 1"
  "obs_ExpectedRayJobName obs_succeeded = ''job-1''" "obs_ExpectedRayJobUID obs_succeeded = ''uid-1''" "obs_FinishedAt obs_succeeded = Some 780"
  by (simp_all add: obs_succeeded_def obs_running_def)

lemma run_finish: "ApplyObservedState 800 obs_succeeded db_running = Inr db_finished"
proof -
  let ?js = "[observed_updates 800 obs_succeeded job_running]"
  have at: "job_at db_running ''job-1'' = Some job_running" "ledger_at (db_running\<lparr>db_jobs := ?js\<rparr>) ''job-1'' 1 = Some row_active"
      "db_jobs db_running = [job_running]" "db_outbox db_running = []"
    by (simp_all add: db_running_def sample_defs2 table_defs)
  have "retireManagedAttemptResourceTx \<lparr>ret_JobID = ''job-1'', ret_ClusterAttempt = 1, ret_KubernetesNS = ''tenant-team-a'',
      ret_RayJobName = ''job-1'', ret_RayJobUID = ''uid-1''\<rparr> 800 (db_running\<lparr>db_jobs := ?js\<rparr>) =
      Inr ((to_retiring 800 ''uid-1'' row_active, True), db_running\<lparr>db_jobs := ?js, db_ledger := [to_retiring 800 ''uid-1'' row_active]\<rparr>)"
    using at(2) by (simp add: retireManagedAttemptResourceTx_def branch_defs count_where_def update_where_def db_running_def sample_defs2)
  then have "finish_attempts 800 job_running obs_succeeded (db_running\<lparr>db_jobs := ?js\<rparr>) =
      Inr (db_running\<lparr>db_jobs := ?js, db_ledger := [to_retiring 800 ''uid-1'' row_active]\<rparr>)"
    by (simp add: finish_attempts_def branch_defs first_nonempty_def sample_columns retire_live_attempts_def update_where_def live_states_def to_retiring_def)
  moreover have "observedStateMatchesCurrentAttempt job_running obs_succeeded" by (simp add: observedStateMatchesCurrentAttempt_def)
  ultimately show ?thesis using at(1,3,4) sample_columns
    by (simp add: ApplyObservedState_def branch_defs isTerminalState_iff count_where_def update_where_def db_finished_def go_consts
      insert_outbox_ignore_def insert_ignore_def insert_new_def)
qed

definition req_quarantine :: ManagedAttemptCleanupFailureRequest where
  "req_quarantine = \<lparr>cf_JobID = ''job-1'', cf_ClusterAttempt = 1, cf_RayJobName = ''job-1'', cf_RayJobUID = [], cf_Message = ''foreign RayJob'',
     cf_Permanent = True, cf_ObservedAt = 350\<rparr>"

definition row_quarantined :: ManagedAttemptResource where
  "row_quarantined = row_leased\<lparr>mar_State := ManagedAttemptResourceQuarantined, mar_CleanupFailures := 1, mar_CleanupLastError := ''foreign RayJob'',
     mar_NextCheckAt := 350 + 24 * Hour, mar_UpdatedAt := 350\<rparr>"

lemma quarantine_sample: "ManagedAttemptCleanupFailureRequest_Validate req_quarantine = None"
  "truncate_runes 4096 (trim_space ''foreign RayJob'') = ''foreign RayJob''"
  by code_simp+

lemma run_quarantine:
  "\<exists>db. RecordManagedAttemptCleanupFailure 350 req_quarantine db_leased = Inr db \<and> ledger_at db ''job-1'' 1 = Some row_quarantined"
  using quarantine_sample
  by (simp add: RecordManagedAttemptCleanupFailure_def branch_defs table_defs sample_defs req_lease_def req_quarantine_def row_quarantined_def
    insert_outbox_ignore_def)

subsection \<open>The run as steps of the store\<close>

lemma store_inv_fresh:
  assumes "distinct (map jr_ID (db_jobs db))" "\<forall>r \<in> set (db_jobs db). 1 \<le> jr_ClusterAttempt r" "db_ledger db = []" "db_fences db = []"
  shows "store_inv db"
proof -
  have "1 \<le> jr_ClusterAttempt r" if "job_at db i = Some r" for i r using that assms(2) select_first_in by (fastforce simp: job_at_def)
  then show ?thesis using assms job_at_ID by (auto simp: store_inv_def keys_ok_def protocol_inv_def ledger_at_def select_first_def)
qed

lemma inv_queued: "store_inv db_queued"
  by (rule store_inv_fresh) (simp_all add: db_queued_def empty_db_def)

lemma steps_leased: "store_step\<^sup>*\<^sup>* db_queued db_leased"
  using store_step.reserve [OF run_reserve] store_step.acquire [OF run_lease] by (meson rtranclp.simps)

lemma steps_running: "store_step\<^sup>*\<^sup>* db_leased db_running"
  using store_step.acquire [OF run_lease2] store_step.adopt [OF run_adopt] store_step.confirm [OF run_confirm] store_step.observe [OF run_observe]
  by (meson converse_rtranclp_into_rtranclp rtranclp.rtrancl_refl)

lemma sample_invs: "store_inv db_leased" "store_inv db_running" "store_inv db_reserved" "store_inv db_leased2" "store_inv db_recovering"
  "store_inv db_canceled" "store_inv db_finished"
  using store_inv_steps [OF _ inv_queued] steps_leased steps_running store_step.reserve [OF run_reserve] store_step.acquire [OF run_lease2]
    store_step.recover [OF run_recover] store_step.cancel [OF run_cancel] store_step.observe [OF run_finish] store_inv_steps
  by (meson r_into_rtranclp)+

end
