(* ===== verification/Sample_Cluster.thy ===== *)
theory Sample_Cluster
  imports Reconciler Sample_Run
begin

section \<open>A run of the reconciler\<close>

text \<open>
  Two passes of the reconciler over the sample job. In the first the creation lease of another node has
  run out, the job has no RayJob yet, and at the end of the pass it runs. In the second the job has been canceled and the
  API server refuses the deletion. The state of the cluster is the number of
  transactions so far, which the clock depends on, and the RayJob.
\<close>

type_synonym cluster = "nat \<times> RayJob option"

definition sample_status :: status_map where
  "sample_status = [(''jobStatus'', FieldString ''RUNNING''), (''rayClusterName'', FieldString ''job-1-c''), (''startTime'', FieldString ''t0'')]"

definition stored :: "RayJob \<Rightarrow> RayJob" where
  "stored r = r\<lparr>rj_UID := ''uid-1'', rj_ResourceVersion := ''7''\<rparr>"

definition started :: "RayJob \<Rightarrow> RayJob" where
  "started r = r\<lparr>rj_ResourceVersion := ''8'', rj_Status := Inr (Some sample_status)\<rparr>"

definition sample_env :: "cluster env" where
  "sample_env = \<lparr>env_interfere = (\<lambda>(n, o') db. ((Suc n, o'), db)), env_outage = (\<lambda>_. None),
     env_now = (\<lambda>(n, _). if n \<le> 3 then 300 + Minute else if n \<le> 5 then 400 else if n \<le> 6 then 500 else if n \<le> 7 then 600 else 900),
     env_get = (\<lambda>ns name (n, o') db. (case o' of None \<Rightarrow> Inl ReasonNotFound | Some r \<Rightarrow> Inr r, (n, o'), db)),
     env_create = (\<lambda>dry r (n, o') db. if dry then (Inr r, (n, o'), db) else (Inr (stored r), (n, Some (stored r)), db)),
     env_update = (\<lambda>r (n, o') db. (Inr (started r), (n, Some (started r)), db)),
     env_delete = (\<lambda>ns name uid (n, o') db. (Inl (ReasonOther ''Forbidden''), (n, o'), db)), env_retries = 0, env_polls = 0\<rparr>"

definition sample_config :: "cluster config" where
  "sample_config = \<lparr>cfg_leaseOwner = ''node-b'', cfg_creationLease = Minute, cfg_cleanupWait = Minute, cfg_rayJobRetention = 0,
     cfg_clusterSpecField = [], cfg_collate = (\<lambda>_. 0), cfg_rfc3339 = (\<lambda>_. Some 550), cfg_error_text = (\<lambda>_. []),
     cfg_prepare = return, cfg_checks = (\<lambda>_. None), cfg_experimentRuns = None, cfg_evaluationJobs = None\<rparr>"

definition sample_world :: "nat \<Rightarrow> RayJob option \<Rightarrow> DB \<Rightarrow> (kube_call \<times> DB) list \<Rightarrow> cluster world" where
  "sample_world n r db calls = \<lparr>w_db = db, w_kube = (n, r), w_calls = calls\<rparr>"

lemma sample_world_fields [simp]: "w_db (sample_world n r db calls) = db" "w_calls (sample_world n r db calls) = calls"
  by (simp_all add: sample_world_def)

lemma run_store_op:
  "store_op sample_env f (sample_world n r db calls) =
     (case f (env_now sample_env (Suc n, r)) db of
        Inl err \<Rightarrow> (Inl err, sample_world (Suc n) r db calls) | Inr (x, db') \<Rightarrow> (Inr x, sample_world (Suc n) r db' calls))"
  by (simp add: store_op_def sample_world_def sample_env_def Let_def split: sum.splits)

lemma run_clock: "clock sample_env (sample_world n r db calls) = (Inr (env_now sample_env (n, r)), sample_world n r db calls)"
  by (simp add: clock_def sample_world_def)

lemma run_get:
  "GetRayJob sample_env ns name (sample_world n r db calls) =
     (case r of None \<Rightarrow> Inl (StatusError ReasonNotFound) | Some x \<Rightarrow> Inr x, sample_world n r db calls)"
  by (simp add: GetRayJob_def api_call_def sample_world_def sample_env_def split: option.splits)

lemma run_create:
  "api_call (Some (CallCreate dry x)) (env_create sample_env dry x) (sample_world n r db calls) =
     (if dry then (Inr x, sample_world n r db (calls @ [(CallCreate dry x, db)]))
      else (Inr (stored x), sample_world n (Some (stored x)) db (calls @ [(CallCreate dry x, db)])))"
  by (simp add: api_call_def sample_world_def sample_env_def)

lemma run_update:
  "api_call (Some (CallUpdate kind x)) (env_update sample_env x) (sample_world n r db calls) =
     (Inr (started x), sample_world n (Some (started x)) db (calls @ [(CallUpdate kind x, db)]))"
  by (simp add: api_call_def sample_world_def sample_env_def)

lemma sample_times [simp]:
  "env_now sample_env (n, r) = (if n \<le> 3 then 300 + Minute else if n \<le> 5 then 400 else if n \<le> 6 then 500 else if n \<le> 7 then 600 else 900)"
  by (simp add: sample_env_def)

lemma sample_retries [simp]: "env_retries sample_env = 0"
  by (simp add: sample_env_def)

lemma run_reserve_again:
  "ReserveManagedAttemptIdentity t \<lparr>resv_JobID = ''job-1'', resv_ExpectedClusterAttempt = 1, resv_ExpectedState = StateSubmitted,
     resv_ExpectedRayJobName = ''job-1'', resv_RayJobName = ''job-1'', resv_KubernetesNS = ''tenant-team-a''\<rparr> db_leased =
   Inr ((decoded job_reserved, True), db_leased)"
proof -
  have "ManagedAttemptReservationRequest_Validate \<lparr>resv_JobID = ''job-1'', resv_ExpectedClusterAttempt = 1, resv_ExpectedState = StateSubmitted,
     resv_ExpectedRayJobName = ''job-1'', resv_RayJobName = ''job-1'', resv_KubernetesNS = ''tenant-team-a''\<rparr> = None" by code_simp
  moreover have "job_at db_leased ''job-1'' = Some job_reserved" "ledger_at db_leased ''job-1'' 1 = Some row_leased"
    by (simp_all add: sample_defs table_defs)
  moreover have "mar_KubernetesNS row_leased = ''tenant-team-a''" "mar_RayJobName row_leased = ''job-1''" "mar_RayJobUID row_leased = []"
    "mar_State row_leased = ManagedAttemptResourceCreating" by (simp_all add: sample_defs)
  ultimately show ?thesis by (simp add: ReserveManagedAttemptIdentity_def branch_defs)
qed

lemma sample_names:
  assumes "decodes r" "jr_ID r = ''job-1''" "jr_ClusterAttempt r = 1" "jr_KubernetesNS r = ''tenant-team-a''"
  shows "managedAttemptRayJobName (decoded r) = ''job-1''" "managedJobNamespace (decoded r) = ''tenant-team-a''" "managed_job (decoded r)"
proof -
  have "sanitizeDNS ''job-1'' = ''job-1''" by code_simp
  then show "managedAttemptRayJobName (decoded r) = ''job-1''" using assms by (simp add: managedAttemptRayJobName_def)
  show "managedJobNamespace (decoded r) = ''tenant-team-a''" using assms sample_columns by (simp add: managedJobNamespace_def)
  show "managed_job (decoded r)" using decoded_fields(9) [OF assms(1)] by (simp add: managed_job_def managed_engine_def)
qed

lemma toDomain_queue: "toDomain r = Inr job \<Longrightarrow> jr_SpecJSON r = Some s \<Longrightarrow> spec_Queue (job_Spec job) = spec_Queue s"
  by (auto simp: toDomain_def Let_def)

lemma sample_queue: "decodes r \<Longrightarrow> spec_Queue (job_Spec (decoded r)) = ''train''"
  using toDomain_queue [OF decodes_toDomain] by (simp add: decodes_def sample_spec_def)

definition sample_manifest :: RayJob where
  "sample_manifest = \<lparr>rj_Namespace = ''tenant-team-a'', rj_Name = ''job-1'', rj_UID = [], rj_ResourceVersion = [],
     rj_Labels = manifest_labels (decoded job_reserved) 2, rj_Annotations = manifest_annotations (decoded job_reserved) 2,
     rj_Suspend = Inr (Some True), rj_TTL = Inr (Some (failureCleanupTTL (decoded job_reserved))), rj_RestartPolicy = Inr (Some ''Never''),
     rj_Status = Inr None\<rparr>"

definition sample_unsuspended :: RayJob where
  "sample_unsuspended = (stored sample_manifest)\<lparr>rj_Labels := (rj_Labels sample_manifest)(queue_label \<mapsto> ''train''),
     rj_Annotations := (rj_Annotations sample_manifest)(managedPendingAdoptionKey := None)\<rparr>"

lemma sample_strings [simp]:
  "isDNSLabel ''tenant-team-a''" "trim_space ''job-1'' = ''job-1''" "trim_space ''uid-1'' = ''uid-1''" "blank []" "trim_space [] = []"
  "\<not> blank ''uid-1''" "\<not> blank ''job-1''" "\<not> blank ''tenant-team-a''" "\<not> blank ''train''" "decimal 1 = ''1''" "decimal 2 = ''2''"
  "ParseInt ''2'' = Some 2"
  by code_simp+

lemma sample_render: "RenderRayJob sample_config (decoded job_reserved) 2 = Inr sample_manifest"
  by (simp add: RenderRayJob_def branch_defs sample_config_def sample_names rayJobResourceName_def sample_manifest_def first_nonempty_def)

lemma sample_labels [simp]:
  "label sample_manifest job_id_label = ''job-1''" "label sample_manifest managedAttemptIdentityKey = ''1''"
  "label sample_manifest managedCreationFenceKey = ''2''" "label sample_manifest queue_label = []"
  "annotation sample_manifest managedAttemptIdentityKey = ''1''" "annotation sample_manifest managedCreationFenceKey = ''2''"
  by (simp_all add: label_def annotation_def sample_manifest_def manifest_labels_def manifest_annotations_def sample_names Let_def go_consts)

lemma stored_fields [simp]:
  "label (stored r) k = label r k" "annotation (stored r) k = annotation r k" "rj_UID (stored r) = ''uid-1''" "rj_Namespace (stored r) = rj_Namespace r"
  "rj_Name (stored r) = rj_Name r" "rj_ResourceVersion (stored r) = ''7''"
  "rj_Labels (stored r) = rj_Labels r" "rj_Annotations (stored r) = rj_Annotations r"
  by (simp_all add: label_def annotation_def stored_def)

lemma manifest_fields [simp]: "rj_Namespace sample_manifest = ''tenant-team-a''" "rj_Name sample_manifest = ''job-1''"
  "validateRayJobSubmitterRestartPolicy sample_manifest = None"
  by (simp_all add: sample_manifest_def validateRayJobSubmitterRestartPolicy_def check_def)

definition sample_creates :: "(kube_call \<times> DB) list" where
  "sample_creates = [(CallCreate True sample_manifest, db_leased2), (CallCreate False sample_manifest, db_leased2)]"

lemmas prog_defs = guard_def handle_def bind_def return_def fail_def of_result_def map_error_def check_def Let_def

lemma sample_ensure:
  "getOrEnsureRayJob sample_env (decoded job_reserved) sample_manifest (sample_world n None db_leased2 []) =
   (Inr (stored sample_manifest), sample_world n (Some (stored sample_manifest)) db_leased2 sample_creates)"
  by (simp add: getOrEnsureRayJob_def sample_names EnsureRayJob_def create_rayjob_def run_get run_create prog_defs sample_creates_def)

lemma sample_fence_read: "managedResourceCreationFence (stored sample_manifest) = Inr 2"
  by (simp add: managedResourceCreationFence_def Let_def)

lemma row_leased2_fields [simp]: "mar_LeaseOwner row_leased2 = ''node-b''" "mar_LeaseVersion row_leased2 = 2" "mar_ResourceFence row_leased2 = 2"
  by (simp_all add: sample_defs req_lease_def)

lemma sample_adopt:
  "adoptManagedAttempt sample_env sample_config (decoded job_reserved) row_leased2 (stored sample_manifest)
     (sample_world 3 (Some (stored sample_manifest)) db_leased2 calls) =
   (Inr (decoded job_adopted, True), sample_world 4 (Some (stored sample_manifest)) db_adopted calls)"
  using run_adopt [unfolded req_adopt_def]
  by (simp add: adoptManagedAttempt_def sample_fence_read verifyManagedRayJobFence_def run_store_op prog_defs sample_config_def)

lemma sample_activate:
  "activateManagedRayJob sample_env sample_config (decoded job_adopted) (stored sample_manifest)
     (sample_world 4 (Some (stored sample_manifest)) db_adopted calls) =
   (Inr (started sample_unsuspended, decoded job_adopted, True),
    sample_world 6 (Some (started sample_unsuspended)) db_active (calls @ [(CallUpdate UpdateActivate sample_unsuspended, db_adopted)]))"
  using run_authorize [unfolded req_activate_def] run_confirm [unfolded req_activate_def]
  by (simp add: activateManagedRayJob_def sample_fence_read ActivateManagedRayJob_def verifyManagedRayJobFence_def store_read_def run_store_op run_get run_update
    prog_defs sample_queue sample_unsuspended_def)

lemma sample_mapped:
  "setObservedStateFence ((MapRayJobStatus (cfg_rfc3339 sample_config) ''job-1'' sample_status ''8'')
     \<lparr>obs_KubernetesNS := ''tenant-team-a'', obs_RayJobName := ''job-1'', obs_RayJobUID := ''uid-1''\<rparr>) (decoded job_adopted) = obs_running"
proof -
  have "to_upper ''RUNNING'' = ''RUNNING''" "to_upper [] = []" "\<not> blank ''t0''" "first_nonempty [] (first_nonempty ''RUNNING'' []) = ''RUNNING''" by code_simp+
  then show ?thesis
    by (simp add: setObservedStateFence_def MapRayJobStatus_def sample_status_def stringValue_def parseRayJobTime_def ray_state_def Let_def
      sample_config_def obs_running_def)
qed

lemma sample_observe:
  "observe_resource sample_env sample_config again (decoded job_adopted) (started sample_unsuspended)
     (sample_world 6 r db_active calls) = (Inr (), sample_world 7 r db_running calls)"
proof -
  have fields: "rj_Status (started sample_unsuspended) = Inr (Some sample_status)" "rj_ResourceVersion (started sample_unsuspended) = ''8''"
    "rj_Namespace (started sample_unsuspended) = ''tenant-team-a''" "rj_Name (started sample_unsuspended) = ''job-1''"
    "rj_UID (started sample_unsuspended) = ''uid-1''"
    by (simp_all add: started_def sample_unsuspended_def)
  have state: "obs_State obs_running = StateRunning" by (simp add: obs_running_def)
  show ?thesis using run_observe
    by (simp add: observe_resource_def fields prog_defs sample_mapped state persist_observation_def call_apply_def run_store_op unit_result_def)
qed

lemma sample_start:
  "start_attempt sample_env sample_config again (decoded job_reserved) (sample_world (Suc 0) None db_leased []) =
   (Inr (), sample_world 7 (Some (started sample_unsuspended)) db_running (sample_creates @ [(CallUpdate UpdateActivate sample_unsuspended, db_adopted)]))"
proof -
  have reserve: "reserveManagedAttempt sample_env (decoded job_reserved) (sample_world (Suc 0) None db_leased []) =
      (Inr (True, decoded job_reserved), sample_world 2 None db_leased [])"
    using run_reserve_again by (simp add: reserveManagedAttempt_def run_store_op prog_defs sample_names numeral_2_eq_2)
  have acquire: "AcquireManagedAttemptCreation t \<lparr>lease_JobID = ''job-1'', lease_ExpectedClusterAttempt = 1, lease_ExpectedState = StateSubmitted,
      lease_RayJobName = ''job-1'', lease_LeaseOwner = ''node-b'', lease_LeaseDuration = Minute\<rparr> (300 + Minute) db_leased =
      Inr ((decoded job_reserved, row_leased2, True), db_leased2)" for t
    using run_lease2 by (simp add: AcquireManagedAttemptCreation_def req_lease_def)
  have workload: "run_workload sample_env sample_config again True (Some row_leased2) (decoded job_reserved) (sample_world 3 None db_leased2 []) =
      (Inr (), sample_world 7 (Some (started sample_unsuspended)) db_running (sample_creates @ [(CallUpdate UpdateActivate sample_unsuspended, db_adopted)]))"
    by (simp add: run_workload_def adopt_created_def activate_and_observe_def bind_def handle_def of_result_def sample_render sample_ensure sample_fence_read
      sample_adopt sample_activate sample_observe terminalJobState_def sample_config_def [THEN arg_cong, of cfg_prepare] return_def)
  show ?thesis
    using acquire workload
    by (simp add: start_attempt_def bind_def handle_def reserve run_clock run_store_op sample_config_def [THEN arg_cong, of cfg_leaseOwner]
      sample_config_def [THEN arg_cong, of cfg_creationLease])
qed

lemma sample_loaded: "GetByID db_leased ''job-1'' = Inr (decoded job_reserved)"
  by (simp add: GetByID_def require_def sample_defs table_defs)

lemma sample_reconcile:
  "ReconcileJob sample_env sample_config 1 ''job-1'' (sample_world 0 None db_leased []) =
   (Inr (), sample_world 7 (Some (started sample_unsuspended)) db_running (sample_creates @ [(CallUpdate UpdateActivate sample_unsuspended, db_adopted)]))"
  by (simp add: ReconcileJob_def store_read_def run_store_op bind_def handle_def sample_loaded terminalJobState_def managedJobHasRetiringIdentity_def
    sample_names sample_start)

subsection \<open>The canceled job\<close>

definition row_canceled :: ManagedAttemptResource where
  "row_canceled = to_retiring 800 ''uid-1'' row_active"

definition job_canceled :: JobRecord where
  "job_canceled = job_running\<lparr>jr_DesiredState := DesiredCanceled, jr_UpdatedAt := 800\<rparr>"

lemma decodes_canceled [simp]: "decodes job_canceled"
  using decodes_running(1) by (simp add: decodes_def job_canceled_def)

lemma canceled_fields [simp]:
  "jr_ID job_canceled = ''job-1''" "jr_DesiredState job_canceled = DesiredCanceled" "jr_ObservedState job_canceled = StateRunning"
  "jr_RayJobName job_canceled = ''job-1''" "jr_RayJobUID job_canceled = ''uid-1''" "jr_ClusterAttempt job_canceled = 1"
  "jr_KubernetesNS job_canceled = ''tenant-team-a''"
  by (simp_all add: job_canceled_def)

lemma row_canceled_fields [simp]:
  "mar_JobID row_canceled = ''job-1''" "mar_ClusterAttempt row_canceled = 1" "mar_KubernetesNS row_canceled = ''tenant-team-a''"
  "mar_RayJobName row_canceled = ''job-1''" "mar_RayJobUID row_canceled = ''uid-1''" "mar_State row_canceled = ManagedAttemptResourceRetiring"
  "mar_NextCheckAt row_canceled = 800" "mar_LeaseOwner row_canceled = []" "mar_LeaseExpiresAt row_canceled = None"
  by (simp_all add: row_canceled_def to_retiring_def sample_defs2)

lemma canceled_db:
  "GetByID db_canceled ''job-1'' = Inr (decoded job_canceled)" "ledger_at db_canceled ''job-1'' 1 = Some row_canceled"
  "IsManagedAttemptFenceIssued db_canceled ''job-1'' 1 2"
proof -
  have tables: "db_jobs db_canceled = [job_canceled]" "db_ledger db_canceled = [row_canceled]"
    by (simp_all add: db_canceled_def job_canceled_def row_canceled_def)
  show "GetByID db_canceled ''job-1'' = Inr (decoded job_canceled)" "ledger_at db_canceled ''job-1'' 1 = Some row_canceled"
    by (simp_all add: GetByID_def require_def table_defs tables)
  show "IsManagedAttemptFenceIssued db_canceled ''job-1'' 1 2"
    by (simp add: IsManagedAttemptFenceIssued_def managedAttemptFenceIssuedTx_def db_canceled_def db_running_def sample_defs2 count_where_def)
qed

lemma canceled_retire:
  "RetireManagedAttemptResource t (retire_request ''job-1'' 1 ''tenant-team-a'' ''job-1'' ''uid-1'') db_canceled = Inr ((row_canceled, False), db_canceled)"
proof -
  have "ManagedAttemptRetireRequest_Validate (retire_request ''job-1'' 1 ''tenant-team-a'' ''job-1'' ''uid-1'') = None" by code_simp
  then show ?thesis using canceled_db(2)
    by (simp add: RetireManagedAttemptResource_def retireManagedAttemptResourceTx_def retire_request_def branch_defs)
qed

lemma run_delete:
  "api_call (Some call) (env_delete sample_env ns name uid) (sample_world n r db calls) =
     (Inl (StatusError (ReasonOther ''Forbidden'')), sample_world n r db (calls @ [(call, db)]))"
  by (simp add: api_call_def sample_world_def sample_env_def)

definition sample_delete :: kube_call where
  "sample_delete = CallDelete ''tenant-team-a'' ''job-1'' ''job-1'' ''uid-1'' (stored sample_manifest)"

lemma sample_cancellation:
  "\<exists>r w. ReconcileJob sample_env sample_config 1 ''job-1'' (sample_world 10 (Some (stored sample_manifest)) db_canceled []) = (r, w) \<and>
     w_calls w = [(sample_delete, db_canceled)]"
proof -
  have name: "first_nonempty ''job-1'' x = ''job-1''" for x by (simp add: first_nonempty_def)
  have "ReconcileJob sample_env sample_config 1 ''job-1'' (sample_world 10 (Some (stored sample_manifest)) db_canceled []) =
      reconcileManagedCancellation sample_env sample_config (decoded job_canceled) (sample_world 11 (Some (stored sample_manifest)) db_canceled [])"
    by (simp add: ReconcileJob_def store_read_def run_store_op bind_def handle_def canceled_db(1) terminalJobState_def reconcileCancellation_def sample_names)
  moreover have "cleanupManagedAttemptResource sample_env sample_config row_canceled (sample_world 12 (Some (stored sample_manifest)) db_canceled []) =
      (Inl (Wrapf ''delete RayJob %s/%s: %w'' [ArgS ''tenant-team-a'', ArgS ''job-1''] (StatusError (ReasonOther ''Forbidden''))),
       sample_world 13 (Some (stored sample_manifest)) db_canceled [(sample_delete, db_canceled)])"
    using canceled_db(3)
    by (simp add: cleanupManagedAttemptResource_def delete_attempt_def verifyManagedAttemptResource_def DeleteRayJob_def prog_defs run_clock run_get run_delete
      store_read_def run_store_op sample_delete_def)
  ultimately show ?thesis
    by (simp add: reconcileManagedCancellation_def managedJobHasRetiringIdentity_def sample_names name call_retire_def run_store_op canceled_retire bind_def handle_def
      return_def fail_def Let_def)
qed

end
