(* ===== verification/Attempt_Properties.thy ===== *)
theory Attempt_Properties
  imports Sample_Run
begin

section \<open>What the managed attempt protocol guarantees\<close>

text \<open>
  Properties of \<open>backend/repositories/jobs.go\<close> over arbitrary interleavings of its operations
  (\<open>store_step\<^sup>*\<^sup>*\<close>), from any database that satisfies the invariant: empty tables do, and so
  does every database reached from one that does.
\<close>

declare isTerminalState_iff [simp del]

lemma le_row:
  assumes "store_step\<^sup>*\<^sup>* db db'" "store_inv db" "ledger_at db j a = Some r"
  obtains r' where "ledger_at db' j a = Some r'" "row_le r r'"
  using store_le_steps [OF assms(1,2)] assms(3) unfolding protocol_le_def view_simps by blast

lemma le_job:
  assumes "store_step\<^sup>*\<^sup>* db db'" "store_inv db" "job_at db i = Some job"
  obtains job' where "job_at db' i = Some job'" "job_le job job'"
  using store_le_steps [OF assms(1,2)] assms(3) unfolding protocol_le_def view_simps by blast

lemma in_ledger:
  assumes "keys_ok db" "r \<in> set (db_ledger db)"
  shows "ledger_at db (mar_JobID r) (mar_ClusterAttempt r) = Some r"
  unfolding ledger_at_def by (rule select_unique [of ledger_key]) (use assms in \<open>auto simp: keys_ok_def\<close>)

lemma store_inv_keys: "store_inv db \<Longrightarrow> keys_ok db" "store_inv db \<Longrightarrow> protocol_inv (view db)"
  by (simp_all add: store_inv_def)

text \<open>
  C1: The operations of the store implement the abstract attempt protocol: every
  interleaving of them, seen through the jobs, the ledger and the issued fences, is a run of the protocol.
\<close>

theorem store_refines_protocol:
  assumes "store_inv db" "store_step\<^sup>*\<^sup>* db db'"
  shows "protocol_step\<^sup>*\<^sup>* (view db) (view db') \<and> store_inv db'"
  using store.sim_steps [OF assms(2)] store_inv_steps [OF assms(2,1)] assms(1) by (simp add: store_inv_def)

theorem store_refines_protocol_witness: "protocol_step\<^sup>*\<^sup>* (view db_queued) (view db_leased)"
  using store_refines_protocol [OF inv_queued steps_leased] by simp

text \<open>
  C2: At every moment a job has at most one attempt that may hold resources, and it is the current
  attempt of an active managed job: no two clusters run for one job.
\<close>

theorem single_live_attempt:
  assumes "store_inv db" "store_step\<^sup>*\<^sup>* db db'" "r \<in> set (db_ledger db')" "live (mar_State r)"
  shows "(\<exists>job. job_at db' (mar_JobID r) = Some job \<and> active job \<and> jr_ClusterAttempt job = mar_ClusterAttempt r) \<and>
         (\<forall>r' \<in> set (db_ledger db'). mar_JobID r' = mar_JobID r \<longrightarrow> live (mar_State r') \<longrightarrow> r' = r)"
proof -
  have inv: "keys_ok db'" "protocol_inv (view db')" using store_inv_steps [OF assms(2,1)] by (simp_all add: store_inv_def)
  have at: "p_row (view db') (mar_JobID r) (mar_ClusterAttempt r) = Some r" using in_ledger [OF inv(1) assms(3)] by simp
  have "r' = r" if r': "r' \<in> set (db_ledger db')" "mar_JobID r' = mar_JobID r" "live (mar_State r')" for r'
  proof -
    have at': "p_row (view db') (mar_JobID r) (mar_ClusterAttempt r') = Some r'" using in_ledger [OF inv(1) r'(1)] r'(2) by simp
    from one_live_attempt [OF inv(2) at assms(4) at' r'(3)] at at' show ?thesis by simp
  qed
  then show ?thesis using live_row [OF inv(2) at assms(4)] by fastforce
qed

theorem single_live_attempt_witness:
  "\<exists>job. job_at db_leased (mar_JobID row_leased) = Some job \<and> active job \<and> jr_ClusterAttempt job = mar_ClusterAttempt row_leased"
proof -
  have "row_leased \<in> set (db_ledger db_leased)" "live (mar_State row_leased)"
    by (simp_all add: db_leased_def row_leased_def granted_def live_def)
  from single_live_attempt [OF inv_queued steps_leased this] show ?thesis by blast
qed

subsection \<open>Leases and fences\<close>

text \<open>What a successful acquisition leaves behind, whether the lease is new or still held.\<close>

lemma acquired_row:
  assumes "AcquireManagedAttemptCreation clock req at db = Inr ((job, row, True), db')"
  defines "now \<equiv> if at = 0 then clock else at"
  shows "ledger_at db' (lease_JobID req) (lease_ExpectedClusterAttempt req) = Some row" "mar_State row = ManagedAttemptResourceCreating"
    "mar_LeaseOwner row = lease_LeaseOwner req" "\<exists>t. mar_LeaseExpiresAt row = Some t" "unresolved_lower req db = 0"
    "db' = db \<or> (\<exists>old. ledger_at db (lease_JobID req) (lease_ExpectedClusterAttempt req) = Some old \<and>
       mar_State old \<in> {ManagedAttemptResourceReserved, ManagedAttemptResourceCreating} \<and> \<not> lease_held now old \<and>
       mar_LeaseVersion row = mar_LeaseVersion old + 1 \<and>
       view db' = (set_row (view db) (lease_JobID req) (lease_ExpectedClusterAttempt req) row)
         \<lparr>p_fence := insert (lease_JobID req, lease_ExpectedClusterAttempt req, mar_LeaseVersion row) (p_fence (view db))\<rparr>)"
proof -
  let ?P = "ledger_at db' (lease_JobID req) (lease_ExpectedClusterAttempt req) = Some row \<and> mar_State row = ManagedAttemptResourceCreating \<and>
    mar_LeaseOwner row = lease_LeaseOwner req \<and> (\<exists>t. mar_LeaseExpiresAt row = Some t) \<and> unresolved_lower req db = 0"
  let ?Q = "\<lambda>old. ledger_at db (lease_JobID req) (lease_ExpectedClusterAttempt req) = Some old \<and>
       mar_State old \<in> {ManagedAttemptResourceReserved, ManagedAttemptResourceCreating} \<and> \<not> lease_held now old \<and>
       mar_LeaseVersion row = mar_LeaseVersion old + 1 \<and>
       view db' = (set_row (view db) (lease_JobID req) (lease_ExpectedClusterAttempt req) row)
         \<lparr>p_fence := insert (lease_JobID req, lease_ExpectedClusterAttempt req, mar_LeaseVersion row) (p_fence (view db))\<rparr>"
  have "?P \<and> (db' = db \<or> (\<exists>old. ?Q old))"
    using assms(1)
  proof (cases rule: Acquire_cases)
    case (held r)
    then show ?thesis by (auto simp: lease_held_def split: option.splits)
  next
    case (new old jobrow)
    have row: "row = granted req now old old" using new(8) unfolding grant_lease_db [OF new(1)] now_def by simp
    note v = grant_view [OF new(1) new(8) [folded now_def]]
    have "ledger_at db' (lease_JobID req) (lease_ExpectedClusterAttempt req) = Some row" using arg_cong [OF v, of p_row] by (simp add: row)
    moreover have "?Q old" using new(1,6,7) v by (simp add: now_def row granted_def)
    ultimately show ?thesis using new(5) by (auto simp: row granted_def)
  qed simp
  then show "ledger_at db' (lease_JobID req) (lease_ExpectedClusterAttempt req) = Some row" "mar_State row = ManagedAttemptResourceCreating"
    "mar_LeaseOwner row = lease_LeaseOwner req" "\<exists>t. mar_LeaseExpiresAt row = Some t" "unresolved_lower req db = 0"
    "db' = db \<or> (\<exists>old. ?Q old)" by blast+
qed

lemma creating_fence:
  assumes "store_inv db" "ledger_at db j a = Some r" "mar_State r = ManagedAttemptResourceCreating"
  shows "mar_ResourceFence r = mar_LeaseVersion r" "(j, a, mar_LeaseVersion r) \<in> p_fence (view db)"
  using inv_rowD [OF store_inv_keys(2) [OF assms(1)], of j a r] assms(2,3) by (simp_all add: row_ok_def)

lemma acquired_inv:
  assumes "store_inv db" "AcquireManagedAttemptCreation clock req at db = Inr (res, db')"
  shows "store_inv db'"
  using store_inv_steps [OF r_into_rtranclp [of store_step, OF store_step.acquire [OF assms(2)]] assms(1)] .

text \<open>
  C6: A creation lease is exclusive: if another owner later obtains a lease on the same attempt, it carries a
  larger fence; and when that acquisition grants the very next lease, the first one had expired.
\<close>

theorem creation_lease_exclusive:
  assumes "store_inv db" "AcquireManagedAttemptCreation clock req at db = Inr ((job, row, True), db1)" "store_step\<^sup>*\<^sup>* db1 db2"
    and "AcquireManagedAttemptCreation clock' req' at' db2 = Inr ((job', row', True), db3)"
    and "lease_JobID req' = lease_JobID req" "lease_ExpectedClusterAttempt req' = lease_ExpectedClusterAttempt req"
    and "lease_LeaseOwner req' \<noteq> lease_LeaseOwner req"
  shows "mar_ResourceFence row < mar_ResourceFence row' \<and>
         (db3 \<noteq> db2 \<and> mar_ResourceFence row' = mar_ResourceFence row + 1 \<longrightarrow>
            (\<exists>t. mar_LeaseExpiresAt row = Some t \<and> t \<le> (if at' = 0 then clock' else at')))"
proof -
  let ?j = "lease_JobID req" and ?a = "lease_ExpectedClusterAttempt req" and ?now = "if at' = 0 then clock' else at'"
  note A = acquired_row [OF assms(2)] and B = acquired_row [OF assms(4), unfolded assms(5,6)]
  have inv: "store_inv db1" "store_inv db2" "store_inv db3"
    using acquired_inv [OF assms(1,2)] store_inv_steps [OF assms(3)] acquired_inv [OF _ assms(4)] by blast+
  have fence: "mar_ResourceFence row = mar_LeaseVersion row" "mar_ResourceFence row' = mar_LeaseVersion row'"
    using creating_fence(1) [OF inv(1) A(1,2)] creating_fence(1) [OF inv(3) B(1,2)] by simp_all
  obtain r2 where r2: "ledger_at db2 ?j ?a = Some r2" "row_le row r2" using le_row [OF assms(3) inv(1) A(1)] .
  have le: "mar_LeaseVersion row \<le> mar_LeaseVersion r2" "1 \<le> stage (mar_State r2)"
    and same: "mar_State r2 = ManagedAttemptResourceCreating \<Longrightarrow> mar_LeaseVersion r2 = mar_LeaseVersion row \<Longrightarrow> same_lease row r2"
    using r2(2) A(2) by (auto simp: row_le_def)
  show ?thesis using B(6)
  proof
    assume "db3 = db2"
    then have "r2 = row'" using B(1) r2(1) by simp
    then have "mar_LeaseVersion r2 \<noteq> mar_LeaseVersion row" using same B(2,3) A(3) assms(7) by (auto simp: same_lease_def)
    then show ?thesis using \<open>r2 = row'\<close> \<open>db3 = db2\<close> le(1) fence by simp
  next
    assume "\<exists>old. ledger_at db2 ?j ?a = Some old \<and> mar_State old \<in> {ManagedAttemptResourceReserved, ManagedAttemptResourceCreating} \<and>
      \<not> lease_held ?now old \<and> mar_LeaseVersion row' = mar_LeaseVersion old + 1 \<and>
      view db3 = (set_row (view db2) ?j ?a row')\<lparr>p_fence := insert (?j, ?a, mar_LeaseVersion row') (p_fence (view db2))\<rparr>"
    then have old: "mar_State r2 = ManagedAttemptResourceCreating" "\<not> lease_held ?now r2" "mar_LeaseVersion row' = mar_LeaseVersion r2 + 1"
      using r2(1) le(2) by auto
    obtain t where t: "mar_LeaseExpiresAt row = Some t" using A(4) by blast
    have "t \<le> ?now" if "mar_LeaseVersion r2 = mar_LeaseVersion row"
      using same [OF old(1) that] old(1,2) t by (auto simp: same_lease_def lease_held_def)
    then show ?thesis using old(3) le(1) fence t by auto
  qed
qed

theorem creation_lease_exclusive_witness:
  "mar_ResourceFence row_leased < mar_ResourceFence row_leased2 \<and> (\<exists>t. mar_LeaseExpiresAt row_leased = Some t \<and> t \<le> 300 + Minute)"
proof -
  have "db_leased2 \<noteq> db_leased" by (simp add: sample_defs)
  moreover have "mar_ResourceFence row_leased2 = mar_ResourceFence row_leased + 1"
    by (simp add: row_leased2_def row_leased_def granted_def row_reserved_def new_ledger_row_def)
  ultimately show ?thesis
    using creation_lease_exclusive [OF sample_invs(3) run_lease rtranclp.rtrancl_refl run_lease2] by (simp add: req_lease_def)
qed

text \<open>
  C7: A lease that has been superseded is fenced out: once an acquisition has granted a new lease, no
  adoption under an older lease version of that attempt ever changes the database again.
\<close>

theorem superseded_lease_fenced_out:
  assumes "store_inv db" "ledger_at db (lease_JobID req) (lease_ExpectedClusterAttempt req) = Some old"
    and "AcquireManagedAttemptCreation clock req at db = Inr ((job, row, True), db1)" "db1 \<noteq> db" "store_step\<^sup>*\<^sup>* db1 db2"
    and "adopt_JobID stale = lease_JobID req" "adopt_ExpectedClusterAttempt stale = lease_ExpectedClusterAttempt req"
    and "adopt_LeaseVersion stale \<le> mar_LeaseVersion old" "AdoptManagedAttemptIdentity now stale db2 = Inr (res, db3)"
  shows "db3 = db2"
proof -
  note A = acquired_row [OF assms(3)]
  have v: "mar_LeaseVersion row = mar_LeaseVersion old + 1" using A(6) assms(2,4) by auto
  obtain r2 where r2: "ledger_at db2 (lease_JobID req) (lease_ExpectedClusterAttempt req) = Some r2" "row_le row r2"
    using le_row [OF assms(5) acquired_inv [OF assms(1,3)] A(1)] .
  show ?thesis using assms(9)
  proof (cases rule: Adopt_cases)
    case (new jobrow j r)
    then show ?thesis using r2 v assms(6-8) by (auto simp: adoption_lease_mismatch_def row_le_def)
  qed
qed

theorem superseded_lease_fenced_out_witness:
  "\<exists>res db. AdoptManagedAttemptIdentity 900 req_stale db_leased2 = Inr (res, db) \<and> db = db_leased2"
proof -
  have at: "job_at db_leased2 ''job-1'' = Some job_reserved" "ledger_at db_leased2 ''job-1'' 1 = Some row_leased2"
    "ledger_at db_leased ''job-1'' 1 = Some row_leased" "mar_LeaseVersion row_leased = 1" by (simp_all add: sample_defs table_defs)
  have valid: "ManagedAttemptAdoptionRequest_Validate req_stale = None" by code_simp
  have req: "adopt_JobID req_stale = ''job-1''" "adopt_ExpectedClusterAttempt req_stale = 1" "adopt_RayJobUID req_stale = ''uid-1''"
    "adopt_LeaseVersion req_stale = 1" by (simp_all add: req_stale_def req_adopt_def)
  have "\<not> adoption_stale req_stale (decoded job_reserved)" "adoption_lease_mismatch req_stale row_leased2"
    by (simp_all add: adoption_stale_def adoption_lease_mismatch_def req_stale_def req_adopt_def sample_defs req_lease_def)
  then obtain res db where run: "AdoptManagedAttemptIdentity 900 req_stale db_leased2 = Inr (res, db)"
    using valid at req by (simp add: AdoptManagedAttemptIdentity_def branch_defs)
  have "db_leased2 \<noteq> db_leased" by (simp add: sample_defs)
  from superseded_lease_fenced_out [OF sample_invs(1) _ run_lease2 this rtranclp.rtrancl_refl _ _ _ run, of row_leased] at req
  have "db = db_leased2" by (simp add: req_lease_def)
  with run show ?thesis by blast
qed

text \<open>
  C8: An attempt is created only after its predecessors are gone and only with a fence of its own: a
  successful acquisition leaves the fence of its row issued, every lower attempt of the job is
  cleaned up, and a new grant uses a fence larger than all fences ever issued for the attempt.
\<close>

theorem creation_after_cleanup:
  assumes "store_inv db" "AcquireManagedAttemptCreation clock req at db = Inr ((job, row, True), db')"
  shows "(\<forall>r \<in> set (db_ledger db'). mar_JobID r = lease_JobID req \<longrightarrow> mar_ClusterAttempt r < lease_ExpectedClusterAttempt req \<longrightarrow>
            mar_State r = ManagedAttemptResourceCleaned) \<and>
         (lease_JobID req, lease_ExpectedClusterAttempt req, mar_ResourceFence row) \<in> fence_key ` set (db_fences db') \<and>
         (db' \<noteq> db \<longrightarrow> (\<forall>f. (lease_JobID req, lease_ExpectedClusterAttempt req, f) \<in> fence_key ` set (db_fences db) \<longrightarrow>
            1 \<le> f \<and> f < mar_ResourceFence row))"
proof -
  let ?j = "lease_JobID req" and ?a = "lease_ExpectedClusterAttempt req"
  note A = acquired_row [OF assms(2)]
  have inv: "store_inv db'" using acquired_inv [OF assms] .
  note fence = creating_fence [OF inv A(1,2)]
  have rows: "ledger_at db' ?j b = ledger_at db ?j b" if "b \<noteq> ?a" for b
    using A(6) arg_cong [of "view db'" _ p_row] that by (auto dest!: arg_cong [of "view db'" _ p_row])
  have "mar_State r = ManagedAttemptResourceCleaned"
    if r: "r \<in> set (db_ledger db')" "mar_JobID r = ?j" "mar_ClusterAttempt r < ?a" for r
  proof -
    have "ledger_at db' ?j (mar_ClusterAttempt r) = Some r" using in_ledger [OF store_inv_keys(1) [OF inv] r(1)] r(2) by simp
    then have "ledger_at db ?j (mar_ClusterAttempt r) = Some r" using rows r(3) by simp
    then show ?thesis using no_unresolved_lower [OF A(5) r(3)] by blast
  qed
  moreover have "1 \<le> f \<and> f < mar_ResourceFence row" if f: "(?j, ?a, f) \<in> p_fence (view db)" and new: "db' \<noteq> db" for f
    using inv_fenceD [OF store_inv_keys(2) [OF assms(1)] f] A(6) new fence(1) by auto
  ultimately show ?thesis using fence by auto
qed

theorem creation_after_cleanup_witness:
  "(''job-1'', 1, mar_ResourceFence row_leased) \<in> fence_key ` set (db_fences db_leased)"
  using creation_after_cleanup [OF sample_invs(3) run_lease] by (simp add: req_lease_def)

text \<open>
  C9: A request that fits the current attempt gets the lease once nothing stands in its way: the lower
  attempts are cleaned, the attempt is reserved or under creation, and no lease is running.
\<close>

theorem lease_obtainable:
  assumes "ManagedAttemptCreationLeaseRequest_Validate req = None" "job_at db (lease_JobID req) = Some jobrow" "toDomain jobrow = Inr job"
    and "ledger_at db (lease_JobID req) (lease_ExpectedClusterAttempt req) = Some row" "\<not> lease_mismatch req job row"
    and "\<forall>r \<in> set (db_ledger db). mar_JobID r = lease_JobID req \<longrightarrow> mar_ClusterAttempt r < lease_ExpectedClusterAttempt req \<longrightarrow>
           mar_State r = ManagedAttemptResourceCleaned"
    and "mar_State row = ManagedAttemptResourceReserved \<or> mar_State row = ManagedAttemptResourceCreating"
    and "\<forall>t. mar_LeaseExpiresAt row = Some t \<longrightarrow> t \<le> at" "at \<noteq> 0"
  shows "\<exists>db'. AcquireManagedAttemptCreation clock req at db = Inr ((job, granted req at row row, True), db')"
proof -
  have "unresolved_lower req db = 0" using assms(6) by (auto simp: unresolved_lower_def count_where_0)
  moreover have "\<not> lease_held at row" using assms(8) by (auto simp: lease_held_def split: option.splits)
  ultimately show ?thesis using assms(1-5,7,9) grant_lease_db [OF assms(4)]
    by (auto simp: AcquireManagedAttemptCreation_def require_def or_fail_def and_then_def Let_def)
qed

theorem lease_obtainable_witness:
  "\<exists>db'. AcquireManagedAttemptCreation 0 (req_lease ''node-b'') (300 + Minute) db_leased =
     Inr ((decoded job_reserved, granted (req_lease ''node-b'') (300 + Minute) row_leased row_leased, True), db')"
proof (rule lease_obtainable [OF valid_requests(3)])
  show "\<not> lease_mismatch (req_lease ''node-b'') (decoded job_reserved) row_leased"
    by (simp add: lease_mismatch_def req_lease_def sample_defs)
qed (auto simp: sample_defs table_defs req_lease_def)

subsection \<open>Cancellation, the end of a job and quarantine\<close>

lemma Acquire_active:
  assumes "AcquireManagedAttemptCreation clock req at db = Inr ((job, row, True), db')" "store_inv db"
  shows "\<exists>r. ledger_at db (lease_JobID req) (lease_ExpectedClusterAttempt req) = Some r \<and> live (mar_State r)"
  using assms(1)
  by (cases rule: Acquire_cases) (auto simp: live_def lease_held_def)

lemma canceled_job:
  assumes "SetDesiredState now t i DesiredCanceled db = Inr db'" "distinct (map jr_ID (db_jobs db))"
  shows "\<exists>row. job_at db i = Some row \<and> job_at db' i = Some (row\<lparr>jr_DesiredState := DesiredCanceled, jr_UpdatedAt := now\<rparr>)"
proof -
  let ?p = "\<lambda>r. jr_TenantID r = t \<and> jr_ID r = i" and ?f = "\<lambda>r. r\<lparr>jr_DesiredState := DesiredCanceled, jr_UpdatedAt := now\<rparr>"
  obtain row db1 where row: "select_first ?p (db_jobs db) = Some row"
    and db1: "(if TrainingEngine_Resolved (jr_TrainingEngine row) = TrainingEngineRayTrain then cancel_attempts now row db else Inr db) = Inr db1"
    and db': "view db' = view (db1\<lparr>db_jobs := update_where ?p ?f (db_jobs db1)\<rparr>)"
    using assms(1) by (auto simp: SetDesiredState_def Let_def)
  have at: "job_at db i = Some row" by (rule select_tenant_job [OF assms(2) row])
  then have "job_at db1 i = Some row" using db1 sim_cancel_attempts(2) [of now row db db1] by (auto split: if_splits)
  then have "view db' = set_job (view db1) i (?f row)" unfolding db' by (rule view_update_job) (use select_first_in [OF row] in auto)
  from arg_cong [OF this, of p_job] at show ?thesis by auto
qed



text \<open>
  C11: A finished job stays finished: its terminal state, finishing time and attempt never change again, and none
  of its attempts may hold resources.
\<close>

theorem terminal_state_final:
  assumes "store_inv db" "job_at db i = Some job" "isTerminalState (jr_ObservedState job)" "store_step\<^sup>*\<^sup>* db db'"
  shows "\<exists>job'. job_at db' i = Some job' \<and> jr_ObservedState job' = jr_ObservedState job \<and> jr_FinishedAt job' = jr_FinishedAt job \<and>
           jr_ClusterAttempt job' = jr_ClusterAttempt job \<and> (\<forall>r \<in> set (db_ledger db'). mar_JobID r = i \<longrightarrow> \<not> live (mar_State r))"
proof -
  have inv: "store_inv db'" using store_inv_steps [OF assms(4,1)] .
  obtain job' where job': "job_at db' i = Some job'" "job_le job job'" using le_job [OF assms(4,1,2)] .
  have same: "jr_ObservedState job' = jr_ObservedState job" "jr_FinishedAt job' = jr_FinishedAt job" "jr_ClusterAttempt job' = jr_ClusterAttempt job"
    using job'(2) assms(3) by (simp_all add: job_le_def)
  have "\<not> live (mar_State r)" if r: "r \<in> set (db_ledger db')" "mar_JobID r = i" for r
    using inactive_not_live [OF store_inv_keys(2) [OF inv], of i job' "mar_ClusterAttempt r" r] in_ledger [OF store_inv_keys(1) [OF inv] r(1)] r(2)
      job'(1) same(1) assms(3) by (simp add: active_def)
  then show ?thesis using job'(1) same by blast
qed

theorem terminal_state_final_witness:
  "\<exists>job. job_at db_finished ''job-1'' = Some job \<and> jr_FinishedAt job = Some 780 \<and> \<not> live (mar_State (to_retiring 800 ''uid-1'' row_active))"
proof -
  let ?job = "observed_updates 800 obs_succeeded job_running"
  have "job_at db_finished ''job-1'' = Some ?job" by (simp add: db_finished_def table_defs observed_updates_def)
  moreover have "isTerminalState (jr_ObservedState ?job)" "jr_FinishedAt ?job = Some 780"
    by (simp_all add: observed_updates_def isTerminalState_iff)
  moreover have "to_retiring 800 ''uid-1'' row_active \<in> set (db_ledger db_finished)" "mar_JobID (to_retiring 800 ''uid-1'' row_active) = ''job-1''"
    by (simp_all add: db_finished_def to_retiring_def sample_defs2)
  ultimately show ?thesis using terminal_state_final [OF sample_invs(7) _ _ rtranclp.rtrancl_refl, of "''job-1''" ?job] by auto
qed

lemma observed_jobs:
  assumes "ApplyObservedState now obs db = Inr db'" "job_at db (obs_JobID obs) = Some current"
    and "\<not> isTerminalState (jr_ObservedState current)" "observedStateMatchesCurrentAttempt current obs"
  shows "db_jobs db' = update_where (\<lambda>r. jr_ID r = obs_JobID obs) (observed_updates now obs) (db_jobs db)"
proof -
  let ?js = "update_where (\<lambda>r. jr_ID r = obs_JobID obs) (observed_updates now obs) (db_jobs db)"
  consider "db' = db\<lparr>db_jobs := ?js\<rparr>" | db2 e where "finish_attempts now current obs (db\<lparr>db_jobs := ?js\<rparr>) = Inr db2" "db' = insert_outbox_ignore e db2"
    | e where "db' = insert_outbox_ignore e (db\<lparr>db_jobs := ?js\<rparr>)"
    using assms by (auto simp: ApplyObservedState_def Let_def split: if_splits)
  then show ?thesis
  proof cases
    case 2
    then show ?thesis using sim_finish_attempts(3) [OF 2(1)] by (simp add: insert_outbox_ignore_def)
  qed (simp_all add: insert_outbox_ignore_def)
qed

text \<open>
  C12: An observation takes effect exactly when it was made of the current attempt of a job that is
  still running; a stale or late report changes nothing. One that takes effect writes the observed
  columns of that job alone, and a terminal one leaves none of its attempts holding resources.
\<close>

theorem observation_guarded:
  assumes "store_inv db" "ApplyObservedState now obs db = Inr db'"
  shows "\<exists>current. job_at db (obs_JobID obs) = Some current \<and>
    (if isTerminalState (jr_ObservedState current) \<or> \<not> observedStateMatchesCurrentAttempt current obs then db' = db
     else job_at db' = (job_at db)(obs_JobID obs \<mapsto> observed_updates now obs current) \<and>
          (isTerminalState (obs_State obs) \<longrightarrow> (\<forall>r \<in> set (db_ledger db'). mar_JobID r = obs_JobID obs \<longrightarrow> \<not> live (mar_State r))))"
proof -
  let ?i = "obs_JobID obs"
  have inv: "store_inv db'" using store_inv_steps [OF r_into_rtranclp [of store_step, OF store_step.observe [OF assms(2)]] assms(1)] .
  obtain current where at: "job_at db ?i = Some current" using assms(2) by (auto simp: ApplyObservedState_def split: if_splits)
  show ?thesis
  proof (cases "isTerminalState (jr_ObservedState current) \<or> \<not> observedStateMatchesCurrentAttempt current obs")
    case True
    then have "db' = db" using assms(2) at by (auto simp: ApplyObservedState_def split: if_splits)
    with True at show ?thesis by auto
  next
    case False
    then have jobs: "db_jobs db' = update_where (\<lambda>r. jr_ID r = ?i) (observed_updates now obs) (db_jobs db)"
      using observed_jobs [OF assms(2) at] by blast
    have "view (db\<lparr>db_jobs := db_jobs db'\<rparr>) = set_job (view db) ?i (observed_updates now obs current)"
      unfolding jobs by (rule view_update_job [OF at]) (use job_at_ID [OF at] in \<open>auto simp: observed_updates_def\<close>)
    from arg_cong [OF this, of p_job] have new: "job_at db' = (job_at db)(?i \<mapsto> observed_updates now obs current)"
      by (simp add: job_at_def fun_eq_iff)
    have "\<not> live (mar_State r)" if "isTerminalState (obs_State obs)" "r \<in> set (db_ledger db')" "mar_JobID r = ?i" for r
      using inactive_not_live [OF store_inv_keys(2) [OF inv], of ?i "observed_updates now obs current" "mar_ClusterAttempt r" r]
        in_ledger [OF store_inv_keys(1) [OF inv] that(2)] that(1,3) new by (simp add: active_def observed_updates_def)
    then show ?thesis using False at new by auto
  qed
qed

theorem observation_guarded_witness:
  "job_at db_finished ''job-1'' = Some (observed_updates 800 obs_succeeded job_running)"
proof -
  have at: "job_at db_running ''job-1'' = Some job_running" by (simp add: db_running_def table_defs)
  have "observedStateMatchesCurrentAttempt job_running obs_succeeded" "\<not> isTerminalState (jr_ObservedState job_running)"
    by (simp_all add: observedStateMatchesCurrentAttempt_def isTerminalState_iff)
  with observation_guarded [OF sample_invs(2) run_finish] at show ?thesis by (simp add: isTerminalState_iff)
qed

text \<open>
  Quarantine is permanent and blocks the job: a quarantined attempt stays so, and no later attempt of the job ever
  obtains a creation lease.
\<close>

theorem quarantine_blocks:
  assumes "store_inv db" "ledger_at db j b = Some r" "mar_State r = ManagedAttemptResourceQuarantined" "store_step\<^sup>*\<^sup>* db db'"
  shows "(\<exists>r'. ledger_at db' j b = Some r' \<and> mar_State r' = ManagedAttemptResourceQuarantined) \<and>
         (\<forall>clock req at job row granted db2. lease_JobID req = j \<longrightarrow> b \<le> lease_ExpectedClusterAttempt req \<longrightarrow>
            AcquireManagedAttemptCreation clock req at db' = Inr ((job, row, granted), db2) \<longrightarrow> \<not> granted)"
proof -
  obtain r' where r': "ledger_at db' j b = Some r'" "mar_State r' = ManagedAttemptResourceQuarantined"
    using le_row [OF assms(4,1,2)] assms(3) by (auto simp: row_le_def)
  have inv: "store_inv db'" using store_inv_steps [OF assms(4,1)] .
  have "False" if "lease_JobID req = j" "b \<le> lease_ExpectedClusterAttempt req"
      "AcquireManagedAttemptCreation clock req at db' = Inr ((job, row, True), db2)" for clock req at job row db2
  proof (cases "b = lease_ExpectedClusterAttempt req")
    case True
    then show ?thesis using Acquire_active [OF that(3) inv] that(1) r' by (auto simp: live_def)
  next
    case False
    then show ?thesis using no_unresolved_lower [OF acquired_row(5) [OF that(3)], of b r'] that(1,2) r' by simp
  qed
  then show ?thesis using r' by (metis (full_types))
qed

theorem quarantine_blocks_witness:
  "\<exists>db r. RecordManagedAttemptCleanupFailure 350 req_quarantine db_leased = Inr db \<and> ledger_at db ''job-1'' 1 = Some r \<and>
     mar_State r = ManagedAttemptResourceQuarantined"
proof -
  obtain db where db: "RecordManagedAttemptCleanupFailure 350 req_quarantine db_leased = Inr db" "ledger_at db ''job-1'' 1 = Some row_quarantined"
    using run_quarantine by blast
  have "store_inv db" using store_inv_steps [OF r_into_rtranclp [of store_step, OF store_step.failure [OF db(1)]] sample_invs(1)] .
  moreover have "mar_State row_quarantined = ManagedAttemptResourceQuarantined" by (simp add: row_quarantined_def)
  ultimately show ?thesis using quarantine_blocks [OF _ db(2) _ rtranclp.rtrancl_refl] db(1) by blast
qed

subsection \<open>Identity and recovery\<close>

text \<open>
  C13: An adoption that changes anything binds the attempt to a RayJob once and for all: the row was being created under exactly
  the lease of the request and with an issued fence; afterwards row and job carry the UID, and as long as the attempt is live
  the row keeps it.
\<close>

theorem adoption_binds_once:
  assumes "store_inv db" "AdoptManagedAttemptIdentity now req db = Inr ((job, adopted), db1)" "db1 \<noteq> db" "store_step\<^sup>*\<^sup>* db1 db2"
  shows "adopted \<and>
    (\<exists>old. ledger_at db (adopt_JobID req) (adopt_ExpectedClusterAttempt req) = Some old \<and> mar_State old = ManagedAttemptResourceCreating \<and>
       mar_LeaseOwner old = adopt_LeaseOwner req \<and> mar_LeaseVersion old = adopt_ResourceFence req \<and> mar_RayJobUID old = []) \<and>
    (\<exists>j. job_at db1 (adopt_JobID req) = Some j \<and> jr_RayJobUID j = adopt_RayJobUID req) \<and>
    (\<exists>r. ledger_at db2 (adopt_JobID req) (adopt_ExpectedClusterAttempt req) = Some r \<and>
       (live (mar_State r) \<longrightarrow> mar_RayJobUID r = adopt_RayJobUID req \<and>
          mar_State r \<in> {ManagedAttemptResourceActivating, ManagedAttemptResourceActive}))"
  using assms(2)
proof (cases rule: Adopt_cases)
  case (new jobrow j row)
  have keys: "distinct (map jr_ID (db_jobs db))" using store_inv_keys(1) [OF assms(1)] by (simp add: keys_ok_def)
  have inv1: "store_inv db1" using store_inv_steps [OF r_into_rtranclp [of store_step, OF store_step.adopt [OF assms(2)]] assms(1)] .
  have uid: "adopt_RayJobUID req \<noteq> []" using new(7) by (auto simp: ManagedAttemptAdoptionRequest_Validate_def)
  show ?thesis using new(8,1) keys new(4,5)
  proof (cases rule: adopt_tx_cases)
    case stale
    then show ?thesis using assms(3) by simp
  next
    case adopted
    let ?r = "row\<lparr>mar_RayJobUID := adopt_RayJobUID req, mar_ResourceFence := adopt_ResourceFence req,
             mar_State := ManagedAttemptResourceActivating, mar_LeaseOwner := [], mar_LeaseExpiresAt := None, mar_UpdatedAt := now\<rparr>"
    have r1: "ledger_at db1 (adopt_JobID req) (adopt_ExpectedClusterAttempt req) = Some ?r" using arg_cong [OF adopted(5), of p_row] by simp
    obtain r2 where r2: "ledger_at db2 (adopt_JobID req) (adopt_ExpectedClusterAttempt req) = Some r2" "row_le ?r r2"
      using le_row [OF assms(4) inv1 r1] .
    have "mar_RayJobUID r2 = adopt_RayJobUID req \<and> mar_State r2 \<in> {ManagedAttemptResourceActivating, ManagedAttemptResourceActive}"
      if "live (mar_State r2)" using r2(2) that uid by (cases "mar_State r2") (auto simp: row_le_def live_def)
    moreover have "\<exists>j. job_at db1 (adopt_JobID req) = Some j \<and> jr_RayJobUID j = adopt_RayJobUID req"
      using arg_cong [OF adopted(5), of p_job] by simp
    ultimately show ?thesis using adopted(1) new(4,5) r2(1) by (auto simp: adoption_lease_mismatch_def)
  qed
qed (use assms(3) in simp)

theorem adoption_binds_once_witness:
  "\<exists>r. ledger_at db_running ''job-1'' 1 = Some r \<and> mar_RayJobUID r = ''uid-1''"
proof -
  have "db_adopted \<noteq> db_leased2" by (simp add: sample_defs2)
  moreover have "store_step\<^sup>*\<^sup>* db_adopted db_running"
    using store_step.confirm [OF run_confirm] store_step.observe [OF run_observe] by (meson rtranclp.simps)
  moreover have "ledger_at db_running ''job-1'' 1 = Some row_active" "live (mar_State row_active)"
    by (simp_all add: db_running_def sample_defs2 table_defs live_def)
  ultimately show ?thesis using adoption_binds_once [OF sample_invs(4) run_adopt] by (fastforce simp: req_adopt_def)
qed

text \<open>
  C14: The number of attempts is bounded by the retry budget of the specification: along any run attempts never go
  back and never pass one more than the allowed failures.
\<close>

theorem attempts_bounded:
  assumes "store_inv db" "job_at db i = Some job" "store_step\<^sup>*\<^sup>* db db'"
  shows "\<exists>job'. job_at db' i = Some job' \<and> jr_SpecJSON job' = jr_SpecJSON job \<and> jr_ClusterAttempt job \<le> jr_ClusterAttempt job' \<and>
           jr_ClusterAttempt job' \<le> max (jr_ClusterAttempt job) (max_failures job + 1)"
  using le_job [OF assms(3,1,2)] by (auto simp: job_le_def same_job_def)

theorem attempts_bounded_witness: "jr_ClusterAttempt job_recovering \<le> max (jr_ClusterAttempt job_running) 3"
proof -
  have "job_at db_running ''job-1'' = Some job_running" "job_at db_recovering ''job-1'' = Some job_recovering"
    by (simp_all add: db_running_def db_recovering_def table_defs job_recovering_def)
  moreover have "max_failures job_running = 2"
    using decodes_running(1) by (simp add: max_failures_def decodes_def sample_spec_def)
  ultimately show ?thesis
    using attempts_bounded [OF sample_invs(2) _ r_into_rtranclp [of store_step, OF store_step.recover [OF run_recover]]] by fastforce
qed

text \<open>
  A recovery that is accepted moves a running job to its next attempt, within the retry budget, with a checkpoint to
  resume from, and leaves the attempt it abandons without resources.
\<close>

theorem recovery_advances:
  assumes "store_inv db" "BeginManagedRecovery now req db = Inr ((job, True), db')"
  shows "\<exists>old new c. job_at db (rec_JobID req) = Some old \<and> active old \<and> jr_ObservedState old \<in> {StateRunning, StateRecovering} \<and>
    latestUsableRecoveryCheckpoint db old = Some c \<and> job_at db' (rec_JobID req) = Some new \<and> jr_ObservedState new = StateRecovering \<and>
    jr_ResumeCheckpointID new = ckpt_ID c \<and> jr_ClusterAttempt new = jr_ClusterAttempt old + 1 \<and> jr_ClusterAttempt new \<le> max_failures old + 1 \<and>
    (\<exists>r. ledger_at db' (rec_JobID req) (jr_ClusterAttempt old) = Some r \<and> \<not> live (mar_State r))"
  using assms(2)
proof (cases rule: Begin_cases)
  case (new row x c retired db1)
  obtain r changed where retired: "retired = (r, changed)" by (cases retired)
  note tx = retire_tx_effect [OF new(6) [unfolded retired]]
  have same: "job_at db1 = job_at db" "db_jobs db1 = db_jobs db" using sim_retire_tx [OF new(6)] by blast+
  have at1: "job_at db1 (rec_JobID req) = Some row" using new(1) same(1) by simp
  have keys: "distinct (map jr_ID (db_jobs db1))" using store_inv_keys(1) [OF assms(1)] same(2) by (simp add: keys_ok_def)
  have att: "1 \<le> jr_ClusterAttempt row" using inv_jobD [OF store_inv_keys(2) [OF assms(1)], of "rec_JobID req" row] new(1) by simp
  have x: "job_ClusterAttempt x = jr_ClusterAttempt row" "job_ID x = rec_JobID req"
    using toDomain_fields(1,8) [OF new(2)] att job_at_ID [OF new(1)] by simp_all
  show ?thesis using new(7) at1 keys
  proof (cases rule: advance_cases)
    case advanced
    have "ledger_at db' (rec_JobID req) (jr_ClusterAttempt row) = Some r" using tx(3) arg_cong [OF advanced(5), of p_row] x by simp
    moreover have "jr_ClusterAttempt row \<le> max_failures row" using new(3) managed_max_failures [OF new(2)] x by (simp add: recovery_refused_def)
    moreover from this have "\<exists>new. job_at db' (rec_JobID req) = Some new \<and> jr_ObservedState new = StateRecovering \<and> jr_ResumeCheckpointID new = ckpt_ID c \<and>
        jr_ClusterAttempt new = jr_ClusterAttempt row + 1 \<and> jr_ClusterAttempt new \<le> max_failures row + 1"
      using advanced(2) arg_cong [OF advanced(5), of "\<lambda>s. p_job s (rec_JobID req)"] by simp
    ultimately show ?thesis using advanced(3,4) new(1,5) tx(3) by blast
  qed simp
qed simp

theorem recovery_advances_witness: "\<exists>new. job_at db_recovering ''job-1'' = Some new \<and> jr_ObservedState new = StateRecovering \<and> jr_ClusterAttempt new \<le> 3"
proof -
  have "job_at db_running ''job-1'' = Some job_running" by (simp add: db_running_def table_defs)
  moreover have "max_failures job_running = 2" using decodes_running(1) by (simp add: max_failures_def decodes_def sample_spec_def)
  ultimately show ?thesis using recovery_advances [OF sample_invs(2) run_recover] by (auto simp: req_recover_def)
qed

subsection \<open>The checkpoint to resume from\<close>

definition usable :: "JobRecord \<Rightarrow> TrainingCheckpoint \<Rightarrow> bool" where
  "usable job c \<longleftrightarrow> ckpt_JobID c = jr_ID job \<and> ckpt_TenantID c = jr_TenantID job \<and> ckpt_UserID c = jr_UserID job \<and> ckpt_Complete c \<and>
     TrainingCheckpoint_Validate c = None \<and>
     ckpt_ObjectPath c = Join [Join [DataMountOutputPath, ''.platform'', ''ray-train'', jr_ID job, ''checkpoints''], ckpt_ID c]"

definition older :: "TrainingCheckpoint \<Rightarrow> TrainingCheckpoint \<Rightarrow> bool" where \<comment> \<open>by epoch, then step, then time\<close>
  "older c d \<longleftrightarrow> ckpt_Epoch c < ckpt_Epoch d \<or> ckpt_Epoch c = ckpt_Epoch d \<and>
     (ckpt_Step c < ckpt_Step d \<or> ckpt_Step c = ckpt_Step d \<and> ckpt_CreatedAt c < ckpt_CreatedAt d)"

text \<open>A stable sort on a second key refines the order on the first.\<close>

lemma sorted_wrt_insort_key:
  assumes "sorted_wrt R xs" "\<forall>y \<in> set xs. k x = k y \<longrightarrow> R x y" "\<And>x y. k x < k y \<Longrightarrow> R x y" "sorted (map k xs)"
  shows "sorted_wrt R (insort_key k x xs)"
  using assms
proof (induction xs)
  case (Cons y ys)
  show ?case
  proof (cases "k x \<le> k y")
    case True
    have "R x z" if "z \<in> set (y # ys)" for z
    proof -
      have "k x \<le> k z" using True that Cons.prems(4) by (auto intro: order_trans)
      then show ?thesis using Cons.prems(2,3) that by (cases "k x = k z") auto
    qed
    then show ?thesis using True Cons.prems(1) by simp
  next
    case False
    have "R y z" if "z \<in> set (insort_key k x ys)" for z
      using that False Cons.prems(1,3) by (auto simp: set_insort_key)
    then show ?thesis using False Cons by simp
  qed
qed simp

lemma sorted_wrt_sort_key:
  assumes "sorted_wrt S xs" "\<And>x y. S x y \<Longrightarrow> k x = k y \<Longrightarrow> R x y" "\<And>x y. k x < k y \<Longrightarrow> R x y"
  shows "sorted_wrt R (sort_key k xs)"
  using assms(1)
proof (induction xs)
  case (Cons x xs)
  have "sorted_wrt R (insort_key k x (sort_key k xs))"
    by (rule sorted_wrt_insort_key) (use Cons assms(2,3) in auto)
  then show ?case by simp
qed simp

lemma find_sorted:
  assumes "find P (take n xs) = Some c" "sorted_wrt R xs" "d \<in> set xs" "P d" "d \<noteq> c"
  shows "R c d"
proof -
  obtain i where i: "i < length (take n xs)" "take n xs ! i = c" "\<forall>j < i. \<not> P (take n xs ! j)"
    using assms(1) by (auto simp: find_Some_iff)
  obtain j where j: "j < length xs" "xs ! j = d" using assms(3) by (auto simp: in_set_conv_nth)
  have "i \<le> j"
  proof (rule ccontr)
    assume "\<not> i \<le> j"
    then have "take n xs ! j = d" using i(1) j by simp
    then show False using i(3) \<open>\<not> i \<le> j\<close> assms(4) by auto
  qed
  moreover have "xs ! i = c" using i by simp
  ultimately show ?thesis using assms(2,5) j by (metis le_neq_implies_less sorted_wrt_iff_nth_less)
qed

text \<open>
  Recovery resumes from the newest checkpoint it may use: the result belongs to the job, its tenant and its user, is complete and
  valid, lies in the job's own checkpoint directory, and no usable checkpoint of the table is newer.
\<close>

theorem latest_checkpoint_usable_and_newest:
  assumes "latestUsableRecoveryCheckpoint db job = Some c"
  shows "c \<in> set (db_checkpoints db) \<and> usable job c \<and> (\<forall>d \<in> set (db_checkpoints db). usable job d \<longrightarrow> \<not> older c d)"
proof -
  let ?own = "\<lambda>c. ckpt_JobID c = jr_ID job \<and> ckpt_TenantID c = jr_TenantID job \<and> ckpt_UserID c = jr_UserID job \<and> ckpt_Complete c"
  let ?good = "\<lambda>c. TrainingCheckpoint_Validate c = None \<and>
    ckpt_ObjectPath c = Join [Join [DataMountOutputPath, ''.platform'', ''ray-train'', jr_ID job, ''checkpoints''], ckpt_ID c]"
  define xs where "xs = sort_key (\<lambda>c. - ckpt_Epoch c) (sort_key (\<lambda>c. - ckpt_Step c) (sort_key (\<lambda>c. - ckpt_CreatedAt c) (filter ?own (db_checkpoints db))))"
  have find: "find ?good (take (nat (ManagedCheckpointRetentionLimit * 2)) xs) = Some c"
    using assms by (simp add: latestUsableRecoveryCheckpoint_def select_where_def Let_def xs_def)
  have "sorted_wrt (\<lambda>c d. \<not> older c d) xs" unfolding xs_def
    by (rule sorted_wrt_sort_key [where S = "\<lambda>c d. ckpt_Epoch c = ckpt_Epoch d \<longrightarrow> \<not> older c d"],
        rule sorted_wrt_sort_key [where S = "\<lambda>c d. ckpt_Epoch c = ckpt_Epoch d \<and> ckpt_Step c = ckpt_Step d \<longrightarrow> \<not> older c d"],
        rule sorted_wrt_sort_key [where S = "\<lambda>_ _. True"]) (auto simp: older_def sorted_wrt_iff_nth_less)
  then have "\<not> older c d" if "d \<in> set (db_checkpoints db)" "usable job d" for d
    using find_sorted [OF find, of "\<lambda>c d. \<not> older c d" d] that by (cases "d = c") (auto simp: xs_def usable_def older_def)
  moreover have "c \<in> set xs" "?good c" using find by (auto simp: find_Some_iff dest!: nth_mem in_set_takeD)
  ultimately show ?thesis by (auto simp: xs_def usable_def)
qed

theorem latest_checkpoint_usable_and_newest_witness: "usable job_running sample_checkpoint"
  using latest_checkpoint_usable_and_newest [OF sample_latest] by simp

subsection \<open>Cleanup\<close>

lemma doubled_delay_eq:
  assumes "count \<le> failures" "0 < delay"
  shows "min (doubled_delay count failures delay) (5 * Minute) = min (delay * 2 ^ nat (failures - count)) (5 * Minute)"
  using assms
proof (induction count failures delay rule: doubled_delay.induct)
  case (1 count failures delay)
  show ?case
  proof (cases "count < failures \<and> delay < 5 * Minute")
    case True
    have "nat (failures - count) = Suc (nat (failures - (count + 1)))" using True by arith
    moreover have "doubled_delay count failures delay = doubled_delay (count + 1) failures (delay * 2)"
      using True by (subst doubled_delay.simps) simp
    ultimately show ?thesis using 1 True by (simp add: mult.assoc)
  next
    case False
    have eq: "doubled_delay count failures delay = delay" using False by (subst doubled_delay.simps) (rule if_not_P)
    show ?thesis
    proof (cases "count = failures")
      case False
      have "delay * 1 \<le> delay * 2 ^ nat (failures - count)" using 1(3) by (intro mult_left_mono) simp_all
      moreover have "5 * Minute \<le> delay" using False 1(2) \<open>\<not> (count < failures \<and> delay < 5 * Minute)\<close> by linarith
      ultimately have "5 * Minute \<le> delay * 2 ^ nat (failures - count)" by linarith
      then show ?thesis using \<open>5 * Minute \<le> delay\<close> unfolding eq by (simp only: min_absorb2)
    qed (use eq in simp)
  qed
qed

text \<open>
  The delay before cleanup is tried again doubles from five seconds with every failure and is capped at five minutes.
\<close>

theorem managedCleanupRetryDelay_closed_form:
  "managedCleanupRetryDelay failures = min (5 * Second * 2 ^ nat (failures - 1)) (5 * Minute)"
proof -
  define n where "n = (if failures < 1 then 1 else failures)"
  have "managedCleanupRetryDelay failures = min (doubled_delay 1 n (5 * Second)) (5 * Minute)"
    by (simp add: managedCleanupRetryDelay_def n_def Let_def min_def)
  also have "\<dots> = min (5 * Second * 2 ^ nat (n - 1)) (5 * Minute)" by (rule doubled_delay_eq) (simp_all add: n_def)
  finally show ?thesis by (simp add: n_def)
qed

text \<open>
  The cleanup list of a database that the store produced is exactly the retiring attempts that are due,
  as long as they fit into one page: reserved or half created attempts of abandoned jobs have already been retired.
\<close>

theorem cleanup_list_exact:
  assumes "store_inv db" "0 < limit" "limit \<le> 500" "now \<noteq> 0"
    and "length (filter (\<lambda>r. mar_State r = ManagedAttemptResourceRetiring \<and> mar_NextCheckAt r \<le> now \<and> job_at db (mar_JobID r) \<noteq> None)
           (db_ledger db)) \<le> nat limit"
  shows "set (ListManagedAttemptCleanup collate clock db limit now) =
    {r \<in> set (db_ledger db). mar_State r = ManagedAttemptResourceRetiring \<and> mar_NextCheckAt r \<le> now \<and> job_at db (mar_JobID r) \<noteq> None}"
proof -
  have due: "cleanup_due db now r \<longleftrightarrow> mar_State r = ManagedAttemptResourceRetiring \<and> mar_NextCheckAt r \<le> now \<and> job_at db (mar_JobID r) \<noteq> None"
    if r: "r \<in> set (db_ledger db)" for r
  proof -
    have at: "p_row (view db) (mar_JobID r) (mar_ClusterAttempt r) = Some r" using in_ledger [OF store_inv_keys(1) [OF assms(1)] r] by simp
    have "jr_ClusterAttempt job = mar_ClusterAttempt r \<and> active job"
      if "live (mar_State r)" "job_at db (mar_JobID r) = Some job" for job
      using live_row [OF store_inv_keys(2) [OF assms(1)] at that(1)] that(2) by auto
    then show ?thesis
      by (auto simp: cleanup_due_def live_def active_def isTerminalState_def split: option.splits)
  qed
  then have "filter (cleanup_due db now) (db_ledger db) =
      filter (\<lambda>r. mar_State r = ManagedAttemptResourceRetiring \<and> mar_NextCheckAt r \<le> now \<and> job_at db (mar_JobID r) \<noteq> None) (db_ledger db)"
    by (intro filter_cong) auto
  then show ?thesis using assms(2-5) by (auto simp: ListManagedAttemptCleanup_def Let_def select_where_def simp del: not_None_eq)
qed

theorem cleanup_list_exact_witness:
  "set (ListManagedAttemptCleanup (\<lambda>_. 0) 0 db_recovering 10 800) = {to_retiring 700 ''uid-1'' row_active}"
proof -
  have l: "db_ledger db_recovering = [to_retiring 700 ''uid-1'' row_active]" "job_at db_recovering ''job-1'' = Some job_recovering"
    by (simp_all add: db_recovering_def table_defs job_recovering_def)
  have "mar_JobID (to_retiring 700 ''uid-1'' row_active) = ''job-1''" "mar_State (to_retiring 700 ''uid-1'' row_active) = ManagedAttemptResourceRetiring"
    "mar_NextCheckAt (to_retiring 700 ''uid-1'' row_active) = 700" by (simp_all add: to_retiring_def sample_defs2)
  with cleanup_list_exact [OF sample_invs(5), of 10 800] l show ?thesis by auto
qed

end
