(* ===== verification/Reconciler_Safety.thy ===== *)
theory Reconciler_Safety
  imports Sample_Cluster Attempt_Properties
begin

section \<open>Safety of the reconciler\<close>

text \<open>
  The reconciler against an arbitrary cluster and arbitrary other users of the database: its effect on the database is a run of
  the store, and every write it sends to the API server is one it is entitled to send.
\<close>

fun call_ok :: "DB \<Rightarrow> kube_call \<times> DB \<Rightarrow> bool" where \<comment> \<open>\<open>b\<close>: the database when the reconciler started\<close>
  "call_ok b (CallDelete ns name owner uid obj, db) \<longleftrightarrow> rj_UID obj = uid \<and> \<not> blank uid \<and> (owner \<noteq> [] \<longrightarrow> label obj job_id_label = owner)"
| "call_ok b (CallUpdate UpdateActivate obj, db) \<longleftrightarrow>
     (\<exists>req job row db0. store_step\<^sup>*\<^sup>* b db0 \<and> AuthorizeManagedAttemptActivation req db0 = Inr (job, row, True) \<and> store_step\<^sup>*\<^sup>* db0 db \<and>
        label obj job_id_label = act_JobID req \<and> rj_UID obj = act_RayJobUID req \<and>
        label obj managedAttemptIdentityKey = decimal (act_ExpectedClusterAttempt req) \<and>
        label obj managedCreationFenceKey = decimal (act_ResourceFence req))"
| "call_ok b (CallUpdate UpdateDeactivate obj, db) \<longleftrightarrow> rj_Suspend obj = Inr (Some True) \<and> rj_Labels obj queue_label = None"
| "call_ok b (CallUpdate UpdateTTL obj, db) \<longleftrightarrow> True"
| "call_ok b (CallCreate dry obj, db) \<longleftrightarrow> rj_Suspend obj = Inr (Some True) \<and>
     (rj_Labels obj managedAttemptIdentityKey \<noteq> None \<longrightarrow> rj_Labels obj queue_label = None \<and>
        (\<exists>a f. label obj managedAttemptIdentityKey = decimal a \<and> label obj managedCreationFenceKey = decimal f \<and>
           (label obj job_id_label, a, f) \<in> fence_key ` set (db_fences db)))"

definition world_le :: "DB \<Rightarrow> 'k world \<Rightarrow> 'k world \<Rightarrow> bool" where
  "world_le b w w' \<longleftrightarrow> store_step\<^sup>*\<^sup>* (w_db w) (w_db w') \<and> (\<exists>new. w_calls w' = w_calls w @ new \<and> (\<forall>x \<in> set new. call_ok b x))"

definition sound :: "DB \<Rightarrow> 'k world \<Rightarrow> bool" where
  "sound b w \<longleftrightarrow> store_inv (w_db w) \<and> store_step\<^sup>*\<^sup>* b (w_db w)"

lemma world_le_refl: "world_le b w w"
  by (simp add: world_le_def)

lemma world_le_trans:
  assumes "world_le b u v" "world_le b v w"
  shows "world_le b u w"
proof -
  obtain xs ys where "w_calls v = w_calls u @ xs" "w_calls w = w_calls v @ ys" "\<forall>x \<in> set xs. call_ok b x" "\<forall>x \<in> set ys. call_ok b x"
    using assms by (auto simp: world_le_def)
  then have "w_calls w = w_calls u @ (xs @ ys) \<and> (\<forall>x \<in> set (xs @ ys). call_ok b x)" by auto
  then show ?thesis using assms by (auto simp: world_le_def intro: rtranclp_trans)
qed

lemma sound_keep: "sound b v \<Longrightarrow> world_le b v w \<Longrightarrow> sound b w"
  using store_inv_steps by (auto simp: sound_def world_le_def)

interpretation wl: world_preorder "world_le b" "sound b" for b
  by unfold_locales (fact world_le_refl, erule (1) world_le_trans, erule (1) sound_keep)

text \<open>Facts that stay true: an activation that was authorized since the start, and a fence that was issued.\<close>

definition authorized :: "DB \<Rightarrow> ManagedAttemptActivationRequest \<Rightarrow> 'k world \<Rightarrow> bool" where
  "authorized b req w \<longleftrightarrow> sound b w \<and>
     (\<exists>job row db0. store_step\<^sup>*\<^sup>* b db0 \<and> AuthorizeManagedAttemptActivation req db0 = Inr (job, row, True) \<and> store_step\<^sup>*\<^sup>* db0 (w_db w))"

definition issued :: "DB \<Rightarrow> string \<Rightarrow> int \<Rightarrow> int \<Rightarrow> 'k world \<Rightarrow> bool" where
  "issued b j a f w \<longleftrightarrow> sound b w \<and> (j, a, f) \<in> fence_key ` set (db_fences (w_db w))"

lemma authorized_keep: "authorized b req v \<Longrightarrow> world_le b v w \<Longrightarrow> authorized b req w"
  using sound_keep [of b v w] unfolding authorized_def world_le_def by (meson rtranclp_trans)

interpretation au: world_preorder "world_le b" "authorized b req" for b req
  by unfold_locales (fact world_le_refl, erule (1) world_le_trans, erule (1) authorized_keep)

lemma issued_keep: "issued b j a f v \<Longrightarrow> world_le b v w \<Longrightarrow> issued b j a f w"
  using store_le_steps [of "w_db v" "w_db w"] sound_keep [of b v w] unfolding issued_def world_le_def sound_def protocol_le_def by auto

subsection \<open>What is assumed of the surroundings\<close>

text \<open>
  Other processes change the database only through the operations of the store, also while an API call is under way. Preparing a
  job for rendering leaves the identity of its attempt alone, and it and the finalizers write no RayJobs and change
  the tables of the store only through its operations.
\<close>

definition lawful :: "'k env \<Rightarrow> bool" where
  "lawful e \<longleftrightarrow>
     (\<forall>k db. store_step\<^sup>*\<^sup>* db (snd (env_interfere e k db))) \<and>
     (\<forall>ns name k db. store_step\<^sup>*\<^sup>* db (snd (snd (env_get e ns name k db)))) \<and>
     (\<forall>dry obj k db. store_step\<^sup>*\<^sup>* db (snd (snd (env_create e dry obj k db)))) \<and>
     (\<forall>obj k db. store_step\<^sup>*\<^sup>* db (snd (snd (env_update e obj k db)))) \<and>
     (\<forall>ns name uid k db. store_step\<^sup>*\<^sup>* db (snd (snd (env_delete e ns name uid k db))))"

definition same_attempt :: "TrainingJob \<Rightarrow> TrainingJob \<Rightarrow> bool" where
  "same_attempt job job' \<longleftrightarrow> job_ID job' = job_ID job \<and> job_ClusterAttempt job' = job_ClusterAttempt job \<and> job_RayJobUID job' = job_RayJobUID job \<and>
     job_RayJobName job' = job_RayJobName job \<and> managed_job job' = managed_job job"

definition lawful_config :: "'k config \<Rightarrow> bool" where
  "lawful_config c \<longleftrightarrow>
     (\<forall>job w. (case cfg_prepare c job w of (r, w') \<Rightarrow>
        store_step\<^sup>*\<^sup>* (w_db w) (w_db w') \<and> w_calls w' = w_calls w \<and> (\<forall>job'. r = Inr job' \<longrightarrow> same_attempt job job'))) \<and>
     (\<forall>f t j s at w. cfg_experimentRuns c = Some f \<longrightarrow> store_step\<^sup>*\<^sup>* (w_db w) (w_db (snd (f t j s at w))) \<and> w_calls (snd (f t j s at w)) = w_calls w) \<and>
     (\<forall>f job w. cfg_evaluationJobs c = Some f \<longrightarrow> store_step\<^sup>*\<^sup>* (w_db w) (w_db (snd (f job w))) \<and> w_calls (snd (f job w)) = w_calls w)"

lemma store_op_le:
  assumes "lawful e" "\<And>now db x db'. f now db = Inr (x, db') \<Longrightarrow> store_step\<^sup>*\<^sup>* db db'"
  shows "world_le b w (snd (store_op e f w))"
proof -
  obtain k db where i: "env_interfere e (w_kube w) (w_db w) = (k, db)" by (cases "env_interfere e (w_kube w) (w_db w)")
  have "store_step\<^sup>*\<^sup>* (w_db w) db" using assms(1) i by (auto simp: lawful_def) (metis snd_conv)
  then show ?thesis using assms(2) [of "env_now e k" db]
    by (auto simp: store_op_def i world_le_def Let_def split: option.splits sum.splits intro: rtranclp_trans)
qed

lemma safe_store_op: "lawful e \<Longrightarrow> (\<And>now db x db'. f now db = Inr (x, db') \<Longrightarrow> store_step\<^sup>*\<^sup>* db db') \<Longrightarrow> safe (world_le b) P (store_op e f)"
  unfolding safe_def using store_op_le [of e f] by blast

lemma safe_store_read: "lawful e \<Longrightarrow> safe (world_le b) P (store_read e f)"
  unfolding store_read_def by (rule safe_store_op) (auto simp: map_sum_def split: sum.splits)

lemma safe_api_read: "(\<And>k db. store_step\<^sup>*\<^sup>* db (snd (snd (f k db)))) \<Longrightarrow> safe (world_le b) P (api_call None f)"
  by (simp add: safe_def api_call_def world_le_def split: prod.splits) (metis snd_conv)

lemma safe_api_write:
  "(\<And>k db. store_step\<^sup>*\<^sup>* db (snd (snd (f k db)))) \<Longrightarrow> (\<And>w. P w \<Longrightarrow> call_ok b (call, w_db w)) \<Longrightarrow> safe (world_le b) P (api_call (Some call) f)"
  by (simp add: safe_def api_call_def world_le_def split: prod.splits) (metis snd_conv)

lemma safe_get: "lawful e \<Longrightarrow> safe (world_le b) P (GetRayJob e ns name)"
  unfolding GetRayJob_def by (rule safe_api_read) (simp add: lawful_def)

lemmas store_runs = store_step.intros [THEN r_into_rtranclp [of store_step]]

lemma unit_result_run: "unit_result r = Inr (x, db') \<Longrightarrow> r = Inr db'"
  by (auto simp: unit_result_def map_sum_def split: sum.splits)

subsection \<open>The client\<close>

context world_preorder
begin

lemma safe_ensure:
  assumes "\<And>ns name. safe R P (GetRayJob e ns name)" "\<And>dry. safe R P (api_call (Some (CallCreate dry r)) (env_create e dry r))"
  shows "safe R P (EnsureRayJob e r)"
  unfolding EnsureRayJob_def create_rayjob_def by (intro safe_rules assms)

lemma safe_first_failure: "(\<And>x. safe R P (f x)) \<Longrightarrow> safe R P (first_failure first f xs)"
  by (induction xs arbitrary: first) (simp_all add: safe_rules)

lemma safe_bind_result: "(\<And>x. r = Inr x \<Longrightarrow> safe R P (f x)) \<Longrightarrow> safe R P (bind (of_result r) f)"
  by (cases r) (simp_all add: bind_def of_result_def handle_def safe_def fail_def refl)

lemma safe_finish: "safe R P (finish first)"
  unfolding finish_def by (intro safe_rules)

end

lemma safe_owned: "lawful e \<Longrightarrow> safe (world_le b) (sound b) (GetOwnedRayJob e ns name owner uid)"
  unfolding GetOwnedRayJob_def by (intro wl.safe_rules safe_get)

lemma safe_delete: "lawful e \<Longrightarrow> safe (world_le b) (sound b) (DeleteRayJob e ns name owner uid)"
  unfolding DeleteRayJob_def
  by (intro wl.safe_rules safe_get safe_api_write) (auto simp: lawful_def check_def split: if_splits)

lemma safe_deactivate: "lawful e \<Longrightarrow> safe (world_le b) (sound b) (DeactivateManagedRayJob e ns name owner uid a f)"
  unfolding DeactivateManagedRayJob_def
  by (intro wl.safe_rules safe_get safe_api_write) (auto simp: lawful_def)

lemma safe_ttl: "lawful e \<Longrightarrow> safe (world_le b) (sound b) (UpdateRayJobCleanupTTL e r owner ttl)"
  unfolding UpdateRayJobCleanupTTL_def
  by (intro wl.safe_rules safe_get safe_api_write) (auto simp: lawful_def)

lemma safe_wait: "lawful e \<Longrightarrow> safe (world_le b) (sound b) (WaitForRayJobDeletion e n ns name)"
  by (induction n) (auto intro!: wl.safe_rules safe_get)

lemma safe_activate:
  assumes "lawful e" "jobId = act_JobID req" "uid = act_RayJobUID req" "a = act_ExpectedClusterAttempt req" "f = act_ResourceFence req"
  shows "safe (world_le b) (authorized b req) (ActivateManagedRayJob e ns name jobId uid a f queue)"
  unfolding ActivateManagedRayJob_def
proof (intro au.safe_rules safe_get safe_api_write)
  fix r :: RayJob and w :: "'a world"
  assume fence: "verifyManagedRayJobFence r jobId uid a f = None" and auth: "authorized b req w"
  show "call_ok b (CallUpdate UpdateActivate (r\<lparr>rj_Labels := (rj_Labels r)(queue_label \<mapsto> queue),
    rj_Annotations := (rj_Annotations r)(managedPendingAdoptionKey := None)\<rparr>), w_db w)"
    using fence auth assms(2-5) by (auto simp: verifyManagedRayJobFence_def check_def authorized_def label_def go_consts split: if_splits)
qed (use assms(1) in \<open>auto simp: lawful_def\<close>)

subsection \<open>Cleanup of an attempt\<close>

lemma safe_calls:
  assumes "lawful e"
  shows "safe (world_le b) (sound b) (call_retire e req)" "safe (world_le b) (sound b) (call_apply e obs)" "safe (world_le b) (sound b) (call_record_failure e failure)"
    "safe (world_le b) (sound b) (call_complete e r)"
  unfolding call_retire_def call_apply_def call_record_failure_def call_complete_def
  by (intro wl.safe_rules safe_store_op assms; auto dest!: unit_result_run intro: store_runs)+

lemmas safe_lib = safe_get safe_owned safe_delete safe_deactivate safe_ttl safe_wait safe_calls safe_store_read wl.safe_first_failure wl.safe_finish

lemma safe_verify: "lawful e \<Longrightarrow> safe (world_le b) (sound b) (verifyManagedAttemptResource e r expected)"
  unfolding verifyManagedAttemptResource_def by (intro wl.safe_rules safe_lib)

lemma safe_await: "lawful e \<Longrightarrow> safe (world_le b) (sound b) (await_deletion e n t r uid)"
  by (induction n) (auto intro!: wl.safe_rules safe_lib)

lemma safe_cleanup: "lawful e \<Longrightarrow> safe (world_le b) (sound b) (cleanupManagedAttemptResource e c r)"
  unfolding cleanupManagedAttemptResource_def delete_attempt_def by (intro wl.safe_rules safe_lib safe_verify safe_await)

lemma safe_cleanups: "lawful e \<Longrightarrow> safe (world_le b) (sound b) (reconcileManagedAttemptCleanups e c)"
  unfolding reconcileManagedAttemptCleanups_def reconcileManagedAttemptCleanupBatch_def cleanup_and_record_def
  by (intro wl.safe_rules safe_lib safe_cleanup)

lemma safe_retire_expired: "lawful e \<Longrightarrow> safe (world_le b) (sound b) (retireExpiredRayJobs e c)"
  unfolding retireExpiredRayJobs_def retire_expired_def
  by (intro wl.safe_rules safe_lib safe_store_op) (auto dest!: unit_result_run intro: store_runs)

subsection \<open>Activation\<close>

lemma authorized_sound: "authorized b req w \<Longrightarrow> sound b w"
  by (simp add: authorized_def)

lemma issued_sound: "issued b j a f w \<Longrightarrow> sound b w"
  by (simp add: issued_def)

lemma safe_compensate: "lawful e \<Longrightarrow> safe (world_le b) (sound b) (compensateManagedActivation e c job r f)"
  unfolding compensateManagedActivation_def by (intro wl.safe_rules safe_lib safe_cleanup)

lemma store_op_result:
  assumes "lawful e" "store_op e f w = (Inr x, w')"
  shows "\<exists>now db. store_step\<^sup>*\<^sup>* (w_db w) db \<and> f now db = Inr (x, w_db w')"
proof -
  obtain k db where i: "env_interfere e (w_kube w) (w_db w) = (k, db)" by (cases "env_interfere e (w_kube w) (w_db w)")
  have "store_step\<^sup>*\<^sup>* (w_db w) db" using assms(1) i by (auto simp: lawful_def) (metis snd_conv)
  then show ?thesis using assms(2) by (auto simp: store_op_def i Let_def split: option.splits sum.splits) blast
qed

lemma authorize_read:
  assumes "lawful e" "sound b w" "store_read e (\<lambda>_. AuthorizeManagedAttemptActivation req) w = (Inr (job, row, ok), w')"
  shows "sound b w' \<and> (ok \<longrightarrow> authorized b req w')"
proof -
  obtain db where db: "store_step\<^sup>*\<^sup>* (w_db w) db" "AuthorizeManagedAttemptActivation req db = Inr (job, row, ok)" "w_db w' = db"
    using store_op_result [OF assms(1) assms(3) [unfolded store_read_def]] by (auto simp: map_sum_Inr)
  have "store_step\<^sup>*\<^sup>* b db" using assms(2) db(1) unfolding sound_def by (meson rtranclp_trans)
  moreover have "sound b w'" using assms(2) store_inv_steps [OF db(1)] db(3) \<open>store_step\<^sup>*\<^sup>* b db\<close> unfolding sound_def by blast
  ultimately show ?thesis using db(2,3) unfolding authorized_def by (cases ok) (simp_all, metis rtranclp.rtrancl_refl)
qed

lemma safe_authorize:
  assumes "lawful e" "\<And>job row. safe (world_le b) (authorized b req) (f (job, row, True))" "\<And>job row. safe (world_le b) (sound b) (f (job, row, False))"
  shows "safe (world_le b) (sound b) (bind (store_read e (\<lambda>_. AuthorizeManagedAttemptActivation req)) f)"
proof (rule wl.safe_bind_post [where Q = "\<lambda>x w. sound b w \<and> (snd (snd x) \<longrightarrow> authorized b req w)"])
  show "safe (world_le b) (sound b) (store_read e (\<lambda>_. AuthorizeManagedAttemptActivation req))" by (rule safe_store_read [OF assms(1)])
next
  fix w x w'
  assume "sound b w" "store_read e (\<lambda>_. AuthorizeManagedAttemptActivation req) w = (Inr x, w')"
  then show "sound b w' \<and> (snd (snd x) \<longrightarrow> authorized b req w')" using authorize_read [OF assms(1)] by (cases x) simp
next
  fix x :: "TrainingJob \<times> ManagedAttemptResource \<times> bool"
  obtain job row ok where x: "x = (job, row, ok)" by (cases x)
  show "safe (world_le b) (\<lambda>w. sound b w \<and> (snd (snd x) \<longrightarrow> authorized b req w)) (f x)"
    unfolding x by (cases ok) (auto intro: safe_weaken [OF assms(2)] safe_weaken [OF assms(3)])
qed

lemma safe_confirm:
  "lawful e \<Longrightarrow> (\<And>x. safe (world_le b) (sound b) (f x)) \<Longrightarrow>
   safe (world_le b) (authorized b req) (bind (store_op e (\<lambda>now. ConfirmManagedAttemptActivation now req)) f)"
  by (rule safe_weaken [of _ "sound b"]) (intro wl.safe_bind safe_store_op, auto intro: store_runs simp: authorized_sound)

lemma safe_activation: "lawful e \<Longrightarrow> safe (world_le b) (sound b) (activateManagedRayJob e c job r)"
  unfolding activateManagedRayJob_def
  by (intro wl.safe_case_sum wl.safe_fail wl.safe_let safe_authorize; simp;
      intro au.safe_bind safe_confirm safe_activate wl.safe_rules safe_compensate; simp)

subsection \<open>Creation\<close>

lemma manifest_create_ok:
  assumes "RenderRayJob c job f = Inr r" "managed_job job \<Longrightarrow> blank (job_RayJobUID job)"
    and "managed_job job \<Longrightarrow> (job_ID job, job_ClusterAttempt job, f) \<in> fence_key ` set (db_fences db) \<and> 0 < f"
  shows "call_ok b (CallCreate dry r, db)"
proof -
  have r: "rj_Labels r = manifest_labels job f" "rj_Suspend r = Inr (Some True)"
    using assms(1) by (auto simp: RenderRayJob_def Let_def or_fail_def split: option.splits)
  show ?thesis using assms(2,3) by (cases "managed_job job") (auto simp: r label_def manifest_labels_def Let_def go_consts)
qed

lemma acquired_job:
  assumes "AcquireManagedAttemptCreation t req at db = Inr ((job, row, True), db')" "store_inv db"
  shows "job_ID job = lease_JobID req" "job_ClusterAttempt job = lease_ExpectedClusterAttempt req"
proof -
  obtain jobrow where "job_at db (lease_JobID req) = Some jobrow" "toDomain jobrow = Inr job" "job_ClusterAttempt job = lease_ExpectedClusterAttempt req"
    using assms(1) unfolding AcquireManagedAttemptCreation_def Let_def or_fail_Inr require_Inr and_then_Inr
    by (auto simp: lease_mismatch_def grant_lease_def Let_def split: if_splits)
  then show "job_ID job = lease_JobID req" "job_ClusterAttempt job = lease_ExpectedClusterAttempt req"
    using toDomain_fields(1) job_at_ID by fastforce+
qed

lemma acquired_issued:
  assumes "lawful e" "sound b w" "store_op e (\<lambda>t. AcquireManagedAttemptCreation t req at) w = (Inr (job, row, True), w')"
  shows "issued b (job_ID job) (job_ClusterAttempt job) (mar_ResourceFence row) w' \<and> 0 < mar_ResourceFence row"
proof -
  obtain now db where db: "store_step\<^sup>*\<^sup>* (w_db w) db" "AcquireManagedAttemptCreation now req at db = Inr ((job, row, True), w_db w')"
    using store_op_result [OF assms(1,3)] by blast
  have inv: "store_inv db" "store_inv (w_db w')" using store_inv_steps [OF db(1)] assms(2) acquired_inv [OF _ db(2)] by (auto simp: sound_def)
  have "store_step\<^sup>*\<^sup>* b (w_db w')"
    using assms(2) rtranclp.rtrancl_into_rtrancl [OF db(1) store_step.acquire [OF db(2)]] unfolding sound_def by (meson rtranclp_trans)
  moreover have fence: "(lease_JobID req, lease_ExpectedClusterAttempt req, mar_ResourceFence row) \<in> p_fence (view (w_db w'))"
    using creating_fence [OF inv(2) acquired_row(1,2) [OF db(2)]] by simp
  ultimately show ?thesis using acquired_job [OF db(2) inv(1)] inv(2) inv_fenceD [OF store_inv_keys(2) [OF inv(2)] fence]
    by (simp add: issued_def sound_def)
qed

definition creatable :: "DB \<Rightarrow> TrainingJob \<Rightarrow> ManagedAttemptResource option \<Rightarrow> 'k world \<Rightarrow> bool" where
  "creatable b job lease w \<longleftrightarrow> (case lease of
     None \<Rightarrow> sound b w \<and> (managed_job job \<longrightarrow> \<not> blank (job_RayJobUID job))
   | Some row \<Rightarrow> issued b (job_ID job) (job_ClusterAttempt job) (mar_ResourceFence row) w \<and> 0 < mar_ResourceFence row)"

lemma creatable_sound: "creatable b job lease w \<Longrightarrow> sound b w"
  by (auto simp: creatable_def issued_sound split: option.splits)

interpretation cr: world_preorder "world_le b" "creatable b job lease" for b job lease
  by unfold_locales (fact world_le_refl, erule (1) world_le_trans,
    auto simp: creatable_def split: option.splits intro: sound_keep issued_keep)

lemma safe_getOrEnsure:
  assumes "lawful e" "RenderRayJob c job (case lease of None \<Rightarrow> 0 | Some row \<Rightarrow> mar_ResourceFence row) = Inr r"
  shows "safe (world_le b) (creatable b job lease) (getOrEnsureRayJob e job r)"
proof -
  have ensure: "safe (world_le b) (creatable b job lease) (EnsureRayJob e r)" if "managed_job job \<Longrightarrow> blank (job_RayJobUID job)"
  proof (intro cr.safe_ensure safe_get safe_api_write assms(1))
    fix dry and w :: "'a world"
    assume "creatable b job lease w"
    then show "call_ok b (CallCreate dry r, w_db w)"
      by (intro manifest_create_ok [OF assms(2)] that) (auto simp: creatable_def issued_def that split: option.splits)
  qed (use assms(1) in \<open>simp add: lawful_def\<close>)
  have owned: "safe (world_le b) (creatable b job lease) (GetOwnedRayJob e ns name owner uid)" for ns name owner uid
    by (rule safe_weaken [OF safe_owned [OF assms(1)] creatable_sound])
  show ?thesis unfolding getOrEnsureRayJob_def
    by (intro cr.safe_rules ensure owned) (auto simp: blank_def)
qed

subsection \<open>The rest of the loop\<close>

lemmas safe_parts = wl.safe_rules safe_lib safe_cleanup safe_activation

lemma safe_superseded: "lawful e \<Longrightarrow> safe (world_le b) (sound b) (removeSupersededManagedCreation e c job r f)"
  unfolding removeSupersededManagedCreation_def by (intro safe_parts)

lemma safe_adopt: "lawful e \<Longrightarrow> safe (world_le b) (sound b) (adoptManagedAttempt e c job lease r)"
  unfolding adoptManagedAttempt_def by (intro safe_parts safe_store_op) (auto intro: store_runs)

lemma safe_cancellation: "lawful e \<Longrightarrow> safe (world_le b) (sound b) (reconcileCancellation e c job)"
  unfolding reconcileCancellation_def reconcileManagedCancellation_def cancel_rayjob_def by (intro safe_parts)

lemma safe_current: "(\<And>job. safe (world_le b) (sound b) (again job)) \<Longrightarrow> safe (world_le b) (sound b) (reconcileCurrentManagedJob again job)"
  unfolding reconcileCurrentManagedJob_def by (intro safe_parts)

lemma safe_persist: "lawful e \<Longrightarrow> safe (world_le b) (sound b) (persist_observation e job r obs)"
  unfolding persist_observation_def by (intro safe_parts)

lemma safe_blocked: "lawful e \<Longrightarrow> safe (world_le b) (sound b) (blocked_attempt e job)"
  unfolding blocked_attempt_def by (intro safe_parts)

lemma safe_reserve: "lawful e \<Longrightarrow> safe (world_le b) (sound b) (reserveManagedAttempt e job)"
  unfolding reserveManagedAttempt_def by (intro safe_parts safe_store_op) (auto intro: store_runs)

lemma safe_recover: "lawful e \<Longrightarrow> safe (world_le b) (sound b) (store_op e (\<lambda>now. BeginManagedRecovery now req))"
  by (intro safe_store_op) (auto intro: store_runs)

lemma safe_clear: "lawful e \<Longrightarrow> safe (world_le b) (sound b) (store_op e (\<lambda>now. ClearManagedRecoveryRetiringIdentity now req))"
  by (intro safe_store_op) (auto intro: store_runs)

lemmas safe_again = safe_parts safe_superseded safe_adopt safe_cancellation safe_current safe_persist safe_blocked safe_reserve safe_recover safe_clear

lemma safe_missing:
  "lawful e \<Longrightarrow> (\<And>job. safe (world_le b) (sound b) (again job)) \<Longrightarrow> safe (world_le b) (sound b) (reconcileMissingManagedWorkload e c again job ns)"
  unfolding reconcileMissingManagedWorkload_def by (intro safe_again)

lemma safe_retirement:
  "lawful e \<Longrightarrow> (\<And>job. safe (world_le b) (sound b) (again job)) \<Longrightarrow> safe (world_le b) (sound b) (reconcileManagedRetirement e c again job)"
  unfolding reconcileManagedRetirement_def by (intro safe_again)

lemma safe_observe:
  "lawful e \<Longrightarrow> (\<And>job. safe (world_le b) (sound b) (again job)) \<Longrightarrow> safe (world_le b) (sound b) (activate_and_observe e c again managed job r)"
  unfolding activate_and_observe_def observe_resource_def by (intro safe_again)

lemma safe_adopt_created:
  "lawful e \<Longrightarrow> (\<And>job. safe (world_le b) (sound b) (again job)) \<Longrightarrow> safe (world_le b) (sound b) (adopt_created e c again managed job lease r)"
  unfolding adopt_created_def by (intro safe_again safe_observe)

lemma prepared:
  assumes "lawful_config c" "cfg_prepare c job w = (r, w')"
  shows "world_le b w w'" "r = Inr job' \<Longrightarrow> same_attempt job job'"
proof -
  have "case cfg_prepare c job w of (r, w') \<Rightarrow>
      store_step\<^sup>*\<^sup>* (w_db w) (w_db w') \<and> w_calls w' = w_calls w \<and> (\<forall>job'. r = Inr job' \<longrightarrow> same_attempt job job')"
    using assms(1) unfolding lawful_config_def by (elim conjE allE)
  then show "world_le b w w'" "r = Inr job' \<Longrightarrow> same_attempt job job'" using assms(2) by (auto simp: world_le_def)
qed

lemma creatable_same: "same_attempt job job' \<Longrightarrow> creatable b job' lease w = creatable b job lease w"
  by (simp add: creatable_def same_attempt_def split: option.splits)

lemma safe_workload:
  assumes "lawful e" "lawful_config c" "\<And>job. safe (world_le b) (sound b) (again job)"
  shows "safe (world_le b) (creatable b job lease) (run_workload e c again managed lease job)"
  unfolding run_workload_def
proof (rule cr.safe_bind_post [where Q = "\<lambda>job'. creatable b job' lease"])
  show "safe (world_le b) (creatable b job lease) (cfg_prepare c job)"
    using prepared(1) [OF assms(2)] by (simp add: safe_def) (metis prod.collapse)
  show "creatable b job' lease w'" if "creatable b job lease w" "cfg_prepare c job w = (Inr job', w')" for w job' w'
    using that cr.keep [OF that(1) prepared(1) [OF assms(2) that(2)]] prepared(2) [OF assms(2) that(2)] by (simp add: creatable_same)
next
  fix job'
  let ?fence = "case lease of None \<Rightarrow> 0 | Some lease \<Rightarrow> mar_ResourceFence lease"
  have rest: "safe (world_le b) (creatable b job' lease) m" if "safe (world_le b) (sound b) m" for m :: "('a, unit) prog"
    using that creatable_sound by (rule safe_weaken)
  show "safe (world_le b) (creatable b job' lease) (bind (of_result (RenderRayJob c job' ?fence)) (\<lambda>manifest.
     handle (getOrEnsureRayJob e job' manifest) (\<lambda>got.
       case got of
         Inl err \<Rightarrow>
           if IsNotFound err \<and> managedJobHasPersistedIdentity job' then reconcileMissingManagedWorkload e c again job' (rj_Namespace manifest)
           else fail err
       | Inr resource \<Rightarrow>
           (case lease of
              None \<Rightarrow> activate_and_observe e c again managed job' resource
            | Some lease \<Rightarrow> adopt_created e c again managed job' lease resource))))"
    by (intro cr.safe_bind_result cr.safe_handle safe_getOrEnsure [OF assms(1)] rest)
      (assumption, intro wl.safe_rules safe_missing safe_observe safe_adopt_created assms)
qed

lemma safe_acquire:
  assumes "lawful e" "\<And>job row. safe (world_le b) (creatable b job (Some row)) (f (job, row, True))" "\<And>job row. safe (world_le b) (sound b) (f (job, row, False))"
  shows "safe (world_le b) (sound b) (bind (store_op e (\<lambda>t. AcquireManagedAttemptCreation t req at)) f)"
proof (rule wl.safe_bind_post [where Q = "\<lambda>x w. if snd (snd x) then creatable b (fst x) (Some (fst (snd x))) w else sound b w"])
  show "safe (world_le b) (sound b) (store_op e (\<lambda>t. AcquireManagedAttemptCreation t req at))"
    by (rule safe_store_op [OF assms(1)]) (auto intro: store_runs)
  then show "if snd (snd x) then creatable b (fst x) (Some (fst (snd x))) w' else sound b w'"
    if "sound b w" "store_op e (\<lambda>t. AcquireManagedAttemptCreation t req at) w = (Inr x, w')" for w x w'
    using that acquired_issued [OF assms(1) that(1)] sound_keep [OF that(1), of w'] by (cases x) (force simp: safe_def creatable_def)
next
  fix x :: "TrainingJob \<times> ManagedAttemptResource \<times> bool"
  show "safe (world_le b) (\<lambda>w. if snd (snd x) then creatable b (fst x) (Some (fst (snd x))) w else sound b w) (f x)"
    by (cases x, cases "snd (snd x)") (simp_all add: assms)
qed

lemma safe_start:
  "lawful e \<Longrightarrow> lawful_config c \<Longrightarrow> (\<And>job. safe (world_le b) (sound b) (again job)) \<Longrightarrow> safe (world_le b) (sound b) (start_attempt e c again job)"
  unfolding start_attempt_def by (intro safe_acquire safe_again; simp add: safe_workload; intro safe_again)

lemma safe_loaded: "lawful e \<Longrightarrow> lawful_config c \<Longrightarrow> safe (world_le b) (sound b) (reconcileLoadedJob e c n job)"
proof (induction n arbitrary: job)
  case (Suc n)
  have "safe (world_le b) (sound b) (run_workload e c (reconcileLoadedJob e c n) managed None job)" if "\<not> (managed_job job \<and> blank (job_RayJobUID job))" for managed
    by (rule safe_weaken [OF safe_workload]) (use Suc that in \<open>auto simp: creatable_def\<close>)
  then show ?case using Suc by (auto intro!: wl.safe_if safe_cancellation safe_retirement safe_start)
qed (simp add: wl.safe_rules)

lemma safe_reconcile: "lawful e \<Longrightarrow> lawful_config c \<Longrightarrow> safe (world_le b) (sound b) (ReconcileJob e c n i)"
  unfolding ReconcileJob_def by (intro safe_parts safe_loaded)

lemma safe_finalize: "lawful e \<Longrightarrow> lawful_config c \<Longrightarrow> safe (world_le b) (sound b) (finalize_job e c event i)"
  unfolding finalize_job_def by (intro safe_parts) (auto simp: safe_def lawful_config_def world_le_def)

lemma safe_event: "lawful e \<Longrightarrow> lawful_config c \<Longrightarrow> safe (world_le b) (sound b) (handle_event e c n event)"
  unfolding handle_event_def processEvent_def
  by (intro safe_parts safe_store_op safe_finalize safe_reconcile) (auto dest!: unit_result_run intro: store_runs)

lemma safe_once: "lawful e \<Longrightarrow> lawful_config c \<Longrightarrow> safe (world_le b) (sound b) (ProcessOnce e c n)"
  unfolding ProcessOnce_def
  by (intro safe_parts safe_retire_expired safe_cleanups safe_event safe_reconcile safe_store_op)
    (auto intro: store_runs, metis store_runs(14) snd_conv)

subsection \<open>The guarantees\<close>

text \<open>What the controller runs: a cycle, or the reconciliation of one job.\<close>

definition entry :: "'k env \<Rightarrow> 'k config \<Rightarrow> nat \<Rightarrow> ('k, unit) prog \<Rightarrow> bool" where
  "entry e c n m \<longleftrightarrow> m = ProcessOnce e c n \<or> (\<exists>i. m = ReconcileJob e c n i)"

lemma entry_safe:
  assumes "lawful e" "lawful_config c" "entry e c n m" "store_inv (w_db w)"
  shows "world_le (w_db w) w (snd (m w))"
proof -
  have "safe (world_le (w_db w)) (sound (w_db w)) m"
    using assms(3) safe_once [OF assms(1,2)] safe_reconcile [OF assms(1,2)] by (auto simp: entry_def)
  moreover have "sound (w_db w) w" using assms(4) by (simp add: sound_def)
  ultimately show ?thesis by (simp add: safe_def)
qed

lemma entry_calls:
  assumes "lawful e" "lawful_config c" "entry e c n m" "store_inv (w_db w)" "x \<in> set (w_calls (snd (m w)))" "w_calls w = []"
  shows "call_ok (w_db w) x"
  using entry_safe [OF assms(1-4)] assms(5,6) by (auto simp: world_le_def)

lemma lawful_sample: "lawful sample_env" "lawful_config sample_config" "entry sample_env sample_config 1 (ReconcileJob sample_env sample_config 1 i)"
  by (auto simp: lawful_def sample_env_def lawful_config_def sample_config_def return_def same_attempt_def entry_def)



text \<open>
  C4: Every RayJob the reconciler creates (or tries out in a dry run) is suspended; a managed one is not queued, and it carries
  the job, the attempt and a creation fence that the store has issued for this attempt by the time of the call.
\<close>

theorem creations_fenced:
  assumes "lawful e" "lawful_config c" "entry e c n m" "store_inv (w_db w)" "w_calls w = []"
    and "(CallCreate dry obj, db) \<in> set (w_calls (snd (m w)))"
  shows "rj_Suspend obj = Inr (Some True) \<and>
    (rj_Labels obj managedAttemptIdentityKey \<noteq> None \<longrightarrow> rj_Labels obj queue_label = None \<and>
      (\<exists>a f. label obj managedAttemptIdentityKey = decimal a \<and> label obj managedCreationFenceKey = decimal f \<and>
         (label obj job_id_label, a, f) \<in> fence_key ` set (db_fences db)))"
  using entry_calls [OF assms(1-4) assms(6,5)] by simp

theorem creations_fenced_witness:
  "(CallCreate False sample_manifest, db_leased2) \<in> set (w_calls (snd (ReconcileJob sample_env sample_config 1 ''job-1'' (sample_world 0 None db_leased [])))) \<and>
   rj_Suspend sample_manifest = Inr (Some True) \<and> label sample_manifest managedCreationFenceKey = ''2''"
proof -
  let ?m = "ReconcileJob sample_env sample_config 1 ''job-1''" and ?w = "sample_world 0 None db_leased []"
  have "(CallCreate False sample_manifest, db_leased2) \<in> set (w_calls (snd (?m ?w)))" using sample_reconcile by (simp add: sample_creates_def)
  then show ?thesis using creations_fenced [OF lawful_sample, of ?w False sample_manifest db_leased2 "''job-1''"] sample_invs(1) by simp
qed

text \<open>
  C5: The reconciler puts a managed RayJob into its queue, which lets it start, only if during this pass the
  store authorized the activation of exactly this job, attempt, UID and creation fence.
\<close>

theorem activations_authorized:
  assumes "lawful e" "lawful_config c" "entry e c n m" "store_inv (w_db w)" "w_calls w = []"
    and "(CallUpdate UpdateActivate obj, db) \<in> set (w_calls (snd (m w)))"
  shows "\<exists>req job row db0. store_step\<^sup>*\<^sup>* (w_db w) db0 \<and> AuthorizeManagedAttemptActivation req db0 = Inr (job, row, True) \<and> store_step\<^sup>*\<^sup>* db0 db \<and>
    label obj job_id_label = act_JobID req \<and> rj_UID obj = act_RayJobUID req \<and>
    label obj managedAttemptIdentityKey = decimal (act_ExpectedClusterAttempt req) \<and>
    label obj managedCreationFenceKey = decimal (act_ResourceFence req)"
  using entry_calls [OF assms(1-4) assms(6,5)] by simp

theorem activations_authorized_witness:
  "(CallUpdate UpdateActivate sample_unsuspended, db_adopted) \<in>
     set (w_calls (snd (ReconcileJob sample_env sample_config 1 ''job-1'' (sample_world 0 None db_leased [])))) \<and>
   (\<exists>req job row db0. store_step\<^sup>*\<^sup>* db_leased db0 \<and> AuthorizeManagedAttemptActivation req db0 = Inr (job, row, True) \<and> store_step\<^sup>*\<^sup>* db0 db_adopted)"
proof -
  let ?m = "ReconcileJob sample_env sample_config 1 ''job-1''" and ?w = "sample_world 0 None db_leased []"
  have call: "(CallUpdate UpdateActivate sample_unsuspended, db_adopted) \<in> set (w_calls (snd (?m ?w)))" using sample_reconcile by simp
  show ?thesis using activations_authorized [OF lawful_sample _ _ call] sample_invs(1) call by (simp; blast)
qed



end
