(* ===== verification/Kube_Volumes.thy ===== *)
theory Kube_Volumes
  imports Kube_Names "HOL-Library.AList"
begin

section \<open>Volumes and volume mounts of a pod\<close>

text \<open>
  \<open>backend/k8s/data_mounts.go\<close>, the mount helpers of \<open>backend/k8s/rayjob.go\<close> and \<open>backend/k8s/workspace_data_mounts.go\<close>:
  how resolved storage becomes the \<open>volumes\<close> of a pod and the \<open>volumeMounts\<close> of its containers. Manifests are the
  \<open>map[string]any\<close> trees of the source; a map is an association list with distinct keys whose order has no meaning.
\<close>

datatype any = Str string | Num int | Flag bool | Arr "any list" | Obj "(string \<times> any) list"

fun field :: "any \<Rightarrow> string \<Rightarrow> any option" where \<comment> \<open>\<open>v, _ := x.(map[string]any); v[k]\<close>\<close>
  "field (Obj m) k = map_of m k"
| "field _ k = None"

definition str_field :: "any \<Rightarrow> string \<Rightarrow> string" where \<comment> \<open>\<open>s, _ := x[k].(string)\<close>\<close>
  "str_field x k = (case field x k of Some (Str s) \<Rightarrow> s | _ \<Rightarrow> [])"

fun put :: "string \<Rightarrow> any \<Rightarrow> any \<Rightarrow> any" where \<comment> \<open>\<open>x[k] = v\<close>\<close>
  "put k v (Obj m) = Obj (AList.update k v m)"
| "put k v x = x"

type_synonym mounting = "any list \<times> any list" \<comment> \<open>\<open>volumeMounts, volumes\<close>\<close>

subsection \<open>Plans\<close>

record DataMountRoot =
  dmr_ClaimName :: string
  dmr_SubPath :: string
  dmr_ReadOnly :: bool

record DataMountPlan =
  plan_Personal :: "DataMountRoot option"
  plan_Workspace :: "DataMountRoot option"
  plan_Team :: "DataMountRoot option"
  plan_Public :: "DataMountRoot option"
  plan_IDCOriginal :: "DataMountRoot option"
  plan_IDCWellspiking :: "DataMountRoot option"
  plan_IDCShared :: "DataMountRoot option"
  plan_IDCSPKHybrid :: "DataMountRoot option"
  plan_IDCSPKSSD :: "DataMountRoot option"

definition governedFSXMountOptions :: "bool \<Rightarrow> string list" where
  "governedFSXMountOptions readOnly = [''no_writeback_cache'', ''uid=1000'', ''gid=1000'', ''file_mode=770'', ''dir_mode=770''] @
     (if readOnly then [] else [''tos_allow_delete=true''])"

definition DataMountRoot_validate :: "DataMountRoot \<Rightarrow> string \<Rightarrow> bool \<Rightarrow> error option" where
  "DataMountRoot_validate root name readOnly = first_error [
     check (blank (dmr_ClaimName root) \<or> \<not> isDNSLabel (dmr_ClaimName root))
       (Errorf ''%s data mount requires a DNS-label claim name'' [ArgS name]),
     check (dmr_ReadOnly root \<noteq> readOnly) (Errorf ''%s data mount read-only contract is invalid'' [ArgS name]),
     check (dmr_SubPath root \<noteq> [] \<and> NormalizeStorageRelativePath (dmr_SubPath root) \<noteq> Inr (dmr_SubPath root))
       (Errorf ''%s data mount has an invalid confined subpath'' [ArgS name])]"

definition hasGovernedIDC :: "DataMountPlan \<Rightarrow> bool" where
  "hasGovernedIDC plan \<longleftrightarrow> plan_IDCOriginal plan \<noteq> None \<or> plan_IDCWellspiking plan \<noteq> None \<or> plan_IDCShared plan \<noteq> None \<or>
     plan_IDCSPKHybrid plan \<noteq> None \<or> plan_IDCSPKSSD plan \<noteq> None"

definition validate_root :: "DataMountRoot option \<Rightarrow> string \<Rightarrow> (DataMountRoot \<Rightarrow> bool) \<Rightarrow> error option" where \<comment> \<open>\<open>if root != nil\<close>\<close>
  "validate_root root name readOnly = (case root of None \<Rightarrow> None | Some r \<Rightarrow> DataMountRoot_validate r name (readOnly r))"

definition DataMountPlan_Validate :: "DataMountPlan \<Rightarrow> error option" where
  "DataMountPlan_Validate plan = first_error [
     check (hasGovernedIDC plan) (Errorf ''legacy IDC mounts are not supported'' []),
     validate_root (plan_Personal plan) ''personal'' (\<lambda>_. False),
     check (plan_Workspace plan \<noteq> None \<and> plan_Personal plan = None) (Errorf ''workspace data mount requires a personal root'' []),
     validate_root (plan_Workspace plan) ''workspace'' (\<lambda>_. False),
     validate_root (plan_Team plan) ''team'' dmr_ReadOnly,
     validate_root (plan_Public plan) ''public'' (\<lambda>_. True)]"

definition joinRootSubPath :: "string \<Rightarrow> string \<Rightarrow> string" where
  "joinRootSubPath root child = (if root = [] then child else root @ ''/'' @ child)"

subsection \<open>Volumes backed by a claim\<close>

definition pvcVolume :: "string \<Rightarrow> string \<Rightarrow> bool \<Rightarrow> any" where
  "pvcVolume name claimName readOnly =
     Obj [(''name'', Str name), (''persistentVolumeClaim'', Obj [(''claimName'', Str claimName), (''readOnly'', Flag readOnly)])]"

definition pvcMount :: "string \<Rightarrow> string \<Rightarrow> string \<Rightarrow> bool \<Rightarrow> any" where
  "pvcMount volumeName mountPath subPath readOnly =
     Obj ([(''name'', Str volumeName), (''mountPath'', Str mountPath), (''readOnly'', Flag readOnly)] @
       (if subPath \<noteq> [] then [(''subPath'', Str subPath)] else []))"

fun pvcVolumeName :: "any list \<Rightarrow> string \<Rightarrow> string" where
  "pvcVolumeName [] claimName = []"
| "pvcVolumeName (volume # volumes) claimName =
     (case field volume ''persistentVolumeClaim'' of
        Some (Obj claim) \<Rightarrow>
          if map_of claim ''claimName'' = Some (Str claimName) \<and> str_field volume ''name'' \<noteq> [] then str_field volume ''name''
          else pvcVolumeName volumes claimName
      | _ \<Rightarrow> pvcVolumeName volumes claimName)"

fun make_writable :: "string \<Rightarrow> any list \<Rightarrow> any list" where \<comment> \<open>the loop that copies the first read-only source of that name\<close>
  "make_writable name [] = []"
| "make_writable name (volume # volumes) =
     (if field volume ''name'' = Some (Str name) then
        (case field volume ''persistentVolumeClaim'' of
           Some (Obj claim) \<Rightarrow>
             if map_of claim ''readOnly'' = Some (Flag True)
             then put ''persistentVolumeClaim'' (Obj (AList.update ''readOnly'' (Flag False) claim)) volume # volumes
             else volume # make_writable name volumes
         | _ \<Rightarrow> volume # make_writable name volumes)
      else volume # make_writable name volumes)"

definition ensurePVCVolume :: "any list \<Rightarrow> string \<Rightarrow> string \<Rightarrow> bool \<Rightarrow> string \<times> any list" where
  "ensurePVCVolume volumes preferredName claimName readOnly =
     (let name = pvcVolumeName volumes claimName in
      if name \<noteq> [] then (name, if readOnly then volumes else make_writable name volumes)
      else (preferredName, volumes @ [pvcVolume preferredName claimName readOnly]))"

subsection \<open>Governed roots\<close>

text \<open>One iteration of the loops over team and public roots, the same in both renderers.\<close>

fun append_root :: "string \<times> string \<times> DataMountRoot option \<Rightarrow> mounting \<Rightarrow> mounting" where
  "append_root (volumeName, mountPath, None) m = m"
| "append_root (volumeName, mountPath, Some root) (volumeMounts, volumes) =
     (let (name, updated) = (if dmr_SubPath root \<noteq> [] then ensurePVCVolume volumes volumeName (dmr_ClaimName root) (dmr_ReadOnly root)
            else (volumeName, volumes @ [pvcVolume volumeName (dmr_ClaimName root) (dmr_ReadOnly root)])) in
      (volumeMounts @ [pvcMount name mountPath (dmr_SubPath root) (dmr_ReadOnly root)], updated))"

definition shared_roots :: "DataMountPlan \<Rightarrow> (string \<times> string \<times> DataMountRoot option) list" where
  "shared_roots plan = [(''platform-data-team'', TeamStorageMountPath, plan_Team plan),
     (''platform-data-public'', PublicStorageMountPath, plan_Public plan)]"

definition appendWorkspaceDataMounts :: "DataMountRoot \<Rightarrow> DataMountRoot \<Rightarrow> mounting \<Rightarrow> mounting" where
  "appendWorkspaceDataMounts personal workspace m =
     (let (volumeMounts, volumes) = m;
          (personalName, volumes1) = ensurePVCVolume volumes ''platform-data-personal'' (dmr_ClaimName personal) False;
          (workspaceName, volumes2) = ensurePVCVolume volumes1 ''platform-data-workspace'' (dmr_ClaimName workspace) False in
      (volumeMounts @ [pvcMount personalName MyStorageMountPath (dmr_SubPath personal) False,
         pvcMount workspaceName WorkspaceMountPath (dmr_SubPath workspace) False,
         pvcMount workspaceName (MyStorageMountPath @ ''/workspace'') (dmr_SubPath workspace) False], volumes2))"

definition append_personal_root :: "DataMountRoot \<Rightarrow> mounting \<Rightarrow> mounting" where \<comment> \<open>of \<open>appendDataMountPlan\<close>\<close>
  "append_personal_root personal m =
     (let (volumeMounts, volumes) = m in
      if dmr_SubPath personal = [] then
        (volumeMounts @ [
           Obj [(''name'', Str ''platform-data-personal-workspace''), (''mountPath'', Str WorkspaceMountPath), (''subPath'', Str ''workspace''), (''readOnly'', Flag False)],
           Obj [(''name'', Str ''platform-data-personal''), (''mountPath'', Str MyStorageMountPath), (''readOnly'', Flag False)]],
         volumes @ [pvcVolume ''platform-data-personal-workspace'' (dmr_ClaimName personal) False,
           pvcVolume ''platform-data-personal'' (dmr_ClaimName personal) False])
      else
        let (volumeName, updatedVolumes) = ensurePVCVolume volumes ''platform-data-personal'' (dmr_ClaimName personal) False in
        (volumeMounts @ [pvcMount volumeName WorkspaceMountPath (joinRootSubPath (dmr_SubPath personal) ''workspace'') False,
           pvcMount volumeName MyStorageMountPath (dmr_SubPath personal) False], updatedVolumes))"

text \<open>A plan with a workspace and no personal root is refused by \<open>Validate\<close>; the source would dereference nil there (\<open>None\<close>).\<close>

definition appendDataMountPlan :: "DataMountPlan \<Rightarrow> mounting \<Rightarrow> mounting option" where
  "appendDataMountPlan plan m =
     map_option (fold append_root (shared_roots plan))
       (case (plan_Workspace plan, plan_Personal plan) of
          (Some workspace, Some personal) \<Rightarrow> Some (appendWorkspaceDataMounts personal workspace m)
        | (Some workspace, None) \<Rightarrow> None
        | (None, Some personal) \<Rightarrow> Some (append_personal_root personal m)
        | (None, None) \<Rightarrow> Some m)"

definition mount_root :: "ResolvedDataRoot option \<Rightarrow> DataMountRoot option" where
  "mount_root = map_option (\<lambda>r. \<lparr>dmr_ClaimName = root_ClaimName r, dmr_SubPath = root_SubPath r, dmr_ReadOnly = root_ReadOnly r\<rparr>)"

definition dataMountPlanFromResolvedRoots :: "ResolvedDataSpaceRoots \<Rightarrow> DataMountPlan" where
  "dataMountPlanFromResolvedRoots roots =
     \<lparr>plan_Personal = mount_root (roots_Personal roots), plan_Workspace = None, plan_Team = mount_root (roots_Team roots),
      plan_Public = mount_root (roots_Public roots), plan_IDCOriginal = None, plan_IDCWellspiking = None, plan_IDCShared = None,
      plan_IDCSPKHybrid = None, plan_IDCSPKSSD = None\<rparr>"

definition appendTrainingDataRoots :: "ResolvedDataSpaceRoots \<Rightarrow> mounting \<Rightarrow> mounting" where
  "appendTrainingDataRoots roots m =
     (let plan = dataMountPlanFromResolvedRoots roots in
      fold append_root (shared_roots plan)
        (append_root (''platform-data-personal'', MyStorageMountPath, map_option (dmr_ReadOnly_update (\<lambda>_. False)) (plan_Personal plan)) m))"

subsection \<open>Resolved storage and data-space mounts\<close>

fun append_storage_mount :: "string \<times> ResolvedStorageMount option \<Rightarrow> mounting \<Rightarrow> mounting" where
  "append_storage_mount (volumeName, None) m = m"
| "append_storage_mount (volumeName, Some mount) (volumeMounts, volumes) =
     (volumeMounts @ [Obj [(''name'', Str volumeName), (''mountPath'', Str (rsm_MountPath mount)), (''readOnly'', Flag (rsm_ReadOnly mount))]],
      volumes @ [pvcVolume volumeName (rsm_ClaimName mount) (rsm_ReadOnly mount)])"

definition appendResolvedStorageMounts :: "ResolvedStorageMounts \<Rightarrow> mounting \<Rightarrow> mounting" where
  "appendResolvedStorageMounts mounts = fold append_storage_mount [(''platform-dataset'', rsms_Dataset mounts),
     (''platform-checkpoint'', rsms_Checkpoint mounts), (''platform-output'', rsms_Output mounts)]"

fun append_data_mount :: "string \<times> ResolvedDataMount option \<Rightarrow> mounting \<Rightarrow> mounting" where
  "append_data_mount (itemName, None) m = m"
| "append_data_mount (itemName, Some mount) (volumeMounts, volumes) =
     (let existing = pvcVolumeName volumes (rdm_ClaimName mount);
          reuse = (existing = ''platform-data-personal'' \<and> (rdm_ReadOnly mount \<or> has_prefix (rdm_SubPath mount) ''tenants/'')) in
      (volumeMounts @ [pvcMount (if reuse then existing else itemName) (rdm_MountPath mount) (rdm_SubPath mount) (rdm_ReadOnly mount)],
       if reuse then volumes else volumes @ [pvcVolume itemName (rdm_ClaimName mount) (rdm_ReadOnly mount)]))"

definition appendResolvedDataSpaceMounts :: "ResolvedDataSpaceMounts \<Rightarrow> mounting \<Rightarrow> mounting" where
  "appendResolvedDataSpaceMounts mounts = fold append_data_mount [(''platform-data-input'', rdms_Input mounts),
     (''platform-data-checkpoint'', rdms_Checkpoint mounts), (''platform-data-output'', rdms_Output mounts)]"

subsection \<open>Every mount has its volume\<close>

text \<open>
  The contract of the functions that add storage to a pod: they append mounts, append volumes with fresh names out of their own
  \<open>pool\<close>, and every mount they append names a declared volume.
\<close>

definition volume_names :: "any list \<Rightarrow> string list" where
  "volume_names vs = map (\<lambda>v. str_field v ''name'') vs"

definition mounts_declared :: "mounting \<Rightarrow> bool" where
  "mounts_declared m \<longleftrightarrow> list_all (\<lambda>x. str_field x ''name'' \<in> set (volume_names (snd m))) (fst m)"

lemma volume_names_simps [simp]:
  "volume_names [] = []" "volume_names (v # vs) = str_field v ''name'' # volume_names vs"
  "volume_names (vs @ ws) = volume_names vs @ volume_names ws"
  by (simp_all add: volume_names_def)

lemma pvc_names [simp]: "str_field (pvcVolume n c r) ''name'' = n" "str_field (pvcMount n p q r) ''name'' = n"
  by (simp_all add: pvcVolume_def pvcMount_def str_field_def)

lemma str_field_head [simp]: "str_field (Obj ((k, Str s) # m)) k = s"
  by (simp add: str_field_def)

definition mount_extends :: "string set \<Rightarrow> mounting \<Rightarrow> mounting \<Rightarrow> bool" where
  "mount_extends pool m m' \<longleftrightarrow> (\<exists>new extra. volume_names (snd m') = volume_names (snd m) @ new \<and> distinct new \<and> set new \<subseteq> pool \<and>
     fst m' = fst m @ extra \<and> (\<forall>x \<in> set extra. str_field x ''name'' \<in> set (volume_names (snd m'))))"

lemma mount_extends_refl: "mount_extends P m m"
  by (simp add: mount_extends_def)

lemma mount_extends_mono: "mount_extends P m m' \<Longrightarrow> P \<subseteq> Q \<Longrightarrow> mount_extends Q m m'"
  unfolding mount_extends_def by blast

lemma mount_extends_trans:
  assumes "mount_extends P m m'" "mount_extends Q m' m''" "P \<inter> Q = {}"
  shows "mount_extends (P \<union> Q) m m''"
proof -
  obtain a x where f: "volume_names (snd m') = volume_names (snd m) @ a" "distinct a" "set a \<subseteq> P" "fst m' = fst m @ x"
      "\<forall>y \<in> set x. str_field y ''name'' \<in> set (volume_names (snd m'))"
    using assms(1) unfolding mount_extends_def by blast
  obtain b y where g: "volume_names (snd m'') = volume_names (snd m') @ b" "distinct b" "set b \<subseteq> Q"
      "fst m'' = fst m' @ y" "\<forall>z \<in> set y. str_field z ''name'' \<in> set (volume_names (snd m''))"
    using assms(2) unfolding mount_extends_def by blast
  show ?thesis unfolding mount_extends_def
    using f g assms(3) by (intro exI [of _ "a @ b"] exI [of _ "x @ y"]) auto
qed

lemma mount_extends_declared: "mount_extends P m m' \<Longrightarrow> mounts_declared m \<Longrightarrow> mounts_declared m'"
  by (auto simp: mount_extends_def mounts_declared_def list_all_iff)

lemma mount_extends_distinct:
  "mount_extends P m m' \<Longrightarrow> distinct (volume_names (snd m)) \<Longrightarrow> set (volume_names (snd m)) \<inter> P = {} \<Longrightarrow> distinct (volume_names (snd m'))"
  unfolding mount_extends_def by (force simp: disjoint_iff)

locale mount_step =
  fixes step :: "mounting \<Rightarrow> mounting" and pool :: "string set"
  assumes grows: "mount_extends pool m (step m)"
begin

lemma keeps_declared: "mounts_declared m \<Longrightarrow> mounts_declared (step m)"
  using mount_extends_declared grows by blast

lemma keeps_distinct:
  "distinct (volume_names (snd m)) \<Longrightarrow> set (volume_names (snd m)) \<inter> pool = {} \<Longrightarrow> distinct (volume_names (snd (step m)))"
  using mount_extends_distinct grows by blast

end

lemma mount_step_id: "mount_step (\<lambda>m. m) P"
  by unfold_locales (rule mount_extends_refl)

lemma mount_step_mono: "mount_step f P \<Longrightarrow> P \<subseteq> Q \<Longrightarrow> mount_step f Q"
  unfolding mount_step_def using mount_extends_mono by blast

lemma mount_step_comp: "mount_step f P \<Longrightarrow> mount_step g Q \<Longrightarrow> P \<inter> Q = {} \<Longrightarrow> mount_step (\<lambda>m. g (f m)) (P \<union> Q)"
  unfolding mount_step_def using mount_extends_trans by blast

lemma mount_step_fold:
  assumes "\<And>x. mount_step (h x) {fst x}" "distinct (map fst xs)"
  shows "mount_step (fold h xs) (fst ` set xs)"
  using assms(2)
proof (induction xs)
  case (Cons x xs)
  then have "mount_step (\<lambda>m. fold h xs (h x m)) ({fst x} \<union> fst ` set xs)" using assms(1) by (intro mount_step_comp) auto
  then show ?case by (simp add: comp_def)
qed (simp add: mount_step_id id_def)

subsection \<open>The functions meet the contract\<close>

lemma make_writable_names [simp]: "volume_names (make_writable n vs) = volume_names vs"
proof (induction n vs rule: make_writable.induct)
  case (2 n v vs)
  have "str_field (put ''persistentVolumeClaim'' x v) ''name'' = str_field v ''name''" for x
    by (cases v) (simp_all add: str_field_def update_conv')
  with 2 show ?case by (auto split: option.splits any.splits)
qed simp

lemma pvcVolumeName_declared: "pvcVolumeName vs c \<noteq> [] \<Longrightarrow> pvcVolumeName vs c \<in> set (volume_names vs)"
  by (induction vs c rule: pvcVolumeName.induct) (auto split: option.splits any.splits if_splits)

lemma ensurePVCVolume_names:
  assumes "ensurePVCVolume vs n c r = (name, vs')"
  shows "volume_names vs' = volume_names vs \<and> name \<in> set (volume_names vs) \<or> volume_names vs' = volume_names vs @ [n] \<and> name = n"
  using assms pvcVolumeName_declared [of vs c] by (auto simp: ensurePVCVolume_def Let_def split: if_splits)

lemma mount_step_one:
  assumes "\<And>ms vs. \<exists>x n vs'. step (ms, vs) = (ms @ x, vs') \<and> (\<forall>y \<in> set x. str_field y ''name'' = n) \<and>
    (volume_names vs' = volume_names vs \<and> n \<in> set (volume_names vs) \<or> volume_names vs' = volume_names vs @ [p] \<and> n = p)"
  shows "mount_step step {p}"
proof
  fix m :: mounting
  obtain ms vs where m: "m = (ms, vs)" by fastforce
  from assms [of ms vs] obtain x n vs' where s: "step (ms, vs) = (ms @ x, vs')" "\<forall>y \<in> set x. str_field y ''name'' = n"
    and v: "volume_names vs' = volume_names vs \<and> n \<in> set (volume_names vs) \<or> volume_names vs' = volume_names vs @ [p] \<and> n = p" by blast
  from v show "mount_extends {p} m (step m)"
  proof
    assume "volume_names vs' = volume_names vs \<and> n \<in> set (volume_names vs)"
    with s show ?thesis unfolding mount_extends_def by (intro exI [of _ "[]"] exI [of _ x]) (auto simp: m)
  next
    assume "volume_names vs' = volume_names vs @ [p] \<and> n = p"
    with s show ?thesis unfolding mount_extends_def by (intro exI [of _ "[p]"] exI [of _ x]) (auto simp: m)
  qed
qed

lemma append_root_step: "mount_step (append_root r) {fst r}"
proof (cases r)
  case (fields n p root)
  show ?thesis
  proof (cases root)
    case None
    then have "append_root r = (\<lambda>m. m)" by (simp add: fields fun_eq_iff)
    then show ?thesis by (simp add: mount_step_id)
  next
    case (Some x)
    show ?thesis unfolding fields Some fst_conv
    proof (rule mount_step_one)
      fix ms vs
      show "\<exists>y name vs'. append_root (n, p, Some x) (ms, vs) = (ms @ y, vs') \<and> (\<forall>z \<in> set y. str_field z ''name'' = name) \<and>
          (volume_names vs' = volume_names vs \<and> name \<in> set (volume_names vs) \<or> volume_names vs' = volume_names vs @ [n] \<and> name = n)"
        using ensurePVCVolume_names [of vs n "dmr_ClaimName x" "dmr_ReadOnly x"]
        by (cases "ensurePVCVolume vs n (dmr_ClaimName x) (dmr_ReadOnly x)") (auto simp: Let_def)
    qed
  qed
qed

lemma append_storage_step: "mount_step (append_storage_mount r) {fst r}"
proof (cases r; cases "snd r")
  fix n mount assume "r = (n, mount)" "snd r = None"
  then have "append_storage_mount r = (\<lambda>m. m)" by (simp add: fun_eq_iff)
  then show ?thesis by (simp add: mount_step_id)
next
  fix n mount x assume r: "r = (n, mount)" "snd r = Some x"
  have "mount = Some x" using r by simp
  then show ?thesis unfolding r(1) fst_conv by (intro mount_step_one) auto
qed

lemma append_data_step: "mount_step (append_data_mount r) {fst r}"
proof (cases r; cases "snd r")
  fix n mount assume "r = (n, mount)" "snd r = None"
  then have "append_data_mount r = (\<lambda>m. m)" by (simp add: fun_eq_iff)
  then show ?thesis by (simp add: mount_step_id)
next
  fix n mount x assume r: "r = (n, mount)" "snd r = Some x"
  have "mount = Some x" using r by simp
  then have r: "r = (n, Some x)" using r(1) by simp
  show ?thesis unfolding r fst_conv
  proof (rule mount_step_one)
    fix ms vs
    let ?reuse = "pvcVolumeName vs (rdm_ClaimName x) = ''platform-data-personal'' \<and> (rdm_ReadOnly x \<or> has_prefix (rdm_SubPath x) ''tenants/'')"
    show "\<exists>y name vs'. append_data_mount (n, Some x) (ms, vs) = (ms @ y, vs') \<and> (\<forall>z \<in> set y. str_field z ''name'' = name) \<and>
        (volume_names vs' = volume_names vs \<and> name \<in> set (volume_names vs) \<or> volume_names vs' = volume_names vs @ [n] \<and> name = n)"
    proof (cases ?reuse)
      case True
      then show ?thesis using pvcVolumeName_declared [of vs "rdm_ClaimName x"]
        by (intro exI [of _ "[pvcMount ''platform-data-personal'' (rdm_MountPath x) (rdm_SubPath x) (rdm_ReadOnly x)]"]
            exI [of _ "''platform-data-personal''"] exI [of _ vs]) (simp add: Let_def)
    next
      case False
      then have "append_data_mount (n, Some x) (ms, vs) = (ms @ [pvcMount n (rdm_MountPath x) (rdm_SubPath x) (rdm_ReadOnly x)],
          vs @ [pvcVolume n (rdm_ClaimName x) (rdm_ReadOnly x)])"
        by (simp only: append_data_mount.simps Let_def False if_False)
      then show ?thesis by (simp del: append_data_mount.simps)
    qed
  qed
qed

interpretation storage_mounts: mount_step "appendResolvedStorageMounts mounts"
  "{''platform-dataset'', ''platform-checkpoint'', ''platform-output''}" for mounts
  using mount_step_fold [of append_storage_mount, OF append_storage_step, of "[(''platform-dataset'', rsms_Dataset mounts),
     (''platform-checkpoint'', rsms_Checkpoint mounts), (''platform-output'', rsms_Output mounts)]"]
  by (simp add: appendResolvedStorageMounts_def)

interpretation space_mounts: mount_step "appendResolvedDataSpaceMounts mounts"
  "{''platform-data-input'', ''platform-data-checkpoint'', ''platform-data-output''}" for mounts
  using mount_step_fold [of append_data_mount, OF append_data_step, of "[(''platform-data-input'', rdms_Input mounts),
     (''platform-data-checkpoint'', rdms_Checkpoint mounts), (''platform-data-output'', rdms_Output mounts)]"]
  by (simp add: appendResolvedDataSpaceMounts_def)

lemma shared_roots_step: "mount_step (fold append_root (shared_roots plan)) {''platform-data-team'', ''platform-data-public''}"
  using mount_step_fold [of append_root, OF append_root_step, of "shared_roots plan"] by (simp add: shared_roots_def)

interpretation training_roots: mount_step "appendTrainingDataRoots roots"
  "{''platform-data-personal'', ''platform-data-team'', ''platform-data-public''}" for roots
  using mount_step_comp [OF append_root_step [of "(''platform-data-personal'', MyStorageMountPath,
      map_option (dmr_ReadOnly_update (\<lambda>_. False)) (plan_Personal (dataMountPlanFromResolvedRoots roots)))"]
    shared_roots_step [of "dataMountPlanFromResolvedRoots roots"]]
  by (simp add: appendTrainingDataRoots_def [abs_def] Let_def insert_commute)

subsection \<open>A shared claim is declared once\<close>

text \<open>The volumes that publish a claim, each with its name and its read-only flag.\<close>

fun claim_sources :: "any list \<Rightarrow> string \<Rightarrow> (string \<times> bool) list" where
  "claim_sources [] c = []"
| "claim_sources (v # vs) c =
     (case field v ''persistentVolumeClaim'' of
        Some (Obj claim) \<Rightarrow>
          if map_of claim ''claimName'' = Some (Str c)
          then (str_field v ''name'', map_of claim ''readOnly'' = Some (Flag True)) # claim_sources vs c else claim_sources vs c
      | _ \<Rightarrow> claim_sources vs c)"

lemma claim_sources_append [simp]: "claim_sources (vs @ ws) c = claim_sources vs c @ claim_sources ws c"
  by (induction vs c rule: claim_sources.induct) (auto split: option.splits any.splits)

lemma pvcVolume_claim [simp]:
  "field (pvcVolume n d r) ''persistentVolumeClaim'' = Some (Obj [(''claimName'', Str d), (''readOnly'', Flag r)])"
  by (simp add: pvcVolume_def)

lemma pvcVolumeName_source: "claim_sources vs c = (n, r) # rest \<Longrightarrow> n \<noteq> [] \<Longrightarrow> pvcVolumeName vs c = n"
  by (induction vs c rule: claim_sources.induct) (auto split: option.splits any.splits if_splits)

lemma make_writable_sources:
  "list_all (\<lambda>(n, r). \<not> r) (claim_sources vs c) \<Longrightarrow> claim_sources (make_writable k vs) c = claim_sources vs c"
proof (induction k vs rule: make_writable.induct)
  case (2 k v vs)
  show ?case
  proof (cases "field v ''persistentVolumeClaim''")
    case (Some x)
    show ?thesis
    proof (cases x)
      case (Obj claim)
      have put: "field (put ''persistentVolumeClaim'' y v) ''persistentVolumeClaim'' = Some y"
        "str_field (put ''persistentVolumeClaim'' y v) ''name'' = str_field v ''name''" for y
        using Some by (cases v; simp add: str_field_def update_conv')+
      show ?thesis using 2 Some Obj put by (auto simp: update_conv' split: if_splits)
    qed (use 2 Some in auto)
  qed (use 2 in auto)
qed simp

text \<open>The state in which the personal source is the only one of claim \<open>c\<close>, and writable.\<close>

definition personal_only :: "string \<Rightarrow> any list \<Rightarrow> bool" where
  "personal_only c vs \<longleftrightarrow> claim_sources vs c = [(''platform-data-personal'', False)]"

lemma personal_only_name: "personal_only c vs \<Longrightarrow> pvcVolumeName vs c = ''platform-data-personal''"
  unfolding personal_only_def by (drule pvcVolumeName_source) simp_all

lemma personal_only_ensure: "personal_only c vs \<Longrightarrow> personal_only c (snd (ensurePVCVolume vs n d r))"
  using make_writable_sources [of vs c] personal_only_name [of c vs] by (auto simp: ensurePVCVolume_def Let_def personal_only_def)

lemma personal_only_root:
  assumes "personal_only c (snd m)" "\<And>r. root = Some r \<Longrightarrow> dmr_ClaimName r = c \<Longrightarrow> dmr_SubPath r \<noteq> []"
  shows "personal_only c (snd (append_root (n, p, root) m))"
proof (cases root)
  case (Some r)
  obtain ms vs where m: "m = (ms, vs)" by fastforce
  show ?thesis using assms personal_only_ensure [of c vs n "dmr_ClaimName r" "dmr_ReadOnly r"]
    by (auto simp: Some m Let_def personal_only_def split: prod.splits)
qed (use assms in simp)

lemma personal_only_data:
  assumes "personal_only c (snd m)" "\<And>r. mount = Some r \<Longrightarrow> rdm_ClaimName r = c \<Longrightarrow> rdm_ReadOnly r \<or> has_prefix (rdm_SubPath r) ''tenants/''"
  shows "personal_only c (snd (append_data_mount (n, mount) m))"
proof (cases mount)
  case (Some r)
  obtain ms vs where m: "m = (ms, vs)" by fastforce
  then have vs: "personal_only c vs" using assms(1) by simp
  show ?thesis
  proof (cases "rdm_ClaimName r = c")
    case True
    then show ?thesis using assms(2) [OF Some True] personal_only_name [OF vs] vs by (simp add: Some m Let_def)
  next
    case False
    then show ?thesis using vs by (auto simp: Some m Let_def personal_only_def)
  qed
qed (use assms in simp)

text \<open>The condition under which the renderer shares the personal claim.\<close>

definition shares_personal_claim :: "string \<Rightarrow> ResolvedDataSpaceRoots \<Rightarrow> ResolvedDataSpaceMounts \<Rightarrow> bool" where
  "shares_personal_claim c roots mounts \<longleftrightarrow>
     (case roots_Personal roots of None \<Rightarrow> False | Some r \<Rightarrow> root_ClaimName r = c \<and> root_SubPath r \<noteq> []) \<and>
     (\<forall>r \<in> set_option (roots_Team roots) \<union> set_option (roots_Public roots). root_ClaimName r = c \<longrightarrow> root_SubPath r \<noteq> []) \<and>
     (\<forall>m \<in> set_option (rdms_Input mounts) \<union> set_option (rdms_Checkpoint mounts) \<union> set_option (rdms_Output mounts).
        rdm_ClaimName m = c \<longrightarrow> rdm_ReadOnly m \<or> has_prefix (rdm_SubPath m) ''tenants/'')"

lemma personal_claim_once:
  assumes "shares_personal_claim c roots mounts" "claim_sources (snd m) c = []"
  shows "personal_only c (snd (appendResolvedDataSpaceMounts mounts (appendTrainingDataRoots roots m)))"
proof -
  obtain p where p: "roots_Personal roots = Some p" "root_ClaimName p = c" "root_SubPath p \<noteq> []"
    using assms(1) by (auto simp: shares_personal_claim_def split: option.splits)
  obtain ms vs where m: "m = (ms, vs)" by fastforce
  have none: "pvcVolumeName vs c = []"
    using assms(2) unfolding m snd_conv by (induction vs c rule: claim_sources.induct) (auto split: option.splits any.splits if_splits)
  have start: "personal_only c (snd (append_root (''platform-data-personal'', MyStorageMountPath,
      map_option (dmr_ReadOnly_update (\<lambda>_. False)) (mount_root (roots_Personal roots))) m))"
    using assms(2) by (simp add: m p mount_root_def ensurePVCVolume_def none personal_only_def)
  have roots: "personal_only c (snd (appendTrainingDataRoots roots m))"
    unfolding appendTrainingDataRoots_def Let_def shared_roots_def dataMountPlanFromResolvedRoots_def
    using assms(1) start
    by (auto simp: shares_personal_claim_def mount_root_def simp del: append_root.simps intro!: personal_only_root)
  show ?thesis
    unfolding appendResolvedDataSpaceMounts_def using assms(1) roots
    by (auto simp: shares_personal_claim_def simp del: append_data_mount.simps intro!: personal_only_data)
qed

end
