(* ===== verification/Go_Crypto.thy ===== *)
theory Go_Crypto
  imports Go_Json "HOL-Library.Word"
begin

unbundle bit_operations_syntax

section \<open>Digests\<close>

text \<open>
  \<open>sha256.Sum256\<close>, \<open>hmac.New(sha256.New, key)\<close> and \<open>hex.EncodeToString\<close> on byte strings: FIPS 180-4 and RFC 2104 written out
  over 32-bit words. The message length is below \<open>2 ^ 61\<close> bytes for every string a Go process can hold.
\<close>

type_synonym word32 = "32 word"

text \<open>The first 32 bits of the fractional parts of the square roots of the first 8 primes, and of the cube roots of the first 64.\<close>

definition sha_initial :: "word32 list" where
  "sha_initial = [
     1779033703, 3144134277, 1013904242, 2773480762, 1359893119, 2600822924, 528734635, 1541459225]"

definition sha_round_constants :: "word32 list" where
  "sha_round_constants = [
     1116352408, 1899447441, 3049323471, 3921009573, 961987163, 1508970993, 2453635748, 2870763221,
     3624381080, 310598401, 607225278, 1426881987, 1925078388, 2162078206, 2614888103, 3248222580,
     3835390401, 4022224774, 264347078, 604807628, 770255983, 1249150122, 1555081692, 1996064986,
     2554220882, 2821834349, 2952996808, 3210313671, 3336571891, 3584528711, 113926993, 338241895,
     666307205, 773529912, 1294757372, 1396182291, 1695183700, 1986661051, 2177026350, 2456956037,
     2730485921, 2820302411, 3259730800, 3345764771, 3516065817, 3600352804, 4094571909, 275423344,
     430227734, 506948616, 659060556, 883997877, 958139571, 1322822218, 1537002063, 1747873779,
     1955562222, 2024104815, 2227730452, 2361852424, 2428436474, 2756734187, 3204031479, 3329325298]"

definition rotr :: "nat \<Rightarrow> word32 \<Rightarrow> word32" where
  "rotr n x = drop_bit n x OR push_bit (32 - n) x"

definition byte_of :: "char \<Rightarrow> word32" where
  "byte_of c = of_nat (of_char c)"

fun be_words :: "string \<Rightarrow> word32 list" where
  "be_words (a # b # c # d # s) =
     (push_bit 24 (byte_of a) OR push_bit 16 (byte_of b) OR push_bit 8 (byte_of c) OR byte_of d) # be_words s"
| "be_words _ = []"

definition be_bytes :: "nat \<Rightarrow> nat \<Rightarrow> string" where \<comment> \<open>the last \<open>k\<close> base-256 digits, most significant first\<close>
  "be_bytes k n = map (\<lambda>i. char_of (n div 256 ^ (k - 1 - i) mod 256)) [0..<k]"

definition sha_pad :: "string \<Rightarrow> string" where
  "sha_pad s = s @ [CHR 0x80] @ replicate ((119 - length s mod 64) mod 64) (CHR 0x00) @ be_bytes 8 (8 * length s)"

fun sha_schedule :: "nat \<Rightarrow> word32 list \<Rightarrow> word32 list" where \<comment> \<open>\<open>n\<close> further words\<close>
  "sha_schedule 0 w = w"
| "sha_schedule (Suc n) w =
     (let t = length w; x = w ! (t - 15); y = w ! (t - 2);
          s0 = rotr 7 x XOR rotr 18 x XOR drop_bit 3 x;
          s1 = rotr 17 y XOR rotr 19 y XOR drop_bit 10 y in
      sha_schedule n (w @ [w ! (t - 16) + s0 + w ! (t - 7) + s1]))"

fun sha_round :: "word32 \<times> word32 \<Rightarrow> word32 list \<Rightarrow> word32 list" where
  "sha_round (k, w) [a, b, c, d, e, f, g, h] =
     (let s1 = rotr 6 e XOR rotr 11 e XOR rotr 25 e;
          ch = (e AND f) XOR (NOT e AND g);
          t1 = h + s1 + ch + k + w;
          s0 = rotr 2 a XOR rotr 13 a XOR rotr 22 a;
          maj = (a AND b) XOR (a AND c) XOR (b AND c) in
      [t1 + (s0 + maj), a, b, c, d + t1, e, f, g])"
| "sha_round _ h = h"

definition sha_block :: "word32 list \<Rightarrow> word32 list \<Rightarrow> word32 list" where
  "sha_block h w = map2 (+) h (fold sha_round (zip sha_round_constants (sha_schedule 48 w)) h)"

fun sha_blocks :: "nat \<Rightarrow> word32 list \<Rightarrow> word32 list \<Rightarrow> word32 list" where \<comment> \<open>\<open>n\<close> blocks of sixteen words\<close>
  "sha_blocks 0 h w = h"
| "sha_blocks (Suc n) h w = sha_blocks n (sha_block h (take 16 w)) (drop 16 w)"

definition sha256_Sum256 :: "string \<Rightarrow> string" where
  "sha256_Sum256 s =
     (let p = sha_pad s in
      concat (map (\<lambda>w. be_bytes 4 (unat w)) (sha_blocks (length p div 64) sha_initial (be_words p))))"

definition hmac_block :: "string \<Rightarrow> nat \<Rightarrow> string" where \<comment> \<open>the padded key, each byte combined with \<open>pad\<close>\<close>
  "hmac_block key pad =
     (let k = (if length key > 64 then sha256_Sum256 key else key) in
      map (\<lambda>c. char_of (of_char c XOR pad)) (k @ replicate (64 - length k) (CHR 0x00)))"

definition hmac_sha256 :: "string \<Rightarrow> string \<Rightarrow> string" where
  "hmac_sha256 key s = sha256_Sum256 (hmac_block key 0x5c @ sha256_Sum256 (hmac_block key 0x36 @ s))"

definition EncodeToString :: "string \<Rightarrow> string" where
  "EncodeToString s = concat (map (\<lambda>c. [''0123456789abcdef'' ! (of_char c div 16), ''0123456789abcdef'' ! (of_char c mod 16)]) s)"

subsection \<open>Shape of digests\<close>

lemma length_be_bytes [simp]: "length (be_bytes k n) = k"
  by (simp add: be_bytes_def)

lemma length_sha_round [simp]: "length (sha_round kw h) = length h"
  by (cases "(kw, h)" rule: sha_round.cases) (auto simp: Let_def)

lemma length_sha_rounds: "length (fold sha_round kws h) = length h"
  by (induction kws arbitrary: h) simp_all

lemma length_sha_blocks: "length (sha_blocks n h w) = length h"
  by (induction n h w rule: sha_blocks.induct) (simp_all add: sha_block_def length_sha_rounds)

lemma length_concat_const: "(\<And>x. x \<in> set xs \<Longrightarrow> length (f x) = k) \<Longrightarrow> length (concat (map f xs)) = k * length xs"
  by (induction xs) simp_all

lemma length_sha256 [simp]: "length (sha256_Sum256 s) = 32"
  unfolding sha256_Sum256_def Let_def
  by (subst length_concat_const [where k = 4]) (simp_all add: length_sha_blocks sha_initial_def)

lemma hex_of_nibble: "n < 16 \<Longrightarrow> is_hex_lower (''0123456789abcdef'' ! n)"
  by (auto simp: less_Suc_eq numeral_eq_Suc class_defs)

lemma EncodeToString_digest: "length s = n \<Longrightarrow> matches (hex_digest (2 * n)) (EncodeToString s)"
proof -
  have "of_char c div 16 < (16 :: nat)" for c by (simp add: less_mult_imp_div_less)
  then have "\<forall>x \<in> set (EncodeToString s). is_hex_lower x"
    unfolding EncodeToString_def by (auto simp: hex_of_nibble)
  moreover have "length (EncodeToString s) = 2 * length s"
    unfolding EncodeToString_def by (rule length_concat_const) simp
  ultimately show "length s = n \<Longrightarrow> ?thesis" by (simp add: matches_hex_digest)
qed

end
