(* ===== verification/Go_Text.thy ===== *)
theory Go_Text
  imports Go_Json
begin

section \<open>JSON documents and quoted strings\<close>

text \<open>
  \<open>json.Valid\<close> with the scanner of \<open>encoding/json\<close>, the string encoder of \<open>json.Marshal\<close> and \<open>strconv.Quote\<close>.
\<close>

subsection \<open>The JSON scanner\<close>

datatype parse_item = ObjectKey | ObjectValue | ArrayValue

datatype scan_step =
    BeginValue | BeginValueOrEmpty | BeginString | BeginStringOrEmpty | EndValue | EndTop
  | InString | InStringEsc | InStringU nat \<comment> \<open>hexadecimal digits still expected\<close>
  | Neg | Int0 | Int1 | Dot | Dot0 | Exp | ExpSign | Exp0
  | Literal string \<comment> \<open>rest of \<open>true\<close>, \<open>false\<close> or \<open>null\<close>\<close>
  | ScanError

type_synonym scanner = "scan_step \<times> parse_item list" \<comment> \<open>\<open>step\<close> and \<open>parseState\<close>\<close>

definition maxNestingDepth :: nat where [go_consts]: "maxNestingDepth = 10000"

definition pushParseState :: "parse_item \<Rightarrow> scan_step \<Rightarrow> parse_item list \<Rightarrow> scanner" where
  "pushParseState p next_step ps = (if Suc (length ps) \<le> maxNestingDepth then (next_step, p # ps) else (ScanError, p # ps))"

definition popParseState :: "parse_item list \<Rightarrow> scanner" where
  "popParseState ps = (if ps = [] then EndTop else EndValue, ps)"

definition stateEndTop :: "char \<Rightarrow> scanner" where
  "stateEndTop c = (if is_json_space c then EndTop else ScanError, [])"

fun stateEndValue :: "parse_item list \<Rightarrow> char \<Rightarrow> scanner" where
  "stateEndValue [] c = stateEndTop c"
| "stateEndValue (p # ps) c =
     (if is_json_space c then (EndValue, p # ps)
      else case p of
        ObjectKey \<Rightarrow> if c = CHR '':'' then (BeginValue, ObjectValue # ps) else (ScanError, p # ps)
      | ObjectValue \<Rightarrow> if c = CHR '','' then (BeginString, ObjectKey # ps) else if c = CHR ''}'' then popParseState ps else (ScanError, p # ps)
      | ArrayValue \<Rightarrow> if c = CHR '','' then (BeginValue, p # ps) else if c = CHR '']'' then popParseState ps else (ScanError, p # ps))"

definition stateBeginValue :: "parse_item list \<Rightarrow> char \<Rightarrow> scanner" where
  "stateBeginValue ps c =
     (if is_json_space c then (BeginValue, ps)
      else if c = CHR ''{'' then pushParseState ObjectKey BeginStringOrEmpty ps
      else if c = CHR ''['' then pushParseState ArrayValue BeginValueOrEmpty ps
      else if c = CHR 0x22 then (InString, ps)
      else if c = CHR ''-'' then (Neg, ps)
      else if c = CHR ''0'' then (Int0, ps)
      else if c = CHR ''t'' then (Literal ''rue'', ps)
      else if c = CHR ''f'' then (Literal ''alse'', ps)
      else if c = CHR ''n'' then (Literal ''ull'', ps)
      else if is_digit c then (Int1, ps)
      else (ScanError, ps))"

definition stateBeginString :: "parse_item list \<Rightarrow> char \<Rightarrow> scanner" where
  "stateBeginString ps c = (if is_json_space c then BeginString else if c = CHR 0x22 then InString else ScanError, ps)"

definition state0 :: "parse_item list \<Rightarrow> char \<Rightarrow> scanner" where
  "state0 ps c = (if c = CHR ''.'' then (Dot, ps) else if c = CHR ''e'' \<or> c = CHR ''E'' then (Exp, ps) else stateEndValue ps c)"

definition stateESign :: "parse_item list \<Rightarrow> char \<Rightarrow> scanner" where
  "stateESign ps c = (if is_digit c then Exp0 else ScanError, ps)"

fun scan :: "char \<Rightarrow> scanner \<Rightarrow> scanner" where
  "scan c (BeginValue, ps) = stateBeginValue ps c"
| "scan c (BeginValueOrEmpty, ps) =
     (if is_json_space c then (BeginValueOrEmpty, ps) else if c = CHR '']'' then stateEndValue ps c else stateBeginValue ps c)"
| "scan c (BeginString, ps) = stateBeginString ps c"
| "scan c (BeginStringOrEmpty, ps) =
     (if is_json_space c then (BeginStringOrEmpty, ps)
      else if c = CHR ''}'' then stateEndValue (ObjectValue # tl ps) c else stateBeginString ps c)"
| "scan c (EndValue, ps) = stateEndValue ps c"
| "scan c (EndTop, ps) = stateEndTop c"
| "scan c (InString, ps) =
     (if c = CHR 0x22 then EndValue else if c = backslash then InStringEsc
      else if (of_char c :: nat) < 32 then ScanError else InString, ps)"
| "scan c (InStringEsc, ps) =
     (if c \<in> set ''bfnrt/'' \<or> c = backslash \<or> c = CHR 0x22 then InString
      else if c = CHR ''u'' then InStringU 4 else ScanError, ps)"
| "scan c (InStringU n, ps) =
     (if is_digit c \<or> c \<in> set ''abcdefABCDEF'' then if n \<le> 1 then InString else InStringU (n - 1) else ScanError, ps)"
| "scan c (Neg, ps) = (if c = CHR ''0'' then Int0 else if is_digit c then Int1 else ScanError, ps)"
| "scan c (Int0, ps) = state0 ps c"
| "scan c (Int1, ps) = (if is_digit c then (Int1, ps) else state0 ps c)"
| "scan c (Dot, ps) = (if is_digit c then Dot0 else ScanError, ps)"
| "scan c (Dot0, ps) =
     (if is_digit c then (Dot0, ps) else if c = CHR ''e'' \<or> c = CHR ''E'' then (Exp, ps) else stateEndValue ps c)"
| "scan c (Exp, ps) = (if c = CHR ''+'' \<or> c = CHR ''-'' then (ExpSign, ps) else stateESign ps c)"
| "scan c (ExpSign, ps) = stateESign ps c"
| "scan c (Exp0, ps) = (if is_digit c then (Exp0, ps) else stateEndValue ps c)"
| "scan c (Literal l, ps) =
     (case l of [] \<Rightarrow> stateEndValue ps c | x # xs \<Rightarrow> (if c \<noteq> x then ScanError else if xs = [] then EndValue else Literal xs, ps))"
| "scan c (ScanError, ps) = (ScanError, ps)"

definition json_Valid :: "string \<Rightarrow> bool" where
  "json_Valid s = (let st = fold scan s (BeginValue, []) in fst st = EndTop \<or> fst (scan CHR '' '' st) = EndTop)"

subsection \<open>Strings rune by rune\<close>

text \<open>\<open>map_runes f g s\<close> replaces each well-formed encoding by \<open>f\<close> and each byte that starts none by \<open>g\<close>.\<close>

function map_runes :: "(string \<Rightarrow> string) \<Rightarrow> (char \<Rightarrow> string) \<Rightarrow> string \<Rightarrow> string" where
  "map_runes f g s =
     (case s of
        [] \<Rightarrow> []
      | c # t \<Rightarrow> if rune_size s = 0 then g c @ map_runes f g t
          else f (take (rune_size s) s) @ map_runes f g (drop (rune_size s) s))"
  by pat_completeness auto
termination by (relation "measure (\<lambda>(f, g, s). length s)") auto

declare map_runes.simps [simp del]

fun decode_rune :: "string \<Rightarrow> nat" where \<comment> \<open>of a well-formed encoding\<close>
  "decode_rune [a] = of_char a"
| "decode_rune [a, b] = (of_char a mod 32) * 64 + of_char b mod 64"
| "decode_rune [a, b, c] = (of_char a mod 16) * 4096 + (of_char b mod 64) * 64 + of_char c mod 64"
| "decode_rune [a, b, c, d] = (of_char a mod 8) * 262144 + (of_char b mod 64) * 4096 + (of_char c mod 64) * 64 + of_char d mod 64"
| "decode_rune _ = 0"

definition hex_digits :: "nat \<Rightarrow> nat \<Rightarrow> string" where \<comment> \<open>the last \<open>k\<close> hexadecimal digits\<close>
  "hex_digits k n = map (\<lambda>i. ''0123456789abcdef'' ! (n div 16 ^ (k - 1 - i) mod 16)) [0..<k]"

definition json_escape_byte :: "char \<Rightarrow> string" where \<comment> \<open>an ASCII byte, HTML characters escaped\<close>
  "json_escape_byte c =
     (if c = backslash \<or> c = CHR 0x22 then [backslash, c]
      else if c = CHR 0x08 then [backslash, CHR ''b''] else if c = CHR 0x0C then [backslash, CHR ''f'']
      else if c = CHR 0x0A then [backslash, CHR ''n''] else if c = CHR 0x0D then [backslash, CHR ''r'']
      else if c = CHR 0x09 then [backslash, CHR ''t'']
      else if (of_char c :: nat) < 32 \<or> c \<in> set ''<>&'' then backslash # ''u00'' @ hex_digits 2 (of_char c)
      else [c])"

definition json_escape_rune :: "string \<Rightarrow> string" where
  "json_escape_rune r =
     (case r of [c] \<Rightarrow> json_escape_byte c
      | _ \<Rightarrow> if decode_rune r = 0x2028 \<or> decode_rune r = 0x2029 then backslash # ''u'' @ hex_digits 4 (decode_rune r) else r)"

definition marshal_string :: "string \<Rightarrow> string" where
  "marshal_string s = [CHR 0x22] @ map_runes json_escape_rune (\<lambda>_. backslash # ''ufffd'') s @ [CHR 0x22]"

text \<open>The argument of \<open>Quote\<close> is \<open>strconv.IsPrint\<close> beyond ASCII, a Unicode table.\<close>

definition quote_rune :: "(nat \<Rightarrow> bool) \<Rightarrow> string \<Rightarrow> string" where
  "quote_rune IsPrint r =
     (let n = decode_rune r in
      if r = [CHR 0x22] \<or> r = [backslash] then backslash # r
      else if (if n < 128 then 32 \<le> n \<and> n \<noteq> 127 else IsPrint n) then r
      else if n = 7 then [backslash, CHR ''a''] else if n = 8 then [backslash, CHR ''b''] else if n = 12 then [backslash, CHR ''f'']
      else if n = 10 then [backslash, CHR ''n''] else if n = 13 then [backslash, CHR ''r''] else if n = 9 then [backslash, CHR ''t'']
      else if n = 11 then [backslash, CHR ''v'']
      else if n < 32 \<or> n = 127 then backslash # ''x'' @ hex_digits 2 n
      else if n < 65536 then backslash # ''u'' @ hex_digits 4 n
      else backslash # ''U'' @ hex_digits 8 n)"

definition Quote :: "(nat \<Rightarrow> bool) \<Rightarrow> string \<Rightarrow> string" where
  "Quote IsPrint s = [CHR 0x22] @ map_runes (quote_rune IsPrint) (\<lambda>c. backslash # ''x'' @ hex_digits 2 (of_char c)) s @ [CHR 0x22]"

lemma map_runes_Nil [simp]: "map_runes f g [] = []"
  by (simp add: map_runes.simps)

subsection \<open>Quoted strings stay on one line\<close>

lemma map_runes_avoids:
  assumes "\<And>s. rune_size s \<noteq> 0 \<Longrightarrow> c \<notin> set (f (take (rune_size s) s))" "\<And>b. c \<notin> set (g b)"
  shows "c \<notin> set (map_runes f g s)"
proof (induction s rule: length_induct)
  case (1 s)
  then show ?case using assms by (subst map_runes.simps) (auto split: list.splits)
qed

lemma byte_in_mono: "byte_in lo hi a \<Longrightarrow> lo' \<le> lo \<Longrightarrow> hi \<le> hi' \<Longrightarrow> byte_in lo' hi' a"
  by (simp add: byte_in_def)

lemma rune_bytes:
  assumes "rune_size s \<noteq> 0"
  shows "(\<exists>a. take (rune_size s) s = [a] \<and> byte_in 0 127 a) \<or> (\<forall>a \<in> set (take (rune_size s) s). byte_in 128 255 a)"
proof (cases s)
  case Nil
  with assms show ?thesis by (simp add: rune_size_def)
next
  case (Cons a t)
  note wide = byte_in_mono [where lo' = 128 and hi' = 255]
  consider "byte_in 0 127 a" | "\<not> byte_in 0 127 a" "byte_in 194 223 a"
    | "\<not> byte_in 0 127 a" "\<not> byte_in 194 223 a" "byte_in 224 239 a"
    | "\<not> byte_in 0 127 a" "\<not> byte_in 194 223 a" "\<not> byte_in 224 239 a" "byte_in 240 244 a"
    | "\<not> byte_in 0 127 a" "\<not> byte_in 194 223 a" "\<not> byte_in 224 239 a" "\<not> byte_in 240 244 a" by blast
  then show ?thesis
  proof cases
    case 1
    then show ?thesis by (simp add: Cons rune_size_def)
  next
    case 2
    with assms Cons wide [of 194 223 a] show ?thesis
      by (cases t) (auto simp: rune_size_def split: if_splits intro: wide)
  next
    case 3
    with assms Cons wide [of 224 239 a] show ?thesis
      by (cases t; cases "tl t") (auto simp: rune_size_def split: if_splits intro: wide)
  next
    case 4
    with assms Cons wide [of 240 244 a] show ?thesis
      by (cases t; cases "tl t"; cases "tl (tl t)") (auto simp: rune_size_def split: if_splits intro: wide)
  next
    case 5
    with assms Cons show ?thesis by (simp add: rune_size_def)
  qed
qed

lemma hex_digit_in: "n < 16 \<Longrightarrow> ''0123456789abcdef'' ! n \<in> set ''0123456789abcdef''"
  by (rule nth_mem) simp

lemma hex_digits_avoid: "c \<notin> set ''0123456789abcdef'' \<Longrightarrow> c \<notin> set (hex_digits k n)"
  unfolding hex_digits_def by (auto simp del: set_simps dest!: arg_cong [where f = "\<lambda>x. x \<in> set ''0123456789abcdef''"] simp: hex_digit_in)

lemma quote_rune_newline:
  assumes "rune_size s \<noteq> 0"
  shows "CHR 0x0A \<notin> set (quote_rune P (take (rune_size s) s))"
proof -
  have hex: "CHR 0x0A \<notin> set (hex_digits k n)" for k n by (rule hex_digits_avoid) simp
  have high: "\<not> byte_in 128 255 CHR 0x0A" by (simp add: byte_in_def)
  from rune_bytes [OF assms] show ?thesis
  proof
    assume "\<exists>a. take (rune_size s) s = [a] \<and> byte_in 0 127 a"
    then obtain a where a: "take (rune_size s) s = [a]" "byte_in 0 127 a" by blast
    show ?thesis unfolding a(1) by (cases "a = CHR 0x0A") (auto simp: quote_rune_def Let_def hex)
  next
    assume "\<forall>a \<in> set (take (rune_size s) s). byte_in 128 255 a"
    then have "CHR 0x0A \<notin> set (take (rune_size s) s)" using high by blast
    then show ?thesis by (auto simp: quote_rune_def Let_def hex)
  qed
qed

lemma Quote_one_line: "CHR 0x0A \<notin> set (Quote P s)"
proof -
  have "CHR 0x0A \<notin> set (map_runes (quote_rune P) (\<lambda>c. backslash # ''x'' @ hex_digits 2 (of_char c)) s)"
    using quote_rune_newline hex_digits_avoid [of "CHR 0x0A"] by (intro map_runes_avoids) auto
  then show ?thesis by (simp add: Quote_def)
qed

end
