(* ===== verification/Model_Runtime.thy ===== *)
theory Model_Runtime
  imports Training_Job Go_Crypto Go_Text
begin

section \<open>Trusted evaluation and serving runtimes\<close>

text \<open>
  \<open>backend/domain/evaluation_runtime.go\<close>, \<open>backend/domain/model_serving.go\<close> and \<open>backend/domain/mlflow_provenance.go\<close>: the frozen
  snapshots a managed evaluation or serving job runs, and the tag that binds an MLflow run to its job.
\<close>

definition runtime_identifier :: regexp where \<comment> \<open>\<open>^[A-Za-z0-9._-]{1,128}$\<close>\<close>
  "runtime_identifier = Seq (Class (\<lambda>c. is_alnum c \<or> c \<in> set ''._-'')) (UpTo 127 (Class (\<lambda>c. is_alnum c \<or> c \<in> set ''._-'')))"

definition EvaluationRuntime_Validate :: "EvaluationRuntime \<Rightarrow> error option" where
  "EvaluationRuntime_Validate runtime = first_error [
     check (\<not> matches runtime_identifier (er_EvaluationID runtime) \<or> \<not> matches runtime_identifier (er_EvaluatorID runtime) \<or>
            \<not> matches (hex_digest 64) (er_ModelSHA256 runtime) \<or> \<not> matches (hex_digest 64) (er_DatasetManifestSHA256 runtime) \<or>
            \<not> matches (hex_digest 64) (er_ConfigSHA256 runtime))
       (Errorf ''evaluation runtime identifiers are invalid'' []),
     check (er_Protocol runtime \<noteq> ''model-evaluation-report/v1'' \<or> er_DatasetSampleCount runtime \<le> 0 \<or>
            er_DatasetSplit runtime \<noteq> ''val'' \<and> er_DatasetSplit runtime \<noteq> ''test'')
       (Errorf ''evaluation runtime protocol or dataset is invalid'' []),
     check (length (er_ConfigJSON runtime) > 16 * 1024 \<or> \<not> json_Valid (er_ConfigJSON runtime))
       (Errorf ''evaluation runtime config is invalid'' []),
     check (\<not> has_prefix (trim_space (er_ConfigJSON runtime)) ''{'')
       (Errorf ''evaluation runtime config must be an object'' []),
     check (EncodeToString (sha256_Sum256 (er_ConfigJSON runtime)) \<noteq> er_ConfigSHA256 runtime)
       (Errorf ''evaluation runtime config digest does not match'' []),
     check ((er_CodeID runtime \<noteq> [] \<or> er_CodeSHA256 runtime \<noteq> [] \<or> er_CodeSizeBytes runtime \<noteq> 0 \<or> er_CodeFormat runtime \<noteq> []) \<and>
            (\<not> matches (hex_digest 32) (er_CodeID runtime) \<or> \<not> matches (hex_digest 64) (er_CodeSHA256 runtime) \<or>
             er_CodeSizeBytes runtime < 1 \<or> er_CodeSizeBytes runtime > 64 * 1024 * 1024 \<or> er_CodeFormat runtime \<noteq> ''zip''))
       (Errorf ''evaluation code snapshot is invalid'' [])]"

definition archive_source :: "string \<Rightarrow> string \<Rightarrow> string \<Rightarrow> CodeSource" where \<comment> \<open>the struct literal, other fields zero\<close>
  "archive_source kind artifactID digest = \<lparr>src_Type = kind, src_URL = [], src_Commit = [], src_URI = [], src_Snapshot = [],
     src_ArtifactID = artifactID, src_ArtifactObjectKey = [], src_ArtifactSHA256 = digest\<rparr>"

definition EvaluationRuntime_ValidateCodeSource :: "EvaluationRuntime \<Rightarrow> CodeSource \<Rightarrow> error option" where
  "EvaluationRuntime_ValidateCodeSource runtime source =
     (if er_CodeID runtime = [] then
        check (src_Type source = ''evaluation-archive'') (Errorf ''evaluation archive has no trusted code snapshot'' [])
      else first_error [
        EvaluationRuntime_Validate runtime,
        check (source \<noteq> archive_source ''evaluation-archive'' (er_CodeID runtime) (er_CodeSHA256 runtime))
          (Errorf ''evaluation source does not match the frozen code snapshot'' [])])"

definition ServingRuntime_Validate :: "ServingRuntime \<Rightarrow> error option" where
  "ServingRuntime_Validate runtime = first_error [
     check (\<not> matches runtime_identifier (sr_DeploymentID runtime) \<or> \<not> matches (hex_digest 64) (sr_ModelSHA256 runtime) \<or>
            sr_ModelSizeBytes runtime < 1 \<or> sr_ModelSizeBytes runtime > 20 * 1024 * 1024 * 1024)
       (Errorf ''serving deployment or model snapshot is invalid'' []),
     check (\<not> matches (hex_digest 32) (sr_CodeID runtime) \<or> \<not> matches (hex_digest 64) (sr_CodeSHA256 runtime) \<or>
            sr_CodeSizeBytes runtime < 1 \<or> sr_CodeSizeBytes runtime > 64 * 1024 * 1024 \<or> sr_CodeFormat runtime \<noteq> ''zip'')
       (Errorf ''serving code snapshot is invalid'' []),
     check (sr_Protocol runtime \<noteq> ''model-serving-http/v1'') (Errorf ''serving protocol is unsupported'' [])]"

definition ServingRuntime_ValidateCodeSource :: "ServingRuntime \<Rightarrow> CodeSource \<Rightarrow> error option" where
  "ServingRuntime_ValidateCodeSource runtime source = first_error [
     ServingRuntime_Validate runtime,
     check (source \<noteq> archive_source ''serving-archive'' (sr_CodeID runtime) (sr_CodeSHA256 runtime))
       (Errorf ''serving source does not match the frozen code snapshot'' [])]"

definition MLflowProvenanceTag :: "string \<Rightarrow> string \<Rightarrow> string" where
  "MLflowProvenanceTag key jobId = EncodeToString (hmac_sha256 key (''raytrain-mlflow-job:'' @ jobId))"

lemma MLflowProvenanceTag_digest: "matches (hex_digest 64) (MLflowProvenanceTag key jobId)"
  using EncodeToString_digest [of "hmac_sha256 key (''raytrain-mlflow-job:'' @ jobId)" 32]
  by (simp add: MLflowProvenanceTag_def hmac_sha256_def)

text \<open>A runtime accepts exactly one source with its own code: the two sources of accepted calls agree.\<close>

lemma frozen_code_unique:
  assumes "EvaluationRuntime_ValidateCodeSource runtime source = None" "src_Type source = ''evaluation-archive''"
  shows "source = archive_source ''evaluation-archive'' (er_CodeID runtime) (er_CodeSHA256 runtime)"
  using assms by (auto simp: EvaluationRuntime_ValidateCodeSource_def split: if_splits)

end
