(* ===== verification/Source_Artifact.thy ===== *)
theory Source_Artifact
  imports Storage Go_Url
begin

section \<open>Source archives\<close>

text \<open>
  \<open>backend/domain/source_artifact.go\<close>: archives of user code below the personal storage root of their owner, their object
  keys, and the path under which a job sees them. Times are nanoseconds.
\<close>

definition MaxSourceArtifactSize :: int where [go_consts]: "MaxSourceArtifactSize = 2 * 1024 * 1024 * 1024"
definition SourceArtifactPending :: string where [go_consts]: "SourceArtifactPending = ''PENDING''"
definition SourceArtifactReady :: string where [go_consts]: "SourceArtifactReady = ''READY''"

definition artifactSHA256 :: regexp where
  "artifactSHA256 = hex_digest 64"

definition keySegment :: regexp where
  "keySegment = ident_pattern ''._:@-'' 127"

record SourceArtifact =
  art_ID :: string
  art_TenantID :: string
  art_UserID :: string
  art_StorageRoot :: string
  art_SHA256 :: string
  art_SizeBytes :: int
  art_ObjectKey :: string
  art_State :: string
  art_UploadExpiresAt :: int
  art_CompletedAt :: "int option"
  art_LastReferencedAt :: "int option"
  art_CreatedAt :: int

record SourceArtifactInput =
  in_ID :: string
  in_TenantID :: string
  in_UserID :: string
  in_StorageRoot :: string
  in_SHA256 :: string
  in_SizeBytes :: int

definition safeObjectKeySegment :: "string \<Rightarrow> bool" where
  "safeObjectKeySegment v \<longleftrightarrow> v \<noteq> ''.'' \<and> v \<noteq> ''..'' \<and> matches keySegment v"

definition archive_root :: "string \<Rightarrow> string \<Rightarrow> string result" where \<comment> \<open>the checks both keys and the stored root share\<close>
  "archive_root tenantID storageRoot =
     (case PersonalStorageTenantForRoot storageRoot of
        Inl e \<Rightarrow> Inl (Wrapf ''source artifact storage root: %w'' [] e)
      | Inr storageTenantID \<Rightarrow>
          (case PersonalDataSpacesForStorageHome tenantID storageTenantID storageRoot DefaultPublicDataRoot of
             Inl e \<Rightarrow> Inl (Wrapf ''source artifact storage root: %w'' [] e)
           | Inr _ \<Rightarrow> Inr storageRoot))"

definition SourceArtifactRequestObjectKeyForRoot :: "string \<Rightarrow> string \<Rightarrow> string \<Rightarrow> string \<Rightarrow> string result" where
  "SourceArtifactRequestObjectKeyForRoot tenantID storageRoot artifactID digest =
     or_fail (validateDataSpaceIdentity ''tenant'' tenantID) (
     and_then (archive_root tenantID storageRoot) (\<lambda>root.
     or_fail (check (\<not> safeObjectKeySegment artifactID) (Errorf ''artifact id is unsafe for an object key'' [])) (
     or_fail (check (\<not> matches artifactSHA256 digest) (Errorf ''sha256 must be 64 lowercase hexadecimal characters'' [])) (
     Inr (root @ ''workspace/.ray-train-archives/'' @ artifactID @ ''/'' @ digest @ ''.zip'')))))"

definition SourceArtifactObjectKeyForRoot :: "string \<Rightarrow> string \<Rightarrow> string \<Rightarrow> string result" where
  "SourceArtifactObjectKeyForRoot tenantID storageRoot digest =
     or_fail (validateDataSpaceIdentity ''tenant'' tenantID) (
     and_then (archive_root tenantID storageRoot) (\<lambda>root.
     or_fail (check (\<not> matches artifactSHA256 digest) (Errorf ''sha256 must be 64 lowercase hexadecimal characters'' [])) (
     Inr (root @ ''workspace/.ray-train-archives/'' @ digest @ ''.zip''))))"

definition SourceArtifactObjectKey :: "string \<Rightarrow> string \<Rightarrow> string \<Rightarrow> string result" where
  "SourceArtifactObjectKey tenantID userID digest =
     and_then (PersonalDataRootFor tenantID userID) (\<lambda>root. SourceArtifactObjectKeyForRoot tenantID root digest)"

definition sourceArtifactStorageRoot :: "string \<Rightarrow> string \<Rightarrow> string \<Rightarrow> string result" where
  "sourceArtifactStorageRoot tenantID userID storageRoot =
     (if storageRoot = [] then PersonalDataRootFor tenantID userID else archive_root tenantID storageRoot)"

definition newSourceArtifact :: "SourceArtifactInput \<Rightarrow> int \<Rightarrow> int \<Rightarrow> bool \<Rightarrow> SourceArtifact result" where
  "newSourceArtifact input uploadExpiresAt now requestScoped =
     or_fail (check (in_ID input = []) (Errorf ''artifact id is required'' [])) (
     or_fail (check (in_SizeBytes input < 1 \<or> in_SizeBytes input > MaxSourceArtifactSize)
       (Errorf ''artifact size must be between 1 and %d bytes'' [ArgI MaxSourceArtifactSize])) (
     or_fail (check (\<not> uploadExpiresAt > now) (Errorf ''upload expiry must be after creation'' [])) (
     and_then (sourceArtifactStorageRoot (in_TenantID input) (in_UserID input) (in_StorageRoot input)) (\<lambda>storageRoot.
     and_then (if requestScoped then SourceArtifactRequestObjectKeyForRoot (in_TenantID input) storageRoot (in_ID input) (in_SHA256 input)
               else SourceArtifactObjectKeyForRoot (in_TenantID input) storageRoot (in_SHA256 input)) (\<lambda>objectKey.
     Inr \<lparr>art_ID = in_ID input, art_TenantID = in_TenantID input, art_UserID = in_UserID input, art_StorageRoot = storageRoot,
          art_SHA256 = in_SHA256 input, art_SizeBytes = in_SizeBytes input, art_ObjectKey = objectKey, art_State = SourceArtifactPending,
          art_UploadExpiresAt = uploadExpiresAt, art_CompletedAt = None, art_LastReferencedAt = None, art_CreatedAt = now\<rparr>)))))"

definition NewSourceArtifact :: "SourceArtifactInput \<Rightarrow> int \<Rightarrow> int \<Rightarrow> SourceArtifact result" where
  "NewSourceArtifact input uploadExpiresAt now = newSourceArtifact input uploadExpiresAt now False"

definition NewRequestScopedSourceArtifact :: "SourceArtifactInput \<Rightarrow> int \<Rightarrow> int \<Rightarrow> SourceArtifact result" where
  "NewRequestScopedSourceArtifact input uploadExpiresAt now = newSourceArtifact input uploadExpiresAt now True"

subsection \<open>From object keys to mounted paths\<close>

definition archive_marker :: string where "archive_marker = ''/workspace/.ray-train-archives/''"

definition sourceArtifactArchiveRelativePath :: "string \<Rightarrow> string \<Rightarrow> string \<Rightarrow> string result" where
  "sourceArtifactArchiveRelativePath tenantID key digest =
     or_fail (check (\<not> safeObjectKeySegment tenantID \<or> \<not> matches artifactSHA256 digest)
       (Errorf ''artifact object key is outside the tenant archive root'' [])) (
     case before_first archive_marker key of
       None \<Rightarrow> Inl (Errorf ''artifact object key has no canonical archive root'' [])
     | Some before \<Rightarrow>
         or_fail (check (before = []) (Errorf ''artifact object key has no canonical archive root'' [])) (
         let storageRoot = before @ ''/''; archiveRelative = drop (length before + length archive_marker) key; legacy = digest @ ''.zip'';
             parts = split slash archiveRelative in
         case PersonalStorageTenantForRoot storageRoot of
           Inl _ \<Rightarrow> Inl (Errorf ''artifact storage owner is unsafe'' [])
         | Inr storageTenantID \<Rightarrow>
             (case PersonalDataSpacesForStorageHome tenantID storageTenantID storageRoot DefaultPublicDataRoot of
                Inl _ \<Rightarrow> Inl (Errorf ''artifact object key is outside the tenant archive root'' [])
              | Inr _ \<Rightarrow>
                  if archiveRelative = legacy then Inr archiveRelative
                  else if length parts \<noteq> 2 \<or> \<not> safeObjectKeySegment (parts ! 0) \<or> parts ! 1 \<noteq> legacy
                  then Inl (Errorf ''artifact object key is not canonical'' []) else Inr archiveRelative)))"

definition IsSourceArtifactObjectKeyForTenant :: "string \<Rightarrow> string \<Rightarrow> string \<Rightarrow> bool" where
  "IsSourceArtifactObjectKeyForTenant tenantID key digest \<longleftrightarrow> \<not> isl (sourceArtifactArchiveRelativePath tenantID key digest)"

definition SourceArtifactMountedArchivePath :: "string \<Rightarrow> string \<Rightarrow> string \<Rightarrow> string \<Rightarrow> string result" where
  "SourceArtifactMountedArchivePath tenantID key artifactID digest =
     and_then (sourceArtifactArchiveRelativePath tenantID key digest) (\<lambda>relative.
     let parts = split slash relative in
     or_fail (check (length parts = 2 \<and> parts ! 0 \<noteq> artifactID) (Errorf ''artifact object key belongs to a different artifact'' [])) (
     Inr (''/mnt/platform-workspace-snapshot/workspace/.ray-train-archives/'' @ relative)))"

definition SourceArtifact_Validate :: "SourceArtifact \<Rightarrow> error option" where
  "SourceArtifact_Validate artifact = result_error (
     or_fail (check (art_ID artifact = []) (Errorf ''artifact id is required'' [])) (
     or_fail (check (art_SizeBytes artifact < 1 \<or> art_SizeBytes artifact > MaxSourceArtifactSize) (Errorf ''artifact size is invalid'' [])) (
     and_then (sourceArtifactStorageRoot (art_TenantID artifact) (art_UserID artifact) (art_StorageRoot artifact)) (\<lambda>storageRoot.
     and_then (SourceArtifactObjectKeyForRoot (art_TenantID artifact) storageRoot (art_SHA256 artifact)) (\<lambda>legacyKey.
     let requestKey = SourceArtifactRequestObjectKeyForRoot (art_TenantID artifact) storageRoot (art_ID artifact) (art_SHA256 artifact) in
     or_fail (check (art_StorageRoot artifact \<noteq> storageRoot \<or> art_ObjectKey artifact \<noteq> legacyKey \<and> requestKey \<noteq> Inr (art_ObjectKey artifact))
       (Errorf ''artifact object key is not canonical'' [])) (
     or_fail (check (art_State artifact \<noteq> SourceArtifactPending \<and> art_State artifact \<noteq> SourceArtifactReady) (Errorf ''artifact state is invalid'' []))
       (Inr ())))))))"

definition SourceArtifact_MarkReady :: "SourceArtifact \<Rightarrow> int \<Rightarrow> SourceArtifact result" where
  "SourceArtifact_MarkReady artifact completedAt =
     or_fail (SourceArtifact_Validate artifact) (
     Inr (if art_State artifact = SourceArtifactReady then artifact
          else artifact\<lparr>art_State := SourceArtifactReady, art_CompletedAt := Some completedAt\<rparr>))"

subsection \<open>The key of an archive determines its mounted path\<close>

lemma before_first_sound: "before_first m s = Some b \<Longrightarrow> \<exists>t. s = b @ m @ t"
proof (induction s arbitrary: b)
  case (Cons c s)
  then show ?case by (auto simp: has_prefix_iff split: if_splits)
qed (auto split: if_splits)

lemma before_first_le: "m \<noteq> [] \<Longrightarrow> \<exists>b. before_first m (r @ m @ t) = Some b \<and> length b \<le> length r"
proof (induction r)
  case Nil
  then show ?case by (cases m) (auto simp: has_prefix_iff)
next
  case (Cons c r)
  then show ?case by auto
qed

lemma contains_skip: "slash \<notin> set a \<Longrightarrow> contains (a @ b) (slash # p) = contains b (slash # p)"
  by (induction a) (auto simp: has_prefix_def)

lemma contains_slash: "contains (slash # b) (slash # p) \<longleftrightarrow> has_prefix b p \<or> contains b (slash # p)"
  by (simp add: has_prefix_def)

lemma identity_hd:
  assumes "validateDataSpaceIdentity f v = None"
  shows "\<exists>c u. v = c # u \<and> is_alnum c"
proof -
  have "matches (ident_pattern ''._-'' 127) v" using assms by (simp add: validateDataSpaceIdentity_def dataSpaceIdentity_def)
  then show ?thesis unfolding matches_ident_pattern by (cases v) simp_all
qed

lemma append_eq_longer: "a @ x = b @ y \<Longrightarrow> length b \<le> length a \<Longrightarrow> \<exists>z. a = b @ z"
  by (metis append_eq_append_conv_if append_take_drop_id)

lemma dot_segment_free:
  assumes "validateDataSpaceIdentity f t = None" "validateDataSpaceIdentity g s = None"
  shows "\<not> contains (''ray-train/tenants/'' @ t @ ''/users/'' @ s @ ''/workspace/'') (slash # ''.'')"
proof -
  obtain c u d w where cu: "t = c # u" "s = d # w" "is_alnum c" "is_alnum d"
    using identity_hd [OF assms(1)] identity_hd [OF assms(2)] by blast
  have dots: "c \<noteq> CHR ''.''" "d \<noteq> CHR ''.''" using cu(3,4) by (auto simp: class_defs)
  have free: "slash \<notin> set t" "slash \<notin> set s" using identity_ok assms(1,2) by blast+
  have "\<not> contains (s @ ''/workspace/'') (slash # ''.'')" using contains_skip [OF free(2)] by (simp add: has_prefix_def)
  then have "\<not> contains (''/users/'' @ s @ ''/workspace/'') (slash # ''.'')" using dots(2) by (simp add: has_prefix_def cu(2))
  then have "\<not> contains (t @ ''/users/'' @ s @ ''/workspace/'') (slash # ''.'')" by (simp only: contains_skip [OF free(1)]) simp
  then show ?thesis using dots(1) by (simp add: has_prefix_def cu(1))
qed

lemma archive_marker_root:
  assumes "validateDataSpaceIdentity f t = None" "validateDataSpaceIdentity g s = None"
  defines "r \<equiv> ''ray-train/tenants/'' @ t @ ''/users/'' @ s"
  shows "before_first archive_marker (r @ archive_marker @ x) = Some r"
proof -
  obtain b where b: "before_first archive_marker (r @ archive_marker @ x) = Some b" "length b \<le> length r"
    using before_first_le [of archive_marker r x] by (auto simp: archive_marker_def)
  then obtain y where y: "r @ archive_marker @ x = b @ archive_marker @ y" using before_first_sound by blast
  have "length b = length r"
  proof (rule ccontr)
    assume "length b \<noteq> length r"
    then have "length (b @ ''/workspace/.'') \<le> length (r @ ''/workspace/'')" using b(2) by simp
    moreover have "(r @ ''/workspace/'') @ ''.ray-train-archives/'' @ x = (b @ ''/workspace/.'') @ ''ray-train-archives/'' @ y"
      using y by (simp add: archive_marker_def)
    ultimately obtain z where "r @ ''/workspace/'' = (b @ ''/workspace/.'') @ z" using append_eq_longer by blast
    then have "r @ ''/workspace/'' = (b @ ''/workspace'') @ (slash # ''.'') @ z" by simp
    then have "contains (r @ ''/workspace/'') (slash # ''.'')" unfolding contains_iff by blast
    then show False using dot_segment_free [OF assms(1,2)] by (simp add: r_def)
  qed
  then show ?thesis using b(1) y by simp
qed

lemma first_error_list: "first_error [a, b, c] = None \<longleftrightarrow> a = None \<and> b = None \<and> c = None"
  by simp

lemma archive_root_ok:
  assumes "archive_root tenantID root = Inr r"
  shows "r = root \<and> (\<exists>st k. validateDataSpaceIdentity ''storage tenant'' st = None \<and> validateDataSpaceIdentity ''storage key'' k = None \<and>
    root = personalDataRoot st k \<and> PersonalStorageTenantForRoot root = Inr st \<and>
    \<not> isl (PersonalDataSpacesForStorageHome tenantID st root DefaultPublicDataRoot))"
proof -
  obtain st spaces where st: "PersonalStorageTenantForRoot root = Inr st" "r = root"
      "PersonalDataSpacesForStorageHome tenantID st root DefaultPublicDataRoot = Inr spaces"
    using assms by (auto simp: archive_root_def split: sum.splits)
  then show ?thesis
    by (auto simp: PersonalDataSpacesForStorageHome_def Let_def split: option.splits)
qed

lemma tenant_key_segment:
  assumes "validateDataSpaceIdentity f t = None"
  shows "safeObjectKeySegment t"
proof -
  have "matches (ident_pattern ''._-'' 127) t" using assms by (simp add: validateDataSpaceIdentity_def dataSpaceIdentity_def)
  then show ?thesis
    unfolding safeObjectKeySegment_def keySegment_def matches_ident_pattern by auto
qed

lemma digest_no_slash: "matches artifactSHA256 d \<Longrightarrow> slash \<notin> set (d @ ''.zip'')"
  unfolding artifactSHA256_def matches_hex_digest by (auto simp: class_defs)

lemma segment_no_slash: "safeObjectKeySegment a \<Longrightarrow> slash \<notin> set a"
  unfolding safeObjectKeySegment_def keySegment_def using ident_no_slash [of "''._:@-''" 127 a] by simp

text \<open>A key below a valid root is read back to the part below the archive directory.\<close>

lemma archive_relative:
  assumes "archive_root t root = Inr root" "validateDataSpaceIdentity f t = None" "matches artifactSHA256 d"
    and "rel = d @ ''.zip'' \<or> (\<exists>a. safeObjectKeySegment a \<and> rel = a @ ''/'' @ d @ ''.zip'')"
  shows "sourceArtifactArchiveRelativePath t (root @ ''workspace/.ray-train-archives/'' @ rel) d = Inr rel"
proof -
  obtain st k where r: "validateDataSpaceIdentity ''storage tenant'' st = None" "validateDataSpaceIdentity ''storage key'' k = None"
      "root = personalDataRoot st k" "PersonalStorageTenantForRoot root = Inr st"
      "\<not> isl (PersonalDataSpacesForStorageHome t st root DefaultPublicDataRoot)"
    using archive_root_ok [OF assms(1)] by blast
  define r where "r = ''ray-train/tenants/'' @ st @ ''/users/'' @ k"
  have root: "root = r @ ''/''" using r(3) by (simp add: r_def personalDataRoot_def)
  have key: "root @ ''workspace/.ray-train-archives/'' @ rel = r @ archive_marker @ rel" by (simp add: root archive_marker_def)
  have marker: "before_first archive_marker (r @ archive_marker @ rel) = Some r"
    unfolding r_def by (rule archive_marker_root [OF r(1,2)])
  have ne: "r \<noteq> []" by (simp add: r_def)
  obtain spaces where sp: "PersonalDataSpacesForStorageHome t st root DefaultPublicDataRoot = Inr spaces"
    using r(5) by (cases "PersonalDataSpacesForStorageHome t st root DefaultPublicDataRoot") auto
  have parts: "split slash (a @ ''/'' @ d @ ''.zip'') = [a, d @ ''.zip'']" if "safeObjectKeySegment a" for a
    using split_append_sep [of slash a "d @ ''.zip''"] split_no_sep [OF segment_no_slash [OF that]]
      split_no_sep [OF digest_no_slash [OF assms(3)]] by simp
  have canonical: "rel = d @ ''.zip'' \<or> length (split slash rel) = 2 \<and> safeObjectKeySegment (split slash rel ! 0) \<and> split slash rel ! 1 = d @ ''.zip''"
    using assms(4) parts by auto
  show ?thesis
    unfolding key sourceArtifactArchiveRelativePath_def marker
    using tenant_key_segment [OF assms(2)] assms(3) ne r(4) sp canonical
    by (auto simp: root [symmetric] or_fail_def Let_def)
qed

text \<open>What a successful constructor call has checked.\<close>

lemma newSourceArtifact_ok:
  assumes "newSourceArtifact input expires now req = Inr a"
  defines "rel \<equiv> (if req then in_ID input @ ''/'' else []) @ in_SHA256 input @ ''.zip''"
  shows "\<exists>root f. archive_root (in_TenantID input) root = Inr root \<and> validateDataSpaceIdentity f (in_TenantID input) = None \<and>
    matches artifactSHA256 (in_SHA256 input) \<and> (req \<longrightarrow> safeObjectKeySegment (in_ID input)) \<and> in_ID input \<noteq> [] \<and>
    1 \<le> in_SizeBytes input \<and> in_SizeBytes input \<le> MaxSourceArtifactSize \<and> root \<noteq> [] \<and>
    art_ID a = in_ID input \<and> art_TenantID a = in_TenantID input \<and> art_SHA256 a = in_SHA256 input \<and> art_SizeBytes a = in_SizeBytes input \<and>
    art_StorageRoot a = root \<and> art_ObjectKey a = root @ ''workspace/.ray-train-archives/'' @ rel \<and> art_State a = SourceArtifactPending"
proof -
  obtain root key where root: "sourceArtifactStorageRoot (in_TenantID input) (in_UserID input) (in_StorageRoot input) = Inr root"
      "(if req then SourceArtifactRequestObjectKeyForRoot (in_TenantID input) root (in_ID input) (in_SHA256 input)
        else SourceArtifactObjectKeyForRoot (in_TenantID input) root (in_SHA256 input)) = Inr key"
    and rest: "in_ID input \<noteq> []" "1 \<le> in_SizeBytes input" "in_SizeBytes input \<le> MaxSourceArtifactSize"
      "art_ID a = in_ID input" "art_TenantID a = in_TenantID input" "art_SHA256 a = in_SHA256 input" "art_SizeBytes a = in_SizeBytes input"
      "art_StorageRoot a = root" "art_ObjectKey a = key" "art_State a = SourceArtifactPending"
    using assms(1) unfolding newSourceArtifact_def by auto
  have checked: "archive_root (in_TenantID input) root = Inr root \<and> validateDataSpaceIdentity ''tenant'' (in_TenantID input) = None \<and>
      matches artifactSHA256 (in_SHA256 input) \<and> (req \<longrightarrow> safeObjectKeySegment (in_ID input)) \<and> key = root @ ''workspace/.ray-train-archives/'' @ rel"
    using root(2) archive_root_ok [of "in_TenantID input" root]
    unfolding SourceArtifactRequestObjectKeyForRoot_def SourceArtifactObjectKeyForRoot_def rel_def by (auto split: if_splits)
  moreover have "root \<noteq> []" using checked archive_root_ok [of "in_TenantID input" root root] by (auto simp: personalDataRoot_def)
  ultimately show ?thesis using rest by blast
qed

text \<open>An archive that a constructor accepts is valid, and the path the materializer of a job derives from its object key is
  the archive's own file below the owner's archive directory; the artifact id is part of it exactly for request-scoped archives.\<close>
theorem artifact_roundtrip:
  assumes "newSourceArtifact input expires now req = Inr a"
  shows "SourceArtifact_Validate a = None \<and>
    SourceArtifactMountedArchivePath (art_TenantID a) (art_ObjectKey a) (art_ID a) (art_SHA256 a) =
      Inr (''/mnt/platform-workspace-snapshot/workspace/.ray-train-archives/'' @ (if req then art_ID a @ ''/'' else []) @ art_SHA256 a @ ''.zip'')"
proof
  obtain root f where ok: "archive_root (in_TenantID input) root = Inr root" "validateDataSpaceIdentity f (in_TenantID input) = None"
      "matches artifactSHA256 (in_SHA256 input)" "req \<longrightarrow> safeObjectKeySegment (in_ID input)" "in_ID input \<noteq> []"
      "1 \<le> in_SizeBytes input" "in_SizeBytes input \<le> MaxSourceArtifactSize" "root \<noteq> []"
    and a: "art_ID a = in_ID input" "art_TenantID a = in_TenantID input" "art_SHA256 a = in_SHA256 input"
      "art_SizeBytes a = in_SizeBytes input" "art_StorageRoot a = root"
      "art_ObjectKey a = root @ ''workspace/.ray-train-archives/'' @ (if req then in_ID input @ ''/'' else []) @ in_SHA256 input @ ''.zip''"
      "art_State a = SourceArtifactPending"
    using newSourceArtifact_ok [OF assms] by blast
  have tenant: "validateDataSpaceIdentity g (in_TenantID input) = None" for g
    using ok(2) by (simp add: validateDataSpaceIdentity_def)
  show "SourceArtifact_Validate a = None"
    unfolding SourceArtifact_Validate_def a sourceArtifactStorageRoot_def SourceArtifactObjectKeyForRoot_def
      SourceArtifactRequestObjectKeyForRoot_def
    using ok tenant by (auto simp: or_fail_def and_then_def check_def Let_def)
  show "SourceArtifactMountedArchivePath (art_TenantID a) (art_ObjectKey a) (art_ID a) (art_SHA256 a) =
      Inr (''/mnt/platform-workspace-snapshot/workspace/.ray-train-archives/'' @ (if req then art_ID a @ ''/'' else []) @ art_SHA256 a @ ''.zip'')"
    unfolding SourceArtifactMountedArchivePath_def a
    using archive_relative [OF ok(1,2,3), of "(if req then in_ID input @ ''/'' else []) @ in_SHA256 input @ ''.zip''"] ok(4)
      split_append_sep [of slash "in_ID input" "in_SHA256 input @ ''.zip''"] split_no_sep [OF digest_no_slash [OF ok(3)]]
      split_no_sep [OF segment_no_slash, of "in_ID input"]
    by (auto simp: or_fail_def and_then_def check_def Let_def)
qed

text \<open>A request-scoped archive of user \<open>alice\<close> in tenant \<open>vision\<close>.\<close>

definition sample_archive :: SourceArtifactInput where
  "sample_archive = \<lparr>in_ID = ''artifact-1'', in_TenantID = ''vision'', in_UserID = ''alice'', in_StorageRoot = [],
     in_SHA256 = replicate 64 CHR ''0'', in_SizeBytes = 4096\<rparr>"

lemma sample_home: "archive_root ''vision'' ''ray-train/tenants/vision/users/alice/'' = Inr ''ray-train/tenants/vision/users/alice/''"
proof -
  have "normalizeStorageRoot ''ray-train/tenants/vision/users/alice/'' = Inr ''ray-train/tenants/vision/users/alice/''" by code_simp
  then have tenant: "PersonalStorageTenantForRoot ''ray-train/tenants/vision/users/alice/'' = Inr ''vision''"
    by (simp add: PersonalStorageTenantForRoot_def identity_alice identity_vision trim_suffix_def has_suffix_def has_prefix_def personalDataRoot_def)
  have "\<not> isl (PublicDataRootForTenant ''vision'' DefaultPublicDataRoot)" by code_simp
  then have "\<exists>sp. PersonalDataSpacesForStorageHome ''vision'' ''vision'' ''ray-train/tenants/vision/users/alice/'' DefaultPublicDataRoot = Inr sp"
    by (auto simp: PersonalDataSpacesForStorageHome_def identity_alice identity_vision trim_suffix_def trim_prefix_def has_prefix_def
        has_suffix_def personalDataRoot_def split: sum.splits)
  then show ?thesis using tenant by (auto simp: archive_root_def)
qed

lemma sample_archive_created: "\<exists>a. newSourceArtifact sample_archive 20 10 True = Inr a \<and> art_ID a = ''artifact-1'' \<and> art_SHA256 a = replicate 64 CHR ''0''"
proof -
  have root: "sourceArtifactStorageRoot ''vision'' ''alice'' [] = Inr ''ray-train/tenants/vision/users/alice/''" by code_simp
  have digest: "matches artifactSHA256 (replicate 64 CHR ''0'')" unfolding artifactSHA256_def matches_hex_digest by (simp add: class_defs)
  have segment: "safeObjectKeySegment ''artifact-1''" by code_simp
  have tenant: "validateDataSpaceIdentity ''tenant'' ''vision'' = None" by code_simp
  show ?thesis
    by (simp add: newSourceArtifact_def sample_archive_def root SourceArtifactRequestObjectKeyForRoot_def sample_home digest segment tenant
        or_fail_def and_then_def check_def MaxSourceArtifactSize_def)
qed

theorem artifact_roundtrip_witness:
  "\<exists>a. newSourceArtifact sample_archive 20 10 True = Inr a \<and> SourceArtifact_Validate a = None \<and>
    SourceArtifactMountedArchivePath (art_TenantID a) (art_ObjectKey a) (art_ID a) (art_SHA256 a) =
      Inr (''/mnt/platform-workspace-snapshot/workspace/.ray-train-archives/artifact-1/'' @ replicate 64 CHR ''0'' @ ''.zip'')"
proof -
  obtain a where a: "newSourceArtifact sample_archive 20 10 True = Inr a" "art_ID a = ''artifact-1''" "art_SHA256 a = replicate 64 CHR ''0''"
    using sample_archive_created by blast
  show ?thesis using artifact_roundtrip [OF a(1)] a by simp
qed

end
