(* ===== verification/Kube_Env.thy ===== *)
theory Kube_Env
  imports Kube_Volumes Model_Runtime Source_Artifact
begin

section \<open>Render options, container environments and dataset mounts\<close>

text \<open>
  The options of \<open>backend/k8s/rayjob.go\<close> with their validators, \<open>backend/k8s/local_cache.go\<close>, \<open>backend/k8s/streaming_dataset.go\<close>,
  \<open>backend/k8s/dedicated_nodes.go\<close> and the environment parts of \<open>backend/k8s/evaluation_runtime.go\<close> and \<open>backend/k8s/model_serving_runtime.go\<close>.

  \<open>render_lib\<close> holds what the code takes from elsewhere: Kubernetes quantities (parsed to an integer in units of \<open>1e-9\<close>,
  their \<open>Value()\<close>, and the \<open>String()\<close> of a \<open>BinarySI\<close> quantity), the resource limits that \<open>JobSpec.Validate\<close>
  reads, \<open>strconv.IsPrint\<close> beyond ASCII and the text of \<open>streamingSiteRuntimeGuard\<close>.
\<close>

record render_lib =
  lib_ParseQuantity :: "string \<Rightarrow> int option"
  lib_Value :: "int \<Rightarrow> int"
  lib_BinarySI :: "int \<Rightarrow> string"
  lib_limits :: ResourceLimits
  lib_IsPrint :: "nat \<Rightarrow> bool"
  lib_siteGuard :: string

record MLflowOptions =
  ml_Enabled :: bool
  ml_TrackingURI :: string
  ml_ExperimentPrefix :: string
  ml_ProvenanceKey :: string
  ml_jobID :: string
  ml_tenantID :: string
  ml_userID :: string

record LocalCacheOptions =
  lc_Enabled :: bool
  lc_StorageClassData1 :: string
  lc_StorageClassData2 :: string
  lc_AllowedSizes :: "string list"
  lc_DefaultSize :: string
  lc_MaxSize :: string
  lc_MountPathData1 :: string
  lc_MountPathData2 :: string
  lc_runtime :: bool
  lc_resolvedSize :: string
  lc_resolvedSizePerDisk :: string

record DatasetManifestMount =
  dmm_DatasetID :: string
  dmm_DatasetVersionID :: string
  dmm_ManifestSHA256 :: string
  dmm_SchemaVersion :: string
  dmm_TrainSamples :: int
  dmm_ClaimName :: string
  dmm_DatasetRootSubPath :: string

record RenderOptions =
  opt_ClusterSpecField :: string
  opt_RayVersion :: string
  opt_TopologyAwareScheduling :: bool
  opt_TeamNodeAffinityEnabled :: bool
  opt_TeamNodeAffinityPreference :: "string list"
  opt_ServiceAccount :: string
  opt_ImagePullSecrets :: "string list"
  opt_SourceMaterializerImage :: string
  opt_LocalCache :: LocalCacheOptions
  opt_NodeSelector :: "(string \<times> string) list"
  opt_DedicatedNodes :: "(string \<times> string list) list"
  opt_GitCredentialSecret :: string
  opt_MLflow :: MLflowOptions
  opt_TrainingEventBaseURL :: string
  opt_DatasetManifest :: "DatasetManifestMount option"
  opt_trainingEventJobID :: string
  opt_managedResumePath :: string
  opt_clusterAttempt :: int
  opt_managedCreationFence :: int

definition trim_right_byte :: "char \<Rightarrow> string \<Rightarrow> string" where \<comment> \<open>\<open>strings.TrimRight(s, c)\<close>\<close>
  "trim_right_byte c s = rev (dropWhile (\<lambda>x. x = c) (rev s))"

subsection \<open>Local cache\<close>

definition positiveCacheQuantity :: "render_lib \<Rightarrow> string \<Rightarrow> int option" where
  "positiveCacheQuantity lib v =
     (case lib_ParseQuantity lib (trim_space v) of Some q \<Rightarrow> if q \<le> 0 then None else Some q | None \<Rightarrow> None)"

fun allowed_sizes :: "render_lib \<Rightarrow> LocalCacheOptions \<Rightarrow> int \<Rightarrow> int \<Rightarrow> string list \<Rightarrow> int list \<Rightarrow> bool \<Rightarrow> error option" where
  \<comment> \<open>the loop: sizes left, quantities seen, \<open>defaultAllowed\<close>\<close>
  "allowed_sizes lib options maximum defaultSize [] seen defaultAllowed =
     check (\<not> defaultAllowed) (Errorf ''default size must belong to allowed sizes'' [])"
| "allowed_sizes lib options maximum defaultSize (configured # rest) seen defaultAllowed =
     (case positiveCacheQuantity lib configured of
        None \<Rightarrow> Some (Errorf ''allowed sizes must be positive Kubernetes storage quantities'' [])
      | Some quantity \<Rightarrow>
          if quantity > maximum then Some (Errorf ''allowed size %q exceeds maximum %q'' [ArgS configured, ArgS (lc_MaxSize options)])
          else if quantity \<in> set seen then Some (Errorf ''allowed sizes must be unique'' [])
          else allowed_sizes lib options maximum defaultSize rest (seen @ [quantity]) (defaultAllowed \<or> quantity = defaultSize))"

definition cache_mount_path :: "string \<Rightarrow> error option" where
  "cache_mount_path mountPath = first_error [
     check (\<not> has_prefix mountPath ''/'' \<or> Clean mountPath \<noteq> mountPath \<or> mountPath = ''/'')
       (Errorf ''mount path must be a clean absolute directory'' []),
     check (mountPath = ''/tmp/ray'' \<or> has_prefix mountPath ''/tmp/ray/'')
       (Errorf ''mount path must not be inside Ray's default temporary directory'' [])]"

definition LocalCacheOptions_Validate :: "render_lib \<Rightarrow> LocalCacheOptions \<Rightarrow> error option" where
  "LocalCacheOptions_Validate lib options =
     (if \<not> lc_Enabled options then None
      else if \<not> isDNSSubdomain (trim_space (lc_StorageClassData1 options)) \<or> \<not> isDNSSubdomain (trim_space (lc_StorageClassData2 options))
      then Some (Errorf ''both storage classes must be valid Kubernetes names'' [])
      else if lc_StorageClassData1 options = lc_StorageClassData2 options then Some (Errorf ''storage classes must be different'' [])
      else case positiveCacheQuantity lib (lc_MaxSize options) of
        None \<Rightarrow> Some (Errorf ''maximum size must be a positive Kubernetes storage quantity'' [])
      | Some maximum \<Rightarrow>
          (case positiveCacheQuantity lib (lc_DefaultSize options) of
             None \<Rightarrow> Some (Errorf ''default size must be a positive Kubernetes storage quantity'' [])
           | Some defaultSize \<Rightarrow> first_error [
               check (lc_AllowedSizes options = []) (Errorf ''allowed sizes must not be empty'' []),
               allowed_sizes lib options maximum defaultSize (lc_AllowedSizes options) [] False,
               cache_mount_path (trim_space (lc_MountPathData1 options)),
               cache_mount_path (trim_space (lc_MountPathData2 options)),
               check (lc_MountPathData1 options = lc_MountPathData2 options) (Errorf ''mount paths must be different'' [])]))"

definition bytesPerGiB :: int where [go_consts]: "bytesPerGiB = 1024 * 1024 * 1024"

definition splitLocalCacheCapacity :: "render_lib \<Rightarrow> string \<Rightarrow> string result" where
  "splitLocalCacheCapacity lib totalSize =
     (let v = (if trim_space totalSize = [] then ''200Gi'' else trim_space totalSize) in
      case positiveCacheQuantity lib v of
        None \<Rightarrow> Inl (Errorf ''cache total %q must be a positive Kubernetes storage quantity'' [ArgS totalSize])
      | Some quantity \<Rightarrow>
          let bytes = lib_Value lib quantity in
          if bytes smod bytesPerGiB \<noteq> 0 then Inl (Errorf ''cache total %q must be a whole-GiB quantity'' [ArgS v])
          else if (bytes sdiv bytesPerGiB) smod 2 \<noteq> 0 then Inl (Errorf ''cache total %q must be an even whole-GiB quantity'' [ArgS v])
          else case lib_ParseQuantity lib ''5Ti'' of
            None \<Rightarrow> Inl (RuntimePanic ''resource.MustParse'')
          | Some maximum \<Rightarrow>
              if quantity > maximum then Inl (Errorf ''cache total %q exceeds maximum %s'' [ArgS v, ArgS ''5Ti''])
              else Inr (lib_BinarySI lib (bytes sdiv 2)))"

definition unresolved_cache :: "LocalCacheOptions \<Rightarrow> LocalCacheOptions" where
  "unresolved_cache options = options\<lparr>lc_runtime := False, lc_resolvedSize := [], lc_resolvedSizePerDisk := []\<rparr>"

fun resolve_size :: "render_lib \<Rightarrow> LocalCacheOptions \<Rightarrow> CacheRequest \<Rightarrow> int \<Rightarrow> string list \<Rightarrow> LocalCacheOptions result" where
  "resolve_size lib options request requested [] = Inl (Errorf ''runtime cache size %q is not allowed'' [ArgS (cache_Size request)])"
| "resolve_size lib options request requested (configured # rest) =
     (if positiveCacheQuantity lib configured = Some requested then
        and_then (splitLocalCacheCapacity lib configured) (\<lambda>perDisk.
          Inr (options\<lparr>lc_runtime := True, lc_resolvedSize := trim_space configured, lc_resolvedSizePerDisk := perDisk\<rparr>))
      else resolve_size lib options request requested rest)"

definition LocalCacheOptions_resolve :: "render_lib \<Rightarrow> LocalCacheOptions \<Rightarrow> CacheRequest \<Rightarrow> LocalCacheOptions result" where
  "LocalCacheOptions_resolve lib options request =
     (let cleared = unresolved_cache options; mode = (if cache_Mode request = [] then CacheModeOff else cache_Mode request) in
      if mode = CacheModeOff then Inr cleared
      else if mode \<noteq> CacheModeRuntime then Inl (Errorf ''unsupported cache mode %q'' [ArgS mode])
      else if \<not> lc_Enabled options then Inl (Errorf ''runtime cache capability is disabled'' [])
      else case positiveCacheQuantity lib (cache_Size request) of
        None \<Rightarrow> Inl (Errorf ''runtime cache size must be a positive Kubernetes storage quantity'' [])
      | Some requested \<Rightarrow>
          let maximum = (case positiveCacheQuantity lib (lc_MaxSize options) of Some m \<Rightarrow> m | None \<Rightarrow> 0) in
          if requested > maximum
          then Inl (Errorf ''runtime cache size %q exceeds maximum %q'' [ArgS (cache_Size request), ArgS (lc_MaxSize options)])
          else resolve_size lib cleared request requested (lc_AllowedSizes options))"

definition cache_device :: "string \<Rightarrow> string \<Rightarrow> string \<Rightarrow> string \<Rightarrow> mounting \<Rightarrow> mounting" where
  "cache_device perDisk name storageClass mountPath m =
     (fst m @ [Obj [(''name'', Str name), (''mountPath'', Str mountPath)]],
      snd m @ [Obj [(''name'', Str name), (''ephemeral'', Obj [(''volumeClaimTemplate'', Obj [(''spec'', Obj [
        (''accessModes'', Arr [Str ''ReadWriteOnce'']), (''storageClassName'', Str storageClass),
        (''resources'', Obj [(''requests'', Obj [(''storage'', Str perDisk)])])])])])]])"

definition appendLocalCache :: "LocalCacheOptions \<Rightarrow> bool \<Rightarrow> mounting \<Rightarrow> mounting" where
  "appendLocalCache cache includeSecondDevice m =
     (let perDisk = lc_resolvedSizePerDisk cache;
          first = cache_device perDisk ''local-cache-data1'' (lc_StorageClassData1 cache) (lc_MountPathData1 cache) m in
      if includeSecondDevice then cache_device perDisk ''local-cache-data2'' (lc_StorageClassData2 cache) (lc_MountPathData2 cache) first
      else first)"

definition rayObjectSpillingConfig :: "string list \<Rightarrow> string" where \<comment> \<open>\<open>json.Marshal\<close> of the map, keys in order\<close>
  "rayObjectSpillingConfig directories =
     (let path = (case directories of [d] \<Rightarrow> marshal_string d | _ \<Rightarrow> ''['' @ join '','' (map marshal_string directories) @ '']'') in
      ''{'' @ marshal_string ''params'' @ '':{'' @ marshal_string ''directory_path'' @ '':'' @ path @ ''},'' @
      marshal_string ''type'' @ '':'' @ marshal_string ''filesystem'' @ ''}'')"

definition configureRayCache :: "LocalCacheOptions \<Rightarrow> any \<Rightarrow> any" where
  "configureRayCache cache rayStartParams = put ''temp-dir'' (Str (Join [lc_MountPathData1 cache, ''ray''])) rayStartParams"

subsection \<open>Environment variables\<close>

definition env_var :: "string \<Rightarrow> string \<Rightarrow> any" where
  "env_var name v = Obj [(''name'', Str name), (''value'', Str v)]"

definition environmentValue :: "any list \<Rightarrow> string \<Rightarrow> string" where
  "environmentValue environment name =
     (case find (\<lambda>item. field item ''name'' = Some (Str name)) environment of None \<Rightarrow> [] | Some entry' \<Rightarrow> str_field entry' ''value'')"

definition setEnvironmentValue :: "string \<Rightarrow> string \<Rightarrow> any list \<Rightarrow> any list" where
  "setEnvironmentValue name v environment =
     (let named = (\<lambda>item. field item ''name'' = Some (Str name)) in
      map (\<lambda>item. if named item then env_var name v else item) environment @
      (if list_ex named environment then [] else [env_var name v]))"

definition set_environment :: "(string \<times> string) list \<Rightarrow> any list \<Rightarrow> any list" where \<comment> \<open>the loops over pairs\<close>
  "set_environment pairs environment = fold (\<lambda>(name, v). setEnvironmentValue name v) pairs environment"

definition env_field :: "string \<Rightarrow> string \<Rightarrow> any" where
  "env_field name fieldPath = Obj [(''name'', Str name),
     (''valueFrom'', Obj [(''fieldRef'', Obj [(''apiVersion'', Str ''v1''), (''fieldPath'', Str fieldPath)])])]"

definition managedMetricIdentityEnvironment :: "string \<Rightarrow> any list" where
  "managedMetricIdentityEnvironment jobId = [
     env_var ''PLATFORM_JOB_ID'' (trim_space jobId),
     env_field ''PLATFORM_POD_NAMESPACE'' ''metadata.namespace'',
     env_field ''PLATFORM_POD_NAME'' ''metadata.name'',
     env_field ''PLATFORM_RAY_CLUSTER'' (''metadata.labels['' @ [CHR 0x27] @ ''ray.io/cluster'' @ [CHR 0x27] @ '']''),
     env_field ''PLATFORM_RAY_NODE_TYPE'' (''metadata.labels['' @ [CHR 0x27] @ ''ray.io/node-type'' @ [CHR 0x27] @ '']'')]"

definition MLflowOptions_Validate :: "MLflowOptions \<Rightarrow> error option" where
  "MLflowOptions_Validate options =
     (if \<not> ml_Enabled options then None
      else first_error [
        check (blank (ml_TrackingURI options)) (Errorf ''tracking URI is required when enabled'' []),
        check (trim_dashes (trim_space (ml_ExperimentPrefix options)) = []) (Errorf ''experiment prefix is required when enabled'' []),
        check (length (ml_ProvenanceKey options) < 32) (Errorf ''provenance key must contain at least 32 bytes'' [])])"

definition mlflowEnvironment :: "MLflowOptions \<Rightarrow> any list" where
  "mlflowEnvironment options = [
     env_var ''MLFLOW_TRACKING_URI'' (ml_TrackingURI options),
     env_var ''MLFLOW_EXPERIMENT_NAME'' (trim_dashes (ml_ExperimentPrefix options) @ ''-'' @ ml_tenantID options),
     env_var ''MLFLOW_RUN_NAME'' (ml_jobID options),
     env_var ''RAYTRAIN_JOB_ID'' (ml_jobID options),
     env_var ''RAYTRAIN_TENANT_ID'' (ml_tenantID options),
     env_var ''RAYTRAIN_SUBMITTER_USER_ID'' (ml_userID options),
     env_var ''RAYTRAIN_MLFLOW_PROVENANCE'' (MLflowProvenanceTag (ml_ProvenanceKey options) (ml_jobID options))]"

definition uri_variables :: "JobSpec \<Rightarrow> any list" where
  "uri_variables spec = concat (map (\<lambda>(name, v). if trim_space v \<noteq> [] then [env_var name (trim_space v)] else [])
     [(''PLATFORM_DATASET_URI'', spec_DatasetURI spec), (''PLATFORM_CHECKPOINT_URI'', spec_CheckpointURI spec),
      (''PLATFORM_OUTPUT_URI'', spec_OutputURI spec)])"

definition storage_variables :: "JobSpec \<Rightarrow> any list" where
  "storage_variables spec = concat (map (\<lambda>(name, mount). case mount of None \<Rightarrow> []
       | Some m \<Rightarrow> [env_var name (rsm_MountPath m @ (if rsm_RelativePath m \<noteq> [] then ''/'' @ rsm_RelativePath m else []))])
     [(''PLATFORM_DATASET_PATH'', rsms_Dataset (spec_ResolvedStorage spec)), (''PLATFORM_CHECKPOINT_PATH'', rsms_Checkpoint (spec_ResolvedStorage spec)),
      (''PLATFORM_OUTPUT_PATH'', rsms_Output (spec_ResolvedStorage spec))])"

definition space_variables :: "JobSpec \<Rightarrow> any list" where
  "space_variables spec = concat (map (\<lambda>(name, mount). case mount of None \<Rightarrow> [] | Some m \<Rightarrow> [env_var name (rdm_MountPath m)])
     [(''PLATFORM_DATASET_PATH'', rdms_Input (spec_ResolvedDataMounts spec)), (''PLATFORM_CHECKPOINT_PATH'', rdms_Checkpoint (spec_ResolvedDataMounts spec)),
      (''PLATFORM_OUTPUT_PATH'', rdms_Output (spec_ResolvedDataMounts spec))])"

definition platformDataEnvironment :: "JobSpec \<Rightarrow> string \<Rightarrow> any list" where
  "platformDataEnvironment spec managedResumePath =
     (let env = uri_variables spec @ storage_variables spec @ space_variables spec in
      if managedResumePath = [] then env
      else filter (\<lambda>item. field item ''name'' \<noteq> Some (Str ''PLATFORM_CHECKPOINT_PATH'')) env @
        [env_var ''PLATFORM_CHECKPOINT_PATH'' managedResumePath])"

subsection \<open>Training events and trusted runtimes\<close>

definition trainingEventTokenMountPath :: string where [go_consts]: "trainingEventTokenMountPath = ''/var/run/secrets/raytrain-events''"
definition TrainingEventTokenKey :: string where [go_consts]: "TrainingEventTokenKey = ''token''"

definition TrainingEventSecretName :: "string \<Rightarrow> string" where
  "TrainingEventSecretName jobId = ''raytrain-event-'' @ trim_space jobId"

definition token_secret_volume :: "string \<Rightarrow> int \<Rightarrow> string \<Rightarrow> any" where
  "token_secret_volume name mode jobId = Obj [(''name'', Str name), (''secret'', Obj [
     (''secretName'', Str (TrainingEventSecretName jobId)), (''defaultMode'', Num mode),
     (''items'', Arr [Obj [(''key'', Str TrainingEventTokenKey), (''path'', Str TrainingEventTokenKey)]])])]"

definition validateTrainingEventBaseURL :: "string \<Rightarrow> string result" where
  "validateTrainingEventBaseURL raw =
     (let trimmed = trim_right_byte slash (trim_space raw);
          v = (if trimmed = [] then ''http://ray-train-backend.ray-train-platform.svc.cluster.local:8080/api/v1/internal'' else trimmed);
          bad = Errorf ''base URL must be an HTTP(S) origin and path without credentials, query, or fragment'' [] in
      if contains_any v [CHR 0x00, cr, nl, tab] then Inl (Errorf ''base URL contains control characters'' [])
      else case ParseRequestURI v of
        None \<Rightarrow> Inl bad
      | Some parsed \<Rightarrow>
          if url_Scheme parsed \<noteq> ''http'' \<and> url_Scheme parsed \<noteq> ''https'' \<or> url_Host parsed = [] \<or> url_HasUser parsed \<or>
             url_RawQuery parsed \<noteq> [] \<or> url_Fragment parsed \<noteq> []
          then Inl bad
          else if url_Path parsed = [] \<or> Clean (url_Path parsed) \<noteq> url_Path parsed \<or> contains (url_Path parsed) ''..''
          then Inl (Errorf ''base URL path is invalid'' []) else Inr v)"

definition appendTrainingEventCredential :: "RenderOptions \<Rightarrow> mounting \<times> any list \<Rightarrow> mounting \<times> any list" where
  "appendTrainingEventCredential options m =
     (let ((volumeMounts, volumes), environment) = m; jobId = trim_space (opt_trainingEventJobID options);
          baseURL = trim_right_byte slash (trim_space (opt_TrainingEventBaseURL options)) in
      ((volumeMounts @ [Obj [(''name'', Str ''managed-training-events''), (''mountPath'', Str trainingEventTokenMountPath), (''readOnly'', Flag True)]],
        volumes @ [token_secret_volume ''managed-training-events'' 256 jobId]),
       environment @ [env_var ''RAYTRAIN_EVENT_TOKEN_FILE'' (Join [trainingEventTokenMountPath, TrainingEventTokenKey]),
         env_var ''RAYTRAIN_EVENT_ENDPOINT'' (baseURL @ ''/jobs/'' @ jobId @ ''/train-events'')]))"

definition validateEvaluationCodeBaseURL :: "string \<Rightarrow> error option" where
  "validateEvaluationCodeBaseURL v =
     (let bad = Errorf ''evaluation code endpoint must use the internal job callback service'' [] in
      case url_Parse v of
        None \<Rightarrow> Some bad
      | Some parsed \<Rightarrow> first_error [
          check (url_HasUser parsed \<or> url_RawQuery parsed \<noteq> [] \<or> url_Fragment parsed \<noteq> [] \<or>
                 url_Scheme parsed \<noteq> ''http'' \<and> url_Scheme parsed \<noteq> ''https'' \<or> url_Path parsed \<noteq> ''/api/v1/internal'') bad,
          check (\<not> has_suffix (Hostname parsed) ''.svc'' \<and> \<not> has_suffix (Hostname parsed) ''.svc.cluster.local'')
            (Errorf ''evaluation code endpoint must use a cluster service'' [])])"

definition job_endpoint :: "RenderOptions \<Rightarrow> string \<Rightarrow> string" where
  "job_endpoint options route = trim_right_byte slash (opt_TrainingEventBaseURL options) @ ''/jobs/'' @ opt_trainingEventJobID options @ route"

definition appendEvaluationRuntime :: "EvaluationRuntime option \<Rightarrow> RenderOptions \<Rightarrow> any list \<Rightarrow> any list" where
  "appendEvaluationRuntime runtime options environment =
     (case runtime of None \<Rightarrow> environment
      | Some r \<Rightarrow> set_environment [
          (''MODEL_EVALUATION_ID'', er_EvaluationID r),
          (''MODEL_EVALUATION_MODEL_SHA256'', er_ModelSHA256 r),
          (''MODEL_EVALUATION_DATASET_MANIFEST_SHA256'', er_DatasetManifestSHA256 r),
          (''MODEL_EVALUATION_DATASET_SPLIT'', er_DatasetSplit r),
          (''MODEL_EVALUATION_DATASET_SAMPLE_COUNT'', decimal (er_DatasetSampleCount r)),
          (''MODEL_EVALUATION_CONFIG_JSON'', er_ConfigJSON r),
          (''MODEL_EVALUATION_CONFIG_SHA256'', er_ConfigSHA256 r),
          (''MODEL_EVALUATION_EVALUATOR_ID'', er_EvaluatorID r),
          (''MODEL_EVALUATION_PROTOCOL'', er_Protocol r),
          (''MODEL_EVALUATION_BASE_URL'', job_endpoint options ''/model-evaluation'')] environment)"

definition appendServingRuntime :: "ServingRuntime option \<Rightarrow> RenderOptions \<Rightarrow> any list \<Rightarrow> any list" where
  "appendServingRuntime runtime options environment =
     (case runtime of None \<Rightarrow> environment
      | Some r \<Rightarrow> set_environment [
          (''MODEL_SERVING_ID'', sr_DeploymentID r),
          (''MODEL_SERVING_MODEL_SHA256'', sr_ModelSHA256 r),
          (''MODEL_SERVING_MODEL_SIZE_BYTES'', decimal (sr_ModelSizeBytes r)),
          (''MODEL_SERVING_PROTOCOL'', sr_Protocol r),
          (''MODEL_SERVING_BASE_URL'', job_endpoint options ''/model-serving''),
          (''MODEL_SERVING_PORT'', ''8000'')] environment)"

definition evaluationSourceCredentialVolume :: "string \<Rightarrow> any" where
  "evaluationSourceCredentialVolume jobId = token_secret_volume ''evaluation-source-events'' 288 jobId"

subsection \<open>Streaming datasets\<close>

definition DatasetRootContainerPath :: string where [go_consts]: "DatasetRootContainerPath = ''/mnt/data/.platform/datasets''"

definition datasetContainerPath :: "string \<Rightarrow> string" where
  "datasetContainerPath datasetID = Join [DatasetRootContainerPath, datasetID]"

definition datasetManifestContainerPath :: "string \<Rightarrow> string \<Rightarrow> string" where
  "datasetManifestContainerPath datasetID versionID = Join [datasetContainerPath datasetID, ''manifests'', versionID @ ''.parquet'']"

definition validateDatasetRootSubPath :: "string \<Rightarrow> string \<Rightarrow> error option" where
  "validateDatasetRootSubPath v datasetID = first_error [
     check (v = [] \<or> trim_space v \<noteq> v \<or> length v > 1024)
       (Errorf ''dataset root PVC subPath must be a non-empty canonical relative path'' []),
     check (has_prefix v ''/'' \<or> Clean v \<noteq> v \<or> v = ''.'' \<or> contains v [backslash] \<or> has_control v)
       (Errorf ''dataset root PVC subPath must be a clean relative path'' []),
     check (contains v ''%'') (Errorf ''dataset root PVC subPath must not contain encoded path components'' []),
     check (list_ex (\<lambda>segment. segment = ''.'' \<or> segment = ''..'') (split slash v))
       (Errorf ''dataset root PVC subPath must not contain traversal components'' []),
     check (\<not> has_suffix v (''/'' @ datasetID) \<or> trim_suffix v (''/'' @ datasetID) = [])
       (Errorf ''dataset root PVC subPath does not end at the selected dataset'' [])]"

definition validateForUse :: "DatasetManifestMount \<Rightarrow> DatasetProvenance \<Rightarrow> bool \<Rightarrow> error option" where
  "validateForUse mount provenance evaluation = first_error [
     check (dmm_DatasetID mount \<noteq> prov_DatasetID provenance \<or> dmm_DatasetVersionID mount \<noteq> prov_DatasetVersionID provenance \<or>
            dmm_ManifestSHA256 mount \<noteq> prov_ManifestSHA256 provenance)
       (Errorf ''mount identity does not match immutable provenance'' []),
     check (\<not> isDNSSubdomain (trim_space (dmm_ClaimName mount)) \<or> trim_space (dmm_ClaimName mount) \<noteq> dmm_ClaimName mount)
       (Errorf ''PVC claim name must be a canonical Kubernetes name'' []),
     check (dmm_TrainSamples mount < 0 \<or> \<not> evaluation \<and> dmm_TrainSamples mount = 0)
       (Errorf ''training sample count must be positive'' []),
     check (dmm_SchemaVersion mount \<noteq> [] \<and> \<not> matches (ident_pattern ''._+-'' 127) (dmm_SchemaVersion mount))
       (Errorf ''dataset schema version is invalid'' []),
     validateDatasetRootSubPath (dmm_DatasetRootSubPath mount) (prov_DatasetID provenance)]"

definition validateJobDatasetMount :: "TrainingJob \<Rightarrow> DatasetManifestMount \<Rightarrow> error option" where
  "validateJobDatasetMount job mount =
     (case (job_SubmissionOrigin job = SubmissionOriginEvaluation, spec_EvaluationRuntime (job_Spec job)) of
        (True, Some runtime) \<Rightarrow> first_error [
          EvaluationRuntime_Validate runtime,
          check (er_DatasetManifestSHA256 runtime \<noteq> prov_ManifestSHA256 (job_DatasetProvenance job))
            (Errorf ''evaluation dataset digest does not match job provenance'' []),
          validateForUse mount (job_DatasetProvenance job) True]
      | _ \<Rightarrow> validateForUse mount (job_DatasetProvenance job) False)"

definition validateStreamingDatasetManifest :: "TrainingJob \<Rightarrow> DatasetManifestMount option \<Rightarrow> error option" where
  "validateStreamingDatasetManifest job mount =
     (let provenance = job_DatasetProvenance job; spec = job_Spec job in first_error [
        wrap ''immutable dataset provenance: %w'' [] (DatasetProvenance_Validate provenance),
        check (DatasetProvenance_IsZero provenance) (Errorf ''immutable dataset provenance is required'' []),
        check (ref_Dataset (spec_DatasetRef spec) \<noteq> prov_DatasetID provenance \<or> ref_Version (spec_DatasetRef spec) \<noteq> prov_DatasetVersionID provenance \<or>
               spec_DataMode spec \<noteq> prov_DataMode provenance \<or> spec_CachePolicy spec \<noteq> prov_CachePolicy provenance \<or>
               ref_Sites (spec_DatasetRef spec) \<noteq> prov_Sites provenance)
          (Errorf ''streaming job spec does not match immutable dataset provenance'' []),
        (case mount of
           None \<Rightarrow> Some (Errorf ''resolved dataset root is required for streaming'' [])
         | Some m \<Rightarrow> wrap ''resolved dataset root: %w'' [] (validateJobDatasetMount job m))])"

definition streamingDatasetEnvironmentEntries :: "DatasetManifestMount \<Rightarrow> string \<Rightarrow> any list" where
  "streamingDatasetEnvironmentEntries mount cachePolicy = [
     env_var ''PLATFORM_DATASET_ID'' (dmm_DatasetID mount),
     env_var ''PLATFORM_DATASET_VERSION_ID'' (dmm_DatasetVersionID mount),
     env_var ''PLATFORM_DATASET_MANIFEST_SHA256'' (dmm_ManifestSHA256 mount),
     env_var ''PLATFORM_DATASET_MANIFEST_PATH'' (datasetManifestContainerPath (dmm_DatasetID mount) (dmm_DatasetVersionID mount)),
     env_var ''PLATFORM_DATASET_ROOT'' DatasetRootContainerPath,
     env_var ''PLATFORM_DATASET_TRAIN_SAMPLES'' (decimal (dmm_TrainSamples mount)),
     env_var ''PLATFORM_DATASET_CACHE_POLICY'' cachePolicy,
     env_var ''RAYTRAIN_DATASET_PREFETCH_BATCHES'' ''2'',
     env_var ''RAYTRAIN_DATASET_SHUFFLE_SEED'' ''0''] @
     (if dmm_SchemaVersion mount \<noteq> [] then [env_var ''PLATFORM_DATASET_SCHEMA_VERSION'' (dmm_SchemaVersion mount)] else [])"

definition append_dataset_root :: "DatasetManifestMount \<Rightarrow> mounting \<Rightarrow> mounting" where \<comment> \<open>the volume and its mount\<close>
  "append_dataset_root mount m =
     (let existing = pvcVolumeName (snd m) (dmm_ClaimName mount);
          volumeName = (if existing = [] then ''platform-dataset-root'' else existing) in
      (fst m @ [Obj [(''name'', Str volumeName), (''mountPath'', Str (datasetContainerPath (dmm_DatasetID mount))),
         (''subPath'', Str (dmm_DatasetRootSubPath mount)), (''readOnly'', Flag True)]],
       if existing = [] then snd m @ [pvcVolume ''platform-dataset-root'' (dmm_ClaimName mount) True] else snd m))"

definition appendStreamingDatasetRoot :: "DatasetManifestMount \<Rightarrow> string \<Rightarrow> string \<Rightarrow> mounting \<times> any list \<Rightarrow> mounting \<times> any list" where
  "appendStreamingDatasetRoot mount cachePolicy sites m =
     (append_dataset_root mount (fst m),
      snd m @ streamingDatasetEnvironmentEntries mount cachePolicy @ [env_var ''PLATFORM_DATASET_SITES_JSON'' (DatasetSites_JSON sites)])"

definition yaml_line :: "render_lib \<Rightarrow> string \<Rightarrow> string \<Rightarrow> string" where
  "yaml_line lib name v = ''  '' @ name @ '': '' @ Quote (lib_IsPrint lib) v @ [nl]"

definition streamingDatasetRuntimeEnvironmentYAML :: "render_lib \<Rightarrow> DatasetProvenance \<Rightarrow> DatasetManifestMount \<Rightarrow> string" where
  "streamingDatasetRuntimeEnvironmentYAML lib provenance mount =
     yaml_line lib ''PLATFORM_DATASET_SITES_JSON'' (DatasetSites_JSON (prov_Sites provenance)) @
     yaml_line lib ''PLATFORM_DATASET_ID'' (prov_DatasetID provenance) @
     yaml_line lib ''PLATFORM_DATASET_VERSION_ID'' (prov_DatasetVersionID provenance) @
     yaml_line lib ''PLATFORM_DATASET_MANIFEST_SHA256'' (prov_ManifestSHA256 provenance) @
     yaml_line lib ''PLATFORM_DATASET_MANIFEST_PATH'' (datasetManifestContainerPath (prov_DatasetID provenance) (prov_DatasetVersionID provenance)) @
     yaml_line lib ''PLATFORM_DATASET_ROOT'' DatasetRootContainerPath @
     yaml_line lib ''PLATFORM_DATASET_TRAIN_SAMPLES'' (decimal (dmm_TrainSamples mount)) @
     yaml_line lib ''PLATFORM_DATASET_CACHE_POLICY'' (prov_CachePolicy provenance) @
     (if dmm_SchemaVersion mount \<noteq> [] then yaml_line lib ''PLATFORM_DATASET_SCHEMA_VERSION'' (dmm_SchemaVersion mount) else []) @
     yaml_line lib ''RAYTRAIN_DATASET_PREFETCH_BATCHES'' ''2'' @
     yaml_line lib ''RAYTRAIN_DATASET_SHUFFLE_SEED'' ''0''"

subsection \<open>Placement\<close>

definition trainingNodeSelector :: "RenderOptions \<Rightarrow> any" where
  "trainingNodeSelector options =
     (let source = (if opt_NodeSelector options = [] then [(''accelerator'', ''nvidia-rtx-4090'')] else opt_NodeSelector options) in
      Obj (map (map_prod id Str) source))"

definition nodeSelectorForAccelerator :: "(string \<times> string) list \<Rightarrow> string \<Rightarrow> (string \<times> string) list" where
  "nodeSelectorForAccelerator configured accelerator =
     (if accelerator = [] then configured else AList.update ''accelerator'' (NodeLabelValue accelerator) configured)"

definition assigned_nodes :: "string \<Rightarrow> (string \<times> string list) list \<Rightarrow> string list" where \<comment> \<open>\<open>assignments[tenantID]\<close>\<close>
  "assigned_nodes tenantID assignments = (case map_of assignments tenantID of None \<Rightarrow> [] | Some nodes \<Rightarrow> nodes)"

definition dedicatedNodeAffinity :: "string \<Rightarrow> (string \<times> string list) list \<Rightarrow> any option" where
  "dedicatedNodeAffinity tenantID assignments =
     (if assignments = [] then None
      else
        let own = assigned_nodes tenantID assignments;
            operator = (if own = [] then ''NotIn'' else ''In'');
            nodes = (if own = [] then concat (map snd assignments) else own) in
        Some (Obj [(''nodeAffinity'', Obj [(''requiredDuringSchedulingIgnoredDuringExecution'', Obj [
          (''nodeSelectorTerms'', Arr [Obj [(''matchExpressions'', Arr [Obj [
            (''key'', Str ''kubernetes.io/hostname''), (''operator'', Str operator), (''values'', Arr (map Str (sort nodes)))]])]])])])]))"

definition dedicatedNodeTolerations :: "string \<Rightarrow> (string \<times> string list) list \<Rightarrow> any list" where
  "dedicatedNodeTolerations tenantID assignments =
     (if assigned_nodes tenantID assignments = [] then []
      else [Obj [(''key'', Str ''raytrain.io/dedicated-tenant''), (''operator'', Str ''Equal''), (''value'', Str tenantID), (''effect'', Str ''NoSchedule'')]])"

definition renderImagePullSecrets :: "string list \<Rightarrow> any list" where
  "renderImagePullSecrets names = map (\<lambda>n. Obj [(''name'', Str (trim_space n))]) (filter (\<lambda>n. \<not> blank n) names)"

fun preferred_nodes :: "nat \<Rightarrow> string list \<Rightarrow> string list \<Rightarrow> any list" where \<comment> \<open>index, names seen, names left\<close>
  "preferred_nodes i seen [] = []"
| "preferred_nodes i seen (raw # rest) =
     (let nodeName = trim_space raw in
      if nodeName = [] \<or> nodeName \<in> set seen then preferred_nodes (Suc i) seen rest
      else Obj [(''weight'', Num (max 1 (100 - int i))),
          (''preference'', Obj [(''matchFields'', Arr [Obj [(''key'', Str ''metadata.name''), (''operator'', Str ''In''), (''values'', Arr [Str nodeName])]])])]
        # preferred_nodes (Suc i) (nodeName # seen) rest)"

definition sub_map :: "any \<Rightarrow> string \<Rightarrow> any" where \<comment> \<open>\<open>m, _ := x[k].(map[string]any); if m == nil { m = map[string]any{} }\<close>\<close>
  "sub_map x k = (case field x k of Some (Obj m) \<Rightarrow> Obj m | _ \<Rightarrow> Obj [])"

definition addPreferredNodeAffinity :: "string list \<Rightarrow> any \<Rightarrow> any" where
  "addPreferredNodeAffinity nodeNames template =
     (if nodeNames = [] then template
      else
        let spec = sub_map template ''spec''; affinity = sub_map spec ''affinity''; nodeAffinity = sub_map affinity ''nodeAffinity'';
            key = ''preferredDuringSchedulingIgnoredDuringExecution'';
            existing = (case field nodeAffinity key of Some (Arr xs) \<Rightarrow> xs | _ \<Rightarrow> []);
            preferred = existing @ preferred_nodes 0 [] nodeNames;
            nodeAffinity' = (if preferred = [] then nodeAffinity else put key (Arr preferred) nodeAffinity) in
        put ''spec'' (put ''affinity'' (put ''nodeAffinity'' nodeAffinity' affinity) spec) template)"

definition addPodLabels :: "string \<Rightarrow> string \<Rightarrow> any \<Rightarrow> any" where
  "addPodLabels jobId tenantID template = put ''metadata'' (put ''labels'' (Obj [
     (''app.kubernetes.io/part-of'', Str ''ray-train-platform''), (''platform_job_id'', Str jobId), (''platform_tenant_id'', Str tenantID)])
     (sub_map template ''metadata'')) template"

definition addPodAnnotation :: "string \<Rightarrow> string \<Rightarrow> any \<Rightarrow> any" where
  "addPodAnnotation key v template =
     (let metadata = sub_map template ''metadata'' in
      put ''metadata'' (put ''annotations'' (put key (Str v) (sub_map metadata ''annotations'')) metadata) template)"

end
