(* ===== verification/Kube_Pod.thy ===== *)
theory Kube_Pod
  imports Kube_Env
begin

section \<open>Pod templates\<close>

text \<open>
  \<open>podTemplate\<close> of \<open>backend/k8s/rayjob.go\<close> with its init containers: the source materializer of the submitter pod and the dataset
  cache preloader of the workers. A streaming pod without a resolved dataset manifest would dereference a nil pointer;
  \<open>RenderRayJob\<close> refuses such jobs before.
\<close>

subsection \<open>Source materializer\<close>

abbreviation sq :: string where "sq \<equiv> [CHR 0x27]"
abbreviation dq :: string where "dq \<equiv> [CHR 0x22]"
abbreviation bs :: string where "bs \<equiv> [backslash]"

definition line :: "string \<Rightarrow> string" where "line s = s @ [nl]"

definition code_extraction :: "JobSpec \<Rightarrow> string \<Rightarrow> string list" where \<comment> \<open>\<open>extract\<close> with its module or script\<close>
  "code_extraction spec archive =
     (let words = ep_Command (spec_Entrypoint spec) @ ep_Args (spec_Entrypoint spec) in
      [''python3'', ''/usr/local/bin/platform-safe-extract.py'', ''--archive'', archive, ''--destination'', ''/workspace'',
       ''--max-uncompressed-bytes'', ''268435456''] @
      (if 3 \<le> length words \<and> words ! 1 = ''-m'' then [''--required-module'', words ! 2]
       else if 2 \<le> length words then [''--required-script'', words ! 1] else []))"

definition code_fetch :: "RenderOptions \<Rightarrow> string \<Rightarrow> string \<Rightarrow> int \<Rightarrow> string \<Rightarrow> string list" where
  "code_fetch options script digest sizeBytes archive =
     [''python3'', script, ''--base-url'', opt_TrainingEventBaseURL options, ''--job-id'', opt_trainingEventJobID options,
      ''--token-file'', trainingEventTokenMountPath @ ''/'' @ TrainingEventTokenKey, ''--sha256'', digest,
      ''--size-bytes'', decimal sizeBytes, ''--output'', archive]"

definition evaluationCodeMaterializerCommand :: "JobSpec \<Rightarrow> RenderOptions \<Rightarrow> string" where
  "evaluationCodeMaterializerCommand spec options =
     (let invalid = line (''echo '' @ sq @ ''source materialization failed: invalid evaluation code snapshot'' @ sq @ '' >&2'') @ line ''exit 1'';
          archive = ''/tmp/platform-evaluation-code.zip'' in
      case spec_EvaluationRuntime spec of
        None \<Rightarrow> invalid
      | Some runtime \<Rightarrow>
          if EvaluationRuntime_ValidateCodeSource runtime (spec_Source spec) \<noteq> None \<or>
             validateEvaluationCodeBaseURL (opt_TrainingEventBaseURL options) \<noteq> None
          then invalid
          else line (shellJoin (code_fetch options ''/usr/local/bin/platform-fetch-evaluation-code.py'' (er_CodeSHA256 runtime) (er_CodeSizeBytes runtime) archive)) @
            line (shellJoin (code_extraction spec archive)) @ line (''rm -f '' @ shellQuote archive))"

definition servingCodeMaterializerCommand :: "JobSpec \<Rightarrow> RenderOptions \<Rightarrow> string" where
  "servingCodeMaterializerCommand spec options =
     (let invalid = line (''echo '' @ sq @ ''source materialization failed: invalid serving code snapshot'' @ sq @ '' >&2'') @ line ''exit 1'';
          archive = ''/tmp/platform-serving-code.zip'' in
      case spec_ServingRuntime spec of
        None \<Rightarrow> invalid
      | Some runtime \<Rightarrow>
          if ServingRuntime_ValidateCodeSource runtime (spec_Source spec) \<noteq> None \<or>
             validateEvaluationCodeBaseURL (opt_TrainingEventBaseURL options) \<noteq> None
          then invalid
          else line (shellJoin (code_fetch options ''/usr/local/bin/platform-fetch-serving-code.py'' (sr_CodeSHA256 runtime) (sr_CodeSizeBytes runtime) archive)) @
            line (shellJoin (code_extraction spec archive)) @ line (''rm -f '' @ shellQuote archive))"

definition git_command :: "CodeSource \<Rightarrow> RenderOptions \<Rightarrow> string" where
  "git_command source options =
     (let git = ''git -c safe.directory=/workspace'' in
      line ''export GIT_TERMINAL_PROMPT=0'' @
      (if opt_GitCredentialSecret options \<noteq> [] then
         line (''printf '' @ sq @ ''#!/bin/sh'' @ bs @ ''ncase '' @ dq @ ''$1'' @ dq @ '' in *Username*) echo '' @ dq @ ''$GIT_USERNAME'' @ dq @
           '';; *) echo '' @ dq @ ''$GIT_TOKEN'' @ dq @ '';; esac'' @ bs @ ''n'' @ sq @ '' > /tmp/askpass'') @
         line ''chmod +x /tmp/askpass'' @ line ''export GIT_ASKPASS=/tmp/askpass''
       else []) @
      line (git @ '' init /workspace'') @
      line (git @ '' -C /workspace remote add origin '' @ shellQuote (src_URL source)) @
      line (''if ! timeout 180 '' @ git @ '' -c http.lowSpeedLimit=1024 -c http.lowSpeedTime=60 -C /workspace fetch --depth 1 origin '' @
        shellQuote (src_Commit source) @ ''; then'') @
      line (''  echo '' @ sq @ ''source materialization failed: Git fetch failed or exceeded 180 seconds'' @ sq @ '' >&2'') @
      line ''  exit 1'' @ line ''fi'' @
      line (git @ '' -C /workspace checkout --detach FETCH_HEAD''))"

definition materializer_command :: "string \<Rightarrow> CodeSource \<Rightarrow> JobSpec \<Rightarrow> RenderOptions \<Rightarrow> string" where \<comment> \<open>the \<open>switch\<close>\<close>
  "materializer_command tenantID source jobSpec options =
     line ''set -eu'' @ line (''find /workspace -mindepth 1 -maxdepth 1 -exec rm -rf {} +'') @
     (if src_Type source = ''git'' then git_command source options
      else if src_Type source = ''workspace'' then
        line (''cp -R '' @ shellQuote (''/mnt/platform-workspace-snapshot/snapshots/'' @ src_Snapshot source) @ ''/. /workspace/'')
      else if src_Type source = ''workspace-archive'' then
        (case SourceArtifactMountedArchivePath tenantID (src_ArtifactObjectKey source) (src_ArtifactID source) (src_ArtifactSHA256 source) of
           Inl _ \<Rightarrow> line (''echo '' @ sq @ ''source materialization failed: invalid workspace archive path'' @ sq @ '' >&2'') @ line ''exit 1''
         | Inr archivePath \<Rightarrow>
             line (''python3 /usr/local/bin/platform-safe-extract.py --archive '' @ shellQuote archivePath @ '' --destination /workspace''))
      else if src_Type source = ''evaluation-archive'' then evaluationCodeMaterializerCommand jobSpec options
      else if src_Type source = ''serving-archive'' then servingCodeMaterializerCommand jobSpec options
      else [])"

definition drop_all :: any where "drop_all = Obj [(''drop'', Arr [Str ''ALL''])]"

definition workspace_mount :: any where
  "workspace_mount = Obj [(''name'', Str ''workspace''), (''mountPath'', Str ''/workspace'')]"

definition archive_job :: "CodeSource \<Rightarrow> bool" where
  "archive_job source \<longleftrightarrow> src_Type source = ''evaluation-archive'' \<or> src_Type source = ''serving-archive''"

definition workspace_job :: "CodeSource \<Rightarrow> bool" where
  "workspace_job source \<longleftrightarrow> src_Type source = ''workspace'' \<or> src_Type source = ''workspace-archive''"

definition materializer_mounts :: "CodeSource \<Rightarrow> JobSpec \<Rightarrow> any list" where
  "materializer_mounts source jobSpec =
     (let personal = roots_Personal (spec_ResolvedDataRoots jobSpec);
          subPath = (case personal of None \<Rightarrow> [] | Some p \<Rightarrow> root_SubPath p) in
      if src_Type source = ''workspace'' \<and> personal = None then [workspace_mount]
      else [workspace_mount] @
        (if archive_job source
         then [Obj [(''name'', Str ''evaluation-source-events''), (''mountPath'', Str trainingEventTokenMountPath), (''readOnly'', Flag True)]] else []) @
        (if workspace_job source
         then [Obj ([(''name'', Str ''workspace-snapshot-source''), (''mountPath'', Str ''/mnt/platform-workspace-snapshot''), (''readOnly'', Flag True)] @
                 (if subPath \<noteq> [] then [(''subPath'', Str subPath)] else []))] else []))"

definition secret_variable :: "string \<Rightarrow> string \<Rightarrow> any" where
  "secret_variable secret key = Obj [(''name'', Str key), (''valueFrom'', Obj [(''secretKeyRef'', Obj [(''name'', Str secret), (''key'', Str key)])])]"

definition resource_list :: "string \<Rightarrow> string \<Rightarrow> any" where
  "resource_list cpu memory = Obj [(''cpu'', Str cpu), (''memory'', Str memory)]"

definition sourceMaterializer :: "string \<Rightarrow> CodeSource \<Rightarrow> JobSpec \<Rightarrow> RenderOptions \<Rightarrow> any" where
  "sourceMaterializer tenantID source jobSpec options =
     (let secret = opt_GitCredentialSecret options in
      Obj [(''name'', Str ''source-materializer''), (''image'', Str (opt_SourceMaterializerImage options)),
        (''imagePullPolicy'', Str ''IfNotPresent''), (''command'', Arr [Str ''/bin/sh'', Str ''-c'']),
        (''args'', Arr [Str (materializer_command tenantID source jobSpec options)]),
        (''env'', Arr (if src_Type source = ''git'' \<and> secret \<noteq> [] then map (secret_variable secret) [''GIT_USERNAME'', ''GIT_TOKEN''] else [])),
        (''resources'', Obj [(''requests'', resource_list ''100m'' ''256Mi''), (''limits'', resource_list ''1'' ''1Gi'')]),
        (''securityContext'', Obj [(''runAsNonRoot'', Flag True), (''runAsUser'', Num 1000), (''runAsGroup'', Num 1000),
           (''allowPrivilegeEscalation'', Flag False), (''capabilities'', drop_all)]),
        (''volumeMounts'', Arr (materializer_mounts source jobSpec))])"

definition datasetCachePreloader :: "render_lib \<Rightarrow> string \<Rightarrow> any list \<Rightarrow> LocalCacheOptions \<Rightarrow> string \<Rightarrow> any" where
  "datasetCachePreloader lib img workerMounts cache jobId =
     (let mounts = filter (\<lambda>m. str_field m ''name'' = ''local-cache-data1'' \<or> str_field m ''name'' = ''local-cache-data2'' \<or>
            str_field m ''mountPath'' = DataMountInputPath) workerMounts;
          perDisk = (case lib_ParseQuantity lib (lc_resolvedSizePerDisk cache) of Some q \<Rightarrow> lib_Value lib q | None \<Rightarrow> 0) in
      Obj [(''name'', Str ''dataset-cache-preloader''), (''image'', Str img), (''imagePullPolicy'', Str ''IfNotPresent''),
        (''command'', Arr [Str ''python3'', Str ''/usr/local/bin/platform-stage-dataset.py'']),
        (''env'', Arr ([env_var ''PLATFORM_DATASET_SOURCE_PATH'' DataMountInputPath,
           env_var ''PLATFORM_CACHE_PATHS'' (lc_MountPathData1 cache @ '':'' @ lc_MountPathData2 cache),
           env_var ''PLATFORM_CACHE_STAGE_TIMEOUT'' ''14400'', env_var ''PLATFORM_CACHE_COPY_WORKERS'' ''32'',
           env_var ''PLATFORM_CACHE_LIMIT_BYTES_PER_DISK'' (decimal perDisk)] @ managedMetricIdentityEnvironment jobId)),
        (''resources'', Obj [(''requests'', resource_list ''2'' ''1Gi''), (''limits'', resource_list ''8'' ''4Gi'')]),
        (''securityContext'', Obj [(''runAsNonRoot'', Flag True), (''runAsUser'', Num 65532), (''runAsGroup'', Num 65532),
           (''allowPrivilegeEscalation'', Flag False), (''capabilities'', drop_all)]),
        (''volumeMounts'', Arr mounts)])"

subsection \<open>The template, part by part\<close>

text \<open>
  \<open>pod\<close> gathers the arguments that are the same for the three templates of a job and the four that differ; the parts below are
  the consecutive stretches of \<open>podTemplate\<close>.
\<close>

record pod =
  pod_name :: string
  pod_gpus :: int
  pod_head :: bool
  pod_data :: bool \<comment> \<open>\<open>mountData\<close>\<close>
  pod_source :: bool \<comment> \<open>\<open>materializeSource\<close>\<close>

definition managed_spec :: "JobSpec \<Rightarrow> bool" where
  "managed_spec jobSpec \<longleftrightarrow> TrainingEngine_Resolved (spec_TrainingEngine jobSpec) = TrainingEngineRayTrain"

definition worker_pod :: "pod \<Rightarrow> bool" where
  "worker_pod p \<longleftrightarrow> \<not> pod_head p \<and> pod_name p = ''ray-worker''"

definition pod_resources :: "string \<Rightarrow> string \<Rightarrow> int \<Rightarrow> any" where
  "pod_resources cpu memory gpus =
     (let xs = (if gpus > 0 then put ''nvidia.com/gpu'' (Str (decimal gpus)) (resource_list cpu memory) else resource_list cpu memory) in
      Obj [(''requests'', xs), (''limits'', xs)])"

definition base_environment :: "pod \<Rightarrow> JobSpec \<Rightarrow> RenderOptions \<Rightarrow> any list" where
  "base_environment p jobSpec options =
     [env_var ''PYTHONUNBUFFERED'' ''1'', env_var ''RAY_DISABLE_DOCKER_CPU_WARNING'' ''1''] @
     (if managed_spec jobSpec then
        [env_var ''RAYTRAIN_CLUSTER_ATTEMPT'' (decimal (opt_clusterAttempt options))] @
        (if worker_pod p then managedMetricIdentityEnvironment (opt_trainingEventJobID options) else []) else []) @
     (if pod_data p then platformDataEnvironment jobSpec (opt_managedResumePath options) else []) @
     (if ml_Enabled (opt_MLflow options) then mlflowEnvironment (opt_MLflow options) else []) @
     (if \<not> pod_head p then [env_var ''NCCL_P2P_DISABLE'' ''1'', env_var ''NCCL_IB_DISABLE'' ''1'', env_var ''NCCL_DEBUG'' ''WARN''] else [])"

definition base_mounting :: "RenderOptions \<Rightarrow> mounting" where
  "base_mounting options =
     (let spill = (\<not> lc_runtime (opt_LocalCache options)) in
      ([workspace_mount, Obj [(''name'', Str ''dshm''), (''mountPath'', Str ''/dev/shm'')]] @
         (if spill then [Obj [(''name'', Str ''ray-spill''), (''mountPath'', Str ''/tmp/ray-spill'')]] else []),
       [Obj [(''name'', Str ''workspace''), (''emptyDir'', Obj [])],
        Obj [(''name'', Str ''dshm''), (''emptyDir'', Obj [(''medium'', Str ''Memory''), (''sizeLimit'', Str ''32Gi'')])]] @
         (if spill then [Obj [(''name'', Str ''ray-spill''), (''emptyDir'', Obj [])]] else [])))"

definition pod_data_mounts :: "pod \<Rightarrow> JobSpec \<Rightarrow> mounting \<Rightarrow> mounting" where
  "pod_data_mounts p jobSpec m =
     (if pod_data p then appendResolvedDataSpaceMounts (spec_ResolvedDataMounts jobSpec)
          (appendTrainingDataRoots (spec_ResolvedDataRoots jobSpec) (appendResolvedStorageMounts (spec_ResolvedStorage jobSpec) m))
      else m)"

definition pod_streaming :: "pod \<Rightarrow> JobSpec \<Rightarrow> RenderOptions \<Rightarrow> mounting \<times> any list \<Rightarrow> (mounting \<times> any list) result" where
  "pod_streaming p jobSpec options m =
     (if pod_data p \<and> spec_DataMode jobSpec = DataModeStreaming then
        (case opt_DatasetManifest options of
           None \<Rightarrow> Inl (RuntimePanic ''nil dataset manifest'')
         | Some mount \<Rightarrow> Inr (appendStreamingDatasetRoot mount (spec_CachePolicy jobSpec) (ref_Sites (spec_DatasetRef jobSpec)) m))
      else Inr m)"

definition pod_events :: "pod \<Rightarrow> JobSpec \<Rightarrow> RenderOptions \<Rightarrow> mounting \<times> any list \<Rightarrow> mounting \<times> any list" where
  "pod_events p jobSpec options m =
     (if pod_data p \<and> managed_spec jobSpec then
        let (mounts, env) = appendTrainingEventCredential options m in
        (mounts, if worker_pod p then appendServingRuntime (spec_ServingRuntime jobSpec) options
             (appendEvaluationRuntime (spec_EvaluationRuntime jobSpec) options env) else env)
      else m)"

definition pod_source_volumes :: "pod \<Rightarrow> CodeSource \<Rightarrow> JobSpec \<Rightarrow> RenderOptions \<Rightarrow> mounting \<Rightarrow> mounting" where
  "pod_source_volumes p source jobSpec options m =
     (fst m, snd m @
       (if pod_source p \<and> workspace_job source then
          (case roots_Personal (spec_ResolvedDataRoots jobSpec) of None \<Rightarrow> []
           | Some personal \<Rightarrow> [pvcVolume ''workspace-snapshot-source'' (root_ClaimName personal) True]) else []) @
       (if pod_source p \<and> archive_job source then [evaluationSourceCredentialVolume (opt_trainingEventJobID options)] else []))"

definition dual_cache :: "pod \<Rightarrow> JobSpec \<Rightarrow> bool" where
  "dual_cache p jobSpec \<longleftrightarrow> \<not> pod_head p \<or> spec_DataMode jobSpec = DataModeRayData \<or> spec_DataMode jobSpec = DataModeRayDataStage"

definition pod_cache :: "pod \<Rightarrow> JobSpec \<Rightarrow> RenderOptions \<Rightarrow> mounting \<times> any list \<Rightarrow> mounting \<times> any list" where
  "pod_cache p jobSpec options m =
     (let cache = opt_LocalCache options; dual = dual_cache p jobSpec in
      if pod_data p \<and> lc_runtime cache then
        (appendLocalCache cache dual (fst m),
         snd m @ [env_var ''PLATFORM_CACHE_PATH'' (lc_MountPathData1 cache),
           env_var ''PLATFORM_CACHE_PATHS'' (lc_MountPathData1 cache @ (if dual then '':'' @ lc_MountPathData2 cache else [])),
           env_var ''RAY_object_spilling_config'' (rayObjectSpillingConfig ([Join [lc_MountPathData1 cache, ''ray-spill'', ''objects'']] @
             (if dual then [Join [lc_MountPathData2 cache, ''ray-spill'', ''objects'']] else [])))])
      else m)"

definition preload_input :: "pod \<Rightarrow> JobSpec \<Rightarrow> RenderOptions \<Rightarrow> bool" where
  "preload_input p jobSpec options \<longleftrightarrow> pod_data p \<and> \<not> pod_head p \<and> lc_runtime (opt_LocalCache options) \<and>
     (spec_DataMode jobSpec = [] \<or> spec_DataMode jobSpec = DataModeCache) \<and> cache_Preload (spec_Cache jobSpec) = CachePreloadInput"

definition dataset_view :: "RenderOptions \<Rightarrow> string \<Rightarrow> any list \<Rightarrow> any list" where \<comment> \<open>the worker reads the staged copy\<close>
  "dataset_view options mode env = set_environment [
     (''PLATFORM_DATASET_SOURCE_PATH'', environmentValue env ''PLATFORM_DATASET_PATH''),
     (''PLATFORM_DATASET_PATH'', Join [lc_MountPathData1 (opt_LocalCache options), ''dataset-view'']),
     (''PLATFORM_CACHE_PRELOAD'', mode)] env"

definition pod_dataset_view :: "pod \<Rightarrow> JobSpec \<Rightarrow> RenderOptions \<Rightarrow> any list \<Rightarrow> any list" where
  "pod_dataset_view p jobSpec options env =
     (let env1 = (if preload_input p jobSpec options then dataset_view options CachePreloadInput env else env) in
      if pod_data p \<and> \<not> pod_head p \<and> lc_runtime (opt_LocalCache options) \<and> spec_DataMode jobSpec = DataModeRayDataStage
      then dataset_view options DataModeRayDataStage env1 else env1)"

definition port :: "string \<Rightarrow> int \<Rightarrow> any" where
  "port name number = Obj [(''name'', Str name), (''containerPort'', Num number), (''protocol'', Str ''TCP'')]"

definition pod_ports :: "pod \<Rightarrow> JobSpec \<Rightarrow> (string \<times> any) list" where
  "pod_ports p jobSpec =
     (if managed_spec jobSpec \<and> pod_name p = ''ray-head'' then
        [(''ports'', Arr [port ''gcs'' 6379, port ''dashboard'' 8265, port ''client'' 10001, port ''metrics'' 8080])]
      else if managed_spec jobSpec \<and> pod_name p = ''ray-worker'' then
        [(''ports'', Arr ([port ''metrics'' 8080] @ (if spec_ServingRuntime jobSpec \<noteq> None then [port ''model-http'' 8000] else [])))]
      else [])"

definition pod_mounting :: "pod \<Rightarrow> CodeSource \<Rightarrow> JobSpec \<Rightarrow> RenderOptions \<Rightarrow> (mounting \<times> any list) result" where
  "pod_mounting p source jobSpec options =
     map_sum id (\<lambda>m.
       let (mounts, env) = pod_events p jobSpec options m;
           (mounts', env') = pod_cache p jobSpec options (pod_source_volumes p source jobSpec options mounts, env) in
       (mounts', pod_dataset_view p jobSpec options env'))
       (pod_streaming p jobSpec options (pod_data_mounts p jobSpec (base_mounting options), base_environment p jobSpec options))"

definition init_containers :: "render_lib \<Rightarrow> pod \<Rightarrow> string \<Rightarrow> CodeSource \<Rightarrow> JobSpec \<Rightarrow> RenderOptions \<Rightarrow> any list \<Rightarrow> (string \<times> any) list" where
  \<comment> \<open>the second assignment replaces the first\<close>
  "init_containers lib p tenantID source jobSpec options volumeMounts =
     (if preload_input p jobSpec options
      then [(''initContainers'', Arr [datasetCachePreloader lib (opt_SourceMaterializerImage options) volumeMounts (opt_LocalCache options) (opt_trainingEventJobID options)])]
      else if pod_source p then [(''initContainers'', Arr [sourceMaterializer tenantID source jobSpec options])] else [])"

definition pod_fs_group :: "pod \<Rightarrow> CodeSource \<Rightarrow> JobSpec \<Rightarrow> RenderOptions \<Rightarrow> bool" where
  "pod_fs_group p source jobSpec options \<longleftrightarrow> pod_source p \<and> archive_job source \<or>
     pod_data p \<and> (lc_runtime (opt_LocalCache options) \<or> spec_ServingRuntime jobSpec \<noteq> None)"

definition podTemplate :: "render_lib \<Rightarrow> pod \<Rightarrow> string \<Rightarrow> string \<Rightarrow> string \<Rightarrow> string \<Rightarrow> CodeSource \<Rightarrow> JobSpec \<Rightarrow> RenderOptions \<Rightarrow> any result" where
  "podTemplate lib p img cpu memory tenantID source jobSpec options =
     map_sum id (\<lambda>((volumeMounts, volumes), env).
       let container = Obj ([(''name'', Str (pod_name p)), (''image'', Str img), (''imagePullPolicy'', Str (RuntimeImagePullPolicy img)),
             (''workingDir'', Str ''/workspace''), (''resources'', pod_resources cpu memory (pod_gpus p)), (''env'', Arr env),
             (''volumeMounts'', Arr volumeMounts),
             (''securityContext'', Obj [(''allowPrivilegeEscalation'', Flag False), (''capabilities'', drop_all)])] @ pod_ports p jobSpec);
           account = opt_ServiceAccount options;
           pullSecrets = renderImagePullSecrets (opt_ImagePullSecrets options);
           tolerations = dedicatedNodeTolerations tenantID (opt_DedicatedNodes options) in
       Obj [(''spec'', Obj (
         (if account = [] then [] else [(''serviceAccountName'', Str account)]) @
         [(''automountServiceAccountToken'', Flag (account \<noteq> [])),
          (''securityContext'', Obj ([(''seccompProfile'', Obj [(''type'', Str ''RuntimeDefault'')])] @
             (if pod_fs_group p source jobSpec options then [(''fsGroup'', Num 1000)] else []))),
          (''containers'', Arr [container]), (''volumes'', Arr volumes)] @
         init_containers lib p tenantID source jobSpec options volumeMounts @
         (if pullSecrets \<noteq> [] then [(''imagePullSecrets'', Arr pullSecrets)] else []) @
         [(''nodeSelector'', trainingNodeSelector options)] @
         (case dedicatedNodeAffinity tenantID (opt_DedicatedNodes options) of None \<Rightarrow> [] | Some affinity \<Rightarrow> [(''affinity'', affinity)]) @
         (if tolerations \<noteq> [] then [(''tolerations'', Arr tolerations)] else [])))])
     (pod_mounting p source jobSpec options)"

subsection \<open>Every container mounts declared volumes\<close>

interpretation dataset_root: mount_step "append_dataset_root mount" "{''platform-dataset-root''}" for mount
proof (rule mount_step_one)
  fix ms vs
  show "\<exists>x n vs'. append_dataset_root mount (ms, vs) = (ms @ x, vs') \<and> (\<forall>y \<in> set x. str_field y ''name'' = n) \<and>
      (volume_names vs' = volume_names vs \<and> n \<in> set (volume_names vs) \<or> volume_names vs' = volume_names vs @ [''platform-dataset-root''] \<and> n = ''platform-dataset-root'')"
    using pvcVolumeName_declared [of vs "dmm_ClaimName mount"]
    by (cases "pvcVolumeName vs (dmm_ClaimName mount) = []") (simp_all add: append_dataset_root_def)
qed

lemma cache_device_step: "mount_step (cache_device d n c p) {n}"
  by (rule mount_step_one) (simp add: cache_device_def)

interpretation local_cache: mount_step "appendLocalCache cache dual" "{''local-cache-data1'', ''local-cache-data2''}" for cache dual
proof (cases dual)
  case True
  show "mount_step (appendLocalCache cache dual) {''local-cache-data1'', ''local-cache-data2''}"
    using True mount_step_comp [OF cache_device_step [of "lc_resolvedSizePerDisk cache" "''local-cache-data1''" "lc_StorageClassData1 cache" "lc_MountPathData1 cache"]
        cache_device_step [of "lc_resolvedSizePerDisk cache" "''local-cache-data2''" "lc_StorageClassData2 cache" "lc_MountPathData2 cache"]]
    by (simp add: appendLocalCache_def [abs_def] Let_def insert_commute)
next
  case False
  then have "appendLocalCache cache dual = cache_device (lc_resolvedSizePerDisk cache) ''local-cache-data1'' (lc_StorageClassData1 cache) (lc_MountPathData1 cache)"
    by (simp add: appendLocalCache_def fun_eq_iff Let_def)
  then show "mount_step (appendLocalCache cache dual) {''local-cache-data1'', ''local-cache-data2''}"
    using mount_step_mono [OF cache_device_step] by simp
qed

lemma data_mounts_step: "mount_step (pod_data_mounts p jobSpec)
  {''platform-dataset'', ''platform-checkpoint'', ''platform-output'', ''platform-data-personal'', ''platform-data-team'', ''platform-data-public'',
   ''platform-data-input'', ''platform-data-checkpoint'', ''platform-data-output''}"
proof (cases "pod_data p")
  case True
  then show ?thesis
    using mount_step_comp [OF mount_step_comp [OF storage_mounts.mount_step_axioms [of "spec_ResolvedStorage jobSpec"]
        training_roots.mount_step_axioms [of "spec_ResolvedDataRoots jobSpec"]] space_mounts.mount_step_axioms [of "spec_ResolvedDataMounts jobSpec"]]
    by (simp add: pod_data_mounts_def [abs_def] insert_commute)
next
  case False
  then have "pod_data_mounts p jobSpec = (\<lambda>m. m)" by (simp add: pod_data_mounts_def fun_eq_iff)
  then show ?thesis by (simp add: mount_step_id)
qed

lemma streaming_extends:
  assumes "pod_streaming p jobSpec options m = Inr m'"
  shows "mount_extends {''platform-dataset-root''} (fst m) (fst m')"
  using assms dataset_root.grows [of "fst m"]
  by (auto simp: pod_streaming_def appendStreamingDatasetRoot_def mount_extends_refl split: if_splits option.splits)

lemma events_extends: "mount_extends {''managed-training-events''} (fst m) (fst (pod_events p jobSpec options m))"
proof -
  have "mount_extends {''managed-training-events''} (fst m) (fst (appendTrainingEventCredential options m))"
    unfolding mount_extends_def
    by (intro exI [of _ "[''managed-training-events'']"] exI [of _ "[Obj [(''name'', Str ''managed-training-events''),
        (''mountPath'', Str trainingEventTokenMountPath), (''readOnly'', Flag True)]]"])
      (auto simp: appendTrainingEventCredential_def token_secret_volume_def Let_def split: prod.splits)
  then show ?thesis by (auto simp: pod_events_def mount_extends_refl split: prod.splits)
qed

lemma source_volumes_extends:
  "mount_extends {''workspace-snapshot-source'', ''evaluation-source-events''} m (pod_source_volumes p source jobSpec options m)"
  unfolding mount_extends_def pod_source_volumes_def
  by (auto simp: archive_job_def workspace_job_def evaluationSourceCredentialVolume_def token_secret_volume_def split: option.splits)

lemma cache_extends: "mount_extends {''local-cache-data1'', ''local-cache-data2''} (fst m) (fst (pod_cache p jobSpec options m))"
  using local_cache.grows [of "fst m"] by (auto simp: pod_cache_def Let_def mount_extends_refl)

text \<open>The names a pod may use besides those of the base mounts.\<close>

definition governed_volumes :: "string list" where
  "governed_volumes = [''platform-dataset'', ''platform-checkpoint'', ''platform-output'', ''platform-data-personal'', ''platform-data-team'', ''platform-data-public'',
     ''platform-data-input'', ''platform-data-checkpoint'', ''platform-data-output'', ''platform-dataset-root'', ''managed-training-events'',
     ''workspace-snapshot-source'', ''evaluation-source-events'', ''local-cache-data1'', ''local-cache-data2'']"

lemma pod_mounting_extends:
  assumes "pod_mounting p source jobSpec options = Inr (m, env)"
  shows "mount_extends (set governed_volumes) (base_mounting options) m"
proof -
  obtain x where s: "pod_streaming p jobSpec options (pod_data_mounts p jobSpec (base_mounting options), base_environment p jobSpec options) = Inr x"
    and m: "m = fst (pod_cache p jobSpec options (pod_source_volumes p source jobSpec options (fst (pod_events p jobSpec options x)),
      snd (pod_events p jobSpec options x)))"
    using assms unfolding pod_mounting_def Let_def map_sum_Inr case_prod_unfold by auto
  note chain = mount_extends_trans [OF mount_extends_trans [OF mount_extends_trans [OF mount_extends_trans
    [OF mount_step.grows [OF data_mounts_step] streaming_extends [OF s, unfolded fst_conv]] events_extends [of x]]
    source_volumes_extends] cache_extends [of "(_, _)", unfolded fst_conv]]
  show ?thesis unfolding m
    by (rule mount_extends_mono [OF chain]) (simp_all add: governed_volumes_def)
qed

text \<open>Reading a template: the lists below its \<open>spec\<close> and the mounts of a container.\<close>

definition items :: "any option \<Rightarrow> any list" where
  "items x = (case x of Some (Arr xs) \<Rightarrow> xs | _ \<Rightarrow> [])"

definition pod_part :: "string \<Rightarrow> any \<Rightarrow> any list" where
  "pod_part k t = items (field (sub_map t ''spec'') k)"

definition pod_containers :: "any \<Rightarrow> any list" where
  "pod_containers t = pod_part ''containers'' t @ pod_part ''initContainers'' t"

definition well_mounted :: "any \<Rightarrow> bool" where
  "well_mounted t \<longleftrightarrow> distinct (volume_names (pod_part ''volumes'' t)) \<and>
     list_all (\<lambda>c. mounts_declared (items (field c ''volumeMounts''), pod_part ''volumes'' t)) (pod_containers t)"

lemma items_Arr [simp]: "items (Some (Arr xs)) = xs" "items None = []"
  by (simp_all add: items_def)

definition container_of :: "pod \<Rightarrow> string \<Rightarrow> string \<Rightarrow> string \<Rightarrow> JobSpec \<Rightarrow> any list \<Rightarrow> any list \<Rightarrow> any" where \<comment> \<open>the main container\<close>
  "container_of p img cpu memory jobSpec env volumeMounts =
     Obj ([(''name'', Str (pod_name p)), (''image'', Str img), (''imagePullPolicy'', Str (RuntimeImagePullPolicy img)),
       (''workingDir'', Str ''/workspace''), (''resources'', pod_resources cpu memory (pod_gpus p)), (''env'', Arr env),
       (''volumeMounts'', Arr volumeMounts),
       (''securityContext'', Obj [(''allowPrivilegeEscalation'', Flag False), (''capabilities'', drop_all)])] @ pod_ports p jobSpec)"

lemma podTemplate_parts:
  assumes "podTemplate lib p img cpu memory tenantID source jobSpec options = Inr t"
  obtains volumeMounts volumes env where "pod_mounting p source jobSpec options = Inr ((volumeMounts, volumes), env)"
    and "pod_part ''volumes'' t = volumes"
    and "pod_part ''containers'' t = [container_of p img cpu memory jobSpec env volumeMounts]"
    and "pod_part ''initContainers'' t = items (map_of (init_containers lib p tenantID source jobSpec options volumeMounts) ''initContainers'')"
proof -
  obtain volumeMounts volumes env where m: "pod_mounting p source jobSpec options = Inr ((volumeMounts, volumes), env)"
    using assms unfolding podTemplate_def map_sum_Inr by (metis prod.collapse)
  note t = assms [unfolded podTemplate_def m container_of_def [symmetric] Let_def, simplified, symmetric]
  show ?thesis
    by (rule that [OF m])
      (auto simp: t pod_part_def sub_map_def init_containers_def map_add_def split: option.splits)
qed

lemma container_of_fields [simp]:
  "field (container_of p img cpu memory jobSpec env ms) ''volumeMounts'' = Some (Arr ms)"
  "field (container_of p img cpu memory jobSpec env ms) ''env'' = Some (Arr env)"
  "field (container_of p img cpu memory jobSpec env ms) ''resources'' = Some (pod_resources cpu memory (pod_gpus p))"
  by (simp_all add: container_of_def)

lemma base_mounting_ok: "mounts_declared (base_mounting options)" "distinct (volume_names (snd (base_mounting options)))"
  "set (volume_names (snd (base_mounting options))) \<inter> set governed_volumes = {}"
  "''workspace'' \<in> set (volume_names (snd (base_mounting options)))"
  by (auto simp: base_mounting_def mounts_declared_def workspace_mount_def governed_volumes_def Let_def)

lemma pod_source_names:
  assumes "pod_mounting p source jobSpec options = Inr (m, env)" "pod_source p"
  shows "workspace_job source \<Longrightarrow> roots_Personal (spec_ResolvedDataRoots jobSpec) \<noteq> None \<Longrightarrow> ''workspace-snapshot-source'' \<in> set (volume_names (snd m))"
    and "archive_job source \<Longrightarrow> ''evaluation-source-events'' \<in> set (volume_names (snd m))"
    and "''workspace'' \<in> set (volume_names (snd m))"
proof -
  obtain x where m: "m = fst (pod_cache p jobSpec options (pod_source_volumes p source jobSpec options (fst (pod_events p jobSpec options x)),
      snd (pod_events p jobSpec options x)))"
    using assms unfolding pod_mounting_def Let_def map_sum_Inr case_prod_unfold by auto
  have later: "set (volume_names (snd (pod_source_volumes p source jobSpec options (fst (pod_events p jobSpec options x))))) \<subseteq> set (volume_names (snd m))"
    using cache_extends [of "(pod_source_volumes p source jobSpec options (fst (pod_events p jobSpec options x)), snd (pod_events p jobSpec options x))" p jobSpec options]
    unfolding mount_extends_def m by auto
  show "workspace_job source \<Longrightarrow> roots_Personal (spec_ResolvedDataRoots jobSpec) \<noteq> None \<Longrightarrow> ''workspace-snapshot-source'' \<in> set (volume_names (snd m))"
    using later assms(2) by (auto simp: pod_source_volumes_def)
  show "archive_job source \<Longrightarrow> ''evaluation-source-events'' \<in> set (volume_names (snd m))"
    using later assms(2) by (auto simp: pod_source_volumes_def evaluationSourceCredentialVolume_def token_secret_volume_def)
  show "''workspace'' \<in> set (volume_names (snd m))"
    using pod_mounting_extends [OF assms(1)] base_mounting_ok(4) [of options] by (auto simp: mount_extends_def)
qed

lemma podTemplate_well_mounted:
  assumes t: "podTemplate lib p img cpu memory tenantID source jobSpec options = Inr t"
    and personal: "pod_source p \<Longrightarrow> workspace_job source \<Longrightarrow> roots_Personal (spec_ResolvedDataRoots jobSpec) \<noteq> None"
  shows "well_mounted t"
proof -
  from t obtain ms vs env where m: "pod_mounting p source jobSpec options = Inr ((ms, vs), env)"
    and parts: "pod_part ''volumes'' t = vs" "pod_part ''containers'' t = [container_of p img cpu memory jobSpec env ms]"
      "pod_part ''initContainers'' t = items (map_of (init_containers lib p tenantID source jobSpec options ms) ''initContainers'')"
    by (rule podTemplate_parts)
  note ext = pod_mounting_extends [OF m]
  have declared: "mounts_declared (ms, vs)" by (rule mount_extends_declared [OF ext base_mounting_ok(1)])
  have "mounts_declared (items (field c ''volumeMounts''), vs)" if "c \<in> set (pod_part ''initContainers'' t)" for c
  proof (cases "preload_input p jobSpec options")
    case True
    then show ?thesis using that parts(3) declared
      by (auto simp: init_containers_def datasetCachePreloader_def Let_def mounts_declared_def list_all_iff)
  next
    case False
    then have source: "pod_source p" "c = sourceMaterializer tenantID source jobSpec options"
      using that parts(3) by (auto simp: init_containers_def split: if_splits)
    have "field c ''volumeMounts'' = Some (Arr (materializer_mounts source jobSpec))"
      by (simp add: source(2) sourceMaterializer_def Let_def)
    then show ?thesis using pod_source_names [OF m source(1)] personal [OF source(1)]
      by (auto simp: materializer_mounts_def mounts_declared_def workspace_mount_def Let_def)
  qed
  moreover have "distinct (volume_names vs)" using mount_extends_distinct [OF ext base_mounting_ok(2,3)] by simp
  ultimately show ?thesis using declared by (auto simp: well_mounted_def pod_containers_def parts(1,2) list_all_iff)
qed

subsection \<open>Later changes of a template\<close>

lemma pod_part_metadata: "pod_part k (put ''metadata'' v t) = pod_part k t"
  by (cases t) (simp_all add: pod_part_def sub_map_def update_conv')

lemma pod_part_spec: "k \<noteq> j \<Longrightarrow> pod_part k (put ''spec'' (put j v (sub_map t ''spec'')) t) = pod_part k t"
proof (cases t)
  case (Obj m)
  have "\<exists>xs. sub_map t ''spec'' = Obj xs" by (auto simp: sub_map_def split: option.split any.split)
  then obtain xs where "sub_map t ''spec'' = Obj xs" by blast
  then show "k \<noteq> j \<Longrightarrow> ?thesis" by (simp add: Obj pod_part_def sub_map_def update_conv')
qed (simp_all add: pod_part_def sub_map_def)

lemma pod_part_changes:
  "pod_part k (addPodLabels i n t) = pod_part k t"
  "pod_part k (addPodAnnotation a b t) = pod_part k t"
  "k \<noteq> ''affinity'' \<Longrightarrow> pod_part k (addPreferredNodeAffinity names t) = pod_part k t"
  by (simp_all add: addPodLabels_def addPodAnnotation_def addPreferredNodeAffinity_def Let_def pod_part_metadata pod_part_spec)

end
