(* ===== verification/Kube_Render.thy ===== *)
theory Kube_Render
  imports Kube_Pod Reconciler
begin

section \<open>The RayJob manifest\<close>

text \<open>
  \<open>RenderRayJob\<close> of \<open>backend/k8s/rayjob.go\<close> in full: the checks, the resolved options, the three pod templates and the
  \<open>map[string]any\<close> sent to the API server. The theory \<open>Reconciler\<close> works with the part of this object the reconciler and
  the client read; \<open>rendered_view\<close> is that part.
\<close>

definition positive_quantity :: "render_lib \<Rightarrow> string \<Rightarrow> bool" where
  "positive_quantity lib s \<longleftrightarrow> (case lib_ParseQuantity lib s of Some q \<Rightarrow> q > 0 | None \<Rightarrow> False)"

definition runtime_cache :: "LocalCacheOptions \<Rightarrow> CacheRequest" where
  "runtime_cache cache = \<lparr>cache_Mode = CacheModeRuntime, cache_Size = lc_DefaultSize cache, cache_Preload = []\<rparr>"

definition ray_data_mode :: "JobSpec \<Rightarrow> bool" where
  "ray_data_mode spec \<longleftrightarrow> spec_DataMode spec = DataModeRayData \<or> spec_DataMode spec = DataModeRayDataStage"

definition cache_request :: "JobSpec \<Rightarrow> LocalCacheOptions \<Rightarrow> CacheRequest" where
  "cache_request spec cache =
     (let request = spec_Cache spec;
          request1 = (if ray_data_mode spec \<and> (cache_Mode request = [] \<or> cache_Mode request = CacheModeOff) then runtime_cache cache else request) in
      if spec_DataMode spec = DataModeStreaming then
        if spec_CachePolicy spec = ''bounded'' then runtime_cache cache
        else if spec_CachePolicy spec = ''auto'' then (if lc_Enabled cache then runtime_cache cache else request1)
        else if spec_CachePolicy spec = ''off'' then \<lparr>cache_Mode = CacheModeOff, cache_Size = [], cache_Preload = []\<rparr>
        else request1
      else request1)"

definition evaluation_job :: "TrainingJob \<Rightarrow> bool" where
  "evaluation_job job \<longleftrightarrow> job_SubmissionOrigin job = SubmissionOriginEvaluation"

definition serving_job :: "TrainingJob \<Rightarrow> bool" where
  "serving_job job \<longleftrightarrow> job_SubmissionOrigin job = SubmissionOriginServing"

definition validate_evaluation :: "TrainingJob \<Rightarrow> error option" where
  "validate_evaluation job =
     (if \<not> evaluation_job job then None
      else case spec_EvaluationRuntime (job_Spec job) of
        Some runtime \<Rightarrow>
          if \<not> managed_job job then Some (Errorf ''evaluation requires a managed worker with trusted runtime'' [])
          else first_error [EvaluationRuntime_Validate runtime, EvaluationRuntime_ValidateCodeSource runtime (spec_Source (job_Spec job))]
      | None \<Rightarrow> Some (Errorf ''evaluation requires a managed worker with trusted runtime'' []))"

definition validate_serving :: "TrainingJob \<Rightarrow> error option" where
  "validate_serving job =
     (let spec = job_Spec job; bad = Errorf ''serving requires one managed GPU worker, no automatic retries and trusted runtime'' [] in
      if \<not> serving_job job then None
      else case spec_ServingRuntime spec of
        Some runtime \<Rightarrow>
          if \<not> managed_job job \<or> res_WorkerReplicas (spec_Resources spec) \<noteq> 1 \<or> res_GPUsPerWorker (spec_Resources spec) \<noteq> 1 \<or>
             mtp_MaxFailures (spec_Managed spec) \<noteq> 0
          then Some bad else ServingRuntime_ValidateCodeSource runtime (spec_Source spec)
      | None \<Rightarrow> Some bad)"

definition trusted_runtimes :: "TrainingJob \<Rightarrow> TrainingJob" where \<comment> \<open>a runtime of another origin is dropped\<close>
  "trusted_runtimes job = job\<lparr>job_Spec := (job_Spec job)\<lparr>
     spec_EvaluationRuntime := (if evaluation_job job then spec_EvaluationRuntime (job_Spec job) else None),
     spec_ServingRuntime := (if serving_job job then spec_ServingRuntime (job_Spec job) else None)\<rparr>\<rparr>"

definition validate_source :: "TrainingJob \<Rightarrow> string \<Rightarrow> error option" where \<comment> \<open>of the job with its trusted runtimes; the checked base URL\<close>
  "validate_source job baseURL =
     (let spec = job_Spec job; source = spec_Source spec;
          evaluationArchive = (evaluation_job job \<and> src_Type source = ''evaluation-archive'' \<and> spec_EvaluationRuntime spec \<noteq> None);
          servingArchive = (serving_job job \<and> src_Type source = ''serving-archive'' \<and> spec_ServingRuntime spec \<noteq> None) in first_error [
        (if evaluationArchive \<or> servingArchive then validateEvaluationCodeBaseURL baseURL else None),
        check (src_Type source \<noteq> ''git'' \<and> \<not> workspace_job source \<and> \<not> evaluationArchive \<and> \<not> servingArchive)
          (Errorf ''unsupported Ray workload code source %q'' [ArgS (src_Type source)]),
        check (workspace_job source \<and> roots_Personal (spec_ResolvedDataRoots spec) = None)
          (Errorf ''workspace-derived source requires a resolved personal data mount'' []),
        (if src_Type source = ''workspace-archive'' then first_error [
           check (blank (src_ArtifactID source) \<or> blank (src_ArtifactSHA256 source))
             (Errorf ''workspace archive source must be materialized before rendering'' []),
           check (isl (SourceArtifactMountedArchivePath (job_TenantID job) (src_ArtifactObjectKey source) (src_ArtifactID source) (src_ArtifactSHA256 source)))
             (Errorf ''workspace archive source is not owner scoped'' [])] else None)])"

definition resolved_options :: "render_lib \<Rightarrow> RenderOptions \<Rightarrow> TrainingJob \<Rightarrow> RenderOptions result" where
  \<comment> \<open>the checks up to the namespace, with the options they resolve\<close>
  "resolved_options lib options job =
     (let spec = job_Spec job in
      or_fail (first_error [
        wrap ''validate job spec: %w'' [] (JobSpec_Validate (positive_quantity lib) (lib_limits lib) spec),
        (if spec_DataMode spec = DataModeStreaming
         then wrap ''streaming dataset: %w'' [] (validateStreamingDatasetManifest job (opt_DatasetManifest options)) else None),
        wrap ''validate data mode: %w'' [] (ManagedTrainingPolicy_ValidateDataMode (spec_Managed spec) (spec_DataMode spec)),
        wrap ''validate resolved data mode: %w'' []
          (ManagedTrainingPolicy_ValidateResolvedDataMode (spec_Managed spec) (spec_DataMode spec) (spec_ResolvedDataMounts spec)),
        wrap ''source materializer image: %w'' [] (ValidatePinnedImage (opt_SourceMaterializerImage options)),
        wrap ''local cache: %w'' [] (LocalCacheOptions_Validate lib (opt_LocalCache options)),
        check (ray_data_mode spec \<and> cache_Preload (spec_Cache spec) \<noteq> [])
          (Errorf ''%s mode does not support cache preload'' [ArgS (spec_DataMode spec)])]) (
      and_then (map_sum (Wrapf ''local cache: %w'' []) id
        (LocalCacheOptions_resolve lib (opt_LocalCache options) (cache_request spec (opt_LocalCache options)))) (\<lambda>localCache.
      or_fail (first_error [
        check (cache_Preload (spec_Cache spec) = CachePreloadInput \<and> rdms_Input (spec_ResolvedDataMounts spec) = None)
          (Errorf ''automatic cache preload requires a resolved governed input mount'' []),
        wrap ''MLflow: %w'' [] (MLflowOptions_Validate (opt_MLflow options)),
        validate_evaluation job,
        validate_serving job]) (
      and_then (if managed_job job then map_sum (Wrapf ''training event callback: %w'' []) id (validateTrainingEventBaseURL (opt_TrainingEventBaseURL options))
                else Inr (opt_TrainingEventBaseURL options)) (\<lambda>baseURL.
      and_then (if managed_job job then map_sum (Wrapf ''managed recovery checkpoint: %w'' []) id (managedRecoveryCheckpointPath job)
                else Inr (opt_managedResumePath options)) (\<lambda>resumePath.
      or_fail (validate_source (trusted_runtimes job) baseURL) (
      Inr (options\<lparr>opt_LocalCache := localCache, opt_TrainingEventBaseURL := baseURL, opt_managedResumePath := resumePath,
        opt_MLflow := (opt_MLflow options)\<lparr>ml_jobID := job_ID job, ml_tenantID := job_TenantID job, ml_userID := job_UserID job\<rparr>,
        opt_trainingEventJobID := job_ID job, opt_clusterAttempt := job_ClusterAttempt job,
        opt_NodeSelector := nodeSelectorForAccelerator (opt_NodeSelector options) (spec_AcceleratorClass spec)\<rparr>))))))))"

subsection \<open>The pieces of the object\<close>

definition worker_memory :: "JobSpec \<Rightarrow> string" where
  "worker_memory spec = (if blank (res_MemoryPerWorker (spec_Resources spec)) then ''32Gi'' else res_MemoryPerWorker (spec_Resources spec))"

definition submitter_pod :: "render_lib \<Rightarrow> TrainingJob \<Rightarrow> RenderOptions \<Rightarrow> any result" where
  "submitter_pod lib job options =
     (let spec = job_Spec job in
      map_sum id (\<lambda>t. addPodLabels (job_ID job) (job_TenantID job) (put ''spec'' (put ''restartPolicy'' (Str ''Never'') (sub_map t ''spec'')) t))
        (podTemplate lib \<lparr>pod_name = ''ray-job-submitter'', pod_gpus = 0, pod_head = True, pod_data = False, pod_source = True\<rparr>
           (spec_Image spec) ''1'' ''2Gi'' (job_TenantID job) (spec_Source spec) spec options))"

definition head_pod :: "render_lib \<Rightarrow> TrainingJob \<Rightarrow> RenderOptions \<Rightarrow> any result" where
  "head_pod lib job options =
     (let spec = job_Spec job in
      map_sum id (addPodLabels (job_ID job) (job_TenantID job))
        (podTemplate lib \<lparr>pod_name = ''ray-head'', pod_gpus = 0, pod_head = True, pod_data = True, pod_source = False\<rparr>
           (spec_Image spec) ''4'' ''16Gi'' (job_TenantID job) (spec_Source spec) spec options))"

definition topology_spread :: "TrainingJob \<Rightarrow> any" where
  "topology_spread job = Arr [Obj [(''maxSkew'', Num 1), (''topologyKey'', Str ''kubernetes.io/hostname''), (''whenUnsatisfiable'', Str ''ScheduleAnyway''),
     (''labelSelector'', Obj [(''matchLabels'', Obj [(''platform_job_id'', Str (job_ID job)), (''ray.io/node-type'', Str ''worker'')])])]]"

definition spread_workers :: "TrainingJob \<Rightarrow> RenderOptions \<Rightarrow> bool" where
  "spread_workers job options \<longleftrightarrow>
     (let spec = job_Spec job; engine = TrainingEngine_Resolved (spec_TrainingEngine spec) in
      \<not> opt_TopologyAwareScheduling options \<and>
      (engine = TrainingEngineRayTrain \<and> res_WorkerReplicas (spec_Resources spec) > 1 \<or>
       engine = TrainingEngineRayDDP \<and> ResolvedMode (spec_Execution spec) = ExecutionModeRayTrain))"

definition place_workers :: "TrainingJob \<Rightarrow> RenderOptions \<Rightarrow> any \<Rightarrow> any" where
  "place_workers job options t =
     (let annotated = (if opt_TopologyAwareScheduling options then addPodAnnotation ''kueue.x-k8s.io/podset-unconstrained-topology'' ''true'' t else t);
          preferred = (if opt_TopologyAwareScheduling options \<and> opt_TeamNodeAffinityEnabled options
            then addPreferredNodeAffinity (opt_TeamNodeAffinityPreference options) annotated else annotated) in
      if spread_workers job options then put ''spec'' (put ''topologySpreadConstraints'' (topology_spread job) (sub_map preferred ''spec'')) preferred
      else preferred)"

definition worker_template :: "render_lib \<Rightarrow> TrainingJob \<Rightarrow> RenderOptions \<Rightarrow> any result" where
  "worker_template lib job options =
     (let spec = job_Spec job in
      map_sum id (\<lambda>t. place_workers job options (addPodLabels (job_ID job) (job_TenantID job) t))
        (podTemplate lib \<lparr>pod_name = ''ray-worker'', pod_gpus = res_GPUsPerWorker (spec_Resources spec), pod_head = False, pod_data = True, pod_source = False\<rparr>
           (spec_Image spec) (effectiveWorkerCPU (spec_Resources spec)) (worker_memory spec) (job_TenantID job) (spec_Source spec) spec options))"

definition start_params :: "LocalCacheOptions \<Rightarrow> any \<Rightarrow> any" where
  "start_params cache params = (if lc_runtime cache then configureRayCache cache params else params)"

definition cluster_spec :: "TrainingJob \<Rightarrow> RenderOptions \<Rightarrow> any \<Rightarrow> any \<Rightarrow> any" where
  "cluster_spec job options headPod workerPod =
     (let spec = job_Spec job; replicas = Num (res_WorkerReplicas (spec_Resources spec)); cache = opt_LocalCache options in
      Obj [(''rayVersion'', Str (resolvedRayVersion spec (opt_RayVersion options))),
        (''headGroupSpec'', Obj [
          (''rayStartParams'', start_params cache (Obj [(''dashboard-host'', Str ''0.0.0.0''), (''num-gpus'', Str ''0'')])), (''template'', headPod)]),
        (''workerGroupSpecs'', Arr [Obj [(''groupName'', Str ''worker-group''), (''replicas'', replicas), (''minReplicas'', replicas), (''maxReplicas'', replicas),
          (''rayStartParams'', start_params cache (Obj [(''num-gpus'', Str (decimal (res_GPUsPerWorker (spec_Resources spec))))])), (''template'', workerPod)]])])"

definition runtimeEnvironmentYAML :: "render_lib \<Rightarrow> TrainingJob \<Rightarrow> DatasetManifestMount option \<Rightarrow> string" where
  "runtimeEnvironmentYAML lib job manifest =
     ''working_dir: /workspace'' @ [nl] @ ''env_vars:'' @ [nl] @ ''  PYTHONUNBUFFERED: '' @ dq @ ''1'' @ dq @ [nl] @
     (if \<not> managed_job job then []
      else ''  RAY_TRAIN_V2_ENABLED: '' @ dq @ ''1'' @ dq @ [nl] @ ''  PLATFORM_TRAINING_ENGINE: '' @ dq @ ''ray-train'' @ dq @ [nl] @
        yaml_line lib ''PLATFORM_JOB_ID'' (job_ID job) @
        yaml_line lib ''PLATFORM_RAY_VERSION'' (spec_RayVersion (job_Spec job)) @
        yaml_line lib ''RAYTRAIN_CLUSTER_ATTEMPT'' (decimal (job_ClusterAttempt job)) @
        (case (spec_DataMode (job_Spec job) = DataModeStreaming, manifest) of
           (True, Some mount) \<Rightarrow> streamingDatasetRuntimeEnvironmentYAML lib (job_DatasetProvenance job) mount
         | _ \<Rightarrow> []))"

definition jobSpecFields :: "render_lib \<Rightarrow> TrainingJob \<Rightarrow> string \<Rightarrow> any \<Rightarrow> any \<Rightarrow> DatasetManifestMount option \<Rightarrow> any" where
  "jobSpecFields lib job clusterSpecField clusterSpec submitterPod manifest =
     Obj ([(''submissionMode'', Str ''K8sJobMode''), (''entrypoint'', Str (shellJoin (trainingEntrypoint (lib_siteGuard lib) (job_Spec job)))),
       (''runtimeEnvYAML'', Str (runtimeEnvironmentYAML lib job manifest)), (clusterSpecField, clusterSpec),
       (''shutdownAfterJobFinishes'', Flag True), (''ttlSecondsAfterFinished'', Num (failureCleanupTTL job)),
       (''suspend'', Flag True), (''submitterPodTemplate'', submitterPod)] @
       (if spec_MaxRetries (job_Spec job) > 0
        then [(''submitterConfig'', Obj [(''backoffLimit'', Num (spec_MaxRetries (job_Spec job)))])] else []) @
       (if spec_TimeoutSeconds (job_Spec job) > 0 then [(''activeDeadlineSeconds'', Num (spec_TimeoutSeconds (job_Spec job)))] else []))"

definition object_labels :: "TrainingJob \<Rightarrow> int \<Rightarrow> (string \<times> any) list" where
  "object_labels job fence =
     [(''app.kubernetes.io/part-of'', Str ''ray-train-platform''), (''app.kubernetes.io/managed-by'', Str ''ray-train-platform''),
      (''ray.io/job-id'', Str (job_ID job)), (''ray.io/tenant-id'', Str (job_TenantID job)), (''platform_job_id'', Str (job_ID job)),
      (''platform_tenant_id'', Str (job_TenantID job))] @
     (if managed_job job \<and> blank (job_RayJobUID job) then [] else [(''kueue.x-k8s.io/queue-name'', Str (spec_Queue (job_Spec job)))]) @
     [(''kueue.x-k8s.io/priority-class'', Str (KubernetesPriorityClass (spec_Priority (job_Spec job)))),
      (''raytrain.io/accelerator-class'', Str (AcceleratorClass_Resolved (spec_AcceleratorClass (job_Spec job))))] @
     (if managed_job job then [(managedAttemptIdentityKey, Str (decimal (job_ClusterAttempt job)))] @
        (if fence > 0 then [(managedCreationFenceKey, Str (decimal fence))] else []) else [])"

definition object_annotations :: "TrainingJob \<Rightarrow> int \<Rightarrow> (string \<times> any) list" where
  "object_annotations job fence =
     [(''ray-train-platform/job-id'', Str (job_ID job)), (''ray-train-platform/owner'', Str (job_UserID job))] @
     (if managed_job job then [(managedAttemptIdentityKey, Str (decimal (job_ClusterAttempt job)))] @
        (if fence > 0 then [(managedCreationFenceKey, Str (decimal fence))] else []) @
        (if blank (job_RayJobUID job) then [(managedPendingAdoptionKey, Str ''true'')] else []) else [])"

subsection \<open>The whole function\<close>

definition RenderRayJobObject :: "render_lib \<Rightarrow> RenderOptions \<Rightarrow> TrainingJob \<Rightarrow> any result" where
  "RenderRayJobObject lib options0 job0 =
     and_then (resolved_options lib options0 job0) (\<lambda>options.
     let job = trusted_runtimes job0; namespace = managedJobNamespace job;
         clusterSpecField = (if opt_ClusterSpecField options = [] then ''rayClusterSpec'' else opt_ClusterSpecField options);
         fence = opt_managedCreationFence options in
     or_fail (first_error [
       check (\<not> isDNSLabel namespace) (Errorf ''kubernetes namespace must be a lowercase DNS label'' []),
       check (clusterSpecField \<noteq> ''rayClusterConfig'' \<and> clusterSpecField \<noteq> ''rayClusterSpec'')
         (Errorf ''unsupported RayJob cluster spec field %q'' [ArgS clusterSpecField])]) (
     and_then (submitter_pod lib job options) (\<lambda>submitterPod.
     and_then (head_pod lib job options) (\<lambda>headPod.
     and_then (worker_template lib job options) (\<lambda>workerPod.
     Inr (Obj [(''apiVersion'', Str ''ray.io/v1''), (''kind'', Str ''RayJob''),
       (''metadata'', Obj [(''name'', Str (rayJobResourceName job)), (''namespace'', Str namespace),
          (''labels'', Obj (object_labels job fence)), (''annotations'', Obj (object_annotations job fence))]),
       (''spec'', jobSpecFields lib job clusterSpecField (cluster_spec job options headPod workerPod) submitterPod (opt_DatasetManifest options))]))))))"

subsection \<open>Rendering succeeds exactly when the checks pass\<close>

lemma podTemplate_total:
  assumes "pod_data p \<Longrightarrow> spec_DataMode jobSpec = DataModeStreaming \<Longrightarrow> opt_DatasetManifest options \<noteq> None"
  shows "\<exists>t. podTemplate lib p img cpu memory tenantID source jobSpec options = Inr t"
proof -
  have "\<not> isl (pod_streaming p jobSpec options m)" for m
    using assms by (auto simp: pod_streaming_def split: option.split)
  then have "\<exists>x. pod_streaming p jobSpec options m = Inr x" for m by (metis sum.collapse(2))
  then have "\<exists>x. pod_mounting p source jobSpec options = Inr x"
    unfolding pod_mounting_def map_sum_Inr by blast
  then show ?thesis unfolding podTemplate_def map_sum_Inr by blast
qed

lemma resolved_options_ok:
  assumes "resolved_options lib options job = Inr o'"
  shows "JobSpec_Validate (positive_quantity lib) (lib_limits lib) (job_Spec job) = None"
    and "spec_DataMode (job_Spec job) = DataModeStreaming \<Longrightarrow> validateStreamingDatasetManifest job (opt_DatasetManifest options) = None"
    and "\<exists>url. validate_source (trusted_runtimes job) url = None"
    and "opt_DatasetManifest o' = opt_DatasetManifest options"
    and "opt_ClusterSpecField o' = opt_ClusterSpecField options"
    and "opt_managedCreationFence o' = opt_managedCreationFence options"
    and "opt_GitCredentialSecret o' = opt_GitCredentialSecret options"
  using assms by (auto simp: resolved_options_def Let_def simp del: first_error.simps split: if_splits)

lemma streaming_manifest: "validateStreamingDatasetManifest job m = None \<Longrightarrow> m \<noteq> None"
  by (auto simp: validateStreamingDatasetManifest_def Let_def split: option.splits)

lemma trusted_runtimes_simps [simp]:
  "job_ID (trusted_runtimes job) = job_ID job" "job_TenantID (trusted_runtimes job) = job_TenantID job"
  "job_UserID (trusted_runtimes job) = job_UserID job"
  "job_KubernetesNS (trusted_runtimes job) = job_KubernetesNS job" "job_RayJobName (trusted_runtimes job) = job_RayJobName job"
  "job_RayJobUID (trusted_runtimes job) = job_RayJobUID job" "job_ClusterAttempt (trusted_runtimes job) = job_ClusterAttempt job"
  "spec_DataMode (job_Spec (trusted_runtimes job)) = spec_DataMode (job_Spec job)"
  "spec_TrainingEngine (job_Spec (trusted_runtimes job)) = spec_TrainingEngine (job_Spec job)"
  "spec_CleanupPolicy (job_Spec (trusted_runtimes job)) = spec_CleanupPolicy (job_Spec job)"
  "spec_Source (job_Spec (trusted_runtimes job)) = spec_Source (job_Spec job)"
  "spec_Resources (job_Spec (trusted_runtimes job)) = spec_Resources (job_Spec job)"
  "spec_ResolvedDataRoots (job_Spec (trusted_runtimes job)) = spec_ResolvedDataRoots (job_Spec job)"
  "spec_Queue (job_Spec (trusted_runtimes job)) = spec_Queue (job_Spec job)"
  "spec_Priority (job_Spec (trusted_runtimes job)) = spec_Priority (job_Spec job)"
  "spec_AcceleratorClass (job_Spec (trusted_runtimes job)) = spec_AcceleratorClass (job_Spec job)"
  by (simp_all add: trusted_runtimes_def)

lemma pods_total:
  assumes "resolved_options lib options job = Inr o'"
  shows "\<exists>s h w. submitter_pod lib (trusted_runtimes job) o' = Inr s \<and> head_pod lib (trusted_runtimes job) o' = Inr h \<and>
    worker_template lib (trusted_runtimes job) o' = Inr w"
proof -
  have "spec_DataMode (job_Spec job) = DataModeStreaming \<Longrightarrow> opt_DatasetManifest o' \<noteq> None"
    using resolved_options_ok(2,4) [OF assms] streaming_manifest by simp
  then have "\<exists>t. podTemplate lib p img cpu memory tenantID source (job_Spec (trusted_runtimes job)) o' = Inr t" for p img cpu memory tenantID source
    by (intro podTemplate_total) simp
  then show ?thesis unfolding submitter_pod_def head_pod_def worker_template_def Let_def map_sum_Inr by meson
qed

subsection \<open>The manifest the reconciler works with\<close>

definition string_map :: "any \<Rightarrow> string \<Rightarrow> string option" where \<comment> \<open>\<open>GetLabels\<close>, \<open>GetAnnotations\<close>\<close>
  "string_map x k = (case field x k of Some (Str s) \<Rightarrow> Some s | _ \<Rightarrow> None)"

definition wrong_type :: "'a result" where "wrong_type = Inl (Errorf ''accessor error'' [])"

definition rendered_view :: "any \<Rightarrow> RayJob" where
  "rendered_view obj =
     (let metadata = sub_map obj ''metadata''; spec = sub_map obj ''spec'' in
      \<lparr>rj_Namespace = str_field metadata ''namespace'', rj_Name = str_field metadata ''name'', rj_UID = str_field metadata ''uid'',
       rj_ResourceVersion = str_field metadata ''resourceVersion'',
       rj_Labels = string_map (sub_map metadata ''labels''), rj_Annotations = string_map (sub_map metadata ''annotations''),
       rj_Suspend = (case field spec ''suspend'' of None \<Rightarrow> Inr None | Some (Flag b) \<Rightarrow> Inr (Some b) | _ \<Rightarrow> wrong_type),
       rj_TTL = (case field spec ''ttlSecondsAfterFinished'' of None \<Rightarrow> Inr None | Some (Num n) \<Rightarrow> Inr (Some n) | _ \<Rightarrow> wrong_type),
       rj_RestartPolicy = (case field (sub_map (sub_map spec ''submitterPodTemplate'') ''spec'') ''restartPolicy'' of
          None \<Rightarrow> Inr None | Some (Str s) \<Rightarrow> Inr (Some s) | _ \<Rightarrow> wrong_type),
       rj_Status = (case field obj ''status'' of None \<Rightarrow> Inr None | _ \<Rightarrow> wrong_type)\<rparr>)"

lemma labels_view: "string_map (Obj (object_labels job fence)) = manifest_labels job fence"
  by (rule ext) (simp add: string_map_def object_labels_def manifest_labels_def Let_def map_add_def fun_upd_def go_consts)

lemma annotations_view: "string_map (Obj (object_annotations job fence)) = manifest_annotations job fence"
  by (rule ext) (simp add: string_map_def object_annotations_def manifest_annotations_def Let_def map_add_def go_consts)

lemma podTemplate_object: "podTemplate lib p img cpu memory tenantID source jobSpec options = Inr t \<Longrightarrow> \<exists>m. t = Obj m"
  unfolding podTemplate_def map_sum_Inr Let_def case_prod_unfold by auto

lemma submitter_restart:
  assumes "submitter_pod lib job options = Inr s"
  shows "\<exists>m. s = Obj m" and "field (sub_map s ''spec'') ''restartPolicy'' = Some (Str ''Never'')"
proof -
  obtain t where t: "podTemplate lib \<lparr>pod_name = ''ray-job-submitter'', pod_gpus = 0, pod_head = True, pod_data = False, pod_source = True\<rparr>
        (spec_Image (job_Spec job)) ''1'' ''2Gi'' (job_TenantID job) (spec_Source (job_Spec job)) (job_Spec job) options = Inr t"
    and s: "s = addPodLabels (job_ID job) (job_TenantID job) (put ''spec'' (put ''restartPolicy'' (Str ''Never'') (sub_map t ''spec'')) t)"
    using assms unfolding submitter_pod_def Let_def map_sum_Inr by blast
  obtain m where m: "t = Obj m" using podTemplate_object [OF t] by blast
  show "\<exists>m. s = Obj m" by (simp add: s addPodLabels_def m)
  have "\<exists>xs. sub_map t ''spec'' = Obj xs" by (auto simp: sub_map_def split: option.split any.split)
  then show "field (sub_map s ''spec'') ''restartPolicy'' = Some (Str ''Never'')" using m by (auto simp: s addPodLabels_def sub_map_def update_conv')
qed

lemma trusted_runtimes_names [simp]:
  "managedJobNamespace (trusted_runtimes job) = managedJobNamespace job" "rayJobResourceName (trusted_runtimes job) = rayJobResourceName job"
  "failureCleanupTTL (trusted_runtimes job) = failureCleanupTTL job" "managed_job (trusted_runtimes job) = managed_job job"
  "manifest_labels (trusted_runtimes job) fence = manifest_labels job fence"
  "manifest_annotations (trusted_runtimes job) fence = manifest_annotations job fence"
proof -
  show m: "managed_job (trusted_runtimes job) = managed_job job" by (simp add: managed_job_def)
  show "managedJobNamespace (trusted_runtimes job) = managedJobNamespace job" by (simp add: managedJobNamespace_def Let_def)
  show "rayJobResourceName (trusted_runtimes job) = rayJobResourceName job" by (simp add: rayJobResourceName_def managedAttemptRayJobName_def Let_def)
  show "failureCleanupTTL (trusted_runtimes job) = failureCleanupTTL job" by (simp add: failureCleanupTTL_def)
  show "manifest_labels (trusted_runtimes job) fence = manifest_labels job fence" by (simp only: manifest_labels_def m trusted_runtimes_simps)
  show "manifest_annotations (trusted_runtimes job) fence = manifest_annotations job fence" by (simp only: manifest_annotations_def m trusted_runtimes_simps)
qed

lemma object_view:
  assumes "submitter_pod lib job options = Inr s" "f \<in> {''rayClusterConfig'', ''rayClusterSpec''}"
  shows "rendered_view (Obj [(''apiVersion'', Str ''ray.io/v1''), (''kind'', Str ''RayJob''),
       (''metadata'', Obj [(''name'', Str (rayJobResourceName job)), (''namespace'', Str namespace),
          (''labels'', Obj (object_labels job fence)), (''annotations'', Obj (object_annotations job fence))]),
       (''spec'', jobSpecFields lib job f cluster s manifest)]) =
     \<lparr>rj_Namespace = namespace, rj_Name = rayJobResourceName job, rj_UID = [], rj_ResourceVersion = [],
      rj_Labels = manifest_labels job fence, rj_Annotations = manifest_annotations job fence,
      rj_Suspend = Inr (Some True), rj_TTL = Inr (Some (failureCleanupTTL job)), rj_RestartPolicy = Inr (Some ''Never''), rj_Status = Inr None\<rparr>"
proof -
  obtain m where m: "s = Obj m" using submitter_restart(1) [OF assms(1)] by blast
  show ?thesis
    using submitter_restart(2) [OF assms(1)] assms(2) unfolding m
    by (auto simp: rendered_view_def Let_def sub_map_def jobSpecFields_def labels_view annotations_view str_field_def)
qed


end
