(* ===== verification/Render_Sample.thy ===== *)
theory Render_Sample
  imports Kube_Render
begin

section \<open>A job that renders\<close>

text \<open>
  A managed job with a Git source, a credential secret and the deployment's default callback URL, and quantities for a small set of
  strings. It shows that the hypotheses of the theorems on rendered manifests can hold.
\<close>

definition GiB :: int where "GiB = 1024 * 1024 * 1024"

definition sample_lib :: render_lib where
  "sample_lib = \<lparr>lib_ParseQuantity = map_of [(''200Gi'', 200 * GiB * 1000000000), (''400Gi'', 400 * GiB * 1000000000), (''5Ti'', 5 * 1024 * GiB * 1000000000)],
     lib_Value = (\<lambda>q. - ((- q) div 1000000000)), lib_BinarySI = (\<lambda>n. decimal (n div GiB) @ ''Gi''),
     lib_limits = initialLimits, lib_IsPrint = (\<lambda>_. False), lib_siteGuard = ''import os''\<rparr>"

definition sample_cache :: LocalCacheOptions where
  "sample_cache = \<lparr>lc_Enabled = True, lc_StorageClassData1 = ''nvme-1'', lc_StorageClassData2 = ''nvme-2'', lc_AllowedSizes = [''200Gi'', ''400Gi''],
     lc_DefaultSize = ''200Gi'', lc_MaxSize = ''400Gi'', lc_MountPathData1 = ''/data1'', lc_MountPathData2 = ''/data2'',
     lc_runtime = False, lc_resolvedSize = [], lc_resolvedSizePerDisk = []\<rparr>"

definition sample_options :: RenderOptions where
  "sample_options = \<lparr>opt_ClusterSpecField = [], opt_RayVersion = [], opt_TopologyAwareScheduling = False, opt_TeamNodeAffinityEnabled = False,
     opt_TeamNodeAffinityPreference = [], opt_ServiceAccount = [], opt_ImagePullSecrets = [],
     opt_SourceMaterializerImage = ''r.local/materializer@sha256:'' @ replicate 64 CHR ''a'', opt_LocalCache = sample_cache,
     opt_NodeSelector = [], opt_DedicatedNodes = [(''team-a'', [''gpu-2'', ''gpu-1'']), (''team-b'', [''gpu-3''])],
     opt_GitCredentialSecret = ''git-team-a'',
     opt_MLflow = \<lparr>ml_Enabled = False, ml_TrackingURI = [], ml_ExperimentPrefix = [], ml_ProvenanceKey = [], ml_jobID = [], ml_tenantID = [], ml_userID = []\<rparr>,
     opt_TrainingEventBaseURL = ''http://b.svc/api/v1/internal'', opt_DatasetManifest = None, opt_trainingEventJobID = [], opt_managedResumePath = [],
     opt_clusterAttempt = 0, opt_managedCreationFence = 2\<rparr>"

definition sample_git_spec :: JobSpec where
  "sample_git_spec = sample_spec\<lparr>spec_Source := \<lparr>src_Type = ''git'', src_URL = ''https://git.local/t/r'', src_Commit = replicate 40 CHR ''c'',
     src_URI = [], src_Snapshot = [], src_ArtifactID = [], src_ArtifactObjectKey = [], src_ArtifactSHA256 = []\<rparr>\<rparr>"

definition sample_git_job :: TrainingJob where
  "sample_git_job = \<lparr>job_ID = ''job-1'', job_TenantID = ''team-a'', job_UserID = ''u-1'', job_SourceArtifactID = [], job_SubmissionOrigin = SubmissionOriginAPI,
     job_ExternalSubmissionID = [], job_Spec = sample_git_spec,
     job_DatasetProvenance = \<lparr>prov_Sites = [], prov_DatasetID = [], prov_DatasetVersionID = [], prov_ManifestSHA256 = [], prov_DataMode = [],
       prov_CachePolicy = [], prov_SourceSyncRunID = [], prov_SourceInventorySHA256 = []\<rparr>,
     job_DesiredState = DesiredActive, job_ObservedState = StateQueued, job_StatusReason = [], job_StatusMessage = [],
     job_KubernetesNS = ''tenant-team-a'', job_RayJobName = [], job_RayJobUID = [], job_RayClusterName = [], job_ResourceVersion = [],
     job_ClusterAttempt = 1, job_WorkerRestartCount = 0, job_ResumeCheckpointID = [], job_CreatedAt = 0, job_UpdatedAt = 0,
     job_LastObservedAt = None, job_StartedAt = None, job_FinishedAt = None\<rparr>"

lemma sample_git_valid: "JobSpec_Validate (positive_quantity sample_lib) initialLimits sample_git_spec = None"
  by code_simp

lemma sample_cache_valid: "LocalCacheOptions_Validate sample_lib sample_cache = None"
  by code_simp

lemma sample_image_pinned: "ValidatePinnedImage (''r.local/materializer@sha256:'' @ replicate 64 CHR ''a'') = None"
  by code_simp

lemma sample_base_url: "validateTrainingEventBaseURL ''http://b.svc/api/v1/internal'' = Inr ''http://b.svc/api/v1/internal''"
  by code_simp

lemma rendering_total:
  assumes "resolved_options lib options job = Inr o'" "isDNSLabel (managedJobNamespace job)"
    and "opt_ClusterSpecField options \<in> {[], ''rayClusterConfig'', ''rayClusterSpec''}"
  shows "\<exists>obj. RenderRayJobObject lib options job = Inr obj"
proof -
  obtain s h w where "submitter_pod lib (trusted_runtimes job) o' = Inr s" "head_pod lib (trusted_runtimes job) o' = Inr h"
    "worker_template lib (trusted_runtimes job) o' = Inr w" using pods_total [OF assms(1)] by blast
  then show ?thesis using assms resolved_options_ok(5) [OF assms(1)]
    by (auto simp: RenderRayJobObject_def Let_def)
qed

lemma sample_resolved: "\<exists>o'. resolved_options sample_lib sample_options sample_git_job = Inr o'"
proof -
  have managed: "managed_job sample_git_job" by code_simp
  have policy: "ManagedTrainingPolicy_ValidateDataMode (spec_Managed sample_git_spec) [] = None" by code_simp
  have source: "validate_source (trusted_runtimes sample_git_job) u = None" for u
    by (simp add: validate_source_def trusted_runtimes_def sample_git_job_def sample_git_spec_def evaluation_job_def serving_job_def workspace_job_def Let_def)
  have fields: "spec_DataMode sample_git_spec = []" "spec_Cache sample_git_spec = \<lparr>cache_Mode = [], cache_Size = [], cache_Preload = []\<rparr>"
    by (simp_all add: sample_git_spec_def sample_spec_def)
  have job: "job_Spec sample_git_job = sample_git_spec" "job_ResumeCheckpointID sample_git_job = []"
    "job_SubmissionOrigin sample_git_job = SubmissionOriginAPI" by (simp_all add: sample_git_job_def)
  have none: "validate_evaluation sample_git_job = None" "validate_serving sample_git_job = None"
    by (simp_all add: validate_evaluation_def validate_serving_def evaluation_job_def serving_job_def job go_consts)
  have resume: "managedRecoveryCheckpointPath sample_git_job = Inr []" by code_simp
  have cache: "LocalCacheOptions_resolve sample_lib sample_cache (cache_request sample_git_spec sample_cache) = Inr (unresolved_cache sample_cache)"
    by (simp add: cache_request_def ray_data_mode_def fields LocalCacheOptions_resolve_def go_consts)
  have resolved: "ManagedTrainingPolicy_ValidateResolvedDataMode (spec_Managed sample_git_spec) [] (spec_ResolvedDataMounts sample_git_spec) = None"
    by (simp add: ManagedTrainingPolicy_ValidateResolvedDataMode_def go_consts)
  have opts: "opt_SourceMaterializerImage sample_options = ''r.local/materializer@sha256:'' @ replicate 64 CHR ''a''" "opt_LocalCache sample_options = sample_cache"
    "opt_TrainingEventBaseURL sample_options = ''http://b.svc/api/v1/internal''" "MLflowOptions_Validate (opt_MLflow sample_options) = None"
    "lib_limits sample_lib = initialLimits"
    by (simp_all add: sample_options_def MLflowOptions_Validate_def sample_lib_def)
  show ?thesis
    unfolding resolved_options_def Let_def job fields opts cache sample_git_valid sample_cache_valid sample_image_pinned sample_base_url managed policy none resume resolved source
    by (simp add: ray_data_mode_def fields go_consts or_fail_def and_then_def)
qed

lemma sample_rendered: "\<exists>obj. RenderRayJobObject sample_lib sample_options sample_git_job = Inr obj"
proof -
  have "isDNSLabel (managedJobNamespace sample_git_job)" by code_simp
  then show ?thesis using sample_resolved rendering_total [of sample_lib sample_options sample_git_job] by (auto simp: sample_options_def)
qed

end
