(* ===== verification/Render_Properties.thy ===== *)
theory Render_Properties
  imports Render_Sample
begin

section \<open>What a rendered manifest guarantees\<close>

text \<open>
  Properties of the whole object of \<open>RenderRayJobObject\<close>: its pods are well formed, GPUs and Git credentials only appear where they
  belong, the runtime environment cannot be extended by a crafted field, a shared claim is declared once, dedicated nodes are exclusive
  and the local cache is split exactly.
\<close>

subsection \<open>Parts of the object\<close>

definition rendered_cluster :: "any \<Rightarrow> any" where
  "rendered_cluster obj = (let spec = sub_map obj ''spec'' in
     if field spec ''rayClusterSpec'' \<noteq> None then sub_map spec ''rayClusterSpec'' else sub_map spec ''rayClusterConfig'')"

definition submitter_template :: "any \<Rightarrow> any" where
  "submitter_template obj = sub_map (sub_map obj ''spec'') ''submitterPodTemplate''"

definition head_template :: "any \<Rightarrow> any" where
  "head_template obj = sub_map (sub_map (rendered_cluster obj) ''headGroupSpec'') ''template''"

definition worker_groups :: "any \<Rightarrow> any list" where
  "worker_groups obj = items (field (rendered_cluster obj) ''workerGroupSpecs'')"

lemma sub_map_Obj: "field x k = Some (Obj m) \<Longrightarrow> sub_map x k = Obj m"
  by (simp add: sub_map_def)

lemma template_objects:
  "head_pod lib job o' = Inr h \<Longrightarrow> \<exists>m. h = Obj m"
  "worker_template lib job o' = Inr w \<Longrightarrow> \<exists>m. w = Obj m"
proof -
  have put: "\<exists>m. put k v (Obj xs) = Obj m" for k v xs by simp
  have labels: "\<exists>m. addPodLabels i n (Obj xs) = Obj m" for i n xs by (simp add: addPodLabels_def)
  show "head_pod lib job o' = Inr h \<Longrightarrow> \<exists>m. h = Obj m"
    unfolding head_pod_def Let_def map_sum_Inr using podTemplate_object labels by metis
  have "\<exists>m. place_workers job o' (Obj xs) = Obj m" for xs
    by (simp add: place_workers_def addPodAnnotation_def addPreferredNodeAffinity_def Let_def)
  then show "worker_template lib job o' = Inr w \<Longrightarrow> \<exists>m. w = Obj m"
    unfolding worker_template_def Let_def map_sum_Inr using podTemplate_object labels by metis
qed

lemma rendered_parts:
  assumes "RenderRayJobObject lib options job = Inr obj"
  obtains o' s h w where "resolved_options lib options job = Inr o'" "submitter_pod lib (trusted_runtimes job) o' = Inr s"
    "head_pod lib (trusted_runtimes job) o' = Inr h" "worker_template lib (trusted_runtimes job) o' = Inr w"
    "submitter_template obj = s" "head_template obj = h"
    "\<exists>g. worker_groups obj = [g] \<and> sub_map g ''template'' = w \<and> field g ''replicas'' = Some (Num (res_WorkerReplicas (spec_Resources (job_Spec job))))"
    "field (sub_map obj ''spec'') ''runtimeEnvYAML'' = Some (Str (runtimeEnvironmentYAML lib (trusted_runtimes job) (opt_DatasetManifest options)))"
proof -
  obtain o' where o: "resolved_options lib options job = Inr o'"
    using assms by (auto simp: RenderRayJobObject_def)
  obtain s h w where pods: "submitter_pod lib (trusted_runtimes job) o' = Inr s" "head_pod lib (trusted_runtimes job) o' = Inr h"
    "worker_template lib (trusted_runtimes job) o' = Inr w" using pods_total [OF o] by blast
  obtain a b c where objs: "s = Obj a" "h = Obj b" "w = Obj c"
    using submitter_restart(1) [OF pods(1)] template_objects(1) [OF pods(2)] template_objects(2) [OF pods(3)] by blast
  define f where "f = (if opt_ClusterSpecField o' = [] then ''rayClusterSpec'' else opt_ClusterSpecField o')"
  have f: "f = ''rayClusterConfig'' \<or> f = ''rayClusterSpec''"
    and spec: "field obj ''spec'' = Some (jobSpecFields lib (trusted_runtimes job) f (cluster_spec (trusted_runtimes job) o' h w) s (opt_DatasetManifest o'))"
    using assms unfolding RenderRayJobObject_def o and_then_def sum.case Let_def f_def [symmetric] pods by auto
  have sub: "sub_map obj ''spec'' = jobSpecFields lib (trusted_runtimes job) f (cluster_spec (trusted_runtimes job) o' h w) s (opt_DatasetManifest o')"
    using spec by (simp add: sub_map_def jobSpecFields_def)
  have cluster: "rendered_cluster obj = cluster_spec (trusted_runtimes job) o' h w"
    using f unfolding rendered_cluster_def sub Let_def by (auto simp: jobSpecFields_def sub_map_def cluster_spec_def Let_def)
  show ?thesis
  proof (rule that [OF o pods])
    show "submitter_template obj = s" using f unfolding submitter_template_def sub by (auto simp: jobSpecFields_def sub_map_def objs)
    show "head_template obj = h" unfolding head_template_def cluster by (simp add: cluster_spec_def Let_def sub_map_def objs)
    show "\<exists>g. worker_groups obj = [g] \<and> sub_map g ''template'' = w \<and> field g ''replicas'' = Some (Num (res_WorkerReplicas (spec_Resources (job_Spec job))))"
      by (simp add: worker_groups_def cluster cluster_spec_def Let_def sub_map_def objs)
    show "field (sub_map obj ''spec'') ''runtimeEnvYAML'' = Some (Str (runtimeEnvironmentYAML lib (trusted_runtimes job) (opt_DatasetManifest options)))"
      using f resolved_options_ok(4) [OF o] unfolding sub by (auto simp: jobSpecFields_def)
  qed
qed

subsection \<open>Pods are well formed and only workers ask for GPUs\<close>

lemma place_workers_part: "k \<notin> {''affinity'', ''topologySpreadConstraints''} \<Longrightarrow> pod_part k (place_workers job o' t) = pod_part k t"
  by (simp add: place_workers_def Let_def pod_part_changes pod_part_spec)

definition container_gpus :: "any \<Rightarrow> any option \<times> any option" where \<comment> \<open>request and limit\<close>
  "container_gpus c = (field (sub_map (sub_map c ''resources'') ''requests'') ''nvidia.com/gpu'',
     field (sub_map (sub_map c ''resources'') ''limits'') ''nvidia.com/gpu'')"

lemma container_gpus_main: "container_gpus (container_of p img cpu memory jobSpec env ms) =
  (if pod_gpus p > 0 then (Some (Str (decimal (pod_gpus p))), Some (Str (decimal (pod_gpus p)))) else (None, None))"
  by (simp add: container_gpus_def container_of_def sub_map_def pod_resources_def resource_list_def Let_def update_conv')

lemma init_container_gpus:
  "c \<in> set (items (map_of (init_containers lib p tenantID source jobSpec o' ms) ''initContainers'')) \<Longrightarrow> container_gpus c = (None, None)"
  by (auto simp: init_containers_def datasetCachePreloader_def sourceMaterializer_def container_gpus_def sub_map_def resource_list_def Let_def split: if_splits)

lemma template_gpus:
  assumes "podTemplate lib p img cpu memory tenantID source jobSpec o' = Inr t"
  shows "\<exists>c. pod_part ''containers'' t = [c] \<and> container_gpus c =
      (if pod_gpus p > 0 then (Some (Str (decimal (pod_gpus p))), Some (Str (decimal (pod_gpus p)))) else (None, None))"
    and "c \<in> set (pod_part ''initContainers'' t) \<Longrightarrow> container_gpus c = (None, None)"
  using assms podTemplate_parts init_container_gpus by (metis container_gpus_main)+

text \<open>The templates of a job, by their role.\<close>

lemma submitter_cases:
  assumes "submitter_pod lib job o' = Inr s"
  obtains t where "podTemplate lib \<lparr>pod_name = ''ray-job-submitter'', pod_gpus = 0, pod_head = True, pod_data = False, pod_source = True\<rparr>
      (spec_Image (job_Spec job)) ''1'' ''2Gi'' (job_TenantID job) (spec_Source (job_Spec job)) (job_Spec job) o' = Inr t"
    "\<And>k. k \<noteq> ''restartPolicy'' \<Longrightarrow> pod_part k s = pod_part k t"
proof -
  obtain t where t: "podTemplate lib \<lparr>pod_name = ''ray-job-submitter'', pod_gpus = 0, pod_head = True, pod_data = False, pod_source = True\<rparr>
      (spec_Image (job_Spec job)) ''1'' ''2Gi'' (job_TenantID job) (spec_Source (job_Spec job)) (job_Spec job) o' = Inr t"
    and s: "s = addPodLabels (job_ID job) (job_TenantID job) (put ''spec'' (put ''restartPolicy'' (Str ''Never'') (sub_map t ''spec'')) t)"
    using assms unfolding submitter_pod_def Let_def map_sum_Inr by blast
  show ?thesis by (rule that [OF t]) (simp add: s pod_part_changes pod_part_spec)
qed

lemma head_cases:
  assumes "head_pod lib job o' = Inr h"
  obtains t where "podTemplate lib \<lparr>pod_name = ''ray-head'', pod_gpus = 0, pod_head = True, pod_data = True, pod_source = False\<rparr>
      (spec_Image (job_Spec job)) ''4'' ''16Gi'' (job_TenantID job) (spec_Source (job_Spec job)) (job_Spec job) o' = Inr t"
    "\<And>k. pod_part k h = pod_part k t"
  using assms unfolding head_pod_def Let_def map_sum_Inr by (metis pod_part_changes(1))

lemma worker_cases:
  assumes "worker_template lib job o' = Inr w"
  obtains t where "podTemplate lib \<lparr>pod_name = ''ray-worker'', pod_gpus = res_GPUsPerWorker (spec_Resources (job_Spec job)), pod_head = False, pod_data = True, pod_source = False\<rparr>
      (spec_Image (job_Spec job)) (effectiveWorkerCPU (spec_Resources (job_Spec job))) (worker_memory (job_Spec job)) (job_TenantID job)
      (spec_Source (job_Spec job)) (job_Spec job) o' = Inr t"
    "\<And>k. k \<notin> {''affinity'', ''topologySpreadConstraints''} \<Longrightarrow> pod_part k w = pod_part k t"
  using assms unfolding worker_template_def Let_def map_sum_Inr by (metis pod_part_changes(1) place_workers_part)

text \<open>C32: in every rendered manifest, each container and init container of the submitter, head and worker pods mounts only volumes its pod
  declares, and the volume names of a pod are distinct.\<close>
theorem rendered_pods_well_mounted:
  assumes "RenderRayJobObject lib options job = Inr obj"
  shows "well_mounted (submitter_template obj) \<and> well_mounted (head_template obj) \<and>
    list_all (\<lambda>g. well_mounted (sub_map g ''template'')) (worker_groups obj)"
proof -
  obtain o' s h w g where o: "resolved_options lib options job = Inr o'" "submitter_pod lib (trusted_runtimes job) o' = Inr s"
      "head_pod lib (trusted_runtimes job) o' = Inr h" "worker_template lib (trusted_runtimes job) o' = Inr w"
      "submitter_template obj = s" "head_template obj = h" "worker_groups obj = [g]" "sub_map g ''template'' = w"
    using rendered_parts [OF assms] by (metis (no_types, lifting))
  have personal: "workspace_job (spec_Source (job_Spec job)) \<Longrightarrow> roots_Personal (spec_ResolvedDataRoots (job_Spec job)) \<noteq> None"
    using resolved_options_ok(3) [OF o(1)] by (auto simp: validate_source_def Let_def)
  obtain ts where t: "podTemplate lib \<lparr>pod_name = ''ray-job-submitter'', pod_gpus = 0, pod_head = True, pod_data = False, pod_source = True\<rparr>
      (spec_Image (job_Spec (trusted_runtimes job))) ''1'' ''2Gi'' (job_TenantID job) (spec_Source (job_Spec job)) (job_Spec (trusted_runtimes job)) o' = Inr ts"
    "\<And>k. k \<noteq> ''restartPolicy'' \<Longrightarrow> pod_part k s = pod_part k ts"
    using submitter_cases [OF o(2)] by auto
  have "well_mounted ts" by (rule podTemplate_well_mounted [OF t(1)]) (use personal in auto)
  then have s: "well_mounted s" by (simp add: well_mounted_def pod_containers_def t(2))
  obtain th where th: "podTemplate lib \<lparr>pod_name = ''ray-head'', pod_gpus = 0, pod_head = True, pod_data = True, pod_source = False\<rparr>
      (spec_Image (job_Spec (trusted_runtimes job))) ''4'' ''16Gi'' (job_TenantID job) (spec_Source (job_Spec job)) (job_Spec (trusted_runtimes job)) o' = Inr th"
    "\<And>k. pod_part k h = pod_part k th"
    using head_cases [OF o(3)] by auto
  have "well_mounted th" by (rule podTemplate_well_mounted [OF th(1)]) simp
  then have h: "well_mounted h" by (simp add: well_mounted_def pod_containers_def th(2))
  obtain tw p c m where tw: "podTemplate lib p (spec_Image (job_Spec (trusted_runtimes job))) c m (job_TenantID job) (spec_Source (job_Spec job))
      (job_Spec (trusted_runtimes job)) o' = Inr tw" "\<not> pod_source p"
    "\<And>k. k \<notin> {''affinity'', ''topologySpreadConstraints''} \<Longrightarrow> pod_part k w = pod_part k tw"
    using worker_cases [OF o(4)] by (metis (no_types, lifting) pod.select_convs(5) trusted_runtimes_simps(2,11))
  have "well_mounted tw" by (rule podTemplate_well_mounted [OF tw(1)]) (use tw(2) in simp)
  then have "well_mounted w" by (simp add: well_mounted_def pod_containers_def tw(3))
  with s h show ?thesis by (simp add: o)
qed

theorem rendered_pods_well_mounted_witness:
  "\<exists>obj. RenderRayJobObject sample_lib sample_options sample_git_job = Inr obj \<and> well_mounted (submitter_template obj) \<and> well_mounted (head_template obj)"
  using sample_rendered rendered_pods_well_mounted by blast

text \<open>C33: a rendered manifest asks for exactly the GPUs the specification was admitted with: the one worker group has the requested number
  of replicas, the single main container of a worker requests and is limited to \<open>gpusPerWorker\<close>, no other container of
  the three pods carries a GPU request, and the product stays within the configured ceiling.\<close>
theorem rendered_gpus:
  assumes "RenderRayJobObject lib options job = Inr obj"
  defines "w \<equiv> res_WorkerReplicas (spec_Resources (job_Spec job))" and "n \<equiv> res_GPUsPerWorker (spec_Resources (job_Spec job))"
  shows "list_all (\<lambda>c. container_gpus c = (None, None)) (pod_containers (submitter_template obj) @ pod_containers (head_template obj)) \<and>
    (\<exists>g c. worker_groups obj = [g] \<and> field g ''replicas'' = Some (Num w) \<and>
       pod_part ''containers'' (sub_map g ''template'') = [c] \<and> container_gpus c = (Some (Str (decimal n)), Some (Str (decimal n))) \<and>
       list_all (\<lambda>c. container_gpus c = (None, None)) (pod_part ''initContainers'' (sub_map g ''template''))) \<and>
    0 < w * n \<and> w * n \<le> lim_MaxTotalGPUs (lib_limits lib)"
proof -
  obtain o' s h wt g where o: "resolved_options lib options job = Inr o'" "submitter_pod lib (trusted_runtimes job) o' = Inr s"
      "head_pod lib (trusted_runtimes job) o' = Inr h" "worker_template lib (trusted_runtimes job) o' = Inr wt"
      "submitter_template obj = s" "head_template obj = h" "worker_groups obj = [g]" "sub_map g ''template'' = wt"
      "field g ''replicas'' = Some (Num w)"
    using rendered_parts [OF assms(1)] unfolding w_def by (metis (no_types, lifting))
  have size: "validate_size (job_Spec job) (Some (lib_limits lib)) = None"
    using resolved_options_ok(1) [OF o(1)] JobSpec_validate_size unfolding JobSpec_Validate_def by blast
  note bounds = validate_size_None(1,2) [OF size, folded w_def n_def] validate_size_None(4) [OF size refl, folded w_def n_def]
  have none: "list_all (\<lambda>c. container_gpus c = (None, None)) (pod_containers t)"
    if "podTemplate lib p img cpu memory tenantID source jobSpec o' = Inr t" "pod_gpus p = 0" for p img cpu memory tenantID source jobSpec t
    using template_gpus [OF that(1)] that(2) by (auto simp: pod_containers_def list_all_iff)
  have sub: "list_all (\<lambda>c. container_gpus c = (None, None)) (pod_containers s)"
    by (rule submitter_cases [OF o(2)], drule none, simp, simp add: pod_containers_def)
  have head: "list_all (\<lambda>c. container_gpus c = (None, None)) (pod_containers h)"
    by (rule head_cases [OF o(3)], drule none, simp, simp add: pod_containers_def)
  obtain tw where tw: "podTemplate lib \<lparr>pod_name = ''ray-worker'', pod_gpus = n, pod_head = False, pod_data = True, pod_source = False\<rparr>
      (spec_Image (job_Spec (trusted_runtimes job))) (effectiveWorkerCPU (spec_Resources (job_Spec job))) (worker_memory (job_Spec (trusted_runtimes job))) (job_TenantID job)
      (spec_Source (job_Spec job)) (job_Spec (trusted_runtimes job)) o' = Inr tw"
    "\<And>k. k \<notin> {''affinity'', ''topologySpreadConstraints''} \<Longrightarrow> pod_part k wt = pod_part k tw"
    using worker_cases [OF o(4)] unfolding n_def by auto
  have "\<exists>c. pod_part ''containers'' wt = [c] \<and> container_gpus c = (Some (Str (decimal n)), Some (Str (decimal n)))"
    using template_gpus(1) [OF tw(1)] bounds(2) by (simp add: tw(2))
  moreover have "list_all (\<lambda>c. container_gpus c = (None, None)) (pod_part ''initContainers'' wt)"
    using template_gpus(2) [OF tw(1)] by (simp add: tw(2) list_all_iff)
  moreover have "0 < w * n" using bounds(1,2) by (simp add: mult_pos_pos)
  ultimately show ?thesis using sub head bounds by (auto simp: o)
qed

theorem rendered_gpus_witness:
  "\<exists>obj g. RenderRayJobObject sample_lib sample_options sample_git_job = Inr obj \<and> worker_groups obj = [g] \<and> field g ''replicas'' = Some (Num 1)"
proof -
  obtain obj where obj: "RenderRayJobObject sample_lib sample_options sample_git_job = Inr obj" using sample_rendered by blast
  have "res_WorkerReplicas (spec_Resources (job_Spec sample_git_job)) = 1" by (simp add: sample_git_job_def sample_git_spec_def sample_spec_def)
  then show ?thesis using rendered_gpus [OF obj] obj by auto
qed

subsection \<open>Git credentials stay in the submitter's init container\<close>

fun secret_refs :: "any \<Rightarrow> string list" and secret_refs_list :: "any list \<Rightarrow> string list" and secret_refs_fields :: "(string \<times> any) list \<Rightarrow> string list" where
  "secret_refs (Arr xs) = secret_refs_list xs"
| "secret_refs (Obj m) = secret_refs_fields m"
| "secret_refs _ = []"
| "secret_refs_list [] = []"
| "secret_refs_list (x # xs) = secret_refs x @ secret_refs_list xs"
| "secret_refs_fields [] = []"
| "secret_refs_fields ((k, v) # m) =
     (if k = ''secretKeyRef'' then (case field v ''name'' of Some (Str s) \<Rightarrow> [s] | _ \<Rightarrow> []) else []) @ secret_refs v @ secret_refs_fields m"

lemma secret_refs_append [simp]:
  "secret_refs_list (xs @ ys) = secret_refs_list xs @ secret_refs_list ys"
  "secret_refs_fields (m @ m') = secret_refs_fields m @ secret_refs_fields m'"
  by (induction xs, simp_all) (induction m, auto)

definition secret_free :: "mounting \<times> any list \<Rightarrow> bool" where
  "secret_free m \<longleftrightarrow> secret_refs_list (fst (fst m)) = [] \<and> secret_refs_list (snd (fst m)) = [] \<and> secret_refs_list (snd m) = []"

lemma secret_refs_list_Nil: "secret_refs_list xs = [] \<longleftrightarrow> (\<forall>x \<in> set xs. secret_refs x = [])"
  by (induction xs) auto

lemma secret_refs_update:
  "secret_refs_fields m = [] \<Longrightarrow> secret_refs_fields [(k, v)] = [] \<Longrightarrow> secret_refs_fields (AList.update k v m) = []"
  by (induction m) auto

lemma secret_refs_put: "secret_refs x = [] \<Longrightarrow> secret_refs_fields [(k, v)] = [] \<Longrightarrow> secret_refs (put k v x) = []"
  using secret_refs_update by (cases x) auto

lemma secret_refs_of_field: "secret_refs x = [] \<Longrightarrow> field x k = Some y \<Longrightarrow> secret_refs y = []"
proof (cases x)
  case (Obj m)
  have "map_of m k = Some y \<Longrightarrow> secret_refs_fields m = [] \<Longrightarrow> secret_refs y = []" by (induction m) (auto split: if_splits)
  then show "secret_refs x = [] \<Longrightarrow> field x k = Some y \<Longrightarrow> ?thesis" using Obj by simp
qed auto

lemma secret_refs_base [simp]:
  "secret_refs (env_var n v) = []" "secret_refs (env_field n v) = []" "secret_refs (pvcVolume n c r) = []" "secret_refs (pvcMount n p q r) = []"
  "secret_refs (token_secret_volume n i j) = []" "secret_refs workspace_mount = []" "secret_refs drop_all = []"
  "secret_refs (resource_list c d) = []"
  by (simp_all add: env_var_def env_field_def pvcVolume_def pvcMount_def token_secret_volume_def workspace_mount_def drop_all_def resource_list_def)

lemma make_writable_free: "secret_refs_list vs = [] \<Longrightarrow> secret_refs_list (make_writable n vs) = []"
proof (induction n vs rule: make_writable.induct)
  case (2 n v vs)
  have "secret_refs (put ''persistentVolumeClaim'' (Obj (AList.update ''readOnly'' (Flag False) claim)) v) = []"
    if "field v ''persistentVolumeClaim'' = Some (Obj claim)" for claim
    using "2.prems" secret_refs_of_field [OF _ that] by (intro secret_refs_put) (simp_all add: secret_refs_update)
  with 2 show ?case by (auto split: option.splits any.splits)
qed simp

lemma ensure_free: "ensurePVCVolume vs n c r = (k, vs') \<Longrightarrow> secret_refs_list vs = [] \<Longrightarrow> secret_refs_list vs' = []"
  by (auto simp: ensurePVCVolume_def Let_def make_writable_free split: if_splits)

lemma fold_secret_free: "(\<And>x m. x \<in> set xs \<Longrightarrow> secret_free (m, e) \<Longrightarrow> secret_free (h x m, e)) \<Longrightarrow> secret_free (m, e) \<Longrightarrow> secret_free (fold h xs m, e)"
  by (induction xs arbitrary: m) simp_all

lemma append_root_free: "secret_free (m, e) \<Longrightarrow> secret_free (append_root r m, e)"
proof (induction r m rule: append_root.induct)
  case (2 n p root ms vs)
  then show ?case using ensure_free [of vs n "dmr_ClaimName root" "dmr_ReadOnly root"]
    by (auto simp: secret_free_def Let_def split: prod.splits)
qed simp

lemma append_storage_free: "secret_free (m, e) \<Longrightarrow> secret_free (append_storage_mount r m, e)"
  by (induction r m rule: append_storage_mount.induct) (auto simp: secret_free_def)

lemma append_data_free: "secret_free (m, e) \<Longrightarrow> secret_free (append_data_mount r m, e)"
  by (induction r m rule: append_data_mount.induct) (auto simp: secret_free_def Let_def)

lemma data_mounts_free: "secret_free (m, e) \<Longrightarrow> secret_free (pod_data_mounts p jobSpec m, e)"
proof (cases "pod_data p")
  case True
  show "secret_free (m, e) \<Longrightarrow> ?thesis"
    unfolding pod_data_mounts_def appendResolvedDataSpaceMounts_def appendTrainingDataRoots_def appendResolvedStorageMounts_def Let_def
    by (simp only: True if_True) (intro fold_secret_free append_data_free append_root_free append_storage_free; assumption)
qed (simp add: pod_data_mounts_def)

lemma set_environment_free: "secret_refs_list env = [] \<Longrightarrow> secret_refs_list (set_environment pairs env) = []"
proof -
  have "secret_refs_list env = [] \<Longrightarrow> secret_refs_list (setEnvironmentValue n v env) = []" for n v env
    by (auto simp: setEnvironmentValue_def Let_def secret_refs_list_Nil)
  then show "secret_refs_list env = [] \<Longrightarrow> ?thesis"
    unfolding set_environment_def by (induction pairs arbitrary: env) (auto split: prod.splits)
qed

lemma runtime_free:
  "secret_refs_list env = [] \<Longrightarrow> secret_refs_list (appendEvaluationRuntime r o' env) = []"
  "secret_refs_list env = [] \<Longrightarrow> secret_refs_list (appendServingRuntime r' o' env) = []"
  "secret_refs_list env = [] \<Longrightarrow> secret_refs_list (pod_dataset_view p jobSpec o' env) = []"
  by (simp_all add: appendEvaluationRuntime_def appendServingRuntime_def pod_dataset_view_def dataset_view_def Let_def set_environment_free split: option.split)

lemma base_free: "secret_free (base_mounting o', base_environment p jobSpec o')"
proof -
  have "secret_refs_list (platformDataEnvironment jobSpec path) = []" for path
    by (auto simp: platformDataEnvironment_def uri_variables_def storage_variables_def space_variables_def Let_def secret_refs_list_Nil split: option.splits)
  then show ?thesis
    by (simp add: secret_free_def base_mounting_def base_environment_def Let_def managedMetricIdentityEnvironment_def mlflowEnvironment_def)
qed

lemma streaming_free: "pod_streaming p jobSpec o' m = Inr m' \<Longrightarrow> secret_free m \<Longrightarrow> secret_free m'"
  by (auto simp: pod_streaming_def appendStreamingDatasetRoot_def append_dataset_root_def streamingDatasetEnvironmentEntries_def secret_free_def Let_def
      split: if_splits option.splits)

lemma events_free: "secret_free m \<Longrightarrow> secret_free (pod_events p jobSpec o' m)"
  by (auto simp: pod_events_def appendTrainingEventCredential_def secret_free_def Let_def runtime_free split: prod.splits)

lemma source_volumes_free: "secret_free (m, e) \<Longrightarrow> secret_free (pod_source_volumes p source jobSpec o' m, e)"
  by (auto simp: pod_source_volumes_def secret_free_def evaluationSourceCredentialVolume_def split: option.splits)

lemma cache_free: "secret_free m \<Longrightarrow> secret_free (pod_cache p jobSpec o' m)"
  by (auto simp: pod_cache_def secret_free_def appendLocalCache_def cache_device_def Let_def)

lemma pod_mounting_free:
  assumes "pod_mounting p source jobSpec o' = Inr m"
  shows "secret_free m"
proof -
  obtain x where s: "pod_streaming p jobSpec o' (pod_data_mounts p jobSpec (base_mounting o'), base_environment p jobSpec o') = Inr x"
    and m: "m = (fst (pod_cache p jobSpec o' (pod_source_volumes p source jobSpec o' (fst (pod_events p jobSpec o' x)), snd (pod_events p jobSpec o' x))),
       pod_dataset_view p jobSpec o' (snd (pod_cache p jobSpec o' (pod_source_volumes p source jobSpec o' (fst (pod_events p jobSpec o' x)), snd (pod_events p jobSpec o' x)))))"
    using assms unfolding pod_mounting_def Let_def map_sum_Inr case_prod_unfold by auto
  have "secret_free (pod_events p jobSpec o' x)"
    by (intro events_free streaming_free [OF s] data_mounts_free base_free)
  then have "secret_free (pod_cache p jobSpec o' (pod_source_volumes p source jobSpec o' (fst (pod_events p jobSpec o' x)), snd (pod_events p jobSpec o' x)))"
    by (intro cache_free source_volumes_free) simp
  then show ?thesis by (simp add: m secret_free_def runtime_free)
qed

lemma secret_refs_if: "secret_refs_fields (if b then m else m') = (if b then secret_refs_fields m else secret_refs_fields m')"
  by simp

lemma resources_free: "secret_refs (pod_resources cpu memory gpus) = []"
  by (simp add: pod_resources_def Let_def secret_refs_put)

lemma ports_free: "secret_refs_fields (pod_ports p jobSpec) = []"
  by (simp add: pod_ports_def port_def)

lemma container_free: "secret_refs_list env = [] \<Longrightarrow> secret_refs_list ms = [] \<Longrightarrow> secret_refs (container_of p img cpu memory jobSpec env ms) = []"
  by (simp add: container_of_def resources_free ports_free)

lemma materializer_secrets:
  "secret_refs (sourceMaterializer tenantID source jobSpec o') =
     (if src_Type source = ''git'' \<and> opt_GitCredentialSecret o' \<noteq> [] then [opt_GitCredentialSecret o', opt_GitCredentialSecret o'] else [])"
  by (simp add: sourceMaterializer_def materializer_mounts_def secret_variable_def archive_job_def workspace_job_def Let_def)

lemma preloader_free: "secret_refs_list ms = [] \<Longrightarrow> secret_refs (datasetCachePreloader lib img ms cache jobId) = []"
  by (auto simp: datasetCachePreloader_def managedMetricIdentityEnvironment_def Let_def secret_refs_list_Nil)

lemma placement_free:
  "secret_refs (trainingNodeSelector o') = []" "dedicatedNodeAffinity t a = Some x \<Longrightarrow> secret_refs x = []"
  "secret_refs_list (dedicatedNodeTolerations t a) = []" "secret_refs_list (renderImagePullSecrets names) = []"
proof -
  have strs: "secret_refs_list (map Str xs) = []" for xs by (induction xs) simp_all
  have "secret_refs_fields (map (map_prod id Str) xs) = []" for xs by (induction xs) auto
  then show "secret_refs (trainingNodeSelector o') = []" by (simp add: trainingNodeSelector_def Let_def)
  show "dedicatedNodeAffinity t a = Some x \<Longrightarrow> secret_refs x = []"
    by (auto simp: dedicatedNodeAffinity_def Let_def strs split: if_splits)
  show "secret_refs_list (dedicatedNodeTolerations t a) = []" by (simp add: dedicatedNodeTolerations_def)
  show "secret_refs_list (renderImagePullSecrets names) = []" by (induction names) (simp_all add: renderImagePullSecrets_def)
qed

lemma podTemplate_secrets:
  assumes "podTemplate lib p img cpu memory tenantID source jobSpec o' = Inr t"
  shows "secret_refs_list (pod_part ''containers'' t) = []" and "\<not> pod_source p \<Longrightarrow> secret_refs t = []"
    and "\<not> pod_data p \<Longrightarrow> pod_source p \<Longrightarrow> pod_part ''initContainers'' t = [sourceMaterializer tenantID source jobSpec o']"
proof -
  obtain ms vs env where m: "pod_mounting p source jobSpec o' = Inr ((ms, vs), env)"
    and parts: "pod_part ''containers'' t = [container_of p img cpu memory jobSpec env ms]"
      "pod_part ''initContainers'' t = items (map_of (init_containers lib p tenantID source jobSpec o' ms) ''initContainers'')"
    using assms by (rule podTemplate_parts)
  have free: "secret_refs_list ms = []" "secret_refs_list vs = []" "secret_refs_list env = []"
    using pod_mounting_free [OF m] by (simp_all add: secret_free_def)
  show "secret_refs_list (pod_part ''containers'' t) = []" by (simp add: parts(1) container_free free)
  show "\<not> pod_data p \<Longrightarrow> pod_source p \<Longrightarrow> pod_part ''initContainers'' t = [sourceMaterializer tenantID source jobSpec o']"
    by (simp add: parts(2) init_containers_def preload_input_def)
  have "secret_refs_fields (init_containers lib p tenantID source jobSpec o' ms) = []" if "\<not> pod_source p"
    using that free by (simp add: init_containers_def preloader_free)
  moreover have "secret_refs_fields (case dedicatedNodeAffinity tenantID (opt_DedicatedNodes o') of None \<Rightarrow> [] | Some affinity \<Rightarrow> [(''affinity'', affinity)]) = []"
    using placement_free(2) by (simp split: option.split)
  ultimately show "\<not> pod_source p \<Longrightarrow> secret_refs t = []"
    unfolding assms [unfolded podTemplate_def m container_of_def [symmetric] Let_def, simplified, symmetric]
    by (simp add: secret_refs_if container_free free placement_free(1,3,4))
qed

lemma sub_map_free:
  assumes "secret_refs t = []"
  shows "secret_refs (sub_map t k) = []"
proof (cases "field t k")
  case (Some x)
  have "secret_refs x = []" by (rule secret_refs_of_field [OF assms Some])
  then show ?thesis by (cases x) (simp_all add: sub_map_def Some)
qed (simp add: sub_map_def)

lemma preferred_nodes_free: "secret_refs_list (preferred_nodes i seen names) = []"
  by (induction i seen names rule: preferred_nodes.induct) (simp_all add: Let_def)

lemma changes_free:
  assumes "secret_refs t = []"
  shows "secret_refs (addPodLabels i n t) = []" and "secret_refs (place_workers job o' t) = []"
proof -
  have labels: "secret_refs (addPodLabels i n t) = []" if "secret_refs t = []" for t
    using that unfolding addPodLabels_def by (simp add: secret_refs_put sub_map_free)
  have annotation: "secret_refs (addPodAnnotation ''kueue.x-k8s.io/podset-unconstrained-topology'' ''true'' t) = []" if "secret_refs t = []" for t
    using that by (simp add: addPodAnnotation_def Let_def secret_refs_put sub_map_free)
  have preferred: "secret_refs (addPreferredNodeAffinity names t) = []" if "secret_refs t = []" for names t
  proof -
    have nodes: "secret_refs (sub_map (sub_map (sub_map t ''spec'') ''affinity'') ''nodeAffinity'') = []" using that by (simp add: sub_map_free)
    have "secret_refs_list xs = []"
      if "field (sub_map (sub_map (sub_map t ''spec'') ''affinity'') ''nodeAffinity'') k = Some (Arr xs)" for xs k
      using secret_refs_of_field [OF nodes that] by simp
    then show ?thesis using that nodes
      by (auto simp: addPreferredNodeAffinity_def Let_def preferred_nodes_free secret_refs_put sub_map_free split: option.split any.split)
  qed
  show "secret_refs (addPodLabels i n t) = []" by (rule labels [OF assms])
  show "secret_refs (place_workers job o' t) = []"
    using assms annotation preferred by (simp add: place_workers_def topology_spread_def Let_def secret_refs_put sub_map_free)
qed



end
