(* ===== verification/Render_Policies.thy ===== *)
theory Render_Policies
  imports Render_Sample "HOL-Library.Multiset"
begin

section \<open>Policies of the renderer\<close>

text \<open>
  The runtime environment document line by line, the sharing of the personal claim, the exclusivity of dedicated nodes and the split of
  the local cache between two disks.
\<close>

subsection \<open>The runtime environment has no room for other variables\<close>

definition yaml_entries :: "render_lib \<Rightarrow> TrainingJob \<Rightarrow> DatasetManifestMount option \<Rightarrow> (string \<times> string) list" where
  \<comment> \<open>variable and quoted value of each line\<close>
  "yaml_entries lib job manifest =
     (let q = Quote (lib_IsPrint lib); provenance = job_DatasetProvenance job in
      [(''PYTHONUNBUFFERED'', dq @ ''1'' @ dq)] @
      (if \<not> managed_job job then []
       else [(''RAY_TRAIN_V2_ENABLED'', dq @ ''1'' @ dq), (''PLATFORM_TRAINING_ENGINE'', dq @ ''ray-train'' @ dq),
         (''PLATFORM_JOB_ID'', q (job_ID job)), (''PLATFORM_RAY_VERSION'', q (spec_RayVersion (job_Spec job))),
         (''RAYTRAIN_CLUSTER_ATTEMPT'', q (decimal (job_ClusterAttempt job)))] @
         (case (spec_DataMode (job_Spec job) = DataModeStreaming, manifest) of
            (True, Some mount) \<Rightarrow>
              [(''PLATFORM_DATASET_SITES_JSON'', q (DatasetSites_JSON (prov_Sites provenance))), (''PLATFORM_DATASET_ID'', q (prov_DatasetID provenance)),
               (''PLATFORM_DATASET_VERSION_ID'', q (prov_DatasetVersionID provenance)), (''PLATFORM_DATASET_MANIFEST_SHA256'', q (prov_ManifestSHA256 provenance)),
               (''PLATFORM_DATASET_MANIFEST_PATH'', q (datasetManifestContainerPath (prov_DatasetID provenance) (prov_DatasetVersionID provenance))),
               (''PLATFORM_DATASET_ROOT'', q DatasetRootContainerPath), (''PLATFORM_DATASET_TRAIN_SAMPLES'', q (decimal (dmm_TrainSamples mount))),
               (''PLATFORM_DATASET_CACHE_POLICY'', q (prov_CachePolicy provenance))] @
              (if dmm_SchemaVersion mount \<noteq> [] then [(''PLATFORM_DATASET_SCHEMA_VERSION'', q (dmm_SchemaVersion mount))] else []) @
              [(''RAYTRAIN_DATASET_PREFETCH_BATCHES'', q ''2''), (''RAYTRAIN_DATASET_SHUFFLE_SEED'', q ''0'')]
          | _ \<Rightarrow> [])))"

definition yaml_entry :: "string \<times> string \<Rightarrow> string" where
  "yaml_entry e = ''  '' @ fst e @ '': '' @ snd e"

lemma lines_split: "list_all (\<lambda>x. nl \<notin> set x) xs \<Longrightarrow> split nl (concat (map (\<lambda>x. x @ [nl]) xs)) = xs @ [[]]"
proof (induction xs)
  case (Cons x xs)
  then show ?case using split_append_sep [of nl x "concat (map (\<lambda>x. x @ [nl]) xs)"] split_no_sep [of nl x] by simp
qed simp

lemma yaml_document:
  "runtimeEnvironmentYAML lib job manifest =
     concat (map (\<lambda>x. x @ [nl]) ([''working_dir: /workspace'', ''env_vars:''] @ map yaml_entry (yaml_entries lib job manifest)))"
  by (cases manifest; cases "spec_DataMode (job_Spec job) = DataModeStreaming")
     (auto simp: runtimeEnvironmentYAML_def yaml_entries_def yaml_entry_def yaml_line_def streamingDatasetRuntimeEnvironmentYAML_def Let_def)

lemma yaml_entries_shape:
  "list_all (\<lambda>(k, v). nl \<notin> set k \<and> nl \<notin> set v) (yaml_entries lib job manifest)" "distinct (map fst (yaml_entries lib job manifest))"
  by (cases manifest; cases "spec_DataMode (job_Spec job) = DataModeStreaming"; simp add: yaml_entries_def Let_def Quote_one_line)+

text \<open>The lines of the runtime environment document are the two fixed header lines and one line per variable with its quoted value, each
  variable once: no job identifier, version or dataset field can end a line and add a variable of its own.\<close>
theorem runtime_environment_lines:
  "split nl (runtimeEnvironmentYAML lib job manifest) =
     [''working_dir: /workspace'', ''env_vars:''] @ map yaml_entry (yaml_entries lib job manifest) @ [[]] \<and>
   distinct (map fst (yaml_entries lib job manifest))"
proof -
  have "list_all (\<lambda>x. nl \<notin> set x) ([''working_dir: /workspace'', ''env_vars:''] @ map yaml_entry (yaml_entries lib job manifest))"
    using yaml_entries_shape(1) [of lib job manifest] by (auto simp: yaml_entry_def list_all_iff)
  from lines_split [OF this] show ?thesis unfolding yaml_document by (simp add: yaml_entries_shape(2))
qed

subsection \<open>Dedicated nodes\<close>

definition node_admitted :: "any option \<Rightarrow> string \<Rightarrow> bool" where \<comment> \<open>the required node affinity of a pod, read on a node name\<close>
  "node_admitted affinity node =
     (case affinity of None \<Rightarrow> True
      | Some a \<Rightarrow>
          list_ex (\<lambda>term. list_all (\<lambda>e.
            (str_field e ''operator'' = ''In'' \<longrightarrow> Str node \<in> set (items (field e ''values''))) \<and>
            (str_field e ''operator'' = ''NotIn'' \<longrightarrow> Str node \<notin> set (items (field e ''values''))))
            (items (field term ''matchExpressions'')))
          (items (field (sub_map (sub_map a ''nodeAffinity'') ''requiredDuringSchedulingIgnoredDuringExecution'') ''nodeSelectorTerms'')))"

lemma node_admitted_dedicated:
  "node_admitted (dedicatedNodeAffinity t A) node =
     (A = [] \<or> (if assigned_nodes t A = [] then node \<notin> set (concat (map snd A)) else node \<in> set (assigned_nodes t A)))"
  by (auto simp: node_admitted_def dedicatedNodeAffinity_def Let_def sub_map_def str_field_def)

text \<open>When each node is assigned to one tenant, exactly the pods of that tenant may run on it, and only they tolerate the taint of
  the tenant; the result does not depend on the order in which the assignments are visited.\<close>
theorem dedicated_nodes_exclusive:
  assumes "distinct (map fst A)" "(t, nodes) \<in> set A" "node \<in> set nodes"
    and "\<forall>(t1, n1) \<in> set A. \<forall>(t2, n2) \<in> set A. t1 \<noteq> t2 \<longrightarrow> set n1 \<inter> set n2 = {}"
  shows "(node_admitted (dedicatedNodeAffinity u A) node \<longleftrightarrow> u = t) \<and>
    (list_ex (\<lambda>x. str_field x ''value'' = t) (dedicatedNodeTolerations u A) \<longleftrightarrow> u = t) \<and>
    (\<forall>B. mset B = mset A \<longrightarrow> dedicatedNodeAffinity u B = dedicatedNodeAffinity u A)"
proof (intro conjI)
  have t: "assigned_nodes t A = nodes" using assms(1,2) by (simp add: assigned_nodes_def)
  have other: "node \<notin> set (assigned_nodes u A)" if "u \<noteq> t"
    using that assms by (fastforce simp: assigned_nodes_def dest: map_of_SomeD split: option.splits)
  have "A \<noteq> []" "nodes \<noteq> []" "node \<in> set (concat (map snd A))" using assms(2,3) by force+
  then show "node_admitted (dedicatedNodeAffinity u A) node \<longleftrightarrow> u = t"
    unfolding node_admitted_dedicated using t other assms(3) by auto
  show "list_ex (\<lambda>x. str_field x ''value'' = t) (dedicatedNodeTolerations u A) \<longleftrightarrow> u = t"
    using t \<open>nodes \<noteq> []\<close> by (auto simp: dedicatedNodeTolerations_def str_field_def)
  show "\<forall>B. mset B = mset A \<longrightarrow> dedicatedNodeAffinity u B = dedicatedNodeAffinity u A"
  proof (intro allI impI)
    fix B assume B: "mset B = mset A"
    then have keys: "mset (map fst B) = mset (map fst A)" by simp
    then have "distinct (map fst B)" using assms(1) by (metis mset_eq_imp_distinct_iff)
    then have "map_of B = map_of A" using assms(1) B by (intro map_of_eqI) (auto dest: mset_eq_setD)
    moreover have "mset (concat (map snd B)) = mset (concat (map snd A))"
      unfolding mset_concat using B by (metis mset_map sum_mset_sum_list)
    then have "sort (concat (map snd B)) = sort (concat (map snd A))"
      by (metis mset_sort properties_for_sort sorted_sort)
    moreover have "B = [] \<longleftrightarrow> A = []" using B by auto
    ultimately show "dedicatedNodeAffinity u B = dedicatedNodeAffinity u A"
      by (simp add: dedicatedNodeAffinity_def assigned_nodes_def Let_def)
  qed
qed

theorem dedicated_nodes_exclusive_witness:
  "node_admitted (dedicatedNodeAffinity ''team-a'' (opt_DedicatedNodes sample_options)) ''gpu-1'' \<and>
   \<not> node_admitted (dedicatedNodeAffinity ''team-b'' (opt_DedicatedNodes sample_options)) ''gpu-1'' \<and>
   \<not> node_admitted (dedicatedNodeAffinity ''team-c'' (opt_DedicatedNodes sample_options)) ''gpu-1''"
proof -
  let ?A = "[(''team-a'', [''gpu-2'', ''gpu-1'']), (''team-b'', [''gpu-3''])] :: (string \<times> string list) list"
  have "node_admitted (dedicatedNodeAffinity u ?A) ''gpu-1'' \<longleftrightarrow> u = ''team-a''" for u
    by (rule conjunct1 [OF dedicated_nodes_exclusive [of ?A _ "[''gpu-2'', ''gpu-1'']"]]) auto
  then show ?thesis by (simp add: sample_options_def)
qed

subsection \<open>The local cache\<close>

lemma smod_zero: "(a :: int) smod b = 0 \<Longrightarrow> a = (a sdiv b) * b"
  using smod_sdiv_mult_eq [of a b] by simp

lemma even_whole_split:
  assumes "(a :: int) smod g = 0" "(a sdiv g) smod 2 = 0"
  shows "a = 2 * (a sdiv 2) \<and> g dvd (a sdiv 2)"
proof -
  define k where "k = (a sdiv g) sdiv 2"
  have "a = 2 * (k * g)" using smod_zero [OF assms(1)] smod_zero [OF assms(2)] by (simp add: k_def algebra_simps)
  moreover have "(2 * x) sdiv 2 = x" for x :: int by (simp add: signed_divide_int_def sgn_mult abs_mult mult_sgn_abs)
  ultimately show ?thesis by simp
qed

lemma resolve_size_ok:
  assumes "resolve_size lib options request q sizes = Inr r"
  shows "\<exists>configured \<in> set sizes. positiveCacheQuantity lib configured = Some q \<and> splitLocalCacheCapacity lib configured = Inr (lc_resolvedSizePerDisk r) \<and>
    lc_runtime r \<and> lc_resolvedSize r = trim_space configured"
  using assms by (induction lib options request q sizes rule: resolve_size.induct) (auto split: if_splits)

lemma positive_trim: "positiveCacheQuantity lib (trim_space s) = positiveCacheQuantity lib s"
  by (simp add: positiveCacheQuantity_def)

text \<open>A resolved runtime cache has one of the configured sizes, equal as a quantity to the requested one, within the configured maximum and
  within 5 TiB; each of the two disks gets a whole number of GiB, and the two together are exactly the requested bytes.\<close>
theorem local_cache_split:
  assumes "LocalCacheOptions_resolve lib cache request = Inr r" "lc_runtime r" "lib_ParseQuantity lib [] = None"
  shows "\<exists>q n maximum. positiveCacheQuantity lib (cache_Size request) = Some q \<and> positiveCacheQuantity lib (lc_resolvedSize r) = Some q \<and>
    lc_resolvedSize r \<in> trim_space ` set (lc_AllowedSizes cache) \<and> lib_ParseQuantity lib ''5Ti'' = Some maximum \<and> q \<le> maximum \<and>
    (\<exists>m. positiveCacheQuantity lib (lc_MaxSize cache) = Some m \<and> q \<le> m) \<and>
    lib_Value lib q = 2 * n \<and> bytesPerGiB dvd n \<and> lc_resolvedSizePerDisk r = lib_BinarySI lib n"
proof -
  obtain q where q: "positiveCacheQuantity lib (cache_Size request) = Some q"
      "q \<le> (case positiveCacheQuantity lib (lc_MaxSize cache) of Some m \<Rightarrow> m | None \<Rightarrow> 0)"
      "resolve_size lib (unresolved_cache cache) request q (lc_AllowedSizes cache) = Inr r"
    using assms(1,2) by (auto simp: LocalCacheOptions_resolve_def unresolved_cache_def Let_def split: if_splits option.splits)
  then obtain configured where c: "configured \<in> set (lc_AllowedSizes cache)" "positiveCacheQuantity lib configured = Some q"
      "splitLocalCacheCapacity lib configured = Inr (lc_resolvedSizePerDisk r)" "lc_resolvedSize r = trim_space configured"
    using resolve_size_ok by blast
  have "q > 0" using q(1) by (auto simp: positiveCacheQuantity_def split: option.splits if_splits)
  with q(2) have maximum: "\<exists>m. positiveCacheQuantity lib (lc_MaxSize cache) = Some m \<and> q \<le> m" by (auto split: option.splits)
  have "trim_space configured \<noteq> []" using c(2) assms(3) by (auto simp: positiveCacheQuantity_def split: option.splits)
  then obtain m where m: "lib_ParseQuantity lib ''5Ti'' = Some m" "q \<le> m" "lib_Value lib q smod bytesPerGiB = 0" "(lib_Value lib q sdiv bytesPerGiB) smod 2 = 0"
      "lc_resolvedSizePerDisk r = lib_BinarySI lib (lib_Value lib q sdiv 2)"
    using c(2,3) by (auto simp: splitLocalCacheCapacity_def Let_def positive_trim split: if_splits option.splits)
  have "positiveCacheQuantity lib (lc_resolvedSize r) = Some q" "lc_resolvedSize r \<in> trim_space ` set (lc_AllowedSizes cache)"
    using c by (auto simp: positive_trim)
  then show ?thesis using q(1) maximum m even_whole_split [OF m(3,4)] by blast
qed

theorem local_cache_split_witness:
  "\<exists>r n. LocalCacheOptions_resolve sample_lib sample_cache (runtime_cache sample_cache) = Inr r \<and> lib_Value sample_lib (200 * GiB * 1000000000) = 2 * n \<and>
     lc_resolvedSizePerDisk r = lib_BinarySI sample_lib n"
proof -
  have "\<not> isl (LocalCacheOptions_resolve sample_lib sample_cache (runtime_cache sample_cache))" by code_simp
  then obtain r where r: "LocalCacheOptions_resolve sample_lib sample_cache (runtime_cache sample_cache) = Inr r" by (metis sum.collapse(2))
  have "lc_runtime (projr (LocalCacheOptions_resolve sample_lib sample_cache (runtime_cache sample_cache)))" by code_simp
  then have run: "lc_runtime r" by (simp add: r)
  have size: "positiveCacheQuantity sample_lib (cache_Size (runtime_cache sample_cache)) = Some (200 * GiB * 1000000000)" by code_simp
  have "lib_ParseQuantity sample_lib [] = None" by (simp add: sample_lib_def)
  from local_cache_split [OF r run this] size r show ?thesis by auto
qed

end
