(* ===== verification/Dataset_Store.thy ===== *)
theory Dataset_Store
  imports Job_Store
begin

section \<open>The dataset catalogue\<close>

text \<open>
  \<open>backend/repositories/datasets.go\<close> and \<open>backend/domain/dataset_publication_receipt.go\<close>: the rows of the dataset catalogue, their
  conversion to domain values, the scopes of tenants, and the operations on datasets, versions and cache observations.

  As in the job store an operation maps the tables to an error, which leaves them as they were, or to its result and the new tables;
  \<open>now\<close> is \<open>time.Now()\<close> and \<open>collate\<close> the text order of the database. State columns hold the state values of the domain.
  The tables obey the unique indexes of the migrations (\<open>dataset_conflict\<close>, \<open>version_conflict\<close>, primary keys) and the trigger that refuses
  to insert a purged identity; foreign keys, checks and the update triggers could only make an operation fail.
\<close>

subsection \<open>Schema\<close>

record DatasetRecord =
  dr_ID :: string
  dr_Slug :: string
  dr_Name :: string
  dr_Description :: string
  dr_SourceSpace :: string
  dr_SourceRelativePath :: string
  dr_OwnerTenantID :: "string option"
  dr_Visibility :: string
  dr_SchemaVersion :: string
  dr_CreatedAt :: int
  dr_UpdatedAt :: int

record DatasetVersionRecord =
  dvr_DeletedAt :: "int option"
  dvr_DeletedBy :: string
  dvr_ID :: string
  dvr_DatasetID :: string
  dvr_Version :: string
  dvr_State :: DatasetVersionState
  dvr_ManifestSHA256 :: "string option"
  dvr_ManifestObjectKey :: "string option"
  dvr_SchemaVersion :: string
  dvr_TrainSamples :: int
  dvr_ValSamples :: int
  dvr_TestSamples :: int
  dvr_SourceObjectCount :: int
  dvr_LogicalBytes :: int
  dvr_PackedBytes :: int
  dvr_SourceSyncRunID :: "string option"
  dvr_SourceInventorySHA256 :: string
  dvr_CreatedAt :: int
  dvr_UpdatedAt :: int

record DatasetPartitionRecord =
  dpr_ID :: string
  dpr_DatasetVersionID :: string
  dpr_Name :: string
  dpr_SourceObjectCount :: int
  dpr_ProcessedObjectCount :: int
  dpr_FailedObjectCount :: int
  dpr_LogicalBytes :: int
  dpr_PackedBytes :: int
  dpr_CreatedAt :: int
  dpr_UpdatedAt :: int

record DatasetPublicationPartitionAttemptRecord =
  par_DatasetVersionID :: string
  par_PartitionID :: string
  par_State :: DatasetPartitionState
  par_InputFingerprint :: string
  par_PlanSHA256 :: string
  par_ReceiptSHA256 :: string
  par_Attempt :: int
  par_LeaseOwner :: string
  par_LeaseExpiresAt :: "int option"
  par_CreatedAt :: int
  par_UpdatedAt :: int

record DatasetPublicationRunRecord =
  prr_DeletedAt :: "int option"
  prr_DeletedBy :: string
  prr_ID :: string
  prr_DatasetID :: string
  prr_DatasetVersionID :: string
  prr_ExecutionMode :: string
  prr_State :: DatasetVersionState
  prr_TotalPartitions :: int
  prr_CompletedPartitions :: int
  prr_FailedPartitions :: int
  prr_SourceObjectCount :: int
  prr_ProcessedObjectCount :: int
  prr_FailedObjectCount :: int
  prr_CreatedAt :: int
  prr_UpdatedAt :: int
  prr_StartedAt :: "int option"
  prr_FinishedAt :: "int option"

record DatasetVersionShardRecord =
  dvs_DatasetVersionID :: string
  dvs_DatasetID :: string
  dvs_PartitionID :: string
  dvs_Split :: string
  dvs_Ordinal :: int
  dvs_ShardSHA256 :: string
  dvs_ObjectKey :: string
  dvs_SampleCount :: int
  dvs_LogicalBytes :: int
  dvs_PackedBytes :: int
  dvs_CreatedAt :: int

record DatasetCacheObservationRecord =
  dco_ID :: string
  dco_DatasetVersionID :: string
  dco_TrainingJobID :: string
  dco_NodeName :: string
  dco_CacheHitCount :: int
  dco_CacheMissCount :: int
  dco_CacheHitBytes :: int
  dco_CacheMissBytes :: int
  dco_CachedBytes :: int
  dco_EvictedBytes :: int
  dco_ChecksumFailureCount :: int
  dco_PrefetchWaitMilliseconds :: int
  dco_CreatedAt :: int

record datasetPurgeIdentity =
  pid_Kind :: string
  pid_ID :: string
  pid_DatasetID :: string
  pid_Version :: string

record catalogue =
  cat_datasets :: "DatasetRecord list"
  cat_versions :: "DatasetVersionRecord list"
  cat_runs :: "DatasetPublicationRunRecord list"
  cat_partitions :: "DatasetPartitionRecord list"
  cat_attempts :: "DatasetPublicationPartitionAttemptRecord list"
  cat_shards :: "DatasetVersionShardRecord list"
  cat_observations :: "DatasetCacheObservationRecord list"
  cat_purged :: "datasetPurgeIdentity list"
  cat_jobs :: "JobRecord list" \<comment> \<open>\<open>training_jobs\<close>, read here and written by the job store\<close>

definition ErrDatasetNotFound :: error where [go_consts]: "ErrDatasetNotFound = Errorf ''dataset not found'' []"
definition ErrDatasetConflict :: error where [go_consts]: "ErrDatasetConflict = Errorf ''dataset conflict'' []"
definition ErrDatasetVersionNotFound :: error where [go_consts]: "ErrDatasetVersionNotFound = Errorf ''dataset version not found'' []"
definition ErrDatasetVersionConflict :: error where [go_consts]: "ErrDatasetVersionConflict = Errorf ''dataset version conflict'' []"
definition ErrDatasetVersionNotReady :: error where [go_consts]: "ErrDatasetVersionNotReady = Errorf ''dataset version is not ready'' []"
definition ErrDatasetCacheObservationConflict :: error where
  [go_consts]: "ErrDatasetCacheObservationConflict = Errorf ''dataset cache observation conflict'' []"

fun errors_Is :: "error \<Rightarrow> error \<Rightarrow> bool" where \<comment> \<open>\<open>errors.Is\<close> along the chain of wrapped errors\<close>
  "errors_Is (Wrapf f args e) target \<longleftrightarrow> Wrapf f args e = target \<or> errors_Is e target"
| "errors_Is (JoinedErrors a b) target \<longleftrightarrow> JoinedErrors a b = target \<or> errors_Is a target \<or> errors_Is b target"
| "errors_Is e target \<longleftrightarrow> e = target"

subsection \<open>Insertion\<close>

definition insert_unless :: "('r \<Rightarrow> 'r \<Rightarrow> bool) \<Rightarrow> 'r \<Rightarrow> 'r list \<Rightarrow> 'r list \<times> nat" where \<comment> \<open>\<open>OnConflict{DoNothing: true}\<close> under unique indexes; rows affected\<close>
  "insert_unless conflict r rows = (if list_ex (conflict r) rows then (rows, 0) else (rows @ [r], 1))"

definition dataset_conflict :: "DatasetRecord \<Rightarrow> DatasetRecord \<Rightarrow> bool" where
  "dataset_conflict r s \<longleftrightarrow> dr_ID r = dr_ID s \<or>
     dr_Slug r = dr_Slug s \<and> dr_Visibility r = dr_Visibility s \<and>
       (dr_Visibility r = DatasetVisibilityPublic \<or>
        dr_Visibility r = DatasetVisibilityTeam \<and> dr_OwnerTenantID r \<noteq> None \<and> dr_OwnerTenantID r = dr_OwnerTenantID s)"

definition version_conflict :: "DatasetVersionRecord \<Rightarrow> DatasetVersionRecord \<Rightarrow> bool" where
  "version_conflict r s \<longleftrightarrow> dvr_ID r = dvr_ID s \<or> dvr_DatasetID r = dvr_DatasetID s \<and> dvr_Version r = dvr_Version s"

definition purged_version :: "DatasetVersionRecord \<Rightarrow> catalogue \<Rightarrow> bool" where \<comment> \<open>trigger \<open>enforce_dataset_purge_no_recreation\<close>\<close>
  "purged_version r db = list_ex (\<lambda>p. pid_Kind p = ''version'' \<and>
     (pid_ID p = dvr_ID r \<or> pid_DatasetID p = dvr_DatasetID r \<and> pid_Version p = dvr_Version r)) (cat_purged db)"

definition insert_version :: "DatasetVersionRecord \<Rightarrow> catalogue \<Rightarrow> (nat \<times> catalogue) result" where
  "insert_version r db =
     (if purged_version r db then Inl (Errorf ''purged dataset version cannot be recreated'' [])
      else let (rows, n) = insert_unless version_conflict r (cat_versions db) in Inr (n, db\<lparr>cat_versions := rows\<rparr>))"

subsection \<open>Conversion between rows and domain values\<close>

definition datasetRecordFromDomain :: "Dataset \<Rightarrow> int \<Rightarrow> DatasetRecord" where
  "datasetRecordFromDomain d now =
     \<lparr>dr_ID = dset_ID d, dr_Slug = dset_Slug d, dr_Name = dset_Name d, dr_Description = dset_Description d,
      dr_SourceSpace = dset_SourceSpace d, dr_SourceRelativePath = dset_SourceRelativePath d,
      dr_OwnerTenantID = optionalID (dset_OwnerTenantID d), dr_Visibility = dset_Visibility d,
      dr_SchemaVersion = dset_SchemaVersion d, dr_CreatedAt = now, dr_UpdatedAt = now\<rparr>"

definition stored_dataset :: "DatasetRecord \<Rightarrow> Dataset" where
  "stored_dataset r =
     \<lparr>dset_ID = dr_ID r, dset_Slug = dr_Slug r, dset_Name = dr_Name r, dset_Description = dr_Description r,
      dset_SourceSpace = dr_SourceSpace r, dset_SourceRelativePath = dr_SourceRelativePath r,
      dset_OwnerTenantID = valueOrEmpty (dr_OwnerTenantID r), dset_Visibility = dr_Visibility r, dset_SchemaVersion = dr_SchemaVersion r\<rparr>"

definition DatasetRecord_toDomain :: "DatasetRecord \<Rightarrow> Dataset result" where
  "DatasetRecord_toDomain r =
     or_fail (wrap ''invalid stored dataset: %w'' [] (Dataset_Validate (stored_dataset r))) (Inr (stored_dataset r))"

definition datasetVersionRecordFromDomain :: "DatasetVersion \<Rightarrow> int \<Rightarrow> DatasetVersionRecord" where
  "datasetVersionRecordFromDomain v now =
     \<lparr>dvr_DeletedAt = None, dvr_DeletedBy = [], dvr_ID = dv_ID v, dvr_DatasetID = dv_DatasetID v, dvr_Version = dv_Version v,
      dvr_State = dv_State v, dvr_ManifestSHA256 = optionalID (dv_ManifestSHA256 v),
      dvr_ManifestObjectKey = optionalID (dv_ManifestObjectKey v), dvr_SchemaVersion = dv_SchemaVersion v,
      dvr_TrainSamples = dv_TrainSamples v, dvr_ValSamples = dv_ValSamples v, dvr_TestSamples = dv_TestSamples v,
      dvr_SourceObjectCount = dv_SourceObjectCount v, dvr_LogicalBytes = dv_LogicalBytes v, dvr_PackedBytes = dv_PackedBytes v,
      dvr_SourceSyncRunID = optionalID (dv_SourceSyncRunID v), dvr_SourceInventorySHA256 = dv_SourceInventorySHA256 v,
      dvr_CreatedAt = now, dvr_UpdatedAt = now\<rparr>"

definition stored_version :: "DatasetVersionRecord \<Rightarrow> DatasetVersion" where
  "stored_version r =
     \<lparr>dv_ID = dvr_ID r, dv_DatasetID = dvr_DatasetID r, dv_Version = dvr_Version r, dv_State = dvr_State r,
      dv_ManifestSHA256 = valueOrEmpty (dvr_ManifestSHA256 r), dv_ManifestObjectKey = valueOrEmpty (dvr_ManifestObjectKey r),
      dv_SchemaVersion = dvr_SchemaVersion r, dv_TrainSamples = dvr_TrainSamples r, dv_ValSamples = dvr_ValSamples r,
      dv_TestSamples = dvr_TestSamples r, dv_SourceObjectCount = dvr_SourceObjectCount r, dv_LogicalBytes = dvr_LogicalBytes r,
      dv_PackedBytes = dvr_PackedBytes r, dv_SourceSyncRunID = valueOrEmpty (dvr_SourceSyncRunID r),
      dv_SourceInventorySHA256 = dvr_SourceInventorySHA256 r\<rparr>"

definition DatasetVersionRecord_toDomain :: "DatasetVersionRecord \<Rightarrow> DatasetVersion result" where
  "DatasetVersionRecord_toDomain r =
     or_fail (wrap ''invalid stored dataset version: %w'' [] (DatasetVersion_Validate (stored_version r))) (Inr (stored_version r))"

definition sameDatasetVersionPayload :: "DatasetVersionRecord \<Rightarrow> DatasetVersionRecord \<Rightarrow> bool" where
  "sameDatasetVersionPayload l r \<longleftrightarrow>
     dvr_ID l = dvr_ID r \<and> dvr_DatasetID l = dvr_DatasetID r \<and> dvr_Version l = dvr_Version r \<and> dvr_State l = dvr_State r \<and>
     dvr_ManifestSHA256 l = dvr_ManifestSHA256 r \<and> dvr_ManifestObjectKey l = dvr_ManifestObjectKey r \<and>
     dvr_SchemaVersion l = dvr_SchemaVersion r \<and> dvr_TrainSamples l = dvr_TrainSamples r \<and> dvr_ValSamples l = dvr_ValSamples r \<and>
     dvr_TestSamples l = dvr_TestSamples r \<and> dvr_SourceObjectCount l = dvr_SourceObjectCount r \<and>
     dvr_LogicalBytes l = dvr_LogicalBytes r \<and> dvr_PackedBytes l = dvr_PackedBytes r \<and>
     dvr_SourceSyncRunID l = dvr_SourceSyncRunID r \<and> dvr_SourceInventorySHA256 l = dvr_SourceInventorySHA256 r"

definition datasetCacheObservationRecordFromDomain :: "DatasetCacheObservation \<Rightarrow> int \<Rightarrow> DatasetCacheObservationRecord" where
  "datasetCacheObservationRecordFromDomain o' createdAt =
     \<lparr>dco_ID = obs_ID o', dco_DatasetVersionID = obs_DatasetVersionID o', dco_TrainingJobID = obs_TrainingJobID o',
      dco_NodeName = obs_NodeName o', dco_CacheHitCount = obs_CacheHitCount o', dco_CacheMissCount = obs_CacheMissCount o',
      dco_CacheHitBytes = obs_CacheHitBytes o', dco_CacheMissBytes = obs_CacheMissBytes o', dco_CachedBytes = obs_CachedBytes o',
      dco_EvictedBytes = obs_EvictedBytes o', dco_ChecksumFailureCount = obs_ChecksumFailureCount o',
      dco_PrefetchWaitMilliseconds = obs_PrefetchWaitMilliseconds o', dco_CreatedAt = createdAt\<rparr>"

subsection \<open>Scopes\<close>

definition visibleDatasetQuery :: "string \<Rightarrow> bool \<Rightarrow> DatasetRecord \<Rightarrow> bool" where
  "visibleDatasetQuery tenantID superAdmin d =
     (if superAdmin then True else if blank tenantID then False
      else dr_Visibility d = DatasetVisibilityPublic \<or>
           dr_Visibility d = DatasetVisibilityTeam \<and> dr_OwnerTenantID d = Some tenantID)"

definition manageableDatasetQuery :: "string \<Rightarrow> bool \<Rightarrow> DatasetRecord \<Rightarrow> bool" where
  "manageableDatasetQuery tenantID superAdmin d =
     (if superAdmin then True else if blank tenantID then False
      else dr_Visibility d = DatasetVisibilityTeam \<and> dr_OwnerTenantID d = Some tenantID)"

definition joined_dataset :: "(DatasetRecord \<Rightarrow> bool) \<Rightarrow> string \<Rightarrow> catalogue \<Rightarrow> bool" where \<comment> \<open>\<open>JOIN datasets ON datasets.id = ...\<close> with a scope\<close>
  "joined_dataset scope datasetID db = list_ex (\<lambda>d. dr_ID d = datasetID \<and> scope d) (cat_datasets db)"

definition live_version :: "DatasetVersionRecord \<Rightarrow> bool" where \<comment> \<open>\<open>deleted_at IS NULL\<close>, added by \<open>gorm.DeletedAt\<close>\<close>
  "live_version v \<longleftrightarrow> dvr_DeletedAt v = None"

definition visibleDatasetVersionQuery :: "string \<Rightarrow> bool \<Rightarrow> catalogue \<Rightarrow> DatasetVersionRecord list" where
  "visibleDatasetVersionQuery tenantID superAdmin db =
     filter (\<lambda>v. live_version v \<and> joined_dataset (visibleDatasetQuery tenantID superAdmin) (dvr_DatasetID v) db) (cat_versions db)"

definition isDatasetVersionDraftState :: "DatasetVersionState \<Rightarrow> bool" where
  "isDatasetVersionDraftState s \<longleftrightarrow> s \<in> {DatasetVersionDiscovering, DatasetVersionStabilizing, DatasetVersionValidating, DatasetVersionPacking}"

subsection \<open>Datasets\<close>

definition CreateDataset :: "int \<Rightarrow> Dataset \<Rightarrow> catalogue \<Rightarrow> (unit \<times> catalogue) result" where
  "CreateDataset now dataset db =
     or_fail (wrap ''validate dataset: %w'' [] (Dataset_Validate dataset))
      (let (rows, affected) = insert_unless dataset_conflict (datasetRecordFromDomain dataset now) (cat_datasets db) in
       if affected \<noteq> 1 then Inl ErrDatasetConflict else Inr ((), db\<lparr>cat_datasets := rows\<rparr>))"

definition GetDataset :: "string \<Rightarrow> bool \<Rightarrow> string \<Rightarrow> catalogue \<Rightarrow> Dataset result" where
  "GetDataset tenantID superAdmin datasetID db =
     require (select_first (\<lambda>d. visibleDatasetQuery tenantID superAdmin d \<and> dr_ID d = datasetID) (cat_datasets db)) ErrDatasetNotFound
       DatasetRecord_toDomain"

fun decode_all :: "('r \<Rightarrow> 'a result) \<Rightarrow> ('r \<Rightarrow> error \<Rightarrow> error) \<Rightarrow> 'r list \<Rightarrow> 'a list result" where \<comment> \<open>the loops that decode rows\<close>
  "decode_all dec err [] = Inr []"
| "decode_all dec err (r # rs) =
     (case dec r of Inl e \<Rightarrow> Inl (err r e) | Inr x \<Rightarrow> and_then (decode_all dec err rs) (\<lambda>xs. Inr (x # xs)))"

definition ListDatasets :: "(string \<Rightarrow> int) \<Rightarrow> string \<Rightarrow> bool \<Rightarrow> catalogue \<Rightarrow> Dataset list result" where
  "ListDatasets collate tenantID superAdmin db =
     decode_all DatasetRecord_toDomain (\<lambda>r e. Wrapf ''decode dataset %s: %w'' [ArgS (dr_ID r)] e)
       (sort_key (collate \<circ> dr_Slug) (sort_key (collate \<circ> dr_ID) (filter (visibleDatasetQuery tenantID superAdmin) (cat_datasets db))))"

subsection \<open>Versions\<close>

definition CreateDatasetVersion :: "int \<Rightarrow> DatasetVersion \<Rightarrow> catalogue \<Rightarrow> (unit \<times> catalogue) result" where
  "CreateDatasetVersion now version db =
     or_fail (wrap ''validate dataset version: %w'' [] (DatasetVersion_Validate version))
      (if dv_State version \<noteq> DatasetVersionDiscovering
       then Inl (Wrapf ''%w: new versions must start in DISCOVERING'' [] ErrDatasetVersionConflict)
       else if count_where (\<lambda>d. dr_ID d = dv_DatasetID version) (cat_datasets db) \<noteq> 1 then Inl ErrDatasetNotFound
       else let row = datasetVersionRecordFromDomain version now in
         case insert_version row db of
           Inl e \<Rightarrow> Inl (Wrapf ''create dataset version: %w'' [] e)
         | Inr (affected, db') \<Rightarrow>
             if affected = 1 then Inr ((), db')
             else let collisions = filter (\<lambda>v. live_version v \<and>
                    (dvr_ID v = dv_ID version \<or> dvr_DatasetID v = dv_DatasetID version \<and> dvr_Version v = dv_Version version)) (cat_versions db') in
               if length collisions = 1 \<and> sameDatasetVersionPayload (hd collisions) row then Inr ((), db')
               else Inl ErrDatasetVersionConflict)"

definition GetDatasetVersion :: "string \<Rightarrow> bool \<Rightarrow> string \<Rightarrow> string \<Rightarrow> catalogue \<Rightarrow> DatasetVersion result" where
  "GetDatasetVersion tenantID superAdmin datasetID versionID db =
     require (select_first (\<lambda>v. dvr_DatasetID v = datasetID \<and> dvr_ID v = versionID) (visibleDatasetVersionQuery tenantID superAdmin db))
       ErrDatasetVersionNotFound DatasetVersionRecord_toDomain"

definition newest_first :: "(string \<Rightarrow> int) \<Rightarrow> DatasetVersionRecord list \<Rightarrow> DatasetVersionRecord list" where \<comment> \<open>\<open>created_at DESC, id DESC\<close>\<close>
  "newest_first collate rows = sort_key (\<lambda>v. - dvr_CreatedAt v) (sort_key (\<lambda>v. - collate (dvr_ID v)) rows)"

definition ListDatasetVersions :: "(string \<Rightarrow> int) \<Rightarrow> string \<Rightarrow> bool \<Rightarrow> string \<Rightarrow> catalogue \<Rightarrow> DatasetVersion list result" where
  "ListDatasetVersions collate tenantID superAdmin datasetID db =
     and_then (GetDataset tenantID superAdmin datasetID db) (\<lambda>_.
       decode_all DatasetVersionRecord_toDomain (\<lambda>r e. Wrapf ''decode dataset version %s: %w'' [ArgS (dvr_ID r)] e)
         (newest_first collate (filter (\<lambda>v. dvr_DatasetID v = datasetID) (visibleDatasetVersionQuery tenantID superAdmin db))))"

definition ResolveReadyDatasetVersion ::
    "(string \<Rightarrow> int) \<Rightarrow> string \<Rightarrow> bool \<Rightarrow> string \<Rightarrow> bool \<Rightarrow> string \<Rightarrow> catalogue \<Rightarrow> DatasetVersion result" where \<comment> \<open>the selector as its two fields\<close>
  "ResolveReadyDatasetVersion collate tenantID superAdmin datasetID latest versionID db =
     (if latest = (\<not> blank versionID)
      then Inl (Wrapf ''%w: choose either latest or an explicit version ID'' [] ErrDatasetVersionNotReady)
      else if \<not> blank versionID \<and> ValidateResolvedDatasetVersionID versionID \<noteq> None
      then Inl (Wrapf ''%w: invalid selector'' [] ErrDatasetVersionNotReady)
      else let rows = filter (\<lambda>v. dvr_DatasetID v = datasetID \<and> dvr_State v = DatasetVersionReady)
                 (visibleDatasetVersionQuery tenantID superAdmin db) in
        require (if latest then (case newest_first collate rows of [] \<Rightarrow> None | v # _ \<Rightarrow> Some v)
                 else select_first (\<lambda>v. dvr_ID v = versionID) rows) ErrDatasetVersionNotReady (\<lambda>row.
          case DatasetVersionRecord_toDomain row of
            Inl e \<Rightarrow> Inl (Wrapf ''decode ready dataset version: %w'' [] e)
          | Inr version \<Rightarrow> Inr version))"

definition version_at :: "string \<Rightarrow> string \<Rightarrow> catalogue \<Rightarrow> DatasetVersionRecord option" where
  "version_at datasetID versionID db = select_first (\<lambda>v. live_version v \<and> dvr_ID v = versionID \<and> dvr_DatasetID v = datasetID) (cat_versions db)"

definition update_versions :: "(DatasetVersionRecord \<Rightarrow> bool) \<Rightarrow> (DatasetVersionRecord \<Rightarrow> DatasetVersionRecord) \<Rightarrow> catalogue \<Rightarrow> nat \<times> catalogue" where \<comment> \<open>rows affected\<close>
  "update_versions p f db =
     (count_where (\<lambda>v. live_version v \<and> p v) (cat_versions db),
      db\<lparr>cat_versions := update_where (\<lambda>v. live_version v \<and> p v) f (cat_versions db)\<rparr>)"

definition UpdateDatasetVersionDraft :: "int \<Rightarrow> DatasetVersion \<Rightarrow> catalogue \<Rightarrow> (DatasetVersion \<times> catalogue) result" where
  "UpdateDatasetVersionDraft now version db =
     or_fail (wrap ''validate dataset version draft: %w'' [] (DatasetVersion_Validate version))
      (require (version_at (dv_DatasetID version) (dv_ID version) db) ErrDatasetVersionNotFound (\<lambda>currentRecord.
       and_then (DatasetVersionRecord_toDomain currentRecord) (\<lambda>current.
         if dv_ID current \<noteq> dv_ID version \<or> dv_DatasetID current \<noteq> dv_DatasetID version \<or>
            dv_Version current \<noteq> dv_Version version \<or> dv_State current \<noteq> dv_State version then Inl ErrDatasetVersionConflict
         else if \<not> isDatasetVersionDraftState (dv_State current) then Inl ErrDatasetVersionConflict
         else let (affected, db') = update_versions (\<lambda>v. dvr_ID v = dv_ID current \<and> dvr_DatasetID v = dv_DatasetID current \<and>
                    dvr_Version v = dv_Version current \<and> dvr_State v = dv_State current)
                 (\<lambda>v. v\<lparr>dvr_ManifestSHA256 := optionalID (dv_ManifestSHA256 version), dvr_ManifestObjectKey := optionalID (dv_ManifestObjectKey version),
                    dvr_SchemaVersion := dv_SchemaVersion version, dvr_TrainSamples := dv_TrainSamples version,
                    dvr_ValSamples := dv_ValSamples version, dvr_TestSamples := dv_TestSamples version,
                    dvr_SourceObjectCount := dv_SourceObjectCount version, dvr_LogicalBytes := dv_LogicalBytes version,
                    dvr_PackedBytes := dv_PackedBytes version, dvr_UpdatedAt := now\<rparr>) db in
           if affected \<noteq> 1 then Inl ErrDatasetVersionConflict else Inr (version, db'))))"

definition TransitionDatasetVersion :: "int \<Rightarrow> string \<Rightarrow> string \<Rightarrow> DatasetVersionState \<Rightarrow> catalogue \<Rightarrow> (DatasetVersion \<times> catalogue) result" where
  "TransitionDatasetVersion now datasetID versionID target db =
     require (version_at datasetID versionID db) ErrDatasetVersionNotFound (\<lambda>currentRecord.
     and_then (DatasetVersionRecord_toDomain currentRecord) (\<lambda>current.
       case DatasetVersion_TransitionTo current target of
         Inl e \<Rightarrow> Inl (Wrapf ''%w: %v'' [] ErrDatasetVersionConflict)
       | Inr transitioned \<Rightarrow>
           let (affected, db') = update_versions (\<lambda>v. dvr_ID v = dv_ID current \<and> dvr_DatasetID v = dv_DatasetID current \<and> dvr_State v = dv_State current)
                 (\<lambda>v. v\<lparr>dvr_State := dv_State transitioned, dvr_UpdatedAt := now\<rparr>) db in
           if affected \<noteq> 1 then Inl ErrDatasetVersionConflict else Inr (transitioned, db')))"

definition CountDatasetVersionReferences :: "string \<Rightarrow> catalogue \<Rightarrow> nat result" where
  "CountDatasetVersionReferences datasetVersionID db =
     or_fail (wrap ''validate dataset version reference: %w'' [] (ValidateResolvedDatasetVersionID datasetVersionID))
      (Inr (count_where (\<lambda>j. jr_DatasetVersionID j = Some datasetVersionID) (cat_jobs db)))"

subsection \<open>Cache observations\<close>

definition job_pins :: "DatasetCacheObservation \<Rightarrow> catalogue \<Rightarrow> nat" where \<comment> \<open>rows of the join\<close>
  "job_pins o' db = length [(j, v). j \<leftarrow> cat_jobs db, v \<leftarrow> cat_versions db,
     Some (dvr_ID v) = jr_DatasetVersionID j \<and> Some (dvr_DatasetID v) = jr_DatasetID j \<and> live_version v \<and>
     jr_ID j = obs_TrainingJobID o' \<and> jr_DatasetVersionID j = Some (obs_DatasetVersionID o') \<and> dvr_ID v = obs_DatasetVersionID o']"

definition RecordDatasetCacheObservation :: "int \<Rightarrow> DatasetCacheObservation \<Rightarrow> catalogue \<Rightarrow> (unit \<times> catalogue) result" where
  "RecordDatasetCacheObservation now o' db =
     or_fail (wrap ''validate dataset cache observation: %w'' [] (DatasetCacheObservation_Validate o'))
      (if job_pins o' db \<noteq> 1 then Inl ErrDatasetCacheObservationConflict
       else let (rows, affected) = insert_ignore dco_ID (datasetCacheObservationRecordFromDomain o' now) (cat_observations db) in
         if affected \<noteq> 1 then Inl ErrDatasetCacheObservationConflict else Inr ((), db\<lparr>cat_observations := rows\<rparr>))"

end
