(* ===== verification/Dataset_Runs.thy ===== *)
theory Dataset_Runs
  imports Dataset_Store
begin

section \<open>Publication runs\<close>

text \<open>
  \<open>backend/repositories/dataset_publication_runs.go\<close>, \<open>dataset_cleanup.go\<close> and \<open>dataset_purge.go\<close>: the transactions that create, claim,
  advance, finalize, retry, hide and purge the publication of a dataset version, and \<open>backend/domain/dataset_publication_receipt.go\<close>. A context is nil or carries its
  \<open>Err()\<close>; a context that ends during an operation makes it fail, which leaves the tables as they were. \<open>observedAt\<close> is
  \<open>None\<close> for the zero time.
\<close>

subsection \<open>Receipts\<close>

record DatasetPublicationReceipt =
  rcpt_DatasetID :: string
  rcpt_DatasetVersionID :: string
  rcpt_Version :: string
  rcpt_ManifestSHA256 :: string
  rcpt_ManifestObjectKey :: string
  rcpt_SchemaVersion :: string
  rcpt_TrainSamples :: int
  rcpt_ValSamples :: int
  rcpt_TestSamples :: int
  rcpt_SourceObjectCount :: int
  rcpt_LogicalBytes :: int
  rcpt_PackedBytes :: int

definition receipt_datasetVersion :: "DatasetPublicationReceipt \<Rightarrow> DatasetVersionState \<Rightarrow> DatasetVersion" where
  "receipt_datasetVersion r state =
     \<lparr>dv_ID = rcpt_DatasetVersionID r, dv_DatasetID = rcpt_DatasetID r, dv_Version = rcpt_Version r, dv_State = state,
      dv_ManifestSHA256 = rcpt_ManifestSHA256 r, dv_ManifestObjectKey = rcpt_ManifestObjectKey r, dv_SchemaVersion = rcpt_SchemaVersion r,
      dv_TrainSamples = rcpt_TrainSamples r, dv_ValSamples = rcpt_ValSamples r, dv_TestSamples = rcpt_TestSamples r,
      dv_SourceObjectCount = rcpt_SourceObjectCount r, dv_LogicalBytes = rcpt_LogicalBytes r, dv_PackedBytes = rcpt_PackedBytes r,
      dv_SourceSyncRunID = [], dv_SourceInventorySHA256 = []\<rparr>"

definition ReadyVersion :: "DatasetPublicationReceipt \<Rightarrow> DatasetVersion" where
  "ReadyVersion r = receipt_datasetVersion r DatasetVersionReady"

definition Receipt_ValidateWithInternalPrefix :: "DatasetPublicationReceipt \<Rightarrow> string \<Rightarrow> error option" where
  "Receipt_ValidateWithInternalPrefix r rawPrefix = first_error [
     wrap ''invalid dataset publication receipt: %w'' []
       (DatasetVersion_ValidateWithInternalPrefix (receipt_datasetVersion r DatasetVersionReady) rawPrefix),
     check (int64 (int64 (rcpt_TrainSamples r + rcpt_ValSamples r) + rcpt_TestSamples r) \<le> 0)
       (Errorf ''invalid dataset publication receipt: at least one sample is required'' []),
     check (rcpt_SourceObjectCount r \<le> 0 \<or> rcpt_LogicalBytes r \<le> 0 \<or> rcpt_PackedBytes r \<le> 0)
       (Errorf ''invalid dataset publication receipt: positive source and byte counts are required'' [])]"

subsection \<open>Errors and contexts\<close>

definition ErrDatasetPublicationRunNotFound :: error where
  [go_consts]: "ErrDatasetPublicationRunNotFound = Errorf ''dataset publication run not found'' []"
definition ErrDatasetPublicationRunConflict :: error where
  [go_consts]: "ErrDatasetPublicationRunConflict = Errorf ''dataset publication run conflict'' []"
definition ErrDatasetPublicationRunUnavailable :: error where
  [go_consts]: "ErrDatasetPublicationRunUnavailable = Errorf ''dataset publication run unavailable'' []"
definition errDatasetPublicationRunCASLost :: error where
  [go_consts]: "errDatasetPublicationRunCASLost = Errorf ''dataset publication run compare-and-swap lost'' []"
definition ErrDatasetCleanupNotFound :: error where
  [go_consts]: "ErrDatasetCleanupNotFound = Errorf ''dataset cleanup target not found'' []"
definition ErrDatasetCleanupConflict :: error where
  [go_consts]: "ErrDatasetCleanupConflict = Errorf ''dataset cleanup target is not safely deletable'' []"

datatype go_context = Nil_Context | Context "error option" \<comment> \<open>\<open>ctx.Err()\<close>\<close>

fun publicationRunContextError :: "go_context \<Rightarrow> error option" where
  "publicationRunContextError Nil_Context = Some ErrDatasetPublicationRunConflict"
| "publicationRunContextError (Context e) = e"

definition publicationRunDependencyContextError :: "go_context \<Rightarrow> error \<Rightarrow> error option" where
  "publicationRunDependencyContextError ctx err =
     (case publicationRunContextError ctx of
        Some e \<Rightarrow> Some e
      | None \<Rightarrow> if errors_Is err ContextError then Some ContextError else None)"

definition publicationRunDatabaseError :: "go_context \<Rightarrow> error \<Rightarrow> error" where
  "publicationRunDatabaseError ctx err =
     (case publicationRunDependencyContextError ctx err of Some e \<Rightarrow> e | None \<Rightarrow> ErrDatasetPublicationRunUnavailable)"

definition publicationRunOperationError :: "go_context \<Rightarrow> error \<Rightarrow> error" where
  "publicationRunOperationError ctx err =
     (case publicationRunDependencyContextError ctx err of
        Some e \<Rightarrow> e
      | None \<Rightarrow>
          if errors_Is err ErrDatasetPublicationRunNotFound \<or> errors_Is err ErrDatasetPublicationRunConflict \<or>
             errors_Is err ErrDatasetPublicationRunUnavailable then err
          else ErrDatasetPublicationRunUnavailable)"

definition normalizedPublicationRunTime :: "int \<Rightarrow> int option \<Rightarrow> int" where
  "normalizedPublicationRunTime now at = (case at of None \<Rightarrow> now | Some t \<Rightarrow> t)"

subsection \<open>Rows\<close>

definition datasetPublicationRunRecordFromDomain :: "DatasetPublicationRun \<Rightarrow> int \<Rightarrow> DatasetPublicationRunRecord" where
  "datasetPublicationRunRecordFromDomain run now =
     \<lparr>prr_DeletedAt = None, prr_DeletedBy = [], prr_ID = run_ID run, prr_DatasetID = run_DatasetID run,
      prr_DatasetVersionID = run_DatasetVersionID run, prr_ExecutionMode = ExecutionMode_Normalized (run_ExecutionMode run),
      prr_State = run_State run, prr_TotalPartitions = run_TotalPartitions run, prr_CompletedPartitions = run_CompletedPartitions run,
      prr_FailedPartitions = run_FailedPartitions run, prr_SourceObjectCount = run_SourceObjectCount run,
      prr_ProcessedObjectCount = run_ProcessedObjectCount run, prr_FailedObjectCount = run_FailedObjectCount run,
      prr_CreatedAt = now, prr_UpdatedAt = now, prr_StartedAt = None, prr_FinishedAt = None\<rparr>"

definition stored_run :: "DatasetPublicationRunRecord \<Rightarrow> DatasetPublicationRun" where
  "stored_run r =
     \<lparr>run_ID = prr_ID r, run_DatasetID = prr_DatasetID r, run_DatasetVersionID = prr_DatasetVersionID r,
      run_ExecutionMode = ExecutionMode_Normalized (prr_ExecutionMode r), run_State = prr_State r,
      run_TotalPartitions = prr_TotalPartitions r, run_CompletedPartitions = prr_CompletedPartitions r,
      run_FailedPartitions = prr_FailedPartitions r, run_SourceObjectCount = prr_SourceObjectCount r,
      run_ProcessedObjectCount = prr_ProcessedObjectCount r, run_FailedObjectCount = prr_FailedObjectCount r\<rparr>"

definition DatasetPublicationRunRecord_toDomain :: "DatasetPublicationRunRecord \<Rightarrow> DatasetPublicationRun result" where
  "DatasetPublicationRunRecord_toDomain r =
     or_fail (wrap ''invalid stored dataset publication run: %w'' [] (DatasetPublicationRun_Validate (stored_run r))) (Inr (stored_run r))"

definition live_run :: "DatasetPublicationRunRecord \<Rightarrow> bool" where \<comment> \<open>\<open>deleted_at IS NULL\<close>\<close>
  "live_run r \<longleftrightarrow> prr_DeletedAt r = None"

definition insert_run :: "DatasetPublicationRunRecord \<Rightarrow> catalogue \<Rightarrow> (nat \<times> catalogue) result" where \<comment> \<open>with the trigger on purged identities\<close>
  "insert_run r db =
     (if list_ex (\<lambda>p. pid_Kind p = ''run'' \<and> pid_ID p = prr_ID r \<or> pid_Kind p = ''version'' \<and> pid_ID p = prr_DatasetVersionID r) (cat_purged db)
      then Inl (Errorf ''purged publication cannot be recreated'' [])
      else let (rows, n) = insert_ignore prr_ID r (cat_runs db) in Inr (n, db\<lparr>cat_runs := rows\<rparr>))"

definition update_runs :: "(DatasetPublicationRunRecord \<Rightarrow> bool) \<Rightarrow> (DatasetPublicationRunRecord \<Rightarrow> DatasetPublicationRunRecord) \<Rightarrow> catalogue \<Rightarrow> nat \<times> catalogue" where \<comment> \<open>rows affected\<close>
  "update_runs p f db =
     (count_where (\<lambda>r. live_run r \<and> p r) (cat_runs db),
      db\<lparr>cat_runs := update_where (\<lambda>r. live_run r \<and> p r) f (cat_runs db)\<rparr>)"

subsection \<open>Queries\<close>

definition getDatasetPublicationRunRecordWithScope ::
    "(DatasetRecord \<Rightarrow> bool) \<Rightarrow> string \<Rightarrow> string \<Rightarrow> string \<Rightarrow> catalogue \<Rightarrow> DatasetPublicationRunRecord result" where
  "getDatasetPublicationRunRecordWithScope scope datasetID versionID runID db =
     require (select_first (\<lambda>r. live_run r \<and> prr_ID r = runID \<and> prr_DatasetID r = datasetID \<and> prr_DatasetVersionID r = versionID \<and>
         list_ex (\<lambda>v. live_version v \<and> dvr_ID v = prr_DatasetVersionID r \<and> dvr_DatasetID v = prr_DatasetID r) (cat_versions db) \<and>
         joined_dataset scope (prr_DatasetID r) db) (cat_runs db))
       ErrDatasetPublicationRunNotFound Inr"

definition getDatasetPublicationRunRecord :: "string \<Rightarrow> bool \<Rightarrow> string \<Rightarrow> string \<Rightarrow> string \<Rightarrow> catalogue \<Rightarrow> DatasetPublicationRunRecord result" where
  "getDatasetPublicationRunRecord tenantID superAdmin = getDatasetPublicationRunRecordWithScope (visibleDatasetQuery tenantID superAdmin)"

definition getManageableDatasetPublicationRunRecord :: "string \<Rightarrow> bool \<Rightarrow> string \<Rightarrow> string \<Rightarrow> string \<Rightarrow> catalogue \<Rightarrow> DatasetPublicationRunRecord result" where
  "getManageableDatasetPublicationRunRecord tenantID superAdmin = getDatasetPublicationRunRecordWithScope (manageableDatasetQuery tenantID superAdmin)"

definition manageable_versions :: "string \<Rightarrow> bool \<Rightarrow> string \<Rightarrow> string \<Rightarrow> catalogue \<Rightarrow> DatasetVersionRecord list" where
  "manageable_versions tenantID superAdmin datasetID versionID db =
     filter (\<lambda>v. live_version v \<and> dvr_ID v = versionID \<and> dvr_DatasetID v = datasetID \<and>
       joined_dataset (manageableDatasetQuery tenantID superAdmin) (dvr_DatasetID v) db) (cat_versions db)"

definition getManageableDatasetVersionRecord :: "string \<Rightarrow> bool \<Rightarrow> string \<Rightarrow> string \<Rightarrow> catalogue \<Rightarrow> DatasetVersionRecord result" where
  "getManageableDatasetVersionRecord tenantID superAdmin datasetID versionID db =
     (case manageable_versions tenantID superAdmin datasetID versionID db of [] \<Rightarrow> Inl ErrDatasetPublicationRunNotFound | v # _ \<Rightarrow> Inr v)"

definition manageableDatasetVersionExists :: "string \<Rightarrow> bool \<Rightarrow> string \<Rightarrow> string \<Rightarrow> catalogue \<Rightarrow> bool" where
  "manageableDatasetVersionExists tenantID superAdmin datasetID versionID db \<longleftrightarrow>
     length (manageable_versions tenantID superAdmin datasetID versionID db) = 1"

subsection \<open>Progress\<close>

definition validatePublicationRunTransition :: "DatasetVersionState \<Rightarrow> DatasetPublicationRun \<Rightarrow> error option" where
  "validatePublicationRunTransition expectedState n =
     (if DatasetPublicationRun_Validate n \<noteq> None then Some (Wrapf ''%w: invalid progress'' [] ErrDatasetPublicationRunConflict)
      else if \<not> (case expectedState of
          DatasetVersionStabilizing \<Rightarrow> run_State n = DatasetVersionValidating \<or> run_State n = DatasetVersionFailed
        | DatasetVersionValidating \<Rightarrow> run_State n = DatasetVersionPacking \<or> run_State n = DatasetVersionFailed
        | DatasetVersionPacking \<Rightarrow> run_State n = DatasetVersionReady \<or> run_State n = DatasetVersionFailed
        | _ \<Rightarrow> False) then Some ErrDatasetPublicationRunConflict
      else check (run_State n = DatasetVersionReady \<and>
          (run_CompletedPartitions n \<noteq> run_TotalPartitions n \<or> run_FailedPartitions n \<noteq> 0 \<or>
           run_ProcessedObjectCount n \<noteq> run_SourceObjectCount n \<or> run_FailedObjectCount n \<noteq> 0)) ErrDatasetPublicationRunConflict)"

definition publicationProgressMonotonic :: "DatasetPublicationRun \<Rightarrow> DatasetPublicationRun \<Rightarrow> bool" where
  "publicationProgressMonotonic current n \<longleftrightarrow>
     run_ID current = run_ID n \<and> run_DatasetID current = run_DatasetID n \<and> run_DatasetVersionID current = run_DatasetVersionID n \<and>
     ExecutionMode_Normalized (run_ExecutionMode current) = ExecutionMode_Normalized (run_ExecutionMode n) \<and>
     run_TotalPartitions n \<ge> run_TotalPartitions current \<and> run_CompletedPartitions n \<ge> run_CompletedPartitions current \<and>
     run_FailedPartitions n \<ge> run_FailedPartitions current \<and> run_SourceObjectCount n \<ge> run_SourceObjectCount current \<and>
     run_ProcessedObjectCount n \<ge> run_ProcessedObjectCount current \<and> run_FailedObjectCount n \<ge> run_FailedObjectCount current"

definition activeDatasetPublicationState :: "DatasetVersionState \<Rightarrow> bool" where
  "activeDatasetPublicationState s \<longleftrightarrow> s \<in> {DatasetVersionStabilizing, DatasetVersionValidating, DatasetVersionPacking}"

definition progress_updates :: "DatasetPublicationRun \<Rightarrow> int \<Rightarrow> DatasetPublicationRunRecord \<Rightarrow> DatasetPublicationRunRecord" where \<comment> \<open>without \<open>state\<close> and \<open>finished_at\<close>\<close>
  "progress_updates n observedAt r =
     r\<lparr>prr_TotalPartitions := run_TotalPartitions n, prr_CompletedPartitions := run_CompletedPartitions n,
       prr_FailedPartitions := run_FailedPartitions n, prr_SourceObjectCount := run_SourceObjectCount n,
       prr_ProcessedObjectCount := run_ProcessedObjectCount n, prr_FailedObjectCount := run_FailedObjectCount n,
       prr_UpdatedAt := observedAt\<rparr>"

definition publicationRunUpdates :: "DatasetPublicationRun \<Rightarrow> int \<Rightarrow> DatasetPublicationRunRecord \<Rightarrow> DatasetPublicationRunRecord" where
  "publicationRunUpdates n observedAt r =
     (let r' = (progress_updates n observedAt r)\<lparr>prr_State := run_State n\<rparr> in
      if run_State n = DatasetVersionReady \<or> run_State n = DatasetVersionFailed then r'\<lparr>prr_FinishedAt := Some observedAt\<rparr> else r')"

subsection \<open>Reading\<close>

definition GetDatasetPublicationRun ::
    "go_context \<Rightarrow> string \<Rightarrow> bool \<Rightarrow> string \<Rightarrow> string \<Rightarrow> string \<Rightarrow> catalogue \<Rightarrow> DatasetPublicationRun result" where
  "GetDatasetPublicationRun ctx tenantID superAdmin datasetID versionID runID db =
     or_fail (publicationRunContextError ctx)
      (case getDatasetPublicationRunRecord tenantID superAdmin datasetID versionID runID db of
         Inl e \<Rightarrow> Inl (publicationRunOperationError ctx e)
       | Inr r \<Rightarrow> (case DatasetPublicationRunRecord_toDomain r of Inl e \<Rightarrow> Inl ErrDatasetPublicationRunUnavailable | Inr run \<Rightarrow> Inr run))"

definition GetDatasetPublicationRunForVersion ::
    "(string \<Rightarrow> int) \<Rightarrow> go_context \<Rightarrow> string \<Rightarrow> bool \<Rightarrow> string \<Rightarrow> string \<Rightarrow> catalogue \<Rightarrow> DatasetPublicationRun result" where
  "GetDatasetPublicationRunForVersion collate ctx tenantID superAdmin datasetID versionID db =
     or_fail (publicationRunContextError ctx)
      (let scope = (\<lambda>d. superAdmin \<or> dr_Visibility d = DatasetVisibilityPublic \<or>
              dr_Visibility d = DatasetVisibilityTeam \<and> dr_OwnerTenantID d = Some tenantID);
           rows = filter (\<lambda>r. live_run r \<and> prr_DatasetID r = datasetID \<and> prr_DatasetVersionID r = versionID \<and>
              list_ex (\<lambda>v. live_version v \<and> dvr_ID v = prr_DatasetVersionID r \<and> dvr_DatasetID v = prr_DatasetID r) (cat_versions db) \<and>
              joined_dataset scope (prr_DatasetID r) db) (cat_runs db) in
       case sort_key (\<lambda>r. - prr_CreatedAt r) (sort_key (\<lambda>r. - collate (prr_ID r)) rows) of
         [] \<Rightarrow> Inl ErrDatasetPublicationRunNotFound
       | r # _ \<Rightarrow> (case DatasetPublicationRunRecord_toDomain r of Inl e \<Rightarrow> Inl ErrDatasetPublicationRunUnavailable | Inr run \<Rightarrow> Inr run))"

definition maximumActiveDatasetPublicationList :: int where [go_consts]: "maximumActiveDatasetPublicationList = 256"

definition publication_work :: "go_context \<Rightarrow> catalogue \<Rightarrow> DatasetPublicationRunRecord \<Rightarrow> DatasetPublicationWork result" where \<comment> \<open>the loop body of \<open>ListActiveDatasetPublications\<close>\<close>
  "publication_work ctx db runRecord =
     (case DatasetPublicationRunRecord_toDomain runRecord of
        Inl e \<Rightarrow> Inl ErrDatasetPublicationRunUnavailable
      | Inr run \<Rightarrow>
        require (version_at (run_DatasetID run) (run_DatasetVersionID run) db) (publicationRunDatabaseError ctx (Errorf ''record not found'' [])) (\<lambda>versionRecord.
        case DatasetVersionRecord_toDomain versionRecord of
          Inl e \<Rightarrow> Inl ErrDatasetPublicationRunUnavailable
        | Inr version \<Rightarrow>
          require (select_first (\<lambda>d. dr_ID d = run_DatasetID run) (cat_datasets db)) (publicationRunDatabaseError ctx (Errorf ''record not found'' [])) (\<lambda>datasetRecord.
          case DatasetRecord_toDomain datasetRecord of
            Inl e \<Rightarrow> Inl ErrDatasetPublicationRunUnavailable
          | Inr dataset \<Rightarrow>
            let work = \<lparr>work_Dataset = dataset, work_Version = version, work_Run = run\<rparr> in
            if DatasetPublicationWork_Validate work \<noteq> None then Inl ErrDatasetPublicationRunUnavailable else Inr work)))"

definition ListActiveDatasetPublications :: "(string \<Rightarrow> int) \<Rightarrow> go_context \<Rightarrow> int \<Rightarrow> catalogue \<Rightarrow> DatasetPublicationWork list result" where
  "ListActiveDatasetPublications collate ctx limit db =
     or_fail (publicationRunContextError ctx)
      (if limit < 1 \<or> limit > maximumActiveDatasetPublicationList then Inl ErrDatasetPublicationRunConflict
       else decode_all (publication_work ctx db) (\<lambda>_ e. e)
         (take (nat limit) (sort_key prr_CreatedAt (sort_key (collate \<circ> prr_ID)
           (filter (\<lambda>r. live_run r \<and> isDatasetVersionDraftState (prr_State r)) (cat_runs db))))))"

definition ListDatasetVersionGCCandidates :: "(string \<Rightarrow> int) \<Rightarrow> go_context \<Rightarrow> catalogue \<Rightarrow> DatasetVersion list result" where
  "ListDatasetVersionGCCandidates collate ctx db =
     or_fail (publicationRunContextError ctx)
      (decode_all (\<lambda>r. case DatasetVersionRecord_toDomain r of
           Inl e \<Rightarrow> Inl ErrDatasetPublicationRunUnavailable
         | Inr version \<Rightarrow> if dv_State version \<noteq> DatasetVersionDeprecated then Inl ErrDatasetPublicationRunUnavailable else Inr version) (\<lambda>_ e. e)
        (sort_key dvr_CreatedAt (sort_key (collate \<circ> dvr_ID) (filter (\<lambda>v. live_version v \<and> dvr_State v = DatasetVersionDeprecated \<and>
          \<not> list_ex (\<lambda>j. jr_DatasetVersionID j = Some (dvr_ID v)) (cat_jobs db)) (cat_versions db)))))"

subsection \<open>Creating\<close>

definition CreateDatasetPublicationRequest ::
    "int \<Rightarrow> go_context \<Rightarrow> string \<Rightarrow> bool \<Rightarrow> DatasetVersion \<Rightarrow> DatasetPublicationRun \<Rightarrow> catalogue \<Rightarrow> (DatasetPublicationRun \<times> catalogue) result" where
  "CreateDatasetPublicationRequest now ctx tenantID superAdmin version run db =
     or_fail (publicationRunContextError ctx)
      (if DatasetVersion_Validate version \<noteq> None then Inl ErrDatasetPublicationRunConflict
       else if DatasetPublicationRun_Validate run \<noteq> None \<or> dv_State version \<noteq> DatasetVersionDiscovering \<or>
         run_State run \<noteq> DatasetVersionDiscovering \<or> run_DatasetID run \<noteq> dv_DatasetID version \<or> run_DatasetVersionID run \<noteq> dv_ID version
       then Inl ErrDatasetPublicationRunConflict
       else if count_where (\<lambda>d. manageableDatasetQuery tenantID superAdmin d \<and> dr_ID d = dv_DatasetID version) (cat_datasets db) \<noteq> 1
       then Inl (publicationRunOperationError ctx ErrDatasetPublicationRunNotFound)
       else case insert_version (datasetVersionRecordFromDomain version now) db of
         Inl e \<Rightarrow> Inl (publicationRunOperationError ctx (publicationRunDatabaseError ctx e))
       | Inr (versions, db1) \<Rightarrow>
         if versions \<noteq> 1 then Inl (publicationRunOperationError ctx ErrDatasetPublicationRunConflict)
         else case insert_run (datasetPublicationRunRecordFromDomain run now) db1 of
           Inl e \<Rightarrow> Inl (publicationRunOperationError ctx (publicationRunDatabaseError ctx e))
         | Inr (runs, db2) \<Rightarrow>
           if runs \<noteq> 1 then Inl (publicationRunOperationError ctx ErrDatasetPublicationRunConflict) else Inr (run, db2))"

definition existing_run :: "string \<Rightarrow> bool \<Rightarrow> DatasetPublicationRun \<Rightarrow> DatasetPublicationRunRecord \<Rightarrow> catalogue \<Rightarrow> DatasetPublicationRun result" where
  "existing_run tenantID superAdmin run existing db =
     (if \<not> live_run existing then Inl ErrDatasetPublicationRunNotFound
      else if \<not> manageableDatasetVersionExists tenantID superAdmin (prr_DatasetID existing) (prr_DatasetVersionID existing) db
      then Inl ErrDatasetPublicationRunNotFound
      else if prr_DatasetID existing \<noteq> run_DatasetID run \<or> prr_DatasetVersionID existing \<noteq> run_DatasetVersionID run
      then Inl ErrDatasetPublicationRunConflict
      else case getManageableDatasetPublicationRunRecord tenantID superAdmin (run_DatasetID run) (run_DatasetVersionID run) (run_ID run) db of
        Inl e \<Rightarrow> Inl (if errors_Is e ErrDatasetPublicationRunNotFound then ErrDatasetPublicationRunConflict else e)
      | Inr scoped \<Rightarrow> DatasetPublicationRunRecord_toDomain scoped)"

text \<open>The branch for a run inserted by a concurrent transaction between the lookup and the insertion does not occur when the
  operation is one atomic step: the insertion then affects one row.\<close>

definition EnsureDatasetPublicationRun ::
    "int \<Rightarrow> go_context \<Rightarrow> string \<Rightarrow> bool \<Rightarrow> DatasetPublicationRun \<Rightarrow> catalogue \<Rightarrow> (DatasetPublicationRun \<times> catalogue) result" where
  "EnsureDatasetPublicationRun now ctx tenantID superAdmin run db =
     or_fail (publicationRunContextError ctx)
      (if DatasetPublicationRun_Validate run \<noteq> None then Inl (Wrapf ''%w: invalid run'' [] ErrDatasetPublicationRunConflict)
       else if run_State run \<noteq> DatasetVersionDiscovering then Inl ErrDatasetPublicationRunConflict
       else map_sum (publicationRunOperationError ctx) id
        (case select_first (\<lambda>r. prr_ID r = run_ID run) (cat_runs db) of
           Some existing \<Rightarrow> and_then (existing_run tenantID superAdmin run existing db) (\<lambda>ensured. Inr (ensured, db))
         | None \<Rightarrow>
             and_then (getManageableDatasetVersionRecord tenantID superAdmin (run_DatasetID run) (run_DatasetVersionID run) db) (\<lambda>version.
               if dvr_State version \<noteq> DatasetVersionDiscovering then Inl ErrDatasetPublicationRunConflict
               else case insert_run (datasetPublicationRunRecordFromDomain run now) db of
                 Inl e \<Rightarrow> Inl (publicationRunDatabaseError ctx e)
               | Inr (affected, db') \<Rightarrow> Inr (run, db'))))"

subsection \<open>Advancing\<close>

type_synonym run_step = "((DatasetPublicationRun \<times> bool) \<times> catalogue) result" \<comment> \<open>the current run, whether this call moved it, the tables\<close>

definition update_both ::
    "(DatasetVersionRecord \<Rightarrow> bool) \<Rightarrow> (DatasetVersionRecord \<Rightarrow> DatasetVersionRecord) \<Rightarrow>
     (DatasetPublicationRunRecord \<Rightarrow> bool) \<Rightarrow> (DatasetPublicationRunRecord \<Rightarrow> DatasetPublicationRunRecord) \<Rightarrow> catalogue \<Rightarrow> catalogue result" where \<comment> \<open>the version first, then its run\<close>
  "update_both pv fv pr fr db =
     (let (versions, db1) = update_versions pv fv db in
      if versions \<noteq> 1 then Inl errDatasetPublicationRunCASLost
      else let (runs, db2) = update_runs pr fr db1 in
        if runs \<noteq> 1 then Inl errDatasetPublicationRunCASLost else Inr db2)"

definition at_version :: "string \<Rightarrow> string \<Rightarrow> DatasetVersionState \<Rightarrow> DatasetVersionRecord \<Rightarrow> bool" where
  "at_version datasetID versionID state v \<longleftrightarrow> dvr_ID v = versionID \<and> dvr_DatasetID v = datasetID \<and> dvr_State v = state"

definition at_run :: "string \<Rightarrow> string \<Rightarrow> string \<Rightarrow> DatasetVersionState \<Rightarrow> DatasetPublicationRunRecord \<Rightarrow> bool" where
  "at_run datasetID versionID runID state r \<longleftrightarrow>
     prr_ID r = runID \<and> prr_DatasetID r = datasetID \<and> prr_DatasetVersionID r = versionID \<and> prr_State r = state"

definition current_run :: "string \<Rightarrow> bool \<Rightarrow> string \<Rightarrow> string \<Rightarrow> string \<Rightarrow> catalogue \<Rightarrow> (DatasetPublicationRunRecord \<times> DatasetPublicationRun) result" where
  "current_run tenantID superAdmin datasetID versionID runID db =
     and_then (getManageableDatasetPublicationRunRecord tenantID superAdmin datasetID versionID runID db) (\<lambda>r.
       case DatasetPublicationRunRecord_toDomain r of Inl e \<Rightarrow> Inl ErrDatasetPublicationRunUnavailable | Inr run \<Rightarrow> Inr (r, run))"

definition conclude :: "go_context \<Rightarrow> string \<Rightarrow> bool \<Rightarrow> string \<Rightarrow> string \<Rightarrow> string \<Rightarrow> catalogue \<Rightarrow> run_step \<Rightarrow> run_step" where \<comment> \<open>what follows each transaction\<close>
  "conclude ctx tenantID superAdmin datasetID versionID runID db r =
     (case r of
        Inr x \<Rightarrow> Inr x
      | Inl e \<Rightarrow>
          if errors_Is e errDatasetPublicationRunCASLost
          then and_then (GetDatasetPublicationRun ctx tenantID superAdmin datasetID versionID runID db) (\<lambda>current. Inr ((current, False), db))
          else Inl (publicationRunOperationError ctx e))"

definition ClaimDatasetPublicationRun ::
    "int \<Rightarrow> go_context \<Rightarrow> string \<Rightarrow> bool \<Rightarrow> string \<Rightarrow> string \<Rightarrow> string \<Rightarrow> int option \<Rightarrow> catalogue \<Rightarrow> run_step" where
  "ClaimDatasetPublicationRun now ctx tenantID superAdmin datasetID versionID runID claimedAt0 db =
     or_fail (publicationRunContextError ctx)
      (let claimedAt = normalizedPublicationRunTime now claimedAt0 in
       conclude ctx tenantID superAdmin datasetID versionID runID db
        (and_then (current_run tenantID superAdmin datasetID versionID runID db) (\<lambda>(r, current).
           if run_State current \<noteq> DatasetVersionDiscovering then Inr ((current, False), db)
           else and_then (getManageableDatasetVersionRecord tenantID superAdmin datasetID versionID db) (\<lambda>version.
             if dvr_State version \<noteq> DatasetVersionDiscovering then Inl ErrDatasetPublicationRunUnavailable
             else and_then (update_both
                 (at_version datasetID versionID DatasetVersionDiscovering)
                 (\<lambda>v. v\<lparr>dvr_State := DatasetVersionStabilizing, dvr_UpdatedAt := claimedAt\<rparr>)
                 (at_run datasetID versionID runID DatasetVersionDiscovering)
                 (\<lambda>r. r\<lparr>prr_State := DatasetVersionStabilizing, prr_StartedAt := Some claimedAt, prr_FinishedAt := None, prr_UpdatedAt := claimedAt\<rparr>) db)
               (\<lambda>db'. Inr ((current\<lparr>run_State := DatasetVersionStabilizing\<rparr>, True), db'))))))"

definition CompareAndSwapDatasetPublicationRun ::
    "int \<Rightarrow> go_context \<Rightarrow> string \<Rightarrow> bool \<Rightarrow> DatasetVersionState \<Rightarrow> DatasetPublicationRun \<Rightarrow> int option \<Rightarrow> catalogue \<Rightarrow> run_step" where
  "CompareAndSwapDatasetPublicationRun now ctx tenantID superAdmin expectedState n observedAt0 db =
     or_fail (publicationRunContextError ctx)
      (if run_State n = DatasetVersionReady then Inl ErrDatasetPublicationRunConflict
       else or_fail (validatePublicationRunTransition expectedState n)
        (let observedAt = normalizedPublicationRunTime now observedAt0;
             datasetID = run_DatasetID n; versionID = run_DatasetVersionID n; runID = run_ID n in
         conclude ctx tenantID superAdmin datasetID versionID runID db
          (and_then (current_run tenantID superAdmin datasetID versionID runID db) (\<lambda>(r, current).
             if run_State current \<noteq> expectedState then Inr ((current, False), db)
             else and_then (getManageableDatasetVersionRecord tenantID superAdmin datasetID versionID db) (\<lambda>version.
               if dvr_State version \<noteq> expectedState then Inl ErrDatasetPublicationRunUnavailable
               else and_then (update_both
                   (at_version datasetID versionID expectedState) (\<lambda>v. v\<lparr>dvr_State := run_State n, dvr_UpdatedAt := observedAt\<rparr>)
                   (at_run datasetID versionID runID expectedState) (publicationRunUpdates n observedAt) db)
                 (\<lambda>db'. Inr ((n, True), db')))))))"

definition UpdateDatasetPublicationRunProgress ::
    "int \<Rightarrow> go_context \<Rightarrow> string \<Rightarrow> bool \<Rightarrow> DatasetVersionState \<Rightarrow> DatasetPublicationRun \<Rightarrow> int option \<Rightarrow> catalogue \<Rightarrow> run_step" where
  "UpdateDatasetPublicationRunProgress now ctx tenantID superAdmin expectedState n observedAt0 db =
     or_fail (publicationRunContextError ctx)
      (if run_State n \<noteq> expectedState \<or> \<not> activeDatasetPublicationState expectedState \<or> DatasetPublicationRun_Validate n \<noteq> None
       then Inl ErrDatasetPublicationRunConflict
       else let observedAt = normalizedPublicationRunTime now observedAt0;
              datasetID = run_DatasetID n; versionID = run_DatasetVersionID n; runID = run_ID n in
         conclude ctx tenantID superAdmin datasetID versionID runID db
          (and_then (current_run tenantID superAdmin datasetID versionID runID db) (\<lambda>(r, current).
             if run_State current \<noteq> expectedState then Inr ((current, False), db)
             else if \<not> publicationProgressMonotonic current n then Inl ErrDatasetPublicationRunConflict
             else and_then (getManageableDatasetVersionRecord tenantID superAdmin datasetID versionID db) (\<lambda>version.
               if dvr_State version \<noteq> expectedState then Inl ErrDatasetPublicationRunUnavailable
               else let (runs, db') = update_runs (at_run datasetID versionID runID expectedState) (progress_updates n observedAt) db in
                 if runs \<noteq> 1 then Inl errDatasetPublicationRunCASLost else Inr ((n, True), db')))))"

definition ready_updates :: "DatasetVersion \<Rightarrow> int \<Rightarrow> DatasetVersionRecord \<Rightarrow> DatasetVersionRecord" where
  "ready_updates v observedAt row =
     row\<lparr>dvr_State := DatasetVersionReady, dvr_ManifestSHA256 := Some (dv_ManifestSHA256 v), dvr_ManifestObjectKey := Some (dv_ManifestObjectKey v),
       dvr_SchemaVersion := dv_SchemaVersion v, dvr_TrainSamples := dv_TrainSamples v, dvr_ValSamples := dv_ValSamples v,
       dvr_TestSamples := dv_TestSamples v, dvr_SourceObjectCount := dv_SourceObjectCount v, dvr_LogicalBytes := dv_LogicalBytes v,
       dvr_PackedBytes := dv_PackedBytes v, dvr_UpdatedAt := observedAt\<rparr>"

definition FinalizeDatasetPublicationRun ::
    "int \<Rightarrow> go_context \<Rightarrow> string \<Rightarrow> bool \<Rightarrow> DatasetVersionState \<Rightarrow> DatasetPublicationRun \<Rightarrow> DatasetPublicationReceipt \<Rightarrow> string \<Rightarrow> int option \<Rightarrow> catalogue \<Rightarrow> run_step" where
  "FinalizeDatasetPublicationRun now ctx tenantID superAdmin expectedState n receipt internalPrefix observedAt0 db =
     or_fail (publicationRunContextError ctx)
      (if expectedState \<noteq> DatasetVersionPacking \<or> run_State n \<noteq> DatasetVersionReady \<or>
          run_DatasetID n \<noteq> rcpt_DatasetID receipt \<or> run_DatasetVersionID n \<noteq> rcpt_DatasetVersionID receipt
       then Inl ErrDatasetPublicationRunConflict
       else or_fail (validatePublicationRunTransition expectedState n)
        (if Receipt_ValidateWithInternalPrefix receipt internalPrefix \<noteq> None \<or> run_SourceObjectCount n \<noteq> rcpt_SourceObjectCount receipt
         then and_then (GetDatasetPublicationRun ctx tenantID superAdmin (run_DatasetID n) (run_DatasetVersionID n) (run_ID n) db)
           (\<lambda>current. Inl ErrDatasetPublicationRunConflict)
         else let readyVersion = ReadyVersion receipt; observedAt = normalizedPublicationRunTime now observedAt0;
              datasetID = run_DatasetID n; versionID = run_DatasetVersionID n; runID = run_ID n in
           conclude ctx tenantID superAdmin datasetID versionID runID db
            (and_then (current_run tenantID superAdmin datasetID versionID runID db) (\<lambda>(r, current).
               if run_State current \<noteq> expectedState then Inr ((current, False), db)
               else and_then (getManageableDatasetVersionRecord tenantID superAdmin datasetID versionID db) (\<lambda>version.
                 if dvr_State version \<noteq> expectedState \<or> dvr_Version version \<noteq> rcpt_Version receipt \<or>
                    dvr_SchemaVersion version \<noteq> rcpt_SchemaVersion receipt then Inl ErrDatasetPublicationRunConflict
                 else and_then (update_both
                     (\<lambda>v. at_version (dv_DatasetID readyVersion) (dv_ID readyVersion) expectedState v \<and> dvr_Version v = dv_Version readyVersion)
                     (ready_updates readyVersion observedAt)
                     (at_run datasetID versionID runID expectedState) (publicationRunUpdates n observedAt) db)
                   (\<lambda>db'. Inr ((n, True), db')))))))"

definition reset_version :: "int \<Rightarrow> DatasetVersionRecord \<Rightarrow> DatasetVersionRecord" where
  "reset_version observedAt v =
     v\<lparr>dvr_State := DatasetVersionDiscovering, dvr_ManifestSHA256 := None, dvr_ManifestObjectKey := None, dvr_TrainSamples := 0,
       dvr_ValSamples := 0, dvr_TestSamples := 0, dvr_SourceObjectCount := 0, dvr_LogicalBytes := 0, dvr_PackedBytes := 0,
       dvr_UpdatedAt := observedAt\<rparr>"

definition reset_run :: "int \<Rightarrow> DatasetPublicationRunRecord \<Rightarrow> DatasetPublicationRunRecord" where
  "reset_run observedAt r =
     r\<lparr>prr_State := DatasetVersionDiscovering, prr_TotalPartitions := 0, prr_CompletedPartitions := 0, prr_FailedPartitions := 0,
       prr_SourceObjectCount := 0, prr_ProcessedObjectCount := 0, prr_FailedObjectCount := 0, prr_StartedAt := None, prr_FinishedAt := None,
       prr_UpdatedAt := observedAt\<rparr>"

definition new_run :: "string \<Rightarrow> string \<Rightarrow> string \<Rightarrow> DatasetPublicationRun" where
  "new_run datasetID versionID runID =
     \<lparr>run_ID = runID, run_DatasetID = datasetID, run_DatasetVersionID = versionID, run_ExecutionMode = [], run_State = DatasetVersionDiscovering,
      run_TotalPartitions = 0, run_CompletedPartitions = 0, run_FailedPartitions = 0, run_SourceObjectCount = 0,
      run_ProcessedObjectCount = 0, run_FailedObjectCount = 0\<rparr>"

definition RetryDatasetPublicationRun ::
    "int \<Rightarrow> go_context \<Rightarrow> string \<Rightarrow> bool \<Rightarrow> string \<Rightarrow> string \<Rightarrow> string \<Rightarrow> int option \<Rightarrow> int \<Rightarrow> catalogue \<Rightarrow> run_step" where
  "RetryDatasetPublicationRun now ctx tenantID superAdmin datasetID versionID runID observedAt0 backoff db =
     or_fail (publicationRunContextError ctx)
      (if backoff < 0 then Inl ErrDatasetPublicationRunConflict
       else let observedAt = normalizedPublicationRunTime now observedAt0; eligibleAt = observedAt - backoff in
         conclude ctx tenantID superAdmin datasetID versionID runID db
          (and_then (current_run tenantID superAdmin datasetID versionID runID db) (\<lambda>(r, current).
             if run_State current \<noteq> DatasetVersionFailed \<or> (case prr_FinishedAt r of None \<Rightarrow> True | Some t \<Rightarrow> t > eligibleAt)
             then Inr ((current, False), db)
             else and_then (getManageableDatasetVersionRecord tenantID superAdmin datasetID versionID db) (\<lambda>version.
               if dvr_State version \<noteq> DatasetVersionFailed then Inl ErrDatasetPublicationRunUnavailable
               else and_then (update_both
                   (at_version datasetID versionID DatasetVersionFailed) (reset_version observedAt)
                   (\<lambda>r. at_run datasetID versionID runID DatasetVersionFailed r \<and> (case prr_FinishedAt r of None \<Rightarrow> False | Some t \<Rightarrow> t \<le> eligibleAt))
                   (reset_run observedAt) db)
                 (\<lambda>db'. Inr ((new_run datasetID versionID runID, True), db'))))))"

subsection \<open>Hiding and purging failed versions\<close>

definition checkDatasetCleanupDependencies :: "string \<Rightarrow> catalogue \<Rightarrow> error option" where
  "checkDatasetCleanupDependencies versionID db = first_error [
     check (count_where (\<lambda>j. jr_DatasetVersionID j = Some versionID) (cat_jobs db) \<noteq> 0) ErrDatasetCleanupConflict,
     check (list_ex (\<lambda>a. par_DatasetVersionID a = versionID \<and>
         (par_State a \<noteq> DatasetPartitionFailed \<and> par_State a \<noteq> DatasetPartitionCompleted \<or> par_LeaseOwner a \<noteq> [] \<or> par_LeaseExpiresAt a \<noteq> None))
       (cat_attempts db)) ErrDatasetCleanupConflict]"

definition cleanup_scope :: "string \<Rightarrow> bool \<Rightarrow> string \<Rightarrow> string \<Rightarrow> catalogue \<Rightarrow> DatasetVersionRecord result" where
  "cleanup_scope tenantID superAdmin datasetID versionID db =
     map_sum (\<lambda>e. if errors_Is e ErrDatasetPublicationRunNotFound then ErrDatasetCleanupNotFound else e) id
       (getManageableDatasetVersionRecord tenantID superAdmin datasetID versionID db)"

definition DeleteFailedDatasetRecord ::
    "int \<Rightarrow> string \<Rightarrow> bool \<Rightarrow> string \<Rightarrow> string \<Rightarrow> string \<Rightarrow> bool \<Rightarrow> catalogue \<Rightarrow> (unit \<times> catalogue) result" where
  "DeleteFailedDatasetRecord now tenantID superAdmin datasetID versionID actor publicationOnly db =
     (if blank actor \<or> blank datasetID \<or> blank versionID then Inl ErrDatasetCleanupConflict
      else and_then (cleanup_scope tenantID superAdmin datasetID versionID db) (\<lambda>version.
        let runs = filter (\<lambda>r. live_run r \<and> prr_DatasetVersionID r = versionID) (cat_runs db) in
        if dvr_State version \<noteq> DatasetVersionFailed then Inl ErrDatasetCleanupConflict
        else if publicationOnly \<and> runs = [] then Inl ErrDatasetCleanupNotFound
        else if list_ex (\<lambda>r. prr_State r \<noteq> DatasetVersionFailed \<or> prr_DatasetID r \<noteq> datasetID) runs then Inl ErrDatasetCleanupConflict
        else or_fail (checkDatasetCleanupDependencies versionID db)
         (let (hidden, db1) = update_runs (\<lambda>r. prr_DatasetVersionID r = versionID \<and> prr_State r = DatasetVersionFailed)
                (\<lambda>r. r\<lparr>prr_DeletedAt := Some now, prr_DeletedBy := actor, prr_UpdatedAt := now\<rparr>) db in
          if hidden \<noteq> length runs then Inl ErrDatasetCleanupConflict
          else if publicationOnly then Inr ((), db1)
          else let (affected, db2) = update_versions (\<lambda>v. dvr_ID v = versionID \<and> dvr_State v = DatasetVersionFailed)
                 (\<lambda>v. v\<lparr>dvr_DeletedAt := Some now, dvr_DeletedBy := actor, dvr_UpdatedAt := now\<rparr>) db1 in
            if affected \<noteq> 1 then Inl ErrDatasetCleanupConflict else Inr ((), db2))))"

record DatasetPurgePlan =
  plan_DatasetID :: string
  plan_VersionID :: string
  plan_RunIDs :: "string list"

definition checkDatasetPurgeObjectReferences :: "DatasetPurgePlan \<Rightarrow> catalogue \<Rightarrow> error option" where
  "checkDatasetPurgeObjectReferences p db =
     (let keys = [k. v \<leftarrow> cat_versions db, dvr_ID v \<noteq> plan_VersionID p, k \<leftarrow> (case dvr_ManifestObjectKey v of None \<Rightarrow> [] | Some k \<Rightarrow> [k])] @
            map dvs_ObjectKey (filter (\<lambda>s. dvs_DatasetVersionID s \<noteq> plan_VersionID p) (cat_shards db)) in
      check (list_ex (\<lambda>key.
          has_suffix key (''/'' @ plan_DatasetID p @ ''/manifests/'' @ plan_VersionID p @ ''.parquet'') \<or>
          contains key (''/'' @ plan_DatasetID p @ ''/publication/'' @ plan_VersionID p @ ''/'') \<or>
          list_ex (\<lambda>runID. contains key (''/'' @ plan_DatasetID p @ ''/temp/'' @ runID @ ''/'')) (plan_RunIDs p)) keys) ErrDatasetCleanupConflict)"

text \<open>\<open>purge\<close> is the callback that removes the files; \<open>fenced\<close> says whether a publication holds the shared advisory lock of the version, or an
  insertion the one on identities, so that \<open>pg_try_advisory_xact_lock\<close> fails.\<close>

definition PurgeFailedDatasetRecord ::
    "(string \<Rightarrow> int) \<Rightarrow> bool \<Rightarrow> string \<Rightarrow> bool \<Rightarrow> string \<Rightarrow> string \<Rightarrow> string \<Rightarrow> (DatasetPurgePlan \<Rightarrow> int result) option \<Rightarrow> catalogue \<Rightarrow> (int \<times> catalogue) result" where
  "PurgeFailedDatasetRecord collate fenced tenantID superAdmin datasetID versionID actor purge db =
     (if blank actor \<or> blank datasetID \<or> blank versionID then Inl ErrDatasetCleanupConflict
      else require purge ErrDatasetCleanupConflict (\<lambda>remove.
        and_then (cleanup_scope tenantID superAdmin datasetID versionID db) (\<lambda>_.
        if fenced then Inl ErrDatasetCleanupConflict
        else let runs = sort_key (collate \<circ> prr_ID) (filter (\<lambda>r. prr_DatasetVersionID r = versionID) (cat_runs db)) in
          require (version_at datasetID versionID db) (Errorf ''record not found'' []) (\<lambda>version.
          if dvr_State version \<noteq> DatasetVersionFailed then Inl ErrDatasetCleanupConflict
          else if list_ex (\<lambda>r. prr_State r \<noteq> DatasetVersionFailed \<or> prr_DatasetID r \<noteq> datasetID) runs then Inl ErrDatasetCleanupConflict
          else let plan = \<lparr>plan_DatasetID = datasetID, plan_VersionID = versionID, plan_RunIDs = map prr_ID runs\<rparr> in
            or_fail (checkDatasetCleanupDependencies versionID db) (or_fail (checkDatasetPurgeObjectReferences plan db)
             (and_then (remove plan) (\<lambda>removed.
                let identities = \<lparr>pid_Kind = ''version'', pid_ID = dvr_ID version, pid_DatasetID = datasetID, pid_Version = dvr_Version version\<rparr> #
                      map (\<lambda>r. \<lparr>pid_Kind = ''run'', pid_ID = prr_ID r, pid_DatasetID = datasetID, pid_Version = []\<rparr>) runs in
                if list_ex (\<lambda>p. list_ex (\<lambda>q. pid_Kind p = pid_Kind q \<and> pid_ID p = pid_ID q) (cat_purged db)) identities
                then Inl (Errorf ''duplicate key'' [])
                else let gone = (\<lambda>v. dvr_ID v = versionID \<and> dvr_State v = DatasetVersionFailed) in
                  if count_where gone (cat_versions db) \<noteq> 1 then Inl ErrDatasetCleanupConflict
                  else Inr (removed, db\<lparr>
                    cat_purged := cat_purged db @ identities,
                    cat_observations := filter (\<lambda>x. dco_DatasetVersionID x \<noteq> versionID) (cat_observations db),
                    cat_attempts := filter (\<lambda>x. par_DatasetVersionID x \<noteq> versionID) (cat_attempts db),
                    cat_shards := filter (\<lambda>x. dvs_DatasetVersionID x \<noteq> versionID) (cat_shards db),
                    cat_partitions := filter (\<lambda>x. dpr_DatasetVersionID x \<noteq> versionID) (cat_partitions db),
                    cat_runs := filter (\<lambda>r. prr_DatasetVersionID r \<noteq> versionID) (cat_runs db),
                    cat_versions := filter (\<lambda>v. \<not> gone v) (cat_versions db)\<rparr>))))))))"

definition publication_write_allowed :: "string \<Rightarrow> string \<Rightarrow> catalogue \<Rightarrow> bool" where \<comment> \<open>the check of \<open>WithDatasetPublicationWrite\<close> before the callback\<close>
  "publication_write_allowed datasetID versionID db \<longleftrightarrow>
     count_where (\<lambda>v. live_version v \<and> dvr_ID v = versionID \<and> dvr_DatasetID v = datasetID) (cat_versions db) = 1"

end
