(* ===== verification/Dataset_Life.thy ===== *)
theory Dataset_Life
  imports Dataset_Runs Transition_System
begin

section \<open>The life of dataset versions and publication runs\<close>

text \<open>
  What the catalogue promises, independent of rows and queries: versions and runs by identifier, as domain values with a flag that says
  whether they are listed, and the identifiers that were purged. The rules of \<open>life_step\<close> are all that may happen; \<open>life_inv\<close> is what
  always holds, \<open>life_le\<close> what later states keep of earlier ones.
\<close>

record life =
  l_version :: "string \<Rightarrow> (DatasetVersion \<times> bool) option"
  l_run :: "string \<Rightarrow> (DatasetPublicationRun \<times> bool) option"
  l_gone_versions :: "string set"
  l_gone_runs :: "string set"

definition set_version :: "life \<Rightarrow> DatasetVersion \<Rightarrow> bool \<Rightarrow> life" where
  "set_version s v b = s\<lparr>l_version := (l_version s)(dv_ID v \<mapsto> (v, b))\<rparr>"

definition set_run :: "life \<Rightarrow> DatasetPublicationRun \<Rightarrow> bool \<Rightarrow> life" where
  "set_run s r b = s\<lparr>l_run := (l_run s)(run_ID r \<mapsto> (r, b))\<rparr>"

definition hide_run :: "string \<Rightarrow> DatasetPublicationRun \<times> bool \<Rightarrow> DatasetPublicationRun \<times> bool" where
  "hide_run vid rb = (if run_DatasetVersionID (fst rb) = vid \<and> run_State (fst rb) = DatasetVersionFailed then (fst rb, False) else rb)"

definition same_version :: "DatasetVersion \<Rightarrow> DatasetVersion \<Rightarrow> bool" where
  "same_version v w \<longleftrightarrow> dv_ID w = dv_ID v \<and> dv_DatasetID w = dv_DatasetID v \<and> dv_Version w = dv_Version v \<and>
     dv_SourceSyncRunID w = dv_SourceSyncRunID v \<and> dv_SourceInventorySHA256 w = dv_SourceInventorySHA256 v"

definition same_run :: "DatasetPublicationRun \<Rightarrow> DatasetPublicationRun \<Rightarrow> bool" where
  "same_run r q \<longleftrightarrow> run_ID q = run_ID r \<and> run_DatasetID q = run_DatasetID r \<and> run_DatasetVersionID q = run_DatasetVersionID r \<and>
     run_ExecutionMode q = run_ExecutionMode r"

definition run_of :: "DatasetPublicationRun \<Rightarrow> DatasetVersion \<Rightarrow> bool" where
  "run_of r v \<longleftrightarrow> run_DatasetVersionID r = dv_ID v \<and> run_DatasetID r = dv_DatasetID v"

definition progress_complete :: "DatasetPublicationRun \<Rightarrow> bool" where
  "progress_complete r \<longleftrightarrow> run_CompletedPartitions r = run_TotalPartitions r \<and> run_FailedPartitions r = 0 \<and>
     run_ProcessedObjectCount r = run_SourceObjectCount r \<and> run_FailedObjectCount r = 0"

inductive life_step :: "life \<Rightarrow> life \<Rightarrow> bool" where
  new_version: "l_version s (dv_ID v) = None \<Longrightarrow> dv_ID v \<notin> l_gone_versions s \<Longrightarrow> DatasetVersion_Validate v = None \<Longrightarrow>
    dv_State v = DatasetVersionDiscovering \<Longrightarrow> life_step s (set_version s v True)"
| new_run: "l_version s (dv_ID v) = Some (v, True) \<Longrightarrow> dv_State v = DatasetVersionDiscovering \<Longrightarrow> run_of r v \<Longrightarrow>
    l_run s (run_ID r) = None \<Longrightarrow> run_ID r \<notin> l_gone_runs s \<Longrightarrow> DatasetPublicationRun_Validate r = None \<Longrightarrow>
    run_State r = DatasetVersionDiscovering \<Longrightarrow> life_step s (set_run s r True)"
| advance: "l_version s (dv_ID v) = Some (v, True) \<Longrightarrow> l_run s (run_ID r) = Some (r, True) \<Longrightarrow> run_of r v \<Longrightarrow> dv_State v = run_State r \<Longrightarrow>
    same_version v v' \<Longrightarrow> same_run r r' \<Longrightarrow> dv_State v' = run_State r' \<Longrightarrow> dv_State v' \<in> set (version_transitions (dv_State v)) \<Longrightarrow>
    \<not> published_state (dv_State v) \<Longrightarrow> DatasetVersion_Validate v' = None \<Longrightarrow> DatasetPublicationRun_Validate r' = None \<Longrightarrow>
    (run_State r' = DatasetVersionReady \<Longrightarrow> progress_complete r') \<Longrightarrow> life_step s (set_run (set_version s v' True) r' True)"
| progress: "l_run s (run_ID r) = Some (r, True) \<Longrightarrow> same_run r r' \<Longrightarrow> run_State r' = run_State r \<Longrightarrow>
    activeDatasetPublicationState (run_State r) \<Longrightarrow> publicationProgressMonotonic r r' \<Longrightarrow> DatasetPublicationRun_Validate r' = None \<Longrightarrow>
    life_step s (set_run s r' True)"
| draft: "l_version s (dv_ID v) = Some (v, True) \<Longrightarrow> isDatasetVersionDraftState (dv_State v) \<Longrightarrow> same_version v v' \<Longrightarrow> dv_State v' = dv_State v \<Longrightarrow>
    DatasetVersion_Validate v' = None \<Longrightarrow> life_step s (set_version s v' True)"
| transition: "l_version s (dv_ID v) = Some (v, True) \<Longrightarrow> DatasetVersion_TransitionTo v t = Inr v' \<Longrightarrow> life_step s (set_version s v' True)"
| hide_runs: "life_step s (s\<lparr>l_run := map_option (hide_run vid) \<circ> l_run s\<rparr>)"
| hide_version: "l_version s (dv_ID v) = Some (v, True) \<Longrightarrow> dv_State v = DatasetVersionFailed \<Longrightarrow> life_step s (set_version s v False)"
| purge: "l_version s vid = Some (v, b) \<Longrightarrow> dv_State v = DatasetVersionFailed \<Longrightarrow>
    \<forall>i r b'. l_run s i = Some (r, b') \<longrightarrow> run_DatasetVersionID r = vid \<longrightarrow> run_State r = DatasetVersionFailed \<Longrightarrow>
    life_step s (s\<lparr>l_version := (l_version s)(vid := None),
      l_run := (\<lambda>i. case l_run s i of Some (r, b') \<Rightarrow> if run_DatasetVersionID r = vid then None else Some (r, b') | None \<Rightarrow> None),
      l_gone_versions := insert vid (l_gone_versions s),
      l_gone_runs := l_gone_runs s \<union> {i. \<exists>r b'. l_run s i = Some (r, b') \<and> run_DatasetVersionID r = vid}\<rparr>)"

subsection \<open>Invariant\<close>

definition version_ok :: "life \<Rightarrow> string \<Rightarrow> DatasetVersion \<times> bool \<Rightarrow> bool" where
  "version_ok s i vb \<longleftrightarrow> dv_ID (fst vb) = i \<and> i \<notin> l_gone_versions s \<and> DatasetVersion_Validate (fst vb) = None \<and>
     (\<not> snd vb \<longrightarrow> dv_State (fst vb) = DatasetVersionFailed)"

definition run_ok :: "life \<Rightarrow> string \<Rightarrow> DatasetPublicationRun \<times> bool \<Rightarrow> bool" where
  "run_ok s i rb \<longleftrightarrow> run_ID (fst rb) = i \<and> i \<notin> l_gone_runs s \<and> DatasetPublicationRun_Validate (fst rb) = None \<and>
     (\<not> snd rb \<longrightarrow> run_State (fst rb) = DatasetVersionFailed) \<and>
     (run_State (fst rb) = DatasetVersionReady \<longrightarrow> progress_complete (fst rb) \<and>
        (\<exists>v. l_version s (run_DatasetVersionID (fst rb)) = Some (v, True) \<and> run_of (fst rb) v \<and> published_state (dv_State v)))"

definition life_inv :: "life \<Rightarrow> bool" where
  "life_inv s \<longleftrightarrow> (\<forall>i vb. l_version s i = Some vb \<longrightarrow> version_ok s i vb) \<and> (\<forall>i rb. l_run s i = Some rb \<longrightarrow> run_ok s i rb)"

definition later_version :: "DatasetVersion \<Rightarrow> DatasetVersion \<Rightarrow> bool" where
  "later_version v w \<longleftrightarrow> same_version v w \<and> (published_state (dv_State v) \<longrightarrow> version_le v w)"

definition version_kept :: "life \<Rightarrow> string \<Rightarrow> DatasetVersion \<times> bool \<Rightarrow> bool" where
  "version_kept t i vb \<longleftrightarrow> i \<in> l_gone_versions t \<and> \<not> published_state (dv_State (fst vb)) \<or>
     (\<exists>wc. l_version t i = Some wc \<and> later_version (fst vb) (fst wc) \<and> (published_state (dv_State (fst vb)) \<longrightarrow> snd wc = snd vb))"

definition run_kept :: "life \<Rightarrow> string \<Rightarrow> DatasetPublicationRun \<times> bool \<Rightarrow> bool" where
  "run_kept t i rb \<longleftrightarrow> i \<in> l_gone_runs t \<and> run_State (fst rb) \<noteq> DatasetVersionReady \<or>
     (\<exists>qc. l_run t i = Some qc \<and> same_run (fst rb) (fst qc) \<and> (run_State (fst rb) = DatasetVersionReady \<longrightarrow> qc = rb))"

definition life_le :: "life \<Rightarrow> life \<Rightarrow> bool" where
  "life_le s t \<longleftrightarrow> l_gone_versions s \<subseteq> l_gone_versions t \<and> l_gone_runs s \<subseteq> l_gone_runs t \<and>
     (\<forall>i vb. l_version s i = Some vb \<longrightarrow> version_kept t i vb) \<and> (\<forall>i rb. l_run s i = Some rb \<longrightarrow> run_kept t i rb)"

lemma version_le_published: "version_le v w \<Longrightarrow> published_state (dv_State v) \<Longrightarrow> published_state (dv_State w)"
  by (auto simp: published_rank version_le_def)

lemma later_published: "later_version v w \<Longrightarrow> published_state (dv_State v) \<Longrightarrow> published_state (dv_State w)"
  by (auto simp: later_version_def dest: version_le_published)

lemma later_trans:
  assumes "later_version u v" "later_version v w" shows "later_version u w"
proof -
  have "same_version u w" using assms by (simp add: later_version_def same_version_def)
  moreover have "version_le u w" if "published_state (dv_State u)"
    using that assms later_published [OF assms(1) that] version.le_trans unfolding later_version_def by blast
  ultimately show ?thesis by (simp add: later_version_def)
qed

lemma later_refl: "later_version v v"
  by (simp add: later_version_def same_version_def version.le_refl)

lemma later_unpublished: "same_version v w \<Longrightarrow> \<not> published_state (dv_State v) \<Longrightarrow> later_version v w"
  by (simp add: later_version_def)

lemma same_run_trans: "same_run r q \<Longrightarrow> same_run q p \<Longrightarrow> same_run r p"
  by (simp add: same_run_def)

lemma version_keptI:
  "l_version t i = Some (w, c) \<Longrightarrow> later_version v w \<Longrightarrow> (published_state (dv_State v) \<Longrightarrow> c = b) \<Longrightarrow> version_kept t i (v, b)"
  by (auto simp: version_kept_def)

lemma run_keptI:
  "l_run t i = Some (q, c) \<Longrightarrow> same_run r q \<Longrightarrow> (run_State r = DatasetVersionReady \<Longrightarrow> q = r \<and> c = b) \<Longrightarrow> run_kept t i (r, b)"
  by (auto simp: run_kept_def)

lemma version_kept_trans:
  assumes "version_kept t i vb" "life_le t u" shows "version_kept u i vb"
  using assms(1)
proof (unfold version_kept_def [of t], elim disjE exE conjE)
  assume "i \<in> l_gone_versions t" "\<not> published_state (dv_State (fst vb))"
  with assms(2) show ?thesis by (auto simp: version_kept_def life_le_def)
next
  fix wc assume wc: "l_version t i = Some wc" "later_version (fst vb) (fst wc)" "published_state (dv_State (fst vb)) \<longrightarrow> snd wc = snd vb"
  then have "version_kept u i wc" using assms(2) unfolding life_le_def by blast
  then show ?thesis
  proof (unfold version_kept_def [of u i wc], elim disjE exE conjE)
    assume "i \<in> l_gone_versions u" "\<not> published_state (dv_State (fst wc))"
    then show ?thesis using later_published [OF wc(2)] by (auto simp: version_kept_def)
  next
    fix xd assume xd: "l_version u i = Some xd" "later_version (fst wc) (fst xd)" "published_state (dv_State (fst wc)) \<longrightarrow> snd xd = snd wc"
    have "published_state (dv_State (fst vb)) \<longrightarrow> snd xd = snd vb" using xd(3) wc(3) later_published [OF wc(2)] by simp
    with xd(1) later_trans [OF wc(2) xd(2)] show ?thesis unfolding version_kept_def by blast
  qed
qed

lemma run_kept_trans:
  assumes "run_kept t i rb" "life_le t u" shows "run_kept u i rb"
  using assms(1)
proof (unfold run_kept_def [of t], elim disjE exE conjE)
  assume "i \<in> l_gone_runs t" "run_State (fst rb) \<noteq> DatasetVersionReady"
  with assms(2) show ?thesis by (auto simp: run_kept_def life_le_def)
next
  fix qc assume qc: "l_run t i = Some qc" "same_run (fst rb) (fst qc)" "run_State (fst rb) = DatasetVersionReady \<longrightarrow> qc = rb"
  then have "run_kept u i qc" using assms(2) unfolding life_le_def by blast
  then show ?thesis using qc same_run_trans [OF qc(2)] unfolding run_kept_def by blast
qed

lemma life_le_trans: "life_le s t \<Longrightarrow> life_le t u \<Longrightarrow> life_le s u"
  using version_kept_trans run_kept_trans unfolding life_le_def by (meson order_trans)

lemma life_le_refl: "life_le s s"
  by (auto simp: life_le_def same_run_def intro!: version_keptI run_keptI later_refl)

subsection \<open>Single changes\<close>

definition replaces_version :: "life \<Rightarrow> DatasetVersion \<Rightarrow> bool \<Rightarrow> bool" where
  "replaces_version s w c \<longleftrightarrow> (\<forall>v b. l_version s (dv_ID w) = Some (v, b) \<longrightarrow>
     later_version v w \<and> (published_state (dv_State v) \<longrightarrow> c = b))"

definition replaces_run :: "life \<Rightarrow> DatasetPublicationRun \<Rightarrow> bool \<Rightarrow> bool" where
  "replaces_run s q c \<longleftrightarrow> (\<forall>r b. l_run s (run_ID q) = Some (r, b) \<longrightarrow>
     same_run r q \<and> (run_State r = DatasetVersionReady \<longrightarrow> q = r \<and> c = b))"

lemma le_set_version: "replaces_version s w c \<Longrightarrow> life_le s (set_version s w c)"
  unfolding life_le_def replaces_version_def set_version_def
  by (auto simp: same_run_def later_refl intro!: run_keptI)
    (auto simp: version_kept_def later_refl)

lemma le_set_run: "replaces_run s q c \<Longrightarrow> life_le s (set_run s q c)"
  unfolding life_le_def replaces_run_def set_run_def
  by (auto simp: later_refl intro!: version_keptI) (auto simp: run_kept_def same_run_def)

lemma inv_set_version:
  assumes "life_inv s" "version_ok s (dv_ID w) (w, c)" "replaces_version s w c"
  shows "life_inv (set_version s w c)"
proof -
  have "run_ok (set_version s w c) i rb" if "l_run s i = Some rb" for i rb
  proof -
    have ok: "run_ok s i rb" using assms(1) that unfolding life_inv_def by blast
    have "\<exists>v. l_version (set_version s w c) (run_DatasetVersionID (fst rb)) = Some (v, True) \<and> run_of (fst rb) v \<and> published_state (dv_State v)"
      if ready: "run_State (fst rb) = DatasetVersionReady"
    proof -
      obtain v where v: "l_version s (run_DatasetVersionID (fst rb)) = Some (v, True)" "run_of (fst rb) v" "published_state (dv_State v)"
        using ok ready by (auto simp: run_ok_def)
      show ?thesis
      proof (cases "dv_ID w = run_DatasetVersionID (fst rb)")
        case True
        then have "later_version v w" "c" using assms(3) v by (auto simp: replaces_version_def)
        with v(2) True later_published [OF _ v(3)] show ?thesis
          by (auto simp: set_version_def run_of_def later_version_def same_version_def)
      qed (use v in \<open>auto simp: set_version_def\<close>)
    qed
    with ok show ?thesis by (auto simp: run_ok_def set_version_def)
  qed
  moreover have "version_ok (set_version s w c) i vb" if "l_version (set_version s w c) i = Some vb" for i vb
    using assms(1,2) that by (cases vb) (auto simp: life_inv_def set_version_def version_ok_def split: if_splits)
  ultimately show ?thesis unfolding life_inv_def by (simp add: set_version_def)
qed

lemma inv_set_run:
  assumes "life_inv s" "run_ok s (run_ID q) (q, c)" shows "life_inv (set_run s q c)"
  using assms by (auto simp: life_inv_def set_run_def run_ok_def version_ok_def)

lemma inv_version: "life_inv s \<Longrightarrow> l_version s i = Some (v, b) \<Longrightarrow> version_ok s i (v, b)"
  by (simp add: life_inv_def)

lemma inv_run: "life_inv s \<Longrightarrow> l_run s i = Some (r, b) \<Longrightarrow> run_ok s i (r, b)"
  by (simp add: life_inv_def)

subsection \<open>Steps\<close>

lemma not_published [simp]: "\<not> published_state DatasetVersionFailed" "\<not> published_state DatasetVersionDiscovering" "published_state DatasetVersionReady"
  by (simp_all add: published_state_def)

lemma draft_unpublished: "isDatasetVersionDraftState st \<Longrightarrow> \<not> published_state st"
  by (auto simp: isDatasetVersionDraftState_def published_state_def)

lemma transition_later:
  assumes "DatasetVersion_TransitionTo v t = Inr v'"
  shows "later_version v v'" "DatasetVersion_Validate v' = None" "dv_ID v' = dv_ID v" "dv_State v' \<in> set (version_transitions (dv_State v))"
proof -
  have st: "version_step v v'" using assms by (auto simp: version_step_def)
  note e = version_stepE [OF st]
  obtain x where "v' = v\<lparr>dv_State := x\<rparr>" using e(4) by blast
  then have "same_version v v'" by (simp add: same_version_def)
  then show "later_version v v'" using version.le_step [OF e(1) st] by (simp add: later_version_def)
  then show "dv_ID v' = dv_ID v" by (simp add: later_version_def same_version_def)
  show "DatasetVersion_Validate v' = None" "dv_State v' \<in> set (version_transitions (dv_State v))" using e by simp_all
qed

lemma step_advance:
  assumes "life_inv s" "l_version s (dv_ID v) = Some (v, True)" "l_run s (run_ID r) = Some (r, True)" "run_of r v" "dv_State v = run_State r"
    "same_version v v'" "same_run r r'" "dv_State v' = run_State r'" "\<not> published_state (dv_State v)"
    "DatasetVersion_Validate v' = None" "DatasetPublicationRun_Validate r' = None" "run_State r' = DatasetVersionReady \<Longrightarrow> progress_complete r'"
  shows "life_inv (set_run (set_version s v' True) r' True) \<and> life_le s (set_run (set_version s v' True) r' True)"
proof -
  have ids: "dv_ID v' = dv_ID v" "run_ID r' = run_ID r" "run_of r' v'" using assms(4,6,7) by (simp_all add: same_version_def same_run_def run_of_def)
  have replaces: "replaces_version s v' True" using assms ids by (simp add: replaces_version_def later_unpublished)
  have "version_ok s (dv_ID v') (v', True)" using inv_version [OF assms(1,2)] assms(10) ids by (simp add: version_ok_def)
  then have inv: "life_inv (set_version s v' True)" using inv_set_version assms(1) replaces by blast
  have "l_version (set_version s v' True) (run_DatasetVersionID r') = Some (v', True)" using ids by (simp add: set_version_def run_of_def)
  then have "run_ok (set_version s v' True) (run_ID r') (r', True)"
    using inv_run [OF assms(1,3)] assms(8,11,12) ids by (auto simp: run_ok_def set_version_def)
  moreover have "replaces_run (set_version s v' True) r' True"
    using assms(3,5,7,9) ids by (auto simp: replaces_run_def set_version_def)
  ultimately show ?thesis using inv inv_set_run le_set_run le_set_version [OF replaces] life_le_trans by blast
qed

lemma step_run:
  assumes "life_inv s" "run_ok s (run_ID q) (q, True)" "replaces_run s q True"
  shows "life_inv (set_run s q True) \<and> life_le s (set_run s q True)"
  using assms inv_set_run le_set_run by blast

lemma step_version:
  assumes "life_inv s" "version_ok s (dv_ID w) (w, c)" "replaces_version s w c"
  shows "life_inv (set_version s w c) \<and> life_le s (set_version s w c)"
  using assms inv_set_version le_set_version by blast

lemma step_hide: "life_inv s \<Longrightarrow> life_inv (s\<lparr>l_run := map_option (hide_run vid) \<circ> l_run s\<rparr>) \<and> life_le s (s\<lparr>l_run := map_option (hide_run vid) \<circ> l_run s\<rparr>)"
  by (auto simp: life_inv_def life_le_def version_ok_def run_ok_def hide_run_def same_run_def later_refl version_kept_def run_kept_def)

lemma step_purge:
  assumes "life_inv s" "l_version s vid = Some (v, b)" "dv_State v = DatasetVersionFailed"
    "\<forall>i r b'. l_run s i = Some (r, b') \<longrightarrow> run_DatasetVersionID r = vid \<longrightarrow> run_State r = DatasetVersionFailed"
  shows "life_inv (s\<lparr>l_version := (l_version s)(vid := None),
      l_run := (\<lambda>i. case l_run s i of Some (r, b') \<Rightarrow> if run_DatasetVersionID r = vid then None else Some (r, b') | None \<Rightarrow> None),
      l_gone_versions := insert vid (l_gone_versions s),
      l_gone_runs := l_gone_runs s \<union> {i. \<exists>r b'. l_run s i = Some (r, b') \<and> run_DatasetVersionID r = vid}\<rparr>) \<and>
    life_le s (s\<lparr>l_version := (l_version s)(vid := None),
      l_run := (\<lambda>i. case l_run s i of Some (r, b') \<Rightarrow> if run_DatasetVersionID r = vid then None else Some (r, b') | None \<Rightarrow> None),
      l_gone_versions := insert vid (l_gone_versions s),
      l_gone_runs := l_gone_runs s \<union> {i. \<exists>r b'. l_run s i = Some (r, b') \<and> run_DatasetVersionID r = vid}\<rparr>)" (is "life_inv ?t \<and> life_le s ?t")
proof
  show "life_inv ?t" unfolding life_inv_def
  proof (intro conjI allI impI)
    show "version_ok ?t i vb" if "l_version ?t i = Some vb" for i vb
      using inv_version [OF assms(1)] that by (cases vb) (auto simp: version_ok_def split: if_splits)
    show "run_ok ?t i rb" if "l_run ?t i = Some rb" for i rb
      using inv_run [OF assms(1)] that by (cases rb) (auto simp: run_ok_def split: option.splits if_splits)
  qed
  show "life_le s ?t" unfolding life_le_def
  proof (intro conjI allI impI)
    show "version_kept ?t i vb" if "l_version s i = Some vb" for i vb
      using assms(2,3) that by (cases vb) (auto simp: version_kept_def later_refl)
    show "run_kept ?t i rb" if "l_run s i = Some rb" for i rb
    proof (cases rb)
      case (Pair r c)
      then have "run_DatasetVersionID r = vid \<Longrightarrow> run_State r = DatasetVersionFailed" using assms(4) that by blast
      with that Pair show ?thesis by (auto simp: run_kept_def same_run_def)
    qed
  qed auto
qed

lemma life_step_keeps: "life_step s t \<Longrightarrow> life_inv s \<Longrightarrow> life_inv t \<and> life_le s t"
proof (induction rule: life_step.induct)
  case (new_version s v)
  then show ?case by (intro step_version) (simp_all add: version_ok_def replaces_version_def)
next
  case (new_run s v r)
  then show ?case by (intro step_run) (simp_all add: run_ok_def replaces_run_def)
next
  case (advance s v r v' r')
  show ?case by (rule step_advance [OF advance(13,1-7,9-12)])
next
  case (progress s r r')
  then show ?case using inv_run [OF progress(7,1)]
    by (intro step_run) (auto simp: run_ok_def replaces_run_def same_run_def activeDatasetPublicationState_def)
next
  case (draft s v v')
  then show ?case using inv_version [OF draft(6,1)] draft_unpublished
    by (intro step_version) (simp_all add: version_ok_def replaces_version_def same_version_def later_unpublished)
next
  case (transition s v t v')
  then show ?case using inv_version [OF transition(3,1)] transition_later [OF transition(2)]
    by (intro step_version) (simp_all add: version_ok_def replaces_version_def)
next
  case (hide_runs s vid)
  then show ?case by (rule step_hide)
next
  case (hide_version s v)
  then show ?case using inv_version [OF hide_version(3,1)]
    by (intro step_version) (simp_all add: version_ok_def replaces_version_def later_refl)
next
  case (purge s vid v b)
  then show ?case by (intro step_purge) simp_all
qed

interpretation life: step_preorder life_step life_inv life_le
proof
  show "life_inv t" if "life_inv s" "life_step s t" for s t using life_step_keeps [OF that(2,1)] by simp
  show "life_le s t" if "life_inv s" "life_step s t" for s t using life_step_keeps [OF that(2,1)] by simp
  show "life_le s s" for s by (rule life_le_refl)
  show "life_le s u" if "life_le s t" "life_le t u" for s t u by (rule life_le_trans [OF that])
qed

end
