(* ===== verification/Dataset_Refinement.thy ===== *)
theory Dataset_Refinement
  imports Dataset_Life
begin

section \<open>The catalogue implements the life of versions and runs\<close>

text \<open>
  \<open>catalogue_step\<close>: the successful transactions of the catalogue in any order and interleaving, together with what other components do to
  the tables that only they write (jobs, partitions, attempts and shards of the workers). \<open>life_of\<close> forgets rows and time stamps. Every
  step is a run of \<open>life_step\<close> (interpretation \<open>catalogue\<close> of \<open>simulation\<close>).
\<close>

definition life_of :: "catalogue \<Rightarrow> life" where
  "life_of db = \<lparr>
     l_version = (\<lambda>i. map_option (\<lambda>v. (stored_version v, live_version v)) (select_first (\<lambda>v. dvr_ID v = i) (cat_versions db))),
     l_run = (\<lambda>i. map_option (\<lambda>r. (stored_run r, live_run r)) (select_first (\<lambda>r. prr_ID r = i) (cat_runs db))),
     l_gone_versions = {pid_ID p | p. p \<in> set (cat_purged db) \<and> pid_Kind p = ''version''},
     l_gone_runs = {pid_ID p | p. p \<in> set (cat_purged db) \<and> pid_Kind p = ''run''}\<rparr>"

definition catalogue_keys :: "catalogue \<Rightarrow> bool" where
  "catalogue_keys db \<longleftrightarrow> distinct (map dvr_ID (cat_versions db)) \<and> distinct (map prr_ID (cat_runs db))"

inductive catalogue_step :: "catalogue \<Rightarrow> catalogue \<Rightarrow> bool" where
  create_dataset: "CreateDataset now d db = Inr (x, db') \<Longrightarrow> catalogue_step db db'"
| create_version: "CreateDatasetVersion now v db = Inr (x, db') \<Longrightarrow> catalogue_step db db'"
| update_draft: "UpdateDatasetVersionDraft now v db = Inr (w, db') \<Longrightarrow> catalogue_step db db'"
| transition: "TransitionDatasetVersion now did vid t db = Inr (w, db') \<Longrightarrow> catalogue_step db db'"
| observe: "RecordDatasetCacheObservation now o' db = Inr (x, db') \<Longrightarrow> catalogue_step db db'"
| request: "CreateDatasetPublicationRequest now ctx tenant super v r db = Inr (q, db') \<Longrightarrow> catalogue_step db db'"
| ensure: "EnsureDatasetPublicationRun now ctx tenant super r db = Inr (q, db') \<Longrightarrow> catalogue_step db db'"
| claim: "ClaimDatasetPublicationRun now ctx tenant super did vid rid at db = Inr (q, db') \<Longrightarrow> catalogue_step db db'"
| swap: "CompareAndSwapDatasetPublicationRun now ctx tenant super st n at db = Inr (q, db') \<Longrightarrow> catalogue_step db db'"
| report: "UpdateDatasetPublicationRunProgress now ctx tenant super st n at db = Inr (q, db') \<Longrightarrow> catalogue_step db db'"
| finalize: "FinalizeDatasetPublicationRun now ctx tenant super st n receipt pre at db = Inr (q, db') \<Longrightarrow> catalogue_step db db'"
| retry: "RetryDatasetPublicationRun now ctx tenant super did vid rid at backoff db = Inr (q, db') \<Longrightarrow> catalogue_step db db'"
| delete: "DeleteFailedDatasetRecord now tenant super did vid actor only db = Inr (x, db') \<Longrightarrow> catalogue_step db db'"
| purge: "PurgeFailedDatasetRecord collate fenced tenant super did vid actor remove db = Inr (n', db') \<Longrightarrow> catalogue_step db db'"
| others: "catalogue_step db (db\<lparr>cat_jobs := jobs, cat_partitions := partitions, cat_attempts := attempts, cat_shards := shards\<rparr>)"

subsection \<open>Rows by key\<close>

lemma select_update:
  assumes "\<And>r. q r \<Longrightarrow> key (f r) = key r"
  shows "select_first (\<lambda>r. key r = k) (update_where q f rows) = map_option (\<lambda>r. if q r then f r else r) (select_first (\<lambda>r. key r = k) rows)"
  using assms by (induction rows) (auto simp: select_first_def update_where_def)

lemma select_filter:
  "distinct (map key rows) \<Longrightarrow> select_first (\<lambda>r. key r = k) (filter q rows) =
     (case select_first (\<lambda>r. key r = k) rows of None \<Rightarrow> None | Some r \<Rightarrow> if q r then Some r else None)"
proof (induction rows)
  case (Cons r rows)
  then have "find (\<lambda>x. key x = key r) rows = None" by (auto simp: find_None_iff image_iff)
  with Cons show ?case by (auto simp: select_first_def)
qed (simp add: select_first_def)

lemma select_snoc: "select_first p (rows @ [r]) = (case select_first p rows of None \<Rightarrow> if p r then Some r else None | Some x \<Rightarrow> Some x)"
  by (induction rows) (auto simp: select_first_def)

lemma select_key: "distinct (map key rows) \<Longrightarrow> r \<in> set rows \<Longrightarrow> select_first (\<lambda>x. key x = key r) rows = Some r"
  by (rule select_unique [where key = key]) auto

lemma count_one: "count_where q rows = 1 \<Longrightarrow> \<exists>r \<in> set rows. q r"
  by (auto simp: count_where_def length_Suc_conv filter_eq_Cons_iff)

lemma update_one:
  assumes "distinct (map key rows)" "count_where q rows = 1" "\<And>r. q r \<Longrightarrow> key r = k \<and> key (f r) = k"
  shows "\<exists>r. r \<in> set rows \<and> q r \<and> select_first (\<lambda>x. key x = k) rows = Some r \<and>
    (\<forall>j. select_first (\<lambda>x. key x = j) (update_where q f rows) = (if j = k then Some (f r) else select_first (\<lambda>x. key x = j) rows))"
proof -
  obtain r where r: "r \<in> set rows" "q r" using count_one [OF assms(2)] by blast
  then have at: "select_first (\<lambda>x. key x = k) rows = Some r" using select_key [OF assms(1) r(1)] assms(3) by metis
  have "select_first (\<lambda>x. key x = j) (update_where q f rows) = (if j = k then Some (f r) else select_first (\<lambda>x. key x = j) rows)" for j
  proof -
    have "select_first (\<lambda>x. key x = j) (update_where q f rows) = map_option (\<lambda>r. if q r then f r else r) (select_first (\<lambda>x. key x = j) rows)"
      using assms(3) by (intro select_update) metis
    moreover have "\<not> q x" if "select_first (\<lambda>x. key x = j) rows = Some x" "j \<noteq> k" for x
      using that select_first_in [OF that(1)] assms(3) by metis
    ultimately show ?thesis using at r(2) by (cases "select_first (\<lambda>x. key x = j) rows") auto
  qed
  with r at show ?thesis by blast
qed

subsection \<open>Keys\<close>

lemma keys_versions: "catalogue_keys db \<Longrightarrow> (\<And>v. p v \<Longrightarrow> dvr_ID (f v) = dvr_ID v) \<Longrightarrow> catalogue_keys (snd (update_versions p f db))"
  by (simp add: catalogue_keys_def update_versions_def) (subst map_update_where; auto)

lemma keys_runs: "catalogue_keys db \<Longrightarrow> (\<And>r. p r \<Longrightarrow> prr_ID (f r) = prr_ID r) \<Longrightarrow> catalogue_keys (snd (update_runs p f db))"
  by (simp add: catalogue_keys_def update_runs_def) (subst map_update_where; auto)

subsection \<open>Stored values\<close>

lemma hd_encoding: "has_prefix s e \<Longrightarrow> e \<noteq> [] \<Longrightarrow> hd e = hd s"
  by (auto simp: has_prefix_iff)

lemma trim_space_id:
  assumes "s \<noteq> []" "hd s \<notin> hd ` set space_encodings" "last s \<notin> last ` set space_encodings"
  shows "trim_space s = s"
proof -
  have "\<not> has_prefix s e" if "e \<in> set space_encodings" "e \<noteq> []" for e
    using hd_encoding [of s e] that assms(2) by (metis image_eqI)
  then have "strip space_encodings s = s"
    by (intro strip_id) (auto simp: find_None_iff)
  moreover have "\<not> has_prefix (rev s) (rev e)" if "e \<in> set space_encodings" "e \<noteq> []" for e
    using hd_encoding [of "rev s" "rev e"] that assms(1,3) by (auto simp: hd_rev dest: image_eqI [of _ last, OF sym])
  then have "strip rev_space_encodings (rev s) = rev s"
    by (intro strip_id) (auto simp: find_None_iff rev_space_encodings_def)
  ultimately show ?thesis by (simp add: trim_space_def trim_left_def trim_right_def)
qed

lemma not_blank: "s \<noteq> [] \<Longrightarrow> hd s \<notin> hd ` set space_encodings \<Longrightarrow> last s \<notin> last ` set space_encodings \<Longrightarrow> \<not> blank s"
  by (simp add: blank_def trim_space_id)

lemma digest_not_blank: "matches datasetDigestPattern s \<Longrightarrow> \<not> blank s"
proof -
  assume "matches datasetDigestPattern s"
  then have len: "s \<noteq> []" and hex: "\<forall>c \<in> set s. is_hex_lower c" by (auto simp: datasetDigestPattern_def matches_hex_digest)
  then have "is_hex_lower (hd s)" "is_hex_lower (last s)" by auto
  moreover have "list_all (\<lambda>e. \<not> is_hex_lower (hd e) \<and> \<not> is_hex_lower (last e)) space_encodings" by code_simp
  ultimately show ?thesis using len by (intro not_blank) (auto simp: list_all_iff)
qed

lemma identifier_not_blank: "validateDatasetIdentifier n v = None \<Longrightarrow> \<not> blank v"
  by (auto simp: validateDatasetIdentifier_def blank_def)

lemma version_texts:
  assumes "DatasetVersion_Validate v = None"
  shows "unblank (dv_ManifestSHA256 v) = dv_ManifestSHA256 v" "unblank (dv_ManifestObjectKey v) = dv_ManifestObjectKey v"
    "unblank (dv_SourceSyncRunID v) = dv_SourceSyncRunID v"
proof -
  have "dv_ManifestSHA256 v \<noteq> [] \<Longrightarrow> matches datasetDigestPattern (dv_ManifestSHA256 v)"
    "dv_ManifestObjectKey v \<noteq> [] \<Longrightarrow> validateDatasetRelativePath ''manifest object key'' (dv_ManifestObjectKey v) = None"
    "dv_SourceSyncRunID v \<noteq> [] \<Longrightarrow> validateDatasetIdentifier ''source sync run ID'' (dv_SourceSyncRunID v) = None"
    using assms by (auto simp: DatasetVersion_Validate_def)
  moreover have "validateDatasetRelativePath n p = None \<Longrightarrow> \<not> blank p" for n p
    by (auto simp: validateDatasetRelativePath_def blank_def)
  ultimately have "dv_ManifestSHA256 v \<noteq> [] \<Longrightarrow> \<not> blank (dv_ManifestSHA256 v)" "dv_ManifestObjectKey v \<noteq> [] \<Longrightarrow> \<not> blank (dv_ManifestObjectKey v)"
    "dv_SourceSyncRunID v \<noteq> [] \<Longrightarrow> \<not> blank (dv_SourceSyncRunID v)"
    using digest_not_blank identifier_not_blank by blast+
  then show "unblank (dv_ManifestSHA256 v) = dv_ManifestSHA256 v" "unblank (dv_ManifestObjectKey v) = dv_ManifestObjectKey v"
    "unblank (dv_SourceSyncRunID v) = dv_SourceSyncRunID v"
    unfolding unblank_def by metis+
qed

lemma stored_new_version: "DatasetVersion_Validate v = None \<Longrightarrow> stored_version (datasetVersionRecordFromDomain v now) = v"
  by (simp add: stored_version_def datasetVersionRecordFromDomain_def version_texts)

lemma stored_new_run: "stored_run (datasetPublicationRunRecordFromDomain r now) = r\<lparr>run_ExecutionMode := ExecutionMode_Normalized (run_ExecutionMode r)\<rparr>"
  by (simp add: stored_run_def datasetPublicationRunRecordFromDomain_def ExecutionMode_Normalized_def)

lemma run_valid_mode: "DatasetPublicationRun_Validate r = None \<Longrightarrow> DatasetPublicationRun_Validate (r\<lparr>run_ExecutionMode := ExecutionMode_Normalized m\<rparr>) = None \<longleftrightarrow> ExecutionMode_Valid m"
  by (auto simp: DatasetPublicationRun_Validate_def ExecutionMode_Normalized_def ExecutionMode_Valid_def)

text \<open>Validation looks at identity, provenance and payload separately.\<close>

lemma version_valid_combine:
  assumes "DatasetVersion_Validate v = None" "DatasetVersion_Validate w = None" "dv_ID w = dv_ID v" "dv_DatasetID w = dv_DatasetID v"
  shows "DatasetVersion_Validate (w\<lparr>dv_Version := dv_Version v, dv_SourceSyncRunID := dv_SourceSyncRunID v, dv_SourceInventorySHA256 := dv_SourceInventorySHA256 v\<rparr>) = None"
  using assms unfolding DatasetVersion_Validate_def manifest_suffix_def by (simp split: if_splits del: if_split)

lemma version_valid_state:
  assumes "DatasetVersion_Validate v = None" "knownDatasetVersionState st" "\<not> published_state st"
  shows "DatasetVersion_Validate (v\<lparr>dv_State := st\<rparr>) = None"
  using assms unfolding DatasetVersion_Validate_def manifest_suffix_def by (simp split: if_splits del: if_split)

lemma run_valid_combine:
  assumes "DatasetPublicationRun_Validate r = None" "DatasetPublicationRun_Validate n = None"
  shows "DatasetPublicationRun_Validate (n\<lparr>run_ExecutionMode := run_ExecutionMode r\<rparr>) = None"
  using assms by (simp add: DatasetPublicationRun_Validate_def)

subsection \<open>Rows that the transactions read\<close>

lemma version_toDomain [simp]: "DatasetVersionRecord_toDomain r = Inr v \<longleftrightarrow> v = stored_version r \<and> DatasetVersion_Validate v = None"
  by (auto simp: DatasetVersionRecord_toDomain_def)

lemma run_toDomain [simp]: "DatasetPublicationRunRecord_toDomain r = Inr run \<longleftrightarrow> run = stored_run r \<and> DatasetPublicationRun_Validate run = None"
  by (auto simp: DatasetPublicationRunRecord_toDomain_def)

lemma case_sum_Inr: "(case x of Inl a \<Rightarrow> Inl (f a) | Inr b \<Rightarrow> g b) = Inr y \<longleftrightarrow> (\<exists>b. x = Inr b \<and> g b = Inr y)"
  by (cases x) auto

lemma version_at_row: "version_at did vid db = Some v \<Longrightarrow> v \<in> set (cat_versions db) \<and> live_version v \<and> dvr_ID v = vid \<and> dvr_DatasetID v = did"
  unfolding version_at_def by (drule select_first_in) simp

lemma manageable_row:
  "getManageableDatasetVersionRecord tenant super did vid db = Inr v \<Longrightarrow>
   v \<in> set (cat_versions db) \<and> live_version v \<and> dvr_ID v = vid \<and> dvr_DatasetID v = did"
  by (auto simp: getManageableDatasetVersionRecord_def manageable_versions_def filter_eq_Cons_iff split: list.splits)

lemma manageable_run_row:
  "getManageableDatasetPublicationRunRecord tenant super did vid rid db = Inr r \<Longrightarrow>
   r \<in> set (cat_runs db) \<and> live_run r \<and> prr_ID r = rid \<and> prr_DatasetID r = did \<and> prr_DatasetVersionID r = vid"
  by (auto simp: getManageableDatasetPublicationRunRecord_def getDatasetPublicationRunRecordWithScope_def dest!: select_first_in)

lemma current_run_Inr [simp]:
  "current_run tenant super did vid rid db = Inr (r, run) \<longleftrightarrow>
   getManageableDatasetPublicationRunRecord tenant super did vid rid db = Inr r \<and> run = stored_run r \<and> DatasetPublicationRun_Validate run = None"
  by (auto simp: current_run_def case_sum_Inr)

lemma life_version: "catalogue_keys db \<Longrightarrow> v \<in> set (cat_versions db) \<Longrightarrow> l_version (life_of db) (dvr_ID v) = Some (stored_version v, live_version v)"
  by (simp add: life_of_def catalogue_keys_def select_key)

lemma life_run: "catalogue_keys db \<Longrightarrow> r \<in> set (cat_runs db) \<Longrightarrow> l_run (life_of db) (prr_ID r) = Some (stored_run r, live_run r)"
  by (simp add: life_of_def catalogue_keys_def select_key)

lemma stored_ids [simp]: "dv_ID (stored_version v) = dvr_ID v" "dv_DatasetID (stored_version v) = dvr_DatasetID v" "dv_State (stored_version v) = dvr_State v"
    "run_ID (stored_run r) = prr_ID r" "run_DatasetID (stored_run r) = prr_DatasetID r" "run_DatasetVersionID (stored_run r) = prr_DatasetVersionID r"
    "run_State (stored_run r) = prr_State r"
  by (simp_all add: stored_version_def stored_run_def)

subsection \<open>Updates of one row\<close>

lemma one_version:
  assumes "catalogue_keys db" "update_versions p f db = (1, db')" "\<And>x. p x \<Longrightarrow> dvr_ID x = i \<and> dvr_ID (f x) = i"
  obtains x where "x \<in> set (cat_versions db)" "live_version x" "p x" "l_version (life_of db) i = Some (stored_version x, True)" "dvr_ID x = i"
    "life_of db' = set_version (life_of db) (stored_version (f x)) (live_version (f x))" "catalogue_keys db'"
proof -
  let ?q = "\<lambda>x. live_version x \<and> p x"
  have rows: "count_where ?q (cat_versions db) = 1" "db' = db\<lparr>cat_versions := update_where ?q f (cat_versions db)\<rparr>"
    using assms(2) by (simp_all add: update_versions_def)
  obtain x where x: "x \<in> set (cat_versions db)" "?q x"
    and sel: "\<forall>j. select_first (\<lambda>x. dvr_ID x = j) (update_where ?q f (cat_versions db)) =
      (if j = i then Some (f x) else select_first (\<lambda>x. dvr_ID x = j) (cat_versions db))"
    using update_one [of dvr_ID "cat_versions db" ?q i f] assms(1,3) rows(1) by (auto simp: catalogue_keys_def)
  have "catalogue_keys db'"
    using assms(1,3) unfolding rows(2) by (simp add: catalogue_keys_def) (subst map_update_where; metis)
  moreover have "life_of db' = set_version (life_of db) (stored_version (f x)) (live_version (f x))"
    using sel assms(3) [of x] x(2) unfolding rows(2) by (auto simp: life_of_def set_version_def fun_eq_iff)
  moreover have "l_version (life_of db) i = Some (stored_version x, True)" using life_version [OF assms(1) x(1)] x(2) assms(3) [of x] by simp
  ultimately show thesis using that x assms(3) by blast
qed

lemma one_run:
  assumes "catalogue_keys db" "update_runs p f db = (1, db')" "\<And>x. p x \<Longrightarrow> prr_ID x = i \<and> prr_ID (f x) = i"
  obtains x where "x \<in> set (cat_runs db)" "live_run x" "p x" "l_run (life_of db) i = Some (stored_run x, True)" "prr_ID x = i"
    "life_of db' = set_run (life_of db) (stored_run (f x)) (live_run (f x))" "catalogue_keys db'"
proof -
  let ?q = "\<lambda>x. live_run x \<and> p x"
  have rows: "count_where ?q (cat_runs db) = 1" "db' = db\<lparr>cat_runs := update_where ?q f (cat_runs db)\<rparr>"
    using assms(2) by (simp_all add: update_runs_def)
  obtain x where x: "x \<in> set (cat_runs db)" "?q x"
    and sel: "\<forall>j. select_first (\<lambda>x. prr_ID x = j) (update_where ?q f (cat_runs db)) =
      (if j = i then Some (f x) else select_first (\<lambda>x. prr_ID x = j) (cat_runs db))"
    using update_one [of prr_ID "cat_runs db" ?q i f] assms(1,3) rows(1) by (auto simp: catalogue_keys_def)
  have "catalogue_keys db'"
    using assms(1,3) unfolding rows(2) by (simp add: catalogue_keys_def) (subst map_update_where; metis)
  moreover have "life_of db' = set_run (life_of db) (stored_run (f x)) (live_run (f x))"
    using sel assms(3) [of x] x(2) unfolding rows(2) by (auto simp: life_of_def set_run_def fun_eq_iff)
  moreover have "l_run (life_of db) i = Some (stored_run x, True)" using life_run [OF assms(1) x(1)] x(2) assms(3) [of x] by simp
  ultimately show thesis using that x assms(3) by blast
qed

lemma advance_both:
  assumes "catalogue_keys db" "life_inv (life_of db)" "update_both pv fv pr fr db = Inr db'"
    and "\<And>v. pv v \<Longrightarrow> at_version did vid st v" "\<And>r. pr r \<Longrightarrow> at_run did vid rid st r"
    and "\<And>v. same_version (stored_version v) (stored_version (fv v)) \<and> live_version (fv v) = live_version v \<and> dvr_State (fv v) = st'"
    and "\<And>r. same_run (stored_run r) (stored_run (fr r)) \<and> live_run (fr r) = live_run r \<and> prr_State (fr r) = st'"
    and "st' \<in> set (version_transitions st)" "\<not> published_state st"
    and "\<And>v. pv v \<Longrightarrow> DatasetVersion_Validate (stored_version v) = None \<Longrightarrow> DatasetVersion_Validate (stored_version (fv v)) = None"
    and "\<And>r. pr r \<Longrightarrow> DatasetPublicationRun_Validate (stored_run r) = None \<Longrightarrow> DatasetPublicationRun_Validate (stored_run (fr r)) = None"
    and "\<And>r. st' = DatasetVersionReady \<Longrightarrow> progress_complete (stored_run (fr r))"
  shows "life_step (life_of db) (life_of db') \<and> catalogue_keys db'"
proof -
  obtain db1 where upd: "update_versions pv fv db = (1, db1)" "update_runs pr fr db1 = (1, db')"
    using assms(3) by (auto simp: update_both_def Let_def prod_eq_iff case_prod_unfold split: if_splits)
  have cv: "dvr_ID v = vid \<and> dvr_ID (fv v) = vid" if "pv v" for v
    using that assms(4) [of v] assms(6) [of v] by (simp add: same_version_def at_version_def)
  have cr: "prr_ID r = rid \<and> prr_ID (fr r) = rid" if "pr r" for r
    using that assms(5) [of r] assms(7) [of r] by (simp add: same_run_def at_run_def)
  obtain v where v: "v \<in> set (cat_versions db)" "live_version v" "pv v" "l_version (life_of db) vid = Some (stored_version v, True)" "dvr_ID v = vid"
      "life_of db1 = set_version (life_of db) (stored_version (fv v)) (live_version (fv v))" "catalogue_keys db1"
    by (rule one_version [OF assms(1) upd(1) cv])
  obtain r where r: "r \<in> set (cat_runs db1)" "live_run r" "pr r" "l_run (life_of db1) rid = Some (stored_run r, True)" "prr_ID r = rid"
      "life_of db' = set_run (life_of db1) (stored_run (fr r)) (live_run (fr r))" "catalogue_keys db'"
    by (rule one_run [OF v(7) upd(2) cr])
  have lv: "l_version (life_of db) (dvr_ID v) = Some (stored_version v, True)" using v(4,5) by simp
  have lr: "l_run (life_of db) (prr_ID r) = Some (stored_run r, True)" using r(4,5) v(6) by (simp add: set_version_def)
  have ok: "DatasetVersion_Validate (stored_version v) = None" "DatasetPublicationRun_Validate (stored_run r) = None"
    using inv_version [OF assms(2) lv] inv_run [OF assms(2) lr] by (simp_all add: version_ok_def run_ok_def)
  have at: "at_version did vid st v" "at_run did vid rid st r" using assms(4,5) v(3) r(3) by blast+
  have valid: "DatasetVersion_Validate (stored_version (fv v)) = None" "DatasetPublicationRun_Validate (stored_run (fr r)) = None"
    using assms(10) [OF _ ok(1)] assms(11) [OF _ ok(2)] v(3) r(3) by blast+
  have st: "dv_State (stored_version v) = st" "run_State (stored_run r) = st"
    "dv_State (stored_version (fv v)) = st'" "run_State (stored_run (fr r)) = st'"
    using at assms(6) [of v] assms(7) [of r] by (simp_all only: at_version_def at_run_def stored_ids)
  have "life_step (life_of db) (set_run (set_version (life_of db) (stored_version (fv v)) True) (stored_run (fr r)) True)"
  proof (rule life_step.advance)
    show "l_version (life_of db) (dv_ID (stored_version v)) = Some (stored_version v, True)" unfolding stored_ids by (rule lv)
    show "l_run (life_of db) (run_ID (stored_run r)) = Some (stored_run r, True)" unfolding stored_ids by (rule lr)
    show "run_of (stored_run r) (stored_version v)" using at by (simp only: run_of_def stored_ids at_version_def at_run_def)
    show "same_version (stored_version v) (stored_version (fv v))" "same_run (stored_run r) (stored_run (fr r))" using assms(6,7) by blast+
    show "dv_State (stored_version (fv v)) \<in> set (version_transitions (dv_State (stored_version v)))" "\<not> published_state (dv_State (stored_version v))"
      unfolding st by (rule assms)+
  qed (simp_all only: st valid assms(12))
  then show ?thesis using r(2,6,7) v(2,6) assms(6) [of v] assms(7) [of r] by metis
qed

lemma conclude_cases:
  assumes "conclude ctx tenant super did vid rid db x = Inr (q, db')"
  obtains "\<not> snd q" "db' = db" | "x = Inr (q, db')"
  using assms by (auto simp: conclude_def split: sum.splits if_splits)

subsection \<open>Operations\<close>

definition implements :: "catalogue \<Rightarrow> catalogue \<Rightarrow> bool" where
  "implements db db' \<longleftrightarrow> life_step\<^sup>*\<^sup>* (life_of db) (life_of db') \<and> catalogue_keys db'"

lemma implements_refl: "catalogue_keys db \<Longrightarrow> implements db db"
  by (simp add: implements_def)

lemma implements_same:
  "catalogue_keys db \<Longrightarrow> cat_versions db' = cat_versions db \<Longrightarrow> cat_runs db' = cat_runs db \<Longrightarrow> cat_purged db' = cat_purged db \<Longrightarrow> implements db db'"
  by (simp add: implements_def life_of_def catalogue_keys_def)

lemma implements_step: "life_step (life_of db) (life_of db') \<and> catalogue_keys db' \<Longrightarrow> implements db db'"
  by (auto simp: implements_def)

lemma run_transition:
  assumes "validatePublicationRunTransition st n = None"
  shows "run_State n \<in> set (version_transitions st)" "\<not> published_state st" "DatasetPublicationRun_Validate n = None"
    "run_State n = DatasetVersionReady \<Longrightarrow> progress_complete n" "run_State n \<noteq> DatasetVersionReady \<Longrightarrow> \<not> published_state (run_State n)"
  using assms by (cases st; auto simp: validatePublicationRunTransition_def progress_complete_def published_state_def split: if_splits)+

lemma stored_state: "stored_version (v\<lparr>dvr_State := st, dvr_UpdatedAt := t\<rparr>) = (stored_version v)\<lparr>dv_State := st\<rparr>"
  "stored_run (r\<lparr>prr_State := st, prr_StartedAt := a, prr_FinishedAt := b, prr_UpdatedAt := t\<rparr>) = (stored_run r)\<lparr>run_State := st\<rparr>"
  by (simp_all add: stored_version_def stored_run_def)

lemma run_valid_state: "DatasetPublicationRun_Validate r = None \<Longrightarrow> knownDatasetVersionState st \<Longrightarrow> DatasetPublicationRun_Validate (r\<lparr>run_State := st\<rparr>) = None"
  by (simp add: DatasetPublicationRun_Validate_def)

lemma known_transition: "t \<in> set (version_transitions s) \<Longrightarrow> knownDatasetVersionState t"
  by (cases s) auto

lemma live_updates [simp]: "live_version (v\<lparr>dvr_State := st, dvr_UpdatedAt := t\<rparr>) = live_version v"
  "live_run (r\<lparr>prr_State := st, prr_StartedAt := a, prr_FinishedAt := b, prr_UpdatedAt := t\<rparr>) = live_run r"
  "live_run (publicationRunUpdates n t r) = live_run r" "live_run (progress_updates n t r) = live_run r"
  "live_version (ready_updates w t v) = live_version v" "live_version (reset_version t v) = live_version v" "live_run (reset_run t r) = live_run r"
  by (simp_all add: live_version_def live_run_def publicationRunUpdates_def progress_updates_def ready_updates_def reset_version_def reset_run_def Let_def)

lemma updated_states [simp]: "prr_State (publicationRunUpdates n t r) = run_State n" "dvr_State (ready_updates w t v) = DatasetVersionReady"
  "dvr_State (reset_version t v) = DatasetVersionDiscovering" "prr_State (reset_run t r) = DatasetVersionDiscovering"
  by (simp_all add: publicationRunUpdates_def progress_updates_def ready_updates_def reset_version_def reset_run_def Let_def)

lemma stored_progress:
  "stored_run (publicationRunUpdates n t r) = (n\<lparr>run_ID := prr_ID r, run_DatasetID := prr_DatasetID r, run_DatasetVersionID := prr_DatasetVersionID r,
     run_ExecutionMode := run_ExecutionMode (stored_run r)\<rparr>)"
  by (simp add: stored_run_def publicationRunUpdates_def progress_updates_def Let_def)

lemma stored_report:
  "stored_run (progress_updates n t r) = (n\<lparr>run_ID := prr_ID r, run_DatasetID := prr_DatasetID r, run_DatasetVersionID := prr_DatasetVersionID r,
     run_ExecutionMode := run_ExecutionMode (stored_run r), run_State := prr_State r\<rparr>)"
  by (simp add: stored_run_def progress_updates_def)

lemma run_self: "n\<lparr>run_ID := run_ID n, run_DatasetID := run_DatasetID n, run_DatasetVersionID := run_DatasetVersionID n, run_ExecutionMode := m\<rparr> = n\<lparr>run_ExecutionMode := m\<rparr>"
  "n\<lparr>run_ExecutionMode := m, run_State := run_State n\<rparr> = n\<lparr>run_ExecutionMode := m\<rparr>"
  by simp_all

text \<open>What a successful call of each operation on a run has done: nothing, or one update that its checks allow.\<close>

lemma claim_cases:
  assumes "ClaimDatasetPublicationRun now ctx tenant super did vid rid at db = Inr ((q, moved), db')"
  obtains "\<not> moved" "db' = db"
  | r version t where "moved" "getManageableDatasetPublicationRunRecord tenant super did vid rid db = Inr r" "prr_State r = DatasetVersionDiscovering"
      "q = (stored_run r)\<lparr>run_State := DatasetVersionStabilizing\<rparr>"
      "getManageableDatasetVersionRecord tenant super did vid db = Inr version" "dvr_State version = DatasetVersionDiscovering"
      "update_both (at_version did vid DatasetVersionDiscovering) (\<lambda>v. v\<lparr>dvr_State := DatasetVersionStabilizing, dvr_UpdatedAt := t\<rparr>)
         (at_run did vid rid DatasetVersionDiscovering)
         (\<lambda>r. r\<lparr>prr_State := DatasetVersionStabilizing, prr_StartedAt := Some t, prr_FinishedAt := None, prr_UpdatedAt := t\<rparr>) db = Inr db'"
  using assms by (auto simp: ClaimDatasetPublicationRun_def Let_def elim!: conclude_cases split: if_splits)

lemma swap_cases:
  assumes "CompareAndSwapDatasetPublicationRun now ctx tenant super st n at db = Inr ((q, moved), db')"
  obtains "\<not> moved" "db' = db"
  | r version t where "moved" "q = n" "validatePublicationRunTransition st n = None" "run_State n \<noteq> DatasetVersionReady"
      "getManageableDatasetPublicationRunRecord tenant super (run_DatasetID n) (run_DatasetVersionID n) (run_ID n) db = Inr r" "prr_State r = st"
      "getManageableDatasetVersionRecord tenant super (run_DatasetID n) (run_DatasetVersionID n) db = Inr version" "dvr_State version = st"
      "update_both (at_version (run_DatasetID n) (run_DatasetVersionID n) st) (\<lambda>v. v\<lparr>dvr_State := run_State n, dvr_UpdatedAt := t\<rparr>)
        (at_run (run_DatasetID n) (run_DatasetVersionID n) (run_ID n) st) (publicationRunUpdates n t) db = Inr db'"
  using assms by (auto simp: CompareAndSwapDatasetPublicationRun_def Let_def elim!: conclude_cases split: if_splits)

lemma report_cases:
  assumes "UpdateDatasetPublicationRunProgress now ctx tenant super st n at db = Inr ((q, moved), db')"
  obtains "\<not> moved" "db' = db"
  | r version t where "moved" "q = n" "run_State n = st" "activeDatasetPublicationState st" "DatasetPublicationRun_Validate n = None"
      "getManageableDatasetPublicationRunRecord tenant super (run_DatasetID n) (run_DatasetVersionID n) (run_ID n) db = Inr r" "prr_State r = st"
      "publicationProgressMonotonic (stored_run r) n"
      "getManageableDatasetVersionRecord tenant super (run_DatasetID n) (run_DatasetVersionID n) db = Inr version" "dvr_State version = st"
      "update_runs (at_run (run_DatasetID n) (run_DatasetVersionID n) (run_ID n) st) (progress_updates n t) db = (1, db')"
  using assms by (auto simp: UpdateDatasetPublicationRunProgress_def Let_def elim!: conclude_cases split: if_splits prod.splits)

lemma finalize_cases:
  assumes "FinalizeDatasetPublicationRun now ctx tenant super st n receipt pre at db = Inr ((q, moved), db')"
  obtains "\<not> moved" "db' = db"
  | r version t where "moved" "q = n" "validatePublicationRunTransition st n = None" "st = DatasetVersionPacking" "run_State n = DatasetVersionReady"
      "run_DatasetID n = rcpt_DatasetID receipt" "run_DatasetVersionID n = rcpt_DatasetVersionID receipt"
      "Receipt_ValidateWithInternalPrefix receipt pre = None" "run_SourceObjectCount n = rcpt_SourceObjectCount receipt"
      "getManageableDatasetPublicationRunRecord tenant super (run_DatasetID n) (run_DatasetVersionID n) (run_ID n) db = Inr r" "prr_State r = st"
      "getManageableDatasetVersionRecord tenant super (run_DatasetID n) (run_DatasetVersionID n) db = Inr version" "dvr_State version = st"
      "dvr_Version version = rcpt_Version receipt" "dvr_SchemaVersion version = rcpt_SchemaVersion receipt"
      "update_both (\<lambda>v. at_version (rcpt_DatasetID receipt) (rcpt_DatasetVersionID receipt) st v \<and> dvr_Version v = rcpt_Version receipt)
         (ready_updates (ReadyVersion receipt) t)
         (at_run (run_DatasetID n) (run_DatasetVersionID n) (run_ID n) st) (publicationRunUpdates n t) db = Inr db'"
  using assms
  by (auto simp: FinalizeDatasetPublicationRun_def Let_def ReadyVersion_def receipt_datasetVersion_def elim!: conclude_cases split: if_splits)

lemma not_finished: "(case x of None \<Rightarrow> True | Some f \<Rightarrow> (e :: int) < f) \<longleftrightarrow> \<not> (\<exists>f. x = Some f \<and> f \<le> e)"
  by (auto split: option.splits)

lemma retry_cases:
  assumes "RetryDatasetPublicationRun now ctx tenant super did vid rid at backoff db = Inr ((q, moved), db')"
  obtains "\<not> moved" "db' = db"
  | r version f t where "moved" "q = new_run did vid rid" "0 \<le> backoff"
      "getManageableDatasetPublicationRunRecord tenant super did vid rid db = Inr r" "prr_State r = DatasetVersionFailed"
      "prr_FinishedAt r = Some f" "f + backoff \<le> t" "t = normalizedPublicationRunTime now at"
      "getManageableDatasetVersionRecord tenant super did vid db = Inr version" "dvr_State version = DatasetVersionFailed"
      "update_both (at_version did vid DatasetVersionFailed) (reset_version t)
         (\<lambda>r. at_run did vid rid DatasetVersionFailed r \<and> (case prr_FinishedAt r of None \<Rightarrow> False | Some f \<Rightarrow> f \<le> t - backoff)) (reset_run t) db = Inr db'"
  using assms by (auto simp: RetryDatasetPublicationRun_def Let_def not_finished elim!: conclude_cases split: if_splits)

subsection \<open>Moves of a run\<close>

lemma claim_implements:
  assumes "catalogue_keys db" "life_inv (life_of db)" "ClaimDatasetPublicationRun now ctx tenant super did vid rid at db = Inr ((q, moved), db')"
  shows "implements db db'"
  using assms(3)
proof (cases rule: claim_cases)
  case (2 r version t)
  show ?thesis
    by (rule implements_step, rule advance_both [OF assms(1,2) 2(7)])
      (auto simp: same_version_def same_run_def stored_state published_state_def intro!: version_valid_state run_valid_state)
qed (simp add: implements_refl assms(1))

lemma swap_implements:
  assumes "catalogue_keys db" "life_inv (life_of db)" "CompareAndSwapDatasetPublicationRun now ctx tenant super st n at db = Inr ((q, moved), db')"
  shows "implements db db'"
  using assms(3)
proof (cases rule: swap_cases)
  case (2 r version t)
  note tr = run_transition [OF 2(3)]
  have valid: "DatasetPublicationRun_Validate (stored_run (publicationRunUpdates n t r)) = None"
    if "at_run (run_DatasetID n) (run_DatasetVersionID n) (run_ID n) st r" "DatasetPublicationRun_Validate (stored_run r) = None" for r
    using run_valid_combine [OF that(2) tr(3)] that(1) by (simp add: stored_progress at_run_def)
  show ?thesis
    by (rule implements_step, rule advance_both [OF assms(1,2) 2(9) _ _ _ _ tr(1,2)])
      (use tr 2(4) known_transition [OF tr(1)] valid in \<open>auto simp: same_version_def same_run_def stored_state stored_progress intro!: version_valid_state\<close>)
qed (simp add: implements_refl assms(1))

lemma retry_implements:
  assumes "catalogue_keys db" "life_inv (life_of db)" "RetryDatasetPublicationRun now ctx tenant super did vid rid at backoff db = Inr ((q, moved), db')"
  shows "implements db db'"
  using assms(3)
proof (cases rule: retry_cases)
  case (2 r version f t)
  have "DatasetVersion_Validate (stored_version (reset_version t v)) = None" if "DatasetVersion_Validate (stored_version v) = None" for v
    using that by (auto simp: DatasetVersion_Validate_def stored_version_def reset_version_def valueOrEmpty_def)
  moreover have "DatasetPublicationRun_Validate (stored_run (reset_run t r)) = None" if "DatasetPublicationRun_Validate (stored_run r) = None" for r
    using that by (auto simp: DatasetPublicationRun_Validate_def stored_run_def reset_run_def validateProgressCounts_def)
  moreover have "same_version (stored_version v) (stored_version (reset_version t v))" "same_run (stored_run r) (stored_run (reset_run t r))" for v r
    by (simp_all add: same_version_def same_run_def stored_version_def stored_run_def reset_version_def reset_run_def)
  ultimately show ?thesis
    by (intro implements_step advance_both [OF assms(1,2) 2(11)]) auto
qed (simp add: implements_refl assms(1))

lemma receipt_version:
  assumes "Receipt_ValidateWithInternalPrefix receipt pre = None" shows "DatasetVersion_Validate (ReadyVersion receipt) = None"
  using assms by (auto simp: Receipt_ValidateWithInternalPrefix_def ReadyVersion_def DatasetVersion_ValidateWithInternalPrefix_def split: option.splits)

lemma stored_ready:
  "dvr_ID v = dv_ID w \<Longrightarrow> dvr_DatasetID v = dv_DatasetID w \<Longrightarrow> dv_State w = DatasetVersionReady \<Longrightarrow>
   stored_version (ready_updates w t v) = w\<lparr>dv_Version := dvr_Version v, dv_SourceSyncRunID := dv_SourceSyncRunID (stored_version v),
     dv_SourceInventorySHA256 := dv_SourceInventorySHA256 (stored_version v)\<rparr>"
  by (simp add: stored_version_def ready_updates_def valueOrEmpty_def)

lemma finalize_implements:
  assumes "catalogue_keys db" "life_inv (life_of db)" "FinalizeDatasetPublicationRun now ctx tenant super st n receipt pre at db = Inr ((q, moved), db')"
  shows "implements db db'"
  using assms(3)
proof (cases rule: finalize_cases)
  case (2 r version t)
  note tr = run_transition [OF 2(3)] and w = receipt_version [OF 2(8)]
  have "DatasetPublicationRun_Validate (stored_run (publicationRunUpdates n t r)) = None"
    if "at_run (run_DatasetID n) (run_DatasetVersionID n) (run_ID n) st r" "DatasetPublicationRun_Validate (stored_run r) = None" for r
    using run_valid_combine [OF that(2) tr(3)] that(1) by (simp add: stored_progress at_run_def)
  moreover have "DatasetVersion_Validate (stored_version (ready_updates (ReadyVersion receipt) t v)) = None"
    if "at_version (rcpt_DatasetID receipt) (rcpt_DatasetVersionID receipt) st v \<and> dvr_Version v = rcpt_Version receipt" "DatasetVersion_Validate (stored_version v) = None" for v
    using version_valid_combine [OF that(2) w] that(1)
    by (subst stored_ready) (auto simp: at_version_def ReadyVersion_def receipt_datasetVersion_def stored_version_def)
  moreover have "progress_complete (stored_run (publicationRunUpdates n t r))" for r
    using tr(4) [OF 2(5)] by (simp add: stored_progress progress_complete_def)
  moreover have "same_version (stored_version v) (stored_version (ready_updates (ReadyVersion receipt) t v))" "same_run (stored_run r) (stored_run (publicationRunUpdates n t r))" for v r
    by (simp_all add: same_version_def same_run_def stored_progress stored_version_def ready_updates_def)
  ultimately show ?thesis
    using tr(1,2) 2(4,5,6,7) by (intro implements_step advance_both [OF assms(1,2) 2(16)]) auto
qed (simp add: implements_refl assms(1))

lemma report_implements:
  assumes "catalogue_keys db" "life_inv (life_of db)" "UpdateDatasetPublicationRunProgress now ctx tenant super st n at db = Inr ((q, moved), db')"
  shows "implements db db'"
  using assms(3)
proof (cases rule: report_cases)
  case (2 r0 version t)
  let ?p = "at_run (run_DatasetID n) (run_DatasetVersionID n) (run_ID n) st"
  have "prr_ID r = run_ID n \<and> prr_ID (progress_updates n t r) = run_ID n" if "?p r" for r using that by (simp add: at_run_def progress_updates_def)
  then obtain r where r: "r \<in> set (cat_runs db)" "live_run r" "?p r" "l_run (life_of db) (run_ID n) = Some (stored_run r, True)" "prr_ID r = run_ID n"
      "life_of db' = set_run (life_of db) (stored_run (progress_updates n t r)) (live_run (progress_updates n t r))" "catalogue_keys db'"
    by (rule one_run [OF assms(1) 2(11)])
  note r0 = manageable_run_row [OF 2(6)]
  have "r0 = r" using assms(1) r(1,5) r0 by (auto simp: catalogue_keys_def intro: unique_row)
  have lr: "l_run (life_of db) (prr_ID r) = Some (stored_run r, True)" using r(4,5) by simp
  have stored: "stored_run (progress_updates n t r) = n\<lparr>run_ExecutionMode := run_ExecutionMode (stored_run r)\<rparr>"
    using r(3) 2(3) by (simp add: stored_report at_run_def)
  have "life_step (life_of db) (set_run (life_of db) (stored_run (progress_updates n t r)) True)"
  proof (rule life_step.progress)
    show "l_run (life_of db) (run_ID (stored_run r)) = Some (stored_run r, True)" using lr by simp
    show "same_run (stored_run r) (stored_run (progress_updates n t r))" using r(3) by (simp add: stored same_run_def at_run_def)
    show "run_State (stored_run (progress_updates n t r)) = run_State (stored_run r)" using r(3) 2(3) by (simp add: stored at_run_def)
    show "activeDatasetPublicationState (run_State (stored_run r))" using r(3) 2(4) by (simp add: at_run_def)
    show "publicationProgressMonotonic (stored_run r) (stored_run (progress_updates n t r))"
      using 2(8) \<open>r0 = r\<close> by (simp add: stored publicationProgressMonotonic_def)
    have "DatasetPublicationRun_Validate (stored_run r) = None" using inv_run [OF assms(2) lr] by (simp add: run_ok_def)
    then show "DatasetPublicationRun_Validate (stored_run (progress_updates n t r)) = None" using run_valid_combine 2(5) by (simp add: stored)
  qed
  then show ?thesis using r(2,6,7) by (intro implements_step) simp
qed (simp add: implements_refl assms(1))

subsection \<open>Versions\<close>

lemma transition_implements:
  assumes "catalogue_keys db" "life_inv (life_of db)" "TransitionDatasetVersion now did vid target db = Inr (w, db')"
  shows "implements db db'"
proof -
  obtain c x where c: "version_at did vid db = Some c" "DatasetVersion_TransitionTo (stored_version c) target = Inr x"
    and upd: "update_versions (\<lambda>v. dvr_ID v = dvr_ID c \<and> dvr_DatasetID v = dvr_DatasetID c \<and> dvr_State v = dvr_State c)
      (\<lambda>v. v\<lparr>dvr_State := dv_State x, dvr_UpdatedAt := now\<rparr>) db = (1, db')"
    using assms(3) by (auto simp: TransitionDatasetVersion_def Let_def case_sum_Inr prod_eq_iff case_prod_unfold split: if_splits)
  let ?f = "\<lambda>v. v\<lparr>dvr_State := dv_State x, dvr_UpdatedAt := now\<rparr>"
  obtain v where v: "v \<in> set (cat_versions db)" "live_version v" "l_version (life_of db) (dvr_ID c) = Some (stored_version v, True)" "dvr_ID v = dvr_ID c"
      "life_of db' = set_version (life_of db) (stored_version (?f v)) (live_version (?f v))" "catalogue_keys db'"
    by (rule one_version [OF assms(1) upd, of "dvr_ID c"]) auto
  have "c = v" using assms(1) v(1,4) version_at_row [OF c(1)] by (auto simp: catalogue_keys_def intro: unique_row)
  have lv: "l_version (life_of db) (dv_ID (stored_version c)) = Some (stored_version c, True)" using v(3) \<open>c = v\<close> by simp
  have "x = (stored_version c)\<lparr>dv_State := dv_State x\<rparr>" using c(2) version_stepE(4) by (auto simp: version_step_def)
  then have "stored_version (?f v) = x" using \<open>c = v\<close> by (metis stored_state(1))
  then show ?thesis using life_step.transition [OF lv c(2)] v by (intro implements_step) simp
qed

lemma draft_implements:
  assumes "catalogue_keys db" "life_inv (life_of db)" "UpdateDatasetVersionDraft now w db = Inr (q, db')"
  shows "implements db db'"
proof -
  define f where "f v = v\<lparr>dvr_ManifestSHA256 := optionalID (dv_ManifestSHA256 w), dvr_ManifestObjectKey := optionalID (dv_ManifestObjectKey w),
      dvr_SchemaVersion := dv_SchemaVersion w, dvr_TrainSamples := dv_TrainSamples w, dvr_ValSamples := dv_ValSamples w,
      dvr_TestSamples := dv_TestSamples w, dvr_SourceObjectCount := dv_SourceObjectCount w, dvr_LogicalBytes := dv_LogicalBytes w,
      dvr_PackedBytes := dv_PackedBytes w, dvr_UpdatedAt := now\<rparr>" for v :: DatasetVersionRecord
  let ?p = "\<lambda>v. dvr_ID v = dv_ID w \<and> dvr_DatasetID v = dv_DatasetID w \<and> dvr_Version v = dv_Version w \<and> dvr_State v = dv_State w"
  have upd: "update_versions ?p f db = (1, db')" "DatasetVersion_Validate w = None" "isDatasetVersionDraftState (dv_State w)"
    using assms(3) by (auto simp: UpdateDatasetVersionDraft_def Let_def prod_eq_iff case_prod_unfold f_def [abs_def] stored_version_def split: if_splits)
  obtain v where v: "v \<in> set (cat_versions db)" "live_version v" "?p v" "l_version (life_of db) (dv_ID w) = Some (stored_version v, True)"
      "life_of db' = set_version (life_of db) (stored_version (f v)) (live_version (f v))" "catalogue_keys db'"
    by (rule one_version [OF assms(1) upd(1), of "dv_ID w"]) (auto simp: f_def)
  have stored: "stored_version (f v) = w\<lparr>dv_Version := dv_Version (stored_version v), dv_SourceSyncRunID := dv_SourceSyncRunID (stored_version v),
      dv_SourceInventorySHA256 := dv_SourceInventorySHA256 (stored_version v)\<rparr>"
    using v(3) by (simp add: f_def stored_version_def version_texts [OF upd(2)])
  have "life_step (life_of db) (set_version (life_of db) (stored_version (f v)) True)"
  proof (rule life_step.draft)
    show "l_version (life_of db) (dv_ID (stored_version v)) = Some (stored_version v, True)" using v(3,4) by simp
    show "isDatasetVersionDraftState (dv_State (stored_version v))" using upd(3) v(3) by simp
    show "same_version (stored_version v) (stored_version (f v))" "dv_State (stored_version (f v)) = dv_State (stored_version v)"
      using v(3) by (simp_all add: stored same_version_def)
    have "DatasetVersion_Validate (stored_version v) = None" using inv_version [OF assms(2) v(4)] by (simp add: version_ok_def)
    then show "DatasetVersion_Validate (stored_version (f v)) = None" unfolding stored by (rule version_valid_combine [OF _ upd(2)]) (use v(3) in simp_all)
  qed
  then show ?thesis using v(2,5,6) by (intro implements_step) (simp add: live_version_def f_def)
qed

lemma insert_version_new:
  assumes "catalogue_keys db" "insert_version (datasetVersionRecordFromDomain v now) db = Inr (1, db')" "DatasetVersion_Validate v = None" "dv_State v = DatasetVersionDiscovering"
  shows "life_step (life_of db) (life_of db') \<and> catalogue_keys db'" "l_version (life_of db') (dv_ID v) = Some (v, True)"
proof -
  let ?r = "datasetVersionRecordFromDomain v now"
  have fresh: "\<not> purged_version ?r db" "\<forall>s \<in> set (cat_versions db). \<not> version_conflict ?r s" "db' = db\<lparr>cat_versions := cat_versions db @ [?r]\<rparr>"
    using assms(2) by (auto simp: insert_version_def insert_unless_def Let_def list_ex_iff split: if_splits)
  have id: "dvr_ID ?r = dv_ID v" "live_version ?r" by (simp_all add: datasetVersionRecordFromDomain_def live_version_def)
  have none: "select_first (\<lambda>x. dvr_ID x = dv_ID v) (cat_versions db) = None"
    using fresh(2) id unfolding select_first_None by (auto simp: version_conflict_def)
  have life: "life_of db' = set_version (life_of db) v True"
    using none id stored_new_version [OF assms(3)] unfolding fresh(3)
    by (auto simp: life_of_def set_version_def fun_eq_iff select_snoc split: option.splits)
  have "dv_ID v \<notin> l_gone_versions (life_of db)" using fresh(1) id by (auto simp: life_of_def purged_version_def list_ex_iff)
  moreover have "l_version (life_of db) (dv_ID v) = None" using none by (simp add: life_of_def)
  moreover have "catalogue_keys db'" using assms(1) fresh(2) id unfolding fresh(3) by (auto simp: catalogue_keys_def version_conflict_def)
  ultimately show "life_step (life_of db) (life_of db') \<and> catalogue_keys db'" unfolding life using life_step.new_version assms(3,4) by blast
  show "l_version (life_of db') (dv_ID v) = Some (v, True)" unfolding life by (simp add: set_version_def)
qed

lemma insert_run_new:
  assumes "catalogue_keys db" "insert_run (datasetPublicationRunRecordFromDomain r now) db = Inr (1, db')" "DatasetPublicationRun_Validate r = None"
    "run_State r = DatasetVersionDiscovering" "l_version (life_of db) (dv_ID v) = Some (v, True)" "dv_State v = DatasetVersionDiscovering" "run_of r v"
  shows "life_step (life_of db) (life_of db') \<and> catalogue_keys db'"
proof -
  let ?r = "datasetPublicationRunRecordFromDomain r now" and ?q = "r\<lparr>run_ExecutionMode := ExecutionMode_Normalized (run_ExecutionMode r)\<rparr>"
  have fresh: "run_ID r \<notin> l_gone_runs (life_of db)" "prr_ID ?r \<notin> prr_ID ` set (cat_runs db)" "db' = db\<lparr>cat_runs := cat_runs db @ [?r]\<rparr>"
    using assms(2) by (auto simp: insert_run_def insert_ignore_def insert_new_def Let_def list_ex_iff life_of_def datasetPublicationRunRecordFromDomain_def split: if_splits)
  have id: "prr_ID ?r = run_ID r" "live_run ?r" by (simp_all add: datasetPublicationRunRecordFromDomain_def live_run_def)
  have none: "select_first (\<lambda>x. prr_ID x = run_ID r) (cat_runs db) = None"
    using fresh(2) id unfolding select_first_None by force
  have life: "life_of db' = set_run (life_of db) ?q True"
    using none id stored_new_run [of r now] unfolding fresh(3) by (auto simp: life_of_def set_run_def fun_eq_iff select_snoc split: option.splits)
  have "ExecutionMode_Valid (run_ExecutionMode r)" using assms(3) by (simp add: DatasetPublicationRun_Validate_def)
  then have "DatasetPublicationRun_Validate ?q = None" using run_valid_mode [OF assms(3)] by blast
  moreover have "l_run (life_of db) (run_ID ?q) = None" using none by (simp add: life_of_def)
  ultimately have "life_step (life_of db) (life_of db')"
    unfolding life by (intro life_step.new_run [OF assms(5,6)]) (use assms(4,7) fresh(1) in \<open>simp_all add: run_of_def\<close>)
  moreover have "catalogue_keys db'" using assms(1) fresh(2) unfolding fresh(3) by (simp add: catalogue_keys_def)
  ultimately show ?thesis by blast
qed

lemma create_implements:
  assumes "catalogue_keys db" "CreateDatasetVersion now v db = Inr (x, db')" shows "implements db db'"
proof -
  obtain n db1 where ins: "insert_version (datasetVersionRecordFromDomain v now) db = Inr (n, db1)" "DatasetVersion_Validate v = None"
      "dv_State v = DatasetVersionDiscovering" "db' = db1"
    using assms(2) by (auto simp: CreateDatasetVersion_def Let_def case_sum_Inr split: if_splits)
  show ?thesis
  proof (cases "n = 1")
    case True
    then show ?thesis using insert_version_new(1) [OF assms(1)] ins by (intro implements_step) blast
  next
    case False
    then have "db1 = db" using ins(1) by (auto simp: insert_version_def insert_unless_def Let_def split: if_splits)
    then show ?thesis using ins(4) implements_refl [OF assms(1)] by simp
  qed
qed

lemma request_implements:
  assumes "catalogue_keys db" "CreateDatasetPublicationRequest now ctx tenant super v r db = Inr (q, db')" shows "implements db db'"
proof -
  obtain db1 where ins: "insert_version (datasetVersionRecordFromDomain v now) db = Inr (1, db1)" "insert_run (datasetPublicationRunRecordFromDomain r now) db1 = Inr (1, db')"
    and v: "DatasetVersion_Validate v = None" "dv_State v = DatasetVersionDiscovering"
    and r: "DatasetPublicationRun_Validate r = None" "run_State r = DatasetVersionDiscovering" "run_of r v"
    using assms(2) by (auto simp: CreateDatasetPublicationRequest_def Let_def case_sum_Inr run_of_def split: if_splits)
  note nv = insert_version_new [OF assms(1) ins(1) v]
  have "life_step (life_of db1) (life_of db') \<and> catalogue_keys db'" using insert_run_new [OF _ ins(2) r(1,2) nv(2) v(2) r(3)] nv(1) by blast
  with nv(1) show ?thesis by (auto simp: implements_def)
qed

lemma ensure_implements:
  assumes "catalogue_keys db" "EnsureDatasetPublicationRun now ctx tenant super r db = Inr (q, db')" shows "implements db db'"
proof (cases "select_first (\<lambda>x. prr_ID x = run_ID r) (cat_runs db)")
  case None
  then obtain v n where v: "getManageableDatasetVersionRecord tenant super (run_DatasetID r) (run_DatasetVersionID r) db = Inr v" "dvr_State v = DatasetVersionDiscovering"
    and ins: "insert_run (datasetPublicationRunRecordFromDomain r now) db = Inr (n, db')"
    and r: "DatasetPublicationRun_Validate r = None" "run_State r = DatasetVersionDiscovering"
    using assms(2) by (auto simp: EnsureDatasetPublicationRun_def map_sum_Inr case_sum_Inr split: if_splits)
  have "n = 1" using ins None
    by (auto simp: insert_run_def insert_ignore_def insert_new_def Let_def select_first_None datasetPublicationRunRecordFromDomain_def split: if_splits)
  have row: "v \<in> set (cat_versions db)" "live_version v" "dvr_ID v = run_DatasetVersionID r" "dvr_DatasetID v = run_DatasetID r" using manageable_row [OF v(1)] by simp_all
  have "l_version (life_of db) (dv_ID (stored_version v)) = Some (stored_version v, True)" using life_version [OF assms(1) row(1)] row(2) by simp
  from insert_run_new [OF assms(1) ins [unfolded \<open>n = 1\<close>] r this] show ?thesis
    using v(2) row(3,4) by (intro implements_step) (simp add: run_of_def)
next
  case (Some e)
  then show ?thesis using assms by (auto simp: EnsureDatasetPublicationRun_def map_sum_Inr implements_refl split: if_splits)
qed

subsection \<open>Hiding and purging\<close>

lemma hide_runs_life:
  assumes "update_runs (\<lambda>r. prr_DatasetVersionID r = vid \<and> prr_State r = DatasetVersionFailed) (\<lambda>r. r\<lparr>prr_DeletedAt := Some now, prr_DeletedBy := actor, prr_UpdatedAt := now\<rparr>) db = (n, db')"
  shows "life_of db' = (life_of db)\<lparr>l_run := map_option (hide_run vid) \<circ> l_run (life_of db)\<rparr>" "catalogue_keys db \<Longrightarrow> catalogue_keys db'"
proof -
  let ?q = "\<lambda>r. live_run r \<and> prr_DatasetVersionID r = vid \<and> prr_State r = DatasetVersionFailed"
  let ?f = "\<lambda>r. r\<lparr>prr_DeletedAt := Some now, prr_DeletedBy := actor, prr_UpdatedAt := now\<rparr>"
  have db': "db' = db\<lparr>cat_runs := update_where ?q ?f (cat_runs db)\<rparr>" using assms by (simp add: update_runs_def)
  have sel: "select_first (\<lambda>r. prr_ID r = k) (update_where ?q ?f (cat_runs db)) = map_option (\<lambda>r. if ?q r then ?f r else r) (select_first (\<lambda>r. prr_ID r = k) (cat_runs db))" for k
    by (rule select_update) simp
  have "stored_run (?f r) = stored_run r" "\<not> live_run (?f r)" for r by (simp_all add: stored_run_def live_run_def)
  then show "life_of db' = (life_of db)\<lparr>l_run := map_option (hide_run vid) \<circ> l_run (life_of db)\<rparr>"
    unfolding db' by (auto simp: life_of_def sel fun_eq_iff hide_run_def option.map_comp intro!: map_option_cong)
  show "catalogue_keys db \<Longrightarrow> catalogue_keys db'"
    unfolding db' by (simp add: catalogue_keys_def) (subst map_update_where; simp)
qed

lemma delete_implements:
  assumes "catalogue_keys db" "DeleteFailedDatasetRecord now tenant super did vid actor only db = Inr (x, db')" shows "implements db db'"
proof -
  obtain n db1 where hide: "update_runs (\<lambda>r. prr_DatasetVersionID r = vid \<and> prr_State r = DatasetVersionFailed)
      (\<lambda>r. r\<lparr>prr_DeletedAt := Some now, prr_DeletedBy := actor, prr_UpdatedAt := now\<rparr>) db = (n, db1)"
    and del: "db' = db1 \<or> update_versions (\<lambda>v. dvr_ID v = vid \<and> dvr_State v = DatasetVersionFailed)
      (\<lambda>v. v\<lparr>dvr_DeletedAt := Some now, dvr_DeletedBy := actor, dvr_UpdatedAt := now\<rparr>) db1 = (1, db')"
    using assms(2) by (auto simp: DeleteFailedDatasetRecord_def Let_def prod_eq_iff case_prod_unfold split: if_splits)
  have keys: "catalogue_keys db1" using hide_runs_life(2) [OF hide assms(1)] .
  have hidden: "life_step (life_of db) (life_of db1)" unfolding hide_runs_life(1) [OF hide] by (rule life_step.hide_runs)
  from del show ?thesis
  proof
    assume upd: "update_versions (\<lambda>v. dvr_ID v = vid \<and> dvr_State v = DatasetVersionFailed)
      (\<lambda>v. v\<lparr>dvr_DeletedAt := Some now, dvr_DeletedBy := actor, dvr_UpdatedAt := now\<rparr>) db1 = (1, db')"
    let ?f = "\<lambda>v. v\<lparr>dvr_DeletedAt := Some now, dvr_DeletedBy := actor, dvr_UpdatedAt := now\<rparr>"
    obtain v where v: "dvr_ID v = vid \<and> dvr_State v = DatasetVersionFailed" "l_version (life_of db1) vid = Some (stored_version v, True)"
        "life_of db' = set_version (life_of db1) (stored_version (?f v)) (live_version (?f v))" "catalogue_keys db'"
      by (rule one_version [OF keys upd, of vid]) auto
    have "stored_version (?f v) = stored_version v" "\<not> live_version (?f v)" by (simp_all add: stored_version_def live_version_def)
    then have "life_step (life_of db1) (life_of db')" using v by (auto intro: life_step.hide_version)
    with hidden v(4) show ?thesis by (auto simp: implements_def)
  qed (use hidden keys in \<open>auto simp: implements_def\<close>)
qed

lemma identity_keys:
  "{pid_ID p | p. p \<in> set (v # map f xs) \<and> pid_Kind p = k} =
   (if pid_Kind v = k then {pid_ID v} else {}) \<union> {pid_ID (f x) | x. x \<in> set xs \<and> pid_Kind (f x) = k}"
  by auto

lemma purge_cases:
  assumes "PurgeFailedDatasetRecord collate fenced tenant super did vid actor remove db = Inr (n, db')"
  obtains version ids where "version_at did vid db = Some version" "dvr_State version = DatasetVersionFailed"
    "\<forall>r \<in> set (cat_runs db). prr_DatasetVersionID r = vid \<longrightarrow> prr_State r = DatasetVersionFailed"
    "checkDatasetCleanupDependencies vid db = None" "\<not> fenced"
    "cat_purged db' = cat_purged db @ ids"
    "{pid_ID p | p. p \<in> set ids \<and> pid_Kind p = ''version''} = {vid}"
    "{pid_ID p | p. p \<in> set ids \<and> pid_Kind p = ''run''} = prr_ID ` {r \<in> set (cat_runs db). prr_DatasetVersionID r = vid}"
    "cat_runs db' = filter (\<lambda>r. prr_DatasetVersionID r \<noteq> vid) (cat_runs db)"
    "cat_versions db' = filter (\<lambda>v. \<not> (dvr_ID v = vid \<and> dvr_State v = DatasetVersionFailed)) (cat_versions db)"
proof -
  let ?runs = "sort_key (collate \<circ> prr_ID) (filter (\<lambda>r. prr_DatasetVersionID r = vid) (cat_runs db))"
  obtain version where v: "version_at did vid db = Some version" "dvr_State version = DatasetVersionFailed" "\<not> fenced"
      "\<not> list_ex (\<lambda>r. prr_State r \<noteq> DatasetVersionFailed \<or> prr_DatasetID r \<noteq> did) ?runs" "checkDatasetCleanupDependencies vid db = None"
      "cat_runs db' = filter (\<lambda>r. prr_DatasetVersionID r \<noteq> vid) (cat_runs db)"
      "cat_versions db' = filter (\<lambda>v. \<not> (dvr_ID v = vid \<and> dvr_State v = DatasetVersionFailed)) (cat_versions db)"
      "cat_purged db' = cat_purged db @ (\<lparr>pid_Kind = ''version'', pid_ID = dvr_ID version, pid_DatasetID = did, pid_Version = dvr_Version version\<rparr> #
          map (\<lambda>r. \<lparr>pid_Kind = ''run'', pid_ID = prr_ID r, pid_DatasetID = did, pid_Version = []\<rparr>) ?runs)"
    using assms unfolding PurgeFailedDatasetRecord_def Let_def by (auto split: if_splits)
  note row = version_at_row [OF v(1)]
  show thesis
    by (rule that [OF v(1,2) _ v(5,3,8) _ _ v(6,7)]) (use v(4) row in \<open>auto simp: list_ex_iff identity_keys simp del: list.set set_map\<close>)
qed

lemma purge_implements:
  assumes "catalogue_keys db" "PurgeFailedDatasetRecord collate fenced tenant super did vid actor remove db = Inr (n, db')" shows "implements db db'"
  using assms(2)
proof (cases rule: purge_cases)
  case (1 version ids)
  note row = version_at_row [OF 1(1)]
  have keys: "distinct (map dvr_ID (cat_versions db))" "distinct (map prr_ID (cat_runs db))" using assms(1) by (simp_all add: catalogue_keys_def)
  have lv: "l_version (life_of db) vid = Some (stored_version version, True)" using life_version [OF assms(1), of version] row by simp
  have failed: "\<forall>i r b'. l_run (life_of db) i = Some (r, b') \<longrightarrow> run_DatasetVersionID r = vid \<longrightarrow> run_State r = DatasetVersionFailed"
    using 1(3) by (auto simp: life_of_def dest!: select_first_in)
  have versions: "l_version (life_of db') = (l_version (life_of db))(vid := None)"
    using 1(2) row select_key [OF keys(1), of version] by (auto simp: life_of_def fun_eq_iff 1(10) select_filter [OF keys(1)] dest: select_first_in split: option.splits)
  have runs: "l_run (life_of db') = (\<lambda>i. case l_run (life_of db) i of Some (r, b') \<Rightarrow> if run_DatasetVersionID r = vid then None else Some (r, b') | None \<Rightarrow> None)"
    by (auto simp: life_of_def fun_eq_iff 1(9) select_filter [OF keys(2)] split: option.splits)
  have gone_versions: "l_gone_versions (life_of db') = insert vid (l_gone_versions (life_of db))"
    using 1(7) by (auto simp: life_of_def 1(6))
  have "{i. \<exists>r b'. l_run (life_of db) i = Some (r, b') \<and> run_DatasetVersionID r = vid} = prr_ID ` {r \<in> set (cat_runs db). prr_DatasetVersionID r = vid}" (is "?L = ?R")
  proof
    show "?L \<subseteq> ?R" by (auto simp: life_of_def dest!: select_first_in)
    show "?R \<subseteq> ?L" using life_run [OF assms(1)] by auto
  qed
  then have gone_runs: "l_gone_runs (life_of db') = l_gone_runs (life_of db) \<union> {i. \<exists>r b'. l_run (life_of db) i = Some (r, b') \<and> run_DatasetVersionID r = vid}"
    using 1(8) by (auto simp: life_of_def 1(6))
  have "life_of db' = (life_of db)\<lparr>l_version := (l_version (life_of db))(vid := None),
      l_run := (\<lambda>i. case l_run (life_of db) i of Some (r, b') \<Rightarrow> if run_DatasetVersionID r = vid then None else Some (r, b') | None \<Rightarrow> None),
      l_gone_versions := insert vid (l_gone_versions (life_of db)),
      l_gone_runs := l_gone_runs (life_of db) \<union> {i. \<exists>r b'. l_run (life_of db) i = Some (r, b') \<and> run_DatasetVersionID r = vid}\<rparr>"
    by (rule life.equality) (use versions runs gone_versions gone_runs in simp_all)
  moreover have "catalogue_keys db'" using keys by (simp add: catalogue_keys_def 1(9,10) distinct_map_filter)
  ultimately show ?thesis using life_step.purge [OF lv _ failed] 1(2) by (intro implements_step) simp
qed

subsection \<open>Simulation\<close>

lemma catalogue_step_implements:
  assumes "catalogue_step db db'" "catalogue_keys db" "life_inv (life_of db)" shows "implements db db'"
  using assms
proof (cases rule: catalogue_step.cases)
  case create_dataset
  then show ?thesis using assms(2) by (intro implements_same) (auto simp: CreateDataset_def Let_def case_prod_unfold split: if_splits)
next
  case observe
  then show ?thesis using assms(2) by (intro implements_same) (auto simp: RecordDatasetCacheObservation_def Let_def case_prod_unfold split: if_splits)
next
  case (claim now ctx tenant super did vid rid at q)
  then show ?thesis using claim_implements [OF assms(2,3)] by (cases q) blast
next
  case (swap now ctx tenant super st n at q)
  then show ?thesis using swap_implements [OF assms(2,3)] by (cases q) blast
next
  case (report now ctx tenant super st n at q)
  then show ?thesis using report_implements [OF assms(2,3)] by (cases q) blast
next
  case (finalize now ctx tenant super st n receipt pre at q)
  then show ?thesis using finalize_implements [OF assms(2,3)] by (cases q) blast
next
  case (retry now ctx tenant super did vid rid at backoff q)
  then show ?thesis using retry_implements [OF assms(2,3)] by (cases q) blast
qed (use assms(2,3) create_implements draft_implements transition_implements request_implements ensure_implements delete_implements purge_implements
    in \<open>blast | simp add: implements_same\<close>)+

interpretation catalogue: simulation life_step life_inv life_le catalogue_step "\<lambda>db. catalogue_keys db \<and> life_inv (life_of db)" life_of
proof
  show inv: "catalogue_keys db' \<and> life_inv (life_of db')" if "catalogue_keys db \<and> life_inv (life_of db)" "catalogue_step db db'" for db db'
    using catalogue_step_implements [OF that(2)] that(1) life.inv_steps unfolding implements_def by blast
  show "life_step\<^sup>*\<^sup>* (life_of db) (life_of db')" if "catalogue_keys db \<and> life_inv (life_of db)" "life_inv (life_of db)" "catalogue_step db db'" for db db'
    using catalogue_step_implements [OF that(3)] that(1) unfolding implements_def by blast
qed

end
