(* ===== verification/Dataset_Properties.thy ===== *)
theory Dataset_Properties
  imports Dataset_Refinement "HOL-Library.Multiset"
begin

section \<open>Properties of the dataset catalogue\<close>

text \<open>
  The facts of the simulation \<open>catalogue\<close>, read back on rows, the scopes of tenants, and a sample publication that the witnesses run
  from an empty catalogue to READY.
\<close>

subsection \<open>A sample publication\<close>

definition sample_dataset :: Dataset where
  "sample_dataset = \<lparr>dset_ID = ''d1'', dset_Slug = ''cells'', dset_Name = ''Cells'', dset_Description = [], dset_SourceSpace = DataSpaceTeamShared,
     dset_SourceRelativePath = ''cells'', dset_OwnerTenantID = ''t1'', dset_Visibility = DatasetVisibilityTeam, dset_SchemaVersion = ''s1''\<rparr>"

definition sample_draft :: DatasetVersion where
  "sample_draft = \<lparr>dv_ID = ''v1'', dv_DatasetID = ''d1'', dv_Version = ''1.0'', dv_State = DatasetVersionDiscovering, dv_ManifestSHA256 = [],
     dv_ManifestObjectKey = [], dv_SchemaVersion = ''s1'', dv_TrainSamples = 0, dv_ValSamples = 0, dv_TestSamples = 0, dv_SourceObjectCount = 0,
     dv_LogicalBytes = 0, dv_PackedBytes = 0, dv_SourceSyncRunID = [], dv_SourceInventorySHA256 = []\<rparr>"

definition sample_run :: DatasetPublicationRun where
  "sample_run = (new_run ''d1'' ''v1'' ''r1'')\<lparr>run_ExecutionMode := ''distributed''\<rparr>"

definition sample_receipt :: DatasetPublicationReceipt where
  "sample_receipt = \<lparr>rcpt_DatasetID = ''d1'', rcpt_DatasetVersionID = ''v1'', rcpt_Version = ''1.0'', rcpt_ManifestSHA256 = replicate 64 (CHR ''a''),
     rcpt_ManifestObjectKey = ''ray-train/platform/datasets/d1/manifests/v1.parquet'', rcpt_SchemaVersion = ''s1'', rcpt_TrainSamples = 1,
     rcpt_ValSamples = 0, rcpt_TestSamples = 0, rcpt_SourceObjectCount = 2, rcpt_LogicalBytes = 1, rcpt_PackedBytes = 1\<rparr>"

definition empty_catalogue :: catalogue where
  "empty_catalogue = \<lparr>cat_datasets = [], cat_versions = [], cat_runs = [], cat_partitions = [], cat_attempts = [], cat_shards = [],
     cat_observations = [], cat_purged = [], cat_jobs = []\<rparr>"

definition background :: go_context where "background = Context None"

definition sample_catalogue :: "DatasetVersionRecord \<Rightarrow> DatasetPublicationRunRecord \<Rightarrow> catalogue" where
  "sample_catalogue v r = empty_catalogue\<lparr>cat_datasets := [datasetRecordFromDomain sample_dataset 1], cat_versions := [v], cat_runs := [r]\<rparr>"

definition sample_version_row :: DatasetVersionRecord where "sample_version_row = datasetVersionRecordFromDomain sample_draft 2"
definition sample_run_row :: DatasetPublicationRunRecord where "sample_run_row = datasetPublicationRunRecordFromDomain sample_run 2"

definition run_packing :: DatasetPublicationRun where
  "run_packing = sample_run\<lparr>run_State := DatasetVersionPacking, run_TotalPartitions := 1, run_SourceObjectCount := 2\<rparr>"

definition run_ready :: DatasetPublicationRun where
  "run_ready = run_packing\<lparr>run_State := DatasetVersionReady, run_CompletedPartitions := 1, run_ProcessedObjectCount := 2\<rparr>"

definition catalogue_dataset :: catalogue where
  "catalogue_dataset = empty_catalogue\<lparr>cat_datasets := [datasetRecordFromDomain sample_dataset 1]\<rparr>"
definition catalogue_requested :: catalogue where
  "catalogue_requested = sample_catalogue sample_version_row sample_run_row"
definition catalogue_claimed :: catalogue where
  "catalogue_claimed = sample_catalogue (sample_version_row\<lparr>dvr_State := DatasetVersionStabilizing, dvr_UpdatedAt := 3\<rparr>)
     (sample_run_row\<lparr>prr_State := DatasetVersionStabilizing, prr_StartedAt := Some 3, prr_UpdatedAt := 3\<rparr>)"
definition catalogue_validating :: catalogue where
  "catalogue_validating = sample_catalogue (sample_version_row\<lparr>dvr_State := DatasetVersionValidating, dvr_UpdatedAt := 4\<rparr>)
     (sample_run_row\<lparr>prr_State := DatasetVersionValidating, prr_StartedAt := Some 3, prr_UpdatedAt := 4\<rparr>)"
definition catalogue_packing :: catalogue where
  "catalogue_packing = sample_catalogue (sample_version_row\<lparr>dvr_State := DatasetVersionPacking, dvr_UpdatedAt := 5\<rparr>)
     (publicationRunUpdates run_packing 5 (sample_run_row\<lparr>prr_StartedAt := Some 3\<rparr>))"
definition catalogue_ready :: catalogue where
  "catalogue_ready = sample_catalogue (ready_updates (ReadyVersion sample_receipt) 6 sample_version_row)
     (publicationRunUpdates run_ready 6 (sample_run_row\<lparr>prr_StartedAt := Some 3\<rparr>))"
definition catalogue_failed :: catalogue where
  "catalogue_failed = sample_catalogue (sample_version_row\<lparr>dvr_State := DatasetVersionFailed, dvr_UpdatedAt := 4\<rparr>)
     (sample_run_row\<lparr>prr_State := DatasetVersionFailed, prr_StartedAt := Some 3, prr_FinishedAt := Some 4, prr_UpdatedAt := 4\<rparr>)"

lemma sample_ops:
  "CreateDataset 1 sample_dataset empty_catalogue = Inr ((), catalogue_dataset)"
  "CreateDatasetPublicationRequest 2 background ''t1'' False sample_draft sample_run catalogue_dataset = Inr (sample_run, catalogue_requested)"
  "ClaimDatasetPublicationRun 3 background ''t1'' False ''d1'' ''v1'' ''r1'' None catalogue_requested =
     Inr ((sample_run\<lparr>run_State := DatasetVersionStabilizing\<rparr>, True), catalogue_claimed)"
  "CompareAndSwapDatasetPublicationRun 4 background ''t1'' False DatasetVersionStabilizing (sample_run\<lparr>run_State := DatasetVersionValidating\<rparr>) None catalogue_claimed =
     Inr ((sample_run\<lparr>run_State := DatasetVersionValidating\<rparr>, True), catalogue_validating)"
  "CompareAndSwapDatasetPublicationRun 5 background ''t1'' False DatasetVersionValidating run_packing None catalogue_validating = Inr ((run_packing, True), catalogue_packing)"
  "FinalizeDatasetPublicationRun 6 background ''t1'' False DatasetVersionPacking run_ready sample_receipt ''ray-train/platform/datasets'' None catalogue_packing =
     Inr ((run_ready, True), catalogue_ready)"
  "CompareAndSwapDatasetPublicationRun 4 background ''t1'' False DatasetVersionStabilizing (sample_run\<lparr>run_State := DatasetVersionFailed\<rparr>) None catalogue_claimed =
     Inr ((sample_run\<lparr>run_State := DatasetVersionFailed\<rparr>, True), catalogue_failed)"
  by code_simp+

lemma sample_requested: "catalogue_step\<^sup>*\<^sup>* empty_catalogue catalogue_requested"
  using catalogue_step.create_dataset [OF sample_ops(1)] catalogue_step.request [OF sample_ops(2)] by auto

lemma sample_ready: "catalogue_step\<^sup>*\<^sup>* catalogue_requested catalogue_ready"
  using catalogue_step.claim [OF sample_ops(3)] catalogue_step.swap [OF sample_ops(4)] catalogue_step.swap [OF sample_ops(5)] catalogue_step.finalize [OF sample_ops(6)]
  by (meson converse_rtranclp_into_rtranclp rtranclp.rtrancl_refl)

lemma empty_inv: "catalogue_keys empty_catalogue \<and> life_inv (life_of empty_catalogue)"
  by (simp add: empty_catalogue_def catalogue_keys_def life_inv_def life_of_def select_first_def)

subsection \<open>Refinement\<close>

text \<open>
  C15: Every interleaving of the operations of the catalogue (creating, editing and moving versions, requesting, claiming, advancing,
  finalizing and retrying runs, hiding and purging failures) implements the life of versions and runs:
  the rows, abstracted, take steps of \<open>life_step\<close>, and keys stay unique.
\<close>

theorem catalogue_refines_life:
  assumes "catalogue_step\<^sup>*\<^sup>* db db'" "catalogue_keys db" "life_inv (life_of db)"
  shows "life_step\<^sup>*\<^sup>* (life_of db) (life_of db') \<and> life_inv (life_of db') \<and> catalogue_keys db'"
  using catalogue.sim_steps [OF assms(1)] catalogue.sim_inv [OF assms(1)] assms(2,3) by blast

theorem catalogue_refines_life_witness:
  "life_step\<^sup>*\<^sup>* (life_of empty_catalogue) (life_of catalogue_ready) \<and> life_inv (life_of catalogue_ready) \<and> catalogue_keys catalogue_ready"
  using catalogue_refines_life [of empty_catalogue catalogue_ready] sample_requested sample_ready empty_inv by (meson rtranclp_trans)

subsection \<open>Published data\<close>

lemma reachable_inv:
  assumes "catalogue_step\<^sup>*\<^sup>* db db'" "cat_versions db = []" "cat_runs db = []"
  shows "catalogue_keys db'" "life_inv (life_of db')"
proof -
  have "catalogue_keys db \<and> life_inv (life_of db)" using assms(2,3) by (simp add: catalogue_keys_def life_inv_def life_of_def select_first_def)
  then show "catalogue_keys db'" "life_inv (life_of db')" using catalogue.sim_inv [OF assms(1)] by blast+
qed

lemma ready_row:
  assumes "catalogue_step\<^sup>*\<^sup>* db db'" "cat_versions db = []" "cat_runs db = []" "r \<in> set (cat_runs db')" "prr_State r = DatasetVersionReady"
  shows "live_run r \<and> prr_CompletedPartitions r = prr_TotalPartitions r \<and> prr_FailedPartitions r = 0 \<and>
    prr_ProcessedObjectCount r = prr_SourceObjectCount r \<and> prr_FailedObjectCount r = 0 \<and>
    (\<exists>v \<in> set (cat_versions db'). live_version v \<and> dvr_ID v = prr_DatasetVersionID r \<and> dvr_DatasetID v = prr_DatasetID r \<and>
       published_state (dvr_State v) \<and> matches datasetDigestPattern (valueOrEmpty (dvr_ManifestSHA256 v)) \<and> valueOrEmpty (dvr_ManifestObjectKey v) \<noteq> [])"
proof -
  note inv = reachable_inv [OF assms(1-3)]
  have ok: "run_ok (life_of db') (prr_ID r) (stored_run r, live_run r)" using inv_run [OF inv(2) life_run [OF inv(1) assms(4)]] .
  then obtain w where w: "l_version (life_of db') (prr_DatasetVersionID r) = Some (w, True)" "run_of (stored_run r) w" "published_state (dv_State w)"
    using assms(5) by (auto simp: run_ok_def)
  obtain v where v: "v \<in> set (cat_versions db')" "dvr_ID v = prr_DatasetVersionID r" "w = stored_version v" "live_version v"
    using w(1) by (auto simp: life_of_def dest!: select_first_in)
  have "DatasetVersion_Validate w = None" using inv_version [OF inv(2) w(1)] by (simp add: version_ok_def)
  from published_manifest [OF this w(3)]
  have "matches datasetDigestPattern (valueOrEmpty (dvr_ManifestSHA256 v))" "valueOrEmpty (dvr_ManifestObjectKey v) \<noteq> []"
    by (simp_all add: v(3) stored_version_def)
  moreover have "live_run r" "progress_complete (stored_run r)" using ok assms(5) by (auto simp: run_ok_def)
  ultimately show ?thesis using v w by (auto simp: run_of_def progress_complete_def stored_run_def)
qed

text \<open>
  C16: In every catalogue reached from empty tables, a run that is READY belongs to a listed version that is published with a manifest digest
  and key, was published whole (every partition and every source object was processed, none failed), and is listed itself.
\<close>

theorem ready_run_published:
  assumes "catalogue_step\<^sup>*\<^sup>* db db'" "cat_versions db = []" "cat_runs db = []" "r \<in> set (cat_runs db')" "prr_State r = DatasetVersionReady"
  shows "live_run r \<and> prr_CompletedPartitions r = prr_TotalPartitions r \<and> prr_FailedPartitions r = 0 \<and>
    prr_ProcessedObjectCount r = prr_SourceObjectCount r \<and> prr_FailedObjectCount r = 0 \<and>
    (\<exists>v \<in> set (cat_versions db'). live_version v \<and> dvr_ID v = prr_DatasetVersionID r \<and> dvr_DatasetID v = prr_DatasetID r \<and>
       published_state (dvr_State v) \<and> matches datasetDigestPattern (valueOrEmpty (dvr_ManifestSHA256 v)) \<and> valueOrEmpty (dvr_ManifestObjectKey v) \<noteq> [])"
  using assms by (rule ready_row)

theorem ready_run_published_witness:
  "\<exists>r \<in> set (cat_runs catalogue_ready). prr_State r = DatasetVersionReady \<and>
     (\<exists>v \<in> set (cat_versions catalogue_ready). dvr_ID v = prr_DatasetVersionID r \<and> published_state (dvr_State v))"
proof -
  let ?r = "publicationRunUpdates run_ready 6 (sample_run_row\<lparr>prr_StartedAt := Some 3\<rparr>)"
  have r: "?r \<in> set (cat_runs catalogue_ready)" "prr_State ?r = DatasetVersionReady" by (simp_all add: catalogue_ready_def sample_catalogue_def run_ready_def)
  have "catalogue_step\<^sup>*\<^sup>* empty_catalogue catalogue_ready" using sample_requested sample_ready by (meson rtranclp_trans)
  from ready_run_published [OF this _ _ r] show ?thesis using r by (fastforce simp: empty_catalogue_def)
qed

lemma kept_row:
  assumes "catalogue_step\<^sup>*\<^sup>* db db'" "catalogue_keys db" "life_inv (life_of db)" "v \<in> set (cat_versions db)"
  shows "version_kept (life_of db') (dvr_ID v) (stored_version v, live_version v)"
  using catalogue.sim_le [OF assms(1)] assms(2,3) life_version [OF assms(2,4)] unfolding life_le_def by blast

lemma kept_run_row:
  assumes "catalogue_step\<^sup>*\<^sup>* db db'" "catalogue_keys db" "life_inv (life_of db)" "r \<in> set (cat_runs db)"
  shows "run_kept (life_of db') (prr_ID r) (stored_run r, live_run r)"
  using catalogue.sim_le [OF assms(1)] assms(2,3) life_run [OF assms(2,4)] unfolding life_le_def by blast

text \<open>
  C17: Whatever operations follow, a published version stays in the catalogue, listed as it was, with every field but its state
  unchanged, and its state only moves forward through READY, DEPRECATED and RETIRED; a READY run stays exactly as it is.
\<close>

theorem published_data_permanent:
  assumes "catalogue_step\<^sup>*\<^sup>* db db'" "catalogue_keys db" "life_inv (life_of db)"
    "v \<in> set (cat_versions db)" "published_state (dvr_State v)" "r \<in> set (cat_runs db)" "prr_State r = DatasetVersionReady"
  shows "(\<exists>v' \<in> set (cat_versions db'). stored_version v' = (stored_version v)\<lparr>dv_State := dvr_State v'\<rparr> \<and> live_version v' = live_version v \<and>
      published_state (dvr_State v') \<and> version_rank (dvr_State v) \<le> version_rank (dvr_State v')) \<and>
    (\<exists>r' \<in> set (cat_runs db'). stored_run r' = stored_run r \<and> live_run r' = live_run r)"
proof
  obtain w c where w: "l_version (life_of db') (dvr_ID v) = Some (w, c)" "later_version (stored_version v) w" "c = live_version v"
    using kept_row [OF assms(1-4)] assms(5) by (auto simp: version_kept_def)
  then obtain v' where v': "v' \<in> set (cat_versions db')" "w = stored_version v'" "live_version v' = live_version v" by (auto simp: life_of_def dest!: select_first_in)
  have le: "version_le (stored_version v) (stored_version v')" using w(2) assms(5) v'(2) by (simp add: later_version_def)
  then have "published_state (dvr_State v')" using version_le_published assms(5) by fastforce
  moreover have "stored_version v' = (stored_version v)\<lparr>dv_State := dvr_State v'\<rparr>" "version_rank (dvr_State v) \<le> version_rank (dvr_State v')"
    using le by (simp_all add: version_le_def)
  ultimately show "\<exists>v' \<in> set (cat_versions db'). stored_version v' = (stored_version v)\<lparr>dv_State := dvr_State v'\<rparr> \<and> live_version v' = live_version v \<and>
      published_state (dvr_State v') \<and> version_rank (dvr_State v) \<le> version_rank (dvr_State v')" using v' by blast
  show "\<exists>r' \<in> set (cat_runs db'). stored_run r' = stored_run r \<and> live_run r' = live_run r"
    using kept_run_row [OF assms(1-3,6)] assms(7) by (auto simp: run_kept_def life_of_def dest!: select_first_in)
qed

theorem published_data_permanent_witness:
  "\<exists>db'. TransitionDatasetVersion 7 ''d1'' ''v1'' DatasetVersionDeprecated catalogue_ready = Inr (sample_version\<lparr>dv_State := DatasetVersionDeprecated, dv_SourceObjectCount := 2\<rparr>, db') \<and>
     (\<exists>v' \<in> set (cat_versions db'). published_state (dvr_State v'))"
proof -
  let ?v = "ready_updates (ReadyVersion sample_receipt) 6 sample_version_row" and ?r = "publicationRunUpdates run_ready 6 (sample_run_row\<lparr>prr_StartedAt := Some 3\<rparr>)"
  let ?w = "sample_version\<lparr>dv_State := DatasetVersionDeprecated, dv_SourceObjectCount := 2\<rparr>"
  let ?db = "sample_catalogue (?v\<lparr>dvr_State := DatasetVersionDeprecated, dvr_UpdatedAt := 7\<rparr>) ?r"
  have t: "TransitionDatasetVersion 7 ''d1'' ''v1'' DatasetVersionDeprecated catalogue_ready = Inr (?w, ?db)" by code_simp
  have inv: "catalogue_keys catalogue_ready" "life_inv (life_of catalogue_ready)"
    using catalogue.sim_inv [of empty_catalogue catalogue_ready] sample_requested sample_ready empty_inv by (meson rtranclp_trans)+
  have rows: "?v \<in> set (cat_versions catalogue_ready)" "?r \<in> set (cat_runs catalogue_ready)" "published_state (dvr_State ?v)" "prr_State ?r = DatasetVersionReady"
    by (simp_all add: catalogue_ready_def sample_catalogue_def run_ready_def)
  from published_data_permanent [OF r_into_rtranclp [of catalogue_step, OF catalogue_step.transition [OF t]] inv rows(1,3,2,4)] show ?thesis using t by blast
qed

lemma disjoint_member: "A \<inter> G = {} \<Longrightarrow> x \<in> G \<Longrightarrow> x \<notin> A"
  by blast

lemma disjoint_subset: "A \<inter> G = {} \<Longrightarrow> B \<subseteq> G \<Longrightarrow> B \<inter> A = {}"
  by blast

text \<open>
  C18: Once a failed version is purged, no sequence of operations brings back a row with its identifier or a run with the identifier of one of its runs.
\<close>

theorem purge_is_final:
  assumes "PurgeFailedDatasetRecord collate fenced tenant super did vid actor remove db = Inr (n, db1)" "catalogue_step\<^sup>*\<^sup>* db1 db'"
    "catalogue_keys db" "life_inv (life_of db)"
  shows "vid \<notin> dvr_ID ` set (cat_versions db') \<and> prr_ID ` {r \<in> set (cat_runs db). prr_DatasetVersionID r = vid} \<inter> prr_ID ` set (cat_runs db') = {}"
proof -
  have inv1: "catalogue_keys db1" "life_inv (life_of db1)"
    using catalogue.sim_inv [OF r_into_rtranclp [of catalogue_step, OF catalogue_step.purge [OF assms(1)]]] assms(3,4) by blast+
  have gone: "vid \<in> l_gone_versions (life_of db1)" "prr_ID ` {r \<in> set (cat_runs db). prr_DatasetVersionID r = vid} \<subseteq> l_gone_runs (life_of db1)"
    using assms(1) by (cases rule: purge_cases; auto simp: life_of_def)+
  have "life_le (life_of db1) (life_of db')" using catalogue.sim_le [OF assms(2)] inv1 by blast
  then have gone': "vid \<in> l_gone_versions (life_of db')" "prr_ID ` {r \<in> set (cat_runs db). prr_DatasetVersionID r = vid} \<subseteq> l_gone_runs (life_of db')"
    using gone unfolding life_le_def by blast+
  have inv': "catalogue_keys db'" "life_inv (life_of db')" using catalogue.sim_inv [OF assms(2)] inv1 by blast+
  have "dvr_ID v \<notin> l_gone_versions (life_of db')" if "v \<in> set (cat_versions db')" for v
    using inv_version [OF inv'(2) life_version [OF inv'(1) that]] by (simp add: version_ok_def)
  then have v: "dvr_ID ` set (cat_versions db') \<inter> l_gone_versions (life_of db') = {}" by auto
  have "prr_ID r \<notin> l_gone_runs (life_of db')" if "r \<in> set (cat_runs db')" for r
    using inv_run [OF inv'(2) life_run [OF inv'(1) that]] by (simp add: run_ok_def)
  then have "prr_ID ` set (cat_runs db') \<inter> l_gone_runs (life_of db') = {}" by auto
  from disjoint_subset [OF this gone'(2)] disjoint_member [OF v gone'(1)] show ?thesis by (rule conjI [rotated])
qed

lemma failed_inv: "catalogue_keys catalogue_failed \<and> life_inv (life_of catalogue_failed)"
proof -
  have "catalogue_step\<^sup>*\<^sup>* catalogue_requested catalogue_failed"
    using catalogue_step.claim [OF sample_ops(3)] catalogue_step.swap [OF sample_ops(7)]
    by (meson converse_rtranclp_into_rtranclp rtranclp.rtrancl_refl)
  then have "catalogue_step\<^sup>*\<^sup>* empty_catalogue catalogue_failed" using sample_requested by (meson rtranclp_trans)
  from catalogue.sim_inv [OF this] empty_inv show ?thesis by blast
qed

theorem purge_is_final_witness:
  "\<exists>db1. PurgeFailedDatasetRecord (int \<circ> length) False ''t1'' False ''d1'' ''v1'' ''admin'' (Some (\<lambda>_. Inr 3)) catalogue_failed = Inr (3, db1) \<and>
     ''v1'' \<in> dvr_ID ` set (cat_versions catalogue_failed) \<and> ''v1'' \<notin> dvr_ID ` set (cat_versions db1) \<and> ''r1'' \<notin> prr_ID ` set (cat_runs db1)"
proof -
  let ?db1 = "catalogue_dataset\<lparr>cat_purged := [\<lparr>pid_Kind = ''version'', pid_ID = ''v1'', pid_DatasetID = ''d1'', pid_Version = ''1.0''\<rparr>,
      \<lparr>pid_Kind = ''run'', pid_ID = ''r1'', pid_DatasetID = ''d1'', pid_Version = []\<rparr>]\<rparr>"
  have purge: "PurgeFailedDatasetRecord (int \<circ> length) False ''t1'' False ''d1'' ''v1'' ''admin'' (Some (\<lambda>_. Inr 3)) catalogue_failed = Inr (3, ?db1)" by code_simp
  let ?r = "sample_run_row\<lparr>prr_State := DatasetVersionFailed, prr_StartedAt := Some 3, prr_FinishedAt := Some 4, prr_UpdatedAt := 4\<rparr>"
  have rows: "cat_runs catalogue_failed = [?r]" "map dvr_ID (cat_versions catalogue_failed) = [''v1'']" "prr_ID ?r = ''r1''" "prr_DatasetVersionID ?r = ''v1''"
    by (simp add: catalogue_failed_def sample_catalogue_def) code_simp+
  have "?r \<in> {r \<in> set (cat_runs catalogue_failed). prr_DatasetVersionID r = ''v1''}" using rows(1,4) by simp
  from image_eqI [of "''r1''" prr_ID, OF rows(3) [symmetric] this] have r1: "''r1'' \<in> prr_ID ` {r \<in> set (cat_runs catalogue_failed). prr_DatasetVersionID r = ''v1''}" .
  have v1: "''v1'' \<in> dvr_ID ` set (cat_versions catalogue_failed)" unfolding set_map [symmetric] rows(2) by simp
  note final = purge_is_final [OF purge rtranclp.rtrancl_refl conjunct1 [OF failed_inv] conjunct2 [OF failed_inv]]
  have "''r1'' \<notin> prr_ID ` set (cat_runs ?db1)" using disjoint_member [OF Int_commute [THEN trans, OF conjunct2 [OF final]] r1] .
  then show ?thesis using purge v1 conjunct1 [OF final] by (intro exI conjI)
qed

subsection \<open>Concurrent publishers\<close>

text \<open>
  C19: Of several callers that claim the same run in turn, whoever they are, only the first one wins: after a successful claim
  a further claim of that run that returns leaves the tables as they are and says that it did not win.
\<close>

theorem claim_single_winner:
  assumes "ClaimDatasetPublicationRun now ctx tenant super did vid rid at db = Inr ((q, True), db1)" "catalogue_keys db"
    "ClaimDatasetPublicationRun now' ctx' tenant' super' did' vid' rid at' db1 = Inr ((q', moved), db2)"
  shows "\<not> moved \<and> db2 = db1 \<and> run_State q = DatasetVersionStabilizing"
  using assms(1)
proof (cases rule: claim_cases)
  case (2 r version t)
  let ?f = "\<lambda>r. r\<lparr>prr_State := DatasetVersionStabilizing, prr_StartedAt := Some t, prr_FinishedAt := None, prr_UpdatedAt := t\<rparr>"
  obtain db0 where db0: "update_versions (at_version did vid DatasetVersionDiscovering) (\<lambda>v. v\<lparr>dvr_State := DatasetVersionStabilizing, dvr_UpdatedAt := t\<rparr>) db = (1, db0)"
      "update_runs (at_run did vid rid DatasetVersionDiscovering) ?f db0 = (1, db1)"
    using 2(7) by (auto simp: update_both_def Let_def prod_eq_iff case_prod_unfold split: if_splits)
  obtain v where "catalogue_keys db0" by (rule one_version [OF assms(2) db0(1), of vid]) (auto simp: at_version_def)
  moreover have "prr_ID x = rid \<and> prr_ID (?f x) = rid" if "at_run did vid rid DatasetVersionDiscovering x" for x using that by (simp add: at_run_def)
  ultimately obtain x where "x \<in> set (cat_runs db0)" "live_run x" "at_run did vid rid DatasetVersionDiscovering x" "l_run (life_of db0) rid = Some (stored_run x, True)"
      and x: "prr_ID x = rid" "life_of db1 = set_run (life_of db0) (stored_run (?f x)) (live_run (?f x))" "catalogue_keys db1"
    by (rule one_run [OF _ db0(2)])
  have "prr_State r' = DatasetVersionStabilizing" if "getManageableDatasetPublicationRunRecord tenant' super' did' vid' rid db1 = Inr r'" for r'
  proof -
    have "l_run (life_of db1) rid = Some (stored_run r', live_run r')" using manageable_run_row [OF that] life_run [OF x(3)] by metis
    moreover have "l_run (life_of db1) rid = Some (stored_run (?f x), live_run (?f x))" using x(1,2) by (simp add: set_run_def)
    ultimately have "stored_run r' = stored_run (?f x)" by simp
    then have "run_State (stored_run r') = run_State (stored_run (?f x))" by simp
    then show ?thesis by simp
  qed
  with assms(3) have "\<not> moved \<and> db2 = db1" by (cases rule: claim_cases) auto
  then show ?thesis using 2(4) by simp
qed simp

theorem claim_single_winner_witness:
  "\<exists>q' moved db2. ClaimDatasetPublicationRun 9 background ''root'' True ''d1'' ''v1'' ''r1'' None catalogue_claimed = Inr ((q', moved), db2) \<and> \<not> moved \<and> db2 = catalogue_claimed"
proof -
  have second: "ClaimDatasetPublicationRun 9 background ''root'' True ''d1'' ''v1'' ''r1'' None catalogue_claimed =
      Inr ((sample_run\<lparr>run_State := DatasetVersionStabilizing\<rparr>, False), catalogue_claimed)" by code_simp
  have "catalogue_keys catalogue_requested" by (simp add: catalogue_requested_def sample_catalogue_def empty_catalogue_def catalogue_keys_def)
  from claim_single_winner [OF sample_ops(3) this second] show ?thesis using second by blast
qed

subsection \<open>Tenants\<close>

lemma scopes:
  "visibleDatasetQuery tenant super d \<longleftrightarrow> CanViewDataset (stored_dataset d) tenant super"
  "manageableDatasetQuery tenant super d \<longleftrightarrow> CanManageDataset (stored_dataset d) tenant super"
  by (auto simp: visibleDatasetQuery_def manageableDatasetQuery_def CanViewDataset_def CanManageDataset_def stored_dataset_def valueOrEmpty_def blank_Nil split: option.splits)

lemma decode_all_Inr: "decode_all dec err rows = Inr xs \<Longrightarrow> list_all2 (\<lambda>r x. dec r = Inr x) rows xs"
  by (induction rows arbitrary: xs) (auto split: sum.splits)

text \<open>
  C21: The catalogue answers a caller by the access rules of the domain: \<open>ListDatasets\<close> returns exactly the stored datasets that
  \<open>CanViewDataset\<close> allows, each as often as it is stored, and \<open>GetDataset\<close> returns one exactly when it may be viewed.
\<close>

theorem reads_follow_access:
  assumes "ListDatasets collate tenant super db = Inr ds" "distinct (map dr_ID (cat_datasets db))" "d \<in> set (cat_datasets db)"
  shows "mset ds = mset (filter (\<lambda>d. CanViewDataset d tenant super) (map stored_dataset (cat_datasets db))) \<and>
    GetDataset tenant super (dr_ID d) db = (if CanViewDataset (stored_dataset d) tenant super then Inr (stored_dataset d) else Inl ErrDatasetNotFound)"
proof -
  let ?vis = "filter (visibleDatasetQuery tenant super) (cat_datasets db)"
  have all: "list_all2 (\<lambda>r x. DatasetRecord_toDomain r = Inr x) (sort_key (collate \<circ> dr_Slug) (sort_key (collate \<circ> dr_ID) ?vis)) ds"
    using decode_all_Inr assms(1) unfolding ListDatasets_def by blast
  then have eq: "ds = map stored_dataset (sort_key (collate \<circ> dr_Slug) (sort_key (collate \<circ> dr_ID) ?vis))"
    by (auto simp: list_all2_conv_all_nth DatasetRecord_toDomain_def intro!: nth_equalityI)
  then have "mset ds = image_mset stored_dataset (mset ?vis)" by simp
  then have "mset ds = mset (filter (\<lambda>d. CanViewDataset d tenant super) (map stored_dataset (cat_datasets db)))"
    by (simp add: filter_map comp_def scopes)
  moreover have "DatasetRecord_toDomain d = Inr (stored_dataset d)" if "visibleDatasetQuery tenant super d"
  proof -
    have "d \<in> set (sort_key (collate \<circ> dr_Slug) (sort_key (collate \<circ> dr_ID) ?vis))" using that assms(3) by simp
    then obtain i where i: "i < length (sort_key (collate \<circ> dr_Slug) (sort_key (collate \<circ> dr_ID) ?vis))"
        "sort_key (collate \<circ> dr_Slug) (sort_key (collate \<circ> dr_ID) ?vis) ! i = d" by (auto simp only: in_set_conv_nth)
    have "DatasetRecord_toDomain d = Inr (ds ! i)" using list_all2_nthD [OF all i(1)] i(2) by simp
    then show ?thesis by (auto simp: DatasetRecord_toDomain_def)
  qed
  moreover have "select_first (\<lambda>x. visibleDatasetQuery tenant super x \<and> dr_ID x = dr_ID d) (cat_datasets db) = (if visibleDatasetQuery tenant super d then Some d else None)"
    using assms(2,3) by (auto simp: select_first_None intro!: select_unique [where key = dr_ID] dest: unique_row)
  ultimately show ?thesis
    by (auto simp: GetDataset_def require_def scopes)
qed

theorem reads_follow_access_witness:
  "GetDataset ''t1'' False ''d1'' catalogue_ready = Inr sample_dataset \<and> GetDataset ''t2'' False ''d1'' catalogue_ready = Inl ErrDatasetNotFound"
proof -
  let ?d = "datasetRecordFromDomain sample_dataset 1"
  have list: "ListDatasets (int \<circ> length) ''t1'' False catalogue_ready = Inr [sample_dataset]" "ListDatasets (int \<circ> length) ''t2'' False catalogue_ready = Inr []" by code_simp+
  have d: "distinct (map dr_ID (cat_datasets catalogue_ready))" "?d \<in> set (cat_datasets catalogue_ready)" by (simp_all add: catalogue_ready_def sample_catalogue_def)
  have access: "CanViewDataset (stored_dataset ?d) ''t1'' False" "\<not> CanViewDataset (stored_dataset ?d) ''t2'' False" "dr_ID ?d = ''d1''" "stored_dataset ?d = sample_dataset"
    by code_simp+
  show ?thesis using reads_follow_access [OF list(1) d] reads_follow_access [OF list(2) d] access by simp
qed

text \<open>The operations that a caller runs in the name of a tenant, with the dataset that the call names.\<close>

inductive tenant_step :: "string \<Rightarrow> bool \<Rightarrow> string \<Rightarrow> catalogue \<Rightarrow> catalogue \<Rightarrow> bool" for tenant super where
  "CreateDatasetPublicationRequest now ctx tenant super v r db = Inr (q, db') \<Longrightarrow> tenant_step tenant super (dv_DatasetID v) db db'"
| "EnsureDatasetPublicationRun now ctx tenant super r db = Inr (q, db') \<Longrightarrow> tenant_step tenant super (run_DatasetID r) db db'"
| "ClaimDatasetPublicationRun now ctx tenant super did vid rid at db = Inr (qm, db') \<Longrightarrow> tenant_step tenant super did db db'"
| "CompareAndSwapDatasetPublicationRun now ctx tenant super st n at db = Inr (qm, db') \<Longrightarrow> tenant_step tenant super (run_DatasetID n) db db'"
| "UpdateDatasetPublicationRunProgress now ctx tenant super st n at db = Inr (qm, db') \<Longrightarrow> tenant_step tenant super (run_DatasetID n) db db'"
| "FinalizeDatasetPublicationRun now ctx tenant super st n receipt pre at db = Inr (qm, db') \<Longrightarrow> tenant_step tenant super (run_DatasetID n) db db'"
| "RetryDatasetPublicationRun now ctx tenant super did vid rid at backoff db = Inr (qm, db') \<Longrightarrow> tenant_step tenant super did db db'"
| "DeleteFailedDatasetRecord now tenant super did vid actor only db = Inr (x, db') \<Longrightarrow> tenant_step tenant super did db db'"
| "PurgeFailedDatasetRecord collate fenced tenant super did vid actor remove db = Inr (removed, db') \<Longrightarrow> tenant_step tenant super did db db'"

definition confined :: "string \<Rightarrow> bool \<Rightarrow> string \<Rightarrow> catalogue \<Rightarrow> catalogue \<Rightarrow> bool" where
  "confined tenant super did db db' \<longleftrightarrow>
     (\<exists>d \<in> set (cat_datasets db). dr_ID d = did \<and> CanManageDataset (stored_dataset d) tenant super) \<and> cat_datasets db' = cat_datasets db \<and>
     filter (\<lambda>v. dvr_DatasetID v \<noteq> did) (cat_versions db') = filter (\<lambda>v. dvr_DatasetID v \<noteq> did) (cat_versions db) \<and>
     filter (\<lambda>r. prr_DatasetID r \<noteq> did) (cat_runs db') = filter (\<lambda>r. prr_DatasetID r \<noteq> did) (cat_runs db)"

lemma filter_update: "(\<And>r. r \<in> set rows \<Longrightarrow> q r \<Longrightarrow> \<not> p r \<and> \<not> p (f r)) \<Longrightarrow> filter p (update_where q f rows) = filter p rows"
  by (induction rows) (auto simp: update_where_def)

lemma manageable_scope: "getManageableDatasetVersionRecord tenant super did vid db = Inr v \<Longrightarrow> \<exists>d \<in> set (cat_datasets db). dr_ID d = did \<and> CanManageDataset (stored_dataset d) tenant super"
  by (auto simp: getManageableDatasetVersionRecord_def manageable_versions_def filter_eq_Cons_iff joined_dataset_def list_ex_iff scopes split: list.splits)

lemma both_confined:
  assumes "update_both pv fv pr fr db = Inr db'" "getManageableDatasetVersionRecord tenant super did vid db = Inr v"
    "\<And>v. pv v \<Longrightarrow> dvr_DatasetID v = did \<and> dvr_DatasetID (fv v) = did" "\<And>r. pr r \<Longrightarrow> prr_DatasetID r = did \<and> prr_DatasetID (fr r) = did"
  shows "confined tenant super did db db'"
proof -
  have db': "db' = db\<lparr>cat_versions := update_where (\<lambda>v. live_version v \<and> pv v) fv (cat_versions db), cat_runs := update_where (\<lambda>r. live_run r \<and> pr r) fr (cat_runs db)\<rparr>"
    using assms(1) by (auto simp: update_both_def update_versions_def update_runs_def Let_def split: if_splits)
  show ?thesis unfolding confined_def db' using manageable_scope [OF assms(2)] assms(3,4) by (auto intro!: filter_update)
qed

lemma request_confined:
  assumes "CreateDatasetPublicationRequest now ctx tenant super v r db = Inr (q, db')" shows "confined tenant super (dv_DatasetID v) db db'"
proof -
  have scope: "count_where (\<lambda>d. manageableDatasetQuery tenant super d \<and> dr_ID d = dv_DatasetID v) (cat_datasets db) = 1"
    and ids: "run_DatasetID r = dv_DatasetID v"
    and db': "db' = db\<lparr>cat_versions := cat_versions db @ [datasetVersionRecordFromDomain v now], cat_runs := cat_runs db @ [datasetPublicationRunRecordFromDomain r now]\<rparr>"
    using assms by (auto simp: CreateDatasetPublicationRequest_def case_sum_Inr insert_version_def insert_unless_def insert_run_def insert_ignore_def insert_new_def Let_def split: if_splits)
  show ?thesis unfolding confined_def db' using count_one [OF scope]
    by (auto simp: scopes ids datasetVersionRecordFromDomain_def datasetPublicationRunRecordFromDomain_def)
qed

lemma ensure_confined:
  assumes "EnsureDatasetPublicationRun now ctx tenant super r db = Inr (q, db')" shows "db' = db \<or> confined tenant super (run_DatasetID r) db db'"
proof (cases "select_first (\<lambda>x. prr_ID x = run_ID r) (cat_runs db)")
  case None
  then obtain v where v: "getManageableDatasetVersionRecord tenant super (run_DatasetID r) (run_DatasetVersionID r) db = Inr v"
    and db': "db' = db \<or> db' = db\<lparr>cat_runs := cat_runs db @ [datasetPublicationRunRecordFromDomain r now]\<rparr>"
    using assms by (auto simp: EnsureDatasetPublicationRun_def map_sum_Inr case_sum_Inr insert_run_def insert_ignore_def insert_new_def Let_def split: if_splits)
  from db' show ?thesis
  proof
    assume "db' = db\<lparr>cat_runs := cat_runs db @ [datasetPublicationRunRecordFromDomain r now]\<rparr>"
    then show ?thesis using manageable_scope [OF v] by (simp add: confined_def datasetPublicationRunRecordFromDomain_def)
  qed simp
next
  case (Some e)
  then show ?thesis using assms by (auto simp: EnsureDatasetPublicationRun_def map_sum_Inr split: if_splits)
qed

lemma report_confined:
  assumes "UpdateDatasetPublicationRunProgress now ctx tenant super st n at db = Inr ((q, moved), db')" shows "db' = db \<or> confined tenant super (run_DatasetID n) db db'"
  using assms
proof (cases rule: report_cases)
  case (2 r version t)
  have db': "db' = db\<lparr>cat_runs := update_where (\<lambda>r. live_run r \<and> at_run (run_DatasetID n) (run_DatasetVersionID n) (run_ID n) st r) (progress_updates n t) (cat_runs db)\<rparr>"
    using 2(11) by (simp add: update_runs_def)
  show ?thesis unfolding confined_def db' using manageable_scope [OF 2(9)] by (auto simp: at_run_def progress_updates_def intro!: filter_update)
qed simp

lemma cleanup_scope_row: "cleanup_scope tenant super did vid db = Inr v \<Longrightarrow> getManageableDatasetVersionRecord tenant super did vid db = Inr v"
  by (auto simp: cleanup_scope_def map_sum_Inr)

lemma delete_confined:
  assumes "DeleteFailedDatasetRecord now tenant super did vid actor only db = Inr (x, db')" "catalogue_keys db" shows "confined tenant super did db db'"
proof -
  obtain v where v: "cleanup_scope tenant super did vid db = Inr v"
    and runs: "\<forall>r \<in> set (cat_runs db). live_run r \<and> prr_DatasetVersionID r = vid \<longrightarrow> prr_DatasetID r = did"
    and datasets: "cat_datasets db' = cat_datasets db"
    and db': "cat_runs db' = update_where (\<lambda>r. live_run r \<and> prr_DatasetVersionID r = vid \<and> prr_State r = DatasetVersionFailed)
        (\<lambda>r. r\<lparr>prr_DeletedAt := Some now, prr_DeletedBy := actor, prr_UpdatedAt := now\<rparr>) (cat_runs db)"
      "cat_versions db' = cat_versions db \<or> cat_versions db' = update_where (\<lambda>v. live_version v \<and> dvr_ID v = vid \<and> dvr_State v = DatasetVersionFailed)
        (\<lambda>v. v\<lparr>dvr_DeletedAt := Some now, dvr_DeletedBy := actor, dvr_UpdatedAt := now\<rparr>) (cat_versions db)"
    using assms(1) by (auto simp: DeleteFailedDatasetRecord_def Let_def update_runs_def update_versions_def list_ex_iff split: if_splits)
  note row = manageable_row [OF cleanup_scope_row [OF v]]
  have vid: "dvr_DatasetID w = did" if "w \<in> set (cat_versions db)" "dvr_ID w = vid" for w
    using unique_row [of dvr_ID "cat_versions db" w v] that row assms(2) by (auto simp: catalogue_keys_def)
  have "filter (\<lambda>v. dvr_DatasetID v \<noteq> did) (cat_versions db') = filter (\<lambda>v. dvr_DatasetID v \<noteq> did) (cat_versions db)"
    using db'(2) vid by (auto intro!: filter_update)
  moreover have "filter (\<lambda>r. prr_DatasetID r \<noteq> did) (cat_runs db') = filter (\<lambda>r. prr_DatasetID r \<noteq> did) (cat_runs db)"
    unfolding db'(1) using runs by (auto intro!: filter_update)
  ultimately show ?thesis using manageable_scope [OF cleanup_scope_row [OF v]] datasets by (simp add: confined_def)
qed

lemma purge_confined:
  assumes "PurgeFailedDatasetRecord collate fenced tenant super did vid actor remove db = Inr (n, db')" "catalogue_keys db" shows "confined tenant super did db db'"
proof -
  obtain v where v: "cleanup_scope tenant super did vid db = Inr v"
    and runs: "\<forall>r \<in> set (cat_runs db). prr_DatasetVersionID r = vid \<longrightarrow> prr_DatasetID r = did"
    and db': "cat_datasets db' = cat_datasets db" "cat_runs db' = filter (\<lambda>r. prr_DatasetVersionID r \<noteq> vid) (cat_runs db)"
      "cat_versions db' = filter (\<lambda>v. \<not> (dvr_ID v = vid \<and> dvr_State v = DatasetVersionFailed)) (cat_versions db)"
    using assms(1) unfolding PurgeFailedDatasetRecord_def Let_def by (auto simp: list_ex_iff split: if_splits)
  note row = manageable_row [OF cleanup_scope_row [OF v]]
  have "dvr_DatasetID w = did" if "w \<in> set (cat_versions db)" "dvr_ID w = vid" for w
    using unique_row [of dvr_ID "cat_versions db" w v] that row assms(2) by (auto simp: catalogue_keys_def)
  then show ?thesis using manageable_scope [OF cleanup_scope_row [OF v]] runs
    unfolding confined_def db' by (auto intro!: filter_cong)
qed



subsection \<open>Retries\<close>

text \<open>
  C29: A retry that succeeds acts on a run that has FAILED for at least the backoff and restarts it: the stored run is DISCOVERING with all counters
  reset and keeps its identity and execution mode. The value returned lacks the execution mode, so a distributed run reads as a legacy one.
\<close>

theorem retry_restarts:
  assumes "RetryDatasetPublicationRun now ctx tenant super did vid rid at backoff db = Inr ((q, True), db')" "catalogue_keys db"
  shows "\<exists>r f r'. r \<in> set (cat_runs db) \<and> prr_ID r = rid \<and> prr_State r = DatasetVersionFailed \<and> prr_FinishedAt r = Some f \<and>
    f + backoff \<le> normalizedPublicationRunTime now at \<and> r' \<in> set (cat_runs db') \<and>
    stored_run r' = (new_run did vid rid)\<lparr>run_ExecutionMode := run_ExecutionMode (stored_run r)\<rparr> \<and> q = new_run did vid rid \<and> run_ExecutionMode q = []"
  using assms(1)
proof (cases rule: retry_cases)
  case (2 r version f t)
  note row = manageable_run_row [OF 2(4)]
  let ?p = "\<lambda>r. at_run did vid rid DatasetVersionFailed r \<and> (case prr_FinishedAt r of None \<Rightarrow> False | Some f \<Rightarrow> f \<le> t - backoff)"
  have "?p r" using row 2(5,6,7) by (simp add: at_run_def)
  moreover have "cat_runs db' = update_where (\<lambda>r. live_run r \<and> ?p r) (reset_run t) (cat_runs db)"
    using 2(11) by (auto simp: update_both_def update_versions_def update_runs_def Let_def split: if_splits)
  ultimately have "reset_run t r \<in> set (cat_runs db')" using row by (auto simp: in_update_where)
  moreover have "stored_run (reset_run t r) = (new_run did vid rid)\<lparr>run_ExecutionMode := run_ExecutionMode (stored_run r)\<rparr>"
    using row by (simp add: stored_run_def reset_run_def new_run_def)
  ultimately show ?thesis using row 2(2,5,6,7,8) by (intro exI [of _ r] exI [of _ f] exI [of _ "reset_run t r"]) (simp add: new_run_def)
qed simp

theorem retry_restarts_witness:
  "\<exists>q db' r'. RetryDatasetPublicationRun 20 background ''t1'' False ''d1'' ''v1'' ''r1'' None 10 catalogue_failed = Inr ((q, True), db') \<and>
     r' \<in> set (cat_runs db') \<and> run_ExecutionMode (stored_run r') = ''distributed'' \<and> run_ExecutionMode q = []"
proof -
  let ?db = "sample_catalogue (reset_version 20 (sample_version_row\<lparr>dvr_State := DatasetVersionFailed\<rparr>)) (reset_run 20 (sample_run_row\<lparr>prr_State := DatasetVersionFailed\<rparr>))"
  have retry: "RetryDatasetPublicationRun 20 background ''t1'' False ''d1'' ''v1'' ''r1'' None 10 catalogue_failed = Inr ((new_run ''d1'' ''v1'' ''r1'', True), ?db)" by code_simp
  have "map (run_ExecutionMode \<circ> stored_run) (cat_runs catalogue_failed) = [''distributed'']" by code_simp
  then have mode: "run_ExecutionMode (stored_run r) = ''distributed''" if "r \<in> set (cat_runs catalogue_failed)" for r using that by (auto simp: map_eq_Cons_conv)
  from retry_restarts [OF retry] failed_inv obtain r r' where r: "r \<in> set (cat_runs catalogue_failed)" "r' \<in> set (cat_runs ?db)"
      "stored_run r' = (new_run ''d1'' ''v1'' ''r1'')\<lparr>run_ExecutionMode := run_ExecutionMode (stored_run r)\<rparr>" by blast
  have "run_ExecutionMode (stored_run r') = ''distributed''" "run_ExecutionMode (new_run ''d1'' ''v1'' ''r1'') = []"
    using r(3) mode [OF r(1)] by (simp_all add: new_run_def)
  then show ?thesis using retry r(2) by blast
qed

end
