(* ===== verification/Publisher.thy ===== *)
theory Publisher
  imports Dataset_Runs Go_Crypto
begin

section \<open>The dataset publication controller\<close>

text \<open>
  \<open>backend/datasetpublisher/controller.go\<close>: one reconciliation of a publication run, between the repository of runs and the client that
  keeps the publication job in Kubernetes.

  The repository is a record of its five operations over an arbitrary state \<open>'s\<close>; \<open>catalogue_repository\<close> is the one of \<open>Dataset_Runs\<close>.
  What is not part of the repository is in \<open>surroundings\<close>: the clock, the context of the call, database outages, the job client, the pause between two tries, and
  what other processes do to the state meanwhile, before every transaction and during every call. The world logs
  every call. A program returns what the Go function returns, a run and an error, and the new world.
\<close>

subsection \<open>Data\<close>

definition ErrInvalidPublicationController :: error where
  [go_consts]: "ErrInvalidPublicationController = Errorf ''invalid dataset publication controller'' []"
definition ErrInvalidPublicationControllerRequest :: error where
  [go_consts]: "ErrInvalidPublicationControllerRequest = Errorf ''invalid dataset publication request'' []"
definition ErrPublicationControllerUnavailable :: error where
  [go_consts]: "ErrPublicationControllerUnavailable = Errorf ''dataset publication controller unavailable'' []"
definition ErrPublicationJobUnavailable :: error where
  [go_consts]: "ErrPublicationJobUnavailable = Errorf ''dataset publication job unavailable'' []"
definition ErrPublicationJobFailed :: error where
  [go_consts]: "ErrPublicationJobFailed = Errorf ''dataset publication job failed'' []"

definition publicationIRSARoleTRNPattern :: regexp where
  "publicationIRSARoleTRNPattern = Seq (Str ''trn:iam::'') (Seq (Some1 (Class is_digit))
     (Seq (Str '':role/'') (Some1 (Class (\<lambda>c. is_alnum c \<or> c \<in> set ''+=,.@_/-'')))))"

definition publicationSHA256Pattern :: regexp where "publicationSHA256Pattern = hex_digest 64"

definition publisherIdentifierPattern :: regexp where "publisherIdentifierPattern = ident_pattern ''._+-'' 127"

definition validIdentifier :: "string \<Rightarrow> bool" where "validIdentifier v \<longleftrightarrow> matches publisherIdentifierPattern v"

definition maxPublicationJobDuration :: int where [go_consts]: "maxPublicationJobDuration = 30 * 24 * 3600 * Second"

datatype PublicationJobPhase = PublicationJobPending | PublicationJobStabilizing | PublicationJobValidating | PublicationJobPacking
  | PublicationJobPacked | PublicationJobSucceeded | PublicationJobFailed | PublicationJobOther string

datatype PublicationExecutionPhase = PublicationExecutionLegacy | PublicationExecutionPlan | PublicationExecutionPack | PublicationExecutionFinalize

fun phase_string :: "PublicationExecutionPhase \<Rightarrow> string" where
  "phase_string PublicationExecutionLegacy = []"
| "phase_string PublicationExecutionPlan = ''plan''"
| "phase_string PublicationExecutionPack = ''pack''"
| "phase_string PublicationExecutionFinalize = ''finalize''"

record PublicationProgress =
  pp_TotalPartitions :: int
  pp_CompletedPartitions :: int
  pp_FailedPartitions :: int
  pp_SourceObjectCount :: int
  pp_ProcessedObjectCount :: int
  pp_FailedObjectCount :: int

record PublicationJobStatus =
  st_Phase :: PublicationJobPhase
  st_Progress :: PublicationProgress
  st_Receipt :: "DatasetPublicationReceipt option"

record ReconcileRequest =
  rq_TenantID :: string
  rq_SuperAdmin :: bool
  rq_RunID :: string
  rq_DatasetID :: string
  rq_DatasetVersionID :: string
  rq_Version :: string
  rq_SchemaVersion :: string
  rq_SourceRoot :: string
  rq_SourceIndex :: string
  rq_SourceInventoryKey :: string
  rq_SourceInventorySHA256 :: string

record PublicationToleration =
  tol_Key :: string
  tol_Operator :: string
  tol_Value :: string
  tol_Effect :: string
  tol_Seconds :: int
  tol_HasSeconds :: bool

record ControllerOptions =
  co_Namespace :: string
  co_Image :: string
  co_SourceBucket :: string
  co_TargetBucket :: string
  co_TOSEndpoint :: string
  co_TOSRegion :: string
  co_ImagePullPolicy :: string
  co_ServiceAccountName :: string
  co_IRSARoleTRN :: string
  co_CredentialSecretName :: string
  co_QueueName :: string
  co_PriorityClassName :: string
  co_WorkingDirectory :: string
  co_InternalPrefix :: string
  co_NodeSelector :: "(string \<times> string) list" \<comment> \<open>the entries of a map\<close>
  co_PreferredNodeSelector :: "(string \<times> string) list"
  co_Tolerations :: "PublicationToleration list"
  co_CPURequest :: string
  co_CPULimit :: string
  co_MemoryRequest :: string
  co_MemoryLimit :: string
  co_ClientMaxAttempts :: int
  co_JobBackoffLimit :: int
  co_JobActiveDeadline :: int
  co_JobTTLAfterFinished :: int
  co_InitialRetryBackoff :: int
  co_MaximumRetryBackoff :: int
  co_DistributedEnabled :: bool
  co_PartitionCount :: int
  co_MaxParallelism :: int

record PublicationJobResources =
  res_cpuRequest :: string
  res_cpuLimit :: string
  res_memoryRequest :: string
  res_memoryLimit :: string

record PublicationJobSpec =
  js_namespace :: string
  js_name :: string
  js_runID :: string
  js_datasetID :: string
  js_datasetVersionID :: string
  js_version :: string
  js_schemaVersion :: string
  js_sourceRoot :: string
  js_sourceIndex :: string
  js_sourceInventoryKey :: string
  js_sourceInventorySHA256 :: string
  js_image :: string
  js_sourceBucket :: string
  js_targetBucket :: string
  js_tosEndpoint :: string
  js_tosRegion :: string
  js_imagePullPolicy :: string
  js_serviceAccountName :: string
  js_irsaRoleTRN :: string
  js_credentialSecretName :: string
  js_queueName :: string
  js_priorityClassName :: string
  js_workingDirectory :: string
  js_internalPrefix :: string
  js_nodeSelector :: "(string \<times> string) list"
  js_preferredNodeSelector :: "(string \<times> string) list"
  js_tolerations :: "PublicationToleration list"
  js_resources :: PublicationJobResources
  js_backoffLimit :: int
  js_activeDeadline :: int
  js_ttlAfterFinished :: int
  js_executionPhase :: PublicationExecutionPhase
  js_partitionCount :: int
  js_maxParallelism :: int

definition Requests :: "PublicationJobResources \<Rightarrow> (string \<times> string) list" where
  "Requests r = [(''cpu'', res_cpuRequest r), (''memory'', res_memoryRequest r)]"

definition Limits :: "PublicationJobResources \<Rightarrow> (string \<times> string) list" where
  "Limits r = [(''cpu'', res_cpuLimit r), (''memory'', res_memoryLimit r)]"

definition PublicationJobSpec_Labels :: "PublicationJobSpec \<Rightarrow> (string \<times> string) list" where
  "PublicationJobSpec_Labels spec = [
     (''app.kubernetes.io/managed-by'', ''ray-train-platform''), (''app.kubernetes.io/name'', ''dataset-publisher''),
     (''kueue.x-k8s.io/queue-name'', js_queueName spec), (''raytrain.io/publication-job-name'', js_name spec)]"

subsection \<open>Options\<close>

definition bucket_char :: "char \<Rightarrow> bool" where
  "bucket_char c \<longleftrightarrow> is_lower c \<or> is_digit c \<or> c = CHR ''-''"

definition no_outer_hyphen :: "string \<Rightarrow> bool" where
  "no_outer_hyphen v \<longleftrightarrow> hd v \<noteq> CHR ''-'' \<and> last v \<noteq> CHR ''-''"

definition control_char :: "char \<Rightarrow> bool" where
  "control_char c \<longleftrightarrow> of_char c < (32 :: nat) \<or> of_char c = (127 :: nat)"

definition isPublicationDNSLabel :: "string \<Rightarrow> bool" where
  "isPublicationDNSLabel v \<longleftrightarrow> v \<noteq> [] \<and> length v \<le> 63 \<and> trim_space v = v \<and> list_all bucket_char v \<and> no_outer_hyphen v"

definition validPublicationBucket :: "string \<Rightarrow> bool" where
  "validPublicationBucket v \<longleftrightarrow> 3 \<le> length v \<and> length v \<le> 63 \<and> trim_space v = v \<and> list_all bucket_char v \<and> no_outer_hyphen v"

definition validPublicationRegion :: "string \<Rightarrow> bool" where
  "validPublicationRegion v \<longleftrightarrow> v \<noteq> [] \<and> length v \<le> 63 \<and> trim_space v = v \<and> no_outer_hyphen v \<and> list_all bucket_char v \<and> contains v ''-''"

definition validPublicationPrivateEndpointLabel :: "string \<Rightarrow> bool" where
  "validPublicationPrivateEndpointLabel v \<longleftrightarrow> has_prefix v ''tos'' \<and> has_suffix v ''-private'' \<and>
     list_all is_digit (trim_suffix (trim_prefix v ''tos'') ''-private'')"

definition validPublicationEndpoint :: "string \<Rightarrow> string \<Rightarrow> bool" where
  "validPublicationEndpoint v region =
     (if v = [] \<or> length v > 253 \<or> trim_space v \<noteq> v \<or> v \<noteq> to_lower v \<or> list_ex (\<lambda>c. c \<in> {slash, backslash, CHR '':'', CHR ''@''}) v \<or>
         \<not> validPublicationRegion region then False
      else if \<not> has_suffix v ''.ivolces.com'' \<and> \<not> has_suffix v ''.volces.com'' then False
      else let officialSuffix = (if has_suffix v ''.ivolces.com'' then ''.ivolces.com'' else ''.volces.com'');
               labels = split (CHR ''.'') (trim_suffix v officialSuffix);
               regional = ''tos-'' @ region; regionalS3 = ''tos-s3-'' @ region in
        (case labels of
           [a] \<Rightarrow> a = regional \<or> a = regionalS3
         | [a, b] \<Rightarrow> validPublicationBucket a \<and> (b = regional \<or> b = regionalS3)
         | [a, b, c] \<Rightarrow> officialSuffix = ''.ivolces.com'' \<and> validPublicationPrivateEndpointLabel a \<and> b = region \<and> c = ''tos''
         | _ \<Rightarrow> False))"

definition validPublicationImagePullPolicy :: "string \<Rightarrow> bool" where
  "validPublicationImagePullPolicy v \<longleftrightarrow> v = ''Always'' \<or> v = ''IfNotPresent'' \<or> v = ''Never''"

definition validPublicationIRSARoleTRN :: "string \<Rightarrow> bool" where
  "validPublicationIRSARoleTRN v \<longleftrightarrow> v = [] \<or> trim_space v = v \<and> matches publicationIRSARoleTRNPattern v"

definition validPublicationJobDuration :: "int \<Rightarrow> bool" where
  "validPublicationJobDuration d \<longleftrightarrow> Second \<le> d \<and> d \<le> maxPublicationJobDuration \<and> d mod Second = 0"

definition validPublicationRelativePath :: "string \<Rightarrow> bool" where
  "validPublicationRelativePath v \<longleftrightarrow> NormalizeDatasetInternalPrefix v = Inr v"

definition validPublicationWorkingDirectory :: "string \<Rightarrow> bool" where
  "validPublicationWorkingDirectory v \<longleftrightarrow> v \<noteq> [] \<and> length v \<le> DatasetPathMaxBytes \<and> IsAbs v \<and> Clean v = v \<and> v \<noteq> ''/'' \<and> \<not> list_ex control_char v"

definition validPublicationLabelToken :: "string \<Rightarrow> nat \<Rightarrow> bool \<Rightarrow> bool" where
  "validPublicationLabelToken v maximum allowSlash \<longleftrightarrow>
     length v \<le> maximum \<and> trim_space v = v \<and> \<not> list_ex control_char v \<and>
     list_all (\<lambda>c. allowSlash \<and> c = slash \<or> is_alnum c \<or> c \<in> set ''-_.'') v \<and> length (filter (\<lambda>c. c = slash) v) \<le> 1"

definition valid_toleration :: "PublicationToleration \<Rightarrow> bool" where
  "valid_toleration t \<longleftrightarrow>
     (tol_Key t = [] \<or> validPublicationLabelToken (tol_Key t) 253 True) \<and>
     (tol_Operator t = ''Equal'' \<or> tol_Operator t = ''Exists'') \<and>
     \<not> (tol_Operator t = ''Exists'' \<and> tol_Value t \<noteq> []) \<and>
     validPublicationLabelToken (tol_Value t) 63 False \<and>
     (tol_Effect t = [] \<or> tol_Effect t = ''NoSchedule'' \<or> tol_Effect t = ''PreferNoSchedule'' \<or> tol_Effect t = ''NoExecute'') \<and>
     \<not> (tol_HasSeconds t \<and> (tol_Effect t \<noteq> ''NoExecute'' \<or> tol_Seconds t < 0))"

definition validPublicationPlacement :: "(string \<times> string) list \<Rightarrow> (string \<times> string) list \<Rightarrow> PublicationToleration list \<Rightarrow> bool" where
  "validPublicationPlacement nodeSelector preferred tolerations \<longleftrightarrow>
     list_all (\<lambda>(k, v). k \<noteq> [] \<and> validPublicationLabelToken k 253 True \<and> validPublicationLabelToken v 63 False) (nodeSelector @ preferred) \<and>
     length tolerations \<le> 64 \<and> list_all valid_toleration tolerations"

definition validPublicationResourceValue :: "string \<Rightarrow> bool" where
  "validPublicationResourceValue v \<longleftrightarrow> v \<noteq> [] \<and> length v \<le> 32 \<and> trim_space v = v \<and> list_all (\<lambda>c. is_alnum c \<or> c = CHR ''.'') v"

definition validControllerOptions :: "ControllerOptions \<Rightarrow> bool" where
  "validControllerOptions o' \<longleftrightarrow>
     isPublicationDNSLabel (co_Namespace o') \<and> ValidatePinnedImage (co_Image o') = None \<and>
     validPublicationBucket (co_SourceBucket o') \<and> validPublicationBucket (co_TargetBucket o') \<and>
     validPublicationRegion (co_TOSRegion o') \<and> validPublicationEndpoint (co_TOSEndpoint o') (co_TOSRegion o') \<and>
     validPublicationImagePullPolicy (co_ImagePullPolicy o') \<and> isPublicationDNSLabel (co_ServiceAccountName o') \<and>
     validPublicationIRSARoleTRN (co_IRSARoleTRN o') \<and>
     (co_CredentialSecretName o' = [] \<or> isPublicationDNSLabel (co_CredentialSecretName o')) \<and>
     (co_CredentialSecretName o' = [] \<or> co_IRSARoleTRN o' = []) \<and>
     isPublicationDNSLabel (co_QueueName o') \<and> isPublicationDNSLabel (co_PriorityClassName o') \<and>
     validPublicationWorkingDirectory (co_WorkingDirectory o') \<and>
     validPublicationPlacement (co_NodeSelector o') (co_PreferredNodeSelector o') (co_Tolerations o') \<and>
     \<not> isl (NormalizeDatasetInternalPrefix (co_InternalPrefix o')) \<and>
     validPublicationResourceValue (co_CPURequest o') \<and> validPublicationResourceValue (co_CPULimit o') \<and>
     validPublicationResourceValue (co_MemoryRequest o') \<and> validPublicationResourceValue (co_MemoryLimit o') \<and>
     \<not> (co_DistributedEnabled o' \<and> (co_PartitionCount o' < 1 \<or> co_PartitionCount o' > 100000 \<or> co_MaxParallelism o' < 1 \<or> co_MaxParallelism o' > co_PartitionCount o')) \<and>
     co_ClientMaxAttempts o' \<ge> 1 \<and> co_ClientMaxAttempts o' \<le> 10 \<and> co_JobBackoffLimit o' \<ge> 0 \<and> co_JobBackoffLimit o' \<le> 10 \<and>
     validPublicationJobDuration (co_JobActiveDeadline o') \<and> validPublicationJobDuration (co_JobTTLAfterFinished o') \<and>
     co_InitialRetryBackoff o' \<ge> 0 \<and> co_MaximumRetryBackoff o' \<ge> co_InitialRetryBackoff o'"

definition ReconcileRequest_valid :: "ReconcileRequest \<Rightarrow> bool" where
  "ReconcileRequest_valid r =
     (if \<not> validIdentifier (rq_RunID r) \<or> \<not> validIdentifier (rq_DatasetID r) \<or> \<not> validIdentifier (rq_DatasetVersionID r) \<or>
         \<not> validIdentifier (rq_Version r) \<or> \<not> validIdentifier (rq_SchemaVersion r) \<or>
         \<not> validPublicationRelativePath (rq_SourceRoot r) \<or> \<not> validPublicationRelativePath (rq_SourceIndex r) then False
      else if (rq_SourceInventoryKey r = []) \<noteq> (rq_SourceInventorySHA256 r = []) then False
      else if rq_SourceInventoryKey r \<noteq> [] \<and> (\<not> validPublicationRelativePath (rq_SourceInventoryKey r) \<or>
          \<not> matches publicationSHA256Pattern (rq_SourceInventorySHA256 r)) then False
      else if rq_SuperAdmin r \<and> rq_TenantID r = [] then True
      else validIdentifier (rq_TenantID r))"

definition publicationRootsOverlap :: "string \<Rightarrow> string \<Rightarrow> bool" where
  "publicationRootsOverlap l r \<longleftrightarrow> l = r \<or> has_prefix l (r @ ''/'') \<or> has_prefix r (l @ ''/'')"

subsection \<open>Progress and states\<close>

definition progress_apply :: "PublicationProgress \<Rightarrow> DatasetPublicationRun \<Rightarrow> DatasetVersionState \<Rightarrow> DatasetPublicationRun" where
  "progress_apply p run state = run\<lparr>run_State := state, run_TotalPartitions := pp_TotalPartitions p, run_CompletedPartitions := pp_CompletedPartitions p,
     run_FailedPartitions := pp_FailedPartitions p, run_SourceObjectCount := pp_SourceObjectCount p,
     run_ProcessedObjectCount := pp_ProcessedObjectCount p, run_FailedObjectCount := pp_FailedObjectCount p\<rparr>"

definition maxPublicationProgress :: "int \<Rightarrow> int \<Rightarrow> int" where
  "maxPublicationProgress l r = (if r > l then r else l)"

definition progress_merge :: "PublicationProgress \<Rightarrow> DatasetPublicationRun \<Rightarrow> DatasetPublicationRun" where
  "progress_merge p run = run\<lparr>
     run_TotalPartitions := maxPublicationProgress (run_TotalPartitions run) (pp_TotalPartitions p),
     run_CompletedPartitions := maxPublicationProgress (run_CompletedPartitions run) (pp_CompletedPartitions p),
     run_FailedPartitions := maxPublicationProgress (run_FailedPartitions run) (pp_FailedPartitions p),
     run_SourceObjectCount := maxPublicationProgress (run_SourceObjectCount run) (pp_SourceObjectCount p),
     run_ProcessedObjectCount := maxPublicationProgress (run_ProcessedObjectCount run) (pp_ProcessedObjectCount p),
     run_FailedObjectCount := maxPublicationProgress (run_FailedObjectCount run) (pp_FailedObjectCount p)\<rparr>"

definition progress_empty :: "PublicationProgress \<Rightarrow> bool" where
  "progress_empty p \<longleftrightarrow> pp_TotalPartitions p = 0 \<and> pp_CompletedPartitions p = 0 \<and> pp_FailedPartitions p = 0 \<and>
     pp_SourceObjectCount p = 0 \<and> pp_ProcessedObjectCount p = 0 \<and> pp_FailedObjectCount p = 0"

definition reported_complete :: "PublicationProgress \<Rightarrow> bool" where
  "reported_complete p \<longleftrightarrow> pp_TotalPartitions p > 0 \<and> pp_CompletedPartitions p = pp_TotalPartitions p \<and> pp_FailedPartitions p = 0 \<and>
     pp_SourceObjectCount p > 0 \<and> pp_ProcessedObjectCount p = pp_SourceObjectCount p \<and> pp_FailedObjectCount p = 0"

definition no_progress :: PublicationProgress where \<comment> \<open>\<open>PublicationProgress{}\<close>\<close>
  "no_progress = \<lparr>pp_TotalPartitions = 0, pp_CompletedPartitions = 0, pp_FailedPartitions = 0, pp_SourceObjectCount = 0,
     pp_ProcessedObjectCount = 0, pp_FailedObjectCount = 0\<rparr>"

definition activePublicationState :: "DatasetVersionState \<Rightarrow> bool" where
  "activePublicationState s \<longleftrightarrow> s = DatasetVersionStabilizing \<or> s = DatasetVersionValidating \<or> s = DatasetVersionPacking"

fun publicationStateOrder :: "DatasetVersionState \<Rightarrow> int" where
  "publicationStateOrder DatasetVersionDiscovering = 0"
| "publicationStateOrder DatasetVersionStabilizing = 1"
| "publicationStateOrder DatasetVersionValidating = 2"
| "publicationStateOrder DatasetVersionPacking = 3"
| "publicationStateOrder DatasetVersionReady = 4"
| "publicationStateOrder _ = -1"

fun nextPublicationState :: "DatasetVersionState \<Rightarrow> DatasetVersionState option" where
  "nextPublicationState DatasetVersionStabilizing = Some DatasetVersionValidating"
| "nextPublicationState DatasetVersionValidating = Some DatasetVersionPacking"
| "nextPublicationState DatasetVersionPacking = Some DatasetVersionReady"
| "nextPublicationState _ = None"

definition nextPublicationRetryDelay :: "int \<Rightarrow> int \<Rightarrow> int" where
  "nextPublicationRetryDelay current maximum =
     (if current \<ge> maximum \<or> current > int64 (maximum - current) then maximum else int64 (current * 2))"

definition publicationFailureOutcome :: "DatasetPublicationRun \<Rightarrow> error \<Rightarrow> DatasetPublicationRun \<times> error option" where
  "publicationFailureOutcome run failure =
     (if run_State run = DatasetVersionReady then (run, None)
      else if run_State run = DatasetVersionFailed then (run, Some failure)
      else (run, Some ErrPublicationControllerUnavailable))"

fun cleanContextError :: "go_context \<Rightarrow> error option \<Rightarrow> error option" where
  "cleanContextError Nil_Context err = Some ErrInvalidPublicationControllerRequest"
| "cleanContextError (Context (Some e)) err = Some e"
| "cleanContextError (Context None) err =
     (case err of None \<Rightarrow> None | Some e \<Rightarrow> if errors_Is e ContextError then Some ContextError else None)"

definition cleanDependencyError :: "go_context \<Rightarrow> error \<Rightarrow> error" where
  "cleanDependencyError ctx err = (case cleanContextError ctx (Some err) of Some e \<Rightarrow> e | None \<Rightarrow> ErrPublicationControllerUnavailable)"

definition PublicationJobName :: "string \<Rightarrow> string result" where
  "PublicationJobName runID =
     (if \<not> validIdentifier runID then Inl ErrInvalidPublicationControllerRequest
      else Inr (''dataset-publisher-'' @ EncodeToString (take 16 (sha256_Sum256 runID))))"

definition PublicationJobNameForPhase :: "string \<Rightarrow> PublicationExecutionPhase \<Rightarrow> string result" where
  "PublicationJobNameForPhase runID phase =
     and_then (PublicationJobName runID) (\<lambda>base.
       if phase = PublicationExecutionLegacy then Inl ErrInvalidPublicationControllerRequest else Inr (base @ ''-'' @ phase_string phase))"

subsection \<open>The world of the controller\<close>

record 's PublicationRunRepository = \<comment> \<open>\<open>time.Now()\<close> and the context first; \<open>WithDatasetPublicationWrite\<close> when the repository has it\<close>
  rep_Ensure :: "int \<Rightarrow> go_context \<Rightarrow> string \<Rightarrow> bool \<Rightarrow> DatasetPublicationRun \<Rightarrow> 's \<Rightarrow> (DatasetPublicationRun \<times> 's) result"
  rep_Claim :: "int \<Rightarrow> go_context \<Rightarrow> string \<Rightarrow> bool \<Rightarrow> string \<Rightarrow> string \<Rightarrow> string \<Rightarrow> int option \<Rightarrow> 's \<Rightarrow> ((DatasetPublicationRun \<times> bool) \<times> 's) result"
  rep_CompareAndSwap :: "int \<Rightarrow> go_context \<Rightarrow> string \<Rightarrow> bool \<Rightarrow> DatasetVersionState \<Rightarrow> DatasetPublicationRun \<Rightarrow> int option \<Rightarrow> 's \<Rightarrow> ((DatasetPublicationRun \<times> bool) \<times> 's) result"
  rep_UpdateProgress :: "int \<Rightarrow> go_context \<Rightarrow> string \<Rightarrow> bool \<Rightarrow> DatasetVersionState \<Rightarrow> DatasetPublicationRun \<Rightarrow> int option \<Rightarrow> 's \<Rightarrow> ((DatasetPublicationRun \<times> bool) \<times> 's) result"
  rep_Finalize :: "int \<Rightarrow> go_context \<Rightarrow> string \<Rightarrow> bool \<Rightarrow> DatasetVersionState \<Rightarrow> DatasetPublicationRun \<Rightarrow> DatasetPublicationReceipt \<Rightarrow> string \<Rightarrow> int option \<Rightarrow> 's \<Rightarrow> ((DatasetPublicationRun \<times> bool) \<times> 's) result"
  rep_fence :: "(string \<Rightarrow> string \<Rightarrow> 's \<Rightarrow> error option) option"

definition catalogue_repository :: "catalogue PublicationRunRepository" where
  "catalogue_repository = \<lparr>rep_Ensure = EnsureDatasetPublicationRun, rep_Claim = ClaimDatasetPublicationRun,
     rep_CompareAndSwap = CompareAndSwapDatasetPublicationRun, rep_UpdateProgress = UpdateDatasetPublicationRunProgress,
     rep_Finalize = FinalizeDatasetPublicationRun,
     rep_fence = Some (\<lambda>datasetID versionID db. if publication_write_allowed datasetID versionID db then None else Some ErrDatasetCleanupNotFound)\<rparr>"

datatype publication_call = \<comment> \<open>the calls of a controller, in order\<close>
    CallEnsure DatasetPublicationRun
  | CallClaim
  | CallSwap DatasetVersionState DatasetPublicationRun
  | CallProgress DatasetVersionState DatasetPublicationRun
  | CallFinalize DatasetVersionState DatasetPublicationRun DatasetPublicationReceipt
  | CallJob PublicationJobSpec "PublicationJobStatus result"
  | CallWait int

record ('w, 's) publication_world =
  pw_db :: 's
  pw_out :: 'w
  pw_calls :: "publication_call list"

record ('w, 's) surroundings =
  out_now :: "'w \<Rightarrow> int"
  out_ctx :: "'w \<Rightarrow> go_context"
  out_outage :: "'w \<Rightarrow> error option"
  out_commit :: "'w \<Rightarrow> error option" \<comment> \<open>of the transaction that holds the fence\<close>
  out_others :: "'w \<Rightarrow> 's \<Rightarrow> 'w \<times> 's"
  out_job :: "PublicationJobSpec \<Rightarrow> 'w \<Rightarrow> 's \<Rightarrow> PublicationJobStatus result \<times> 'w \<times> 's"
  out_wait :: "int \<Rightarrow> 'w \<Rightarrow> 's \<Rightarrow> error option \<times> 'w \<times> 's"

type_synonym ('w, 's, 'a) publication_prog = "('w, 's) publication_world \<Rightarrow> 'a \<times> ('w, 's) publication_world"

definition and_run :: "('w, 's, 'a) publication_prog \<Rightarrow> ('a \<Rightarrow> ('w, 's, 'b) publication_prog) \<Rightarrow> ('w, 's, 'b) publication_prog" where
  "and_run m f w = (case m w of (x, w') \<Rightarrow> f x w')"

definition give :: "'a \<Rightarrow> ('w, 's, 'a) publication_prog" where
  "give x w = (x, w)"

definition transact :: "('w, 's) surroundings \<Rightarrow> publication_call option \<Rightarrow> (int \<Rightarrow> go_context \<Rightarrow> 's \<Rightarrow> ('a \<times> 's) result) \<Rightarrow> ('w, 's, 'a result) publication_prog" where
  "transact e c f w =
     (let (u, s) = out_others e (pw_out w) (pw_db w);
          w1 = w\<lparr>pw_out := u, pw_db := s, pw_calls := pw_calls w @ (case c of None \<Rightarrow> [] | Some x \<Rightarrow> [x])\<rparr> in
      case out_outage e u of
        Some err \<Rightarrow> (Inl err, w1)
      | None \<Rightarrow> (case f (out_now e u) (out_ctx e u) s of Inl err \<Rightarrow> (Inl err, w1) | Inr (x, s') \<Rightarrow> (Inr x, w1\<lparr>pw_db := s'\<rparr>)))"

definition ask_job :: "('w, 's) surroundings \<Rightarrow> PublicationJobSpec \<Rightarrow> ('w, 's, PublicationJobStatus result) publication_prog" where
  "ask_job e spec w =
     (case out_job e spec (pw_out w) (pw_db w) of (r, u, s) \<Rightarrow> (r, w\<lparr>pw_out := u, pw_db := s, pw_calls := pw_calls w @ [CallJob spec r]\<rparr>))"

definition pause :: "('w, 's) surroundings \<Rightarrow> int \<Rightarrow> ('w, 's, error option) publication_prog" where
  "pause e delay w =
     (case out_wait e delay (pw_out w) (pw_db w) of (r, u, s) \<Rightarrow> (r, w\<lparr>pw_out := u, pw_db := s, pw_calls := pw_calls w @ [CallWait delay]\<rparr>))"

definition context_now :: "('w, 's) surroundings \<Rightarrow> ('w, 's, go_context) publication_prog" where
  "context_now e w = (out_ctx e (pw_out w), w)"

definition now_utc :: "('w, 's) surroundings \<Rightarrow> ('w, 's, int) publication_prog" where
  "now_utc e w = (out_now e (pw_out w), w)"

record ('w, 's) Controller =
  ctl_repository :: "'s PublicationRunRepository"
  ctl_options :: ControllerOptions
  ctl_env :: "('w, 's) surroundings"

definition NewController :: "'s PublicationRunRepository \<Rightarrow> ('w, 's) surroundings \<Rightarrow> ControllerOptions \<Rightarrow> ('w, 's) Controller result" where
  "NewController repository env options =
     (if \<not> validControllerOptions options then Inl ErrInvalidPublicationController
      else Inr \<lparr>ctl_repository = repository, ctl_options = options, ctl_env = env\<rparr>)"

subsection \<open>Operations on the run\<close>

type_synonym run_outcome = "DatasetPublicationRun \<times> error option" \<comment> \<open>\<open>(domain.DatasetPublicationRun, error)\<close>\<close>

definition no_run :: DatasetPublicationRun where \<comment> \<open>\<open>domain.DatasetPublicationRun{}\<close>\<close>
  "no_run = (new_run [] [] [])\<lparr>run_State := DatasetVersionOther []\<rparr>"

definition dependency_failure :: "('w, 's) Controller \<Rightarrow> DatasetPublicationRun \<Rightarrow> error \<Rightarrow> ('w, 's, run_outcome) publication_prog" where
  "dependency_failure c run err = and_run (context_now (ctl_env c)) (\<lambda>ctx. give (run, Some (cleanDependencyError ctx err)))"

definition swap_run :: "('w, 's) Controller \<Rightarrow> ReconcileRequest \<Rightarrow> DatasetVersionState \<Rightarrow> DatasetPublicationRun \<Rightarrow> ('w, 's, (DatasetPublicationRun \<times> bool) result) publication_prog" where
  "swap_run c request st n = and_run (now_utc (ctl_env c)) (\<lambda>t. transact (ctl_env c) (Some (CallSwap st n))
     (\<lambda>now ctx. rep_CompareAndSwap (ctl_repository c) now ctx (rq_TenantID request) (rq_SuperAdmin request) st n (Some t)))"

definition recordActiveProgress :: "('w, 's) Controller \<Rightarrow> ReconcileRequest \<Rightarrow> DatasetPublicationRun \<Rightarrow> PublicationProgress \<Rightarrow> ('w, 's, run_outcome) publication_prog" where
  "recordActiveProgress c request current progress =
     (let n = progress_merge progress current in
      if progress_empty progress then give (current, None)
      else if n = current then give (current, None)
      else if DatasetPublicationRun_Validate n \<noteq> None then give (current, Some ErrPublicationControllerUnavailable)
      else and_run (now_utc (ctl_env c)) (\<lambda>t.
        and_run (transact (ctl_env c) (Some (CallProgress (run_State current) n))
          (\<lambda>now ctx. rep_UpdateProgress (ctl_repository c) now ctx (rq_TenantID request) (rq_SuperAdmin request) (run_State current) n (Some t))) (\<lambda>r.
        case r of
          Inl err \<Rightarrow> dependency_failure c current err
        | Inr (updated, swapped) \<Rightarrow>
            if \<not> swapped \<and> run_State updated = DatasetVersionFailed then give (updated, Some ErrPublicationJobFailed) else give (updated, None))))"

definition failed_run :: "DatasetPublicationRun \<Rightarrow> PublicationProgress \<Rightarrow> DatasetPublicationRun" where
  "failed_run current progress =
     (let n = progress_apply progress current DatasetVersionFailed in
      if DatasetPublicationRun_Validate n \<noteq> None then current\<lparr>run_State := DatasetVersionFailed\<rparr> else n)"

fun mark_loop :: "('w, 's) Controller \<Rightarrow> ReconcileRequest \<Rightarrow> PublicationProgress \<Rightarrow> nat \<Rightarrow> DatasetPublicationRun \<Rightarrow> ('w, 's, run_outcome) publication_prog" where
  "mark_loop c request progress 0 current = give (current, Some ErrPublicationControllerUnavailable)"
| "mark_loop c request progress (Suc k) current =
     (if run_State current = DatasetVersionReady \<or> run_State current = DatasetVersionFailed then give (current, None)
      else if \<not> activePublicationState (run_State current) then give (current, Some ErrPublicationControllerUnavailable)
      else and_run (swap_run c request (run_State current) (failed_run current progress)) (\<lambda>r.
        case r of
          Inl err \<Rightarrow> dependency_failure c current err
        | Inr (updated, swapped) \<Rightarrow> if swapped then give (updated, None) else mark_loop c request progress k updated))"

definition markFailed :: "('w, 's) Controller \<Rightarrow> ReconcileRequest \<Rightarrow> DatasetPublicationRun \<Rightarrow> PublicationProgress \<Rightarrow> ('w, 's, run_outcome) publication_prog" where
  "markFailed c request current progress = mark_loop c request progress 3 current"

definition give_up :: "('w, 's) Controller \<Rightarrow> ReconcileRequest \<Rightarrow> DatasetPublicationRun \<Rightarrow> PublicationProgress \<Rightarrow> error \<Rightarrow> ('w, 's, run_outcome) publication_prog" where
  "give_up c request current progress failure = and_run (markFailed c request current progress) (\<lambda>(failed, err).
     give (if err \<noteq> None then (failed, err) else publicationFailureOutcome failed failure))"

fun advance_loop :: "('w, 's) Controller \<Rightarrow> ReconcileRequest \<Rightarrow> DatasetVersionState \<Rightarrow> PublicationProgress \<Rightarrow> nat \<Rightarrow> DatasetPublicationRun \<Rightarrow> ('w, 's, run_outcome) publication_prog" where
  "advance_loop c request target progress 0 current = give (current, if run_State current \<noteq> target then Some ErrPublicationControllerUnavailable else None)"
| "advance_loop c request target progress (Suc k) current =
     (if run_State current = target then recordActiveProgress c request current progress
      else if publicationStateOrder (run_State current) > publicationStateOrder target then give (current, None)
      else case nextPublicationState (run_State current) of
        None \<Rightarrow> give (current, Some (if run_State current = DatasetVersionFailed then ErrPublicationJobFailed else ErrPublicationControllerUnavailable))
      | Some nextState \<Rightarrow>
          let n = progress_apply progress current nextState in
          if DatasetPublicationRun_Validate n \<noteq> None then give_up c request current no_progress ErrPublicationControllerUnavailable
          else and_run (swap_run c request (run_State current) n) (\<lambda>r.
            case r of
              Inl err \<Rightarrow> dependency_failure c current err
            | Inr (updated, swapped) \<Rightarrow>
                if \<not> swapped \<and> run_State updated = DatasetVersionFailed then give (updated, Some ErrPublicationJobFailed)
                else advance_loop c request target progress k updated))"

definition advanceTo :: "('w, 's) Controller \<Rightarrow> ReconcileRequest \<Rightarrow> DatasetPublicationRun \<Rightarrow> DatasetVersionState \<Rightarrow> PublicationProgress \<Rightarrow> ('w, 's, run_outcome) publication_prog" where
  "advanceTo c request current target progress = advance_loop c request target progress 3 current"

definition validReceipt :: "('w, 's) Controller \<Rightarrow> ReconcileRequest \<Rightarrow> DatasetPublicationReceipt \<Rightarrow> bool" where \<comment> \<open>for a receipt that is not nil\<close>
  "validReceipt c request receipt \<longleftrightarrow> rcpt_DatasetID receipt = rq_DatasetID request \<and> rcpt_DatasetVersionID receipt = rq_DatasetVersionID request \<and>
     Receipt_ValidateWithInternalPrefix receipt (co_InternalPrefix (ctl_options c)) = None"

definition finish_run :: "('w, 's) Controller \<Rightarrow> ReconcileRequest \<Rightarrow> PublicationProgress \<Rightarrow> DatasetPublicationReceipt \<Rightarrow> run_outcome \<Rightarrow> ('w, 's, run_outcome) publication_prog" where
  \<comment> \<open>what follows \<open>advanceTo\<close> in the case of a succeeded job\<close>
  "finish_run c request progress receipt advanced =
     (let current = fst advanced in
      if snd advanced \<noteq> None then give advanced
      else if run_State current = DatasetVersionReady then give (current, None)
      else if run_State current \<noteq> DatasetVersionPacking then give (current, Some ErrPublicationControllerUnavailable)
      else let n = progress_apply progress current DatasetVersionReady in
        and_run (now_utc (ctl_env c)) (\<lambda>t.
        and_run (transact (ctl_env c) (Some (CallFinalize (run_State current) n receipt))
          (\<lambda>now ctx. rep_Finalize (ctl_repository c) now ctx (rq_TenantID request) (rq_SuperAdmin request) (run_State current) n receipt
             (co_InternalPrefix (ctl_options c)) (Some t))) (\<lambda>r.
        case r of
          Inl err \<Rightarrow> dependency_failure c current err
        | Inr (updated, swapped) \<Rightarrow> give (if \<not> swapped then publicationFailureOutcome updated ErrPublicationControllerUnavailable else (updated, None)))))"

definition applyJobStatus :: "('w, 's) Controller \<Rightarrow> ReconcileRequest \<Rightarrow> DatasetPublicationRun \<Rightarrow> PublicationJobStatus \<Rightarrow> ('w, 's, run_outcome) publication_prog" where
  "applyJobStatus c request current status =
     (case st_Phase status of
        PublicationJobPending \<Rightarrow> give (current, None)
      | PublicationJobStabilizing \<Rightarrow> give (current, None)
      | PublicationJobValidating \<Rightarrow> advanceTo c request current DatasetVersionValidating (st_Progress status)
      | PublicationJobPacking \<Rightarrow>
          if ExecutionMode_Normalized (run_ExecutionMode current) = ''distributed'' then recordActiveProgress c request current (st_Progress status)
          else advanceTo c request current DatasetVersionPacking (st_Progress status)
      | PublicationJobPacked \<Rightarrow> advanceTo c request current DatasetVersionPacking (st_Progress status)
      | PublicationJobSucceeded \<Rightarrow>
          (case st_Receipt status of
             None \<Rightarrow> give_up c request current no_progress ErrPublicationControllerUnavailable
           | Some receipt \<Rightarrow>
               if \<not> reported_complete (st_Progress status) \<or> \<not> validReceipt c request receipt
               then give_up c request current no_progress ErrPublicationControllerUnavailable
               else and_run (advanceTo c request current DatasetVersionPacking (st_Progress status)) (finish_run c request (st_Progress status) receipt))
      | PublicationJobFailed \<Rightarrow> give_up c request current (st_Progress status) ErrPublicationJobFailed
      | PublicationJobOther _ \<Rightarrow> give (current, Some ErrPublicationControllerUnavailable))"

subsection \<open>The publication job\<close>

definition executionMode :: "ControllerOptions \<Rightarrow> string" where
  "executionMode o' = (if co_DistributedEnabled o' then ''distributed'' else ''legacy'')"

definition job_phase :: "ControllerOptions \<Rightarrow> DatasetPublicationRun \<Rightarrow> PublicationExecutionPhase result" where
  "job_phase o' run =
     (if ExecutionMode_Normalized (run_ExecutionMode run) \<noteq> ''distributed'' then Inr PublicationExecutionLegacy
      else case run_State run of
        DatasetVersionStabilizing \<Rightarrow> Inr PublicationExecutionPlan
      | DatasetVersionValidating \<Rightarrow> Inr PublicationExecutionPack
      | DatasetVersionPacking \<Rightarrow>
          Inr (if run_TotalPartitions run = co_PartitionCount o' \<and> run_CompletedPartitions run = co_PartitionCount o' \<and> run_FailedPartitions run = 0
               then PublicationExecutionFinalize else PublicationExecutionPack)
      | _ \<Rightarrow> Inl ErrPublicationControllerUnavailable)"

definition jobSpec :: "ControllerOptions \<Rightarrow> ReconcileRequest \<Rightarrow> DatasetPublicationRun \<Rightarrow> PublicationJobSpec result" where
  "jobSpec o' request run =
     and_then (job_phase o' run) (\<lambda>phase.
     and_then (PublicationJobName (rq_RunID request)) (\<lambda>base.
     and_then (if phase \<noteq> PublicationExecutionLegacy then PublicationJobNameForPhase (rq_RunID request) phase else Inr base) (\<lambda>name.
       Inr \<lparr>js_namespace = co_Namespace o', js_name = name, js_runID = rq_RunID request, js_datasetID = rq_DatasetID request,
         js_datasetVersionID = rq_DatasetVersionID request, js_version = rq_Version request, js_schemaVersion = rq_SchemaVersion request,
         js_sourceRoot = rq_SourceRoot request, js_sourceIndex = rq_SourceIndex request, js_sourceInventoryKey = rq_SourceInventoryKey request,
         js_sourceInventorySHA256 = rq_SourceInventorySHA256 request, js_image = co_Image o', js_sourceBucket = co_SourceBucket o',
         js_targetBucket = co_TargetBucket o', js_tosEndpoint = co_TOSEndpoint o', js_tosRegion = co_TOSRegion o',
         js_imagePullPolicy = co_ImagePullPolicy o', js_serviceAccountName = co_ServiceAccountName o', js_irsaRoleTRN = co_IRSARoleTRN o',
         js_credentialSecretName = co_CredentialSecretName o', js_queueName = co_QueueName o', js_priorityClassName = co_PriorityClassName o',
         js_workingDirectory = co_WorkingDirectory o', js_internalPrefix = co_InternalPrefix o', js_nodeSelector = co_NodeSelector o',
         js_preferredNodeSelector = co_PreferredNodeSelector o', js_tolerations = co_Tolerations o',
         js_resources = \<lparr>res_cpuRequest = co_CPURequest o', res_cpuLimit = co_CPULimit o', res_memoryRequest = co_MemoryRequest o', res_memoryLimit = co_MemoryLimit o'\<rparr>,
         js_backoffLimit = co_JobBackoffLimit o', js_activeDeadline = co_JobActiveDeadline o', js_ttlAfterFinished = co_JobTTLAfterFinished o',
         js_executionPhase = phase, js_partitionCount = co_PartitionCount o', js_maxParallelism = co_MaxParallelism o'\<rparr>)))"

definition checked_status :: "PublicationJobStatus result \<Rightarrow> PublicationJobStatus result" where \<comment> \<open>a success without its receipt is not yet one\<close>
  "checked_status r = and_then r (\<lambda>status.
     if st_Phase status = PublicationJobSucceeded \<and> (\<not> reported_complete (st_Progress status) \<or> st_Receipt status = None)
     then Inl ErrPublicationJobUnavailable else Inr status)"

fun ensure_loop :: "('w, 's) Controller \<Rightarrow> PublicationJobSpec \<Rightarrow> nat \<Rightarrow> int \<Rightarrow> ('w, 's, PublicationJobStatus result) publication_prog" where \<comment> \<open>with the tries that are left\<close>
  "ensure_loop c spec 0 delay = give (Inl ErrPublicationJobUnavailable)"
| "ensure_loop c spec (Suc k) delay =
     and_run (context_now (ctl_env c)) (\<lambda>ctx0.
     case cleanContextError ctx0 None of
       Some e \<Rightarrow> give (Inl e)
     | None \<Rightarrow>
       and_run (ask_job (ctl_env c) spec) (\<lambda>reply.
       and_run (context_now (ctl_env c)) (\<lambda>ctx1.
       case checked_status reply of
         Inr status \<Rightarrow> give (Inr status)
       | Inl err \<Rightarrow>
         case cleanContextError ctx1 (Some err) of
           Some e \<Rightarrow> give (Inl e)
         | None \<Rightarrow>
           if k = 0 then give (Inl ErrPublicationJobUnavailable)
           else and_run (pause (ctl_env c) delay) (\<lambda>waited.
             and_run (context_now (ctl_env c)) (\<lambda>ctx2.
             case waited of
               Some werr \<Rightarrow> give (Inl (case cleanContextError ctx2 (Some werr) of Some e \<Rightarrow> e | None \<Rightarrow> ErrPublicationJobUnavailable))
             | None \<Rightarrow> ensure_loop c spec k (nextPublicationRetryDelay delay (co_MaximumRetryBackoff (ctl_options c))))))))"

definition ensurePublicationJob :: "('w, 's) Controller \<Rightarrow> PublicationJobSpec \<Rightarrow> ('w, 's, PublicationJobStatus result) publication_prog" where
  "ensurePublicationJob c spec = ensure_loop c spec (nat (co_ClientMaxAttempts (ctl_options c))) (co_InitialRetryBackoff (ctl_options c))"

subsection \<open>Reconciliation\<close>

definition drive_job :: "('w, 's) Controller \<Rightarrow> ReconcileRequest \<Rightarrow> DatasetPublicationRun \<Rightarrow> ('w, 's, run_outcome) publication_prog" where
  \<comment> \<open>the last part of \<open>reconcileFenced\<close>, once the run is claimed\<close>
  "drive_job c request current =
     (if \<not> activePublicationState (run_State current) then give (current, Some ErrPublicationControllerUnavailable)
      else case jobSpec (ctl_options c) request current of
        Inl err \<Rightarrow> give (current, Some err)
      | Inr spec \<Rightarrow>
          and_run (ensurePublicationJob c spec) (\<lambda>r.
          case r of
            Inr status \<Rightarrow> applyJobStatus c request current status
          | Inl err \<Rightarrow> and_run (context_now (ctl_env c)) (\<lambda>ctx.
              give (current, Some (case cleanContextError ctx (Some err) of Some e \<Rightarrow> e | None \<Rightarrow> ErrPublicationJobUnavailable)))))"

definition reconcileFenced :: "('w, 's) Controller \<Rightarrow> ReconcileRequest \<Rightarrow> ('w, 's, run_outcome) publication_prog" where
  "reconcileFenced c request =
     (let initial = (new_run (rq_DatasetID request) (rq_DatasetVersionID request) (rq_RunID request))\<lparr>run_ExecutionMode := executionMode (ctl_options c)\<rparr> in
      and_run (transact (ctl_env c) (Some (CallEnsure initial))
        (\<lambda>now ctx. rep_Ensure (ctl_repository c) now ctx (rq_TenantID request) (rq_SuperAdmin request) initial)) (\<lambda>r.
      case r of
        Inl err \<Rightarrow> dependency_failure c no_run err
      | Inr current \<Rightarrow>
          if run_State current = DatasetVersionReady then give (current, None)
          else if run_State current = DatasetVersionFailed then give (current, Some ErrPublicationJobFailed)
          else if run_State current = DatasetVersionDiscovering then
            and_run (now_utc (ctl_env c)) (\<lambda>t.
            and_run (transact (ctl_env c) (Some CallClaim)
              (\<lambda>now ctx. rep_Claim (ctl_repository c) now ctx (rq_TenantID request) (rq_SuperAdmin request)
                 (rq_DatasetID request) (rq_DatasetVersionID request) (rq_RunID request) (Some t))) (\<lambda>r2.
            case r2 of
              Inl err \<Rightarrow> dependency_failure c no_run err
            | Inr (claimedRun, claimed) \<Rightarrow> if \<not> claimed then give (claimedRun, None) else drive_job c request claimedRun))
          else drive_job c request current))"

definition Reconcile :: "('w, 's) Controller \<Rightarrow> ReconcileRequest \<Rightarrow> ('w, 's, run_outcome) publication_prog" where
  "Reconcile c request =
     and_run (context_now (ctl_env c)) (\<lambda>ctx.
     case cleanContextError ctx None of
       Some e \<Rightarrow> give (no_run, Some e)
     | None \<Rightarrow>
       if \<not> ReconcileRequest_valid request then give (no_run, Some ErrInvalidPublicationControllerRequest)
       else if publicationRootsOverlap (rq_SourceRoot request) (co_InternalPrefix (ctl_options c)) then give (no_run, Some ErrInvalidPublicationControllerRequest)
       else case rep_fence (ctl_repository c) of
         None \<Rightarrow> reconcileFenced c request
       | Some fence \<Rightarrow>
           and_run (transact (ctl_env c) None (\<lambda>now ctx s. case fence (rq_DatasetID request) (rq_DatasetVersionID request) s of Some e \<Rightarrow> Inl e | None \<Rightarrow> Inr ((), s))) (\<lambda>r.
           case r of
             Inl err \<Rightarrow> dependency_failure c no_run err
           | Inr _ \<Rightarrow>
               and_run (reconcileFenced c request) (\<lambda>(result, reconcileErr) w.
                 if reconcileErr \<noteq> None then ((result, reconcileErr), w)
                 else case out_commit (ctl_env c) (pw_out w) of
                   Some err \<Rightarrow> dependency_failure c result err w
                 | None \<Rightarrow> ((result, None), w))))"

end
