(* ===== verification/Publisher_Safety.thy ===== *)
theory Publisher_Safety
  imports Publisher Dataset_Properties
begin

section \<open>The controller over its repository\<close>

text \<open>
  \<open>publication_repository\<close> is what the controller relies on: each operation of the repository moves its state as the repository allows, returns
  the run it was asked for, and reports a run as READY only when it is. The lemmas of the locale follow every path of a reconciliation under
  that contract; the interpretation proves it for the catalogue. The log of calls gives the bounds and what a finalization rests on.
\<close>

subsection \<open>Programs\<close>

definition triple :: "(('w, 's) publication_world \<Rightarrow> bool) \<Rightarrow> ('w, 's, 'a) publication_prog \<Rightarrow> ('a \<Rightarrow> ('w, 's) publication_world \<Rightarrow> bool) \<Rightarrow> bool" where
  "triple P m Q \<longleftrightarrow> (\<forall>w. P w \<longrightarrow> (case m w of (x, w') \<Rightarrow> Q x w'))"

named_theorems pub_rules

lemma triple_give [pub_rules]: "(\<And>w. P w \<Longrightarrow> Q x w) \<Longrightarrow> triple P (give x) Q"
  by (simp add: triple_def give_def)

lemma triple_and_run: "triple P m R \<Longrightarrow> (\<And>x. triple (R x) (f x) Q) \<Longrightarrow> triple P (and_run m f) Q"
  by (fastforce simp: triple_def and_run_def split: prod.splits)

lemma triple_conseq: "triple P' m Q' \<Longrightarrow> (\<And>w. P w \<Longrightarrow> P' w) \<Longrightarrow> (\<And>x w. Q' x w \<Longrightarrow> Q x w) \<Longrightarrow> triple P m Q"
  by (fastforce simp: triple_def split: prod.splits)

lemma triple_ask: "(\<And>w. P w \<Longrightarrow> Q (out_ctx e (pw_out w)) w) \<Longrightarrow> triple P (context_now e) Q"
  by (simp add: triple_def context_now_def)

lemma triple_now: "(\<And>w. P w \<Longrightarrow> Q (out_now e (pw_out w)) w) \<Longrightarrow> triple P (now_utc e) Q"
  by (simp add: triple_def now_utc_def)

lemma triple_pure: "(\<And>w. P w \<Longrightarrow> b) \<Longrightarrow> (b \<Longrightarrow> triple P m Q) \<Longrightarrow> triple P m Q"
  by (simp add: triple_def)

subsection \<open>The contract of the repository\<close>

definition names_run :: "string \<Rightarrow> string \<Rightarrow> string \<Rightarrow> DatasetPublicationRun \<Rightarrow> bool" where
  "names_run did vid rid r \<longleftrightarrow> run_DatasetID r = did \<and> run_DatasetVersionID r = vid \<and> run_ID r = rid"

definition other_users :: "('s \<Rightarrow> 's \<Rightarrow> bool) \<Rightarrow> ('s \<Rightarrow> bool) \<Rightarrow> ('w, 's) surroundings \<Rightarrow> bool" where \<comment> \<open>they act on the state through the repository as well\<close>
  "other_users step good e \<longleftrightarrow> (\<forall>u s. good s \<longrightarrow> step s (snd (out_others e u s))) \<and>
     (\<forall>spec u s. good s \<longrightarrow> step s (snd (snd (out_job e spec u s)))) \<and> (\<forall>d u s. good s \<longrightarrow> step s (snd (snd (out_wait e d u s))))"

locale publication_repository =
  fixes repo :: "'s PublicationRunRepository" and step :: "'s \<Rightarrow> 's \<Rightarrow> bool" and good :: "'s \<Rightarrow> bool"
    and ready :: "string \<Rightarrow> string \<Rightarrow> string \<Rightarrow> 's \<Rightarrow> bool"
  assumes step_refl: "step s s" and step_trans: "step s t \<Longrightarrow> step t u \<Longrightarrow> step s u"
    and step_inv: "good s \<Longrightarrow> step s t \<Longrightarrow> good t"
    and step_ready: "good s \<Longrightarrow> step s t \<Longrightarrow> ready did vid rid s \<Longrightarrow> ready did vid rid t"
    and ensure_law: "rep_Ensure repo now ctx tenant super r s = Inr (q, s') \<Longrightarrow> good s \<Longrightarrow> names_run did vid rid r \<Longrightarrow>
      step s s' \<and> names_run did vid rid q \<and> (run_State q = DatasetVersionReady \<longrightarrow> ready did vid rid s')"
    and claim_law: "rep_Claim repo now ctx tenant super did vid rid at s = Inr ((q, moved), s') \<Longrightarrow> good s \<Longrightarrow>
      step s s' \<and> names_run did vid rid q \<and> (run_State q = DatasetVersionReady \<longrightarrow> ready did vid rid s')"
    and swap_law: "rep_CompareAndSwap repo now ctx tenant super st n at s = Inr ((q, moved), s') \<Longrightarrow> good s \<Longrightarrow> names_run did vid rid n \<Longrightarrow>
      step s s' \<and> names_run did vid rid q \<and> (run_State q = DatasetVersionReady \<longrightarrow> ready did vid rid s')"
    and progress_law: "rep_UpdateProgress repo now ctx tenant super st n at s = Inr ((q, moved), s') \<Longrightarrow> good s \<Longrightarrow> names_run did vid rid n \<Longrightarrow>
      step s s' \<and> names_run did vid rid q \<and> (run_State q = DatasetVersionReady \<longrightarrow> ready did vid rid s')"
    and finalize_law: "rep_Finalize repo now ctx tenant super st n receipt pre at s = Inr ((q, moved), s') \<Longrightarrow> good s \<Longrightarrow> names_run did vid rid n \<Longrightarrow>
      step s s' \<and> names_run did vid rid q \<and> (run_State q = DatasetVersionReady \<longrightarrow> ready did vid rid s')"
begin

definition on_path :: "'s \<Rightarrow> ('w, 's) publication_world \<Rightarrow> bool" where
  "on_path s0 w \<longleftrightarrow> step s0 (pw_db w) \<and> good (pw_db w)"

definition truthful :: "ReconcileRequest \<Rightarrow> DatasetPublicationRun \<Rightarrow> ('w, 's) publication_world \<Rightarrow> bool" where
  "truthful rq run w \<longleftrightarrow> (run_State run = DatasetVersionReady \<longrightarrow> ready (rq_DatasetID rq) (rq_DatasetVersionID rq) (rq_RunID rq) (pw_db w))"

definition on_run :: "'s \<Rightarrow> ReconcileRequest \<Rightarrow> DatasetPublicationRun \<Rightarrow> ('w, 's) publication_world \<Rightarrow> bool" where
  "on_run s0 rq run w \<longleftrightarrow> on_path s0 w \<and> names_run (rq_DatasetID rq) (rq_DatasetVersionID rq) (rq_RunID rq) run \<and> truthful rq run w"

definition reported :: "'s \<Rightarrow> ReconcileRequest \<Rightarrow> run_outcome \<Rightarrow> ('w, 's) publication_world \<Rightarrow> bool" where
  "reported s0 rq out w \<longleftrightarrow> on_run s0 rq (fst out) w"

definition answered :: "'s \<Rightarrow> ReconcileRequest \<Rightarrow> run_outcome \<Rightarrow> ('w, 's) publication_world \<Rightarrow> bool" where
  "answered s0 rq out w \<longleftrightarrow> on_path s0 w \<and> truthful rq (fst out) w"

lemma on_run_reported: "on_run s0 rq run w \<Longrightarrow> reported s0 rq (run, e) w"
  by (simp add: on_run_def reported_def)

definition stable :: "(('w, 's) publication_world \<Rightarrow> bool) \<Rightarrow> bool" where
  "stable P \<longleftrightarrow> (\<forall>w w'. P w \<longrightarrow> step (pw_db w) (pw_db w') \<longrightarrow> P w') \<and> (\<forall>w. P w \<longrightarrow> good (pw_db w))"

lemma stable_path: "stable (on_path s0)"
  unfolding stable_def on_path_def using step_trans step_inv by blast

lemma stable_run: "stable (on_run s0 rq run)"
  using stable_path [of s0] step_ready unfolding stable_def on_run_def truthful_def by blast

lemma triple_transact:
  assumes "other_users step good e" "stable P"
    and "\<And>now ctx s x s'. good s \<Longrightarrow> f now ctx s = Inr (x, s') \<Longrightarrow> step s s' \<and> L x s'"
  shows "triple P (transact e c f) (\<lambda>r w. P w \<and> (\<forall>x. r = Inr x \<longrightarrow> L x (pw_db w)))"
proof -
  have "case transact e c f w of (r, w') \<Rightarrow> P w' \<and> (\<forall>x. r = Inr x \<longrightarrow> L x (pw_db w'))" if "P w" for w
  proof -
    obtain u s where us: "out_others e (pw_out w) (pw_db w) = (u, s)" by force
    have step1: "step (pw_db w) s" "good s" using assms(1,2) that us step_inv unfolding other_users_def stable_def by (metis snd_conv)+
    then have P1: "P w'" if "pw_db w' = s" for w' using assms(2) that \<open>P w\<close> unfolding stable_def by metis
    show ?thesis
    proof (cases "out_outage e u")
      case (Some err)
      then show ?thesis by (simp add: transact_def us Let_def P1)
    next
      case None
      show ?thesis
      proof (cases "f (out_now e u) (out_ctx e u) s")
        case (Inl err)
        with None show ?thesis by (simp add: transact_def us Let_def P1)
      next
        case (Inr xs)
        obtain x s' where xs: "xs = (x, s')" by force
        have l: "step s s' \<and> L x s'" using assms(3) step1(2) Inr xs by blast
        then have "P w'" if "pw_db w' = s'" for w'
          using assms(2) P1 that unfolding stable_def by (metis (no_types) publication_world.select_convs(1))
        with None Inr xs l show ?thesis by (simp add: transact_def us Let_def)
      qed
    qed
  qed
  then show ?thesis by (auto simp: triple_def)
qed

lemma stableD: "stable P \<Longrightarrow> P w \<Longrightarrow> step (pw_db w) (pw_db w') \<Longrightarrow> P w'"
  unfolding stable_def by blast

lemma triple_job: "other_users step good e \<Longrightarrow> stable P \<Longrightarrow> triple P (ask_job e spec) (\<lambda>_. P)"
proof -
  assume e: "other_users step good e" and P: "stable P"
  have "P w'" if "ask_job e spec w = (x, w')" "P w" for w x w'
  proof (rule stableD [OF P that(2)])
    have "good (pw_db w)" using P that(2) by (simp add: stable_def)
    then show "step (pw_db w) (pw_db w')" using e that(1) by (auto simp: ask_job_def other_users_def split: prod.splits) (metis snd_conv)
  qed
  then show ?thesis by (auto simp: triple_def split: prod.splits)
qed

lemma triple_pause: "other_users step good e \<Longrightarrow> stable P \<Longrightarrow> triple P (pause e d) (\<lambda>_. P)"
proof -
  assume e: "other_users step good e" and P: "stable P"
  have "P w'" if "pause e d w = (x, w')" "P w" for w x w'
  proof (rule stableD [OF P that(2)])
    have "good (pw_db w)" using P that(2) by (simp add: stable_def)
    then show "step (pw_db w) (pw_db w')" using e that(1) by (auto simp: pause_def other_users_def split: prod.splits) (metis snd_conv)
  qed
  then show ?thesis by (auto simp: triple_def split: prod.splits)
qed

lemma triple_failure: "triple (on_run s0 rq run) (dependency_failure c run err) (reported s0 rq)"
  unfolding dependency_failure_def by (rule triple_and_run [OF triple_ask [where Q = "\<lambda>_. on_run s0 rq run"] triple_give]) (simp_all add: on_run_reported)

lemma names_simps [simp]:
  "names_run did vid rid (progress_apply p run st) = names_run did vid rid run" "names_run did vid rid (progress_merge p run) = names_run did vid rid run"
  "names_run did vid rid (failed_run run p) = names_run did vid rid run"
  by (simp_all add: names_run_def progress_apply_def progress_merge_def failed_run_def Let_def)

definition asked :: "ReconcileRequest \<Rightarrow> DatasetPublicationRun \<Rightarrow> bool" where
  "asked rq run \<longleftrightarrow> names_run (rq_DatasetID rq) (rq_DatasetVersionID rq) (rq_RunID rq) run"

definition after_call :: "'s \<Rightarrow> ReconcileRequest \<Rightarrow> DatasetPublicationRun \<Rightarrow> (DatasetPublicationRun \<times> bool) result \<Rightarrow> ('w, 's) publication_world \<Rightarrow> bool" where
  "after_call s0 rq run r w \<longleftrightarrow> on_run s0 rq run w \<and> (\<forall>q m. r = Inr (q, m) \<longrightarrow> on_run s0 rq q w)"

lemma triple_call:
  assumes "other_users step good e"
    and "\<And>now ctx s q m s'. good s \<Longrightarrow> f now ctx s = Inr ((q, m), s') \<Longrightarrow>
      step s s' \<and> asked rq q \<and> (run_State q = DatasetVersionReady \<longrightarrow> ready (rq_DatasetID rq) (rq_DatasetVersionID rq) (rq_RunID rq) s')"
  shows "triple (on_run s0 rq run) (transact e c f) (after_call s0 rq run)"
proof (rule triple_conseq [OF triple_transact [OF assms(1) stable_run]])
  show "step s s' \<and> (asked rq (fst x) \<and> (run_State (fst x) = DatasetVersionReady \<longrightarrow> ready (rq_DatasetID rq) (rq_DatasetVersionID rq) (rq_RunID rq) s'))"
    if "good s" "f now ctx s = Inr (x, s')" for now ctx s x s'
    using assms(2) [of s now ctx "fst x" "snd x" s'] that by simp
qed (auto simp: after_call_def on_run_def truthful_def asked_def)

lemma triple_reply:
  "(\<And>err. triple (on_run s0 rq run) (h err) Q) \<Longrightarrow> (\<And>q m. triple (on_run s0 rq q) (g q m) Q) \<Longrightarrow>
   triple (after_call s0 rq run r) (case r of Inl err \<Rightarrow> h err | Inr (q, m) \<Rightarrow> g q m) Q"
  by (cases r) (auto simp: triple_def after_call_def split: prod.splits)

lemma triple_asked: "(asked rq run \<Longrightarrow> triple (on_run s0 rq run) m Q) \<Longrightarrow> triple (on_run s0 rq run) m Q"
  by (rule triple_pure [of _ "asked rq run"]) (auto simp: on_run_def asked_def)

lemma triple_report: "triple (on_run s0 rq run) (give (run, err)) (reported s0 rq)"
  by (rule triple_give) (rule on_run_reported)

lemma triple_clock: "(\<And>t. triple P (f t) Q) \<Longrightarrow> triple P (and_run (now_utc e) f) Q"
  by (rule triple_and_run [OF triple_now [where Q = "\<lambda>_. P"]])

lemma triple_context: "(\<And>ctx. triple P (f ctx) Q) \<Longrightarrow> triple P (and_run (context_now e) f) Q"
  by (rule triple_and_run [OF triple_ask [where Q = "\<lambda>_. P"]])

lemma asked_simps [simp]:
  "asked rq (progress_apply p run st) = asked rq run" "asked rq (progress_merge p run) = asked rq run" "asked rq (failed_run run p) = asked rq run"
  by (simp_all add: asked_def)

lemma triple_swap:
  assumes "ctl_repository c = repo" "other_users step good (ctl_env c)" "asked rq n"
  shows "triple (on_run s0 rq run) (swap_run c rq st n) (after_call s0 rq run)"
  unfolding swap_run_def
  by (intro triple_clock triple_call assms(2)) (use assms(1,3) swap_law in \<open>auto simp: asked_def\<close>)

lemma triple_record:
  assumes "ctl_repository c = repo" "other_users step good (ctl_env c)"
  shows "triple (on_run s0 rq run) (recordActiveProgress c rq run p) (reported s0 rq)"
proof (rule triple_asked)
  let ?n = "progress_merge p run"
  assume n: "asked rq run"
  have call: "triple (on_run s0 rq run) (transact (ctl_env c) (Some (CallProgress (run_State run) ?n))
      (\<lambda>now ctx. rep_UpdateProgress (ctl_repository c) now ctx (rq_TenantID rq) (rq_SuperAdmin rq) (run_State run) ?n (Some t))) (after_call s0 rq run)" for t
    by (rule triple_call [OF assms(2)]) (use assms(1) n progress_law in \<open>auto simp: asked_def\<close>)
  show "triple (on_run s0 rq run) (recordActiveProgress c rq run p) (reported s0 rq)"
    unfolding recordActiveProgress_def Let_def
    by (auto intro!: triple_report triple_clock triple_and_run [OF call] triple_reply triple_failure)
qed

lemma triple_mark:
  assumes "ctl_repository c = repo" "other_users step good (ctl_env c)"
  shows "triple (on_run s0 rq run) (mark_loop c rq p k run) (reported s0 rq)"
proof (induction k arbitrary: run)
  case 0
  show ?case by (simp add: triple_report)
next
  case (Suc k)
  show ?case
  proof (rule triple_asked)
    assume n: "asked rq run"
    show "triple (on_run s0 rq run) (mark_loop c rq p (Suc k) run) (reported s0 rq)"
      by (auto intro!: triple_report triple_and_run [OF triple_swap [OF assms]] triple_reply triple_failure Suc.IH simp: n)
  qed
qed

lemma publicationFailureOutcome_run: "fst (publicationFailureOutcome run err) = run"
  by (simp add: publicationFailureOutcome_def)

lemma triple_give_up:
  assumes "ctl_repository c = repo" "other_users step good (ctl_env c)"
  shows "triple (on_run s0 rq run) (give_up c rq run p err) (reported s0 rq)"
  unfolding give_up_def markFailed_def
  by (rule triple_and_run [OF triple_mark [OF assms]])
    (auto intro!: triple_give simp: reported_def publicationFailureOutcome_run split: prod.splits)

lemma triple_advance:
  assumes "ctl_repository c = repo" "other_users step good (ctl_env c)"
  shows "triple (on_run s0 rq run) (advance_loop c rq target p k run) (reported s0 rq)"
proof (induction k arbitrary: run)
  case 0
  show ?case by (simp add: triple_report)
next
  case (Suc k)
  show ?case
  proof (rule triple_asked)
    assume n: "asked rq run"
    show "triple (on_run s0 rq run) (advance_loop c rq target p (Suc k) run) (reported s0 rq)"
      by (auto intro!: triple_report triple_record [OF assms] triple_give_up [OF assms] triple_and_run [OF triple_swap [OF assms]] triple_reply triple_failure
          Suc.IH simp: n Let_def split: option.splits)
  qed
qed

lemma triple_finish:
  assumes "ctl_repository c = repo" "other_users step good (ctl_env c)"
  shows "triple (reported s0 rq out) (finish_run c rq p receipt out) (reported s0 rq)"
proof -
  have "triple (on_run s0 rq (fst out)) (finish_run c rq p receipt out) (reported s0 rq)"
  proof (rule triple_asked)
    let ?n = "progress_apply p (fst out) DatasetVersionReady"
    assume n: "asked rq (fst out)"
    have call: "triple (on_run s0 rq (fst out)) (transact (ctl_env c) (Some (CallFinalize st ?n receipt))
        (\<lambda>now ctx. rep_Finalize (ctl_repository c) now ctx (rq_TenantID rq) (rq_SuperAdmin rq) st ?n receipt pre (Some t)))
        (after_call s0 rq (fst out))" for t pre st
      by (rule triple_call [OF assms(2)]) (use assms(1) n finalize_law in \<open>auto simp: asked_def\<close>)
    have last: "triple (on_run s0 rq q) (give (if \<not> m then publicationFailureOutcome q err else (q, None))) (reported s0 rq)" for q m err
      by (rule triple_give) (simp add: reported_def publicationFailureOutcome_run)
    have same: "triple (on_run s0 rq (fst out)) (give out) (reported s0 rq)"
      by (rule triple_give) (simp add: reported_def)
    show "triple (on_run s0 rq (fst out)) (finish_run c rq p receipt out) (reported s0 rq)"
      unfolding finish_run_def Let_def
      using same by (auto intro!: triple_report triple_clock triple_and_run [OF call] triple_reply triple_failure last split del: if_split split: if_splits)
  qed
  then show ?thesis by (simp add: reported_def triple_def)
qed

lemma triple_apply:
  assumes "ctl_repository c = repo" "other_users step good (ctl_env c)"
  shows "triple (on_run s0 rq run) (applyJobStatus c rq run status) (reported s0 rq)"
  unfolding applyJobStatus_def advanceTo_def
  by (auto intro!: triple_report triple_record [OF assms] triple_give_up [OF assms] triple_advance [OF assms]
      triple_and_run [OF triple_advance [OF assms]] triple_finish [OF assms] split: PublicationJobPhase.splits option.splits)

lemma triple_ensure:
  assumes "other_users step good (ctl_env c)"
  shows "triple (on_run s0 rq run) (ensure_loop c spec k d) (\<lambda>_. on_run s0 rq run)"
proof (induction k arbitrary: d)
  case 0
  show ?case by (auto intro: triple_give)
next
  case (Suc k)
  show ?case
    by (auto intro!: triple_give triple_context triple_and_run [OF triple_job [OF assms stable_run]] triple_and_run [OF triple_pause [OF assms stable_run]] Suc.IH
        split: option.splits sum.splits)
qed

lemma triple_drive:
  assumes "ctl_repository c = repo" "other_users step good (ctl_env c)"
  shows "triple (on_run s0 rq run) (drive_job c rq run) (reported s0 rq)"
  unfolding drive_job_def ensurePublicationJob_def
  by (auto intro!: triple_report triple_context triple_apply [OF assms] triple_and_run [OF triple_ensure [OF assms(2)]] split: sum.splits)

lemma reported_answered: "reported s0 rq out w \<Longrightarrow> answered s0 rq out w"
  by (simp add: reported_def answered_def on_run_def)

lemma triple_answered: "triple P m (reported s0 rq) \<Longrightarrow> triple P m (answered s0 rq)"
  by (erule triple_conseq) (auto intro: reported_answered)

lemma triple_no_run: "triple (on_path s0) (give (no_run, err)) (answered s0 rq)"
  by (rule triple_give) (simp add: answered_def truthful_def no_run_def)

lemma triple_no_run_failure: "triple (on_path s0) (dependency_failure c no_run err) (answered s0 rq)"
  unfolding dependency_failure_def by (intro triple_context triple_no_run)

lemma triple_fenced:
  assumes "ctl_repository c = repo" "other_users step good (ctl_env c)"
  shows "triple (on_path s0) (reconcileFenced c rq) (answered s0 rq)"
proof -
  let ?initial = "(new_run (rq_DatasetID rq) (rq_DatasetVersionID rq) (rq_RunID rq))\<lparr>run_ExecutionMode := executionMode (ctl_options c)\<rparr>"
  have named: "names_run (rq_DatasetID rq) (rq_DatasetVersionID rq) (rq_RunID rq) ?initial" by (simp add: names_run_def new_run_def)
  have ensured: "triple (on_path s0) (transact (ctl_env c) (Some (CallEnsure ?initial))
      (\<lambda>now ctx. rep_Ensure (ctl_repository c) now ctx (rq_TenantID rq) (rq_SuperAdmin rq) ?initial))
      (\<lambda>r w. on_path s0 w \<and> (\<forall>q. r = Inr q \<longrightarrow> asked rq q \<and>
        (run_State q = DatasetVersionReady \<longrightarrow> ready (rq_DatasetID rq) (rq_DatasetVersionID rq) (rq_RunID rq) (pw_db w))))"
    by (rule triple_transact [OF assms(2) stable_path]) (use ensure_law [OF _ _ named] assms(1) in \<open>auto simp: asked_def\<close>)
  have claimed: "triple (on_run s0 rq run) (transact (ctl_env c) (Some CallClaim)
      (\<lambda>now ctx. rep_Claim (ctl_repository c) now ctx (rq_TenantID rq) (rq_SuperAdmin rq) (rq_DatasetID rq) (rq_DatasetVersionID rq) (rq_RunID rq) (Some t)))
      (after_call s0 rq run)" for run t
    by (rule triple_call [OF assms(2)]) (use claim_law assms(1) in \<open>auto simp: asked_def\<close>)
  have lost: "triple (on_run s0 rq run) (dependency_failure c no_run err) (answered s0 rq)" for run err
    by (rule triple_conseq [OF triple_no_run_failure]) (auto simp: on_run_def)
  have driven: "triple (on_run s0 rq q) (if \<not> m then give (q, None) else drive_job c rq q) (answered s0 rq)" for q m
    by (simp add: triple_answered [OF triple_report] triple_answered [OF triple_drive [OF assms]])
  have rest: "triple (on_run s0 rq q)
      (if run_State q = DatasetVersionReady then give (q, None) else if run_State q = DatasetVersionFailed then give (q, Some ErrPublicationJobFailed)
       else if run_State q = DatasetVersionDiscovering then
            and_run (now_utc (ctl_env c)) (\<lambda>t.
            and_run (transact (ctl_env c) (Some CallClaim)
              (\<lambda>now ctx. rep_Claim (ctl_repository c) now ctx (rq_TenantID rq) (rq_SuperAdmin rq)
                 (rq_DatasetID rq) (rq_DatasetVersionID rq) (rq_RunID rq) (Some t))) (\<lambda>r2.
            case r2 of
              Inl err \<Rightarrow> dependency_failure c no_run err
            | Inr (claimedRun, claimed) \<Rightarrow> if \<not> claimed then give (claimedRun, None) else drive_job c rq claimedRun))
       else drive_job c rq q) (answered s0 rq)" for q
    by (auto intro!: triple_clock triple_and_run [OF claimed] triple_reply lost driven triple_answered [OF triple_report] triple_answered [OF triple_drive [OF assms]]
        simp del: not_not split del: if_split split: if_splits)
  show ?thesis
    unfolding reconcileFenced_def Let_def
  proof (rule triple_and_run [OF ensured], goal_cases)
    case (1 r)
    show ?case
    proof (cases r)
      case (Inl err)
      then show ?thesis by (auto intro!: triple_conseq [OF triple_no_run_failure [of s0 c err rq]])
    next
      case (Inr q)
      show ?thesis unfolding Inr sum.case by (rule triple_conseq [OF rest [of q]]) (auto simp: on_run_def truthful_def asked_def Inr)
    qed
  qed
qed

theorem triple_reconcile:
  assumes "ctl_repository c = repo" "other_users step good (ctl_env c)"
  shows "triple (on_path s0) (Reconcile c rq) (answered s0 rq)"
proof -
  have fence: "triple (on_path s0) (transact (ctl_env c) None
      (\<lambda>now ctx s. case check (rq_DatasetID rq) (rq_DatasetVersionID rq) s of Some e \<Rightarrow> Inl e | None \<Rightarrow> Inr ((), s))) (\<lambda>_. on_path s0)" for check
    by (rule triple_conseq [OF triple_transact [OF assms(2) stable_path, where L = "\<lambda>_ _. True"]]) (auto simp: step_refl split: option.splits)
  have commit: "triple (answered s0 rq (result, reconcileErr)) (\<lambda>w.
                 if \<exists>y. reconcileErr = Some y then ((result, reconcileErr), w)
                 else case out_commit (ctl_env c) (pw_out w) of
                   Some err \<Rightarrow> dependency_failure c result err w
                 | None \<Rightarrow> ((result, None), w)) (answered s0 rq)" for result reconcileErr
    by (auto simp: triple_def answered_def dependency_failure_def and_run_def context_now_def give_def split: prod.splits option.splits)
  show ?thesis
    unfolding Reconcile_def
    by (auto intro!: triple_context triple_no_run triple_no_run_failure triple_fenced [OF assms] triple_and_run [OF fence]
        triple_and_run [OF triple_fenced [OF assms]] commit split: option.splits sum.splits)
qed

end

subsection \<open>The catalogue as the repository\<close>

definition run_ready_in :: "string \<Rightarrow> string \<Rightarrow> string \<Rightarrow> catalogue \<Rightarrow> bool" where
  "run_ready_in did vid rid db \<longleftrightarrow> (\<exists>r \<in> set (cat_runs db). names_run did vid rid (stored_run r) \<and> prr_State r = DatasetVersionReady)"

definition run_in :: "string \<Rightarrow> string \<Rightarrow> string \<Rightarrow> DatasetPublicationRun \<Rightarrow> catalogue \<Rightarrow> bool" where
  "run_in did vid rid q db \<longleftrightarrow> names_run did vid rid q \<and> (\<exists>r \<in> set (cat_runs db). q = stored_run r)"

lemma run_in_ready: "run_in did vid rid q db \<Longrightarrow> names_run did vid rid q \<and> (run_State q = DatasetVersionReady \<longrightarrow> run_ready_in did vid rid db)"
  by (auto simp: run_in_def run_ready_in_def)

lemma manageable_run_in: "getManageableDatasetPublicationRunRecord tenant super did vid rid db = Inr r \<Longrightarrow> run_in did vid rid (stored_run r) db"
  using manageable_run_row by (auto simp: run_in_def names_run_def)

lemma get_run_in: "GetDatasetPublicationRun ctx tenant super did vid rid db = Inr q \<Longrightarrow> run_in did vid rid q db"
  by (auto simp: GetDatasetPublicationRun_def getDatasetPublicationRunRecord_def getDatasetPublicationRunRecordWithScope_def run_in_def names_run_def
      dest!: select_first_in split: sum.splits option.splits if_splits)

lemma conclude_run_in:
  assumes "conclude ctx tenant super did vid rid db x = Inr ((q, moved), db')"
  obtains "run_in did vid rid q db" "db' = db" "\<not> moved" | "x = Inr ((q, moved), db')"
proof (cases x)
  case (Inl e)
  then have "run_in did vid rid q db \<and> db' = db \<and> \<not> moved" using assms by (auto simp: conclude_def dest: get_run_in split: if_splits)
  then show ?thesis using that(1) by blast
next
  case (Inr y)
  then have "x = Inr ((q, moved), db')" using assms by (simp add: conclude_def)
  then show ?thesis by (rule that(2))
qed

lemma unmoved_run_in:
  assumes "conclude ctx tenant super did vid rid db (and_then (current_run tenant super did vid rid db) (\<lambda>(r, current).
      if b current then Inr ((current, False), db) else k r current)) = Inr ((q, False), db')"
    and "\<And>r c x m d. k r c = Inr ((x, m), d) \<Longrightarrow> m"
  shows "run_in did vid rid q db'"
  using assms(1)
proof (cases rule: conclude_run_in)
  case 2
  then show ?thesis by (auto simp: manageable_run_in dest: assms(2) split: if_splits)
qed simp

lemma refused_Inr: "(if b then Inl e else r) = Inr y \<longleftrightarrow> \<not> b \<and> r = Inr y" "(if b then and_then x (\<lambda>c. Inl e) else r) = Inr y \<longleftrightarrow> \<not> b \<and> r = Inr y"
  by auto

lemma claim_unmoved:
  assumes "ClaimDatasetPublicationRun now ctx tenant super did vid rid at db = Inr ((q, False), db')" shows "run_in did vid rid q db'"
  using assms unfolding ClaimDatasetPublicationRun_def Let_def or_fail_Inr refused_Inr by (elim conjE, elim unmoved_run_in) (auto split: if_splits)

lemma swap_unmoved:
  assumes "CompareAndSwapDatasetPublicationRun now ctx tenant super st n at db = Inr ((q, False), db')"
  shows "run_in (run_DatasetID n) (run_DatasetVersionID n) (run_ID n) q db'"
  using assms unfolding CompareAndSwapDatasetPublicationRun_def Let_def or_fail_Inr refused_Inr by (elim conjE, elim unmoved_run_in) (auto split: if_splits)

lemma report_unmoved:
  assumes "UpdateDatasetPublicationRunProgress now ctx tenant super st n at db = Inr ((q, False), db')"
  shows "run_in (run_DatasetID n) (run_DatasetVersionID n) (run_ID n) q db'"
  using assms unfolding UpdateDatasetPublicationRunProgress_def Let_def or_fail_Inr refused_Inr by (elim conjE, elim unmoved_run_in) (auto split: if_splits prod.splits)

lemma finalize_unmoved:
  assumes "FinalizeDatasetPublicationRun now ctx tenant super st n receipt pre at db = Inr ((q, False), db')"
  shows "run_in (run_DatasetID n) (run_DatasetVersionID n) (run_ID n) q db'"
  using assms unfolding FinalizeDatasetPublicationRun_def Let_def or_fail_Inr refused_Inr by (elim conjE, elim unmoved_run_in) (auto split: if_splits)

lemma finalized_row:
  assumes "FinalizeDatasetPublicationRun now ctx tenant super st n receipt pre at db = Inr ((q, True), db')"
  shows "q = n \<and> run_ready_in (run_DatasetID n) (run_DatasetVersionID n) (run_ID n) db'"
  using assms
proof (cases rule: finalize_cases)
  case (2 r version t)
  obtain db1 where u: "update_runs (at_run (run_DatasetID n) (run_DatasetVersionID n) (run_ID n) st) (publicationRunUpdates n t) db1 = (1, db')"
    using 2(16) by (auto simp: update_both_def Let_def split: prod.splits if_splits)
  then obtain x where x: "x \<in> set (cat_runs db1)" "live_run x" "at_run (run_DatasetID n) (run_DatasetVersionID n) (run_ID n) st x"
    using count_one [of "\<lambda>r. live_run r \<and> at_run (run_DatasetID n) (run_DatasetVersionID n) (run_ID n) st r" "cat_runs db1"] by (auto simp: update_runs_def)
  then have "publicationRunUpdates n t x \<in> set (cat_runs db')" using u by (force simp: update_runs_def update_where_def)
  then show ?thesis using x 2(2,5)
    unfolding run_ready_in_def by (intro conjI bexI [of _ "publicationRunUpdates n t x"]) (auto simp: names_run_def at_run_def stored_progress)
qed simp

lemma existing_run_in: "existing_run tenant super r existing db = Inr q \<Longrightarrow> run_in (run_DatasetID r) (run_DatasetVersionID r) (run_ID r) q db"
  by (auto simp: existing_run_def manageable_run_in split: if_splits sum.splits)

lemma ensured_row:
  assumes "EnsureDatasetPublicationRun now ctx tenant super r db = Inr (q, db')"
  shows "run_in (run_DatasetID r) (run_DatasetVersionID r) (run_ID r) q db' \<or> q = r \<and> run_State r = DatasetVersionDiscovering"
proof (cases "select_first (\<lambda>x. prr_ID x = run_ID r) (cat_runs db)")
  case None
  then show ?thesis using assms by (auto simp: EnsureDatasetPublicationRun_def case_sum_Inr map_sum_Inr split: if_splits prod.splits)
next
  case (Some existing)
  then show ?thesis using assms by (auto simp: EnsureDatasetPublicationRun_def map_sum_Inr dest: existing_run_in split: if_splits)
qed

lemma run_ready_kept:
  assumes "catalogue_keys db" "life_inv (life_of db)" "catalogue_step\<^sup>*\<^sup>* db db'" "run_ready_in did vid rid db"
  shows "run_ready_in did vid rid db'"
proof -
  obtain r where r: "r \<in> set (cat_runs db)" "names_run did vid rid (stored_run r)" "prr_State r = DatasetVersionReady" using assms(4) by (auto simp: run_ready_in_def)
  from kept_run_row [OF assms(3,1,2) r(1)] r(3) have "l_run (life_of db') (prr_ID r) = Some (stored_run r, live_run r)" by (auto simp: run_kept_def)
  then obtain r' where r': "r' \<in> set (cat_runs db')" "stored_run r' = stored_run r" by (auto simp: life_of_def dest!: select_first_in)
  then have "prr_State r' = DatasetVersionReady" using r(3) by (metis stored_ids(7))
  then show ?thesis using r r' by (auto simp: run_ready_in_def intro!: bexI [of _ r'])
qed

interpretation catalogue_repo: publication_repository catalogue_repository "catalogue_step\<^sup>*\<^sup>*"
  "\<lambda>db. catalogue_keys db \<and> life_inv (life_of db)" run_ready_in
proof (unfold_locales, goal_cases)
  case (1 s)
  show ?case by simp
next
  case (2 s t u)
  then show ?case by simp
next
  case (3 s t)
  then show ?case using catalogue.sim_inv by blast
next
  case (4 s t did vid rid)
  then show ?case using run_ready_kept by blast
next
  case (5 now ctx tenant super r s q s' did vid rid)
  then have e: "EnsureDatasetPublicationRun now ctx tenant super r s = Inr (q, s')" by (simp add: catalogue_repository_def)
  show ?case using ensured_row [OF e] 5(3) catalogue_step.ensure [OF e] run_in_ready by (auto simp: names_run_def)
next
  case (6 now ctx tenant super did vid rid at s q moved s')
  then have e: "ClaimDatasetPublicationRun now ctx tenant super did vid rid at s = Inr ((q, moved), s')" by (simp add: catalogue_repository_def)
  have "names_run did vid rid q \<and> (run_State q = DatasetVersionReady \<longrightarrow> run_ready_in did vid rid s')"
    using e
  proof (cases rule: claim_cases)
    case 1
    then show ?thesis using claim_unmoved [of now ctx tenant super did vid rid at s q s'] e run_in_ready by simp
  next
    case (2 r version t)
    then show ?thesis using manageable_run_row [OF 2(2)] by (simp add: names_run_def)
  qed
  then show ?case using catalogue_step.claim [OF e] by blast
next
  case (7 now ctx tenant super st n at s q moved s' did vid rid)
  then have e: "CompareAndSwapDatasetPublicationRun now ctx tenant super st n at s = Inr ((q, moved), s')" by (simp add: catalogue_repository_def)
  have "names_run did vid rid q \<and> (run_State q = DatasetVersionReady \<longrightarrow> run_ready_in did vid rid s')"
    using e
  proof (cases rule: swap_cases)
    case 1
    then show ?thesis using swap_unmoved [of now ctx tenant super st n at s q s'] e run_in_ready 7(3) by (simp add: names_run_def)
  next
    case (2 r version t)
    then show ?thesis using 7(3) by simp
  qed
  then show ?case using catalogue_step.swap [OF e] by blast
next
  case (8 now ctx tenant super st n at s q moved s' did vid rid)
  then have e: "UpdateDatasetPublicationRunProgress now ctx tenant super st n at s = Inr ((q, moved), s')" by (simp add: catalogue_repository_def)
  have "names_run did vid rid q \<and> (run_State q = DatasetVersionReady \<longrightarrow> run_ready_in did vid rid s')"
    using e
  proof (cases rule: report_cases)
    case 1
    then show ?thesis using report_unmoved [of now ctx tenant super st n at s q s'] e run_in_ready 8(3) by (simp add: names_run_def)
  next
    case (2 r version t)
    then show ?thesis using 8(3) by (auto simp: activeDatasetPublicationState_def)
  qed
  then show ?case using catalogue_step.report [OF e] by blast
next
  case (9 now ctx tenant super st n receipt pre at s q moved s' did vid rid)
  then have e: "FinalizeDatasetPublicationRun now ctx tenant super st n receipt pre at s = Inr ((q, moved), s')" by (simp add: catalogue_repository_def)
  have "names_run did vid rid q \<and> (run_State q = DatasetVersionReady \<longrightarrow> run_ready_in did vid rid s')"
  proof (cases moved)
    case True
    then show ?thesis using finalized_row [of now ctx tenant super st n receipt pre at s q s'] e 9(3) by (simp add: names_run_def)
  next
    case False
    then show ?thesis using finalize_unmoved [of now ctx tenant super st n receipt pre at s q s'] e run_in_ready 9(3) by (simp add: names_run_def)
  qed
  then show ?case using catalogue_step.finalize [OF e] by blast
qed

end
