(* ===== verification/Publisher_Properties.thy ===== *)
theory Publisher_Properties
  imports Publisher_Safety
begin

section \<open>Properties of the publication controller\<close>

text \<open>
  \<open>spends\<close> bounds the calls a program logs, by kind; one pass over the code of the controller gives the bound on a whole reconciliation and
  shows which calls can finalize a run. The properties of the manifest follow, with a sample controller for their witnesses.
\<close>

subsection \<open>The calls of a program\<close>

fun is_job :: "publication_call \<Rightarrow> bool" where
  "is_job (CallJob spec r) = True"
| "is_job _ = False"

fun is_wait :: "publication_call \<Rightarrow> bool" where
  "is_wait (CallWait d) = True"
| "is_wait _ = False"

fun is_finalize :: "publication_call \<Rightarrow> bool" where
  "is_finalize (CallFinalize st n receipt) = True"
| "is_finalize _ = False"

definition is_store :: "publication_call \<Rightarrow> bool" where
  "is_store c \<longleftrightarrow> \<not> is_job c \<and> \<not> is_wait c"

definition calls_of :: "(publication_call \<Rightarrow> bool) \<Rightarrow> publication_call list \<Rightarrow> nat" where
  "calls_of p l = length (filter p l)"

lemma calls_of_simps [simp]: "calls_of p [] = 0" "calls_of p (l @ l') = calls_of p l + calls_of p l'" "calls_of p [c] = (if p c then 1 else 0)"
  by (simp_all add: calls_of_def)

definition logs :: "('w, 's, 'a) publication_prog \<Rightarrow> ('a \<Rightarrow> publication_call list \<Rightarrow> bool) \<Rightarrow> bool" where
  "logs m Q \<longleftrightarrow> (\<forall>w. \<exists>l. pw_calls (snd (m w)) = pw_calls w @ l \<and> Q (fst (m w)) l)"

lemma logs_give: "Q x [] \<Longrightarrow> logs (give x) Q"
  by (simp add: logs_def give_def)

lemma logs_silent: "logs (context_now e) (\<lambda>_ l. l = [])" "logs (now_utc e) (\<lambda>_ l. l = [])"
  by (simp_all add: logs_def context_now_def now_utc_def)

lemma logs_and_run:
  assumes "logs m Q" "\<And>x. logs (f x) (R x)" "\<And>x y l l'. Q x l \<Longrightarrow> R x y l' \<Longrightarrow> S y (l @ l')"
  shows "logs (and_run m f) S"
  unfolding logs_def
proof
  fix w
  obtain x w1 where m: "m w = (x, w1)" by force
  obtain l where l: "pw_calls w1 = pw_calls w @ l" "Q x l" using assms(1) m unfolding logs_def by (metis fst_conv snd_conv)
  obtain l' where l': "pw_calls (snd (f x w1)) = pw_calls w1 @ l'" "R x (fst (f x w1)) l'" using assms(2) unfolding logs_def by blast
  have "pw_calls (snd (and_run m f w)) = pw_calls w @ (l @ l') \<and> S (fst (and_run m f w)) (l @ l')"
    using m l(1) l'(1) assms(3) [OF l(2) l'(2)] by (simp add: and_run_def)
  then show "\<exists>l. pw_calls (snd (and_run m f w)) = pw_calls w @ l \<and> S (fst (and_run m f w)) l" by blast
qed

lemma logs_conseq: "logs m Q \<Longrightarrow> (\<And>x l. Q x l \<Longrightarrow> R x l) \<Longrightarrow> logs m R"
  unfolding logs_def by blast

lemma logs_transact: "logs (transact e c f) (\<lambda>_ l. l = (case c of None \<Rightarrow> [] | Some x \<Rightarrow> [x]))"
  by (auto simp: logs_def transact_def Let_def split: prod.splits option.splits sum.splits)

lemma logs_job: "logs (ask_job e spec) (\<lambda>r l. l = [CallJob spec r])"
  by (auto simp: logs_def ask_job_def split: prod.splits)

lemma logs_pause: "logs (pause e d) (\<lambda>_ l. l = [CallWait d])"
  by (auto simp: logs_def pause_def split: prod.splits)

text \<open>At most \<open>j\<close> calls of the job client, \<open>k\<close> waits of at most \<open>most\<close>, \<open>s\<close> calls of the repository, \<open>f\<close> of them finalizations.\<close>

definition within :: "int \<Rightarrow> nat \<Rightarrow> nat \<Rightarrow> nat \<Rightarrow> nat \<Rightarrow> publication_call list \<Rightarrow> bool" where
  "within most j k s f l \<longleftrightarrow> calls_of is_job l \<le> j \<and> calls_of is_wait l \<le> k \<and> calls_of is_store l \<le> s \<and> calls_of is_finalize l \<le> f \<and>
     (\<forall>d. CallWait d \<in> set l \<longrightarrow> 0 \<le> d \<and> d \<le> most)"

definition spends :: "int \<Rightarrow> nat \<Rightarrow> nat \<Rightarrow> nat \<Rightarrow> nat \<Rightarrow> ('w, 's, 'a) publication_prog \<Rightarrow> bool" where
  "spends most j k s f m \<longleftrightarrow> logs m (\<lambda>_. within most j k s f)"

lemma within_append: "within most j k s f l \<Longrightarrow> within most j' k' s' f' l' \<Longrightarrow> within most (j + j') (k + k') (s + s') (f + f') (l @ l')"
  by (auto simp: within_def)

lemma within_mono: "within most j k s f l \<Longrightarrow> j \<le> j' \<Longrightarrow> k \<le> k' \<Longrightarrow> s \<le> s' \<Longrightarrow> f \<le> f' \<Longrightarrow> within most j' k' s' f' l"
  by (auto simp: within_def)

lemma within_Nil [simp]: "within most j k s f []"
  by (simp add: within_def)

lemma spends_mono: "spends most j k s f m \<Longrightarrow> j \<le> j' \<Longrightarrow> k \<le> k' \<Longrightarrow> s \<le> s' \<Longrightarrow> f \<le> f' \<Longrightarrow> spends most j' k' s' f' m"
  unfolding spends_def by (erule logs_conseq) (rule within_mono)

lemma spends_give [intro]: "spends most j k s f (give x)"
  by (simp add: spends_def logs_give)

lemma spends_and_run: "spends most j k s f m \<Longrightarrow> (\<And>x. spends most j' k' s' f' (g x)) \<Longrightarrow> spends most (j + j') (k + k') (s + s') (f + f') (and_run m g)"
  unfolding spends_def by (rule logs_and_run, assumption, assumption, rule within_append)

lemma spends_silent: "(\<And>x. spends most j k s f (g x)) \<Longrightarrow> spends most j k s f (and_run (context_now e) g)"
  "(\<And>x. spends most j k s f (h x)) \<Longrightarrow> spends most j k s f (and_run (now_utc e) h)"
  unfolding spends_def by (rule logs_and_run [OF logs_silent(1)] logs_and_run [OF logs_silent(2)], assumption, simp)+

lemma spends_store: "is_store c \<Longrightarrow> \<not> is_finalize c \<Longrightarrow> spends most 0 0 1 0 (transact e (Some c) h)"
  unfolding spends_def by (rule logs_conseq [OF logs_transact]) (auto simp: within_def is_store_def)

lemma spends_fence: "spends most 0 0 0 0 (transact e None h)"
  unfolding spends_def by (rule logs_conseq [OF logs_transact]) simp

lemma spends_finalize: "spends most 0 0 1 1 (transact e (Some (CallFinalize st n receipt)) h)"
  unfolding spends_def by (rule logs_conseq [OF logs_transact]) (simp add: within_def is_store_def)

lemma spends_job: "spends most 1 0 0 0 (ask_job e spec)"
  unfolding spends_def by (rule logs_conseq [OF logs_job]) (simp add: within_def is_store_def)

lemma spends_pause: "0 \<le> d \<Longrightarrow> d \<le> most \<Longrightarrow> spends most 0 1 0 0 (pause e d)"
  unfolding spends_def by (rule logs_conseq [OF logs_pause]) (simp add: within_def is_store_def)

subsection \<open>The calls of a reconciliation\<close>

lemma spends_failure: "spends most j k s f (dependency_failure c run err)"
  unfolding dependency_failure_def by (intro spends_silent spends_give)

lemma spends_swap: "spends most 0 0 1 0 (swap_run c rq st n)"
  unfolding swap_run_def by (intro spends_silent spends_store) (simp_all add: is_store_def)

lemma spends_then:
  "spends most 0 0 1 0 m \<Longrightarrow> (\<And>err. spends most j k s f (h err)) \<Longrightarrow> (\<And>q b. spends most j k s f (g q b)) \<Longrightarrow>
   spends most j k (Suc s) f (and_run m (\<lambda>r. case r of Inl err \<Rightarrow> h err | Inr (q, b) \<Rightarrow> g q b))"
  using spends_and_run [of most 0 0 1 0 m j k s f "\<lambda>r. case r of Inl err \<Rightarrow> h err | Inr (q, b) \<Rightarrow> g q b"] by (auto split: sum.splits prod.splits)

lemma spends_progress: "spends most 0 0 1 0 (transact e (Some (CallProgress st n)) h)"
  by (rule spends_store) (simp_all add: is_store_def)

lemma spends_record: "spends most 0 0 1 0 (recordActiveProgress c rq run p)"
  unfolding recordActiveProgress_def Let_def One_nat_def
  by (auto intro!: spends_give spends_silent spends_failure spends_then spends_progress [unfolded One_nat_def])

lemma spends_mark: "spends most 0 0 k 0 (mark_loop c rq p k run)"
proof (induction k arbitrary: run)
  case (Suc k)
  then show ?case by (auto intro!: spends_give spends_then spends_swap spends_failure)
qed (simp add: spends_give)

lemma spends_give_up: "spends most 0 0 3 0 (give_up c rq run p err)"
  unfolding give_up_def markFailed_def using spends_and_run [OF spends_mark [of most 3] spends_give [of most 0 0 0 0]] by (simp add: case_prod_unfold)

lemma spends_advance: "spends most 0 0 (k + 2) 0 (advance_loop c rq target p k run)"
proof (induction k arbitrary: run)
  case (Suc k)
  then show ?case
    by (auto intro!: spends_give spends_then spends_swap spends_failure spends_mono [OF spends_record] spends_mono [OF spends_give_up] simp: Let_def split: option.splits)
qed (simp add: spends_give)

lemma spends_finalize_then:
  "(\<And>r. spends most 0 0 0 0 (g r)) \<Longrightarrow> spends most 0 0 1 1 (and_run (transact e (Some (CallFinalize st n receipt)) h) g)"
  using spends_and_run [OF spends_finalize] by fastforce

lemma spends_finish: "spends most 0 0 1 1 (finish_run c rq p receipt out)"
  unfolding finish_run_def Let_def by (auto intro!: spends_give spends_silent spends_failure spends_finalize_then simp del: One_nat_def split: sum.splits)

definition finalizing :: "('w, 's) Controller \<Rightarrow> ReconcileRequest \<Rightarrow> PublicationJobStatus \<Rightarrow> nat" where
  "finalizing c rq status = (if st_Phase status = PublicationJobSucceeded \<and> reported_complete (st_Progress status) \<and>
     (\<exists>receipt. st_Receipt status = Some receipt \<and> validReceipt c rq receipt) then 1 else 0)"

lemma spends_apply: "spends most 0 0 6 (finalizing c rq status) (applyJobStatus c rq run status)"
proof -
  have adv: "spends most 0 0 5 0 (advanceTo c rq run target p)" for target p
    using spends_advance [of most 3] by (simp add: advanceTo_def)
  have fin: "spends most 0 0 6 1 (and_run (advanceTo c rq run DatasetVersionPacking p) (finish_run c rq p receipt))" for p receipt
    using spends_and_run [OF adv spends_finish] by simp
  show ?thesis
    unfolding applyJobStatus_def finalizing_def
    using fin by (auto intro!: spends_give spends_mono [OF adv] spends_mono [OF spends_record] spends_mono [OF spends_give_up]
        split: PublicationJobPhase.splits option.splits)
qed

lemma next_delay:
  assumes "0 \<le> d" "d \<le> most" "most < 2 ^ 63"
  shows "0 \<le> nextPublicationRetryDelay d most \<and> nextPublicationRetryDelay d most \<le> most"
proof -
  have "int64 (most - d) = most - d" "d \<le> most - d \<Longrightarrow> int64 (d * 2) = d * 2" using assms by (auto intro!: int64_exact simp: in_int64_def)
  then show ?thesis using assms by (auto simp: nextPublicationRetryDelay_def)
qed

lemma spends_job_then: "(\<And>r. spends most j k s f (g r)) \<Longrightarrow> spends most (Suc j) k s f (and_run (ask_job e spec) g)"
  using spends_and_run [OF spends_job] by fastforce

lemma spends_pause_then: "0 \<le> d \<Longrightarrow> d \<le> most \<Longrightarrow> (\<And>r. spends most j k s f (g r)) \<Longrightarrow> spends most j (Suc k) s f (and_run (pause e d) g)"
  using spends_and_run [OF spends_pause] by fastforce

lemma spends_ensure:
  assumes "co_MaximumRetryBackoff (ctl_options c) = most" "most < 2 ^ 63" "0 \<le> d" "d \<le> most"
  shows "spends most k (k - 1) 0 0 (ensure_loop c spec k d)"
  using assms(3,4)
proof (induction k arbitrary: d)
  case (Suc k)
  let ?d = "nextPublicationRetryDelay d (co_MaximumRetryBackoff (ctl_options c))"
  have again: "spends most k (k - 1) 0 0 (ensure_loop c spec k ?d)" using Suc next_delay [of d most] assms(1,2) by simp
  have wait: "spends most k k 0 0 (and_run (pause (ctl_env c) d) (\<lambda>waited. and_run (context_now (ctl_env c)) (\<lambda>ctx2.
      case waited of Some werr \<Rightarrow> give (h ctx2 werr) | None \<Rightarrow> ensure_loop c spec k ?d)))" if "k \<noteq> 0" for h
  proof -
    obtain i where i: "k = Suc i" using \<open>k \<noteq> 0\<close> by (cases k) auto
    show ?thesis unfolding i using Suc.prems again [unfolded i]
      by (intro spends_pause_then spends_silent) (auto simp del: ensure_loop.simps split: option.splits)
  qed
  show ?case by (auto intro!: spends_give spends_silent spends_job_then wait split: option.splits sum.splits)
qed (simp add: spends_give)

lemma spends_drive:
  assumes "co_MaximumRetryBackoff (ctl_options c) = most" "most < 2 ^ 63" "0 \<le> co_InitialRetryBackoff (ctl_options c)" "co_InitialRetryBackoff (ctl_options c) \<le> most"
    "nat (co_ClientMaxAttempts (ctl_options c)) = k"
  shows "spends most k (k - 1) 6 1 (drive_job c rq run)"
proof -
  have status: "spends most 0 0 6 1 (applyJobStatus c rq run status)" for status
    by (rule spends_mono [OF spends_apply]) (simp_all add: finalizing_def)
  have job: "spends most k (k - 1) 6 1 (and_run (ensurePublicationJob c spec) g)" if "\<And>r. spends most 0 0 6 1 (g r)" for spec
    and g :: "PublicationJobStatus result \<Rightarrow> ('a, 'b, run_outcome) publication_prog"
    using spends_and_run [OF spends_ensure [OF assms(1-4)] that] by (simp add: ensurePublicationJob_def assms(5))
  show ?thesis
    unfolding drive_job_def by (auto intro!: spends_give spends_silent job status simp del: One_nat_def split: sum.splits)
qed

lemma spends_store_then: "is_store c \<Longrightarrow> \<not> is_finalize c \<Longrightarrow> 1 \<le> s \<Longrightarrow> (\<And>r. spends most j k (s - 1) f (g r)) \<Longrightarrow>
   spends most j k s f (and_run (transact e (Some c) h) g)"
  using spends_and_run [OF spends_store, of c most j k "s - 1" f] by fastforce

lemma spends_fenced:
  assumes "co_MaximumRetryBackoff (ctl_options c) = most" "most < 2 ^ 63" "0 \<le> co_InitialRetryBackoff (ctl_options c)" "co_InitialRetryBackoff (ctl_options c) \<le> most"
    "nat (co_ClientMaxAttempts (ctl_options c)) = k"
  shows "spends most k (k - 1) 8 1 (reconcileFenced c rq)"
proof -
  have drive: "spends most k (k - 1) s 1 (drive_job c rq run)" if "6 \<le> s" for run s
    using spends_mono [OF spends_drive [OF assms]] that by simp
  show ?thesis
    unfolding reconcileFenced_def Let_def
    by (auto intro!: spends_store_then spends_silent spends_give spends_failure drive simp: is_store_def simp del: One_nat_def split: sum.splits)
qed

lemma spends_reconcile:
  assumes "co_MaximumRetryBackoff (ctl_options c) = most" "most < 2 ^ 63" "0 \<le> co_InitialRetryBackoff (ctl_options c)" "co_InitialRetryBackoff (ctl_options c) \<le> most"
    "nat (co_ClientMaxAttempts (ctl_options c)) = k"
  shows "spends most k (k - 1) 8 1 (Reconcile c rq)"
proof -
  have commit: "spends most 0 0 0 0 (\<lambda>w. if \<exists>y. err = Some y then ((run, err), w) else case out_commit (ctl_env c) (pw_out w) of
      Some e \<Rightarrow> dependency_failure c run e w | None \<Rightarrow> ((run, None), w))" for run err
    by (auto simp: spends_def logs_def dependency_failure_def and_run_def context_now_def give_def split: option.splits)
  have whole: "spends most k (k - 1) 8 1 (and_run (reconcileFenced c rq) (\<lambda>(result, reconcileErr) w.
                 if \<exists>y. reconcileErr = Some y then ((result, reconcileErr), w)
                 else case out_commit (ctl_env c) (pw_out w) of
                   Some err \<Rightarrow> dependency_failure c result err w
                 | None \<Rightarrow> ((result, None), w)))"
    using spends_and_run [OF spends_fenced [OF assms] commit [of "snd x" "fst x" for x]] by (simp add: case_prod_unfold)
  have fenced: "spends most k (k - 1) 8 1 (and_run (transact e None h) g)" if "\<And>r. spends most k (k - 1) 8 1 (g r)" for e h
    and g :: "unit result \<Rightarrow> ('a, 'b, run_outcome) publication_prog"
    using spends_and_run [OF spends_fence that] by simp
  show ?thesis
    unfolding Reconcile_def
    by (auto intro!: spends_give spends_silent spends_failure fenced spends_fenced [OF assms] whole simp del: One_nat_def split: option.splits sum.splits)
qed

subsection \<open>What a finalization rests on\<close>

definition vouched :: "('w, 's) Controller \<Rightarrow> ReconcileRequest \<Rightarrow> PublicationJobStatus \<Rightarrow> DatasetPublicationReceipt \<Rightarrow> bool" where
  "vouched c rq status receipt \<longleftrightarrow> st_Phase status = PublicationJobSucceeded \<and> reported_complete (st_Progress status) \<and>
     st_Receipt status = Some receipt \<and> validReceipt c rq receipt"

definition backed :: "('w, 's) Controller \<Rightarrow> ReconcileRequest \<Rightarrow> publication_call list \<Rightarrow> bool" where
  "backed c rq l \<longleftrightarrow> (\<forall>before st n receipt rest. l = before @ CallFinalize st n receipt # rest \<longrightarrow>
     (\<exists>spec status. CallJob spec (Inr status) \<in> set before \<and> vouched c rq status receipt))"

definition quiet :: "publication_call list \<Rightarrow> bool" where
  "quiet l \<longleftrightarrow> (\<forall>c \<in> set l. \<not> is_finalize c)"

lemma quiet_simps [simp]: "quiet []" "quiet (c # l) \<longleftrightarrow> \<not> is_finalize c \<and> quiet l" "quiet (l @ l') \<longleftrightarrow> quiet l \<and> quiet l'"
  by (auto simp: quiet_def)

lemma within_quiet: "within most j k s 0 l \<Longrightarrow> quiet l"
  by (auto simp: within_def calls_of_def quiet_def filter_empty_conv)

lemma spends_quiet: "spends most j k s 0 m \<Longrightarrow> logs m (\<lambda>_. quiet)"
  unfolding spends_def by (erule logs_conseq) (rule within_quiet)

lemma quiet_prefix:
  assumes "l @ l' = before @ c # rest" "quiet l" "is_finalize c" shows "\<exists>mid. before = l @ mid \<and> l' = mid @ c # rest"
  using assms
proof (induction l arbitrary: before)
  case (Cons x l)
  show ?case
  proof (cases before)
    case Nil
    with Cons.prems show ?thesis by simp
  next
    case (Cons y b)
    with Cons.IH [of b] Cons.prems show ?thesis by auto
  qed
qed simp

lemma backed_quiet: "quiet l \<Longrightarrow> backed c rq l' \<Longrightarrow> backed c rq (l @ l')"
  unfolding backed_def
proof (intro allI impI)
  fix before st n receipt rest
  assume l: "quiet l" "l @ l' = before @ CallFinalize st n receipt # rest"
    and b: "\<forall>before st n receipt rest. l' = before @ CallFinalize st n receipt # rest \<longrightarrow>
      (\<exists>spec status. CallJob spec (Inr status) \<in> set before \<and> vouched c rq status receipt)"
  obtain mid where "before = l @ mid" "l' = mid @ CallFinalize st n receipt # rest" using quiet_prefix [OF l(2,1)] by auto
  then show "\<exists>spec status. CallJob spec (Inr status) \<in> set before \<and> vouched c rq status receipt" using b by fastforce
qed

lemma quiet_backed: "quiet l \<Longrightarrow> backed c rq l"
  by (auto simp: backed_def)

lemma backed_job:
  assumes "quiet l" "CallJob spec (Inr status) \<in> set l" "\<And>st n receipt. CallFinalize st n receipt \<in> set l' \<Longrightarrow> vouched c rq status receipt"
  shows "backed c rq (l @ l')"
  unfolding backed_def
proof (intro allI impI)
  fix before st n receipt rest
  assume l: "l @ l' = before @ CallFinalize st n receipt # rest"
  obtain mid where "before = l @ mid" "l' = mid @ CallFinalize st n receipt # rest" using quiet_prefix [OF l assms(1)] by auto
  then show "\<exists>spec status. CallJob spec (Inr status) \<in> set before \<and> vouched c rq status receipt" using assms(2,3) by fastforce
qed

lemma logs_finish: "logs (finish_run c rq p receipt out) (\<lambda>_ l. \<forall>st n r. CallFinalize st n r \<in> set l \<longrightarrow> r = receipt)"
proof -
  have call: "logs (and_run (transact e (Some (CallFinalize st n receipt)) h) g) (\<lambda>_ l. \<forall>st n r. CallFinalize st n r \<in> set l \<longrightarrow> r = receipt)"
    if "\<And>r. logs (g r) (\<lambda>_. quiet)" for e st n h and g :: "(DatasetPublicationRun \<times> bool) result \<Rightarrow> ('a, 'b, run_outcome) publication_prog"
    by (rule logs_and_run [OF logs_transact that]) (auto simp: quiet_def)
  have tail: "logs (case r of Inl err \<Rightarrow> dependency_failure c run err | Inr (q, b) \<Rightarrow> give (h q b)) (\<lambda>_. quiet)" for r run h
    by (auto intro!: spends_quiet [OF spends_failure] spends_quiet [OF spends_give] split: sum.splits)
  show ?thesis
    unfolding finish_run_def Let_def
    by (auto intro!: logs_give call tail logs_and_run [OF logs_silent(2)])
qed

lemma logs_apply: "logs (applyJobStatus c rq run status) (\<lambda>_ l. \<forall>st n receipt. CallFinalize st n receipt \<in> set l \<longrightarrow> vouched c rq status receipt)"
proof -
  have adv: "logs (advanceTo c rq run target p) (\<lambda>_. quiet)" for target p
    unfolding advanceTo_def by (rule spends_quiet [OF spends_advance])
  show ?thesis
  proof (cases "\<exists>receipt. vouched c rq status receipt")
    case False
    then have "finalizing c rq status = 0" by (auto simp: finalizing_def vouched_def)
    then have "logs (applyJobStatus c rq run status) (\<lambda>_. quiet)" using spends_quiet spends_apply by metis
    then show ?thesis by (rule logs_conseq) (auto simp: quiet_def)
  next
    case True
    then obtain receipt where v: "vouched c rq status receipt" by blast
    then have "applyJobStatus c rq run status = and_run (advanceTo c rq run DatasetVersionPacking (st_Progress status)) (finish_run c rq (st_Progress status) receipt)"
      by (simp add: applyJobStatus_def vouched_def)
    moreover have "logs \<dots> (\<lambda>_ l. \<forall>st n r. CallFinalize st n r \<in> set l \<longrightarrow> vouched c rq status r)"
      by (rule logs_and_run [OF adv logs_finish]) (use v in \<open>auto simp: quiet_def\<close>)
    ultimately show ?thesis by simp
  qed
qed

lemma checked_reply: "checked_status r = Inr status \<Longrightarrow> r = Inr status"
  by (auto simp: checked_status_def split: if_splits)

lemma logs_context: "(\<And>x. logs (g x) Q) \<Longrightarrow> logs (and_run (context_now e) g) Q"
  by (rule logs_and_run [OF logs_silent(1)]) simp_all

lemma logs_ensure: "logs (ensure_loop c spec k d) (\<lambda>r l. quiet l \<and> (\<forall>status. r = Inr status \<longrightarrow> CallJob spec (Inr status) \<in> set l))"
proof (induction k arbitrary: d)
  case (Suc k)
  let ?Q = "\<lambda>r l. quiet l \<and> (\<forall>status. r = Inr status \<longrightarrow> CallJob spec (Inr status) \<in> set l)"
  have wait: "logs (and_run (pause (ctl_env c) d) (\<lambda>waited. and_run (context_now (ctl_env c)) (\<lambda>ctx2.
      case waited of Some werr \<Rightarrow> give (Inl (h ctx2 werr)) | None \<Rightarrow> ensure_loop c spec k d'))) ?Q" for h d'
    by (rule logs_and_run [OF logs_pause logs_context [where Q = ?Q]]) (auto intro!: logs_give Suc.IH split: option.splits)
  have job: "logs (and_run (ask_job (ctl_env c) spec) g) ?Q"
    if "\<And>r. logs (g r) (\<lambda>r' l. quiet l \<and> (\<forall>status. r' = Inr status \<longrightarrow> r = Inr status \<or> CallJob spec (Inr status) \<in> set l))"
    for g :: "PublicationJobStatus result \<Rightarrow> ('a, 'b, PublicationJobStatus result) publication_prog"
    by (rule logs_and_run [OF logs_job that]) auto
  show ?case
    by (auto intro!: logs_give logs_context job logs_conseq [OF wait] simp: checked_reply split: option.splits sum.splits)
qed (simp add: logs_give)

lemma logs_drive: "logs (drive_job c rq run) (\<lambda>_. backed c rq)"
proof -
  have after: "logs (case r of Inr status \<Rightarrow> applyJobStatus c rq run status | Inl err \<Rightarrow> and_run (context_now (ctl_env c)) (\<lambda>ctx. give (h ctx err)))
      (\<lambda>_ l. case r of Inl _ \<Rightarrow> quiet l | Inr status \<Rightarrow> \<forall>st n receipt. CallFinalize st n receipt \<in> set l \<longrightarrow> vouched c rq status receipt)" for r h
    using logs_apply by (auto intro!: logs_context logs_give split: sum.splits)
  have "logs (and_run (ensurePublicationJob c spec) (\<lambda>r. case r of Inr status \<Rightarrow> applyJobStatus c rq run status
      | Inl err \<Rightarrow> and_run (context_now (ctl_env c)) (\<lambda>ctx. give (h ctx err)))) (\<lambda>_. backed c rq)" for spec h
    unfolding ensurePublicationJob_def
    by (rule logs_and_run [OF logs_ensure after]) (auto intro: quiet_backed backed_quiet backed_job split: sum.splits)
  then show ?thesis unfolding drive_job_def by (auto intro!: logs_give quiet_backed split: sum.splits)
qed

lemma logs_store_then: "\<not> is_finalize x \<Longrightarrow> (\<And>r. logs (g r) (\<lambda>_. backed c rq)) \<Longrightarrow> logs (and_run (transact e (Some x) h) g) (\<lambda>_. backed c rq)"
  using backed_quiet [of "[x]" c rq] by (intro logs_and_run [OF logs_transact, where R = "\<lambda>_ _. backed c rq"]) auto

lemma logs_clock: "(\<And>x. logs (g x) Q) \<Longrightarrow> logs (and_run (now_utc e) g) Q"
  by (rule logs_and_run [OF logs_silent(2)]) simp_all

lemma logs_lost: "logs (dependency_failure k run err) (\<lambda>_. backed c rq)"
  by (rule logs_conseq [OF spends_quiet [OF spends_failure]]) (rule quiet_backed)

lemma logs_fenced: "logs (reconcileFenced c rq) (\<lambda>_. backed c rq)"
  unfolding reconcileFenced_def Let_def
  by (auto intro!: logs_store_then logs_clock logs_give quiet_backed logs_drive logs_lost split: sum.splits)

lemma logs_reconcile: "logs (Reconcile c rq) (\<lambda>_. backed c rq)"
proof -
  have commit: "logs (\<lambda>w. if \<exists>y. err = Some y then ((run, err), w) else case out_commit (ctl_env c) (pw_out w) of
      Some e \<Rightarrow> dependency_failure c run e w | None \<Rightarrow> ((run, None), w)) (\<lambda>_ l. l = [])" for run err
    by (auto simp: logs_def dependency_failure_def and_run_def context_now_def give_def split: option.splits)
  have whole: "logs (and_run (reconcileFenced c rq) (\<lambda>(result, reconcileErr) w.
                 if \<exists>y. reconcileErr = Some y then ((result, reconcileErr), w)
                 else case out_commit (ctl_env c) (pw_out w) of
                   Some err \<Rightarrow> dependency_failure c result err w
                 | None \<Rightarrow> ((result, None), w))) (\<lambda>_. backed c rq)"
    unfolding case_prod_unfold by (rule logs_and_run [OF logs_fenced commit]) simp
  have fence: "logs (and_run (transact e None h) g) (\<lambda>_. backed c rq)" if "\<And>r. logs (g r) (\<lambda>_. backed c rq)" for e h
    and g :: "unit result \<Rightarrow> ('a, 'b, run_outcome) publication_prog"
    by (rule logs_and_run [OF logs_transact that]) simp
  show ?thesis
    unfolding Reconcile_def
    by (auto intro!: logs_give logs_context quiet_backed logs_lost fence logs_fenced whole split: option.splits sum.splits)
qed

subsection \<open>A sample controller\<close>

definition sample_options :: ControllerOptions where
  "sample_options = \<lparr>co_Namespace = ''ray-train'', co_Image = ''registry.example.com/publisher@sha256:'' @ replicate 64 (CHR ''a''),
     co_SourceBucket = ''source'', co_TargetBucket = ''target'', co_TOSEndpoint = ''tos-cn-beijing.ivolces.com'', co_TOSRegion = ''cn-beijing'',
     co_ImagePullPolicy = ''IfNotPresent'', co_ServiceAccountName = ''publisher'', co_IRSARoleTRN = [], co_CredentialSecretName = ''tos'',
     co_QueueName = ''publish'', co_PriorityClassName = ''publish'', co_WorkingDirectory = ''/work'', co_InternalPrefix = ''ray-train/platform/datasets'',
     co_NodeSelector = [], co_PreferredNodeSelector = [], co_Tolerations = [], co_CPURequest = ''1'', co_CPULimit = ''2'', co_MemoryRequest = ''1Gi'',
     co_MemoryLimit = ''2Gi'', co_ClientMaxAttempts = 3, co_JobBackoffLimit = 2, co_JobActiveDeadline = 3600000000000, co_JobTTLAfterFinished = 3600000000000,
     co_InitialRetryBackoff = 1, co_MaximumRetryBackoff = 3, co_DistributedEnabled = True, co_PartitionCount = 1, co_MaxParallelism = 1\<rparr>"

definition sample_request :: ReconcileRequest where
  "sample_request = \<lparr>rq_TenantID = ''t1'', rq_SuperAdmin = False, rq_RunID = ''r1'', rq_DatasetID = ''d1'', rq_DatasetVersionID = ''v1'', rq_Version = ''1.0'',
     rq_SchemaVersion = ''s1'', rq_SourceRoot = ''cells'', rq_SourceIndex = ''cells/index.csv'', rq_SourceInventoryKey = [], rq_SourceInventorySHA256 = []\<rparr>"

definition sample_status :: PublicationJobStatus where
  "sample_status = \<lparr>st_Phase = PublicationJobSucceeded, st_Progress = \<lparr>pp_TotalPartitions = 1, pp_CompletedPartitions = 1, pp_FailedPartitions = 0,
     pp_SourceObjectCount = 2, pp_ProcessedObjectCount = 2, pp_FailedObjectCount = 0\<rparr>, st_Receipt = Some sample_receipt\<rparr>"

definition sample_env :: "(nat, catalogue) surroundings" where \<comment> \<open>the job client is down at first, then reports success\<close>
  "sample_env = \<lparr>out_now = (\<lambda>u. 10 + int u), out_ctx = (\<lambda>u. background), out_outage = (\<lambda>u. None), out_commit = (\<lambda>u. None), out_others = (\<lambda>u s. (u, s)),
     out_job = (\<lambda>spec u s. (if u = 0 then Inl ErrPublicationJobUnavailable else Inr sample_status, Suc u, s)), out_wait = (\<lambda>d u s. (None, Suc u, s))\<rparr>"

definition sample_controller :: "(nat, catalogue) Controller" where
  "sample_controller = \<lparr>ctl_repository = catalogue_repository, ctl_options = sample_options, ctl_env = sample_env\<rparr>"

definition sample_world :: "(nat, catalogue) publication_world" where
  "sample_world = \<lparr>pw_db = catalogue_packing, pw_out = 0, pw_calls = []\<rparr>"

definition sample_reply :: "PublicationJobSpec \<Rightarrow> (nat, catalogue) publication_world" where
  "sample_reply spec = sample_world\<lparr>pw_out := 3, pw_calls :=
     [CallEnsure sample_run, CallJob spec (Inl ErrPublicationJobUnavailable), CallWait 1, CallJob spec (Inr sample_status)]\<rparr>"

definition sample_steps :: "publication_call list" where
  "sample_steps = [CallProgress DatasetVersionPacking (run_ready\<lparr>run_State := DatasetVersionPacking\<rparr>), CallFinalize DatasetVersionPacking run_ready sample_receipt]"

lemma sample_options_valid: "validControllerOptions sample_options"
  by code_simp

lemma sample_new: "NewController catalogue_repository sample_env sample_options = Inr sample_controller"
  by (simp add: NewController_def sample_options_valid sample_controller_def)

lemma sample_applied:
  "case applyJobStatus sample_controller sample_request run_packing sample_status (sample_reply spec) of (out, w) \<Rightarrow>
     out = (run_ready, None) \<and> drop 4 (pw_calls w) = sample_steps"
  by code_simp

lemma sample_calls:
  "ReconcileRequest_valid sample_request" "\<not> publicationRootsOverlap (rq_SourceRoot sample_request) (co_InternalPrefix sample_options)"
  "publication_write_allowed ''d1'' ''v1'' catalogue_packing"
  "EnsureDatasetPublicationRun 10 background ''t1'' False sample_run catalogue_packing = Inr (run_packing, catalogue_packing)"
  "checked_status (Inr sample_status) = Inr sample_status" "validIdentifier ''r1''" "cleanContextError background None = None"
  "cleanContextError background (Some ErrPublicationJobUnavailable) = None"
  by code_simp+

lemma sample_fields [simp]:
  "co_ClientMaxAttempts sample_options = 3" "co_InitialRetryBackoff sample_options = 1" "co_MaximumRetryBackoff sample_options = 3" "executionMode sample_options = ''distributed''"
  "rq_TenantID sample_request = ''t1''" "rq_SuperAdmin sample_request = False" "rq_DatasetID sample_request = ''d1''" "rq_DatasetVersionID sample_request = ''v1''"
  "rq_RunID sample_request = ''r1''" "ctl_repository sample_controller = catalogue_repository" "ctl_options sample_controller = sample_options"
  "ctl_env sample_controller = sample_env" "out_ctx sample_env u = background" "out_now sample_env u = 10 + int u" "out_outage sample_env u = None"
  "out_commit sample_env u = None" "out_others sample_env u s = (u, s)" "out_wait sample_env d u s = (None, Suc u, s)"
  "out_job sample_env spec u s = (if u = 0 then Inl ErrPublicationJobUnavailable else Inr sample_status, Suc u, s)"
  by (simp_all add: sample_options_def sample_request_def sample_controller_def sample_env_def executionMode_def)

lemma sample_job:
  "ensurePublicationJob sample_controller spec (sample_world\<lparr>pw_calls := [CallEnsure sample_run]\<rparr>) = (Inr sample_status, sample_reply spec)"
proof -
  have down: "checked_status (Inl ErrPublicationJobUnavailable) = Inl ErrPublicationJobUnavailable" by (simp add: checked_status_def and_then_def)
  show ?thesis
    by (simp add: ensurePublicationJob_def numeral_3_eq_3 and_run_def context_now_def ask_job_def pause_def sample_calls down give_def sample_world_def sample_reply_def)
qed

lemma sample_spec: obtains spec where "jobSpec sample_options sample_request run_packing = Inr spec"
proof -
  have "job_phase sample_options run_packing = Inr PublicationExecutionPack" by code_simp
  then have "\<exists>spec. jobSpec sample_options sample_request run_packing = Inr spec"
    by (simp add: jobSpec_def PublicationJobName_def PublicationJobNameForPhase_def sample_calls)
  then show ?thesis using that by blast
qed

lemma sample_published:
  obtains spec w where "Reconcile sample_controller sample_request sample_world = ((run_ready, None), w)"
    "pw_calls w = [CallEnsure sample_run, CallJob spec (Inl ErrPublicationJobUnavailable), CallWait 1, CallJob spec (Inr sample_status)] @ sample_steps"
proof -
  obtain spec where spec: "jobSpec sample_options sample_request run_packing = Inr spec" by (rule sample_spec)
  obtain out w where out: "applyJobStatus sample_controller sample_request run_packing sample_status (sample_reply spec) = (out, w)" by (rule prod.exhaust)
  with sample_applied [of spec] have res: "out = (run_ready, None)" "drop 4 (pw_calls w) = sample_steps" by simp_all
  have active: "activePublicationState (run_State run_packing)" "run_State run_packing = DatasetVersionPacking" by code_simp+
  have drive: "drive_job sample_controller sample_request run_packing (sample_world\<lparr>pw_calls := [CallEnsure sample_run]\<rparr>) = (out, w)"
    using active(1) by (simp add: drive_job_def spec and_run_def sample_job out)
  have fenced: "reconcileFenced sample_controller sample_request sample_world = (out, w)"
    using active(2) drive
    by (simp add: reconcileFenced_def and_run_def transact_def sample_world_def catalogue_repository_def sample_calls(4) flip: sample_run_def)
  have "Reconcile sample_controller sample_request sample_world = ((run_ready, None), w)"
    using fenced res(1)
    by (simp add: Reconcile_def and_run_def context_now_def sample_calls(1,2,3,7) catalogue_repository_def transact_def sample_world_def)
  moreover obtain l where "pw_calls w = pw_calls (sample_reply spec) @ l"
    using logs_apply [of sample_controller sample_request run_packing sample_status] out unfolding logs_def by (metis snd_conv)
  then have "pw_calls w = pw_calls (sample_reply spec) @ sample_steps" using res(2) by (simp add: sample_reply_def)
  ultimately show ?thesis using that by (simp add: sample_reply_def)
qed

lemma sample_packing: "catalogue_step\<^sup>*\<^sup>* empty_catalogue catalogue_packing"
proof -
  have "catalogue_step\<^sup>*\<^sup>* catalogue_requested catalogue_packing"
    using catalogue_step.claim [OF sample_ops(3)] catalogue_step.swap [OF sample_ops(4)] catalogue_step.swap [OF sample_ops(5)]
    by (meson converse_rtranclp_into_rtranclp rtranclp.rtrancl_refl)
  then show ?thesis using sample_requested by (meson rtranclp_trans)
qed

subsection \<open>Properties\<close>

lemma tripleD: "triple P m Q \<Longrightarrow> P w \<Longrightarrow> m w = (x, w') \<Longrightarrow> Q x w'"
  by (auto simp: triple_def split: prod.splits)

text \<open>
  C22: Whatever the job client replies, whenever calls fail or the context ends, and whatever other users of the catalogue do in between, a
  reconciliation changes the catalogue only by operations of the repository, and when it reports a run as READY, the version of that run is
  in the catalogue, listed and published with a manifest.
\<close>

theorem publisher_reports_published:
  assumes "catalogue_step\<^sup>*\<^sup>* db0 (pw_db w)" "cat_versions db0 = []" "cat_runs db0 = []" "NewController catalogue_repository e options = Inr c"
    "other_users catalogue_step\<^sup>*\<^sup>* (\<lambda>db. catalogue_keys db \<and> life_inv (life_of db)) e" "Reconcile c rq w = ((run, err), w')"
  shows "catalogue_step\<^sup>*\<^sup>* (pw_db w) (pw_db w') \<and>
    (run_State run = DatasetVersionReady \<longrightarrow> (\<exists>v \<in> set (cat_versions (pw_db w')). live_version v \<and> dvr_ID v = rq_DatasetVersionID rq \<and>
       dvr_DatasetID v = rq_DatasetID rq \<and> published_state (dvr_State v) \<and> matches datasetDigestPattern (valueOrEmpty (dvr_ManifestSHA256 v)) \<and>
       valueOrEmpty (dvr_ManifestObjectKey v) \<noteq> []))"
proof -
  have c: "ctl_repository c = catalogue_repository" "ctl_env c = e" using assms(4) by (auto simp: NewController_def split: if_splits)
  have "catalogue_repo.on_path (pw_db w) w" using reachable_inv [OF assms(1-3)] by (simp add: catalogue_repo.on_path_def)
  then have "catalogue_repo.answered (pw_db w) rq (run, err) w'"
    using tripleD [OF catalogue_repo.triple_reconcile [OF c(1), of "pw_db w" rq] _ assms(6)] assms(5) c(2) by simp
  then have path: "catalogue_step\<^sup>*\<^sup>* (pw_db w) (pw_db w')"
    and run: "run_State run = DatasetVersionReady \<Longrightarrow> run_ready_in (rq_DatasetID rq) (rq_DatasetVersionID rq) (rq_RunID rq) (pw_db w')"
    by (simp_all add: catalogue_repo.answered_def catalogue_repo.on_path_def catalogue_repo.truthful_def)
  have "catalogue_step\<^sup>*\<^sup>* db0 (pw_db w')" using assms(1) path by (rule rtranclp_trans)
  note row = ready_row [OF this assms(2,3)]
  show ?thesis using path run row by (fastforce simp: run_ready_in_def names_run_def)
qed

lemma sample_users: "other_users catalogue_step\<^sup>*\<^sup>* (\<lambda>db. catalogue_keys db \<and> life_inv (life_of db)) sample_env"
  by (simp add: other_users_def)

theorem publisher_reports_published_witness:
  "\<exists>w'. Reconcile sample_controller sample_request sample_world = ((run_ready, None), w') \<and>
     (\<exists>v \<in> set (cat_versions (pw_db w')). dvr_ID v = ''v1'' \<and> published_state (dvr_State v))"
proof -
  obtain w where w: "Reconcile sample_controller sample_request sample_world = ((run_ready, None), w)" by (rule sample_published)
  have start: "catalogue_step\<^sup>*\<^sup>* empty_catalogue (pw_db sample_world)" "cat_versions empty_catalogue = []" "cat_runs empty_catalogue = []"
    using sample_packing by (simp_all add: sample_world_def empty_catalogue_def)
  have "run_State run_ready = DatasetVersionReady" by (simp add: run_ready_def)
  with publisher_reports_published [OF start sample_new sample_users w] show ?thesis using w by auto
qed

text \<open>
  C23: The controller publishes a run only on the word of its job: every finalization it requests comes after a reply of the job client that
  reports success with complete progress, and carries the receipt of that reply, which names the dataset and version of the request and is valid.
\<close>

theorem finalize_needs_receipt:
  "\<exists>l. pw_calls (snd (Reconcile c rq w)) = pw_calls w @ l \<and>
     (\<forall>before st n receipt rest. l = before @ CallFinalize st n receipt # rest \<longrightarrow>
       (\<exists>spec status. CallJob spec (Inr status) \<in> set before \<and> st_Phase status = PublicationJobSucceeded \<and> reported_complete (st_Progress status) \<and>
          st_Receipt status = Some receipt \<and> rcpt_DatasetID receipt = rq_DatasetID rq \<and> rcpt_DatasetVersionID receipt = rq_DatasetVersionID rq \<and>
          Receipt_ValidateWithInternalPrefix receipt (co_InternalPrefix (ctl_options c)) = None))"
  using logs_reconcile [of c rq] unfolding logs_def backed_def vouched_def validReceipt_def by blast

theorem finalize_needs_receipt_witness:
  "\<exists>w l. Reconcile sample_controller sample_request sample_world = ((run_ready, None), w) \<and> pw_calls w = l @ [CallFinalize DatasetVersionPacking run_ready sample_receipt] \<and>
     (\<exists>spec status. CallJob spec (Inr status) \<in> set l \<and> st_Phase status = PublicationJobSucceeded \<and> st_Receipt status = Some sample_receipt)"
proof -
  obtain spec w where w: "Reconcile sample_controller sample_request sample_world = ((run_ready, None), w)"
    "pw_calls w = [CallEnsure sample_run, CallJob spec (Inl ErrPublicationJobUnavailable), CallWait 1, CallJob spec (Inr sample_status)] @ sample_steps"
    by (rule sample_published)
  then obtain l where l: "pw_calls w = l @ [CallFinalize DatasetVersionPacking run_ready sample_receipt]" by (simp add: sample_steps_def)
  obtain k where k: "pw_calls w = pw_calls sample_world @ k" "\<forall>before st n receipt rest. k = before @ CallFinalize st n receipt # rest \<longrightarrow>
       (\<exists>spec status. CallJob spec (Inr status) \<in> set before \<and> st_Phase status = PublicationJobSucceeded \<and> reported_complete (st_Progress status) \<and>
          st_Receipt status = Some receipt \<and> rcpt_DatasetID receipt = rq_DatasetID sample_request \<and> rcpt_DatasetVersionID receipt = rq_DatasetVersionID sample_request \<and>
          Receipt_ValidateWithInternalPrefix receipt (co_InternalPrefix (ctl_options sample_controller)) = None)"
    using finalize_needs_receipt [of sample_controller sample_request sample_world] w(1) by auto
  from k(1) l have "k = l @ [CallFinalize DatasetVersionPacking run_ready sample_receipt]" by (simp add: sample_world_def)
  with k(2) have "\<exists>spec status. CallJob spec (Inr status) \<in> set l \<and> st_Phase status = PublicationJobSucceeded \<and> st_Receipt status = Some sample_receipt" by blast
  with w(1) l show ?thesis by blast
qed

text \<open>
  C24: A reconciliation ends within a fixed budget, whatever its surroundings do: at most \<open>ClientMaxAttempts\<close> calls of the job client, one wait
  less, none longer than \<open>MaximumRetryBackoff\<close>, and eight calls of the repository, of which at most one finalizes.
\<close>

theorem reconcile_bounded:
  assumes "NewController repository e options = Inr c" "co_MaximumRetryBackoff options < 2 ^ 63"
  shows "\<exists>l. pw_calls (snd (Reconcile c rq w)) = pw_calls w @ l \<and> calls_of is_job l \<le> nat (co_ClientMaxAttempts options) \<and> calls_of is_job l \<le> 10 \<and>
    calls_of is_wait l \<le> nat (co_ClientMaxAttempts options) - 1 \<and> (\<forall>d. CallWait d \<in> set l \<longrightarrow> 0 \<le> d \<and> d \<le> co_MaximumRetryBackoff options) \<and>
    calls_of is_store l \<le> 8 \<and> calls_of is_finalize l \<le> 1"
proof -
  have c: "ctl_options c = options" "validControllerOptions options" using assms(1) by (auto simp: NewController_def split: if_splits)
  then have o: "0 \<le> co_InitialRetryBackoff options" "co_InitialRetryBackoff options \<le> co_MaximumRetryBackoff options" "co_ClientMaxAttempts options \<le> 10"
    by (simp_all add: validControllerOptions_def)
  have "spends (co_MaximumRetryBackoff options) (nat (co_ClientMaxAttempts options)) (nat (co_ClientMaxAttempts options) - 1) 8 1 (Reconcile c rq)"
    by (rule spends_reconcile) (use c o assms(2) in simp_all)
  then show ?thesis using nat_mono [OF o(3)] unfolding spends_def logs_def within_def by (metis order_trans nat_numeral)
qed

theorem reconcile_bounded_witness:
  "\<exists>w. Reconcile sample_controller sample_request sample_world = ((run_ready, None), w) \<and> calls_of is_job (pw_calls w) \<le> 3 \<and> calls_of is_wait (pw_calls w) \<le> 2 \<and>
     calls_of is_store (pw_calls w) \<le> 8"
proof -
  obtain w where w: "Reconcile sample_controller sample_request sample_world = ((run_ready, None), w)" by (rule sample_published)
  have "co_MaximumRetryBackoff sample_options < 2 ^ 63" by simp
  from reconcile_bounded [OF sample_new this, of sample_request sample_world] w show ?thesis by (auto simp: sample_world_def)
qed

lemma bucket_chars_trimmed:
  assumes "v \<noteq> []" "list_all bucket_char v" shows "trim_space v = v"
proof (rule trim_space_id [OF assms(1)])
  have "list_all (\<lambda>e. \<not> bucket_char (hd e) \<and> \<not> bucket_char (last e)) space_encodings" by code_simp
  moreover have "bucket_char (hd v)" "bucket_char (last v)" using assms by (simp_all add: list_all_iff)
  ultimately show "hd v \<notin> hd ` set space_encodings" "last v \<notin> last ` set space_encodings" by (auto simp: list_all_iff)
qed

lemma hex_bucket_char: "is_hex_lower x \<Longrightarrow> bucket_char x"
  by (auto simp: is_hex_lower_def bucket_char_def is_lower_def is_digit_def)

lemma job_name:
  assumes "PublicationJobName r = Inr base"
  shows "length base = 50" "list_all bucket_char base" "hd base = CHR ''d''" "last base \<noteq> CHR ''-''"
proof -
  let ?d = "EncodeToString (take 16 (sha256_Sum256 r))"
  have base: "base = ''dataset-publisher-'' @ ?d" using assms by (simp add: PublicationJobName_def split: if_splits)
  have d: "length ?d = 32" "\<forall>x \<in> set ?d. is_hex_lower x"
    using EncodeToString_digest [of "take 16 (sha256_Sum256 r)" 16] by (simp_all add: matches_hex_digest)
  have "?d \<noteq> []" using d(1) by auto
  then have "is_hex_lower (last ?d)" using d(2) last_in_set by blast
  then have hyphen: "last ?d \<noteq> CHR ''-''" by (auto simp: is_hex_lower_def)
  have "list_all bucket_char ''dataset-publisher-''" by code_simp
  then show "list_all bucket_char base" using d(2) by (simp only: base list_all_append) (simp add: list_all_iff hex_bucket_char)
  show "length base = 50" "hd base = CHR ''d''" using d(1) by (simp_all add: base)
  show "last base \<noteq> CHR ''-''" using \<open>?d \<noteq> []\<close> hyphen by (simp only: base last_append) simp
qed

text \<open>
  The name of a publication job is a DNS label of at most 63 characters that depends only on the run and the execution phase: two jobs of one
  run have the same name exactly when they run the same phase, whatever the options and the progress of the run are in between.
\<close>

theorem publication_job_names:
  assumes "jobSpec options rq run = Inr spec" "jobSpec options' rq' run' = Inr spec'" "rq_RunID rq' = rq_RunID rq"
  shows "isPublicationDNSLabel (js_name spec) \<and> (js_name spec' = js_name spec \<longleftrightarrow> js_executionPhase spec' = js_executionPhase spec)"
proof -
  obtain base where base: "PublicationJobName (rq_RunID rq) = Inr base" using assms(1) by (auto simp: jobSpec_def)
  have name: "js_name s = base @ (if js_executionPhase s = PublicationExecutionLegacy then [] else ''-'' @ phase_string (js_executionPhase s))"
    if "jobSpec o' q u = Inr s" "rq_RunID q = rq_RunID rq" for o' q u s
    using that base by (auto simp: jobSpec_def PublicationJobNameForPhase_def split: if_splits)
  have label: "isPublicationDNSLabel (base @ (if ph = PublicationExecutionLegacy then [] else ''-'' @ phase_string ph))" (is "isPublicationDNSLabel ?n") for ph
  proof -
    note b = job_name [OF base]
    have nonempty: "base \<noteq> []" using b(1) by auto
    have "length ?n \<le> 63" using b(1) by (cases ph) simp_all
    moreover have "list_all bucket_char ?n" using b(2) by (cases ph) (simp_all add: bucket_char_def is_lower_def)
    moreover have "no_outer_hyphen ?n" using b(3,4) nonempty by (cases ph) (simp_all add: no_outer_hyphen_def)
    ultimately show ?thesis using nonempty by (simp add: isPublicationDNSLabel_def bucket_chars_trimmed)
  qed
  have "(if p = PublicationExecutionLegacy then [] else ''-'' @ phase_string p) = (if q = PublicationExecutionLegacy then [] else ''-'' @ phase_string q) \<longleftrightarrow> p = q" for p q
    by (cases p; cases q) simp_all
  then show ?thesis using name [OF assms(1)] name [OF assms(2,3)] label by simp
qed

theorem publication_job_names_witness:
  "\<exists>spec. jobSpec sample_options sample_request run_packing = Inr spec \<and> isPublicationDNSLabel (js_name spec)"
proof -
  obtain spec where spec: "jobSpec sample_options sample_request run_packing = Inr spec" by (rule sample_spec)
  from publication_job_names [OF spec spec] show ?thesis using spec by simp
qed

end
