(* ===== verification/Planner.thy ===== *)
theory Planner
  imports Publisher Attempt_Store "HOL-Library.AList"
begin

section \<open>Planning of a publication (\<open>datasetpublisher/manifest.go\<close>, \<open>planner.go\<close>)\<close>

text \<open>
  \<open>PlanDatasetPublication\<close> turns an inventory of source objects and the rules of a dataset into the shards of a manifest, reusing those of
  the previous one. Times are nanoseconds since 1970 without a bound, \<open>time.Time{}\<close> is \<open>zero_time\<close>. A Go map is an association list in
  order of insertion; where the code ranges over a map the result does not depend on the order, except for which of several offending tokens or
  keys an error names. The sorts are by distinct keys, so that stability does not matter. Deep copies (\<open>clone...\<close>) are the identity.
\<close>

subsection \<open>Manifests\<close>

type_synonym Split = string
type_synonym ObjectRole = string

definition SplitTrain :: Split where "SplitTrain = ''train''"
definition SplitVal :: Split where "SplitVal = ''val''"
definition SplitTest :: Split where "SplitTest = ''test''"

definition ObjectRolePoints :: ObjectRole where "ObjectRolePoints = ''points''"
definition ObjectRoleAnnotation :: ObjectRole where "ObjectRoleAnnotation = ''annotation''"
definition ObjectRoleAuxiliary :: ObjectRole where "ObjectRoleAuxiliary = ''auxiliary''"

definition ErrInvalidPlanOptions :: error where "ErrInvalidPlanOptions = Errorf ''invalid plan options'' []"
definition ErrInvalidRules :: error where "ErrInvalidRules = Errorf ''invalid dataset rules'' []"
definition ErrInvalidInventory :: error where "ErrInvalidInventory = Errorf ''invalid dataset inventory'' []"
definition ErrInvalidPreviousManifest :: error where "ErrInvalidPreviousManifest = Errorf ''invalid previous manifest'' []"
definition ErrMissingSuccessMarker :: error where "ErrMissingSuccessMarker = Errorf ''missing upstream success marker'' []"
definition ErrMissingObject :: error where "ErrMissingObject = Errorf ''missing inventory object'' []"
definition ErrUnstableInventory :: error where "ErrUnstableInventory = Errorf ''inventory object changed within the stable window'' []"
definition ErrMissingAnnotation :: error where "ErrMissingAnnotation = Errorf ''missing annotation'' []"
definition ErrSplitTokenOverlap :: error where "ErrSplitTokenOverlap = Errorf ''train and validation tokens overlap'' []"
definition ErrInvalidPointCloudBytes :: error where "ErrInvalidPointCloudBytes = Errorf ''invalid float32 point cloud byte length'' []"
definition ErrEmptySamples :: error where "ErrEmptySamples = Errorf ''empty dataset samples'' []"

record InventoryObject =
  io_Key :: string
  io_SizeBytes :: int
  io_ETag :: string
  io_ObservedAt :: int

record SampleObjectRule =
  so_Key :: string
  so_Role :: ObjectRole

record SampleRule =
  sr_Token :: string
  sr_Scene :: string
  sr_Partition :: string
  sr_Split :: Split
  sr_Objects :: "SampleObjectRule list"

record DatasetRules =
  ru_SchemaVersion :: string
  ru_PublisherVersion :: string
  ru_SuccessMarker :: string
  ru_PointRecordWidthBytes :: int
  ru_Samples :: "SampleRule list"

record ObjectRef =
  ref_Key :: string
  ref_Role :: ObjectRole
  ref_Split :: Split
  ref_Token :: string
  ref_Scene :: string
  ref_Partition :: string
  ref_SizeBytes :: int
  ref_ETag :: string

record Shard =
  sh_ID :: string
  sh_Split :: Split
  sh_Scene :: string
  sh_Partition :: string
  sh_SampleTokens :: "string list"
  sh_Digest :: string
  sh_ObjectKeys :: "string list"
  sh_InputBytes :: int
  sh_Reused :: bool

record Manifest =
  mf_SchemaVersion :: string
  mf_PublisherVersion :: string
  mf_PointRecordWidthBytes :: int
  mf_Digest :: string
  mf_Shards :: "Shard list"
  mf_Objects :: "ObjectRef list"
  mf_Metadata :: "(string \<times> string) list"

record ValidationError =
  ve_Kind :: error
  ve_Key :: string
  ve_Token :: string
  ve_Message :: string

type_synonym 'a planned = "ValidationError + 'a"

definition invalid :: "error \<Rightarrow> string \<Rightarrow> string \<Rightarrow> string \<Rightarrow> 'a planned" where \<comment> \<open>kind, key, token, message\<close>
  "invalid kind key token message = Inl \<lparr>ve_Kind = kind, ve_Key = key, ve_Token = token, ve_Message = message\<rparr>"

definition plan_then :: "'a planned \<Rightarrow> ('a \<Rightarrow> 'b planned) \<Rightarrow> 'b planned" where
  "plan_then r k = (case r of Inl e \<Rightarrow> Inl e | Inr x \<Rightarrow> k x)"

record PlanOptions =
  po_Now :: int
  po_StableWindow :: int
  po_Rules :: DatasetRules
  po_Previous :: Manifest

record DryRunSummary =
  dry_AddedShardCount :: nat
  dry_ReusedShardCount :: nat
  dry_EstimatedAddedStorageBytes :: int

record Plan =
  plan_manifest :: Manifest
  plan_added :: "Shard list"
  plan_reused :: "Shard list"
  plan_dryRun :: DryRunSummary

definition zero_time :: int where \<comment> \<open>1 January of the year 1\<close>
  "zero_time = -62135596800000000000"

definition nul :: string where "nul = [CHR 0x00]"

subsection \<open>Checks\<close>

definition validRelativePath :: "string \<Rightarrow> bool" where
  "validRelativePath v \<longleftrightarrow>
     v \<noteq> [] \<and> length v \<le> 4096 \<and> trim_space v = v \<and> \<not> contains v [backslash] \<and> \<not> contains v ''://'' \<and> \<not> has_control v \<and>
     \<not> IsAbs v \<and> Clean v = v \<and> list_all (\<lambda>segment. segment \<noteq> [] \<and> segment \<noteq> ''.'' \<and> segment \<noteq> ''..'') (split slash v)"

definition validETag :: "string \<Rightarrow> bool" where
  "validETag v \<longleftrightarrow> v \<noteq> [] \<and> trim_space v = v \<and> length v \<le> 1024 \<and> \<not> has_control v"

definition validOptionalIdentifier :: "string \<Rightarrow> bool" where
  "validOptionalIdentifier v \<longleftrightarrow> v = [] \<or> validIdentifier v"

definition validRole :: "ObjectRole \<Rightarrow> bool" where
  "validRole role \<longleftrightarrow> role = ObjectRolePoints \<or> role = ObjectRoleAnnotation \<or> role = ObjectRoleAuxiliary"

definition validSplit :: "Split \<Rightarrow> bool" where
  "validSplit s \<longleftrightarrow> s = SplitTrain \<or> s = SplitVal \<or> s = SplitTest"

definition isZeroManifest :: "Manifest \<Rightarrow> bool" where
  "isZeroManifest m \<longleftrightarrow> mf_SchemaVersion m = [] \<and> mf_PublisherVersion m = [] \<and> mf_PointRecordWidthBytes m = 0 \<and> mf_Digest m = [] \<and>
     length (mf_Shards m) = 0 \<and> length (mf_Objects m) = 0 \<and> length (mf_Metadata m) = 0"

definition sampleGroupKey :: "Split \<Rightarrow> string \<Rightarrow> string \<Rightarrow> string" where
  "sampleGroupKey s scene part = s @ nul @ scene @ nul @ part"

definition shardReuseKey :: "Split \<Rightarrow> string \<Rightarrow> string \<Rightarrow> string \<Rightarrow> string" where
  "shardReuseKey s scene part digest = sampleGroupKey s scene part @ nul @ digest"

definition shardIDForDigest :: "string \<Rightarrow> string" where
  "shardIDForDigest digest = (if length digest < 16 then [] else ''shard-'' @ take 16 digest)"

definition validDigest :: "string \<Rightarrow> bool" where
  "validDigest v \<longleftrightarrow> length v = 64 \<and> list_all is_hex v \<and> v = to_lower v"

definition sortedMapKeys :: "string list \<Rightarrow> string list" where
  "sortedMapKeys keys = sort keys"

definition sortedObjectKeys :: "(string \<times> int) list \<Rightarrow> string list" where
  "sortedObjectKeys vals = sort (map fst vals)"

fun sum_bytes :: "int \<Rightarrow> int list \<Rightarrow> int planned" where
  "sum_bytes acc [] = Inr acc"
| "sum_bytes acc (v # vs) =
     (if v > int64 (MaxInt64 - acc) then invalid ErrInvalidInventory [] [] ''shard byte estimate overflows int64'' else sum_bytes (int64 (acc + v)) vs)"

definition sumObjectBytes :: "(string \<times> int) list \<Rightarrow> int planned" where
  "sumObjectBytes vals = sum_bytes 0 (map snd vals)"

definition equalStrings :: "string list \<Rightarrow> string list \<Rightarrow> bool" where
  "equalStrings l r \<longleftrightarrow> length l = length r \<and> list_all2 (=) l r"

definition ref_order :: "ObjectRef \<Rightarrow> string list" where \<comment> \<open>what the comparison of \<open>sortObjectRefs\<close> looks at, in turn\<close>
  "ref_order r = [ref_Split r, ref_Scene r, ref_Partition r, ref_Token r, ref_Role r, ref_Key r]"

definition sortObjectRefs :: "ObjectRef list \<Rightarrow> ObjectRef list" where
  "sortObjectRefs rs = sort_key ref_order rs"

subsection \<open>Rules and inventory\<close>

record rules_seen = \<comment> \<open>the maps of \<open>validateRules\<close>\<close>
  seen_splitTokens :: "string list"
  seen_trainTokens :: "string list"
  seen_valTokens :: "string list"
  seen_roles :: "(string \<times> ObjectRole) list"

fun check_objects :: "SampleObjectRule list \<Rightarrow> string list \<Rightarrow> (string \<times> ObjectRole) list \<Rightarrow> bool \<Rightarrow> bool \<Rightarrow> ((string \<times> ObjectRole) list \<times> bool \<times> bool) planned" where
  \<comment> \<open>the loop over the objects of a sample: keys seen, roles, whether there are points and an annotation\<close>
  "check_objects [] seenObjects roles hasPoints hasAnnotation = Inr (roles, hasPoints, hasAnnotation)"
| "check_objects (object # objects) seenObjects roles hasPoints hasAnnotation =
     (if \<not> validRelativePath (so_Key object) then invalid ErrInvalidRules (so_Key object) [] ''object path is invalid''
      else if \<not> validRole (so_Role object) then invalid ErrInvalidRules (so_Key object) [] ''object role is invalid''
      else if so_Key object \<in> set seenObjects then invalid ErrInvalidRules (so_Key object) [] ''duplicate sample object''
      else if (case map_of roles (so_Key object) of None \<Rightarrow> False | Some previousRole \<Rightarrow> previousRole \<noteq> so_Role object)
      then invalid ErrInvalidRules (so_Key object) [] ''object role conflicts across samples''
      else check_objects objects (so_Key object # seenObjects) ((so_Key object, so_Role object) # roles)
        (hasPoints \<or> so_Role object = ObjectRolePoints) (hasAnnotation \<or> so_Role object = ObjectRoleAnnotation))"

definition check_sample :: "SampleRule \<Rightarrow> rules_seen \<Rightarrow> rules_seen planned" where
  "check_sample sample seen =
     (let splitToken = sr_Split sample @ nul @ sr_Token sample in
      if \<not> validIdentifier (sr_Token sample) \<or> \<not> validIdentifier (sr_Scene sample) \<or> \<not> validOptionalIdentifier (sr_Partition sample)
      then invalid ErrInvalidRules [] (sr_Token sample) ''sample identity is invalid''
      else if \<not> validSplit (sr_Split sample) then invalid ErrInvalidRules [] (sr_Token sample) ''sample split is invalid''
      else if sr_Objects sample = [] then invalid ErrInvalidRules [] (sr_Token sample) ''sample objects are required''
      else if splitToken \<in> set (seen_splitTokens seen) then invalid ErrInvalidRules [] (sr_Token sample) ''duplicate sample token in split''
      else plan_then (check_objects (sr_Objects sample) [] (seen_roles seen) False False) (\<lambda>(roles, hasPoints, hasAnnotation).
        if \<not> hasPoints then invalid ErrInvalidRules [] (sr_Token sample) ''points object is required''
        else if \<not> hasAnnotation then invalid ErrMissingAnnotation [] (sr_Token sample) []
        else Inr \<lparr>seen_splitTokens = splitToken # seen_splitTokens seen,
          seen_trainTokens = (if sr_Split sample = SplitTrain then sr_Token sample # seen_trainTokens seen else seen_trainTokens seen),
          seen_valTokens = (if sr_Split sample = SplitVal then sr_Token sample # seen_valTokens seen else seen_valTokens seen),
          seen_roles = roles\<rparr>))"

fun check_samples :: "SampleRule list \<Rightarrow> rules_seen \<Rightarrow> rules_seen planned" where
  "check_samples [] seen = Inr seen"
| "check_samples (sample # samples) seen = plan_then (check_sample sample seen) (check_samples samples)"

definition validateRules :: "DatasetRules \<Rightarrow> DatasetRules planned" where
  "validateRules rules =
     (if \<not> validIdentifier (ru_SchemaVersion rules) \<or> \<not> validIdentifier (ru_PublisherVersion rules)
      then invalid ErrInvalidRules [] [] ''schema and publisher versions are required''
      else if ru_PointRecordWidthBytes rules \<le> 0 \<or> ru_PointRecordWidthBytes rules mod 4 \<noteq> 0
      then invalid ErrInvalidRules [] [] ''point record width must be a positive multiple of 4''
      else if ru_SuccessMarker rules \<noteq> [] \<and> \<not> validRelativePath (ru_SuccessMarker rules)
      then invalid ErrInvalidRules (ru_SuccessMarker rules) [] ''success marker path is invalid''
      else if ru_Samples rules = [] then invalid ErrEmptySamples [] [] []
      else plan_then (check_samples (ru_Samples rules) \<lparr>seen_splitTokens = [], seen_trainTokens = [], seen_valTokens = [], seen_roles = []\<rparr>) (\<lambda>seen.
        case find (\<lambda>token. token \<in> set (seen_valTokens seen)) (seen_trainTokens seen) of
          Some token \<Rightarrow> invalid ErrSplitTokenOverlap [] token []
        | None \<Rightarrow> Inr rules))"

type_synonym inventoryObservations = "(string \<times> InventoryObject list) list"

definition map_append :: "'k \<Rightarrow> 'v \<Rightarrow> ('k \<times> 'v list) list \<Rightarrow> ('k \<times> 'v list) list" where \<comment> \<open>\<open>m[k] = append(m[k], v)\<close>\<close>
  "map_append k v m = AList.update k ((case map_of m k of None \<Rightarrow> [] | Some l \<Rightarrow> l) @ [v]) m"

definition bad_observation :: "int \<Rightarrow> InventoryObject \<Rightarrow> bool" where
  "bad_observation now object \<longleftrightarrow> \<not> validRelativePath (io_Key object) \<or> io_SizeBytes object < 0 \<or> io_ObservedAt object = zero_time \<or>
     io_ObservedAt object > now \<or> \<not> validETag (io_ETag object)"

definition changed :: "InventoryObject \<Rightarrow> InventoryObject \<Rightarrow> bool" where
  "changed a b \<longleftrightarrow> io_SizeBytes a \<noteq> io_SizeBytes b \<or> io_ETag a \<noteq> io_ETag b"

definition validateInventory :: "InventoryObject list \<Rightarrow> int \<Rightarrow> inventoryObservations planned" where
  "validateInventory inventory now =
     (case find (bad_observation now) inventory of
        Some object \<Rightarrow> invalid ErrInvalidInventory (io_Key object) [] ''inventory object is invalid''
      | None \<Rightarrow>
        let byKey = fold (\<lambda>object. map_append (io_Key object) object) inventory [];
            sorted_byKey = map (\<lambda>(key, observations). (key, sort_key io_ObservedAt observations)) byKey in
        case find (\<lambda>(key, observations). list_ex (\<lambda>(previous, current). io_ObservedAt current = io_ObservedAt previous \<and> changed current previous)
            (zip observations (tl observations))) sorted_byKey of
          Some (key, observations) \<Rightarrow> invalid ErrUnstableInventory key [] []
        | None \<Rightarrow> Inr sorted_byKey)"

definition stableObjectForKey :: "inventoryObservations \<Rightarrow> string \<Rightarrow> PlanOptions \<Rightarrow> InventoryObject planned" where
  "stableObjectForKey observations key options =
     (case map_of observations key of
        None \<Rightarrow> invalid ErrMissingObject key [] []
      | Some vals \<Rightarrow>
        let cutoff = po_Now options - po_StableWindow options;
            baselineIndex = fold (\<lambda>(index, observation) b. if io_ObservedAt observation > cutoff then b else Some index) (enumerate 0 vals) None in
        case baselineIndex of
          None \<Rightarrow> invalid ErrUnstableInventory key [] []
        | Some index \<Rightarrow>
          let baseline = vals ! index in
          if list_ex (\<lambda>observation. changed observation baseline) (drop index vals) then invalid ErrUnstableInventory key [] []
          else Inr (fold (\<lambda>observation latest. if io_ObservedAt observation > io_ObservedAt latest then observation else latest) (drop index vals) baseline))"

subsection \<open>Shards\<close>

record shardGroup =
  sg_split :: Split
  sg_scene :: string
  sg_partition :: string
  sg_sampleTokens :: "string list"
  sg_objects :: "ObjectRef list"
  sg_objectBytes :: "(string \<times> int) list"

definition empty_group :: "Split \<Rightarrow> string \<Rightarrow> string \<Rightarrow> shardGroup" where
  "empty_group s scene part = \<lparr>sg_split = s, sg_scene = scene, sg_partition = part, sg_sampleTokens = [], sg_objects = [], sg_objectBytes = []\<rparr>"

definition object_ref :: "SampleRule \<Rightarrow> SampleObjectRule \<Rightarrow> InventoryObject \<Rightarrow> ObjectRef" where
  "object_ref sample rule object = \<lparr>ref_Key = so_Key rule, ref_Role = so_Role rule, ref_Split = sr_Split sample, ref_Token = sr_Token sample,
     ref_Scene = sr_Scene sample, ref_Partition = sr_Partition sample, ref_SizeBytes = io_SizeBytes object, ref_ETag = io_ETag object\<rparr>"

fun add_objects :: "inventoryObservations \<Rightarrow> DatasetRules \<Rightarrow> PlanOptions \<Rightarrow> SampleRule \<Rightarrow> SampleObjectRule list \<Rightarrow> shardGroup \<Rightarrow> ObjectRef list \<Rightarrow>
    (shardGroup \<times> ObjectRef list) planned" where
  "add_objects observations rules options sample [] g objects = Inr (g, objects)"
| "add_objects observations rules options sample (rule # rest) g objects =
     plan_then (stableObjectForKey observations (so_Key rule) options) (\<lambda>object.
       if so_Role rule = ObjectRolePoints \<and> (io_SizeBytes object = 0 \<or> io_SizeBytes object mod ru_PointRecordWidthBytes rules \<noteq> 0)
       then invalid ErrInvalidPointCloudBytes (so_Key rule) [] []
       else let ref = object_ref sample rule object in
         add_objects observations rules options sample rest
           (g\<lparr>sg_objects := sg_objects g @ [ref],
              sg_objectBytes := (if map_of (sg_objectBytes g) (ref_Key ref) = None then sg_objectBytes g @ [(ref_Key ref, ref_SizeBytes ref)] else sg_objectBytes g)\<rparr>)
           (objects @ [ref]))"

fun add_samples :: "inventoryObservations \<Rightarrow> DatasetRules \<Rightarrow> PlanOptions \<Rightarrow> SampleRule list \<Rightarrow> (string \<times> shardGroup) list \<Rightarrow> ObjectRef list \<Rightarrow>
    ((string \<times> shardGroup) list \<times> ObjectRef list) planned" where
  "add_samples observations rules options [] groups objects = Inr (groups, objects)"
| "add_samples observations rules options (sample # samples) groups objects =
     (let groupKey = sampleGroupKey (sr_Split sample) (sr_Scene sample) (sr_Partition sample);
          g = (case map_of groups groupKey of None \<Rightarrow> empty_group (sr_Split sample) (sr_Scene sample) (sr_Partition sample) | Some g \<Rightarrow> g);
          g1 = g\<lparr>sg_sampleTokens := List.insert (sr_Token sample) (sg_sampleTokens g)\<rparr> in
      plan_then (add_objects observations rules options sample (sr_Objects sample) g1 objects) (\<lambda>(g2, objects2).
        add_samples observations rules options samples (AList.update groupKey g2 groups) objects2))"

definition group_order :: "shardGroup \<Rightarrow> string list" where \<comment> \<open>\<open>compareGroup\<close> compares these in turn\<close>
  "group_order g = [sg_split g, sg_scene g, sg_partition g]"

definition sorted_group :: "shardGroup \<Rightarrow> shardGroup" where
  "sorted_group g = g\<lparr>sg_objects := sortObjectRefs (sg_objects g)\<rparr>"

definition buildShardGroups :: "inventoryObservations \<Rightarrow> DatasetRules \<Rightarrow> PlanOptions \<Rightarrow> (ObjectRef list \<times> shardGroup list) planned" where
  "buildShardGroups observations rules options =
     plan_then (add_samples observations rules options (ru_Samples rules) [] []) (\<lambda>(groupsByKey, objects).
       Inr (sortObjectRefs objects, sort_key group_order (map (sorted_group \<circ> snd) groupsByKey)))"

definition shard_text :: "string \<Rightarrow> string list \<Rightarrow> string" where \<comment> \<open>\<open>fmt.Fprintf(hash, "name\x00%s\x00...", fields...)\<close>\<close>
  "shard_text name parts = name @ nul @ concat (map (\<lambda>f. f @ nul) parts)"

definition shardDigest :: "string \<Rightarrow> string \<Rightarrow> int \<Rightarrow> shardGroup \<Rightarrow> string list \<Rightarrow> string list \<Rightarrow> string" where
  "shardDigest schemaVersion publisherVersion pointRecordWidthBytes g tokens objectKeys =
     EncodeToString (sha256_Sum256 (
       shard_text ''shard'' [schemaVersion, publisherVersion, decimal pointRecordWidthBytes, sg_split g, sg_scene g, sg_partition g] @
       concat (map (\<lambda>token. shard_text ''token'' [token]) tokens) @
       concat (map (\<lambda>key. shard_text ''key'' [key, decimal (case map_of (sg_objectBytes g) key of None \<Rightarrow> 0 | Some n \<Rightarrow> n)]) objectKeys) @
       concat (map (\<lambda>r. shard_text ''object'' [ref_Token r, ref_Role r, ref_Key r, ref_Scene r, decimal (ref_SizeBytes r), ref_ETag r]) (sg_objects g))))"

definition shard_order :: "Shard \<Rightarrow> string list" where
  "shard_order s = [sh_Split s, sh_Scene s, sh_Partition s, sh_Digest s]"

definition manifestDigest :: "string \<Rightarrow> string \<Rightarrow> int \<Rightarrow> Shard list \<Rightarrow> string" where
  "manifestDigest schemaVersion publisherVersion pointRecordWidthBytes shards =
     EncodeToString (sha256_Sum256 (
       shard_text ''manifest'' [schemaVersion, publisherVersion, decimal pointRecordWidthBytes] @
       concat (map (\<lambda>s. shard_text ''shard'' [sh_ID s, sh_Split s, sh_Scene s, sh_Partition s, sh_Digest s, decimal (sh_InputBytes s)] @
         concat (map (\<lambda>token. shard_text ''token'' [token]) (sh_SampleTokens s)) @
         concat (map (\<lambda>key. shard_text ''key'' [key]) (sh_ObjectKeys s))) (sort_key shard_order shards))))"

subsection \<open>The previous manifest\<close>

record refs_seen = \<comment> \<open>the maps of \<open>previousManifestGroups\<close>\<close>
  prev_groups :: "(string \<times> shardGroup) list"
  prev_refs :: "string list"
  prev_roles :: "(string \<times> ObjectRole) list"

definition bad_ref :: "ObjectRef \<Rightarrow> bool" where
  "bad_ref object \<longleftrightarrow> \<not> validRelativePath (ref_Key object) \<or> \<not> validRole (ref_Role object) \<or> \<not> validSplit (ref_Split object) \<or>
     \<not> validIdentifier (ref_Token object) \<or> \<not> validIdentifier (ref_Scene object) \<or> \<not> validOptionalIdentifier (ref_Partition object) \<or>
     ref_SizeBytes object < 0 \<or> \<not> validETag (ref_ETag object)"

definition ref_key :: "ObjectRef \<Rightarrow> string" where
  "ref_key object = sampleGroupKey (ref_Split object) (ref_Scene object) (ref_Partition object) @ nul @ ref_Token object @ nul @ ref_Role object @ nul @ ref_Key object"

definition add_ref :: "ObjectRef \<Rightarrow> refs_seen \<Rightarrow> refs_seen planned" where
  "add_ref object seen =
     (let groupKey = sampleGroupKey (ref_Split object) (ref_Scene object) (ref_Partition object);
          g = (case map_of (prev_groups seen) groupKey of None \<Rightarrow> empty_group (ref_Split object) (ref_Scene object) (ref_Partition object) | Some g \<Rightarrow> g) in
      if bad_ref object then invalid ErrInvalidPreviousManifest (ref_Key object) [] ''previous object reference is invalid''
      else if (case map_of (prev_roles seen) (ref_Key object) of None \<Rightarrow> False | Some previousRole \<Rightarrow> previousRole \<noteq> ref_Role object)
      then invalid ErrInvalidPreviousManifest (ref_Key object) [] ''previous object roles conflict''
      else if ref_key object \<in> set (prev_refs seen) then invalid ErrInvalidPreviousManifest (ref_Key object) [] ''previous object reference is duplicated''
      else if (case map_of (sg_objectBytes g) (ref_Key object) of None \<Rightarrow> False | Some n \<Rightarrow> n \<noteq> ref_SizeBytes object)
      then invalid ErrInvalidPreviousManifest (ref_Key object) [] ''previous object sizes conflict''
      else Inr \<lparr>prev_groups = AList.update groupKey (g\<lparr>sg_sampleTokens := List.insert (ref_Token object) (sg_sampleTokens g),
             sg_objectBytes := AList.update (ref_Key object) (ref_SizeBytes object) (sg_objectBytes g), sg_objects := sg_objects g @ [object]\<rparr>) (prev_groups seen),
           prev_refs = ref_key object # prev_refs seen, prev_roles = (ref_Key object, ref_Role object) # prev_roles seen\<rparr>)"

fun add_refs :: "ObjectRef list \<Rightarrow> refs_seen \<Rightarrow> refs_seen planned" where
  "add_refs [] seen = Inr seen"
| "add_refs (object # objects) seen = plan_then (add_ref object seen) (add_refs objects)"

definition previousManifestGroups :: "ObjectRef list \<Rightarrow> (string \<times> shardGroup) list planned" where
  "previousManifestGroups objects =
     plan_then (add_refs objects \<lparr>prev_groups = [], prev_refs = [], prev_roles = []\<rparr>) (\<lambda>seen.
       Inr (map (\<lambda>(key, g). (key, sorted_group g)) (prev_groups seen)))"

definition bad_shard :: "Shard \<Rightarrow> bool" where
  "bad_shard shard \<longleftrightarrow> \<not> validDigest (sh_Digest shard) \<or> sh_ID shard \<noteq> shardIDForDigest (sh_Digest shard) \<or> \<not> validSplit (sh_Split shard) \<or>
     \<not> validIdentifier (sh_Scene shard) \<or> \<not> validOptionalIdentifier (sh_Partition shard) \<or> sh_SampleTokens shard = [] \<or> sh_ObjectKeys shard = [] \<or>
     sh_InputBytes shard \<le> 0"

definition check_shard :: "DatasetRules \<Rightarrow> (string \<times> shardGroup) list \<Rightarrow> Shard \<Rightarrow> string list \<Rightarrow> string list planned" where
  "check_shard rules groups shard seenGroups =
     (let groupKey = sampleGroupKey (sh_Split shard) (sh_Scene shard) (sh_Partition shard) in
      if bad_shard shard then invalid ErrInvalidPreviousManifest [] [] ''previous shard is invalid''
      else case find (\<lambda>token. \<not> validIdentifier token) (sh_SampleTokens shard) of
        Some token \<Rightarrow> invalid ErrInvalidPreviousManifest [] token []
      | None \<Rightarrow>
      case find (\<lambda>key. \<not> validRelativePath key) (sh_ObjectKeys shard) of
        Some key \<Rightarrow> invalid ErrInvalidPreviousManifest key [] []
      | None \<Rightarrow>
      if groupKey \<in> set seenGroups then invalid ErrInvalidPreviousManifest [] [] ''previous manifest has duplicate scene shards''
      else case map_of groups groupKey of
        None \<Rightarrow> invalid ErrInvalidPreviousManifest [] [] ''previous shard has no matching objects''
      | Some g \<Rightarrow>
        let tokens = sortedMapKeys (sg_sampleTokens g); objectKeys = sortedObjectKeys (sg_objectBytes g) in
        case sumObjectBytes (sg_objectBytes g) of
          Inl e \<Rightarrow> invalid ErrInvalidPreviousManifest [] [] ''previous shard byte estimate is invalid''
        | Inr inputBytes \<Rightarrow>
          if sh_Digest shard \<noteq> shardDigest (ru_SchemaVersion rules) (ru_PublisherVersion rules) (ru_PointRecordWidthBytes rules) g tokens objectKeys \<or>
             sh_InputBytes shard \<noteq> inputBytes \<or> \<not> equalStrings (sh_SampleTokens shard) tokens \<or> \<not> equalStrings (sh_ObjectKeys shard) objectKeys
          then invalid ErrInvalidPreviousManifest [] [] ''previous shard does not match its object manifest''
          else Inr (groupKey # seenGroups))"

fun check_shards :: "DatasetRules \<Rightarrow> (string \<times> shardGroup) list \<Rightarrow> Shard list \<Rightarrow> string list \<Rightarrow> string list planned" where
  "check_shards rules groups [] seenGroups = Inr seenGroups"
| "check_shards rules groups (shard # shards) seenGroups = plan_then (check_shard rules groups shard seenGroups) (check_shards rules groups shards)"

definition validatePreviousManifest :: "Manifest \<Rightarrow> DatasetRules \<Rightarrow> Manifest planned" where
  "validatePreviousManifest manifest rules =
     (if mf_SchemaVersion manifest \<noteq> ru_SchemaVersion rules \<or> mf_PublisherVersion manifest \<noteq> ru_PublisherVersion rules \<or>
         mf_PointRecordWidthBytes manifest \<noteq> ru_PointRecordWidthBytes rules
      then invalid ErrInvalidPreviousManifest [] [] ''previous manifest version does not match rules''
      else if length (mf_Metadata manifest) \<noteq> 1 \<or> map_of (mf_Metadata manifest) ''format'' \<noteq> Some ''datasetpublisher/v1''
      then invalid ErrInvalidPreviousManifest [] [] ''previous manifest format is invalid''
      else if mf_Digest manifest = [] \<or>
         mf_Digest manifest \<noteq> manifestDigest (mf_SchemaVersion manifest) (mf_PublisherVersion manifest) (mf_PointRecordWidthBytes manifest) (mf_Shards manifest)
      then invalid ErrInvalidPreviousManifest [] [] ''previous manifest digest is invalid''
      else plan_then (previousManifestGroups (mf_Objects manifest)) (\<lambda>groups.
        plan_then (check_shards rules groups (mf_Shards manifest) []) (\<lambda>seenGroups.
          if length seenGroups \<noteq> length groups then invalid ErrInvalidPreviousManifest [] [] ''previous manifest has unassigned objects''
          else Inr manifest)))"

subsection \<open>The plan\<close>

definition previous_shards :: "Manifest \<Rightarrow> (string \<times> Shard) list" where
  "previous_shards previous =
     fold (\<lambda>shard. AList.update (shardReuseKey (sh_Split shard) (sh_Scene shard) (sh_Partition shard) (sh_Digest shard)) shard) (mf_Shards previous) []"

definition plan_shard :: "(string \<times> Shard) list \<Rightarrow> DatasetRules \<Rightarrow> shardGroup \<Rightarrow> Shard planned" where
  "plan_shard previousByDigest rules g =
     (let tokens = sortedMapKeys (sg_sampleTokens g); objectKeys = sortedObjectKeys (sg_objectBytes g) in
      plan_then (sumObjectBytes (sg_objectBytes g)) (\<lambda>inputBytes.
        let digest = shardDigest (ru_SchemaVersion rules) (ru_PublisherVersion rules) (ru_PointRecordWidthBytes rules) g tokens objectKeys;
            shard = \<lparr>sh_ID = shardIDForDigest digest, sh_Split = sg_split g, sh_Scene = sg_scene g, sh_Partition = sg_partition g, sh_SampleTokens = tokens,
              sh_Digest = digest, sh_ObjectKeys = objectKeys, sh_InputBytes = inputBytes, sh_Reused = False\<rparr> in
        case map_of previousByDigest (shardReuseKey (sg_split g) (sg_scene g) (sg_partition g) digest) of
          Some previousShard \<Rightarrow> Inr (shard\<lparr>sh_ID := sh_ID previousShard, sh_Reused := True\<rparr>)
        | None \<Rightarrow> Inr shard))"

fun plan_shards :: "(string \<times> Shard) list \<Rightarrow> DatasetRules \<Rightarrow> shardGroup list \<Rightarrow> Shard list planned" where
  "plan_shards previousByDigest rules [] = Inr []"
| "plan_shards previousByDigest rules (g # groups) =
     plan_then (plan_shard previousByDigest rules g) (\<lambda>shard. plan_then (plan_shards previousByDigest rules groups) (\<lambda>shards. Inr (shard # shards)))"

definition planShards :: "shardGroup list \<Rightarrow> Manifest \<Rightarrow> DatasetRules \<Rightarrow> Shard list planned" where
  "planShards groups previous rules = plan_shards (previous_shards previous) rules groups"

fun added_bytes :: "int \<Rightarrow> Shard list \<Rightarrow> int planned" where
  "added_bytes addedBytes [] = Inr addedBytes"
| "added_bytes addedBytes (shard # shards) =
     (if sh_Reused shard then added_bytes addedBytes shards
      else if sh_InputBytes shard > int64 (MaxInt64 - addedBytes) then invalid ErrInvalidInventory [] [] ''dataset byte estimate overflows int64''
      else added_bytes (int64 (addedBytes + sh_InputBytes shard)) shards)"

definition splitPlannedShards :: "Shard list \<Rightarrow> (Shard list \<times> Shard list \<times> int) planned" where
  "splitPlannedShards shards = plan_then (added_bytes 0 shards) (\<lambda>addedBytes.
     Inr (filter (\<lambda>shard. \<not> sh_Reused shard) shards, filter sh_Reused shards, addedBytes))"

definition no_manifest :: Manifest where \<comment> \<open>\<open>Manifest{}\<close>\<close>
  "no_manifest = \<lparr>mf_SchemaVersion = [], mf_PublisherVersion = [], mf_PointRecordWidthBytes = 0, mf_Digest = [], mf_Shards = [], mf_Objects = [], mf_Metadata = []\<rparr>"

definition new_manifest :: "DatasetRules \<Rightarrow> ObjectRef list \<Rightarrow> Shard list \<Rightarrow> Manifest" where
  "new_manifest rules objects shards = \<lparr>mf_SchemaVersion = ru_SchemaVersion rules, mf_PublisherVersion = ru_PublisherVersion rules,
     mf_PointRecordWidthBytes = ru_PointRecordWidthBytes rules,
     mf_Digest = manifestDigest (ru_SchemaVersion rules) (ru_PublisherVersion rules) (ru_PointRecordWidthBytes rules) shards,
     mf_Shards = shards, mf_Objects = objects, mf_Metadata = [(''format'', ''datasetpublisher/v1'')]\<rparr>"

definition PlanDatasetPublication :: "InventoryObject list \<Rightarrow> PlanOptions \<Rightarrow> Plan planned" where
  "PlanDatasetPublication inventory options =
     (if po_Now options = zero_time \<or> po_StableWindow options \<le> 0 then invalid ErrInvalidPlanOptions [] [] ''now and stable window are required''
      else plan_then (validateRules (po_Rules options)) (\<lambda>rules.
        plan_then (validateInventory inventory (po_Now options)) (\<lambda>observations.
        if ru_SuccessMarker rules \<noteq> [] \<and> map_of observations (ru_SuccessMarker rules) = None
        then invalid ErrMissingSuccessMarker (ru_SuccessMarker rules) [] []
        else plan_then (if \<not> isZeroManifest (po_Previous options) then validatePreviousManifest (po_Previous options) rules else Inr no_manifest) (\<lambda>previous.
        plan_then (buildShardGroups observations rules options) (\<lambda>(objects, groups).
        plan_then (planShards groups previous rules) (\<lambda>shards.
        plan_then (splitPlannedShards shards) (\<lambda>(added, reused, addedBytes).
          Inr \<lparr>plan_manifest = new_manifest rules objects shards, plan_added = added, plan_reused = reused,
            plan_dryRun = \<lparr>dry_AddedShardCount = length added, dry_ReusedShardCount = length reused, dry_EstimatedAddedStorageBytes = addedBytes\<rparr>\<rparr>)))))))"

end
