(* ===== verification/Planner_Groups.thy ===== *)
theory Planner_Groups
  imports Planner "HOL-Library.Multiset"
begin

section \<open>Observations, groups and shards of a plan\<close>

text \<open>
  The groups of a plan and the groups read back from a manifest are described by one predicate over the object references they hold
  (\<open>group_of\<close>), which does not depend on the order of the references; accepted rules and inventories are described by what they guarantee.
\<close>

lemma plan_then_Inr [simp]: "plan_then r k = Inr y \<longleftrightarrow> (\<exists>x. r = Inr x \<and> k x = Inr y)"
  by (auto simp: plan_then_def split: sum.splits)

lemma plan_then_simps: "plan_then (Inr x) k = k x"
  by (simp add: plan_then_def)

lemma invalid_Inr [simp]: "invalid k key token m \<noteq> Inr x" "Inr x \<noteq> invalid k key token m"
  by (simp_all add: invalid_def)

lemma find_None: "find P xs = None \<longleftrightarrow> (\<forall>x \<in> set xs. \<not> P x)"
  by (auto simp: find_None_iff)

subsection \<open>Observations\<close>

definition observed :: "InventoryObject list \<Rightarrow> string \<Rightarrow> InventoryObject list" where
  "observed inventory key = sort_key io_ObservedAt (filter (\<lambda>o'. io_Key o' = key) inventory)"

lemma map_of_append_fold:
  "map_of (fold (\<lambda>o'. map_append (io_Key o') o') inventory m) key =
    (case map_of m key of
       None \<Rightarrow> if filter (\<lambda>o'. io_Key o' = key) inventory = [] then None else Some (filter (\<lambda>o'. io_Key o' = key) inventory)
     | Some l \<Rightarrow> Some (l @ filter (\<lambda>o'. io_Key o' = key) inventory))"
  by (induction inventory arbitrary: m) (auto simp: map_append_def update_conv' split: option.splits)

lemma distinct_append_fold: "distinct (map fst m) \<Longrightarrow> distinct (map fst (fold (\<lambda>o'. map_append (io_Key o') o') inventory m))"
  by (induction inventory arbitrary: m) (auto simp: map_append_def distinct_update)

lemma equal_times_run:
  assumes "sorted (map t os)" "\<forall>(p, c) \<in> set (zip os (tl os)). t c = t p \<longrightarrow> Q p c" "\<And>a b c. Q a b \<Longrightarrow> Q b c \<Longrightarrow> Q a c" "\<And>a. Q a a" "\<And>a b. Q a b \<Longrightarrow> Q b a"
    and "a \<in> set os" "b \<in> set os" "t a = (t b :: int)"
  shows "Q a b"
  using assms(1,2,6,7,8)
proof (induction os arbitrary: a b)
  case (Cons x os)
  have head: "Q x y" if "y \<in> set os" "t y = t x" for y
  proof (cases os)
    case (Cons z zs)
    have "t x \<le> t z" "t z \<le> t y" using Cons.prems(1) that(1) Cons by auto
    then have "t z = t x" using that(2) by simp
    then have "Q x z" using Cons.prems(2) Cons by simp
    moreover have "Q z y" using Cons.IH [of z y] Cons.prems(1,2) Cons that \<open>t z = t x\<close> by (auto split: prod.splits)
    ultimately show ?thesis using assms(3) by blast
  qed (use that in simp)
  have tail: "sorted (map t os)" "\<forall>(p, c) \<in> set (zip os (tl os)). t c = t p \<longrightarrow> Q p c"
    using Cons.prems(1,2) by (auto split: prod.splits) (cases os; auto)+
  show ?case using Cons.prems(3-5) head Cons.IH [OF tail] assms(4,5) by auto
qed simp

definition steady :: "InventoryObject list \<Rightarrow> bool" where \<comment> \<open>observations of one key at one time agree\<close>
  "steady inventory \<longleftrightarrow> (\<forall>a \<in> set inventory. \<forall>b \<in> set inventory. io_Key a = io_Key b \<and> io_ObservedAt a = io_ObservedAt b \<longrightarrow> a = b)"

lemma map_of_values: "map_of (map (\<lambda>(k, v). (k, f v)) m) key = map_option f (map_of m key)"
  by (induction m) auto

lemma sort_key_Nil_iff: "sort_key f xs = [] \<longleftrightarrow> xs = []"
  by (metis length_0_conv length_sort)

lemma case_find_Inr:
  assumes "\<And>x y. f x \<noteq> Inr y" shows "(case find P xs of None \<Rightarrow> r | Some x \<Rightarrow> f x) = Inr y \<longleftrightarrow> (\<forall>x \<in> set xs. \<not> P x) \<and> r = Inr y"
proof (cases "find P xs")
  case (Some x)
  then show ?thesis using assms find_Some_in [OF Some] by auto
next
  case None
  moreover from this have "\<forall>x \<in> set xs. \<not> P x" by (simp add: find_None)
  ultimately show ?thesis by simp
qed

lemma observed_map:
  "map_of (map (\<lambda>(key, os). (key, sort_key io_ObservedAt os)) (fold (\<lambda>o'. map_append (io_Key o') o') inventory [])) key =
    (if observed inventory key = [] then None else Some (observed inventory key))"
  by (simp add: map_of_values map_of_append_fold observed_def sort_key_Nil_iff)

lemma set_observed: "set (observed inventory key) = {o' \<in> set inventory. io_Key o' = key}"
  by (auto simp: observed_def)

lemma in_set_tl: "x \<in> set (tl xs) \<Longrightarrow> x \<in> set xs"
  by (cases xs) auto

lemma validateInventory_spec:
  "(\<exists>obs. validateInventory inventory now = Inr obs \<and> map_of obs = (\<lambda>key. if observed inventory key = [] then None else Some (observed inventory key))) \<longleftrightarrow>
   (\<forall>o' \<in> set inventory. \<not> bad_observation now o') \<and> steady inventory"
  "validateInventory inventory now = Inr obs \<Longrightarrow> map_of obs = (\<lambda>key. if observed inventory key = [] then None else Some (observed inventory key))"
proof -
  define rows where "rows = map (\<lambda>(key, os). (key, sort_key io_ObservedAt os)) (fold (\<lambda>o'. map_append (io_Key o') o') inventory [])"
  define clash where "clash os \<longleftrightarrow> list_ex (\<lambda>(previous, current). io_ObservedAt current = io_ObservedAt previous \<and> changed current previous) (zip os (tl os))" for os
  have lookup: "map_of rows = (\<lambda>key. if observed inventory key = [] then None else Some (observed inventory key))"
    unfolding rows_def by (rule ext) (rule observed_map)
  have "distinct (map fst rows)"
    using distinct_append_fold [of "[]" inventory] by (simp add: rows_def comp_def case_prod_unfold)
  then have row: "(key, os) \<in> set rows \<longleftrightarrow> os = observed inventory key \<and> os \<noteq> []" for key os
    using lookup by (metis (no_types, lifting) map_of_eq_Some_iff option.discI option.inject)
  have clash: "(\<exists>key. clash (observed inventory key)) \<longleftrightarrow> \<not> steady inventory"
  proof
    assume "\<exists>key. clash (observed inventory key)"
    then obtain key a b where ab: "(a, b) \<in> set (zip (observed inventory key) (tl (observed inventory key)))" "io_ObservedAt b = io_ObservedAt a" "changed b a"
      by (auto simp: clash_def list_ex_iff)
    then have "a \<in> set (observed inventory key)" "b \<in> set (observed inventory key)" by (auto dest: set_zip_leftD set_zip_rightD in_set_tl)
    then show "\<not> steady inventory" using ab(2,3) by (auto simp: set_observed steady_def changed_def)
  next
    assume "\<not> steady inventory"
    then obtain a b where ab: "a \<in> set inventory" "b \<in> set inventory" "io_Key a = io_Key b" "io_ObservedAt a = io_ObservedAt b" "a \<noteq> b" by (auto simp: steady_def)
    then have ch: "changed b a" by (auto simp: changed_def)
    show "\<exists>key. clash (observed inventory key)"
    proof (rule ccontr)
      assume none: "\<nexists>key. clash (observed inventory key)"
      have "\<not> changed b a"
        by (rule equal_times_run [of io_ObservedAt "observed inventory (io_Key a)" "\<lambda>p c. \<not> changed c p"])
          (use ab none in \<open>auto simp: observed_def clash_def list_ex_iff changed_def\<close>)
      with ch show False by simp
    qed
  qed
  have val: "validateInventory inventory now = Inr obs \<longleftrightarrow> (\<forall>o' \<in> set inventory. \<not> bad_observation now o') \<and> (\<forall>(key, os) \<in> set rows. \<not> clash os) \<and> obs = rows" for obs
    unfolding validateInventory_def Let_def rows_def [symmetric] clash_def [symmetric]
    by (subst case_find_Inr, simp, subst case_find_Inr) (auto split: prod.splits)
  have rows: "(\<forall>(key, os) \<in> set rows. \<not> clash os) \<longleftrightarrow> steady inventory"
  proof -
    have "\<not> clash []" by (simp add: clash_def)
    then show ?thesis using clash row by fastforce
  qed
  show "(\<exists>obs. validateInventory inventory now = Inr obs \<and> map_of obs = (\<lambda>key. if observed inventory key = [] then None else Some (observed inventory key))) \<longleftrightarrow>
   (\<forall>o' \<in> set inventory. \<not> bad_observation now o') \<and> steady inventory"
    using val rows lookup by auto
  show "validateInventory inventory now = Inr obs \<Longrightarrow> map_of obs = (\<lambda>key. if observed inventory key = [] then None else Some (observed inventory key))"
    using val lookup by simp
qed

lemma observed_perm:
  assumes "mset inventory' = mset inventory" "steady inventory" shows "observed inventory' key = observed inventory key"
  unfolding observed_def
proof (rule sort_key_inj_key_eq)
  have "set inventory' = set inventory" using assms(1) by (metis set_mset_mset)
  then show "inj_on io_ObservedAt (set (filter (\<lambda>o'. io_Key o' = key) inventory'))" using assms(2) by (auto simp: inj_on_def steady_def)
qed (use assms(1) in \<open>simp_all add: mset_filter\<close>)

lemma steady_perm: "mset inventory' = mset inventory \<Longrightarrow> steady inventory' = steady inventory"
  unfolding steady_def by (metis set_mset_mset)

lemma inventory_perm:
  assumes "mset inventory' = mset inventory" "validateInventory inventory now = Inr obs"
  obtains obs' where "validateInventory inventory' now = Inr obs'" "map_of obs' = map_of obs"
proof -
  have good: "\<forall>o' \<in> set inventory. \<not> bad_observation now o'" "steady inventory"
    using validateInventory_spec(1) [of inventory now] validateInventory_spec(2) [OF assms(2)] assms(2) by blast+
  then have "\<forall>o' \<in> set inventory'. \<not> bad_observation now o'" "steady inventory'"
    using assms(1) steady_perm [OF assms(1)] by (metis set_mset_mset)+
  then obtain obs' where "validateInventory inventory' now = Inr obs'" "map_of obs' = (\<lambda>key. if observed inventory' key = [] then None else Some (observed inventory' key))"
    using validateInventory_spec(1) [of inventory' now] by blast
  moreover from this(2) have "map_of obs' = map_of obs"
    by (simp only: validateInventory_spec(2) [OF assms(2)] observed_perm [OF assms(1) good(2)])
  ultimately show ?thesis using that by blast
qed

lemma stable_cong: "map_of obs' = map_of obs \<Longrightarrow> stableObjectForKey obs' key options = stableObjectForKey obs key options"
  by (simp add: stableObjectForKey_def)

lemma add_samples_cong:
  assumes "map_of obs' = map_of obs" shows "add_samples obs' rules options samples groups rs = add_samples obs rules options samples groups rs"
proof -
  note stable = stable_cong [OF assms]
  have objects: "add_objects obs' rules options sample objs g rs = add_objects obs rules options sample objs g rs" for sample objs g rs
    by (induction objs arbitrary: g rs) (simp_all only: add_objects.simps stable)
  show ?thesis by (induction samples arbitrary: groups rs) (simp_all only: add_samples.simps objects case_prod_unfold)
qed

lemma baseline_index:
  assumes "fold (\<lambda>(index, o') b. if io_ObservedAt o' > cutoff then b else Some index) (enumerate k vals) start = Some i"
  shows "start = Some i \<or> k \<le> i \<and> i < k + length vals \<and> io_ObservedAt (vals ! (i - k)) \<le> cutoff"
  using assms
proof (induction vals arbitrary: k start)
  case (Cons v vals)
  let ?start = "if io_ObservedAt v > cutoff then start else Some k"
  have "?start = Some i \<or> Suc k \<le> i \<and> i < Suc k + length vals \<and> io_ObservedAt (vals ! (i - Suc k)) \<le> cutoff"
    by (rule Cons.IH) (use Cons.prems in simp)
  then show ?case
  proof
    assume "?start = Some i"
    then show ?thesis by (auto split: if_splits)
  next
    assume later: "Suc k \<le> i \<and> i < Suc k + length vals \<and> io_ObservedAt (vals ! (i - Suc k)) \<le> cutoff"
    then have "(v # vals) ! (i - k) = vals ! (i - Suc k)" by (simp add: nth_Cons' Suc_diff_Suc)
    with later show ?thesis by simp
  qed
qed simp

lemma latest_in: "fold (\<lambda>o' latest. if io_ObservedAt o' > io_ObservedAt latest then o' else latest) os b \<in> insert b (set os)"
proof (induction os arbitrary: b)
  case (Cons a os)
  from Cons [of a] Cons [of b] show ?case by auto
qed simp

lemma stable_spec:
  assumes "validateInventory inventory now = Inr obs" "stableObjectForKey obs key options = Inr o'"
  shows "o' \<in> set inventory \<and> io_Key o' = key \<and>
    (\<exists>b \<in> set inventory. io_Key b = key \<and> io_ObservedAt b \<le> po_Now options - po_StableWindow options \<and>
       (\<forall>x \<in> set inventory. io_Key x = key \<and> io_ObservedAt b \<le> io_ObservedAt x \<longrightarrow> io_SizeBytes x = io_SizeBytes o' \<and> io_ETag x = io_ETag o'))"
proof -
  let ?vals = "observed inventory key" and ?cutoff = "po_Now options - po_StableWindow options"
  have steady: "steady inventory" using validateInventory_spec(1) [of inventory now] validateInventory_spec(2) [OF assms(1)] assms(1) by blast
  have "map_of obs key = (if ?vals = [] then None else Some ?vals)" using validateInventory_spec(2) [OF assms(1)] by simp
  then obtain i where i: "fold (\<lambda>(index, o') b. if io_ObservedAt o' > ?cutoff then b else Some index) (enumerate 0 ?vals) None = Some i"
      "\<not> list_ex (\<lambda>o'. changed o' (?vals ! i)) (drop i ?vals)"
      "o' = fold (\<lambda>o' latest. if io_ObservedAt o' > io_ObservedAt latest then o' else latest) (drop i ?vals) (?vals ! i)"
    using assms(2) by (auto simp: stableObjectForKey_def Let_def split: option.splits if_splits)
  have base: "i < length ?vals" "io_ObservedAt (?vals ! i) \<le> ?cutoff" using baseline_index [OF i(1)] by simp_all
  then have b: "?vals ! i \<in> set inventory" "io_Key (?vals ! i) = key" using set_observed [of inventory key] nth_mem [OF base(1)] by auto
  have "o' \<in> insert (?vals ! i) (set (drop i ?vals))" unfolding i(3) by (rule latest_in)
  moreover have "?vals ! i \<in> set (drop i ?vals)" using base(1) by (metis Cons_nth_drop_Suc list.set_intros(1))
  ultimately have o: "o' \<in> set (drop i ?vals)" by auto
  then have o_in: "o' \<in> set inventory" "io_Key o' = key" using set_observed [of inventory key] by (auto dest: in_set_dropD)
  have same: "\<not> changed x o'" if x: "x \<in> set inventory" "io_Key x = key" "io_ObservedAt (?vals ! i) \<le> io_ObservedAt x" for x
  proof -
    have "x \<in> set ?vals" using x(1,2) by (simp add: set_observed)
    then obtain j where j: "j < length ?vals" "x = ?vals ! j" by (metis in_set_conv_nth)
    have "\<not> changed x (?vals ! i)"
    proof (cases "i \<le> j")
      case True
      then have "x \<in> set (drop i ?vals)" using j by (auto simp: in_set_conv_nth intro!: exI [of _ "j - i"])
      then show ?thesis using i(2) by (auto simp: list_ex_iff)
    next
      case False
      then have "io_ObservedAt x \<le> io_ObservedAt (?vals ! i)"
        using j base(1) sorted_nth_mono [of "map io_ObservedAt ?vals" j i] by (simp add: observed_def)
      with x(3) have "io_ObservedAt x = io_ObservedAt (?vals ! i)" by simp
      then have "x = ?vals ! i" using steady x(1,2) b unfolding steady_def by metis
      then show ?thesis by (simp add: changed_def)
    qed
    moreover have "\<not> changed o' (?vals ! i)" using i(2) o by (auto simp: list_ex_iff)
    ultimately show ?thesis by (simp add: changed_def)
  qed
  then have "\<forall>x \<in> set inventory. io_Key x = key \<and> io_ObservedAt (?vals ! i) \<le> io_ObservedAt x \<longrightarrow> io_SizeBytes x = io_SizeBytes o' \<and> io_ETag x = io_ETag o'"
    by (simp add: changed_def)
  then show ?thesis using o_in b base(2) by (intro conjI bexI [of _ "?vals ! i"]) auto
qed

subsection \<open>Groups\<close>

definition gkey :: "ObjectRef \<Rightarrow> string" where
  "gkey r = sampleGroupKey (ref_Split r) (ref_Scene r) (ref_Partition r)"

definition nul_free :: "string \<Rightarrow> bool" where
  "nul_free s \<longleftrightarrow> CHR 0x00 \<notin> set s"

definition sizes :: "(string \<Rightarrow> int) \<Rightarrow> ObjectRef list \<Rightarrow> string \<Rightarrow> int option" where
  "sizes sz rs = (\<lambda>key. if key \<in> ref_Key ` set rs then Some (sz key) else None)"

definition group_of :: "(string \<Rightarrow> int) \<Rightarrow> string \<Rightarrow> ObjectRef list \<Rightarrow> shardGroup \<Rightarrow> bool" where
  "group_of sz k rs g \<longleftrightarrow> sg_objects g = filter (\<lambda>r. gkey r = k) rs \<and> sg_objects g \<noteq> [] \<and> k = sampleGroupKey (sg_split g) (sg_scene g) (sg_partition g) \<and>
     nul_free (sg_split g) \<and> nul_free (sg_scene g) \<and>
     (\<forall>r \<in> set (sg_objects g). ref_Split r = sg_split g \<and> ref_Scene r = sg_scene g \<and> ref_Partition r = sg_partition g) \<and>
     distinct (sg_sampleTokens g) \<and> set (sg_sampleTokens g) = ref_Token ` set (sg_objects g) \<and>
     distinct (map fst (sg_objectBytes g)) \<and> map_of (sg_objectBytes g) = sizes sz (sg_objects g)"

definition groups_of :: "(string \<Rightarrow> int) \<Rightarrow> ObjectRef list \<Rightarrow> (string \<times> shardGroup) list \<Rightarrow> bool" where
  "groups_of sz rs groups \<longleftrightarrow> distinct (map fst groups) \<and> fst ` set groups = gkey ` set rs \<and> (\<forall>(k, g) \<in> set groups. group_of sz k rs g)"

lemma cut_nul: "nul_free a \<Longrightarrow> nul_free b \<Longrightarrow> a @ nul @ x = b @ nul @ y \<longleftrightarrow> a = b \<and> x = y"
proof (induction a arbitrary: b)
  case Nil
  then show ?case by (cases b) (auto simp: nul_def nul_free_def)
next
  case (Cons c a)
  then show ?case by (cases b) (auto simp: nul_def nul_free_def)
qed

lemma sampleGroupKey_inj:
  "nul_free s \<Longrightarrow> nul_free s' \<Longrightarrow> nul_free c \<Longrightarrow> nul_free c' \<Longrightarrow> sampleGroupKey s c p = sampleGroupKey s' c' p' \<longleftrightarrow> s = s' \<and> c = c' \<and> p = p'"
  by (simp add: sampleGroupKey_def cut_nul)

lemma in_set_update: "distinct (map fst al) \<Longrightarrow> (k', v') \<in> set (AList.update k v al) \<longleftrightarrow> k' = k \<and> v' = v \<or> k' \<noteq> k \<and> (k', v') \<in> set al"
proof (induction al)
  case (Cons x al)
  have "(k, v') \<in> set al \<Longrightarrow> k \<in> fst ` set al" by force
  with Cons show ?case by auto
qed simp

lemma groups_extend:
  assumes "groups_of sz rs groups" "refs \<noteq> []" "nul_free s" "nul_free c" "k = sampleGroupKey s c p"
    and refs: "\<And>r. r \<in> set refs \<Longrightarrow> ref_Split r = s \<and> ref_Scene r = c \<and> ref_Partition r = p \<and> ref_Token r = t"
    and g: "g = (case map_of groups k of None \<Rightarrow> empty_group s c p | Some g \<Rightarrow> g)"
    and g2: "sg_split g2 = sg_split g" "sg_scene g2 = sg_scene g" "sg_partition g2 = sg_partition g"
      "sg_sampleTokens g2 = List.insert t (sg_sampleTokens g)" "sg_objects g2 = sg_objects g @ refs"
    and bs: "distinct (map fst (sg_objectBytes g2))" "map_of (sg_objectBytes g2) = sizes sz (sg_objects g @ refs)"
  shows "groups_of sz (rs @ refs) (AList.update k g2 groups)"
proof -
  have keys: "gkey r = k" if "r \<in> set refs" for r using refs [OF that] assms(5) by (simp add: gkey_def)
  have d: "distinct (map fst groups)" and dom: "fst ` set groups = gkey ` set rs" and each: "(k', g') \<in> set groups \<Longrightarrow> group_of sz k' rs g'" for k' g'
    using assms(1) by (auto simp: groups_of_def)
  have base: "sg_objects g = filter (\<lambda>r. gkey r = k) rs \<and> sg_split g = s \<and> sg_scene g = c \<and> sg_partition g = p \<and> distinct (sg_sampleTokens g) \<and>
      set (sg_sampleTokens g) = ref_Token ` set (sg_objects g) \<and> (\<forall>r \<in> set (sg_objects g). ref_Split r = s \<and> ref_Scene r = c \<and> ref_Partition r = p)"
  proof (cases "map_of groups k")
    case None
    then have "k \<notin> gkey ` set rs" using dom by (simp add: map_of_eq_None_iff)
    then have "filter (\<lambda>r. gkey r = k) rs = []" by (auto simp: filter_empty_conv)
    with None show ?thesis by (simp add: g empty_group_def)
  next
    case (Some g0)
    then have "group_of sz k rs g0" using each map_of_SomeD by fastforce
    with Some show ?thesis using assms(3-5) sampleGroupKey_inj by (auto simp: g group_of_def)
  qed
  have filter_refs: "filter (\<lambda>r. gkey r = k) refs = refs" "k' \<noteq> k \<Longrightarrow> filter (\<lambda>r. gkey r = k') refs = []" for k'
    using keys by (auto simp: filter_id_conv filter_empty_conv)
  have "ref_Token ` set refs = {t}" using refs assms(2) by (cases refs) auto
  then have "group_of sz k (rs @ refs) g2"
    using base filter_refs(1) g2 bs refs assms(2-5) by (auto simp: group_of_def)
  moreover have "group_of sz k' (rs @ refs) g'" if "(k', g') \<in> set groups" "k' \<noteq> k" for k' g'
    using each [OF that(1)] unfolding group_of_def filter_append filter_refs(2) [OF that(2)] append_Nil2 .
  moreover have "gkey ` set refs = {k}" using keys assms(2) by (cases refs) auto
  ultimately have "\<forall>(k', g') \<in> set (AList.update k g2 groups). group_of sz k' (rs @ refs) g'"
    using in_set_update [OF d] by fastforce
  then show ?thesis
    using d dom \<open>gkey ` set refs = {k}\<close> unfolding groups_of_def by (simp add: distinct_update dom_update image_Un insert_commute)
qed

subsection \<open>Groups of samples\<close>

definition size_at :: "inventoryObservations \<Rightarrow> PlanOptions \<Rightarrow> string \<Rightarrow> int" where
  "size_at obs options key = io_SizeBytes (projr (stableObjectForKey obs key options))"

definition rule_ref :: "inventoryObservations \<Rightarrow> PlanOptions \<Rightarrow> SampleRule \<Rightarrow> SampleObjectRule \<Rightarrow> ObjectRef" where
  "rule_ref obs options sample rule = object_ref sample rule (projr (stableObjectForKey obs (so_Key rule) options))"

definition sample_refs :: "inventoryObservations \<Rightarrow> PlanOptions \<Rightarrow> SampleRule \<Rightarrow> ObjectRef list" where
  "sample_refs obs options sample = map (rule_ref obs options sample) (sr_Objects sample)"

lemma rule_ref_fields [simp]:
  "ref_Key (rule_ref obs options sample rule) = so_Key rule" "ref_Role (rule_ref obs options sample rule) = so_Role rule"
  "ref_Split (rule_ref obs options sample rule) = sr_Split sample" "ref_Token (rule_ref obs options sample rule) = sr_Token sample"
  "ref_Scene (rule_ref obs options sample rule) = sr_Scene sample" "ref_Partition (rule_ref obs options sample rule) = sr_Partition sample"
  "ref_SizeBytes (rule_ref obs options sample rule) = size_at obs options (so_Key rule)"
  by (simp_all add: rule_ref_def object_ref_def size_at_def)

definition found :: "inventoryObservations \<Rightarrow> PlanOptions \<Rightarrow> SampleObjectRule \<Rightarrow> bool" where
  "found obs options rule \<longleftrightarrow> (\<exists>o'. stableObjectForKey obs (so_Key rule) options = Inr o' \<and> (so_Role rule = ObjectRolePoints \<longrightarrow> io_SizeBytes o' \<noteq> 0))"

lemma add_objects_spec:
  assumes "add_objects obs rules options sample objs g rs = Inr (g', rs')" "distinct (map fst (sg_objectBytes g))" "map_of (sg_objectBytes g) = sizes (size_at obs options) (sg_objects g)"
  shows "rs' = rs @ map (rule_ref obs options sample) objs \<and> sg_objects g' = sg_objects g @ map (rule_ref obs options sample) objs \<and>
    sg_split g' = sg_split g \<and> sg_scene g' = sg_scene g \<and> sg_partition g' = sg_partition g \<and> sg_sampleTokens g' = sg_sampleTokens g \<and>
    distinct (map fst (sg_objectBytes g')) \<and> map_of (sg_objectBytes g') = sizes (size_at obs options) (sg_objects g') \<and> (\<forall>rule \<in> set objs. found obs options rule)"
  using assms
proof (induction objs arbitrary: g rs)
  case (Cons rule objs)
  let ?r = "rule_ref obs options sample rule"
  obtain o' where o: "stableObjectForKey obs (so_Key rule) options = Inr o'" "so_Role rule = ObjectRolePoints \<longrightarrow> io_SizeBytes o' \<noteq> 0"
    using Cons.prems(1) by (auto split: if_splits)
  have r: "object_ref sample rule o' = ?r" by (simp add: rule_ref_def o(1))
  define bs where "bs = (if map_of (sg_objectBytes g) (ref_Key ?r) = None then sg_objectBytes g @ [(ref_Key ?r, ref_SizeBytes ?r)] else sg_objectBytes g)"
  define g1 where "g1 = g\<lparr>sg_objects := sg_objects g @ [?r], sg_objectBytes := bs\<rparr>"
  have rest: "add_objects obs rules options sample objs g1 (rs @ [?r]) = Inr (g', rs')"
    using Cons.prems(1) o r by (auto simp: plan_then_simps Let_def g1_def bs_def split: if_splits)
  have "distinct (map fst bs)" using Cons.prems(2) by (auto simp: bs_def map_of_eq_None_iff)
  moreover have "map_of bs = sizes (size_at obs options) (sg_objects g @ [?r])"
  proof
    fix key
    show "map_of bs key = sizes (size_at obs options) (sg_objects g @ [?r]) key"
      using Cons.prems(3) by (auto simp: bs_def sizes_def map_add_def fun_eq_iff split: option.splits if_splits)
  qed
  ultimately have "distinct (map fst (sg_objectBytes g1))" "map_of (sg_objectBytes g1) = sizes (size_at obs options) (sg_objects g1)" by (simp_all add: g1_def)
  from Cons.IH [OF rest this] show ?case using o by (simp add: g1_def found_def)
qed simp

definition usable_sample :: "SampleRule \<Rightarrow> bool" where
  "usable_sample sample \<longleftrightarrow> nul_free (sr_Split sample) \<and> nul_free (sr_Scene sample) \<and> sr_Objects sample \<noteq> []"

lemma add_samples_spec:
  assumes "add_samples obs rules options samples groups rs = Inr (groups', rs')" "groups_of (size_at obs options) rs groups" "\<forall>s \<in> set samples. usable_sample s"
  shows "groups_of (size_at obs options) rs' groups' \<and> rs' = rs @ concat (map (sample_refs obs options) samples) \<and>
    (\<forall>s \<in> set samples. \<forall>rule \<in> set (sr_Objects s). found obs options rule)"
  using assms
proof (induction samples arbitrary: groups rs)
  case (Cons s samples)
  define k where "k = sampleGroupKey (sr_Split s) (sr_Scene s) (sr_Partition s)"
  define g where "g = (case map_of groups k of None \<Rightarrow> empty_group (sr_Split s) (sr_Scene s) (sr_Partition s) | Some g \<Rightarrow> g)"
  let ?g1 = "g\<lparr>sg_sampleTokens := List.insert (sr_Token s) (sg_sampleTokens g)\<rparr>"
  obtain g2 rs2 where add: "add_objects obs rules options s (sr_Objects s) ?g1 rs = Inr (g2, rs2)"
    and rest: "add_samples obs rules options samples (AList.update k g2 groups) rs2 = Inr (groups', rs')"
    using Cons.prems(1) by (auto simp: Let_def k_def g_def)
  have "distinct (map fst (sg_objectBytes g)) \<and> map_of (sg_objectBytes g) = sizes (size_at obs options) (sg_objects g)"
  proof (cases "map_of groups k")
    case None
    then show ?thesis by (simp add: g_def empty_group_def sizes_def fun_eq_iff)
  next
    case (Some g0)
    then have "(k, g0) \<in> set groups" by (rule map_of_SomeD)
    then show ?thesis using Some Cons.prems(2) by (auto simp: g_def groups_of_def group_of_def)
  qed
  with add_objects_spec [OF add]
  have spec: "rs2 = rs @ sample_refs obs options s" "sg_objects g2 = sg_objects g @ sample_refs obs options s" "sg_split g2 = sg_split g" "sg_scene g2 = sg_scene g"
    "sg_partition g2 = sg_partition g" "sg_sampleTokens g2 = List.insert (sr_Token s) (sg_sampleTokens g)" "distinct (map fst (sg_objectBytes g2))"
    "map_of (sg_objectBytes g2) = sizes (size_at obs options) (sg_objects g @ sample_refs obs options s)" "\<forall>rule \<in> set (sr_Objects s). found obs options rule"
    by (simp_all add: sample_refs_def)
  have s: "usable_sample s" using Cons.prems(3) by simp
  have "groups_of (size_at obs options) (rs @ sample_refs obs options s) (AList.update k g2 groups)"
    by (rule groups_extend [OF Cons.prems(2) _ _ _ k_def _ g_def spec(3,4,5,6,2,7,8)]) (use s in \<open>auto simp: usable_sample_def sample_refs_def\<close>)
  with Cons.IH [OF rest [unfolded spec(1)]] Cons.prems(3) spec(9) show ?case by auto
qed simp

subsection \<open>Accepted rules\<close>

definition single :: "(string \<times> ObjectRole) list \<Rightarrow> bool" where
  "single roles \<longleftrightarrow> (\<forall>k r r'. (k, r) \<in> set roles \<and> (k, r') \<in> set roles \<longrightarrow> r = r')"

definition object_roles :: "SampleObjectRule list \<Rightarrow> (string \<times> ObjectRole) list" where
  "object_roles objs = rev (map (\<lambda>o'. (so_Key o', so_Role o')) objs)"

definition has_role :: "ObjectRole \<Rightarrow> SampleObjectRule list \<Rightarrow> bool" where
  "has_role role objs \<longleftrightarrow> (\<exists>o' \<in> set objs. so_Role o' = role)"

lemma single_Cons:
  "single ((k, r) # roles) \<longleftrightarrow> (\<forall>r'. (k, r') \<in> set roles \<longrightarrow> r' = r) \<and> single roles"
  by (auto simp: single_def)

lemma single_lookup: "single roles \<Longrightarrow> (case map_of roles k of None \<Rightarrow> False | Some r' \<Rightarrow> r' \<noteq> r) \<longleftrightarrow> \<not> (\<forall>r'. (k, r') \<in> set roles \<longrightarrow> r' = r)"
proof (cases "map_of roles k")
  case None
  then have "k \<notin> fst ` set roles" by (simp add: map_of_eq_None_iff)
  then have "(k, r') \<notin> set roles" for r' by (metis fst_conv image_eqI)
  with None show ?thesis by simp
next
  case (Some q)
  assume "single roles"
  then have "(k, r') \<in> set roles \<longleftrightarrow> r' = q" for r' using map_of_SomeD [OF Some] unfolding single_def by blast
  with Some show ?thesis by auto
qed

lemma check_objects_spec:
  assumes "check_objects objs seen roles hp ha = Inr (roles', hp', ha')" "single roles"
  shows "roles' = object_roles objs @ roles \<and> single roles' \<and> distinct (map so_Key objs) \<and> so_Key ` set objs \<inter> set seen = {} \<and>
    (\<forall>o' \<in> set objs. validRelativePath (so_Key o') \<and> validRole (so_Role o')) \<and> hp' = (hp \<or> has_role ObjectRolePoints objs) \<and> ha' = (ha \<or> has_role ObjectRoleAnnotation objs)"
  using assms
proof (induction objs arbitrary: seen roles hp ha)
  case (Cons o' objs)
  have ok: "validRelativePath (so_Key o')" "validRole (so_Role o')" "so_Key o' \<notin> set seen" "\<forall>r'. (so_Key o', r') \<in> set roles \<longrightarrow> r' = so_Role o'"
    and rest: "check_objects objs (so_Key o' # seen) ((so_Key o', so_Role o') # roles) (hp \<or> so_Role o' = ObjectRolePoints) (ha \<or> so_Role o' = ObjectRoleAnnotation) = Inr (roles', hp', ha')"
    using Cons.prems(1) single_lookup [OF Cons.prems(2), where k = "so_Key o'" and r = "so_Role o'"] by (auto split: if_splits)
  have "single ((so_Key o', so_Role o') # roles)" using ok(4) Cons.prems(2) by (simp add: single_Cons)
  from Cons.IH [OF rest this] ok show ?case by (auto simp: object_roles_def has_role_def)
qed (simp add: object_roles_def has_role_def)

definition split_token :: "SampleRule \<Rightarrow> string" where
  "split_token s = sr_Split s @ nul @ sr_Token s"

definition tokens_in :: "Split \<Rightarrow> SampleRule list \<Rightarrow> string set" where
  "tokens_in sp samples = sr_Token ` {s \<in> set samples. sr_Split s = sp}"

definition sample_ok :: "SampleRule \<Rightarrow> bool" where
  "sample_ok s \<longleftrightarrow> validIdentifier (sr_Token s) \<and> validIdentifier (sr_Scene s) \<and> validOptionalIdentifier (sr_Partition s) \<and> validSplit (sr_Split s) \<and>
     distinct (map so_Key (sr_Objects s)) \<and> (\<forall>o' \<in> set (sr_Objects s). validRelativePath (so_Key o') \<and> validRole (so_Role o')) \<and>
     has_role ObjectRolePoints (sr_Objects s) \<and> has_role ObjectRoleAnnotation (sr_Objects s)"

definition all_roles :: "SampleRule list \<Rightarrow> (string \<times> ObjectRole) set" where
  "all_roles samples = (\<Union>s \<in> set samples. set (object_roles (sr_Objects s)))"

lemma check_samples_spec:
  assumes "check_samples samples seen = Inr seen'" "single (seen_roles seen)"
  shows "single (seen_roles seen') \<and> set (seen_roles seen') = all_roles samples \<union> set (seen_roles seen) \<and> (\<forall>s \<in> set samples. sample_ok s) \<and>
    distinct (map split_token samples) \<and> split_token ` set samples \<inter> set (seen_splitTokens seen) = {} \<and>
    set (seen_trainTokens seen') = tokens_in SplitTrain samples \<union> set (seen_trainTokens seen) \<and> set (seen_valTokens seen') = tokens_in SplitVal samples \<union> set (seen_valTokens seen)"
  using assms
proof (induction samples arbitrary: seen)
  case (Cons s samples)
  obtain mid where mid: "check_sample s seen = Inr mid" and rest: "check_samples samples mid = Inr seen'" using Cons.prems(1) by auto
  obtain roles where roles: "check_objects (sr_Objects s) [] (seen_roles seen) False False = Inr (roles, True, True)"
    and ids: "validIdentifier (sr_Token s)" "validIdentifier (sr_Scene s)" "validOptionalIdentifier (sr_Partition s)" "validSplit (sr_Split s)" "split_token s \<notin> set (seen_splitTokens seen)"
    and m: "mid = \<lparr>seen_splitTokens = split_token s # seen_splitTokens seen,
          seen_trainTokens = (if sr_Split s = SplitTrain then sr_Token s # seen_trainTokens seen else seen_trainTokens seen),
          seen_valTokens = (if sr_Split s = SplitVal then sr_Token s # seen_valTokens seen else seen_valTokens seen), seen_roles = roles\<rparr>"
    using mid unfolding check_sample_def Let_def split_token_def by (auto split: if_splits)
  note objs = check_objects_spec [OF roles Cons.prems(2)]
  then have "single (seen_roles mid)" unfolding m by auto
  from Cons.IH [OF rest this] objs ids show ?case
    by (auto simp: m sample_ok_def all_roles_def tokens_in_def)
qed (simp add: all_roles_def tokens_in_def)

lemma validateRules_spec:
  assumes "validateRules rules = Inr rules'"
  shows "rules' = rules \<and> 0 < ru_PointRecordWidthBytes rules \<and> ru_Samples rules \<noteq> [] \<and> (\<forall>s \<in> set (ru_Samples rules). sample_ok s) \<and>
    distinct (map split_token (ru_Samples rules)) \<and> tokens_in SplitTrain (ru_Samples rules) \<inter> tokens_in SplitVal (ru_Samples rules) = {} \<and>
    (\<forall>k r r'. (k, r) \<in> all_roles (ru_Samples rules) \<and> (k, r') \<in> all_roles (ru_Samples rules) \<longrightarrow> r = r')"
proof -
  let ?none = "\<lparr>seen_splitTokens = [], seen_trainTokens = [], seen_valTokens = [], seen_roles = []\<rparr>"
  obtain seen where seen: "check_samples (ru_Samples rules) ?none = Inr seen" and disj: "\<forall>t \<in> set (seen_trainTokens seen). t \<notin> set (seen_valTokens seen)"
    and rest: "rules' = rules" "0 < ru_PointRecordWidthBytes rules" "ru_Samples rules \<noteq> []"
    using assms unfolding validateRules_def by (auto simp: case_find_Inr split: if_splits)
  have "single (seen_roles ?none)" by (simp add: single_def)
  from check_samples_spec [OF seen this] disj rest show ?thesis by (auto simp: single_def)
qed

subsection \<open>Plans\<close>

definition plan_of :: "PlanOptions \<Rightarrow> ObjectRef list \<Rightarrow> Shard list \<Rightarrow> int \<Rightarrow> Plan" where
  "plan_of options objects shards added =
     \<lparr>plan_manifest = new_manifest (po_Rules options) (sortObjectRefs objects) shards, plan_added = filter (\<lambda>s. \<not> sh_Reused s) shards, plan_reused = filter sh_Reused shards,
      plan_dryRun = \<lparr>dry_AddedShardCount = length (filter (\<lambda>s. \<not> sh_Reused s) shards), dry_ReusedShardCount = length (filter sh_Reused shards), dry_EstimatedAddedStorageBytes = added\<rparr>\<rparr>"

definition plan_run :: "InventoryObject list \<Rightarrow> PlanOptions \<Rightarrow> inventoryObservations \<Rightarrow> Manifest \<Rightarrow> (string \<times> shardGroup) list \<Rightarrow> ObjectRef list \<Rightarrow> Shard list \<Rightarrow> int \<Rightarrow> bool" where
  "plan_run inventory options obs previous groups objects shards added \<longleftrightarrow>
     po_Now options \<noteq> zero_time \<and> 0 < po_StableWindow options \<and> validateRules (po_Rules options) = Inr (po_Rules options) \<and>
     validateInventory inventory (po_Now options) = Inr obs \<and>
     (ru_SuccessMarker (po_Rules options) = [] \<or> map_of obs (ru_SuccessMarker (po_Rules options)) \<noteq> None) \<and>
     (if \<not> isZeroManifest (po_Previous options) then validatePreviousManifest (po_Previous options) (po_Rules options) else Inr no_manifest) = Inr previous \<and>
     add_samples obs (po_Rules options) options (ru_Samples (po_Rules options)) [] [] = Inr (groups, objects) \<and>
     planShards (sort_key group_order (map (sorted_group \<circ> snd) groups)) previous (po_Rules options) = Inr shards \<and> added_bytes 0 shards = Inr added"

lemma plan_iff:
  "PlanDatasetPublication inventory options = Inr p \<longleftrightarrow>
    (\<exists>obs previous groups objects shards added. plan_run inventory options obs previous groups objects shards added \<and> p = plan_of options objects shards added)"
proof (cases "validateRules (po_Rules options)")
  case (Inl e)
  then show ?thesis by (auto simp: PlanDatasetPublication_def plan_run_def plan_then_def invalid_def)
next
  case (Inr rules)
  then have rules: "rules = po_Rules options" using validateRules_spec by blast
  show ?thesis
    unfolding PlanDatasetPublication_def plan_run_def plan_of_def Inr plan_then_simps rules buildShardGroups_def splitPlannedShards_def by auto
qed

subsection \<open>Shards\<close>

lemma plan_shards_iff: "plan_shards previous rules groups = Inr shards \<longleftrightarrow> list_all2 (\<lambda>g s. plan_shard previous rules g = Inr s) groups shards"
  by (induction groups arbitrary: shards) (auto simp: list_all2_Cons1)

definition digest_of :: "DatasetRules \<Rightarrow> shardGroup \<Rightarrow> string" where
  "digest_of rules g = shardDigest (ru_SchemaVersion rules) (ru_PublisherVersion rules) (ru_PointRecordWidthBytes rules) g
     (sortedMapKeys (sg_sampleTokens g)) (sortedObjectKeys (sg_objectBytes g))"

definition fresh_shard :: "DatasetRules \<Rightarrow> shardGroup \<Rightarrow> int \<Rightarrow> Shard" where
  "fresh_shard rules g bytes = \<lparr>sh_ID = shardIDForDigest (digest_of rules g), sh_Split = sg_split g, sh_Scene = sg_scene g, sh_Partition = sg_partition g,
     sh_SampleTokens = sortedMapKeys (sg_sampleTokens g), sh_Digest = digest_of rules g, sh_ObjectKeys = sortedObjectKeys (sg_objectBytes g), sh_InputBytes = bytes, sh_Reused = False\<rparr>"

lemma plan_shard_iff:
  "plan_shard previous rules g = Inr s \<longleftrightarrow> (\<exists>bytes. sumObjectBytes (sg_objectBytes g) = Inr bytes \<and>
     s = (case map_of previous (shardReuseKey (sg_split g) (sg_scene g) (sg_partition g) (digest_of rules g)) of
            None \<Rightarrow> fresh_shard rules g bytes
          | Some q \<Rightarrow> (fresh_shard rules g bytes)\<lparr>sh_ID := sh_ID q, sh_Reused := True\<rparr>))"
  unfolding plan_shard_def Let_def digest_of_def [symmetric] fresh_shard_def by (auto split: option.splits)

lemma plan_shard_fields:
  "plan_shard previous rules g = Inr s \<Longrightarrow> sh_Split s = sg_split g \<and> sh_Scene s = sg_scene g \<and> sh_Partition s = sg_partition g \<and>
     sh_SampleTokens s = sortedMapKeys (sg_sampleTokens g) \<and> sh_ObjectKeys s = sortedObjectKeys (sg_objectBytes g) \<and> sh_Digest s = digest_of rules g"
  by (auto simp: plan_shard_iff fresh_shard_def split: option.splits)

lemma identifier_nul_free: "validIdentifier v \<Longrightarrow> nul_free v"
proof -
  have "\<not> is_alnum (CHR 0x00)" by code_simp
  then show "validIdentifier v \<Longrightarrow> nul_free v"
    by (cases v) (auto simp: validIdentifier_def publisherIdentifierPattern_def nul_free_def matches_ident_pattern)
qed

lemma split_nul_free: "validSplit v \<Longrightarrow> nul_free v" "validRole v \<Longrightarrow> nul_free v"
  by (auto simp: validSplit_def validRole_def nul_free_def SplitTrain_def SplitVal_def SplitTest_def ObjectRolePoints_def ObjectRoleAnnotation_def ObjectRoleAuxiliary_def)

lemma sample_usable: "sample_ok s \<Longrightarrow> usable_sample s"
  by (auto simp: sample_ok_def usable_sample_def identifier_nul_free split_nul_free has_role_def)

lemma groups_of_Nil: "groups_of sz [] []"
  by (auto simp: groups_of_def)

lemma run_groups:
  assumes "plan_run inventory options obs previous groups objects shards added"
  shows "groups_of (size_at obs options) objects groups" "objects = concat (map (sample_refs obs options) (ru_Samples (po_Rules options)))"
    "s \<in> set (ru_Samples (po_Rules options)) \<Longrightarrow> rule \<in> set (sr_Objects s) \<Longrightarrow> found obs options rule"
proof -
  have "\<forall>s \<in> set (ru_Samples (po_Rules options)). usable_sample s"
    using assms validateRules_spec sample_usable unfolding plan_run_def by blast
  moreover have "add_samples obs (po_Rules options) options (ru_Samples (po_Rules options)) [] [] = Inr (groups, objects)" using assms by (simp add: plan_run_def)
  ultimately have "groups_of (size_at obs options) objects groups \<and> objects = [] @ concat (map (sample_refs obs options) (ru_Samples (po_Rules options))) \<and>
      (\<forall>s \<in> set (ru_Samples (po_Rules options)). \<forall>rule \<in> set (sr_Objects s). found obs options rule)"
    by (intro add_samples_spec [OF _ groups_of_Nil]) auto
  then show "groups_of (size_at obs options) objects groups" "objects = concat (map (sample_refs obs options) (ru_Samples (po_Rules options)))"
    "s \<in> set (ru_Samples (po_Rules options)) \<Longrightarrow> rule \<in> set (sr_Objects s) \<Longrightarrow> found obs options rule" by auto
qed

lemma all2_sources:
  "list_all2 P xs ys \<Longrightarrow> y \<in> set ys \<Longrightarrow> \<exists>x \<in> set xs. P x y" "list_all2 P xs ys \<Longrightarrow> x \<in> set xs \<Longrightarrow> \<exists>y \<in> set ys. P x y"
  by (induction rule: list_all2_induct) auto

lemma run_shard:
  assumes "plan_run inventory options obs previous groups objects shards added" "s \<in> set shards"
  obtains k g where "(k, g) \<in> set groups" "group_of (size_at obs options) k objects g" "plan_shard (previous_shards previous) (po_Rules options) (sorted_group g) = Inr s"
proof -
  have "list_all2 (\<lambda>g s. plan_shard (previous_shards previous) (po_Rules options) g = Inr s) (sort_key group_order (map (sorted_group \<circ> snd) groups)) shards"
    using assms(1) by (simp add: plan_run_def planShards_def plan_shards_iff)
  then obtain g where g: "g \<in> set (sort_key group_order (map (sorted_group \<circ> snd) groups))" "plan_shard (previous_shards previous) (po_Rules options) g = Inr s"
    using all2_sources(1) [OF _ assms(2)] by blast
  then obtain k g0 where "(k, g0) \<in> set groups" "g = sorted_group g0" by auto
  with g(2) that run_groups(1) [OF assms(1)] show ?thesis by (auto simp: groups_of_def)
qed

lemma sorted_group_fields [simp]:
  "sg_split (sorted_group g) = sg_split g" "sg_scene (sorted_group g) = sg_scene g" "sg_partition (sorted_group g) = sg_partition g"
  "sg_sampleTokens (sorted_group g) = sg_sampleTokens g" "sg_objectBytes (sorted_group g) = sg_objectBytes g" "sg_objects (sorted_group g) = sortObjectRefs (sg_objects g)"
  by (simp_all add: sorted_group_def)

lemma shard_tokens:
  assumes "plan_run inventory options obs previous groups objects shards added" "sh \<in> set shards" "t \<in> set (sh_SampleTokens sh)"
  obtains s where "s \<in> set (ru_Samples (po_Rules options))" "sr_Token s = t" "sr_Split s = sh_Split sh" "sr_Scene s = sh_Scene sh" "sr_Partition s = sh_Partition sh"
  using assms(1,2)
proof (rule run_shard)
  fix k g
  assume g: "group_of (size_at obs options) k objects g" "plan_shard (previous_shards previous) (po_Rules options) (sorted_group g) = Inr sh"
  from plan_shard_fields [OF g(2)] assms(3) g(1) obtain r where r: "r \<in> set (sg_objects g)" "ref_Token r = t"
    by (auto simp: sortedMapKeys_def group_of_def)
  then have "r \<in> set objects" "ref_Split r = sh_Split sh" "ref_Scene r = sh_Scene sh" "ref_Partition r = sh_Partition sh"
    using g(1) plan_shard_fields [OF g(2)] by (auto simp: group_of_def)
  then show thesis using that r(2) run_groups(2) [OF assms(1)] by (auto simp: sample_refs_def)
qed

subsection \<open>Digests and sizes\<close>

lemma sum_bytes_nonneg:
  "\<forall>v \<in> set vs. 0 \<le> v \<Longrightarrow> 0 \<le> acc \<Longrightarrow> acc \<le> MaxInt64 \<Longrightarrow>
   sum_bytes acc vs = (if acc + sum_list vs \<le> MaxInt64 then Inr (acc + sum_list vs) else invalid ErrInvalidInventory [] [] ''shard byte estimate overflows int64'')"
proof (induction vs arbitrary: acc)
  case (Cons v vs)
  have exact: "int64 (MaxInt64 - acc) = MaxInt64 - acc" using Cons.prems(2,3) by (intro int64_exact) (simp add: in_int64_def MaxInt64_def)
  have rest: "0 \<le> sum_list vs" using Cons.prems(1) by (intro sum_list_nonneg) simp
  show ?case
  proof (cases "v > MaxInt64 - acc")
    case True
    then show ?thesis using rest by (simp add: exact)
  next
    case False
    then have "int64 (acc + v) = acc + v" using Cons.prems by (intro int64_exact) (simp add: in_int64_def MaxInt64_def)
    then show ?thesis using Cons.IH [of "acc + v"] Cons.prems False by (simp add: exact add.assoc)
  qed
qed simp

lemma sum_object_bytes:
  assumes "\<forall>v \<in> snd ` set bs. 0 \<le> v"
  shows "sumObjectBytes bs = (if sum_list (map snd bs) \<le> MaxInt64 then Inr (sum_list (map snd bs)) else invalid ErrInvalidInventory [] [] ''shard byte estimate overflows int64'')"
  using sum_bytes_nonneg [of "map snd bs" 0] assms by (simp add: sumObjectBytes_def MaxInt64_def)

lemma group_ofD:
  assumes "group_of sz k rs g"
  shows "sg_objects g = filter (\<lambda>r. gkey r = k) rs" "sg_objects g \<noteq> []" "k = sampleGroupKey (sg_split g) (sg_scene g) (sg_partition g)"
    "nul_free (sg_split g)" "nul_free (sg_scene g)"
    "r \<in> set (sg_objects g) \<Longrightarrow> ref_Split r = sg_split g \<and> ref_Scene r = sg_scene g \<and> ref_Partition r = sg_partition g"
    "distinct (sg_sampleTokens g)" "set (sg_sampleTokens g) = ref_Token ` set (sg_objects g)"
    "distinct (map fst (sg_objectBytes g))" "map_of (sg_objectBytes g) = sizes sz (sg_objects g)"
  using assms unfolding group_of_def by blast+

lemma group_same:
  assumes "group_of sz k rs g" "group_of sz k (sortObjectRefs rs) g'"
  shows "sg_split g' = sg_split g \<and> sg_scene g' = sg_scene g \<and> sg_partition g' = sg_partition g" "sortObjectRefs (sg_objects g') = sortObjectRefs (sg_objects g)"
    "sortedMapKeys (sg_sampleTokens g') = sortedMapKeys (sg_sampleTokens g)" "sortedObjectKeys (sg_objectBytes g') = sortedObjectKeys (sg_objectBytes g)"
    "map_of (sg_objectBytes g') = map_of (sg_objectBytes g)" "mset (sg_objectBytes g') = mset (sg_objectBytes g)"
proof -
  note g = group_ofD [OF assms(1)] and g' = group_ofD [OF assms(2)]
  show "sg_split g' = sg_split g \<and> sg_scene g' = sg_scene g \<and> sg_partition g' = sg_partition g"
    using sampleGroupKey_inj [OF g'(4) g(4) g'(5) g(5)] g(3) g'(3) by metis
  have objs: "sg_objects g' = sortObjectRefs (sg_objects g)" unfolding g'(1) g(1) sortObjectRefs_def by (rule filter_sort)
  then show "sortObjectRefs (sg_objects g') = sortObjectRefs (sg_objects g)" by (simp add: sortObjectRefs_def sort_key_id_if_sorted)
  have objs_set: "set (sg_objects g') = set (sg_objects g)" by (simp add: objs sortObjectRefs_def)
  have "set (sg_sampleTokens g') = set (sg_sampleTokens g)" unfolding g'(8) g(8) objs_set ..
  then show "sortedMapKeys (sg_sampleTokens g') = sortedMapKeys (sg_sampleTokens g)"
    using g(7) g'(7) by (intro sorted_distinct_set_unique) (simp_all add: sortedMapKeys_def)
  show same: "map_of (sg_objectBytes g') = map_of (sg_objectBytes g)" unfolding g'(10) g(10) sizes_def objs_set ..
  have sets: "set (sg_objectBytes g') = set (sg_objectBytes g)" using same map_of_inject_set [OF g'(9) g(9)] by simp
  show "mset (sg_objectBytes g') = mset (sg_objectBytes g)"
    using sets g(9) g'(9) set_eq_iff_mset_eq_distinct by (metis distinct_map)
  show "sortedObjectKeys (sg_objectBytes g') = sortedObjectKeys (sg_objectBytes g)"
    using g(9) g'(9) sets by (intro sorted_distinct_set_unique) (simp_all add: sortedObjectKeys_def)
qed

lemma digest_same:
  assumes "group_of sz k rs g" "group_of sz k (sortObjectRefs rs) g'" shows "digest_of rules (sorted_group g') = digest_of rules (sorted_group g)"
  unfolding digest_of_def shardDigest_def by (simp add: group_same [OF assms])

lemma bytes_same:
  assumes "group_of sz k rs g" "group_of sz k (sortObjectRefs rs) g'" "\<forall>v \<in> snd ` set (sg_objectBytes g). 0 \<le> v"
  shows "sumObjectBytes (sg_objectBytes g') = sumObjectBytes (sg_objectBytes g)"
proof -
  note m = group_same(6) [OF assms(1,2)]
  have "\<forall>v \<in> snd ` set (sg_objectBytes g'). 0 \<le> v" using assms(3) m by (metis set_mset_mset)
  moreover have "sum_list (map snd (sg_objectBytes g')) = sum_list (map snd (sg_objectBytes g))" using m by (metis mset_map sum_mset_sum_list)
  ultimately show ?thesis using assms(3) by (simp add: sum_object_bytes)
qed

lemma digest_valid: "validDigest (digest_of rules g)" "length (digest_of rules g) = 64"
proof -
  have hex: "length (EncodeToString (sha256_Sum256 x)) = 64" "\<forall>c \<in> set (EncodeToString (sha256_Sum256 x)). is_hex_lower c" for x
    using EncodeToString_digest [of "sha256_Sum256 x" 32] by (simp_all add: matches_hex_digest)
  then show "length (digest_of rules g) = 64" by (simp add: digest_of_def shardDigest_def)
  have "is_hex c" if "is_hex_lower c" for c using that by (auto simp: is_hex_def is_hex_lower_def)
  moreover have lower: "lower_char c = c \<and> c \<noteq> CHR 0xC4 \<and> c \<noteq> CHR 0xE2" if "is_hex_lower c" for c
  proof -
    have "list_all (\<lambda>c. lower_char c = c \<and> c \<noteq> CHR 0xC4 \<and> c \<noteq> CHR 0xE2) ''0123456789abcdef''" by code_simp
    then show ?thesis using that unfolding is_hex_lower_def list_all_iff by blast
  qed
  have "to_lower v = v" if "\<forall>c \<in> set v. is_hex_lower c" for v using that by (induction v) (auto simp: lower)
  ultimately show "validDigest (digest_of rules g)"
    using hex by (simp add: validDigest_def digest_of_def shardDigest_def list_all_iff)
qed

end
