(* ===== verification/Planner_Properties.thy ===== *)
theory Planner_Properties
  imports Planner_Groups
begin

section \<open>Properties of the planner\<close>

text \<open>
  A manifest is read back as the groups it was made of, so that planning again with it reuses every shard; what a plan promises about samples,
  splits and the stability of the source; and that the order of the inventory does not matter.
\<close>

subsection \<open>The references of a plan\<close>

lemma run_ref:
  assumes "plan_run inventory options obs previous groups objects shards added" "r \<in> set objects"
  obtains s rule o' where "s \<in> set (ru_Samples (po_Rules options))" "rule \<in> set (sr_Objects s)" "r = object_ref s rule o'" "stableObjectForKey obs (so_Key rule) options = Inr o'"
    "so_Role rule = ObjectRolePoints \<longrightarrow> io_SizeBytes o' \<noteq> 0" "o' \<in> set inventory" "\<not> bad_observation (po_Now options) o'"
proof -
  obtain s rule where s: "s \<in> set (ru_Samples (po_Rules options))" "rule \<in> set (sr_Objects s)" "r = rule_ref obs options s rule"
    using assms(2) run_groups(2) [OF assms(1)] by (auto simp: sample_refs_def)
  obtain o' where o: "stableObjectForKey obs (so_Key rule) options = Inr o'" "so_Role rule = ObjectRolePoints \<longrightarrow> io_SizeBytes o' \<noteq> 0"
    using run_groups(3) [OF assms(1) s(1,2)] by (auto simp: found_def)
  have v: "validateInventory inventory (po_Now options) = Inr obs" using assms(1) by (simp add: plan_run_def)
  have "o' \<in> set inventory" using stable_spec [OF v o(1)] by blast
  moreover from this have "\<not> bad_observation (po_Now options) o'"
    using validateInventory_spec(1) [of inventory "po_Now options"] validateInventory_spec(2) [OF v] v by blast
  ultimately show ?thesis using that [OF s(1,2) _ o] s(3) o(1) by (simp add: rule_ref_def)
qed

lemma run_sample_ok:
  assumes "plan_run inventory options obs previous groups objects shards added"
  shows "s \<in> set (ru_Samples (po_Rules options)) \<Longrightarrow> sample_ok s" "distinct (map split_token (ru_Samples (po_Rules options)))"
    "(k, r) \<in> all_roles (ru_Samples (po_Rules options)) \<Longrightarrow> (k, r') \<in> all_roles (ru_Samples (po_Rules options)) \<Longrightarrow> r = r'"
    "tokens_in SplitTrain (ru_Samples (po_Rules options)) \<inter> tokens_in SplitVal (ru_Samples (po_Rules options)) = {}"
  using assms validateRules_spec [of "po_Rules options" "po_Rules options"] unfolding plan_run_def by blast+

lemma run_ref_ok:
  assumes "plan_run inventory options obs previous groups objects shards added" "r \<in> set objects"
  shows "\<not> bad_ref r" "ref_SizeBytes r = size_at obs options (ref_Key r)" "(ref_Key r, ref_Role r) \<in> all_roles (ru_Samples (po_Rules options))"
proof -
  obtain s rule o' where s: "s \<in> set (ru_Samples (po_Rules options))" "rule \<in> set (sr_Objects s)" "r = object_ref s rule o'"
    "stableObjectForKey obs (so_Key rule) options = Inr o'" "\<not> bad_observation (po_Now options) o'" by (rule run_ref [OF assms])
  have "sample_ok s" using run_sample_ok(1) [OF assms(1) s(1)] .
  then show "\<not> bad_ref r" using s(2,3,5) by (auto simp: bad_ref_def sample_ok_def object_ref_def bad_observation_def)
  show "ref_SizeBytes r = size_at obs options (ref_Key r)" using s(3,4) by (simp add: object_ref_def size_at_def)
  show "(ref_Key r, ref_Role r) \<in> all_roles (ru_Samples (po_Rules options))" using s(1-3) by (force simp: all_roles_def object_roles_def object_ref_def)
qed

lemma control_nul_free: "\<not> has_control v \<Longrightarrow> nul_free v"
  by (induction v) (auto simp: nul_free_def)

lemma ref_key_inj:
  assumes "\<not> bad_ref r" "\<not> bad_ref r'" "ref_key r = ref_key r'"
  shows "ref_Split r = ref_Split r' \<and> ref_Token r = ref_Token r' \<and> ref_Key r = ref_Key r'"
proof -
  have nf: "nul_free (ref_Split x)" "nul_free (ref_Scene x)" "nul_free (ref_Partition x)" "nul_free (ref_Token x)" "nul_free (ref_Role x)" if "\<not> bad_ref x" for x
    using that by (auto simp: bad_ref_def validOptionalIdentifier_def identifier_nul_free split_nul_free) (simp add: nul_free_def)
  show ?thesis using assms(3) by (simp add: ref_key_def sampleGroupKey_def cut_nul nf [OF assms(1)] nf [OF assms(2)])
qed

lemma distinct_refs:
  assumes "distinct (map split_token samples)" "\<forall>s \<in> set samples. distinct (map so_Key (sr_Objects s)) \<and> nul_free (sr_Split s)"
    "\<forall>s \<in> set samples. \<forall>r \<in> set (sample_refs obs options s). \<not> bad_ref r"
  shows "distinct (map ref_key (concat (map (sample_refs obs options) samples)))"
  using assms
proof (induction samples)
  case (Cons s samples)
  have "distinct (map ref_Key (sample_refs obs options s))" using Cons.prems(2) by (simp add: sample_refs_def comp_def)
  then have here: "distinct (map ref_key (sample_refs obs options s))"
    using Cons.prems(3) ref_key_inj by (auto simp: distinct_map inj_on_def)
  have "ref_key r \<noteq> ref_key r'" if r: "r \<in> set (sample_refs obs options s)" "s' \<in> set samples" "r' \<in> set (sample_refs obs options s')" for r s' r'
  proof
    assume "ref_key r = ref_key r'"
    then have "ref_Split r = ref_Split r' \<and> ref_Token r = ref_Token r'" using ref_key_inj Cons.prems(3) r by (meson list.set_intros(1) list.set_intros(2))
    then have "split_token s = split_token s'" using r(1,3) by (auto simp: sample_refs_def split_token_def)
    then show False using Cons.prems(1) r(2) by auto
  qed
  then have "set (map ref_key (sample_refs obs options s)) \<inter> set (map ref_key (concat (map (sample_refs obs options) samples))) = {}" by fastforce
  moreover have "distinct (map ref_key (concat (map (sample_refs obs options) samples)))" by (rule Cons.IH) (use Cons.prems in auto)
  ultimately show ?case using here by simp
qed simp

lemma run_refs_distinct:
  assumes "plan_run inventory options obs previous groups objects shards added" shows "distinct (map ref_key objects)"
  unfolding run_groups(2) [OF assms]
proof (rule distinct_refs)
  show "distinct (map split_token (ru_Samples (po_Rules options)))" by (rule run_sample_ok(2) [OF assms])
  show "\<forall>s \<in> set (ru_Samples (po_Rules options)). distinct (map so_Key (sr_Objects s)) \<and> nul_free (sr_Split s)"
    using run_sample_ok(1) [OF assms] by (auto simp: sample_ok_def split_nul_free)
  show "\<forall>s \<in> set (ru_Samples (po_Rules options)). \<forall>r \<in> set (sample_refs obs options s). \<not> bad_ref r"
    using run_ref_ok(1) [OF assms] unfolding run_groups(2) [OF assms] by auto
qed

subsection \<open>Reading a manifest back\<close>

lemma add_ref_ok:
  assumes "groups_of sz rs (prev_groups seen)" "set (prev_refs seen) = ref_key ` set rs" "single (prev_roles seen)" "set (prev_roles seen) = (\<lambda>r. (ref_Key r, ref_Role r)) ` set rs"
    "\<not> bad_ref r" "ref_SizeBytes r = sz (ref_Key r)" "ref_key r \<notin> ref_key ` set rs" "\<forall>q \<in> set rs. ref_Key q = ref_Key r \<longrightarrow> ref_Role q = ref_Role r"
  shows "\<exists>seen'. add_ref r seen = Inr seen' \<and> groups_of sz (rs @ [r]) (prev_groups seen') \<and> set (prev_refs seen') = ref_key ` set (rs @ [r]) \<and>
    single (prev_roles seen') \<and> set (prev_roles seen') = (\<lambda>r. (ref_Key r, ref_Role r)) ` set (rs @ [r])"
proof -
  define k where "k = sampleGroupKey (ref_Split r) (ref_Scene r) (ref_Partition r)"
  define g where "g = (case map_of (prev_groups seen) k of None \<Rightarrow> empty_group (ref_Split r) (ref_Scene r) (ref_Partition r) | Some g \<Rightarrow> g)"
  define g2 where "g2 = g\<lparr>sg_sampleTokens := List.insert (ref_Token r) (sg_sampleTokens g),
    sg_objectBytes := AList.update (ref_Key r) (ref_SizeBytes r) (sg_objectBytes g), sg_objects := sg_objects g @ [r]\<rparr>"
  have nf: "nul_free (ref_Split r)" "nul_free (ref_Scene r)" using assms(5) by (auto simp: bad_ref_def identifier_nul_free split_nul_free)
  have bytes: "distinct (map fst (sg_objectBytes g)) \<and> map_of (sg_objectBytes g) = sizes sz (sg_objects g)"
  proof (cases "map_of (prev_groups seen) k")
    case None
    then show ?thesis by (simp add: g_def empty_group_def sizes_def fun_eq_iff)
  next
    case (Some g0)
    then have "(k, g0) \<in> set (prev_groups seen)" by (rule map_of_SomeD)
    then have "group_of sz k rs g0" using assms(1) by (auto simp: groups_of_def)
    then show ?thesis using Some by (simp add: g_def group_ofD(9,10))
  qed
  have roles: "\<not> (case map_of (prev_roles seen) (ref_Key r) of None \<Rightarrow> False | Some role \<Rightarrow> role \<noteq> ref_Role r)"
    using single_lookup [OF assms(3), where k = "ref_Key r" and r = "ref_Role r"] assms(4,8) by auto
  have sizes: "\<not> (case map_of (sg_objectBytes g) (ref_Key r) of None \<Rightarrow> False | Some n \<Rightarrow> n \<noteq> ref_SizeBytes r)"
    using bytes assms(6) by (auto simp: sizes_def split: option.splits if_splits)
  let ?seen = "\<lparr>prev_groups = AList.update k g2 (prev_groups seen), prev_refs = ref_key r # prev_refs seen, prev_roles = (ref_Key r, ref_Role r) # prev_roles seen\<rparr>"
  have "add_ref r seen = Inr ?seen"
    unfolding add_ref_def Let_def k_def [symmetric] g_def [symmetric] using assms(2,5,7) roles sizes by (simp add: g2_def)
  moreover have "groups_of sz (rs @ [r]) (AList.update k g2 (prev_groups seen))"
  proof (rule groups_extend [OF assms(1) _ nf k_def _ g_def])
    show "map_of (sg_objectBytes g2) = sizes sz (sg_objects g @ [r])"
      using bytes assms(6) by (auto simp: g2_def update_conv' sizes_def fun_eq_iff)
  qed (use bytes in \<open>simp_all add: g2_def distinct_update\<close>)
  moreover have "single ((ref_Key r, ref_Role r) # prev_roles seen)" using assms(3,4,8) by (auto simp: single_Cons)
  ultimately show ?thesis using assms(2,4) by auto
qed

lemma add_refs_ok:
  assumes "groups_of sz rs (prev_groups seen)" "set (prev_refs seen) = ref_key ` set rs" "single (prev_roles seen)" "set (prev_roles seen) = (\<lambda>r. (ref_Key r, ref_Role r)) ` set rs"
    "\<forall>r \<in> set xs. \<not> bad_ref r \<and> ref_SizeBytes r = sz (ref_Key r)" "distinct (map ref_key (rs @ xs))"
    "\<forall>q \<in> set (rs @ xs). \<forall>r \<in> set (rs @ xs). ref_Key q = ref_Key r \<longrightarrow> ref_Role q = ref_Role r"
  shows "\<exists>seen'. add_refs xs seen = Inr seen' \<and> groups_of sz (rs @ xs) (prev_groups seen')"
  using assms
proof (induction xs arbitrary: rs seen)
  case Nil
  from Nil.prems(1) show ?case by simp
next
  case (Cons x xs)
  have "\<exists>seen'. add_ref x seen = Inr seen' \<and> groups_of sz (rs @ [x]) (prev_groups seen') \<and> set (prev_refs seen') = ref_key ` set (rs @ [x]) \<and>
    single (prev_roles seen') \<and> set (prev_roles seen') = (\<lambda>r. (ref_Key r, ref_Role r)) ` set (rs @ [x])"
    by (rule add_ref_ok [OF Cons.prems(1-4)]) (use Cons.prems(5-7) in auto)
  then obtain seen1 where s1: "add_ref x seen = Inr seen1" "groups_of sz (rs @ [x]) (prev_groups seen1)" "set (prev_refs seen1) = ref_key ` set (rs @ [x])"
    "single (prev_roles seen1)" "set (prev_roles seen1) = (\<lambda>r. (ref_Key r, ref_Role r)) ` set (rs @ [x])" by blast
  have "\<exists>seen'. add_refs xs seen1 = Inr seen' \<and> groups_of sz ((rs @ [x]) @ xs) (prev_groups seen')"
  proof (rule Cons.IH [OF s1(2-5)])
    have eq: "(rs @ [x]) @ xs = rs @ x # xs" by simp
    show "\<forall>r \<in> set xs. \<not> bad_ref r \<and> ref_SizeBytes r = sz (ref_Key r)" using Cons.prems(5) by simp
    show "distinct (map ref_key ((rs @ [x]) @ xs))" unfolding eq by (rule Cons.prems(6))
    show "\<forall>q \<in> set ((rs @ [x]) @ xs). \<forall>r \<in> set ((rs @ [x]) @ xs). ref_Key q = ref_Key r \<longrightarrow> ref_Role q = ref_Role r" unfolding eq by (rule Cons.prems(7))
  qed
  then show ?case using s1(1) by (simp add: plan_then_simps)
qed

lemma previous_groups_ok:
  assumes "plan_run inventory options obs previous groups objects shards added"
  obtains groups' where "previousManifestGroups (sortObjectRefs objects) = Inr (map (\<lambda>(k, g). (k, sorted_group g)) groups')"
    "groups_of (size_at obs options) (sortObjectRefs objects) groups'"
proof -
  have set_eq: "set (sortObjectRefs objects) = set objects" by (simp add: sortObjectRefs_def)
  have roles: "\<forall>q \<in> set objects. \<forall>r \<in> set objects. ref_Key q = ref_Key r \<longrightarrow> ref_Role q = ref_Role r"
    using run_ref_ok(3) [OF assms] run_sample_ok(3) [OF assms] by metis
  have "mset (map ref_key (sortObjectRefs objects)) = mset (map ref_key objects)" by (simp add: sortObjectRefs_def)
  then have "distinct (map ref_key (sortObjectRefs objects))" using run_refs_distinct [OF assms] mset_eq_imp_distinct_iff by blast
  then have "\<exists>seen. add_refs (sortObjectRefs objects) \<lparr>prev_groups = [], prev_refs = [], prev_roles = []\<rparr> = Inr seen \<and>
      groups_of (size_at obs options) ([] @ sortObjectRefs objects) (prev_groups seen)"
  proof (intro add_refs_ok)
    show "\<forall>r \<in> set (sortObjectRefs objects). \<not> bad_ref r \<and> ref_SizeBytes r = size_at obs options (ref_Key r)"
      using run_ref_ok(1,2) [OF assms] unfolding set_eq by blast
    show "\<forall>q \<in> set ([] @ sortObjectRefs objects). \<forall>r \<in> set ([] @ sortObjectRefs objects). ref_Key q = ref_Key r \<longrightarrow> ref_Role q = ref_Role r"
      unfolding append_Nil set_eq by (rule roles)
  qed (simp_all add: groups_of_Nil single_def)
  then show ?thesis using that by (auto simp: previousManifestGroups_def)
qed

subsection \<open>Shards that a plan makes\<close>

lemma run_bytes_nonneg:
  assumes "plan_run inventory options obs previous groups objects shards added" "group_of (size_at obs options) k objects g"
  shows "\<forall>v \<in> snd ` set (sg_objectBytes g). 0 \<le> v"
proof
  fix v
  assume "v \<in> snd ` set (sg_objectBytes g)"
  then obtain key where "(key, v) \<in> set (sg_objectBytes g)" by auto
  then have "map_of (sg_objectBytes g) key = Some v" using group_ofD(9) [OF assms(2)] by simp
  then obtain r where r: "r \<in> set (sg_objects g)" "ref_Key r = key" "v = size_at obs options key"
    unfolding group_ofD(10) [OF assms(2)] sizes_def by (auto split: if_splits)
  then have "r \<in> set objects" using group_ofD(1) [OF assms(2)] by simp
  then show "0 \<le> v" using run_ref_ok(1,2) [OF assms(1)] r(2,3) by (fastforce simp: bad_ref_def)
qed

lemma group_sample:
  assumes "plan_run inventory options obs previous groups objects shards added" "group_of (size_at obs options) k objects g"
  obtains s where "s \<in> set (ru_Samples (po_Rules options))" "sr_Split s = sg_split g" "sr_Scene s = sg_scene g" "sr_Partition s = sg_partition g"
    "set (sample_refs obs options s) \<subseteq> set (sg_objects g)"
proof -
  obtain r where r: "r \<in> set (sg_objects g)" using group_ofD(2) [OF assms(2)] by (meson last_in_set)
  then have "r \<in> set objects" "gkey r = k" using group_ofD(1) [OF assms(2)] by simp_all
  then obtain s rule where s: "s \<in> set (ru_Samples (po_Rules options))" "rule \<in> set (sr_Objects s)" "r = rule_ref obs options s rule"
    using run_groups(2) [OF assms(1)] by (auto simp: sample_refs_def)
  have "gkey q = k" if "q \<in> set (sample_refs obs options s)" for q using that s(3) \<open>gkey r = k\<close> by (auto simp: sample_refs_def gkey_def)
  moreover have "set (sample_refs obs options s) \<subseteq> set objects" using s(1) run_groups(2) [OF assms(1)] by auto
  ultimately have "set (sample_refs obs options s) \<subseteq> set (sg_objects g)" unfolding group_ofD(1) [OF assms(2)] by auto
  moreover have "sr_Split s = sg_split g" "sr_Scene s = sg_scene g" "sr_Partition s = sg_partition g" using group_ofD(6) [OF assms(2) r] s(3) by simp_all
  ultimately show ?thesis using that s(1) by blast
qed

lemma run_shard_bytes:
  assumes run: "plan_run inventory options obs previous groups objects shards added" and g: "group_of (size_at obs options) k objects g"
    and bytes: "sumObjectBytes (sg_objectBytes g) = Inr bytes"
  shows "0 < bytes"
proof -
  note nonneg = run_bytes_nonneg [OF run g]
  have b: "bytes = sum_list (map snd (sg_objectBytes g))" using bytes unfolding sum_object_bytes [OF nonneg] by (auto split: if_splits)
  obtain s where s: "s \<in> set (ru_Samples (po_Rules options))" "set (sample_refs obs options s) \<subseteq> set (sg_objects g)" by (rule group_sample [OF run g])
  obtain rule where rule: "rule \<in> set (sr_Objects s)" "so_Role rule = ObjectRolePoints" using run_sample_ok(1) [OF run s(1)] by (auto simp: sample_ok_def has_role_def)
  then have "rule_ref obs options s rule \<in> set (sg_objects g)" using s(2) by (auto simp: sample_refs_def)
  then have "so_Key rule \<in> ref_Key ` set (sg_objects g)" by force
  then have "map_of (sg_objectBytes g) (so_Key rule) = Some (size_at obs options (so_Key rule))" unfolding group_ofD(10) [OF g] sizes_def by simp
  then have v: "size_at obs options (so_Key rule) \<in> set (map snd (sg_objectBytes g))" by (force dest: map_of_SomeD)
  have "size_at obs options (so_Key rule) \<noteq> 0" using run_groups(3) [OF run s(1) rule(1)] rule(2) by (auto simp: found_def size_at_def)
  then have "0 < size_at obs options (so_Key rule)" using nonneg v by fastforce
  moreover have "size_at obs options (so_Key rule) \<le> sum_list (map snd (sg_objectBytes g))"
    using nonneg v by (intro member_le_sum_list) auto
  ultimately show ?thesis using b by simp
qed

lemma previous_shards_spec:
  "map_of (fold (\<lambda>s. AList.update (shardReuseKey (sh_Split s) (sh_Scene s) (sh_Partition s) (sh_Digest s)) s) ss m) k = Some q \<Longrightarrow>
     map_of m k = Some q \<or> q \<in> set ss \<and> k = shardReuseKey (sh_Split q) (sh_Scene q) (sh_Partition q) (sh_Digest q)"
  "k \<in> (\<lambda>s. shardReuseKey (sh_Split s) (sh_Scene s) (sh_Partition s) (sh_Digest s)) ` set ss \<or> map_of m k \<noteq> None \<Longrightarrow>
     map_of (fold (\<lambda>s. AList.update (shardReuseKey (sh_Split s) (sh_Scene s) (sh_Partition s) (sh_Digest s)) s) ss m) k \<noteq> None"
proof (induction ss arbitrary: m)
  case (Cons s ss)
  {
    case 1
    from Cons.IH(1) [of "AList.update (shardReuseKey (sh_Split s) (sh_Scene s) (sh_Partition s) (sh_Digest s)) s m"] 1 show ?case
      by (auto simp: update_conv' split: if_splits)
  next
    case 2
    show ?case unfolding fold_simps by (rule Cons.IH(2)) (use 2 in \<open>auto simp: update_conv'\<close>)
  }
qed simp_all

lemma previous_found:
  "map_of (previous_shards m) k = Some q \<Longrightarrow> q \<in> set (mf_Shards m) \<and> k = shardReuseKey (sh_Split q) (sh_Scene q) (sh_Partition q) (sh_Digest q)"
  using previous_shards_spec(1) [of "mf_Shards m" "[]" k q] by (simp add: previous_shards_def)

lemma previous_has: "s \<in> set (mf_Shards m) \<Longrightarrow> map_of (previous_shards m) (shardReuseKey (sh_Split s) (sh_Scene s) (sh_Partition s) (sh_Digest s)) \<noteq> None"
  unfolding previous_shards_def by (rule previous_shards_spec(2)) blast

lemma reuse_key_digest: "shardReuseKey a b c d = shardReuseKey a' b' c' d' \<Longrightarrow> length d = length d' \<Longrightarrow> d = d'"
  unfolding shardReuseKey_def by (metis append_eq_append_conv append_assoc)

lemma checked_shards: "check_shards rules groups ss seen = Inr seen' \<Longrightarrow> s \<in> set ss \<Longrightarrow> \<not> bad_shard s"
proof (induction ss arbitrary: seen)
  case (Cons x ss)
  then obtain mid where mid: "check_shard rules groups x seen = Inr mid" "check_shards rules groups ss mid = Inr seen'" by auto
  have "\<not> bad_shard x" using mid(1) by (auto simp: check_shard_def Let_def split: if_splits)
  then show ?case using Cons.IH [OF mid(2)] Cons.prems(2) by auto
qed simp

lemma run_previous_ok:
  assumes "plan_run inventory options obs previous groups objects shards added" "q \<in> set (mf_Shards previous)" shows "\<not> bad_shard q"
proof (cases "isZeroManifest (po_Previous options)")
  case True
  then show ?thesis using assms by (auto simp: plan_run_def no_manifest_def)
next
  case False
  then have "validatePreviousManifest (po_Previous options) (po_Rules options) = Inr previous" using assms(1) by (simp add: plan_run_def)
  then obtain gs seen where "check_shards (po_Rules options) gs (mf_Shards previous) [] = Inr seen"
    by (auto simp: validatePreviousManifest_def split: if_splits)
  then show ?thesis using checked_shards assms(2) by blast
qed

lemma run_shard_ok:
  assumes run: "plan_run inventory options obs previous groups objects shards added" and g: "group_of (size_at obs options) k objects g"
    and s: "plan_shard (previous_shards previous) (po_Rules options) (sorted_group g) = Inr s"
  shows "sh_ID s = shardIDForDigest (sh_Digest s)" "\<not> bad_shard s" "sh_SampleTokens s \<noteq> []" "\<forall>t \<in> set (sh_SampleTokens s). validIdentifier t"
    "\<forall>key \<in> set (sh_ObjectKeys s). validRelativePath key"
proof -
  obtain bytes where bytes: "sumObjectBytes (sg_objectBytes g) = Inr bytes" and
    sh: "s = (case map_of (previous_shards previous) (shardReuseKey (sg_split g) (sg_scene g) (sg_partition g) (digest_of (po_Rules options) (sorted_group g))) of
            None \<Rightarrow> fresh_shard (po_Rules options) (sorted_group g) bytes
          | Some q \<Rightarrow> (fresh_shard (po_Rules options) (sorted_group g) bytes)\<lparr>sh_ID := sh_ID q, sh_Reused := True\<rparr>)"
    using s by (auto simp: plan_shard_iff)
  have fields: "sh_Split s = sg_split g" "sh_Scene s = sg_scene g" "sh_Partition s = sg_partition g" "sh_SampleTokens s = sortedMapKeys (sg_sampleTokens g)"
    "sh_ObjectKeys s = sortedObjectKeys (sg_objectBytes g)" "sh_Digest s = digest_of (po_Rules options) (sorted_group g)"
    using plan_shard_fields [OF s] by simp_all
  have input: "sh_InputBytes s = bytes" unfolding sh fresh_shard_def by (simp split: option.splits)
  show id: "sh_ID s = shardIDForDigest (sh_Digest s)"
  proof (cases "map_of (previous_shards previous) (shardReuseKey (sg_split g) (sg_scene g) (sg_partition g) (digest_of (po_Rules options) (sorted_group g)))")
    case None
    then show ?thesis by (simp add: sh fresh_shard_def)
  next
    case (Some q)
    then have q: "q \<in> set (mf_Shards previous)"
      "shardReuseKey (sg_split g) (sg_scene g) (sg_partition g) (digest_of (po_Rules options) (sorted_group g)) = shardReuseKey (sh_Split q) (sh_Scene q) (sh_Partition q) (sh_Digest q)"
      using previous_found [OF Some] by blast+
    have ok: "\<not> bad_shard q" using run_previous_ok [OF run q(1)] .
    then have "digest_of (po_Rules options) (sorted_group g) = sh_Digest q"
      by (intro reuse_key_digest [OF q(2)]) (simp add: bad_shard_def validDigest_def digest_valid(2))
    then show ?thesis using Some ok by (simp add: sh fresh_shard_def bad_shard_def)
  qed
  have in_objects: "r \<in> set objects" if "r \<in> set (sg_objects g)" for r using that group_ofD(1) [OF g] by simp
  show tokens: "sh_SampleTokens s \<noteq> []"
  proof -
    obtain r where "r \<in> set (sg_objects g)" using group_ofD(2) [OF g] by (meson last_in_set)
    then have "ref_Token r \<in> set (sg_sampleTokens g)" unfolding group_ofD(8) [OF g] by (rule imageI)
    then show ?thesis unfolding fields(4) sortedMapKeys_def sort_key_Nil_iff by (metis empty_iff list.set(1))
  qed
  have keys: "set (sh_ObjectKeys s) = ref_Key ` set (sg_objects g)"
  proof -
    have "fst ` set (sg_objectBytes g) = dom (map_of (sg_objectBytes g))" by (simp add: dom_map_of_conv_image_fst)
    also have "\<dots> = ref_Key ` set (sg_objects g)" unfolding group_ofD(10) [OF g] by (auto simp: sizes_def dom_def)
    finally show ?thesis by (simp add: fields(5) sortedObjectKeys_def)
  qed
  then have "sh_ObjectKeys s \<noteq> []" using group_ofD(2) [OF g] by auto
  moreover obtain x where x: "x \<in> set (ru_Samples (po_Rules options))" "sr_Split x = sg_split g" "sr_Scene x = sg_scene g" "sr_Partition x = sg_partition g"
    by (rule group_sample [OF run g])
  moreover have "sample_ok x" using run_sample_ok(1) [OF run x(1)] .
  ultimately show "\<not> bad_shard s"
    using id tokens run_shard_bytes [OF run g bytes] digest_valid(1) by (auto simp: bad_shard_def fields input sample_ok_def)
  show "\<forall>t \<in> set (sh_SampleTokens s). validIdentifier t"
  proof
    fix t
    assume "t \<in> set (sh_SampleTokens s)"
    then have "t \<in> ref_Token ` set (sg_objects g)" unfolding fields(4) sortedMapKeys_def set_sort group_ofD(8) [OF g] .
    then show "validIdentifier t" using run_ref_ok(1) [OF run in_objects] by (auto simp: bad_ref_def)
  qed
  show "\<forall>key \<in> set (sh_ObjectKeys s). validRelativePath key"
    using run_ref_ok(1) [OF run in_objects] unfolding keys by (auto simp: bad_ref_def)
qed

lemma check_shard_ok:
  assumes run: "plan_run inventory options obs previous groups objects shards added" and g: "group_of (size_at obs options) k objects g"
    and s: "plan_shard (previous_shards previous) (po_Rules options) (sorted_group g) = Inr s"
    and g': "map_of groups' k = Some (sorted_group h)" "group_of (size_at obs options) k (sortObjectRefs objects) h" and new: "k \<notin> set seen"
  shows "check_shard (po_Rules options) groups' s seen = Inr (k # seen)"
proof -
  note ok = run_shard_ok [OF run g s]
  note fields = plan_shard_fields [OF s]
  have k: "sampleGroupKey (sh_Split s) (sh_Scene s) (sh_Partition s) = k" using fields group_ofD(3) [OF g] by simp
  have ids: "find (\<lambda>t. \<not> validIdentifier t) (sh_SampleTokens s) = None" "find (\<lambda>key. \<not> validRelativePath key) (sh_ObjectKeys s) = None"
    using ok(4,5) by (simp_all add: find_None)
  obtain bytes where bytes: "sumObjectBytes (sg_objectBytes g) = Inr bytes" "sh_InputBytes s = bytes"
    using s by (auto simp: plan_shard_iff fresh_shard_def split: option.splits)
  have sum: "sumObjectBytes (sg_objectBytes (sorted_group h)) = Inr bytes"
    using bytes_same [OF g g'(2) run_bytes_nonneg [OF run g]] bytes(1) by simp
  have "sh_Digest s = digest_of (po_Rules options) (sorted_group h)" using fields digest_same [OF g g'(2)] by simp
  moreover have "equalStrings (sh_SampleTokens s) (sortedMapKeys (sg_sampleTokens h))" "equalStrings (sh_ObjectKeys s) (sortedObjectKeys (sg_objectBytes h))"
    using fields group_same(3,4) [OF g g'(2)] by (simp_all add: equalStrings_def list.rel_eq)
  ultimately show ?thesis
    unfolding check_shard_def Let_def k using ok(2) ids new g'(1) sum bytes(2) by (simp add: digest_of_def)
qed

lemma insort_key_map: "insort_key f (h x) (map h xs) = map h (insort_key (f \<circ> h) x xs)"
  by (induction xs) auto

lemma sort_key_map: "sort_key f (map h xs) = map h (sort_key (f \<circ> h) xs)"
  by (induction xs) (simp_all add: insort_key_map comp_def)

definition keyed_groups :: "(string \<times> shardGroup) list \<Rightarrow> (string \<times> shardGroup) list" where
  "keyed_groups groups = sort_key (group_order \<circ> (sorted_group \<circ> snd)) groups"

lemma run_keyed:
  assumes "plan_run inventory options obs previous groups objects shards added"
  shows "list_all2 (\<lambda>kg s. plan_shard (previous_shards previous) (po_Rules options) (sorted_group (snd kg)) = Inr s) (keyed_groups groups) shards"
    "kg \<in> set (keyed_groups groups) \<Longrightarrow> group_of (size_at obs options) (fst kg) objects (snd kg)" "distinct (map fst (keyed_groups groups))"
    "set (map fst (keyed_groups groups)) = gkey ` set objects"
proof -
  have "list_all2 (\<lambda>g s. plan_shard (previous_shards previous) (po_Rules options) g = Inr s) (map (sorted_group \<circ> snd) (keyed_groups groups)) shards"
    using assms unfolding plan_run_def planShards_def plan_shards_iff sort_key_map keyed_groups_def by blast
  then show "list_all2 (\<lambda>kg s. plan_shard (previous_shards previous) (po_Rules options) (sorted_group (snd kg)) = Inr s) (keyed_groups groups) shards"
    by (simp add: list_all2_map1)
  have gs: "groups_of (size_at obs options) objects groups" by (rule run_groups(1) [OF assms])
  then show "kg \<in> set (keyed_groups groups) \<Longrightarrow> group_of (size_at obs options) (fst kg) objects (snd kg)" by (auto simp: groups_of_def keyed_groups_def)
  have "mset (map fst (keyed_groups groups)) = mset (map fst groups)" by (simp add: keyed_groups_def)
  then show "distinct (map fst (keyed_groups groups))" "set (map fst (keyed_groups groups)) = gkey ` set objects"
    using gs mset_eq_imp_distinct_iff mset_eq_setD unfolding groups_of_def by (blast, metis set_map)
qed

lemma check_shards_ok:
  assumes run: "plan_run inventory options obs previous groups objects shards added"
    and all: "list_all2 (\<lambda>kg s. plan_shard (previous_shards previous) (po_Rules options) (sorted_group (snd kg)) = Inr s) kgs ss"
    and kgs: "\<And>kg. kg \<in> set kgs \<Longrightarrow> group_of (size_at obs options) (fst kg) objects (snd kg) \<and>
      (\<exists>h. map_of groups' (fst kg) = Some (sorted_group h) \<and> group_of (size_at obs options) (fst kg) (sortObjectRefs objects) h)"
    and d: "distinct (map fst kgs)" "set (map fst kgs) \<inter> set seen = {}"
  shows "check_shards (po_Rules options) groups' ss seen = Inr (rev (map fst kgs) @ seen)"
  using all kgs d
proof (induction kgs ss arbitrary: seen rule: list_all2_induct)
  case (Cons kg kgs s ss)
  obtain h where h: "group_of (size_at obs options) (fst kg) objects (snd kg)" "map_of groups' (fst kg) = Some (sorted_group h)"
    "group_of (size_at obs options) (fst kg) (sortObjectRefs objects) h" using Cons.prems(1) [of kg] by auto
  have "check_shard (po_Rules options) groups' s seen = Inr (fst kg # seen)"
    by (rule check_shard_ok [OF run h(1) Cons.hyps(1) h(2,3)]) (use Cons.prems(3) in auto)
  moreover have "check_shards (po_Rules options) groups' ss (fst kg # seen) = Inr (rev (map fst kgs) @ fst kg # seen)"
    by (rule Cons.IH) (use Cons.prems in auto)
  ultimately show ?case by (simp add: plan_then_simps)
qed simp

lemma hash_length: "length (EncodeToString (sha256_Sum256 x)) = 64"
  using EncodeToString_digest [of "sha256_Sum256 x" 32] by (simp add: matches_hex_digest)

lemma previous_valid:
  assumes run: "plan_run inventory options obs previous groups objects shards added"
  shows "validatePreviousManifest (new_manifest (po_Rules options) (sortObjectRefs objects) shards) (po_Rules options) = Inr (new_manifest (po_Rules options) (sortObjectRefs objects) shards)"
proof -
  let ?m = "new_manifest (po_Rules options) (sortObjectRefs objects) shards" and ?rules = "po_Rules options"
  obtain groups' where gs': "previousManifestGroups (sortObjectRefs objects) = Inr (map (\<lambda>(k, g). (k, sorted_group g)) groups')"
    "groups_of (size_at obs options) (sortObjectRefs objects) groups'" by (rule previous_groups_ok [OF run])
  let ?gs = "map (\<lambda>(k, g). (k, sorted_group g)) groups'"
  have dom: "fst ` set groups' = gkey ` set objects" "distinct (map fst groups')" using gs'(2) by (simp_all add: groups_of_def sortObjectRefs_def)
  have found: "\<exists>h. map_of ?gs k = Some (sorted_group h) \<and> group_of (size_at obs options) k (sortObjectRefs objects) h" if "k \<in> gkey ` set objects" for k
  proof -
    have "k \<in> fst ` set groups'" unfolding dom(1) by (rule that)
    then obtain h where "(k, h) \<in> set groups'" by auto
    then have "map_of groups' k = Some h" "group_of (size_at obs options) k (sortObjectRefs objects) h"
      using dom(2) gs'(2) unfolding groups_of_def by (simp, blast)
    then show ?thesis by (intro exI [of _ h]) (simp add: map_of_values)
  qed
  have checked: "check_shards ?rules ?gs shards [] = Inr (rev (map fst (keyed_groups groups)) @ [])"
  proof (rule check_shards_ok [OF run run_keyed(1) [OF run] _ run_keyed(3) [OF run]])
    fix kg
    assume kg: "kg \<in> set (keyed_groups groups)"
    then have "fst kg \<in> gkey ` set objects" using run_keyed(4) [OF run] by force
    then show "group_of (size_at obs options) (fst kg) objects (snd kg) \<and>
      (\<exists>h. map_of ?gs (fst kg) = Some (sorted_group h) \<and> group_of (size_at obs options) (fst kg) (sortObjectRefs objects) h)"
      using run_keyed(2) [OF run kg] found by blast
  qed simp
  have "length (map fst (keyed_groups groups)) = length (map fst groups')"
    using distinct_card [OF run_keyed(3) [OF run]] distinct_card [OF dom(2)] unfolding run_keyed(4) [OF run] by (simp add: dom(1))
  then have len: "length (rev (map fst (keyed_groups groups)) @ []) = length ?gs" by simp
  have "length (mf_Digest ?m) = 64" by (simp add: new_manifest_def manifestDigest_def hash_length)
  then have digest: "mf_Digest ?m \<noteq> []" by auto
  show ?thesis
    unfolding validatePreviousManifest_def using digest checked len gs'(1) by (simp add: new_manifest_def plan_then_simps)
qed

subsection \<open>Planning again\<close>

definition reuse :: "Shard \<Rightarrow> Shard" where
  "reuse s = s\<lparr>sh_Reused := True\<rparr>"

lemma reuse_shard:
  assumes run: "plan_run inventory options obs previous groups objects shards added" and g: "group_of (size_at obs options) k objects g"
    and s: "plan_shard (previous_shards previous) (po_Rules options) (sorted_group g) = Inr s" "s \<in> set shards"
  shows "plan_shard (previous_shards (new_manifest (po_Rules options) os shards)) (po_Rules options) (sorted_group g) = Inr (reuse s)"
proof -
  let ?k = "shardReuseKey (sg_split g) (sg_scene g) (sg_partition g) (digest_of (po_Rules options) (sorted_group g))"
  let ?m = "new_manifest (po_Rules options) os shards"
  note fields = plan_shard_fields [OF s(1)]
  have "s \<in> set (mf_Shards ?m)" using s(2) by (simp add: new_manifest_def)
  from previous_has [OF this] obtain q where q: "map_of (previous_shards ?m) ?k = Some q" using fields by auto
  from previous_found [OF q] have qs: "q \<in> set shards" "?k = shardReuseKey (sh_Split q) (sh_Scene q) (sh_Partition q) (sh_Digest q)" by (simp_all add: new_manifest_def)
  obtain k' g' where g': "group_of (size_at obs options) k' objects g'" "plan_shard (previous_shards previous) (po_Rules options) (sorted_group g') = Inr q"
    by (rule run_shard [OF run qs(1)])
  have "digest_of (po_Rules options) (sorted_group g) = sh_Digest q"
    by (rule reuse_key_digest [OF qs(2)]) (use plan_shard_fields [OF g'(2)] in \<open>simp add: digest_valid(2)\<close>)
  then have "sh_ID q = sh_ID s" using run_shard_ok(1) [OF run g'] run_shard_ok(1) [OF run g s(1)] fields by simp
  then show ?thesis using q s(1) by (auto simp: plan_shard_iff reuse_def fresh_shard_def split: option.splits)
qed

lemma reuse_all:
  assumes run: "plan_run inventory options obs previous groups objects shards added"
  shows "planShards (sort_key group_order (map (sorted_group \<circ> snd) groups)) (new_manifest (po_Rules options) os shards) (po_Rules options) = Inr (map reuse shards)"
proof -
  let ?prev = "previous_shards (new_manifest (po_Rules options) os shards)"
  have each: "plan_shard ?prev (po_Rules options) (sorted_group (snd kg)) = Inr (reuse s)"
    if "kg \<in> set (keyed_groups groups)" "s \<in> set shards" "plan_shard (previous_shards previous) (po_Rules options) (sorted_group (snd kg)) = Inr s" for kg s
    by (rule reuse_shard [OF run run_keyed(2) [OF run that(1)] that(3,2)])
  have "list_all2 (\<lambda>kg s. plan_shard ?prev (po_Rules options) (sorted_group (snd kg)) = Inr s) (keyed_groups groups) (map reuse shards)"
    unfolding list_all2_map2 by (rule list.rel_mono_strong [OF run_keyed(1) [OF run]]) (rule each)
  then show ?thesis
    unfolding planShards_def plan_shards_iff sort_key_map keyed_groups_def [symmetric] by (simp add: list_all2_map1)
qed

lemma digest_reuse: "manifestDigest a b c (map reuse shards) = manifestDigest a b c shards"
proof -
  have "shard_order \<circ> reuse = shard_order" by (simp add: fun_eq_iff shard_order_def reuse_def)
  then show ?thesis by (simp add: manifestDigest_def sort_key_map comp_def reuse_def)
qed

lemma added_none: "(\<And>s. s \<in> set shards \<Longrightarrow> sh_Reused s) \<Longrightarrow> added_bytes acc shards = Inr acc"
  by (induction shards) auto

lemma add_samples_options:
  "add_samples obs rules (options\<lparr>po_Previous := m\<rparr>) samples groups rs = add_samples obs rules options samples groups rs"
proof -
  have stable: "stableObjectForKey obs key (options\<lparr>po_Previous := m\<rparr>) = stableObjectForKey obs key options" for key
    by (cases "map_of obs key") (simp_all add: stableObjectForKey_def Let_def)
  have objects: "add_objects obs rules (options\<lparr>po_Previous := m\<rparr>) sample objs g rs = add_objects obs rules options sample objs g rs" for sample objs g rs
    by (induction objs arbitrary: g rs) (simp_all only: add_objects.simps stable)
  show ?thesis by (induction samples arbitrary: groups rs) (simp_all only: add_samples.simps objects case_prod_unfold)
qed

lemma run_again:
  assumes run: "plan_run inventory options obs previous groups objects shards added"
  shows "plan_run inventory (options\<lparr>po_Previous := new_manifest (po_Rules options) (sortObjectRefs objects) shards\<rparr>) obs
    (new_manifest (po_Rules options) (sortObjectRefs objects) shards) groups objects (map reuse shards) 0"
proof -
  let ?m = "new_manifest (po_Rules options) (sortObjectRefs objects) shards"
  have "length (mf_Digest ?m) = 64" by (simp add: new_manifest_def manifestDigest_def hash_length)
  then have zero: "\<not> isZeroManifest ?m" by (auto simp: isZeroManifest_def)
  have "added_bytes 0 (map reuse shards) = Inr 0" by (rule added_none) (auto simp: reuse_def)
  then show ?thesis
    using run zero previous_valid [OF run] reuse_all [OF run, of "sortObjectRefs objects"] unfolding plan_run_def by (simp add: add_samples_options)
qed

lemma ex1_conj: "\<exists>!x. P x \<Longrightarrow> (\<And>x. P x \<Longrightarrow> Q x) \<Longrightarrow> \<exists>!x. P x \<and> Q x"
  by blast

lemma sample_shard:
  assumes run: "plan_run inventory options obs previous groups objects shards added" and s: "s \<in> set (ru_Samples (po_Rules options))"
  shows "\<exists>!sh. sh \<in> set shards \<and> sh_Split sh = sr_Split s \<and> sh_Scene sh = sr_Scene s \<and> sh_Partition sh = sr_Partition s"
    "\<And>sh'. sh' \<in> set shards \<and> sh_Split sh' = sr_Split s \<and> sh_Scene sh' = sr_Scene s \<and> sh_Partition sh' = sr_Partition s \<Longrightarrow>
      sr_Token s \<in> set (sh_SampleTokens sh') \<and> so_Key ` set (sr_Objects s) \<subseteq> set (sh_ObjectKeys sh')"
proof -
  let ?k = "sampleGroupKey (sr_Split s) (sr_Scene s) (sr_Partition s)"
  have ok: "sample_ok s" by (rule run_sample_ok(1) [OF run s])
  then have nf: "nul_free (sr_Split s)" "nul_free (sr_Scene s)" "sample_refs obs options s \<noteq> []"
    by (auto simp: sample_ok_def identifier_nul_free split_nul_free has_role_def sample_refs_def)
  have refs: "r \<in> set objects" "gkey r = ?k" if "r \<in> set (sample_refs obs options s)" for r
    using that s by (auto simp: run_groups(2) [OF run] sample_refs_def gkey_def)
  have key: "k = ?k" if "group_of (size_at obs options) k objects g" "sg_split g = sr_Split s" "sg_scene g = sr_Scene s" "sg_partition g = sr_Partition s" for k g
    using group_ofD(3) [OF that(1)] that(2-4) by simp
  have unique: "sh = sh'" if "(k, g) \<in> set groups" "(k, g') \<in> set groups" "plan_shard (previous_shards previous) (po_Rules options) (sorted_group g) = Inr sh"
      "plan_shard (previous_shards previous) (po_Rules options) (sorted_group g') = Inr sh'" for k g g' sh sh'
    using that run_groups(1) [OF run] by (metis groups_of_def eq_key_imp_eq_value sum.inject(2))
  obtain kg where kg: "kg \<in> set (keyed_groups groups)" "fst kg = ?k"
  proof -
    have "hd (sample_refs obs options s) \<in> set (sample_refs obs options s)" using nf(3) by simp
    then have "?k \<in> set (map fst (keyed_groups groups))" using refs unfolding run_keyed(4) [OF run] by (metis image_eqI)
    then show thesis using that by auto
  qed
  obtain sh where sh: "sh \<in> set shards" "plan_shard (previous_shards previous) (po_Rules options) (sorted_group (snd kg)) = Inr sh"
    using all2_sources(2) [OF run_keyed(1) [OF run] kg(1)] by blast
  note g = run_keyed(2) [OF run kg(1), unfolded kg(2)]
  have same: "sg_split (snd kg) = sr_Split s" "sg_scene (snd kg) = sr_Scene s" "sg_partition (snd kg) = sr_Partition s"
    using group_ofD(3) [OF g] sampleGroupKey_inj [OF nf(1) group_ofD(4) [OF g] nf(2) group_ofD(5) [OF g]] by simp_all
  show "\<exists>!sh. sh \<in> set shards \<and> sh_Split sh = sr_Split s \<and> sh_Scene sh = sr_Scene s \<and> sh_Partition sh = sr_Partition s"
  proof (rule ex1I [of _ sh])
    show "sh \<in> set shards \<and> sh_Split sh = sr_Split s \<and> sh_Scene sh = sr_Scene s \<and> sh_Partition sh = sr_Partition s" using sh plan_shard_fields [OF sh(2)] same by simp
    fix sh'
    assume sh': "sh' \<in> set shards \<and> sh_Split sh' = sr_Split s \<and> sh_Scene sh' = sr_Scene s \<and> sh_Partition sh' = sr_Partition s"
    obtain k' g' where g': "(k', g') \<in> set groups" "group_of (size_at obs options) k' objects g'" "plan_shard (previous_shards previous) (po_Rules options) (sorted_group g') = Inr sh'"
      by (rule run_shard [OF run conjunct1 [OF sh']])
    then have "k' = ?k" using key plan_shard_fields [OF g'(3)] sh' by simp
    moreover have "kg \<in> set groups" using kg(1) by (simp add: keyed_groups_def)
    then have "(?k, snd kg) \<in> set groups" using kg(2) by (metis prod.collapse)
    ultimately show "sh' = sh" using unique [OF _ _ g'(3) sh(2)] g'(1) by blast
  qed
  show "sr_Token s \<in> set (sh_SampleTokens sh') \<and> so_Key ` set (sr_Objects s) \<subseteq> set (sh_ObjectKeys sh')"
    if that': "sh' \<in> set shards \<and> sh_Split sh' = sr_Split s \<and> sh_Scene sh' = sr_Scene s \<and> sh_Partition sh' = sr_Partition s" for sh'
  proof -
    have sh': "sh' \<in> set shards" "sh_Split sh' = sr_Split s" "sh_Scene sh' = sr_Scene s" "sh_Partition sh' = sr_Partition s" using that' by blast+
    obtain k' g' where g': "group_of (size_at obs options) k' objects g'" "plan_shard (previous_shards previous) (po_Rules options) (sorted_group g') = Inr sh'"
      by (rule run_shard [OF run sh'(1)])
    note fields = plan_shard_fields [OF g'(2)]
    have "k' = ?k" using key [OF g'(1)] fields sh' by simp
    then have sub: "set (sample_refs obs options s) \<subseteq> set (sg_objects g')" using refs unfolding group_ofD(1) [OF g'(1)] by auto
    have "sr_Token s \<in> ref_Token ` set (sample_refs obs options s)" using nf(3) by (cases "sr_Objects s") (auto simp: sample_refs_def)
    then have "sr_Token s \<in> set (sg_sampleTokens g')" using sub unfolding group_ofD(8) [OF g'(1)] by blast
    moreover have "so_Key ` set (sr_Objects s) \<subseteq> set (map fst (sg_objectBytes g'))"
    proof -
      have "so_Key ` set (sr_Objects s) \<subseteq> ref_Key ` set (sg_objects g')" using sub by (force simp: sample_refs_def)
      also have "\<dots> = dom (map_of (sg_objectBytes g'))" unfolding group_ofD(10) [OF g'(1)] by (auto simp: sizes_def dom_def)
      finally show ?thesis by (simp add: dom_map_of_conv_image_fst)
    qed
    ultimately show ?thesis using fields by (simp add: sortedMapKeys_def sortedObjectKeys_def)
  qed
qed

subsection \<open>A small dataset\<close>

definition plan_sample_rule :: "string \<Rightarrow> Split \<Rightarrow> SampleRule" where
  "plan_sample_rule token sp = \<lparr>sr_Token = token, sr_Scene = ''scene-1'', sr_Partition = [], sr_Split = sp,
     sr_Objects = [\<lparr>so_Key = token @ ''.bin'', so_Role = ObjectRolePoints\<rparr>, \<lparr>so_Key = ''labels.json'', so_Role = ObjectRoleAnnotation\<rparr>]\<rparr>"

definition plan_sample_observation :: "string \<Rightarrow> int \<Rightarrow> int \<Rightarrow> InventoryObject" where
  "plan_sample_observation key n at = \<lparr>io_Key = key, io_SizeBytes = n, io_ETag = ''e1'', io_ObservedAt = at\<rparr>"

definition plan_sample_inventory :: "InventoryObject list" where
  "plan_sample_inventory = [plan_sample_observation ''a.bin'' 48 10, plan_sample_observation ''b.bin'' 16 10, plan_sample_observation ''labels.json'' 7 10,
     plan_sample_observation ''a.bin'' 48 90]"

definition plan_sample_options :: PlanOptions where
  "plan_sample_options = \<lparr>po_Now = 100, po_StableWindow = 20,
     po_Rules = \<lparr>ru_SchemaVersion = ''v1'', ru_PublisherVersion = ''p1'', ru_SuccessMarker = [], ru_PointRecordWidthBytes = 16,
       ru_Samples = [plan_sample_rule ''a'' SplitTrain, plan_sample_rule ''b'' SplitVal]\<rparr>,
     po_Previous = no_manifest\<rparr>"

lemma fresh_shards:
  "list_all2 (\<lambda>g n. sumObjectBytes (sg_objectBytes g) = Inr n) gs ns \<Longrightarrow> plan_shards [] rules gs = Inr (map2 (fresh_shard rules) gs ns)"
  by (induction rule: list_all2_induct) (simp_all add: plan_shard_iff)

lemma fresh_bytes:
  "length gs = length ns \<Longrightarrow> sum_bytes acc ns = Inr k \<Longrightarrow> added_bytes acc (map2 (fresh_shard rules) gs ns) = Inr k"
  by (induction gs ns arbitrary: acc rule: list_induct2) (auto simp: fresh_shard_def split: if_splits)

lemma plan_sample_exists: "\<exists>p. PlanDatasetPublication plan_sample_inventory plan_sample_options = Inr p"
proof -
  let ?rules = "po_Rules plan_sample_options"
  have rules: "validateRules ?rules = Inr ?rules" by code_simp
  have run: "case validateInventory plan_sample_inventory (po_Now plan_sample_options) of Inl _ \<Rightarrow> False
    | Inr obs \<Rightarrow> (case add_samples obs ?rules plan_sample_options (ru_Samples ?rules) [] [] of Inl _ \<Rightarrow> False
      | Inr (groups, objects) \<Rightarrow> map (\<lambda>g. sumObjectBytes (sg_objectBytes g)) (sort_key group_order (map (sorted_group \<circ> snd) groups)) = [Inr 55, Inr 23])"
    by code_simp
  then obtain obs groups objects where found: "validateInventory plan_sample_inventory (po_Now plan_sample_options) = Inr obs"
      "add_samples obs ?rules plan_sample_options (ru_Samples ?rules) [] [] = Inr (groups, objects)"
      "map (\<lambda>g. sumObjectBytes (sg_objectBytes g)) (sort_key group_order (map (sorted_group \<circ> snd) groups)) = map Inr [55, 23]"
    by (auto split: sum.splits)
  let ?gs = "sort_key group_order (map (sorted_group \<circ> snd) groups)"
  have sums: "list_all2 (\<lambda>g n. sumObjectBytes (sg_objectBytes g) = Inr n) ?gs [55, 23]"
    using found(3) by (simp only: list.rel_eq [symmetric] list_all2_map1 list_all2_map2)
  have "sum_bytes 0 [55, 23] = Inr 78" by code_simp
  then have "added_bytes 0 (map2 (fresh_shard ?rules) ?gs [55, 23]) = Inr 78" by (intro fresh_bytes list_all2_lengthD [OF sums])
  moreover have "planShards ?gs no_manifest ?rules = Inr (map2 (fresh_shard ?rules) ?gs [55, 23])"
    using fresh_shards [OF sums] by (simp add: planShards_def previous_shards_def no_manifest_def)
  moreover have "isZeroManifest (po_Previous plan_sample_options)" "po_Now plan_sample_options \<noteq> zero_time" "0 < po_StableWindow plan_sample_options"
      "ru_SuccessMarker ?rules = []" by code_simp+
  ultimately have "plan_run plan_sample_inventory plan_sample_options obs no_manifest groups objects (map2 (fresh_shard ?rules) ?gs [55, 23]) 78"
    using rules found(1,2) unfolding plan_run_def by simp
  then show ?thesis unfolding plan_iff by blast
qed

subsection \<open>Properties\<close>

text \<open>
  C26: A plan puts every sample of the rules into exactly one shard of its split, scene and partition, which lists its token and all of its object keys;
  a shard lists no other tokens than those of samples of its split, scene and partition; and no training shard shares a token with a validation shard.
\<close>

theorem plan_samples_partitioned:
  assumes "PlanDatasetPublication inventory options = Inr p"
  shows "(\<forall>s \<in> set (ru_Samples (po_Rules options)). \<exists>!sh. sh \<in> set (mf_Shards (plan_manifest p)) \<and>
      sh_Split sh = sr_Split s \<and> sh_Scene sh = sr_Scene s \<and> sh_Partition sh = sr_Partition s \<and>
      sr_Token s \<in> set (sh_SampleTokens sh) \<and> so_Key ` set (sr_Objects s) \<subseteq> set (sh_ObjectKeys sh)) \<and>
    (\<forall>sh \<in> set (mf_Shards (plan_manifest p)). \<forall>t \<in> set (sh_SampleTokens sh). \<exists>s \<in> set (ru_Samples (po_Rules options)).
      sr_Token s = t \<and> sr_Split s = sh_Split sh \<and> sr_Scene s = sh_Scene sh \<and> sr_Partition s = sh_Partition sh) \<and>
    (\<forall>a \<in> set (mf_Shards (plan_manifest p)). \<forall>b \<in> set (mf_Shards (plan_manifest p)).
      sh_Split a = SplitTrain \<and> sh_Split b = SplitVal \<longrightarrow> set (sh_SampleTokens a) \<inter> set (sh_SampleTokens b) = {})"
proof -
  obtain obs previous groups objects shards added where run: "plan_run inventory options obs previous groups objects shards added" "p = plan_of options objects shards added"
    using assms by (auto simp: plan_iff)
  have shards: "mf_Shards (plan_manifest p) = shards" by (simp add: run(2) plan_of_def new_manifest_def)
  have source: "\<exists>s \<in> set (ru_Samples (po_Rules options)). sr_Token s = t \<and> sr_Split s = sh_Split sh \<and> sr_Scene s = sh_Scene sh \<and> sr_Partition s = sh_Partition sh"
    if "sh \<in> set shards" "t \<in> set (sh_SampleTokens sh)" for sh t
    by (rule shard_tokens [OF run(1) that]) blast
  have "set (sh_SampleTokens a) \<inter> set (sh_SampleTokens b) = {}" if ab: "a \<in> set shards" "b \<in> set shards" "sh_Split a = SplitTrain" "sh_Split b = SplitVal" for a b
  proof -
    have "set (sh_SampleTokens sh) \<subseteq> tokens_in (sh_Split sh) (ru_Samples (po_Rules options))" if "sh \<in> set shards" for sh
      using source [OF that] by (fastforce simp: tokens_in_def)
    from this [OF ab(1)] this [OF ab(2)] show ?thesis using run_sample_ok(4) [OF run(1)] ab(3,4) by auto
  qed
  moreover have "\<exists>!sh. sh \<in> set shards \<and> sh_Split sh = sr_Split s \<and> sh_Scene sh = sr_Scene s \<and> sh_Partition sh = sr_Partition s \<and>
      sr_Token s \<in> set (sh_SampleTokens sh) \<and> so_Key ` set (sr_Objects s) \<subseteq> set (sh_ObjectKeys sh)" if s: "s \<in> set (ru_Samples (po_Rules options))" for s
    using ex1_conj [OF sample_shard(1) [OF run(1) s] sample_shard(2) [OF run(1) s]] by (simp add: conj_assoc)
  ultimately show ?thesis unfolding shards using source by simp
qed

theorem plan_samples_partitioned_witness:
  "\<exists>p. PlanDatasetPublication plan_sample_inventory plan_sample_options = Inr p \<and>
    (\<exists>!sh. sh \<in> set (mf_Shards (plan_manifest p)) \<and> sh_Split sh = SplitVal \<and> sh_Scene sh = ''scene-1'' \<and> sh_Partition sh = [] \<and>
      ''b'' \<in> set (sh_SampleTokens sh) \<and> {''b.bin'', ''labels.json''} \<subseteq> set (sh_ObjectKeys sh))"
proof -
  obtain p where p: "PlanDatasetPublication plan_sample_inventory plan_sample_options = Inr p" using plan_sample_exists by blast
  have "plan_sample_rule ''b'' SplitVal \<in> set (ru_Samples (po_Rules plan_sample_options))" by (simp add: plan_sample_options_def)
  from bspec [OF conjunct1 [OF plan_samples_partitioned [OF p]] this] p show ?thesis by (simp add: plan_sample_rule_def)
qed

text \<open>
  C25: Planning again from the same inventory and rules, with the manifest just planned as the previous one, succeeds and publishes nothing new:
  no shard is added, every shard is reused with its identity, digest and contents, nothing is added to the storage, and the manifest keeps its digest and its objects.
\<close>

theorem replan_reuses_everything:
  assumes "PlanDatasetPublication inventory options = Inr p"
  shows "\<exists>p'. PlanDatasetPublication inventory (options\<lparr>po_Previous := plan_manifest p\<rparr>) = Inr p' \<and> plan_added p' = [] \<and>
    plan_reused p' = map (\<lambda>s. s\<lparr>sh_Reused := True\<rparr>) (mf_Shards (plan_manifest p)) \<and> mf_Shards (plan_manifest p') = plan_reused p' \<and>
    mf_Digest (plan_manifest p') = mf_Digest (plan_manifest p) \<and> mf_Objects (plan_manifest p') = mf_Objects (plan_manifest p) \<and>
    dry_EstimatedAddedStorageBytes (plan_dryRun p') = 0"
proof -
  obtain obs previous groups objects shards added where run: "plan_run inventory options obs previous groups objects shards added" "p = plan_of options objects shards added"
    using assms by (auto simp: plan_iff)
  let ?options = "options\<lparr>po_Previous := plan_manifest p\<rparr>"
  have m: "plan_manifest p = new_manifest (po_Rules options) (sortObjectRefs objects) shards" by (simp add: run(2) plan_of_def)
  have "PlanDatasetPublication inventory ?options = Inr (plan_of ?options objects (map reuse shards) 0)"
    using run_again [OF run(1)] unfolding plan_iff m by blast
  moreover have "filter (\<lambda>s. \<not> sh_Reused s) (map reuse shards) = []" "filter sh_Reused (map reuse shards) = map reuse shards"
    by (auto simp: reuse_def filter_empty_conv)
  ultimately show ?thesis by (auto simp: plan_of_def m new_manifest_def digest_reuse reuse_def)
qed

theorem replan_reuses_everything_witness:
  "\<exists>p p'. PlanDatasetPublication plan_sample_inventory plan_sample_options = Inr p \<and>
    PlanDatasetPublication plan_sample_inventory (plan_sample_options\<lparr>po_Previous := plan_manifest p\<rparr>) = Inr p' \<and> plan_added p' = [] \<and>
    mf_Digest (plan_manifest p') = mf_Digest (plan_manifest p)"
proof -
  obtain p where p: "PlanDatasetPublication plan_sample_inventory plan_sample_options = Inr p" using plan_sample_exists by blast
  from replan_reuses_everything [OF p] p show ?thesis by blast
qed

text \<open>
  C27: Every object a planned manifest refers to was stable: the inventory holds an observation of its key at least the stable window old, and every
  observation of the key from then on has the size and the ETag the manifest records.
\<close>

theorem plan_objects_stable:
  assumes "PlanDatasetPublication inventory options = Inr p" "r \<in> set (mf_Objects (plan_manifest p))"
  shows "\<exists>b \<in> set inventory. io_Key b = ref_Key r \<and> io_ObservedAt b \<le> po_Now options - po_StableWindow options \<and>
    (\<forall>x \<in> set inventory. io_Key x = ref_Key r \<and> io_ObservedAt b \<le> io_ObservedAt x \<longrightarrow> io_SizeBytes x = ref_SizeBytes r \<and> io_ETag x = ref_ETag r)"
proof -
  obtain obs previous groups objects shards added where run: "plan_run inventory options obs previous groups objects shards added" "p = plan_of options objects shards added"
    using assms(1) by (auto simp: plan_iff)
  have "r \<in> set objects" using assms(2) by (simp add: run(2) plan_of_def new_manifest_def sortObjectRefs_def)
  then obtain s rule o' where s: "r = object_ref s rule o'" "stableObjectForKey obs (so_Key rule) options = Inr o'" by (rule run_ref [OF run(1)])
  have "validateInventory inventory (po_Now options) = Inr obs" using run(1) by (simp add: plan_run_def)
  from stable_spec [OF this s(2)] show ?thesis by (simp add: s(1) object_ref_def)
qed

theorem plan_objects_stable_witness:
  "\<exists>p r. PlanDatasetPublication plan_sample_inventory plan_sample_options = Inr p \<and> r \<in> set (mf_Objects (plan_manifest p)) \<and>
    (\<exists>b \<in> set plan_sample_inventory. io_Key b = ref_Key r \<and> io_ObservedAt b \<le> 80)"
proof -
  obtain p where p: "PlanDatasetPublication plan_sample_inventory plan_sample_options = Inr p" using plan_sample_exists by blast
  then obtain obs previous groups objects shards added
    where run: "plan_run plan_sample_inventory plan_sample_options obs previous groups objects shards added" "p = plan_of plan_sample_options objects shards added"
    by (auto simp: plan_iff)
  have "hd objects \<in> set objects" unfolding run_groups(2) [OF run(1)] by (simp add: plan_sample_options_def plan_sample_rule_def sample_refs_def)
  then have r: "hd objects \<in> set (mf_Objects (plan_manifest p))" by (simp add: run(2) plan_of_def new_manifest_def sortObjectRefs_def)
  have "po_Now plan_sample_options - po_StableWindow plan_sample_options = 80" by (simp add: plan_sample_options_def)
  with plan_objects_stable [OF p r] p r show ?thesis by auto
qed

text \<open>
  C28: The order in which the inventory lists its observations does not matter: a plan for one listing is the plan for every permutation of it.
\<close>

theorem plan_ignores_inventory_order:
  assumes "mset inventory' = mset inventory" "PlanDatasetPublication inventory options = Inr p"
  shows "PlanDatasetPublication inventory' options = Inr p"
proof -
  obtain obs previous groups objects shards added where run: "plan_run inventory options obs previous groups objects shards added" "p = plan_of options objects shards added"
    using assms(2) by (auto simp: plan_iff)
  then have v: "validateInventory inventory (po_Now options) = Inr obs" by (simp add: plan_run_def)
  obtain obs' where obs': "validateInventory inventory' (po_Now options) = Inr obs'" "map_of obs' = map_of obs" by (rule inventory_perm [OF assms(1) v])
  have "plan_run inventory' options obs' previous groups objects shards added"
    using run(1) obs'(1) unfolding plan_run_def obs'(2) add_samples_cong [OF obs'(2)] by simp
  then show ?thesis using run(2) unfolding plan_iff by blast
qed

theorem plan_ignores_inventory_order_witness:
  "\<exists>p. PlanDatasetPublication plan_sample_inventory plan_sample_options = Inr p \<and> PlanDatasetPublication (rev plan_sample_inventory) plan_sample_options = Inr p"
proof -
  obtain p where p: "PlanDatasetPublication plan_sample_inventory plan_sample_options = Inr p" using plan_sample_exists by blast
  have "mset (rev plan_sample_inventory) = mset plan_sample_inventory" by simp
  from plan_ignores_inventory_order [OF this p] p show ?thesis by blast
qed

end
