(* ===== verification/Spec2Isabelle.thy ===== *)
theory Spec2Isabelle
  imports Reconciler_Safety Render_Properties Render_Policies Dataset_Properties Publisher_Properties Planner_Properties
begin

text \<open>
  \<^bold>\<open>Verification library of the training platform backend\<close> (\<open>src/backend\<close>, Go).

  The platform accepts training jobs, stores them in PostgreSQL, runs them as RayJobs on Kubernetes and publishes the datasets
  they read. The parts that carry its logic are modelled here: the \<^emph>\<open>domain\<close> package (what a valid job, dataset or storage
  location is), the \<^emph>\<open>job store\<close> (\<open>repositories/jobs.go\<close>, the tables and transactions behind every job), the
  \<^emph>\<open>reconciler\<close> (\<open>k8s/reconciler.go\<close>, the control loop that moves each job through the store and the cluster), the
  \<^emph>\<open>manifests\<close> it renders, the \<^emph>\<open>dataset catalogue\<close> (datasets, versions and publication runs in the database), the
  \<^emph>\<open>publication controller\<close> that drives a run through jobs of a cluster, and the \<^emph>\<open>planner\<close> of a publication.

  \<^bold>\<open>Go.\<close> \<open>Go_Prelude\<close> holds errors as values, validators as lists of checks with early return, machine integers, the
  functions of package \<open>strings\<close>; \<open>Go_Regexp\<close>, \<open>Go_Path\<close>, \<open>Go_Url\<close>, \<open>Go_Json\<close> the parts of \<open>regexp\<close>, \<open>path\<close>,
  \<open>net/url\<close>, \<open>unicode/utf8\<close> and \<open>encoding/json\<close> the sources use; \<open>Go_Text\<close> the JSON scanner and the quoting functions,
  \<open>Go_Crypto\<close> SHA-256 and HMAC on 32-bit words. Strings are byte strings.

  \<^bold>\<open>Domain\<close> (\<open>domain/*.go\<close>). \<open>Domain_Patterns\<close>: identifiers. \<open>Job_State\<close>: the job states. \<open>Storage\<close>: storage assets, data
  spaces, locations and the mounts they resolve to. \<open>Source_Artifact\<close>: archives of user code. \<open>Training_Engine\<close>,
  \<open>Managed_Entrypoint\<close>, \<open>Resource_Limits\<close>, \<open>Training_Job\<close>: job specifications and their validation.
  \<open>Model_Runtime\<close>: the runtimes of evaluation and serving jobs. \<open>Managed_Requests\<close>, \<open>Checkpoint\<close>: requests of the attempt protocol, checkpoints. \<open>Dataset\<close>: dataset versions and
  publication partitions (over \<open>Transition_System\<close>, a locale for invariants of step relations).

  \<^bold>\<open>Job store\<close> (\<open>repositories/jobs.go\<close>). \<open>Sql_Table\<close>: tables as lists with keys, a locale for key lookup. \<open>Job_Store\<close>:
  rows, creation with idempotency key and GPU quota, reads, outbox. \<open>Attempt_Store\<close>: the managed attempt protocol:
  reservation, creation lease and fence, adoption, activation, observation, recovery, cancellation, retirement, cleanup.
  Each operation maps the database to an error or to its result and the new database: one atomic transaction.
  \<open>Attempt_Protocol\<close> is the abstract protocol as a step relation on jobs, ledger rows and fences with its invariant;
  \<open>Attempt_Refinement\<close> shows that every operation of the store is a run of it; \<open>Attempt_Properties\<close> states what follows
  along every interleaving of operations, with witnesses from the concrete run of \<open>Sample_Run\<close>.

  \<^bold>\<open>Reconciler\<close> (\<open>k8s/reconciler.go\<close>, \<open>k8s/client.go\<close>, parts of \<open>k8s/rayjob.go\<close>). \<open>Kube_Names\<close>: resource names, shell
  quoting, entrypoints, status mapping. \<open>Kube_Client\<close>: programs over the database and an arbitrary API server, which may
  answer anything and let other processes use the database during every call; the locale \<open>world_preorder\<close> carries safety
  through their combinators. \<open>Reconciler\<close>: the control loop. \<open>Sample_Cluster\<close>: two of its passes on a concrete
  cluster. \<open>Reconciler_Safety\<close>: a pass changes the database only through the store, creates only suspended and fenced
  RayJobs, queues only authorized ones and deletes only what it has identified.

  \<^bold>\<open>Manifests\<close> (\<open>k8s/rayjob.go\<close> and its helpers). \<open>Kube_Volumes\<close>: untyped Kubernetes objects, claims, volumes and mounts, with the
  locale \<open>mount_step\<close> for functions that extend a pair of mounts and volumes. \<open>Kube_Env\<close>: render options, local cache, environment,
  streaming datasets, node placement. \<open>Kube_Pod\<close>: pod templates, source materializer, cache preloader. \<open>Kube_Render\<close>: the checks
  of \<open>RenderRayJob\<close> in order and the whole rendered object; what the reconciler reads of it is what \<open>Reconciler\<close> computes.
  \<open>Render_Properties\<close>, \<open>Render_Policies\<close>: mounts are declared, GPUs are counted exactly, credentials reach only the
  materializer, the runtime environment cannot be extended by a value, dedicated nodes are exclusive, caches split exactly.
  \<open>Render_Sample\<close>: a job with its rendered object.

  \<^bold>\<open>Dataset catalogue\<close> (\<open>repositories/datasets.go\<close>, \<open>dataset_publication_runs.go\<close>, \<open>dataset_cleanup.go\<close>, \<open>dataset_purge.go\<close>).
  \<open>Dataset_Store\<close>: tables of datasets, versions and runs, visibility and management scopes, reads and updates.
  \<open>Dataset_Runs\<close>: requests, claims, progress, finalization, retry, cleanup and purge of publication runs. \<open>Dataset_Life\<close> is the
  abstract life of versions and runs as a step relation; \<open>Dataset_Refinement\<close> shows that every operation of the catalogue
  implements it; \<open>Dataset_Properties\<close> states what follows: a READY run is published, published data stays, a purge is final, a claim
  has one winner, tenants are confined, reads follow the access rule of the domain.

  \<^bold>\<open>Publication controller\<close> (\<open>datasetpublisher/controller.go\<close>). \<open>Publisher\<close>: options, requests, job specifications and the
  reconciliation of one run as a program over the catalogue, a job client and a context that may answer anything.
  \<open>Publisher_Safety\<close>: the locale \<open>publication_repository\<close> says what the controller needs of a repository and proves its safety
  from that; the catalogue is its instance. \<open>Publisher_Properties\<close>: READY is reported only for published versions, finalization needs
  the receipt of a successful job, every reconciliation ends within a budget of calls, job names identify the phase.

  \<^bold>\<open>Publication planner\<close> (\<open>datasetpublisher/planner.go\<close>, \<open>manifest.go\<close>). \<open>Planner\<close>: rules, inventories, shards, digests, the
  previous manifest and \<open>PlanDatasetPublication\<close>. \<open>Planner_Groups\<close>: what accepted rules and inventories guarantee, and the groups of
  a plan as a function of its object references. \<open>Planner_Properties\<close>: samples are partitioned into shards and training and
  validation are disjoint, the objects were stable, planning again with the manifest as the previous one reuses every shard,
  and the order of the inventory does not matter.

  \<^bold>\<open>Bounds and assumptions.\<close> Counters of the database are unbounded integers; the sources keep them in 64 bits.
  \<open>reconcileLoadedJob\<close> calls itself without a bound; the model counts nested calls down and fails at zero, and the
  safety theorems hold for every count. Polling ends after \<open>env_polls\<close> polls, retries after \<open>env_retries\<close>. What is not
  in the repository is a parameter: Kubernetes quantities, the printable runes of Unicode, the API server, the clock, SQL constraints beyond primary keys,
  the text order of the database. \<open>lawful\<close> says that other processes use the tables only through the store.

  \<^bold>\<open>Not modelled.\<close> The HTTP handlers and the submission service, the command line client, configuration, object storage, the
  service and manager around the publication controller, observability, authentication, and the auxiliary services: mostly input
  and output around external systems.
\<close>

end
